(* ===== verification/Prelude.thy ===== *)
theory Prelude
  imports Main "HOL-Library.Word" "HOL-Library.Sublist"
begin

text \<open>
  The prelude: the fact collections of the development, generic lemmas on
  lists and options the components share, Go's 64-bit \<open>int\<close> arithmetic
  and the string functions of Go's \<open>strings\<close> package that the domain
  and application layers use.

  A Go string is a byte string, modelled as the list of its bytes
  (\<^typ>\<open>string\<close> is a list of 8-bit characters).  A Go pointer that is only
  read (\<open>*string\<close>, \<open>*int\<close>) is an option.
\<close>

named_theorems dom_simps \<open>unfolding rules of the domain aggregates\<close>
named_theorems const_defs \<open>string constants of the source\<close>
named_theorems tx_simps \<open>symbolic execution of transactional code\<close>
named_theorems repo_defs \<open>repository statements\<close>
named_theorems world_simps \<open>record projections of the store\<close>

section \<open>Options, sums and lists\<close>

definition is_inr :: "'a + 'b \<Rightarrow> bool" where
  "is_inr r = (case r of Inl _ \<Rightarrow> False | Inr _ \<Rightarrow> True)"

lemma is_inr_simps [simp]:
  "is_inr (Inr x)" "\<not> is_inr (Inl e)"
  by (simp_all add: is_inr_def)

lemma is_inr_iff: "is_inr r \<longleftrightarrow> (\<exists>x. r = Inr x)"
  by (cases r) simp_all

lemma find_Some_filter:
  "find P xs = Some x \<Longrightarrow> x \<in> set xs \<and> P x"
  by (induction xs) (auto split: if_splits)

lemma map_if_id:
  "(\<And>x. x \<in> set xs \<Longrightarrow> \<not> P x) \<Longrightarrow> map (\<lambda>x. if P x then f x else x) xs = xs"
  by (induction xs) auto

lemma filter_map_if:
  assumes "\<And>x. Q (f x) = Q x"
  shows "filter Q (map (\<lambda>x. if P x then f x else x) xs)
       = map (\<lambda>x. if P x then f x else x) (filter Q xs)"
  using assms by (induction xs) auto

lemma ball_map_if:
  "(\<forall>y \<in> set (map (\<lambda>x. if P x then f x else x) xs). Q y)
     \<longleftrightarrow> (\<forall>x \<in> set xs. (P x \<longrightarrow> Q (f x)) \<and> (\<not> P x \<longrightarrow> Q x))"
  by (induction xs) simp_all

lemma map_if_keeps:
  "x \<in> set xs \<Longrightarrow> \<not> P x \<Longrightarrow> x \<in> set (map (\<lambda>x. if P x then f x else x) xs)"
  by (induction xs) auto

lemma filter_map_if_other:
  assumes "\<And>x. x \<in> set xs \<Longrightarrow> P x \<Longrightarrow> \<not> Q x" "\<And>x. Q (f x) = Q x"
  shows "filter Q (map (\<lambda>x. if P x then f x else x) xs) = filter Q xs"
  using assms(1) by (induction xs) (auto simp: assms(2))

section \<open>Go int: 64-bit two's complement\<close>

text \<open>The value a Go \<open>int\<close> expression has when the mathematical value is
  \<open>x\<close>: the sum, difference or product wraps at 64 bits.\<close>

definition i64 :: "int \<Rightarrow> int" where
  "i64 x = (x + 2 ^ 63) mod 2 ^ 64 - 2 ^ 63"

definition is_i64 :: "int \<Rightarrow> bool" where
  "is_i64 x \<longleftrightarrow> - (2 ^ 63) \<le> x \<and> x < 2 ^ 63"

lemma i64_word: "i64 x = sint (word_of_int x :: 64 word)"
  by (simp add: i64_def int_word_sint [where 'a = 64])

lemma i64_id [simp]: "is_i64 x \<Longrightarrow> i64 x = x"
  by (simp add: i64_def is_i64_def mod_pos_pos_trivial)

lemma is_i64_i64 [simp]: "is_i64 (i64 x)"
  by (simp add: i64_def is_i64_def)

lemma i64_add [simp]: "i64 (i64 a + b) = i64 (a + b)"
proof -
  have "((a + 2 ^ 63) mod 2 ^ 64 + b) mod 2 ^ 64 = (a + 2 ^ 63 + b) mod (2 ^ 64 :: int)"
    by (rule mod_add_left_eq)
  then show ?thesis by (simp add: i64_def algebra_simps)
qed

lemma i64_nonneg_sum_eq:
  assumes "0 \<le> a" "a < 2 ^ 63" "0 \<le> b" "b < 2 ^ 63" "0 \<le> i64 (a + b)"
  shows "i64 (a + b) = a + b"
proof (cases "a + b < 2 ^ 63")
  case True
  then show ?thesis using assms by (simp add: is_i64_def)
next
  case False
  then have "(a + b + 2 ^ 63) mod 2 ^ 64 = a + b + 2 ^ 63 - 2 ^ 64"
    using assms by (intro int_mod_pos_eq [of _ _ 1]) simp_all
  then show ?thesis using assms by (simp add: i64_def)
qed

section \<open>strings.TrimSpace\<close>

text \<open>\<open>strings.TrimSpace\<close> removes the leading and trailing code points with
  the Unicode \<open>White_Space\<close> property; in UTF-8 each is one of these byte
  sequences.\<close>

definition spaces :: "string list" where
  "spaces =
    [[CHR 0x09], [CHR 0x0A], [CHR 0x0B], [CHR 0x0C], [CHR 0x0D], [CHR 0x20],
     [CHR 0xC2, CHR 0x85], [CHR 0xC2, CHR 0xA0], [CHR 0xE1, CHR 0x9A, CHR 0x80],
     [CHR 0xE2, CHR 0x80, CHR 0x80], [CHR 0xE2, CHR 0x80, CHR 0x81],
     [CHR 0xE2, CHR 0x80, CHR 0x82], [CHR 0xE2, CHR 0x80, CHR 0x83],
     [CHR 0xE2, CHR 0x80, CHR 0x84], [CHR 0xE2, CHR 0x80, CHR 0x85],
     [CHR 0xE2, CHR 0x80, CHR 0x86], [CHR 0xE2, CHR 0x80, CHR 0x87],
     [CHR 0xE2, CHR 0x80, CHR 0x88], [CHR 0xE2, CHR 0x80, CHR 0x89],
     [CHR 0xE2, CHR 0x80, CHR 0x8A], [CHR 0xE2, CHR 0x80, CHR 0xA8],
     [CHR 0xE2, CHR 0x80, CHR 0xA9], [CHR 0xE2, CHR 0x80, CHR 0xAF],
     [CHR 0xE2, CHR 0x81, CHR 0x9F], [CHR 0xE3, CHR 0x80, CHR 0x80]]"

text \<open>\<open>lead ws s\<close> is the length of the first sequence of \<open>ws\<close> that \<open>s\<close> starts
  with, and 0 when there is none.\<close>

fun lead :: "string list \<Rightarrow> string \<Rightarrow> nat" where
  "lead [] s = 0"
| "lead (q # qs) s = (if q \<noteq> [] \<and> take (length q) s = q then length q else lead qs s)"

lemma lead_le: "lead qs s \<le> length s"
proof (induction qs)
  case (Cons q qs)
  have "length q \<le> length s" if "take (length q) s = q"
    using that by (metis length_take min.cobounded1)
  then show ?case using Cons by simp
qed simp

lemma lead_take: "lead qs s = 0 \<Longrightarrow> lead qs (take n s) = 0"
proof (induction qs)
  case (Cons q qs)
  have no: "take (length q) s \<noteq> q" if "q \<noteq> []"
    using Cons.prems that by (auto split: if_splits)
  have "take (length q) (take n s) \<noteq> q" if ne: "q \<noteq> []"
  proof
    assume eq: "take (length q) (take n s) = q"
    then have "length (take (length q) (take n s)) = length q" by simp
    then have "length q \<le> n" by simp
    then show False using eq no [OF ne] by (simp add: min_absorb1)
  qed
  then show ?case using Cons by (auto split: if_splits)
qed simp

function strip_lead :: "string list \<Rightarrow> string \<Rightarrow> string" where
  "strip_lead qs s = (if lead qs s = 0 then s else strip_lead qs (drop (lead qs s) s))"
  by pat_completeness auto
termination
proof (relation "measure (\<lambda>(qs, s). length s)", goal_cases)
  case (2 qs s)
  then show ?case using lead_le [of qs s] by simp
qed simp

declare strip_lead.simps [simp del]

lemma strip_lead_done: "lead qs (strip_lead qs s) = 0"
  by (induction qs s rule: strip_lead.induct) (metis strip_lead.simps)

lemma strip_lead_stop [simp]: "lead qs s = 0 \<Longrightarrow> strip_lead qs s = s"
  by (subst strip_lead.simps) simp

lemma strip_lead_idem [simp]: "strip_lead qs (strip_lead qs s) = strip_lead qs s"
  by (simp add: strip_lead_done)

lemma strip_lead_drop: "\<exists>n. strip_lead qs s = drop n s"
proof (induction qs s rule: strip_lead.induct)
  case (1 qs s)
  show ?case
  proof (cases "lead qs s = 0")
    case True
    then show ?thesis by (metis drop0 strip_lead_stop)
  next
    case False
    then show ?thesis using 1 by (metis drop_drop strip_lead.simps)
  qed
qed

definition trim_left :: "string \<Rightarrow> string" where
  "trim_left s = strip_lead spaces s"

definition trim_right :: "string \<Rightarrow> string" where
  "trim_right s = rev (strip_lead (map rev spaces) (rev s))"

definition trim :: "string \<Rightarrow> string" where
  "trim s = trim_right (trim_left s)"

lemma trim_right_take: "\<exists>n. trim_right s = take n s"
  using strip_lead_drop [of "map rev spaces" "rev s"]
  by (auto simp: trim_right_def rev_drop)

lemma trim_idem [simp]: "trim (trim s) = trim s"
proof -
  obtain n where n: "trim_right (trim_left s) = take n (trim_left s)"
    using trim_right_take by blast
  have "lead spaces (trim_left s) = 0"
    by (simp add: trim_left_def strip_lead_done)
  then have "lead spaces (trim s) = 0"
    by (simp add: trim_def n lead_take)
  then show ?thesis
    by (simp add: trim_def trim_left_def trim_right_def)
qed

lemma trim_Nil [simp]: "trim [] = []"
  by (simp add: trim_def trim_left_def trim_right_def spaces_def)

text \<open>\<open>stringValue\<close> and \<open>trimmedStringPtr\<close>, the two helpers on string pointers
  that several packages repeat (domain/lease/aggregate.go).\<close>

definition stringValue :: "string option \<Rightarrow> string" where
  "stringValue value = (case value of None \<Rightarrow> '''' | Some s \<Rightarrow> s)"

definition trimmedStringPtr :: "string option \<Rightarrow> string option" where
  "trimmedStringPtr value =
     (let trimmed = trim (stringValue value)
      in if trimmed = '''' then None else Some trimmed)"

lemma stringValue_simps [simp]:
  "stringValue None = ''''" "stringValue (Some s) = s"
  by (simp_all add: stringValue_def)

lemma trimmedStringPtr_Some:
  "trimmedStringPtr v = Some s \<Longrightarrow> s \<noteq> '''' \<and> trim s = s"
  by (auto simp: trimmedStringPtr_def Let_def split: if_splits)

section \<open>strings.ToLower\<close>

text \<open>Only comparisons of the result with ASCII words matter here.  Besides the
  ASCII capitals, two code points have an ASCII lower case: U+0130 (i) and
  U+212A (k); the other non-ASCII bytes are kept, which no ASCII word can
  equal either way.\<close>

definition lower_ascii :: "char \<Rightarrow> char" where
  "lower_ascii c =
    (let n = of_char c :: nat in if 65 \<le> n \<and> n \<le> 90 then char_of (n + 32) else c)"

fun to_lower :: "string \<Rightarrow> string" where
  "to_lower [] = []"
| "to_lower (c # cs) =
    (if c = CHR 0xC4 \<and> take 1 cs = [CHR 0xB0] then CHR ''i'' # to_lower (drop 1 cs)
     else if c = CHR 0xE2 \<and> take 2 cs = [CHR 0x84, CHR 0xAA] then CHR ''k'' # to_lower (drop 2 cs)
     else lower_ascii c # to_lower cs)"

end
