(* ===== verification/GoTime.thy ===== *)
theory GoTime
  imports Prelude
begin

text \<open>
  The part of Go's \<open>time\<close> package the lease code uses: \<open>time.Date\<close>,
  \<open>AddDate\<close>, \<open>Year\<close>, \<open>Month\<close>, \<open>Day\<close>, \<open>After\<close>, \<open>Before\<close> and \<open>IsZero\<close> over the
  proleptic Gregorian calendar.  A \<open>time.Time\<close> is its wall-clock day (day 0 is
  1 January of year 1), the nanosecond of that day and the offset of its
  location from UTC in seconds; locations have a fixed offset (UTC and
  Asia/Taipei, the two the server uses).

  The locale \<open>calendar\<close> is what the billing code relies on: the first days of
  consecutive months and the month a day falls in.
\<close>

section \<open>The interface of a calendar\<close>

locale calendar =
  fixes first :: "int \<Rightarrow> int" and month_of :: "int \<Rightarrow> int"
  assumes month_of_le: "first (month_of d) \<le> d"
    and month_of_less: "d < first (month_of d + 1)"
    and month_min: "first k + 28 \<le> first (k + 1)"
    and month_max: "first (k + 1) \<le> first k + 31"
begin

lemma first_step: "first k < first (k + 1)"
  using month_min [of k] by simp

lemma first_add: "first k + 28 * int n \<le> first (k + int n)"
proof (induction n)
  case (Suc n)
  then show ?case using month_min [of "k + int n"] by (simp add: ac_simps)
qed simp

lemma first_mono: "k \<le> l \<Longrightarrow> first k \<le> first l"
  using first_add [of k "nat (l - k)"] by simp

lemma first_less: "k < l \<Longrightarrow> first k < first l"
  using first_mono [of "k + 1" l] first_step [of k] by simp

lemma first_less_iff: "first k < first l \<longleftrightarrow> k < l"
  by (meson first_less first_mono linorder_not_le)

lemma month_ofI: "first k \<le> d \<Longrightarrow> d < first (k + 1) \<Longrightarrow> month_of d = k"
proof -
  assume k: "first k \<le> d" "d < first (k + 1)"
  have "first k < first (month_of d + 1)" using k(1) month_of_less [of d] by linarith
  moreover have "first (month_of d) < first (k + 1)" using k(2) month_of_le [of d] by linarith
  ultimately show ?thesis by (simp add: first_less_iff)
qed

lemma month_of_first [simp]: "month_of (first k) = k"
  by (rule month_ofI) (use first_step [of k] in simp_all)

lemma month_of_mono: "d \<le> e \<Longrightarrow> month_of d \<le> month_of e"
proof (rule ccontr)
  assume "d \<le> e" "\<not> month_of d \<le> month_of e"
  then have "first (month_of e + 1) \<le> first (month_of d)" by (intro first_mono) simp
  then show False using month_of_less [of e] month_of_le [of d] \<open>d \<le> e\<close> by linarith
qed

text \<open>The day of a month nearest to an anchor day: the anchor, or the last day
  of a month that is too short.\<close>

lemma clamp_in_month:
  assumes "1 \<le> a"
  shows "first k \<le> first k + min a (first (k + 1) - first k) - 1"
    and "first k + min a (first (k + 1) - first k) - 1 < first (k + 1)"
  using assms month_min [of k] by auto

lemma month_of_clamp [simp]:
  "1 \<le> a \<Longrightarrow> month_of (first k + min a (first (k + 1) - first k) - 1) = k"
  by (rule month_ofI) (use clamp_in_month [of a k] in auto)

lemma clamp_less:
  assumes "1 \<le> a" "1 \<le> b" "k < l"
  shows "first k + min a (first (k + 1) - first k) - 1
       < first l + min b (first (l + 1) - first l) - 1"
proof -
  have "first (k + 1) \<le> first l" using assms by (intro first_mono) simp
  then show ?thesis
    using clamp_in_month(2) [OF assms(1), of k] clamp_in_month(1) [OF assms(2), of l] by linarith
qed

end

section \<open>The Gregorian calendar\<close>

definition leap :: "int \<Rightarrow> int" where
  "leap y = (if y mod 4 = 0 \<and> (y mod 100 \<noteq> 0 \<or> y mod 400 = 0) then 1 else 0)"

definition days_before_year :: "int \<Rightarrow> int" where
  "days_before_year y = 365 * (y - 1) + (y - 1) div 4 - (y - 1) div 100 + (y - 1) div 400"

text \<open>Days before month \<open>m\<close> (0 is January) in a year with \<open>l\<close> leap days.\<close>

definition days_before_month :: "int \<Rightarrow> int \<Rightarrow> int" where
  "days_before_month l m =
    (if m \<le> 0 then 0 else if m = 1 then 31
     else l + (if m = 2 then 59 else if m = 3 then 90 else if m = 4 then 120
       else if m = 5 then 151 else if m = 6 then 181 else if m = 7 then 212
       else if m = 8 then 243 else if m = 9 then 273 else if m = 10 then 304
       else if m = 11 then 334 else 365))"

definition month_at :: "int \<Rightarrow> int \<Rightarrow> int" where
  "month_at l d =
    (if d < 31 then 0 else if d < 59 + l then 1 else if d < 90 + l then 2
     else if d < 120 + l then 3 else if d < 151 + l then 4 else if d < 181 + l then 5
     else if d < 212 + l then 6 else if d < 243 + l then 7 else if d < 273 + l then 8
     else if d < 304 + l then 9 else if d < 334 + l then 10 else 11)"

definition year_of :: "int \<Rightarrow> int" where
  "year_of d =
    (let y = 400 * d div 146097 + 1
     in if d < days_before_year y then y - 1
        else if days_before_year (y + 1) \<le> d then y + 1 else y)"

text \<open>Months are numbered \<open>12 * year + (month - 1)\<close>, so that Go's normalisation
  of a month outside 1..12 by \<open>time.Date\<close> is plain arithmetic.\<close>

definition mfirst :: "int \<Rightarrow> int" where
  "mfirst k = days_before_year (k div 12) + days_before_month (leap (k div 12)) (k mod 12)"

definition midx :: "int \<Rightarrow> int" where
  "midx d = 12 * year_of d + month_at (leap (year_of d)) (d - days_before_year (year_of d))"

lemma leap_cases: "leap y = 0 \<or> leap y = 1"
  by (simp add: leap_def)

lemma days_before_year_Suc: "days_before_year (y + 1) = days_before_year y + 365 + leap y"
proof -
  have step: "y div n = (y - 1) div n + (if y mod n = 0 then 1 else 0)" if "0 < n" for n :: int
  proof (cases "y mod n = 0")
    case True
    then obtain q where q: "y = n * q" by auto
    have "(n * q - 1) div n = q - 1"
      using that by (intro int_div_pos_eq [of _ _ _ "n - 1"]) (simp_all add: algebra_simps)
    then show ?thesis using that q by simp
  next
    case False
    then have "0 < y mod n" using that by (simp add: order_less_le)
    moreover have "y = n * (y div n) + y mod n" by simp
    moreover have "y mod n - 1 < n" using that pos_mod_bound [of n y] by linarith
    ultimately have "(y - 1) div n = y div n"
      using that by (intro int_div_pos_eq [of _ _ _ "y mod n - 1"]) simp_all
    then show ?thesis using False by simp
  qed
  have i: "y mod 100 = 0 \<longrightarrow> y mod 4 = 0" "y mod 400 = 0 \<longrightarrow> y mod 100 = 0"
    by presburger+
  have "leap y = (if y mod 4 = 0 then 1 else 0) - (if y mod 100 = 0 then 1 else 0)
      + (if y mod 400 = 0 then 1 else 0)"
    unfolding leap_def using i
    by (cases "y mod 4 = 0"; cases "y mod 100 = 0"; cases "y mod 400 = 0") simp_all
  have sum: "365 * y + p' - q' + r' = 365 * (y - 1) + p - q + r + 365 + (a - b + c)"
    if "p' = p + a" "q' = q + b" "r' = r + c" for p p' q q' r r' a b c :: int
    using that by simp
  have "days_before_year (y + 1) = 365 * y + y div 4 - y div 100 + y div 400"
    by (simp add: days_before_year_def)
  also have "\<dots> = days_before_year y + 365 + leap y"
    unfolding days_before_year_def \<open>leap y = _\<close> by (rule sum [OF step step step]) simp_all
  finally show ?thesis .
qed

lemma year_bounds:
  "146097 * (y - 1) - 699 \<le> 400 * days_before_year y"
  "400 * days_before_year y \<le> 146097 * (y - 1) + 396"
proof -
  have b: "n * (x div n) \<le> x \<and> x - (n - 1) \<le> n * (x div n)" if "0 < n" for n x :: int
    using that pos_mod_bound [of n x] pos_mod_sign [of n x] mult_div_mod_eq [of n x] by linarith
  show "146097 * (y - 1) - 699 \<le> 400 * days_before_year y"
    and "400 * days_before_year y \<le> 146097 * (y - 1) + 396"
    using b [of 4 "y - 1"] b [of 100 "y - 1"] b [of 400 "y - 1"]
    by (simp_all add: days_before_year_def)
qed

lemma year_of_bounds:
  "days_before_year (year_of d) \<le> d" "d < days_before_year (year_of d + 1)"
proof -
  define q where "q = 400 * d div 146097"
  have q: "146097 * q \<le> 400 * d" "400 * d < 146097 * (q + 1)"
    using mult_div_mod_eq [of 146097 "400 * d"] pos_mod_bound [of 146097 "400 * d"]
      pos_mod_sign [of 146097 "400 * d"] by (simp_all add: q_def)
  have low: "days_before_year q \<le> d"
    using year_bounds(2) [of q] q by (simp add: algebra_simps)
  have high: "d < days_before_year (q + 3)"
    using year_bounds(1) [of "q + 3"] q by simp
  show "days_before_year (year_of d) \<le> d" "d < days_before_year (year_of d + 1)"
    using low high by (auto simp: year_of_def Let_def add.commute simp flip: q_def)
qed

lemma month_at_range: "0 \<le> month_at l d" "month_at l d \<le> 11"
  by (simp_all add: month_at_def)

lemma month_at_bounds:
  assumes "0 \<le> d" "d < 365 + l" "l = 0 \<or> l = 1"
  shows "days_before_month l (month_at l d) \<le> d" "d < days_before_month l (month_at l d + 1)"
  using assms by (simp_all add: month_at_def days_before_month_def)

lemma mfirst_month:
  assumes "0 \<le> m" "m \<le> 11"
  shows "mfirst (12 * y + m) = days_before_year y + days_before_month (leap y) m"
    and "mfirst (12 * y + m + 1) = days_before_year y + days_before_month (leap y) (m + 1)"
proof -
  have dm: "(12 * y + m) div 12 = y" "(12 * y + m) mod 12 = m"
    using assms by (simp_all add: int_div_pos_eq int_mod_pos_eq)
  then show "mfirst (12 * y + m) = days_before_year y + days_before_month (leap y) m"
    by (simp add: mfirst_def)
  show "mfirst (12 * y + m + 1) = days_before_year y + days_before_month (leap y) (m + 1)"
  proof (cases "m = 11")
    case True
    then have "(12 * y + m + 1) div 12 = y + 1" "(12 * y + m + 1) mod 12 = 0" by presburger+
    then show ?thesis
      using True days_before_year_Suc [of y] by (simp add: mfirst_def days_before_month_def add.commute)
  next
    case False
    then have "(12 * y + m + 1) div 12 = y" "(12 * y + m + 1) mod 12 = m + 1"
      using assms by presburger+
    then show ?thesis by (simp add: mfirst_def)
  qed
qed

lemma month_length:
  assumes "0 \<le> m" "m \<le> 11" "l = 0 \<or> l = 1"
  shows "days_before_month l m + 28 \<le> days_before_month l (m + 1)"
    and "days_before_month l (m + 1) \<le> days_before_month l m + 31"
proof -
  have "m = 0 \<or> m = 1 \<or> m = 2 \<or> m = 3 \<or> m = 4 \<or> m = 5 \<or> m = 6 \<or> m = 7 \<or> m = 8
      \<or> m = 9 \<or> m = 10 \<or> m = 11" using assms(1,2) by presburger
  then show "days_before_month l m + 28 \<le> days_before_month l (m + 1)"
    and "days_before_month l (m + 1) \<le> days_before_month l m + 31"
    using assms(3) by (auto simp: days_before_month_def)
qed

interpretation cal: calendar mfirst midx
proof unfold_locales
  fix d k :: int
  let ?y = "year_of d"
  let ?e = "d - days_before_year ?y"
  have e: "0 \<le> ?e" "?e < 365 + leap ?y"
    using year_of_bounds [of d] days_before_year_Suc [of ?y] by simp_all
  note mb = month_at_bounds [OF e leap_cases]
  note mf = mfirst_month [OF month_at_range, of ?y "leap ?y" ?e]
  show "mfirst (midx d) \<le> d" "d < mfirst (midx d + 1)"
    using mb mf by (simp_all add: midx_def)
  have k: "k = 12 * (k div 12) + k mod 12" "0 \<le> k mod 12" "k mod 12 \<le> 11" by simp_all
  note mk = mfirst_month [OF k(2,3), of "k div 12", folded k(1)]
  show "mfirst k + 28 \<le> mfirst (k + 1)" "mfirst (k + 1) \<le> mfirst k + 31"
    using month_length [OF k(2,3) leap_cases, of "k div 12"] unfolding mk by simp_all
qed

section \<open>time.Time\<close>

record gtime =
  t_day :: int
  t_ns :: int
  t_off :: int

abbreviation ns_per_sec :: int where "ns_per_sec \<equiv> 1000000000"
abbreviation ns_per_day :: int where "ns_per_day \<equiv> 86400000000000"

text \<open>The instant, in nanoseconds since midnight UTC of day 0.\<close>

definition instant :: "gtime \<Rightarrow> int" where
  "instant t = t_day t * ns_per_day + t_ns t - t_off t * ns_per_sec"

definition time_after :: "gtime \<Rightarrow> gtime \<Rightarrow> bool" where
  "time_after a b \<longleftrightarrow> instant b < instant a"

definition time_before :: "gtime \<Rightarrow> gtime \<Rightarrow> bool" where
  "time_before a b \<longleftrightarrow> instant a < instant b"

definition time_equal :: "gtime \<Rightarrow> gtime \<Rightarrow> bool" where
  "time_equal a b \<longleftrightarrow> instant a = instant b"

definition is_zero_time :: "gtime \<Rightarrow> bool" where
  "is_zero_time t \<longleftrightarrow> instant t = 0"

definition zero_time :: gtime where
  "zero_time = \<lparr>t_day = 0, t_ns = 0, t_off = 0\<rparr>"

definition time_year :: "gtime \<Rightarrow> int" where
  "time_year t = midx (t_day t) div 12"

definition time_month :: "gtime \<Rightarrow> int" where
  "time_month t = midx (t_day t) mod 12 + 1"

definition time_dayOfMonth :: "gtime \<Rightarrow> int" where
  "time_dayOfMonth t = t_day t - mfirst (midx (t_day t)) + 1"

text \<open>\<open>time.Date(year, month, day, 0, 0, 0, 0, loc)\<close> normalises any month and
  day; \<open>go_date_at\<close> also sets the nanosecond of the day.\<close>

definition go_date_at :: "int \<Rightarrow> int \<Rightarrow> int \<Rightarrow> int \<Rightarrow> int \<Rightarrow> gtime" where
  "go_date_at year month day ns off =
     \<lparr>t_day = mfirst (12 * year + month - 1) + day - 1, t_ns = ns, t_off = off\<rparr>"

definition go_date :: "int \<Rightarrow> int \<Rightarrow> int \<Rightarrow> int \<Rightarrow> gtime" where
  "go_date year month day off = go_date_at year month day 0 off"

definition add_date :: "gtime \<Rightarrow> int \<Rightarrow> int \<Rightarrow> int \<Rightarrow> gtime" where
  "add_date t years months days =
     go_date_at (time_year t + years) (time_month t + months) (time_dayOfMonth t + days)
       (t_ns t) (t_off t)"

lemma month_year_idx: "12 * time_year t + time_month t - 1 = midx (t_day t)"
  by (simp add: time_year_def time_month_def)

lemma day_range: "1 \<le> time_dayOfMonth t" "time_dayOfMonth t \<le> 31"
  using cal.month_of_le [of "t_day t"] cal.month_of_less [of "t_day t"]
    cal.month_max [of "midx (t_day t)"] by (simp_all add: time_dayOfMonth_def)

lemma month_range: "1 \<le> time_month t" "time_month t \<le> 12"
  by (simp_all add: time_month_def)

lemma add_date_days [simp]: "add_date t 0 0 n = t\<lparr>t_day := t_day t + n\<rparr>"
  using month_year_idx [of t] by (simp add: add_date_def go_date_at_def time_dayOfMonth_def)

lemma go_date_same [simp]:
  "go_date (time_year t) (time_month t) (time_dayOfMonth t) off
     = \<lparr>t_day = t_day t, t_ns = 0, t_off = off\<rparr>"
  using month_year_idx [of t] by (simp add: go_date_def go_date_at_def time_dayOfMonth_def)

lemma go_date_add_month:
  "go_date (time_year t) (time_month t + n) d off
     = \<lparr>t_day = mfirst (midx (t_day t) + n) + d - 1, t_ns = 0, t_off = off\<rparr>"
proof -
  have "12 * time_year t + (time_month t + n) - 1 = midx (t_day t) + n"
    using month_year_idx [of t] by linarith
  then show ?thesis unfolding go_date_def go_date_at_def by metis
qed

lemma time_after_same_off:
  assumes "t_ns a = t_ns b" "t_off a = t_off b"
  shows "time_after a b \<longleftrightarrow> t_day b < t_day a"
  using assms by (simp add: time_after_def instant_def)

lemma not_time_after: "\<not> time_after a b \<longleftrightarrow> instant a \<le> instant b"
  by (auto simp: time_after_def)

text \<open>Midnight of a day in a zone: the shape every normalised date has.\<close>

definition day_at :: "int \<Rightarrow> int \<Rightarrow> gtime" where
  "day_at d off = \<lparr>t_day = d, t_ns = 0, t_off = off\<rparr>"

lemma day_at_simps [simp]:
  "t_day (day_at d off) = d" "t_ns (day_at d off) = 0" "t_off (day_at d off) = off"
  "day_at d off = day_at e off' \<longleftrightarrow> d = e \<and> off = off'"
  "day_at d off\<lparr>t_day := e\<rparr> = day_at e off"
  by (auto simp: day_at_def)

lemma add_days_day_at [simp]: "add_date (day_at d off) 0 0 n = day_at (d + n) off"
  by (simp add: day_at_def)

lemma time_after_day_at [simp]: "time_after (day_at d off) (day_at e off) \<longleftrightarrow> e < d"
  by (simp add: time_after_same_off)

lemma time_dayOfMonth_roundtrip:
  "1 \<le> m \<Longrightarrow> m \<le> 12 \<Longrightarrow> 1 \<le> d \<Longrightarrow> d \<le> 28 \<Longrightarrow>
   time_year (go_date y m d off) = y \<and> time_month (go_date y m d off) = m
   \<and> time_dayOfMonth (go_date y m d off) = d"
proof -
  assume a: "1 \<le> m" "m \<le> 12" "1 \<le> d" "d \<le> 28"
  let ?t = "go_date y m d off"
  have i: "midx (t_day ?t) = 12 * y + (m - 1)"
    using a cal.month_min [of "12 * y + m - 1"]
    by (intro cal.month_ofI) (simp_all add: go_date_def go_date_at_def algebra_simps)
  have "time_year ?t = y" "time_month ?t = m"
    using a unfolding time_year_def time_month_def i by presburger+
  moreover have "time_dayOfMonth ?t = d"
    unfolding time_dayOfMonth_def i by (simp add: go_date_def go_date_at_def algebra_simps)
  ultimately show ?thesis by simp
qed

text \<open>\<open>Time.In(loc)\<close>: the same instant on the clock of another location.\<close>

definition time_in :: "gtime \<Rightarrow> int \<Rightarrow> gtime" where
  "time_in t off =
    (let n = instant t + off * ns_per_sec
     in \<lparr>t_day = n div ns_per_day, t_ns = n mod ns_per_day, t_off = off\<rparr>)"

abbreviation time_UTC :: "gtime \<Rightarrow> gtime" where
  "time_UTC t \<equiv> time_in t 0"

lemma time_in_same_instant [simp]: "instant (time_in t off) = instant t"
  using div_mult_mod_eq [of "instant t + off * ns_per_sec" ns_per_day]
  unfolding time_in_def Let_def instant_def [of "\<lparr>t_day = _, t_ns = _, t_off = _\<rparr>"]
  by simp

lemma t_off_time_in [simp]: "t_off (time_in t off) = off"
  by (simp add: time_in_def Let_def)

lemma time_before_day_at [simp]: "time_before (day_at d off) (day_at e off) \<longleftrightarrow> d < e"
  by (simp add: time_before_def instant_def)

lemma time_equal_day_at [simp]: "time_equal (day_at d off) (day_at e off) \<longleftrightarrow> d = e"
  by (simp add: time_equal_def instant_def)

section \<open>Evaluation\<close>

text \<open>Equations by which concrete dates are evaluated: the definitions above
  with shared subterms and, for times that differ in the day only, without the
  conversion to nanoseconds.\<close>

lemma midx_code [code]:
  "midx d = (let y = year_of d in 12 * y + month_at (leap y) (d - days_before_year y))"
  by (simp add: midx_def Let_def)

lemma mfirst_code [code]:
  "mfirst k = (let y = k div 12 in days_before_year y + days_before_month (leap y) (k - 12 * y))"
  by (simp add: mfirst_def Let_def minus_mult_div_eq_mod)

lemma days_before_year_code [code]:
  "days_before_year y = (let z = y - 1; c = z div 100 in 365 * z + z div 4 - c + c div 4)"
proof -
  have "z div 400 = z div 100 div 4" for z :: int by (simp flip: zdiv_zmult2_eq)
  then show ?thesis by (simp add: days_before_year_def Let_def)
qed

lemma add_date_code [code]:
  "add_date t years months days =
     (let k = midx (t_day t)
      in \<lparr>t_day = mfirst (k + 12 * years + months) + (t_day t - mfirst k) + days,
          t_ns = t_ns t, t_off = t_off t\<rparr>)"
proof -
  have "12 * (time_year t + years) + (time_month t + months) - 1 = midx (t_day t) + 12 * years + months"
    using month_year_idx [of t] by (simp add: algebra_simps)
  then show ?thesis
    unfolding add_date_def go_date_at_def Let_def time_dayOfMonth_def by (simp only:) simp
qed

lemma time_after_code [code]:
  "time_after a b \<longleftrightarrow> (if t_ns a = t_ns b \<and> t_off a = t_off b then t_day b < t_day a
     else instant b < instant a)"
  by (simp add: time_after_def instant_def)

lemma time_before_code [code]:
  "time_before a b \<longleftrightarrow> (if t_ns a = t_ns b \<and> t_off a = t_off b then t_day a < t_day b
     else instant a < instant b)"
  by (simp add: time_before_def instant_def)

lemma time_equal_code [code]:
  "time_equal a b \<longleftrightarrow> (if t_ns a = t_ns b \<and> t_off a = t_off b then t_day a = t_day b
     else instant a = instant b)"
  by (simp add: time_equal_def instant_def)

lemma time_in_code [code]:
  "time_in t off =
    (if t_off t = off \<and> 0 \<le> t_ns t \<and> t_ns t < ns_per_day then t
     else let n = instant t + off * ns_per_sec
     in \<lparr>t_day = n div ns_per_day, t_ns = n mod ns_per_day, t_off = off\<rparr>)"
proof -
  have "(t_day t * ns_per_day + t_ns t) div ns_per_day = t_day t"
    "(t_day t * ns_per_day + t_ns t) mod ns_per_day = t_ns t" if "0 \<le> t_ns t" "t_ns t < ns_per_day"
    using that by simp_all
  then show ?thesis by (auto simp: time_in_def Let_def instant_def)
qed

end
