(* ===== verification/AppErrors.thy ===== *)
theory AppErrors
  imports Complex_Main GoTime
begin

text \<open>
  Errors as values (shared/apperr).  Go's \<open>error\<close> interface has three kinds of
  implementation in this program: the application error \<open>*apperr.Error\<close>, the
  package-level sentinels made by \<open>errors.New\<close> (compared by identity, so a
  sentinel is its qualified variable name), and errors of the SQL driver or of
  other libraries; \<open>fmt.Errorf\<close> with \<open>%w\<close> wraps one of them.
\<close>

text \<open>The values of a \<open>map[string]interface{}\<close> payload: \<open>JInt\<close> is an \<open>int\<close>,
  \<open>JNum\<close> a \<open>float64\<close>.\<close>

datatype jval =
    JStr string
  | JInt int
  | JNum rat
  | JBool bool
  | JNull
  | JList "jval list"
  | JObj "(string \<times> jval) list"

datatype gerr =
    AppErr (ae_code: string) (ae_status: int) (ae_message: string)
      (ae_details: "jval option") (ae_cause: "gerr option")
  | Sentinel string
  | Wrapped string gerr
  | DriverErr string

definition apperr_New :: "string \<Rightarrow> int \<Rightarrow> string \<Rightarrow> gerr" where
  "apperr_New code httpStatus message = AppErr code httpStatus message None None"

fun apperr_WithDetails :: "gerr \<Rightarrow> jval \<Rightarrow> gerr" where
  "apperr_WithDetails (AppErr c h m d e) details = AppErr c h m (Some details) e"
| "apperr_WithDetails e _ = e"

fun apperr_WithCause :: "gerr \<Rightarrow> gerr \<Rightarrow> gerr" where
  "apperr_WithCause (AppErr c h m d e) cause = AppErr c h m d (Some cause)"
| "apperr_WithCause e _ = e"

text \<open>\<open>(*Error).Is\<close> compares codes; \<open>(*Error).Unwrap\<close> exposes the cause.\<close>

fun apperr_Is :: "gerr \<Rightarrow> gerr \<Rightarrow> bool" where
  "apperr_Is (AppErr c _ _ _ _) (AppErr c' _ _ _ _) = (c = c')"
| "apperr_Is _ _ = False"

fun error_Unwrap :: "gerr \<Rightarrow> gerr option" where
  "error_Unwrap (AppErr _ _ _ _ cause) = cause"
| "error_Unwrap (Wrapped _ e) = Some e"
| "error_Unwrap _ = None"

text \<open>\<open>(*Error).Error\<close>: the public message of an application error.\<close>

fun apperr_Error :: "gerr \<Rightarrow> string" where
  "apperr_Error (AppErr c _ m _ _) = (if m \<noteq> '''' then m else c)"
| "apperr_Error (Sentinel n) = n"
| "apperr_Error (Wrapped m _) = m"
| "apperr_Error (DriverErr m) = m"

text \<open>\<open>errors.Is\<close>: the error itself, its \<open>Is\<close> method, then the chain below it.\<close>

fun errors_Is :: "gerr \<Rightarrow> gerr \<Rightarrow> bool" where
  "errors_Is (AppErr c h m d None) t = apperr_Is (AppErr c h m d None) t"
| "errors_Is (AppErr c h m d (Some e)) t =
     (apperr_Is (AppErr c h m d (Some e)) t \<or> errors_Is e t)"
| "errors_Is (Sentinel n) t = (t = Sentinel n)"
| "errors_Is (Wrapped m e) t = (t = Wrapped m e \<or> errors_Is e t)"
| "errors_Is (DriverErr n) t = (t = DriverErr n)"

lemma errors_Is_New [simp]: "errors_Is (AppErr c h m d None) (Sentinel n) = False"
  by simp

lemma errors_Is_refl [simp]: "errors_Is e e"
proof (cases e)
  case (AppErr c h m d x)
  then show ?thesis by (cases x) simp_all
qed simp_all

text \<open>A clone made by \<open>WithDetails\<close> or \<open>WithCause\<close> still is its sentinel.\<close>

lemma WithDetails_Is: "errors_Is (AppErr c h m d e) t \<Longrightarrow>
    errors_Is (apperr_WithDetails (AppErr c h m d e) x) t"
  by (cases e; cases t) auto

lemma WithCause_Is_self:
  "errors_Is (apperr_WithCause (AppErr c h m d e) x) (AppErr c h' m' d' e')"
  by simp

lemma WithCause_Is_cause: "errors_Is x t \<Longrightarrow>
    errors_Is (apperr_WithCause (AppErr c h m d e) x) t"
  by simp

section \<open>The common errors (shared/apperr/common.go)\<close>

definition ErrInternalServerError :: gerr where
  "ErrInternalServerError = apperr_New ''INTERNAL_SERVER_ERROR'' 500 ''Internal server error.''"

definition ErrBadRequest :: gerr where
  "ErrBadRequest = apperr_New ''BAD_REQUEST'' 400 ''Bad request.''"

definition ErrForbidden :: gerr where
  "ErrForbidden = apperr_New ''FORBIDDEN'' 403 ''Forbidden.''"

definition ErrUnauthorized :: gerr where
  "ErrUnauthorized = apperr_New ''UNAUTHORIZED'' 401 ''Unauthorized.''"

definition ErrConcurrentUpdateConflict :: gerr where
  "ErrConcurrentUpdateConflict =
     apperr_New ''CONCURRENT_UPDATE_CONFLICT'' 409 ''Concurrent update conflict.''"

definition ErrPropertyNotFound :: gerr where
  "ErrPropertyNotFound = apperr_New ''PROPERTY_NOT_FOUND'' 404 ''Property not found.''"

definition ErrRoomNotFound :: gerr where
  "ErrRoomNotFound = apperr_New ''ROOM_NOT_FOUND'' 404 ''Room not found.''"

definition ErrTenantNotFound :: gerr where
  "ErrTenantNotFound = apperr_New ''TENANT_NOT_FOUND'' 404 ''Tenant not found.''"

definition ErrLeaseNotFound :: gerr where
  "ErrLeaseNotFound = apperr_New ''LEASE_NOT_FOUND'' 404 ''Lease not found.''"

definition ErrBillNotFound :: gerr where
  "ErrBillNotFound = apperr_New ''BILL_NOT_FOUND'' 404 ''Bill not found.''"

definition ErrRepairRequestNotFound :: gerr where
  "ErrRepairRequestNotFound =
     apperr_New ''REPAIR_REQUEST_NOT_FOUND'' 404 ''Repair request not found.''"

text \<open>\<open>WithDetails(map[string]interface{}{"field": f})\<close>, the detail every
  validation error carries.\<close>

definition field_detail :: "string \<Rightarrow> jval" where
  "field_detail f = JObj [(''field'', JStr f)]"

definition internal_cause :: "gerr \<Rightarrow> gerr" where
  "internal_cause e = apperr_WithCause ErrInternalServerError e"

lemma internal_cause_code [simp]: "ae_code (internal_cause e) = ''INTERNAL_SERVER_ERROR''"
  by (simp add: internal_cause_def ErrInternalServerError_def apperr_New_def)

lemmas common_errors =
  ErrInternalServerError_def ErrBadRequest_def ErrForbidden_def ErrUnauthorized_def
  ErrConcurrentUpdateConflict_def ErrPropertyNotFound_def ErrRoomNotFound_def
  ErrTenantNotFound_def ErrLeaseNotFound_def ErrBillNotFound_def
  ErrRepairRequestNotFound_def apperr_New_def

end
