(* ===== verification/GoFloat.thy ===== *)
theory GoFloat
  imports Complex_Main "HOL-Library.Log_Nat" Prelude
begin

text \<open>
  The float64 arithmetic of the meter computation.  A finite float64 is its
  rational value; \<open>fl64\<close> rounds a rational to the nearest number with a 53-bit
  significand, ties to even.  The exponent is unbounded: the products computed
  here (a usage times a price with four decimals) are far inside the range of
  normal float64 numbers, so neither overflow nor subnormal rounding occurs.
\<close>

definition round_even :: "rat \<Rightarrow> int" where
  "round_even q =
    (let f = \<lfloor>q\<rfloor>; r = q - of_int f
     in if r < 1 / 2 then f else if 1 / 2 < r then f + 1 else if even f then f else f + 1)"

definition pow2 :: "int \<Rightarrow> rat" where
  "pow2 e = (if 0 \<le> e then 2 ^ nat e else 1 / 2 ^ nat (- e))"

text \<open>The exponent for which \<open>x / 2 ^ e\<close> lies between \<open>2 ^ 52\<close> and \<open>2 ^ 53\<close>.\<close>

definition exponent :: "rat \<Rightarrow> int" where
  "exponent x =
    (let (n, d) = quotient_of x;
         e = int (floorlog 2 (nat n)) - int (floorlog 2 (nat d)) - 53
     in if pow2 (e + 53) \<le> x then e + 1 else e)"

definition fl64 :: "rat \<Rightarrow> rat" where
  "fl64 x =
    (if x = 0 then 0
     else let e = exponent \<bar>x\<bar>
       in sgn x * of_int (round_even (\<bar>x\<bar> / pow2 e)) * pow2 e)"

text \<open>\<open>math.Round\<close>: to the nearest integer, halves away from zero.\<close>

definition math_Round :: "rat \<Rightarrow> rat" where
  "math_Round x = (if 0 \<le> x then of_int \<lfloor>x + 1 / 2\<rfloor> else - of_int \<lfloor>- x + 1 / 2\<rfloor>)"

text \<open>\<open>int(f)\<close>: truncation; outside the range of int64 Go leaves the result to
  the implementation (amd64 gives the smallest int64).\<close>

definition int_of_float :: "rat \<Rightarrow> int" where
  "int_of_float f =
    (if - (2 ^ 63) \<le> f \<and> f < 2 ^ 63 then (if 0 \<le> f then \<lfloor>f\<rfloor> else \<lceil>f\<rceil>) else - (2 ^ 63))"

lemma round_even_error: "\<bar>of_int (round_even q) - q\<bar> \<le> 1 / 2"
proof -
  have "of_int \<lfloor>q\<rfloor> \<le> q" "q < of_int \<lfloor>q\<rfloor> + 1" by linarith+
  then show ?thesis by (simp add: round_even_def Let_def)
qed

lemma round_even_int [simp]: "round_even (of_int n) = n"
  by (simp add: round_even_def)

lemma pow2_pos [simp]: "0 < pow2 e"
  by (simp add: pow2_def)

lemma pow2_add: "pow2 (a + b) = pow2 a * pow2 b"
proof -
  have "pow2 e = 2 powi e" for e
    by (simp add: pow2_def power_int_def inverse_eq_divide power_one_over)
  then show ?thesis by (simp add: power_int_add)
qed

lemma pow2_nat: "pow2 (int n) = 2 ^ n"
  by (simp add: pow2_def)

lemma exponent_low:
  assumes "0 < x"
  shows "pow2 (exponent x + 52) \<le> x"
proof -
  obtain n d where nd: "quotient_of x = (n, d)" by (cases "quotient_of x")
  have d: "0 < d" using quotient_of_denom_pos [OF nd] .
  have x: "x = of_int n / of_int d" using quotient_of_div [OF nd] .
  have n: "0 < n" using assms d unfolding x by (simp add: zero_less_divide_iff)
  let ?a = "floorlog 2 (nat n)" and ?b = "floorlog 2 (nat d)"
  let ?e = "int ?a - int ?b - 53"
  have "2 ^ (?a - 1) \<le> nat n \<and> nat n < 2 ^ ?a" "nat d < 2 ^ ?b" "0 < ?a"
    using floorlog_bounds [of "nat n" 2] floorlog_bounds [of "nat d" 2] n d
    by (simp_all add: floorlog_def)
  then have a: "2 ^ (?a - 1) \<le> n" and b: "d < 2 ^ ?b" and pos: "0 < ?a"
    by (simp_all add: nat_less_iff le_nat_iff)
  have a': "(2 :: rat) ^ (?a - 1) \<le> of_int n" and b': "of_int d \<le> (2 :: rat) ^ ?b"
    using a b by (metis of_int_le_iff of_int_numeral of_int_power,
        metis less_imp_le of_int_le_iff of_int_numeral of_int_power)
  have "pow2 (?e + 52) * 2 ^ ?b = 2 ^ (?a - 1)"
    using pow2_add [of "?e + 52" "int ?b"] pow2_nat [of "?a - 1"] pos
    by (simp add: pow2_nat of_nat_diff)
  moreover have "pow2 (?e + 52) * of_int d \<le> pow2 (?e + 52) * 2 ^ ?b"
    using b' by (simp add: mult_left_mono)
  ultimately have "pow2 (?e + 52) * of_int d \<le> of_int n" using a' by linarith
  then have low: "pow2 (?e + 52) \<le> x" using d by (simp add: x pos_le_divide_eq)
  show ?thesis
  proof (cases "pow2 (?e + 53) \<le> x")
    case True
    then show ?thesis by (simp add: exponent_def nd algebra_simps)
  next
    case False
    then show ?thesis using low by (simp add: exponent_def nd)
  qed
qed

lemma fl64_error: "\<bar>fl64 x - x\<bar> \<le> \<bar>x\<bar> / 2 ^ 53"
proof (cases "x = 0")
  case False
  let ?y = "\<bar>x\<bar>" and ?p = "pow2 (exponent \<bar>x\<bar>)"
  have y: "0 < ?y" using False by simp
  have p: "0 < ?p" by simp
  have "\<bar>of_int (round_even (?y / ?p)) - ?y / ?p\<bar> * ?p \<le> 1 / 2 * ?p"
    by (rule mult_right_mono [OF round_even_error]) (use p in linarith)
  moreover have "\<bar>of_int (round_even (?y / ?p)) - ?y / ?p\<bar> * ?p
      = \<bar>of_int (round_even (?y / ?p)) * ?p - ?y\<bar>"
  proof -
    have "?p \<noteq> 0" using p by linarith
    then have "(of_int (round_even (?y / ?p)) - ?y / ?p) * ?p = of_int (round_even (?y / ?p)) * ?p - ?y"
      by (simp add: left_diff_distrib)
    then show ?thesis using abs_mult_pos [OF less_imp_le [OF p]] by metis
  qed
  ultimately have err: "\<bar>of_int (round_even (?y / ?p)) * ?p - ?y\<bar> \<le> ?p / 2" by simp
  have "?p * 2 ^ 52 \<le> ?y"
    using exponent_low [OF y] pow2_add [of "exponent ?y" 52] pow2_nat [of 52] by simp
  then have half: "?p / 2 \<le> ?y / 2 ^ 53" by simp
  have "fl64 x - x = sgn x * (of_int (round_even (?y / ?p)) * ?p - ?y)"
  proof -
    have "x = sgn x * ?y" by (simp add: sgn_mult_abs)
    then show ?thesis using False by (simp add: fl64_def Let_def right_diff_distrib mult.assoc)
  qed
  then have "\<bar>fl64 x - x\<bar> = \<bar>of_int (round_even (?y / ?p)) * ?p - ?y\<bar>"
    using False by (simp add: abs_mult abs_sgn_eq)
  then show ?thesis using err half by linarith
qed (simp add: fl64_def)

lemma fl64_int:
  assumes "\<bar>n\<bar> < 2 ^ 53"
  shows "fl64 (of_int n) = of_int n"
proof (cases "n = 0")
  case False
  let ?e = "exponent \<bar>of_int n\<bar>"
  have "pow2 (?e + 52) \<le> \<bar>of_int n\<bar>" using False by (intro exponent_low) simp
  also have "\<dots> < 2 ^ 53" using assms by (metis of_int_abs of_int_less_iff of_int_numeral of_int_power)
  finally have lt: "pow2 (?e + 52) < 2 ^ 53" .
  have "?e \<le> 0"
  proof (rule ccontr)
    assume "\<not> ?e \<le> 0"
    then have "pow2 (?e + 52) = 2 ^ nat (?e + 52)" "53 \<le> nat (?e + 52)" by (simp_all add: pow2_def)
    then show False using lt power_increasing [of 53 "nat (?e + 52)" "2 :: rat"] by simp
  qed
  then have p: "pow2 ?e = 1 / 2 ^ nat (- ?e)" by (simp add: pow2_def)
  have "\<bar>of_int n\<bar> / pow2 ?e = (of_int (\<bar>n\<bar> * 2 ^ nat (- ?e)) :: rat)" by (simp add: p)
  then have "round_even (\<bar>of_int n\<bar> / pow2 ?e) = \<bar>n\<bar> * 2 ^ nat (- ?e)"
    by (metis round_even_int)
  then show ?thesis using False by (simp add: fl64_def Let_def p sgn_mult_abs)
qed (simp add: fl64_def)

lemma fl64_nonneg: "0 \<le> x \<Longrightarrow> 0 \<le> fl64 x"
proof -
  assume x: "0 \<le> x"
  have "\<bar>x\<bar> / 2 ^ 53 \<le> x" using x by simp
  then show "0 \<le> fl64 x" using fl64_error [of x] x by linarith
qed

lemma math_Round_error: "\<bar>math_Round x - x\<bar> \<le> 1 / 2"
proof -
  have "of_int \<lfloor>y\<rfloor> \<le> y \<and> y < of_int \<lfloor>y\<rfloor> + 1" for y :: rat by linarith
  note fl = this [of "x + 1 / 2"] this [of "- x + 1 / 2"]
  show ?thesis
  proof (cases "0 \<le> x")
    case True
    then have "math_Round x = of_int \<lfloor>x + 1 / 2\<rfloor>" by (simp add: math_Round_def)
    then show ?thesis using fl by linarith
  next
    case False
    then have "math_Round x = - of_int \<lfloor>- x + 1 / 2\<rfloor>" by (simp add: math_Round_def)
    then show ?thesis using fl by linarith
  qed
qed

lemma int_of_float_Round:
  assumes "0 \<le> x" "x < 2 ^ 62"
  shows "of_int (int_of_float (math_Round x)) = math_Round x"
proof -
  have r: "math_Round x = of_int \<lfloor>x + 1 / 2\<rfloor>" using assms by (simp add: math_Round_def)
  have n: "0 \<le> \<lfloor>x + 1 / 2\<rfloor>" using assms by simp
  have "math_Round x \<le> x + 1 / 2" using math_Round_error [of x] by linarith
  then have "math_Round x < 2 ^ 63" using assms(2) by simp
  moreover have "0 \<le> math_Round x" using n by (simp add: r)
  ultimately have "- (2 ^ 63) \<le> math_Round x" "math_Round x < 2 ^ 63" "0 \<le> math_Round x"
    by linarith+
  then show ?thesis by (simp add: int_of_float_def) (simp add: r)
qed

end
