(* ===== verification/BillDomain.thy ===== *)
theory BillDomain
  imports AppErrors GoFloat
begin

text \<open>
  The bill aggregate (domain/billing/aggregate.go): its state, which is also a
  row of the \<open>bills\<close> table, meter recording and payment, the invariant
  every bill keeps and the state machine it implements.
\<close>

section \<open>Constants and errors\<close>

definition TypeRent :: string where "TypeRent = ''rent''"
definition TypeElectricity :: string where "TypeElectricity = ''electricity''"
definition StatusPendingMeter :: string where "StatusPendingMeter = ''pending_meter''"
definition StatusPendingPayment :: string where "StatusPendingPayment = ''pending_payment''"
definition StatusPaid :: string where "StatusPaid = ''paid''"
definition StatusOverdue :: string where "StatusOverdue = ''overdue''"
definition StatusVoided :: string where "StatusVoided = ''voided''"
definition StatusWrittenOff :: string where "StatusWrittenOff = ''written_off''"

lemmas bill_consts =
  TypeRent_def TypeElectricity_def StatusPendingMeter_def StatusPendingPayment_def
  StatusPaid_def StatusOverdue_def StatusVoided_def StatusWrittenOff_def

declare bill_consts [const_defs]

definition ErrBillAlreadyPaid :: gerr where
  "ErrBillAlreadyPaid = Sentinel ''billing.ErrBillAlreadyPaid''"
definition ErrBillStatusNotPayable :: gerr where
  "ErrBillStatusNotPayable = Sentinel ''billing.ErrBillStatusNotPayable''"
definition ErrBillPaidAmountMismatch :: gerr where
  "ErrBillPaidAmountMismatch = Sentinel ''billing.ErrBillPaidAmountMismatch''"
definition ErrMeterReadingLessThanPrevious :: gerr where
  "ErrMeterReadingLessThanPrevious = Sentinel ''billing.ErrMeterReadingLessThanPrevious''"
definition ErrBillNotElectricityType :: gerr where
  "ErrBillNotElectricityType = Sentinel ''billing.ErrBillNotElectricityType''"
definition ErrBillStatusNotRecordable :: gerr where
  "ErrBillStatusNotRecordable = Sentinel ''billing.ErrBillStatusNotRecordable''"
definition ErrBillAmountMissing :: gerr where
  "ErrBillAmountMissing = Sentinel ''billing.ErrBillAmountMissing''"

lemmas bill_errors =
  ErrBillAlreadyPaid_def ErrBillStatusNotPayable_def ErrBillPaidAmountMismatch_def
  ErrMeterReadingLessThanPrevious_def ErrBillNotElectricityType_def
  ErrBillStatusNotRecordable_def ErrBillAmountMissing_def

section \<open>State and operations\<close>

record bill =
  b_ID :: string
  b_LeaseID :: string
  b_TenantID :: string
  b_RoomID :: string
  b_PropertyID :: string
  b_Type :: string
  b_Amount :: "int option"
  b_PeriodStart :: gtime
  b_PeriodEnd :: gtime
  b_DueDate :: gtime
  b_Status :: string
  b_PaymentMethod :: "string option"
  b_PaidAt :: "gtime option"
  b_PaidAmount :: "int option"
  b_MeterPreviousReading :: "int option"
  b_MeterCurrentReading :: "int option"
  b_MeterUnitPrice :: "rat option"
  b_MeterRecordedAt :: "gtime option"
  b_WrittenOffReason :: "string option"
  b_OverdueNoticeCount :: int
  b_CreatedAt :: gtime
  b_UpdatedAt :: gtime
  b_Version :: int

definition bill_Rehydrate :: "bill \<Rightarrow> bill" where
  "bill_Rehydrate state = state\<lparr>b_Type := trim (b_Type state), b_Status := trim (b_Status state)\<rparr>"

text \<open>The amount billed for a meter reading: usage times unit price in float64,
  rounded half away from zero and converted back to int.\<close>

definition meter_amount :: "int \<Rightarrow> int \<Rightarrow> rat \<Rightarrow> int" where
  "meter_amount previousReading currentReading unitPrice =
    (let usage = i64 (currentReading - previousReading)
     in int_of_float (math_Round (fl64 (fl64 (of_int usage) * unitPrice))))"

definition RecordMeter :: "bill \<Rightarrow> int \<Rightarrow> int \<Rightarrow> rat \<Rightarrow> gtime \<Rightarrow> gerr + bill" where
  "RecordMeter a previousReading currentReading unitPrice recordedAt =
    (if b_Type a \<noteq> TypeElectricity then Inl ErrBillNotElectricityType
     else if b_Status a \<noteq> StatusPendingMeter then Inl ErrBillStatusNotRecordable
     else if currentReading < previousReading then Inl ErrMeterReadingLessThanPrevious
     else Inr (a\<lparr>b_MeterPreviousReading := Some previousReading,
                 b_MeterCurrentReading := Some currentReading,
                 b_MeterUnitPrice := Some unitPrice,
                 b_MeterRecordedAt := Some recordedAt,
                 b_Amount := Some (meter_amount previousReading currentReading unitPrice),
                 b_Status := StatusPendingPayment\<rparr>))"

definition RecordPayment :: "bill \<Rightarrow> int \<Rightarrow> string \<Rightarrow> gtime \<Rightarrow> gerr + bill" where
  "RecordPayment a paidAmount paymentMethod paidAt =
    (if b_Status a = StatusPaid then Inl ErrBillAlreadyPaid
     else if b_Status a \<noteq> StatusPendingPayment \<and> b_Status a \<noteq> StatusOverdue
       then Inl ErrBillStatusNotPayable
     else case b_Amount a of
         None \<Rightarrow> Inl ErrBillAmountMissing
       | Some amount \<Rightarrow>
           if paidAmount \<noteq> amount then Inl ErrBillPaidAmountMismatch
           else Inr (a\<lparr>b_PaidAmount := Some paidAmount,
                       b_PaymentMethod := Some (trim paymentMethod),
                       b_PaidAt := Some paidAt,
                       b_Status := StatusPaid\<rparr>))"

declare RecordMeter_def [dom_simps] RecordPayment_def [dom_simps]

lemma RecordPayment_Inr:
  "RecordPayment a paid m tm = Inr b \<longleftrightarrow>
     (b_Status a = StatusPendingPayment \<or> b_Status a = StatusOverdue) \<and> b_Amount a = Some paid
     \<and> b = a\<lparr>b_PaidAmount := Some paid, b_PaymentMethod := Some (trim m), b_PaidAt := Some tm,
             b_Status := StatusPaid\<rparr>"
  by (auto simp: RecordPayment_def bill_consts split: option.splits)

lemma RecordMeter_Inr:
  "RecordMeter a p c u tm = Inr b \<longleftrightarrow>
     b_Type a = TypeElectricity \<and> b_Status a = StatusPendingMeter \<and> p \<le> c
     \<and> b = a\<lparr>b_MeterPreviousReading := Some p, b_MeterCurrentReading := Some c,
             b_MeterUnitPrice := Some u, b_MeterRecordedAt := Some tm,
             b_Amount := Some (meter_amount p c u), b_Status := StatusPendingPayment\<rparr>"
  by (auto simp: RecordMeter_def)

section \<open>The billed amount\<close>

lemma meter_amount_error:
  assumes "0 \<le> p" "p \<le> c" "c < 2 ^ 53" "0 \<le> u" "of_int (c - p) * u < 2 ^ 61"
  shows "\<bar>of_int (meter_amount p c u) - of_int (c - p) * u\<bar>
         \<le> 1 / 2 + of_int (c - p) * u / 2 ^ 53"
    and "0 \<le> meter_amount p c u"
proof -
  let ?x = "of_int (c - p) * u :: rat"
  have us: "i64 (c - p) = c - p" using assms by (simp add: is_i64_def)
  have f: "fl64 (of_int (c - p)) = of_int (c - p)" using assms by (intro fl64_int) simp
  have x0: "0 \<le> ?x" using assms by (intro mult_nonneg_nonneg) simp_all
  have e: "\<bar>fl64 ?x - ?x\<bar> \<le> ?x / 2 ^ 53" using fl64_error [of ?x] x0 by simp
  have n: "0 \<le> fl64 ?x" using x0 by (rule fl64_nonneg)
  have "y / 2 ^ 53 \<le> y" if "0 \<le> y" for y :: rat using that by simp
  from this [OF x0] have "?x / 2 ^ 53 \<le> ?x" .
  then have "fl64 ?x \<le> 2 * ?x" using e by linarith
  moreover have "2 * ?x < 2 * 2 ^ 61" using assms(5) by (rule mult_strict_left_mono) simp
  ultimately have "fl64 ?x < 2 * 2 ^ 61" by (rule order_le_less_trans)
  then have "fl64 ?x < 2 ^ 62" by simp
  then have m: "of_int (meter_amount p c u) = math_Round (fl64 ?x)"
    unfolding meter_amount_def Let_def us f by (rule int_of_float_Round [OF n])
  show "\<bar>of_int (meter_amount p c u) - ?x\<bar> \<le> 1 / 2 + ?x / 2 ^ 53"
    using math_Round_error [of "fl64 ?x"] e unfolding m by linarith
  have "0 \<le> math_Round (fl64 ?x)" using n by (simp add: math_Round_def)
  then show "0 \<le> meter_amount p c u" unfolding m [symmetric] by simp
qed

text \<open>
  The electricity amount is the rounded cost.  For readings below
  \<open>2 ^ 53\<close> and a non-negative price, a recorded meter bills a non-negative
  amount within one half plus a relative float error of \<open>2 ^ -53\<close> of the exact
  product of usage and unit price, moves the bill from \<open>pending_meter\<close> to
  \<open>pending_payment\<close>, and stores the readings and the price it was computed
  from.
\<close>

theorem RecordMeter_bills_rounded_cost:
  assumes "RecordMeter a p c u tm = Inr b"
    and "0 \<le> p" "c < 2 ^ 53" "0 \<le> u" "of_int (c - p) * u < 2 ^ 61"
  shows "\<exists>amount. b_Amount b = Some amount \<and> 0 \<le> amount
      \<and> \<bar>of_int amount - of_int (c - p) * u\<bar> \<le> 1 / 2 + of_int (c - p) * u / 2 ^ 53
      \<and> b_Status a = StatusPendingMeter \<and> b_Status b = StatusPendingPayment
      \<and> b_MeterPreviousReading b = Some p \<and> b_MeterCurrentReading b = Some c
      \<and> b_MeterUnitPrice b = Some u"
proof -
  have b: "p \<le> c" "b_Amount b = Some (meter_amount p c u)" "b_Status a = StatusPendingMeter"
    "b_Status b = StatusPendingPayment" "b_MeterPreviousReading b = Some p"
    "b_MeterCurrentReading b = Some c" "b_MeterUnitPrice b = Some u"
    using assms(1) by (auto simp: RecordMeter_Inr)
  then show ?thesis
    using meter_amount_error [OF assms(2) b(1) assms(3-5)] by blast
qed

definition sample_bill :: bill where
  "sample_bill = \<lparr>b_ID = ''b1'', b_LeaseID = ''l1'', b_TenantID = ''t1'', b_RoomID = ''r1'',
     b_PropertyID = ''p1'', b_Type = TypeElectricity, b_Amount = None,
     b_PeriodStart = go_date 2024 1 10 0, b_PeriodEnd = go_date 2024 2 29 0,
     b_DueDate = go_date 2024 1 10 0, b_Status = StatusPendingMeter, b_PaymentMethod = None,
     b_PaidAt = None, b_PaidAmount = None, b_MeterPreviousReading = None,
     b_MeterCurrentReading = None, b_MeterUnitPrice = None, b_MeterRecordedAt = None,
     b_WrittenOffReason = None, b_OverdueNoticeCount = 0, b_CreatedAt = zero_time,
     b_UpdatedAt = zero_time, b_Version = 1\<rparr>"

lemma RecordMeter_bills_rounded_cost_witness:
  "\<exists>b amount. RecordMeter sample_bill 1000 1123 (11 / 2) zero_time = Inr b
     \<and> b_Amount b = Some amount \<and> \<bar>of_int amount - 1353 / 2\<bar> \<le> 1 / 2 + 1353 / 2 / (2 :: rat) ^ 53"
proof -
  obtain b where b: "RecordMeter sample_bill 1000 1123 (11 / 2) zero_time = Inr b"
    by (simp add: RecordMeter_def sample_bill_def)
  then show ?thesis
    using RecordMeter_bills_rounded_cost [OF b] by auto
qed

section \<open>The invariant of bills\<close>

definition bill_wf :: "bill \<Rightarrow> bool" where
  "bill_wf b \<longleftrightarrow>
    (b_Type b = TypeRent \<or> b_Type b = TypeElectricity)
    \<and> (b_Status b = StatusPendingMeter \<longrightarrow> b_Type b = TypeElectricity \<and> b_Amount b = None)
    \<and> (b_Status b \<in> {StatusPendingPayment, StatusOverdue} \<longrightarrow> b_Amount b \<noteq> None)
    \<and> (b_Status b = StatusPaid \<longrightarrow> b_Amount b \<noteq> None \<and> b_PaidAmount b = b_Amount b
         \<and> b_PaidAt b \<noteq> None \<and> b_PaymentMethod b \<noteq> None)
    \<and> (b_Status b \<noteq> StatusPaid \<longrightarrow> b_PaidAmount b = None \<and> b_PaidAt b = None)
    \<and> (b_Type b = TypeElectricity \<and> b_Amount b \<noteq> None \<longrightarrow>
         (\<exists>p c u. b_MeterPreviousReading b = Some p \<and> b_MeterCurrentReading b = Some c
            \<and> b_MeterUnitPrice b = Some u \<and> p \<le> c \<and> b_Amount b = Some (meter_amount p c u)))
    \<and> b_Status b \<in> {StatusPendingMeter, StatusPendingPayment, StatusPaid, StatusOverdue,
                     StatusVoided, StatusWrittenOff}"

text \<open>What the rest of the program does to a bill: creation, the two commands of
  the aggregate and the status updates made by SQL statements of the lease and
  job repositories.\<close>

datatype bill_step =
    StepMeter int int rat gtime
  | StepPay int string gtime
  | StepOverdue
  | StepVoid
  | StepWriteOff string

fun bill_apply :: "bill \<Rightarrow> bill_step \<Rightarrow> gerr + bill" where
  "bill_apply a (StepMeter p c u tm) = RecordMeter (bill_Rehydrate a) p c u tm"
| "bill_apply a (StepPay n m tm) = RecordPayment (bill_Rehydrate a) n m tm"
| "bill_apply a StepOverdue =
     (if b_Status a = StatusPendingPayment then Inr (a\<lparr>b_Status := StatusOverdue\<rparr>)
      else Inl (Sentinel ''billing.ErrConcurrentUpdate''))"
| "bill_apply a StepVoid =
     Inr (if b_Status a \<in> {StatusPendingPayment, StatusPendingMeter}
          then a\<lparr>b_Status := StatusVoided\<rparr> else a)"
| "bill_apply a (StepWriteOff why) =
     Inr (if b_Status a \<notin> {StatusPaid, StatusVoided}
          then a\<lparr>b_Status := StatusWrittenOff, b_WrittenOffReason := Some why\<rparr> else a)"

inductive bill_reachable :: "bill \<Rightarrow> bool" where
  rent: "b_Type b = TypeRent \<Longrightarrow> b_Status b = StatusPendingPayment \<Longrightarrow> b_Amount b \<noteq> None \<Longrightarrow>
    b_PaidAmount b = None \<Longrightarrow> b_PaidAt b = None \<Longrightarrow> bill_reachable b"
| electricity: "b_Type b = TypeElectricity \<Longrightarrow> b_Status b = StatusPendingMeter \<Longrightarrow>
    b_Amount b = None \<Longrightarrow> b_PaidAmount b = None \<Longrightarrow> b_PaidAt b = None \<Longrightarrow> bill_reachable b"
| step: "bill_reachable a \<Longrightarrow> bill_apply a s = Inr b \<Longrightarrow> bill_reachable b"

lemma trim_bill_strings [simp]:
  "trim TypeRent = TypeRent" "trim TypeElectricity = TypeElectricity"
  "trim StatusPendingMeter = StatusPendingMeter" "trim StatusPendingPayment = StatusPendingPayment"
  "trim StatusPaid = StatusPaid" "trim StatusOverdue = StatusOverdue"
  "trim StatusVoided = StatusVoided" "trim StatusWrittenOff = StatusWrittenOff"
  by code_simp+

lemma trim_bill_status:
  "s \<in> {StatusPendingMeter, StatusPendingPayment, StatusPaid, StatusOverdue, StatusVoided,
        StatusWrittenOff} \<Longrightarrow> trim s = s"
  by (elim insertE emptyE) simp_all

lemma bill_wf_strings:
  assumes "bill_wf b"
  shows "trim (b_Type b) = b_Type b" "trim (b_Status b) = b_Status b"
proof -
  have "b_Type b = TypeRent \<or> b_Type b = TypeElectricity"
    using assms unfolding bill_wf_def by blast
  then show "trim (b_Type b) = b_Type b" by (elim disjE) simp_all
  show "trim (b_Status b) = b_Status b"
    using assms unfolding bill_wf_def by (intro trim_bill_status) blast
qed

lemma bill_Rehydrate_wf [simp]: "bill_wf b \<Longrightarrow> bill_Rehydrate b = b"
  using bill_wf_strings [of b] by (cases b) (simp add: bill_Rehydrate_def)

lemma bill_distinct [simp]:
  "TypeRent \<noteq> TypeElectricity" "TypeElectricity \<noteq> TypeRent"
  "StatusPaid \<noteq> StatusPendingMeter" "StatusPaid \<noteq> StatusPendingPayment"
  "StatusPaid \<noteq> StatusOverdue" "StatusPaid \<noteq> StatusVoided" "StatusPaid \<noteq> StatusWrittenOff"
  "StatusPendingMeter \<noteq> StatusPaid" "StatusPendingMeter \<noteq> StatusPendingPayment"
  "StatusPendingMeter \<noteq> StatusOverdue" "StatusPendingMeter \<noteq> StatusVoided"
  "StatusPendingMeter \<noteq> StatusWrittenOff" "StatusPendingPayment \<noteq> StatusPaid"
  "StatusPendingPayment \<noteq> StatusPendingMeter" "StatusPendingPayment \<noteq> StatusOverdue"
  "StatusPendingPayment \<noteq> StatusVoided" "StatusPendingPayment \<noteq> StatusWrittenOff"
  "StatusOverdue \<noteq> StatusPaid" "StatusOverdue \<noteq> StatusPendingMeter"
  "StatusOverdue \<noteq> StatusPendingPayment" "StatusOverdue \<noteq> StatusVoided"
  "StatusOverdue \<noteq> StatusWrittenOff" "StatusVoided \<noteq> StatusPaid"
  "StatusVoided \<noteq> StatusPendingMeter" "StatusVoided \<noteq> StatusPendingPayment"
  "StatusVoided \<noteq> StatusOverdue" "StatusVoided \<noteq> StatusWrittenOff"
  "StatusWrittenOff \<noteq> StatusPaid" "StatusWrittenOff \<noteq> StatusPendingMeter"
  "StatusWrittenOff \<noteq> StatusPendingPayment" "StatusWrittenOff \<noteq> StatusOverdue"
  "StatusWrittenOff \<noteq> StatusVoided"
  by (simp_all add: bill_consts)

lemma RecordMeter_wf:
  assumes "bill_wf a" "RecordMeter a p c u tm = Inr b"
  shows "bill_wf b"
proof -
  have st: "b_Status a = StatusPendingMeter" "p \<le> c" "b_Type a = TypeElectricity"
    and b: "b = a\<lparr>b_MeterPreviousReading := Some p, b_MeterCurrentReading := Some c,
             b_MeterUnitPrice := Some u, b_MeterRecordedAt := Some tm,
             b_Amount := Some (meter_amount p c u), b_Status := StatusPendingPayment\<rparr>"
    using assms(2) unfolding RecordMeter_Inr by simp_all
  have "b_PaidAmount a = None" "b_PaidAt a = None"
    using assms(1) st(1) by (simp_all add: bill_wf_def)
  then show ?thesis using st(2,3) by (simp add: b bill_wf_def)
qed

lemma RecordPayment_wf:
  assumes "bill_wf a" "RecordPayment a n m tm = Inr b"
  shows "bill_wf b"
proof -
  have am: "b_Amount a = Some n"
    and b: "b = a\<lparr>b_PaidAmount := Some n, b_PaymentMethod := Some (trim m), b_PaidAt := Some tm,
             b_Status := StatusPaid\<rparr>"
    using assms(2) unfolding RecordPayment_Inr by simp_all
  have "b_Type a = TypeRent \<or> b_Type a = TypeElectricity"
    "b_Type a = TypeElectricity \<longrightarrow>
       (\<exists>p c u. b_MeterPreviousReading a = Some p \<and> b_MeterCurrentReading a = Some c
            \<and> b_MeterUnitPrice a = Some u \<and> p \<le> c \<and> n = meter_amount p c u)"
    using assms(1) am by (simp_all add: bill_wf_def)
  then show ?thesis using am by (simp add: b bill_wf_def)
qed

lemma bill_wf_status:
  assumes "bill_wf a" "b_Status a \<noteq> StatusPaid" "v \<in> {StatusVoided, StatusWrittenOff}"
  shows "bill_wf (a\<lparr>b_Status := v\<rparr>)" "bill_wf (a\<lparr>b_Status := v, b_WrittenOffReason := r\<rparr>)"
proof -
  have t: "b_Type a = TypeRent \<or> b_Type a = TypeElectricity"
    and p: "b_PaidAmount a = None" "b_PaidAt a = None"
    and m: "b_Type a = TypeElectricity \<and> b_Amount a \<noteq> None \<longrightarrow>
         (\<exists>p c u. b_MeterPreviousReading a = Some p \<and> b_MeterCurrentReading a = Some c
            \<and> b_MeterUnitPrice a = Some u \<and> p \<le> c \<and> b_Amount a = Some (meter_amount p c u))"
    using assms(1,2) unfolding bill_wf_def by blast+
  have v: "v = StatusVoided \<or> v = StatusWrittenOff" using assms(3) by simp
  show "bill_wf (a\<lparr>b_Status := v\<rparr>)" using v t p m by (elim disjE) (simp_all add: bill_wf_def)
  show "bill_wf (a\<lparr>b_Status := v, b_WrittenOffReason := r\<rparr>)"
    using v t p m by (elim disjE) (simp_all add: bill_wf_def)
qed

lemma bill_wf_overdue:
  assumes "bill_wf a" "b_Status a = StatusPendingPayment"
  shows "bill_wf (a\<lparr>b_Status := StatusOverdue\<rparr>)"
  using assms by (simp add: bill_wf_def)

lemma bill_apply_wf:
  assumes "bill_wf a" "bill_apply a s = Inr b"
  shows "bill_wf b"
proof (cases s)
  case (StepMeter p c u tm)
  then show ?thesis using assms RecordMeter_wf by simp
next
  case (StepPay n m tm)
  then show ?thesis using assms RecordPayment_wf by simp
next
  case StepOverdue
  then show ?thesis using assms bill_wf_overdue by (auto split: if_splits)
next
  case StepVoid
  then show ?thesis
    using assms bill_wf_status(1) [OF assms(1), of StatusVoided]
    by (cases "b_Status a \<in> {StatusPendingPayment, StatusPendingMeter}") auto
next
  case (StepWriteOff why)
  then show ?thesis
    using assms bill_wf_status(2) [OF assms(1), of StatusWrittenOff "Some why"]
    by (cases "b_Status a \<in> {StatusPaid, StatusVoided}") auto
qed

text \<open>
  Every bill the program can reach is consistent: its status is one of
  the six of the schema; a bill waiting for its meter is an electricity bill
  without amount; a payable bill has an amount; a paid bill was paid exactly
  its amount at a recorded time and by a recorded method, and only a paid bill
  carries a payment; the amount of an electricity bill is the rounded cost of
  the readings and the unit price stored with it.
\<close>

theorem bill_reachable_invariant:
  assumes "bill_reachable b"
  shows "bill_wf b"
  using assms
proof (induction rule: bill_reachable.induct)
  case (step a s b)
  then show ?case by (auto intro: bill_apply_wf)
qed (simp_all add: bill_wf_def)

lemma bill_reachable_invariant_witness:
  "\<exists>b. bill_apply sample_bill (StepMeter 10 15 5 zero_time) = Inr b \<and> bill_wf b
     \<and> b_Amount b = Some 25"
proof -
  have r: "bill_reachable sample_bill"
    by (rule bill_reachable.electricity) (simp_all add: sample_bill_def)
  have "\<exists>b. bill_apply sample_bill (StepMeter 10 15 5 zero_time) = Inr b \<and> b_Amount b = Some 25"
  proof -
    have "meter_amount 10 15 5 = 25" by code_simp
    then show ?thesis by (simp add: sample_bill_def bill_Rehydrate_def RecordMeter_def)
  qed
  then show ?thesis
    using bill_reachable_invariant bill_reachable.step [OF r] by blast
qed

text \<open>
  Closed bills stay closed.  From a paid, voided or written-off bill no
  sequence of operations that touches its status leads to another live state:
  a paid bill stays exactly as it is, a voided bill too, and a written-off
  bill can only be written off again; metering and paying them is refused.
\<close>

theorem closed_bill_is_terminal:
  assumes "bill_wf a" "b_Status a \<in> {StatusPaid, StatusVoided, StatusWrittenOff}"
    and "bill_apply a s = Inr b"
  shows "b_Status b = b_Status a \<and> b_Amount b = b_Amount a \<and> b_PaidAmount b = b_PaidAmount a
    \<and> (b_Status a \<noteq> StatusWrittenOff \<longrightarrow> b = a)"
proof -
  have ne: "b_Status a \<noteq> StatusPendingMeter" "b_Status a \<noteq> StatusPendingPayment"
    "b_Status a \<noteq> StatusOverdue"
    using assms(2) by (elim insertE emptyE; simp)+
  show ?thesis
  proof (cases s)
    case (StepMeter p c u tm)
    then show ?thesis using assms(1,3) ne by (simp add: RecordMeter_Inr)
  next
    case (StepPay n m tm)
    then show ?thesis using assms(1,3) ne by (simp add: RecordPayment_Inr)
  next
    case StepOverdue
    then show ?thesis using assms(3) ne by simp
  next
    case StepVoid
    then show ?thesis using assms(3) ne by simp
  next
    case (StepWriteOff why)
    then show ?thesis using assms(2,3) by (elim insertE emptyE) auto
  qed
qed

lemma closed_bill_is_terminal_witness:
  "b_Status (projr (bill_apply (sample_bill\<lparr>b_Status := StatusVoided\<rparr>) (StepWriteOff ''gone'')))
     = StatusVoided"
proof -
  have w: "bill_wf (sample_bill\<lparr>b_Status := StatusVoided\<rparr>)"
    by (simp add: bill_wf_def sample_bill_def)
  show ?thesis
    using closed_bill_is_terminal [OF w, of "StepWriteOff ''gone''"] by (simp add: sample_bill_def)
qed

end
