(* ===== verification/Store.thy ===== *)
theory Store
  imports BillDomain
begin

text \<open>
  The database and the transactions on it.  A table is the list of its rows in
  insertion order, each with a flag telling whether it is soft-deleted
  (\<open>deleted_at IS NOT NULL\<close>); \<open>live\<close> is the abstraction to the rows the queries
  see.  A transaction is a function from the world to an error or a result and
  the new world.  Any SQL statement, and begin, commit and rollback, may fail:
  the world carries the schedule of these failures, so a theorem about all
  worlds is a theorem about all failures.  Transactions that touch the same
  rows are serialised by the row locks the code takes (\<open>FOR UPDATE\<close>), so a
  transaction runs from the state it starts in.
\<close>

section \<open>Tables with soft deletion\<close>

type_synonym 'r table = "('r \<times> bool) list"

definition live :: "'r table \<Rightarrow> 'r list" where
  "live t = map fst (filter (\<lambda>r. \<not> snd r) t)"

definition all_rows :: "'r table \<Rightarrow> 'r list" where
  "all_rows t = map fst t"

definition tab_insert :: "'r \<Rightarrow> 'r table \<Rightarrow> 'r table" where
  "tab_insert r t = t @ [(r, False)]"

text \<open>\<open>UPDATE ... SET f WHERE P AND deleted_at IS NULL\<close>.\<close>

definition tab_update :: "('r \<Rightarrow> bool) \<Rightarrow> ('r \<Rightarrow> 'r) \<Rightarrow> 'r table \<Rightarrow> 'r table" where
  "tab_update P f t = map (\<lambda>(r, d). if \<not> d \<and> P r then (f r, d) else (r, d)) t"

text \<open>\<open>UPDATE ... SET deleted_at = now() WHERE P AND deleted_at IS NULL\<close>.\<close>

definition tab_delete :: "('r \<Rightarrow> bool) \<Rightarrow> 'r table \<Rightarrow> 'r table" where
  "tab_delete P t = map (\<lambda>(r, d). if \<not> d \<and> P r then (r, True) else (r, d)) t"

text \<open>The interface the repositories rely on.\<close>

locale soft_table =
  fixes rows :: "'t \<Rightarrow> 'r list"
    and ins :: "'r \<Rightarrow> 't \<Rightarrow> 't"
    and upd :: "('r \<Rightarrow> bool) \<Rightarrow> ('r \<Rightarrow> 'r) \<Rightarrow> 't \<Rightarrow> 't"
    and del :: "('r \<Rightarrow> bool) \<Rightarrow> 't \<Rightarrow> 't"
  assumes rows_ins: "rows (ins r t) = rows t @ [r]"
    and rows_upd: "rows (upd P f t) = map (\<lambda>r. if P r then f r else r) (rows t)"
    and rows_del: "rows (del P t) = filter (\<lambda>r. \<not> P r) (rows t)"
begin

lemma ins_all: "(\<forall>r \<in> set (rows (ins x t)). Q r) \<longleftrightarrow> Q x \<and> (\<forall>r \<in> set (rows t). Q r)"
  by (auto simp: rows_ins)

lemma upd_all:
  assumes "\<forall>r \<in> set (rows t). Q r" "\<And>r. r \<in> set (rows t) \<Longrightarrow> Q r \<Longrightarrow> P r \<Longrightarrow> Q (f r)"
  shows "\<forall>r \<in> set (rows (upd P f t)). Q r"
  using assms by (auto simp: rows_upd)

lemma upd_filter_other:
  assumes "\<And>r. P r \<Longrightarrow> \<not> Q r" "\<And>r. P r \<Longrightarrow> \<not> Q (f r)"
  shows "filter Q (rows (upd P f t)) = filter Q (rows t)"
proof -
  have "filter Q (map (\<lambda>r. if P r then f r else r) xs) = filter Q xs" for xs
    using assms by (induction xs) auto
  then show ?thesis by (simp add: rows_upd)
qed

lemma upd_keys:
  assumes "\<And>r. key (f r) = key r"
  shows "map key (rows (upd P f t)) = map key (rows t)"
  using assms by (simp add: rows_upd)

lemma find_upd:
  assumes "\<And>r. Q (f r) = Q r"
  shows "find Q (rows (upd P f t)) = map_option (\<lambda>r. if P r then f r else r) (find Q (rows t))"
proof -
  have "find Q (map (\<lambda>r. if P r then f r else r) xs)
      = map_option (\<lambda>r. if P r then f r else r) (find Q xs)" for xs
    using assms by (induction xs) auto
  then show ?thesis by (simp add: rows_upd)
qed

end

lemma live_insert [simp]: "live (tab_insert r t) = live t @ [r]"
  by (simp add: live_def tab_insert_def)

lemma live_update [simp]: "live (tab_update P f t) = map (\<lambda>r. if P r then f r else r) (live t)"
  by (induction t) (auto simp: live_def tab_update_def split: if_splits)

lemma live_delete [simp]: "live (tab_delete P t) = filter (\<lambda>r. \<not> P r) (live t)"
  by (induction t) (auto simp: live_def tab_delete_def split: if_splits)

interpretation tab: soft_table live tab_insert tab_update tab_delete
  by unfold_locales simp_all

section \<open>The rows\<close>

text \<open>The lease row, which is the \<open>Lease\<close> struct of the repository and of the
  application layer.\<close>

record lease =
  l_ID :: string
  l_TenantID :: string
  l_PropertyID :: string
  l_RoomID :: string
  l_RentAmount :: int
  l_StartDate :: gtime
  l_EndDate :: gtime
  l_ActualMoveOutDate :: "gtime option"
  l_RentBillingCadence :: string
  l_ElectricityBillingCadence :: string
  l_StartingMeterReading :: "int option"
  l_Status :: string
  l_DepositAmount :: int
  l_DepositRefundAmount :: "int option"
  l_DepositDeductionAmount :: "int option"
  l_DepositStatus :: string
  l_DepositDeductionReason :: "string option"
  l_Notes :: "string option"
  l_TerminationReason :: "string option"
  l_SettlementDetail :: "jval option"
  l_CreatedAt :: gtime
  l_UpdatedAt :: gtime
  l_Version :: int

record tenant_row =
  tn_ID :: string
  tn_Name :: string
  tn_Email :: "string option"
  tn_Phone :: "string option"
  tn_Contacts :: "jval list"
  tn_BirthDate :: "gtime option"
  tn_NationalID :: "string option"
  tn_Address :: "string option"
  tn_Occupation :: "string option"
  tn_Status :: string
  tn_CreatedAt :: gtime
  tn_UpdatedAt :: gtime
  tn_Version :: int

record room_row =
  rm_ID :: string
  rm_PropertyID :: string
  rm_Name :: string
  rm_Status :: string
  rm_Size :: "rat option"
  rm_Floor :: "string option"
  rm_RoomType :: "string option"
  rm_Facilities :: "jval option"
  rm_DefaultRentAmount :: "int option"
  rm_Notes :: "string option"
  rm_Zone :: "string option"
  rm_CreatedAt :: gtime
  rm_UpdatedAt :: gtime

record property_row =
  pr_ID :: string
  pr_Name :: string
  pr_PropertyPublicName :: string
  pr_Subtitle :: "string option"
  pr_Address :: string
  pr_ElectricityUnitPrice :: "rat option"
  pr_DefaultElectricityBillingCadence :: string
  pr_OwnerID :: string
  pr_ContactPhone :: "string option"
  pr_ContactEmail :: "string option"
  pr_Notes :: "string option"
  pr_Facilities :: "jval option"
  pr_CreatedAt :: gtime
  pr_UpdatedAt :: gtime
  pr_Version :: int

record account_row =
  pa_ID :: string
  pa_PropertyID :: string
  pa_Version :: int

record title_row =
  ti_ID :: string
  ti_Code :: string
  ti_Name :: string
  ti_Kind :: string
  ti_IsActive :: bool

record entry_row =
  en_ID :: string
  en_PropertyAccountID :: string
  en_Category :: string
  en_TitleID :: string
  en_TitleCode :: string
  en_TitleName :: string
  en_Amount :: int
  en_Description :: "string option"
  en_SourceRef :: jval
  en_Year :: int
  en_Month :: int
  en_SourceDate :: "gtime option"
  en_RoomLabel :: "string option"
  en_TenantLabel :: "string option"
  en_PeriodLabel :: "string option"
  en_DisplayNote :: "string option"
  en_CreatedAt :: gtime

record force_termination_row =
  ft_ID :: string
  ft_LeaseID :: string
  ft_InitiatedBy :: string
  ft_Reason :: string
  ft_DepositHandling :: string
  ft_Status :: string
  ft_CreatedAt :: gtime
  ft_UpdatedAt :: gtime

record force_termination_bill_row =
  fb_ForceTerminationID :: string
  fb_BillID :: string
  fb_Status :: string
  fb_UpdatedAt :: gtime

record user_row =
  us_ID :: string
  us_Name :: "string option"
  us_Email :: string
  us_Role :: string
  us_AssignedPropertyIDs :: "string list"
  us_CreatedAt :: gtime

text \<open>The monthly snapshot of a property, its entries (\<open>monthly_snapshot_entries\<close>: the
  copied columns of an entry, with an id of its own, under the id of the snapshot) and the run of a
  scheduled job for one window.\<close>

record snapshot_row =
  sn_ID :: string
  sn_PropertyID :: string
  sn_Year :: int
  sn_Month :: int
  sn_TotalIncome :: int
  sn_TotalExpense :: int
  sn_Net :: int

record snapshot_entry_row =
  se_ID :: string
  se_SnapshotID :: string
  se_Category :: string
  se_TitleID :: string
  se_TitleCode :: string
  se_TitleName :: string
  se_SourceDate :: "gtime option"
  se_RoomLabel :: "string option"
  se_TenantLabel :: "string option"
  se_PeriodLabel :: "string option"
  se_DisplayNote :: "string option"
  se_Description :: "string option"
  se_Amount :: int
  se_SourceRef :: jval
  se_CreatedAt :: gtime

record job_run_row =
  jr_ID :: string
  jr_JobKey :: string
  jr_WindowKey :: string
  jr_RequestID :: "string option"
  jr_RetryCount :: int
  jr_Status :: string
  jr_Message :: "string option"
  jr_StartedAt :: gtime
  jr_FinishedAt :: "gtime option"
  jr_UpdatedAt :: gtime

record repair_row =
  rr_ID :: string
  rr_PropertyID :: string
  rr_RoomID :: string
  rr_SubmittedBy :: string
  rr_AssignedTo :: "string option"
  rr_Title :: string
  rr_Description :: string
  rr_Status :: string
  rr_SubmittedAt :: gtime
  rr_AssignedAt :: "gtime option"
  rr_CompletedAt :: "gtime option"
  rr_CancelReason :: "string option"
  rr_CreatedAt :: gtime
  rr_UpdatedAt :: gtime

record journal_row =
  jl_ID :: string
  jl_PropertyID :: string
  jl_RoomID :: "string option"
  jl_AuthorID :: string
  jl_Content :: string
  jl_ExpenseAmount :: "int option"
  jl_ExpenseDescription :: "string option"
  jl_TitleID :: "string option"
  jl_TitleCode :: "string option"
  jl_TitleName :: "string option"
  jl_CreatedAt :: gtime
  jl_UpdatedAt :: gtime

record db =
  db_tenants :: "tenant_row table"
  db_rooms :: "room_row table"
  db_properties :: "property_row table"
  db_leases :: "lease table"
  db_bills :: "bill table"
  db_accounts :: "account_row table"
  db_titles :: "title_row list"
  db_entries :: "entry_row list"
  db_force_terminations :: "force_termination_row list"
  db_force_termination_bills :: "force_termination_bill_row list"
  db_users :: "user_row table"
  db_snapshots :: "snapshot_row list"
  db_snapshot_entries :: "snapshot_entry_row list"
  db_job_runs :: "job_run_row list"
  db_repairs :: "repair_row table"
  db_journals :: "journal_row table"

section \<open>Domain events (domain/events)\<close>

datatype event =
    LeaseCreated (lc_LeaseID: string) (lc_RoomID: string) (lc_PropertyID: string)
      (lc_TenantID: string) (lc_StartDate: gtime) (lc_EndDate: gtime)
      (lc_RentBillingCadence: string) (lc_ElectricityBillingCadence: string) (lc_OccurredAt: gtime)
  | LeaseConditionChanged (lcc_LeaseID: string) (lcc_PropertyID: string) (lcc_RoomID: string)
      (lcc_TenantID: string) (lcc_NewRentAmount: int) (lcc_EffectiveDate: gtime) (lcc_OccurredAt: gtime)
  | LeaseTerminated (lt_LeaseID: string) (lt_RoomID: string) (lt_PropertyID: string)
      (lt_TenantID: string) (lt_Forced: bool) (lt_IsReplacement: bool) (lt_OccurredAt: gtime)
  | LeaseReplaced (lr_OldLeaseID: string) (lr_NewLeaseID: string) (lr_RoomID: string)
      (lr_PropertyID: string) (lr_TenantID: string) (lr_Reason: string) (lr_EffectiveDate: gtime)
      (lr_ChangedFields: "string list") (lr_DepositHandling: string) (lr_OccurredAt: gtime)
  | DepositRefunded (dr_LeaseID: string) (dr_PropertyID: string) (dr_Amount: int) (dr_OccurredAt: gtime)
  | DepositDeducted (dd_LeaseID: string) (dd_PropertyID: string) (dd_Amount: int)
      (dd_Reason: string) (dd_OccurredAt: gtime)
  | MeterRecorded (mr_BillID: string) (mr_PropertyID: string) (mr_RoomID: string)
      (mr_LeaseID: string) (mr_PreviousReading: int) (mr_CurrentReading: int)
      (mr_UnitPrice: rat) (mr_Amount: int) (mr_RecordedAt: gtime)
  | BillPaid (bp_BillID: string) (bp_PropertyID: string) (bp_LeaseID: string) (bp_RoomID: string)
      (bp_TenantID: string) (bp_BillType: string) (bp_Amount: int) (bp_PaidAmount: int)
      (bp_PaymentMethod: string) (bp_PaidAt: gtime)
  | PropertyCreated (pc_PropertyID: string) (pc_OccurredAt: gtime)
  | TenantInfoUpdated (tu_TenantID: string) (tu_OccurredAt: gtime)
  | RoomSetToMaintenance (rs_RoomID: string) (rs_PropertyID: string) (rs_OperatorID: string)
      (rs_OccurredAt: gtime)
  | RepairCompleted (rc_RepairRequestID: string) (rc_RoomID: string) (rc_PropertyID: string)
      (rc_OccurredAt: gtime)
  | RepairCancelled (rx_RepairRequestID: string) (rx_RoomID: string) (rx_PropertyID: string)
      (rx_OccurredAt: gtime)
  | JournalExpenseRecorded (je_JournalLogID: string) (je_PropertyID: string) (je_Amount: int)
      (je_Description: "string option") (je_OccurredAt: gtime)

text \<open>The concrete type of an event, the key of the event bus.\<close>

datatype event_type =
    T_LeaseCreated | T_LeaseConditionChanged | T_LeaseTerminated | T_LeaseReplaced
  | T_DepositRefunded | T_DepositDeducted | T_MeterRecorded | T_BillPaid
  | T_PropertyCreated | T_TenantInfoUpdated | T_RoomSetToMaintenance | T_RepairCompleted
  | T_RepairCancelled | T_JournalExpenseRecorded

fun type_of_event :: "event \<Rightarrow> event_type" where
  "type_of_event (LeaseCreated _ _ _ _ _ _ _ _ _) = T_LeaseCreated"
| "type_of_event (LeaseConditionChanged _ _ _ _ _ _ _) = T_LeaseConditionChanged"
| "type_of_event (LeaseTerminated _ _ _ _ _ _ _) = T_LeaseTerminated"
| "type_of_event (LeaseReplaced _ _ _ _ _ _ _ _ _ _) = T_LeaseReplaced"
| "type_of_event (DepositRefunded _ _ _ _) = T_DepositRefunded"
| "type_of_event (DepositDeducted _ _ _ _ _) = T_DepositDeducted"
| "type_of_event (MeterRecorded _ _ _ _ _ _ _ _ _) = T_MeterRecorded"
| "type_of_event (BillPaid _ _ _ _ _ _ _ _ _ _) = T_BillPaid"
| "type_of_event (PropertyCreated _ _) = T_PropertyCreated"
| "type_of_event (TenantInfoUpdated _ _) = T_TenantInfoUpdated"
| "type_of_event (RoomSetToMaintenance _ _ _ _) = T_RoomSetToMaintenance"
| "type_of_event (RepairCompleted _ _ _ _) = T_RepairCompleted"
| "type_of_event (RepairCancelled _ _ _ _) = T_RepairCancelled"
| "type_of_event (JournalExpenseRecorded _ _ _ _ _) = T_JournalExpenseRecorded"

section \<open>The world and transactional code\<close>

text \<open>A mail that was handed to the mail service.  It is not part of the database:
  no rollback takes it back.\<close>

record email_message =
  em_To :: "string list"
  em_Subject :: string
  em_HTML :: string
  em_Text :: string

record world =
  w_db :: db
  w_fresh :: nat
  w_faults :: "bool list"
  w_events :: "event list"
  w_mails :: "email_message list"

text \<open>What the code takes from its surroundings: the clock (it does not advance
  during one command), the generator behind \<open>gen_random_uuid()\<close> (for the one row
  of a statement, and for each row of a statement that inserts several) and the
  syntax check \<open>uuid.Parse\<close>.\<close>

record env =
  e_now :: gtime
  e_id :: "nat \<Rightarrow> string"
  e_row_id :: "nat \<Rightarrow> nat \<Rightarrow> string"
  e_uuid_ok :: "string \<Rightarrow> bool"

type_synonym 'a tx = "world \<Rightarrow> (gerr + 'a) \<times> world"

definition tx_return :: "'a \<Rightarrow> 'a tx" where
  "tx_return x w = (Inr x, w)"

definition tx_throw :: "gerr \<Rightarrow> 'a tx" where
  "tx_throw e w = (Inl e, w)"

definition tx_bind :: "'a tx \<Rightarrow> ('a \<Rightarrow> 'b tx) \<Rightarrow> 'b tx" where
  "tx_bind m f w = (case m w of (Inl e, v) \<Rightarrow> (Inl e, v) | (Inr x, v) \<Rightarrow> f x v)"

text \<open>Concrete runs are evaluated by the simplifier.  Unfolding the bind to its case
  distinction lets it run the first part before it looks at the second.\<close>

lemma tx_bind_unfold [code_unfold]:
  "tx_bind m f = (\<lambda>w. case m w of (r, v) \<Rightarrow> (case r of Inl e \<Rightarrow> (Inl e, v) | Inr x \<Rightarrow> f x v))"
  by (auto simp: tx_bind_def fun_eq_iff split: prod.splits sum.splits)

text \<open>\<open>if err != nil { return f(err) }\<close>.\<close>

definition tx_map_err :: "(gerr \<Rightarrow> gerr) \<Rightarrow> 'a tx \<Rightarrow> 'a tx" where
  "tx_map_err f m w = (case m w of (Inl e, v) \<Rightarrow> (Inl (f e), v) | (Inr x, v) \<Rightarrow> (Inr x, v))"

text \<open>\<open>if c { return e }\<close>.\<close>

definition tx_reject :: "bool \<Rightarrow> gerr \<Rightarrow> unit tx" where
  "tx_reject c e = (if c then tx_throw e else tx_return ())"

definition tx_lift :: "gerr + 'a \<Rightarrow> 'a tx" where
  "tx_lift r = (case r of Inl e \<Rightarrow> tx_throw e | Inr x \<Rightarrow> tx_return x)"

definition next_fault :: "world \<Rightarrow> bool" where
  "next_fault w = (w_faults w \<noteq> [] \<and> hd (w_faults w))"

definition tick :: "world \<Rightarrow> world" where
  "tick w = w\<lparr>w_faults := tl (w_faults w)\<rparr>"

definition driver_error :: gerr where
  "driver_error = DriverErr ''driver''"

text \<open>One SQL statement: it fails, with the context the repository adds, or
  computes its result and the new database; it may use one fresh id.\<close>

definition stmt :: "string \<Rightarrow> (nat \<Rightarrow> db \<Rightarrow> 'a \<times> db) \<Rightarrow> 'a tx" where
  "stmt ctx body w =
    (if next_fault w then (Inl (Wrapped ctx driver_error), tick w)
     else case body (w_fresh w) (w_db w) of
       (x, d) \<Rightarrow> (Inr x, (tick w)\<lparr>w_db := d, w_fresh := Suc (w_fresh w)\<rparr>))"

text \<open>\<open>EventRecorder.Record\<close>.\<close>

definition record_event :: "event \<Rightarrow> unit tx" where
  "record_event e w = (Inr (), w\<lparr>w_events := w_events w @ [e]\<rparr>)"

definition record_event_if :: "bool \<Rightarrow> event \<Rightarrow> unit tx" where
  "record_event_if c e = (if c then record_event e else tx_return ())"

subsection \<open>Symbolic execution of successful runs\<close>

lemma tx_return_ok [tx_simps]: "tx_return x w = (Inr y, v) \<longleftrightarrow> y = x \<and> v = w"
  by (auto simp: tx_return_def)

lemma tx_throw_ok [tx_simps]: "tx_throw e w = (Inr y, v) \<longleftrightarrow> False"
  by (simp add: tx_throw_def)

lemma tx_bind_ok [tx_simps]:
  "tx_bind m f w = (Inr y, v) \<longleftrightarrow> (\<exists>x u. m w = (Inr x, u) \<and> f x u = (Inr y, v))"
  by (auto simp: tx_bind_def split: prod.splits sum.splits)

lemma tx_map_err_ok [tx_simps]: "tx_map_err f m w = (Inr y, v) \<longleftrightarrow> m w = (Inr y, v)"
  by (auto simp: tx_map_err_def split: prod.splits sum.splits)

lemma tx_reject_ok [tx_simps]: "tx_reject c e w = (Inr y, v) \<longleftrightarrow> \<not> c \<and> v = w"
  by (auto simp: tx_reject_def tx_throw_def tx_return_def)

lemma tx_lift_ok [tx_simps]: "tx_lift r w = (Inr y, v) \<longleftrightarrow> r = Inr y \<and> v = w"
  by (auto simp: tx_lift_def tx_throw_def tx_return_def split: sum.splits)

lemma stmt_ok [tx_simps]:
  "stmt c b w = (Inr y, v) \<longleftrightarrow>
     \<not> next_fault w \<and> y = fst (b (w_fresh w) (w_db w))
     \<and> v = (tick w)\<lparr>w_db := snd (b (w_fresh w) (w_db w)), w_fresh := Suc (w_fresh w)\<rparr>"
  by (auto simp: stmt_def split: prod.splits)

lemma record_event_ok [tx_simps]:
  "record_event e w = (Inr y, v) \<longleftrightarrow> v = w\<lparr>w_events := w_events w @ [e]\<rparr>"
  by (auto simp: record_event_def)

lemma record_event_if_ok [tx_simps]:
  "record_event_if c e w = (Inr y, v) \<longleftrightarrow>
     v = (if c then w\<lparr>w_events := w_events w @ [e]\<rparr> else w)"
  by (auto simp: record_event_if_def record_event_def tx_return_def)

lemma tick_simps [simp]:
  "w_db (tick w) = w_db w" "w_fresh (tick w) = w_fresh w" "w_events (tick w) = w_events w"
  "w_mails (tick w) = w_mails w"
  by (simp_all add: tick_def)

text \<open>Runs without failures, for concrete evaluations.\<close>

lemma no_fault [simp]: "w_faults w = [] \<Longrightarrow> \<not> next_fault w"
  by (simp add: next_fault_def)

section \<open>Transactions (platform/database/txrunner)\<close>

fun publish_all :: "(event \<Rightarrow> unit tx) \<Rightarrow> event list \<Rightarrow> unit tx" where
  "publish_all publish [] = tx_return ()"
| "publish_all publish (e # es) =
     tx_bind (tx_map_err (Wrapped ''publish committed event'') (publish e))
       (\<lambda>_. publish_all publish es)"

definition WithinTransaction :: "(event \<Rightarrow> unit tx) \<Rightarrow> 'a tx \<Rightarrow> 'a tx" where
  "WithinTransaction publish fn w =
    (if next_fault w then (Inl (Wrapped ''begin transaction'' driver_error), tick w)
     else case fn ((tick w)\<lparr>w_events := []\<rparr>) of
       (Inl e, v) \<Rightarrow>
         (Inl (if next_fault v then Wrapped ''rollback transaction after error'' e else e),
          (tick v)\<lparr>w_db := w_db w, w_events := w_events w\<rparr>)
     | (Inr x, v) \<Rightarrow>
         if next_fault v
         then (Inl (Wrapped ''commit transaction'' driver_error),
               (tick v)\<lparr>w_db := w_db w, w_events := w_events w\<rparr>)
         else (case publish_all publish (w_events v) ((tick v)\<lparr>w_events := w_events w\<rparr>) of
             (Inl e, u) \<Rightarrow> (Inl e, u)
           | (Inr _, u) \<Rightarrow> (Inr x, u)))"

text \<open>\<open>NoopPublisher.Publish\<close>, the publisher of a runner made with none.\<close>

definition NoopPublish :: "event \<Rightarrow> unit tx" where
  "NoopPublish e = tx_return ()"

lemma publish_all_Noop [simp]: "publish_all NoopPublish es = tx_return ()"
  by (induction es)
     (auto simp: NoopPublish_def tx_bind_def tx_map_err_def tx_return_def fun_eq_iff)

lemma WithinTransaction_ok [tx_simps]:
  "WithinTransaction publish fn w = (Inr x, u) \<longleftrightarrow>
     (\<exists>v. \<not> next_fault w \<and> fn ((tick w)\<lparr>w_events := []\<rparr>) = (Inr x, v) \<and> \<not> next_fault v
        \<and> publish_all publish (w_events v) ((tick v)\<lparr>w_events := w_events w\<rparr>) = (Inr (), u))"
  by (auto simp: WithinTransaction_def split: prod.splits sum.splits if_splits)

text \<open>A delivery: each event handled in turn, from the world the one before left.\<close>

inductive delivers :: "(event \<Rightarrow> unit tx) \<Rightarrow> event list \<Rightarrow> world \<Rightarrow> world \<Rightarrow> bool" for publish where
  all_delivered: "delivers publish [] w w"
| deliver: "publish e w = (Inr (), v) \<Longrightarrow> delivers publish es v u \<Longrightarrow> delivers publish (e # es) w u"

lemma publish_all_delivers:
  assumes "publish_all publish es w = (r, u)"
  shows "\<exists>sent rest v. es = sent @ rest \<and> delivers publish sent w v
     \<and> (rest = [] \<and> r = Inr () \<and> u = v
        \<or> (\<exists>e es' err. rest = e # es' \<and> publish e v = (Inl err, u)
             \<and> r = Inl (Wrapped ''publish committed event'' err)))"
  using assms
proof (induction es arbitrary: w)
  case Nil
  then show ?case by (auto simp: tx_return_def intro: all_delivered)
next
  case (Cons e es)
  obtain q v where q: "publish e w = (q, v)" by force
  show ?case
  proof (cases q)
    case (Inl err)
    then show ?thesis using Cons.prems q
      by (intro exI [of _ "[]"] exI [of _ "e # es"] exI [of _ w])
        (auto simp: tx_bind_def tx_map_err_def intro: all_delivered)
  next
    case (Inr x)
    then have rest: "publish_all publish es v = (r, u)"
      using Cons.prems q by (simp add: tx_bind_def tx_map_err_def)
    obtain sent rest v' where s: "es = sent @ rest" "delivers publish sent v v'"
      "rest = [] \<and> r = Inr () \<and> u = v'
        \<or> (\<exists>e es' err. rest = e # es' \<and> publish e v' = (Inl err, u)
             \<and> r = Inl (Wrapped ''publish committed event'' err))"
      using Cons.IH [OF rest] by blast
    have "delivers publish (e # sent) w v'" using q Inr s(2) by (auto intro: deliver)
    then show ?thesis using s(1,3) by (metis append_Cons)
  qed
qed

text \<open>
  C16.  A transaction is atomic and publishes only what it committed.  When the
  body fails, or begin or commit fails, the database and the recorder are
  exactly as before, and no event is published: the outcome is the same
  whatever the publisher would do.  Otherwise the subscribers start from the
  database the body left (and the mails it sent); the events the body recorded
  are delivered in the order they were recorded, each from the world the one
  before left, up to the first that fails; the caller gets the body's result
  when all are delivered and the error of that subscriber otherwise.
\<close>

theorem WithinTransaction_atomic:
  "(\<exists>e u. (\<forall>publish'. WithinTransaction publish' fn w = (Inl e, u))
        \<and> w_db u = w_db w \<and> w_events u = w_events w
        \<and> (next_fault w \<and> w_mails u = w_mails w
           \<or> (\<exists>e' v. fn ((tick w)\<lparr>w_events := []\<rparr>) = (Inl e', v) \<and> errors_Is e e' \<and> w_mails u = w_mails v)
           \<or> (\<exists>x v. fn ((tick w)\<lparr>w_events := []\<rparr>) = (Inr x, v) \<and> next_fault v \<and> w_mails u = w_mails v)))
   \<or> (\<exists>x v start sent rest u. fn ((tick w)\<lparr>w_events := []\<rparr>) = (Inr x, v) \<and> \<not> next_fault w \<and> \<not> next_fault v
        \<and> w_db start = w_db v \<and> w_mails start = w_mails v \<and> w_events start = w_events w
        \<and> w_events v = sent @ rest \<and> delivers publish sent start u
        \<and> (rest = [] \<and> WithinTransaction publish fn w = (Inr x, u)
           \<or> (\<exists>e es err u'. rest = e # es \<and> publish e u = (Inl err, u')
                \<and> WithinTransaction publish fn w = (Inl (Wrapped ''publish committed event'' err), u'))))"
proof (cases "next_fault w")
  case True
  then show ?thesis by (simp add: WithinTransaction_def)
next
  case no: False
  obtain r v where r: "fn ((tick w)\<lparr>w_events := []\<rparr>) = (r, v)" by force
  show ?thesis
  proof (cases r)
    case (Inl e)
    then have "WithinTransaction publish' fn w
        = (Inl (if next_fault v then Wrapped ''rollback transaction after error'' e else e),
           (tick v)\<lparr>w_db := w_db w, w_events := w_events w\<rparr>)" for publish'
      using no r by (simp add: WithinTransaction_def)
    then show ?thesis using r Inl by fastforce
  next
    case (Inr x)
    show ?thesis
    proof (cases "next_fault v")
      case True
      then have "WithinTransaction publish' fn w = (Inl (Wrapped ''commit transaction'' driver_error),
           (tick v)\<lparr>w_db := w_db w, w_events := w_events w\<rparr>)" for publish'
        using no r Inr by (simp add: WithinTransaction_def)
      then show ?thesis using r Inr True by fastforce
    next
      case False
      let ?start = "(tick v)\<lparr>w_events := w_events w\<rparr>"
      obtain q u where q: "publish_all publish (w_events v) ?start = (q, u)" by force
      have run: "WithinTransaction publish fn w = (case q of Inl e \<Rightarrow> (Inl e, u) | Inr _ \<Rightarrow> (Inr x, u))"
        using no r Inr False q by (simp add: WithinTransaction_def)
      obtain sent rest v' where s: "w_events v = sent @ rest" "delivers publish sent ?start v'"
        "rest = [] \<and> q = Inr () \<and> u = v'
          \<or> (\<exists>e es' err. rest = e # es' \<and> publish e v' = (Inl err, u)
               \<and> q = Inl (Wrapped ''publish committed event'' err))"
        using publish_all_delivers [OF q] by blast
      have "rest = [] \<and> WithinTransaction publish fn w = (Inr x, v')
         \<or> (\<exists>e es err u'. rest = e # es \<and> publish e v' = (Inl err, u')
              \<and> WithinTransaction publish fn w = (Inl (Wrapped ''publish committed event'' err), u'))"
        using s(3) run by auto
      moreover have "fn ((tick w)\<lparr>w_events := []\<rparr>) = (Inr x, v)" using r Inr by simp
      moreover have "w_db ?start = w_db v" "w_mails ?start = w_mails v" "w_events ?start = w_events w" by simp_all
      ultimately show ?thesis using no False s(1,2) by blast
    qed
  qed
qed

section \<open>The event bus (platform/eventbus)\<close>

type_synonym handler = "event \<Rightarrow> unit tx"
type_synonym bus = "event_type \<Rightarrow> handler list"

definition bus_New :: bus where
  "bus_New = (\<lambda>_. [])"

definition bus_Subscribe :: "bus \<Rightarrow> event_type \<Rightarrow> handler \<Rightarrow> bus" where
  "bus_Subscribe bus eventType handler = bus(eventType := bus eventType @ [handler])"

fun run_handlers :: "handler list \<Rightarrow> event \<Rightarrow> unit tx" where
  "run_handlers [] e = tx_return ()"
| "run_handlers (h # hs) e =
     tx_bind (tx_map_err (Wrapped ''publish event to handler'') (h e)) (\<lambda>_. run_handlers hs e)"

definition bus_Publish :: "bus \<Rightarrow> event \<Rightarrow> unit tx" where
  "bus_Publish bus event = run_handlers (bus (type_of_event event)) event"

lemma run_handlers_append:
  "run_handlers (hs @ hs') e = tx_bind (run_handlers hs e) (\<lambda>_. run_handlers hs' e)"
  by (induction hs) (auto simp: tx_bind_def tx_return_def fun_eq_iff split: prod.splits sum.splits)

text \<open>
  The bus delivers in subscription order to the subscribers of the event's
  own type, and stops at the first failure: publishing after one more
  subscription is publishing before it and then, only if that succeeded,
  running the new handler; a subscription for another type changes nothing.
\<close>

theorem bus_delivers_in_order:
  "bus_Publish (bus_Subscribe bus T h) e =
     (if type_of_event e = T
      then tx_bind (bus_Publish bus e)
             (\<lambda>_. tx_map_err (Wrapped ''publish event to handler'') (h e))
      else bus_Publish bus e)"
proof -
  have "tx_bind m (\<lambda>_. tx_return ()) = m" for m :: "unit tx"
    by (auto simp: tx_bind_def tx_return_def fun_eq_iff split: prod.splits sum.splits)
  then show ?thesis by (simp add: bus_Publish_def bus_Subscribe_def run_handlers_append)
qed

end
