(* ===== verification/LeaseDomain.thy ===== *)
theory LeaseDomain
  imports AppErrors
begin

text \<open>
  The lease aggregate (domain/lease/aggregate.go, domain/lease/errors.go):
  normalisation of a snapshot, the commands on it, each a function from the
  snapshot to an error or the new snapshot, and the abstract life cycle it
  implements.  Statuses and cadences are strings, as in the source.
\<close>

section \<open>Constants and errors\<close>

definition StatusActive :: string where "StatusActive = ''active''"
definition StatusExpired :: string where "StatusExpired = ''expired''"
definition StatusTerminated :: string where "StatusTerminated = ''terminated''"
definition StatusForceTerminated :: string where "StatusForceTerminated = ''force_terminated''"
definition DepositStatusHeld :: string where "DepositStatusHeld = ''held''"
definition DepositStatusSettled :: string where "DepositStatusSettled = ''settled''"
definition DepositStatusWrittenOff :: string where "DepositStatusWrittenOff = ''written_off''"
definition BillingCadenceMonthly :: string where "BillingCadenceMonthly = ''monthly''"
definition BillingCadenceBimonthly :: string where "BillingCadenceBimonthly = ''bimonthly''"
definition BillingCadenceQuarterly :: string where "BillingCadenceQuarterly = ''quarterly''"
definition BillingCadenceSemiannual :: string where "BillingCadenceSemiannual = ''semiannual''"
definition BillingCadenceAnnual :: string where "BillingCadenceAnnual = ''annual''"
definition ForceTerminationDepositWriteOff :: string where
  "ForceTerminationDepositWriteOff = ''write_off''"
definition ForceTerminationDepositKeepHeld :: string where
  "ForceTerminationDepositKeepHeld = ''keep_held''"

lemmas lease_consts =
  StatusActive_def StatusExpired_def StatusTerminated_def StatusForceTerminated_def
  DepositStatusHeld_def DepositStatusSettled_def DepositStatusWrittenOff_def
  BillingCadenceMonthly_def BillingCadenceBimonthly_def BillingCadenceQuarterly_def
  BillingCadenceSemiannual_def BillingCadenceAnnual_def
  ForceTerminationDepositWriteOff_def ForceTerminationDepositKeepHeld_def

declare lease_consts [const_defs]

definition ErrInvalidDateRange :: gerr where
  "ErrInvalidDateRange = Sentinel ''lease.ErrInvalidDateRange''"
definition ErrRentAmountNonPositive :: gerr where
  "ErrRentAmountNonPositive = Sentinel ''lease.ErrRentAmountNonPositive''"
definition ErrDepositNegative :: gerr where
  "ErrDepositNegative = Sentinel ''lease.ErrDepositNegative''"
definition ErrInvalidElectricityBillingCadence :: gerr where
  "ErrInvalidElectricityBillingCadence = Sentinel ''lease.ErrInvalidElectricityBillingCadence''"
definition ErrInvalidRentBillingCadence :: gerr where
  "ErrInvalidRentBillingCadence = Sentinel ''lease.ErrInvalidRentBillingCadence''"
definition ErrInvalidBillingAnchor :: gerr where
  "ErrInvalidBillingAnchor = Sentinel ''lease.ErrInvalidBillingAnchor''"
definition ErrDepositReasonRequired :: gerr where
  "ErrDepositReasonRequired = Sentinel ''lease.ErrDepositReasonRequired''"
definition ErrDepositSettlementSum :: gerr where
  "ErrDepositSettlementSum = Sentinel ''lease.ErrDepositSettlementSum''"
definition ErrSettlementNegative :: gerr where
  "ErrSettlementNegative = Sentinel ''lease.ErrSettlementNegative''"
definition ErrDepositNotHeld :: gerr where
  "ErrDepositNotHeld = Sentinel ''lease.ErrDepositNotHeld''"
definition ErrLeaseNotActive :: gerr where
  "ErrLeaseNotActive = Sentinel ''lease.ErrLeaseNotActive''"
definition ErrTerminationReasonRequired :: gerr where
  "ErrTerminationReasonRequired = Sentinel ''lease.ErrTerminationReasonRequired''"
definition ErrInvalidForceTerminationDepositHandling :: gerr where
  "ErrInvalidForceTerminationDepositHandling =
     Sentinel ''lease.ErrInvalidForceTerminationDepositHandling''"

lemmas lease_errors =
  ErrInvalidDateRange_def ErrRentAmountNonPositive_def ErrDepositNegative_def
  ErrInvalidElectricityBillingCadence_def ErrInvalidRentBillingCadence_def
  ErrInvalidBillingAnchor_def ErrDepositReasonRequired_def ErrDepositSettlementSum_def
  ErrSettlementNegative_def ErrDepositNotHeld_def ErrLeaseNotActive_def
  ErrTerminationReasonRequired_def ErrInvalidForceTerminationDepositHandling_def

section \<open>State and operations\<close>

record lease_state =
  ls_ID :: string
  ls_TenantID :: string
  ls_RoomID :: string
  ls_PropertyID :: string
  ls_RentAmount :: int
  ls_StartDate :: gtime
  ls_EndDate :: gtime
  ls_RentBillingCadence :: string
  ls_ElectricityBillingCadence :: string
  ls_Status :: string
  ls_DepositAmount :: int
  ls_DepositRefundAmount :: "int option"
  ls_DepositDeductionAmount :: "int option"
  ls_DepositStatus :: string
  ls_DepositDeductionReason :: "string option"
  ls_Version :: int

definition isTerminableStatus :: "string \<Rightarrow> bool" where
  "isTerminableStatus status = (status = StatusActive \<or> status = StatusExpired)"

definition isValidElectricityCadence :: "string \<Rightarrow> bool" where
  "isValidElectricityCadence cadence =
     (cadence = BillingCadenceMonthly \<or> cadence = BillingCadenceBimonthly)"

definition isValidRentCadence :: "string \<Rightarrow> bool" where
  "isValidRentCadence cadence =
     (cadence = BillingCadenceMonthly \<or> cadence = BillingCadenceQuarterly
      \<or> cadence = BillingCadenceSemiannual \<or> cadence = BillingCadenceAnnual)"

definition normalizeState :: "lease_state \<Rightarrow> bool \<Rightarrow> gerr + lease_state" where
  "normalizeState state0 creating =
    (let state1 = state0\<lparr>ls_TenantID := trim (ls_TenantID state0),
                         ls_RoomID := trim (ls_RoomID state0),
                         ls_PropertyID := trim (ls_PropertyID state0),
                         ls_RentBillingCadence := trim (ls_RentBillingCadence state0),
                         ls_ElectricityBillingCadence := trim (ls_ElectricityBillingCadence state0)\<rparr>;
         state = (if ls_RentBillingCadence state1 = ''''
                  then state1\<lparr>ls_RentBillingCadence := BillingCadenceMonthly\<rparr> else state1)
     in if time_after (ls_StartDate state) (ls_EndDate state) then Inl ErrInvalidDateRange
        else if ls_RentAmount state \<le> 0 then Inl ErrRentAmountNonPositive
        else if ls_DepositAmount state < 0 then Inl ErrDepositNegative
        else if \<not> isValidRentCadence (ls_RentBillingCadence state)
          then Inl ErrInvalidRentBillingCadence
        else if \<not> isValidElectricityCadence (ls_ElectricityBillingCadence state)
          then Inl ErrInvalidElectricityBillingCadence
        else Inr (if creating then
            state\<lparr>ls_Status := (if ls_Status state = '''' then StatusActive else ls_Status state),
                  ls_DepositStatus :=
                    (if ls_DepositStatus state = '''' then DepositStatusHeld
                     else ls_DepositStatus state)\<rparr>
          else state))"

definition lease_New :: "lease_state \<Rightarrow> gerr + lease_state" where
  "lease_New state = normalizeState state True"

definition lease_Rehydrate :: "lease_state \<Rightarrow> gerr + lease_state" where
  "lease_Rehydrate state = normalizeState state False"

definition ChangeRent :: "lease_state \<Rightarrow> int \<Rightarrow> gerr + lease_state" where
  "ChangeRent a rentAmount =
    (if ls_Status a \<noteq> StatusActive then Inl ErrLeaseNotActive
     else if rentAmount \<le> 0 then Inl ErrRentAmountNonPositive
     else Inr (a\<lparr>ls_RentAmount := rentAmount\<rparr>))"

definition SettleDeposit :: "lease_state \<Rightarrow> int \<Rightarrow> int \<Rightarrow> string option \<Rightarrow> gerr + lease_state" where
  "SettleDeposit a refundAmount deductionAmount deductionReason =
    (if ls_DepositStatus a \<noteq> DepositStatusHeld then Inl ErrDepositNotHeld
     else if refundAmount < 0 \<or> deductionAmount < 0 then Inl ErrSettlementNegative
     else if deductionAmount > 0 \<and> trim (stringValue deductionReason) = ''''
       then Inl ErrDepositReasonRequired
     else if i64 (refundAmount + deductionAmount) \<noteq> ls_DepositAmount a
       then Inl ErrDepositSettlementSum
     else Inr (a\<lparr>ls_DepositRefundAmount := Some refundAmount,
                 ls_DepositDeductionAmount := Some deductionAmount,
                 ls_DepositDeductionReason :=
                   (if deductionAmount > 0 then trimmedStringPtr deductionReason else None),
                 ls_DepositStatus := DepositStatusSettled\<rparr>))"

definition Terminate :: "lease_state \<Rightarrow> gerr + lease_state" where
  "Terminate a =
    (if \<not> isTerminableStatus (ls_Status a) then Inl ErrLeaseNotActive
     else Inr (a\<lparr>ls_Status := StatusTerminated\<rparr>))"

definition ForceTerminate :: "lease_state \<Rightarrow> string \<Rightarrow> string \<Rightarrow> gerr + lease_state" where
  "ForceTerminate a reason depositHandling =
    (if \<not> isTerminableStatus (ls_Status a) then Inl ErrLeaseNotActive
     else if trim reason = '''' then Inl ErrTerminationReasonRequired
     else let handling = trim depositHandling
       in if handling = ForceTerminationDepositWriteOff
          then Inr (a\<lparr>ls_DepositStatus := DepositStatusWrittenOff,
                      ls_Status := StatusForceTerminated\<rparr>)
          else if handling = ForceTerminationDepositKeepHeld
          then Inr (a\<lparr>ls_Status := StatusForceTerminated\<rparr>)
          else Inl ErrInvalidForceTerminationDepositHandling)"

declare isTerminableStatus_def [dom_simps] isValidElectricityCadence_def [dom_simps]
  isValidRentCadence_def [dom_simps] ChangeRent_def [dom_simps] SettleDeposit_def [dom_simps]
  Terminate_def [dom_simps] ForceTerminate_def [dom_simps]

section \<open>The normalised aggregate\<close>

text \<open>What every aggregate built by \<open>New\<close> or \<open>Rehydrate\<close> satisfies.\<close>

definition lease_wf :: "lease_state \<Rightarrow> bool" where
  "lease_wf a \<longleftrightarrow>
     trim (ls_TenantID a) = ls_TenantID a \<and> trim (ls_RoomID a) = ls_RoomID a
     \<and> trim (ls_PropertyID a) = ls_PropertyID a
     \<and> \<not> time_after (ls_StartDate a) (ls_EndDate a)
     \<and> 0 < ls_RentAmount a \<and> 0 \<le> ls_DepositAmount a
     \<and> isValidRentCadence (ls_RentBillingCadence a)
     \<and> isValidElectricityCadence (ls_ElectricityBillingCadence a)"

lemma trim_cadence [simp]:
  "isValidRentCadence c \<Longrightarrow> trim c = c" "isValidElectricityCadence c \<Longrightarrow> trim c = c"
proof -
  have "trim ''monthly'' = ''monthly''" "trim ''quarterly'' = ''quarterly''"
    "trim ''semiannual'' = ''semiannual''" "trim ''annual'' = ''annual''"
    "trim ''bimonthly'' = ''bimonthly''"
    by code_simp+
  then show "isValidRentCadence c \<Longrightarrow> trim c = c" "isValidElectricityCadence c \<Longrightarrow> trim c = c"
    by (auto simp: isValidRentCadence_def isValidElectricityCadence_def lease_consts)
qed

lemma normalizeState_wf: "normalizeState s c = Inr a \<Longrightarrow> lease_wf a"
  by (auto simp: normalizeState_def Let_def lease_wf_def split: if_splits)

lemma rent_cadence_ne: "isValidRentCadence c \<Longrightarrow> c \<noteq> ''''"
  by (auto simp: isValidRentCadence_def lease_consts)

lemma normalizeState_id:
  "lease_wf a \<Longrightarrow> ls_Status a \<noteq> '''' \<Longrightarrow> ls_DepositStatus a \<noteq> '''' \<Longrightarrow> normalizeState a c = Inr a"
  by (cases a) (simp add: normalizeState_def Let_def lease_wf_def rent_cadence_ne)

lemma Rehydrate_id: "lease_wf a \<Longrightarrow> lease_Rehydrate a = Inr a"
  by (cases a) (simp add: lease_Rehydrate_def normalizeState_def Let_def lease_wf_def rent_cadence_ne)

lemma Rehydrate_Inr:
  assumes "lease_Rehydrate s = Inr a"
  shows "ls_ID a = ls_ID s" "ls_RentAmount a = ls_RentAmount s" "ls_Status a = ls_Status s"
    "ls_DepositStatus a = ls_DepositStatus s" "ls_DepositAmount a = ls_DepositAmount s"
    "ls_StartDate a = ls_StartDate s" "ls_EndDate a = ls_EndDate s"
    "ls_PropertyID a = trim (ls_PropertyID s)" "lease_wf a"
  using assms normalizeState_wf [of s False a]
  by (auto simp: lease_Rehydrate_def normalizeState_def Let_def split: if_splits)

section \<open>The commands as a step relation\<close>

datatype lease_cmd =
    CmdChangeRent int
  | CmdSettleDeposit int int "string option"
  | CmdTerminate
  | CmdForceTerminate string string

fun lease_apply :: "lease_state \<Rightarrow> lease_cmd \<Rightarrow> gerr + lease_state" where
  "lease_apply a (CmdChangeRent r) = ChangeRent a r"
| "lease_apply a (CmdSettleDeposit r d why) = SettleDeposit a r d why"
| "lease_apply a CmdTerminate = Terminate a"
| "lease_apply a (CmdForceTerminate why h) = ForceTerminate a why h"

text \<open>The amounts of a command come from Go \<open>int\<close> variables.\<close>

fun cmd_i64 :: "lease_cmd \<Rightarrow> bool" where
  "cmd_i64 (CmdChangeRent r) = is_i64 r"
| "cmd_i64 (CmdSettleDeposit r d why) = (is_i64 r \<and> is_i64 d)"
| "cmd_i64 c = True"

text \<open>The leases the program can produce: created with blank statuses and no
  settlement, changed by successful commands, marked as expired by the daily job
  (an active lease whose last day is over, platform/database/jobs), and stored: a
  write gives the row a new version, and a lease that ended takes the day it ended
  on as its end date.\<close>

inductive lease_reachable :: "lease_state \<Rightarrow> bool" where
  created: "ls_Status s = '''' \<Longrightarrow> ls_DepositStatus s = '''' \<Longrightarrow> ls_DepositRefundAmount s = None \<Longrightarrow>
    ls_DepositDeductionAmount s = None \<Longrightarrow> lease_New s = Inr a \<Longrightarrow> lease_reachable a"
| command: "lease_reachable a \<Longrightarrow> cmd_i64 c \<Longrightarrow> lease_apply a c = Inr b \<Longrightarrow> lease_reachable b"
| expired: "lease_reachable a \<Longrightarrow> ls_Status a = StatusActive \<Longrightarrow> t_day (ls_EndDate a) < t_day (today :: gtime) \<Longrightarrow>
    lease_reachable (a\<lparr>ls_Status := StatusExpired\<rparr>)"
| stored: "lease_reachable a \<Longrightarrow> lease_reachable (a\<lparr>ls_Version := v\<rparr>)"
| ended: "lease_reachable a \<Longrightarrow> ls_Status a \<in> {StatusTerminated, StatusForceTerminated} \<Longrightarrow>
    lease_reachable (a\<lparr>ls_EndDate := t\<rparr>)"

section \<open>Settling a deposit\<close>

lemma SettleDeposit_Inr:
  assumes "SettleDeposit a r d why = Inr b"
  shows "ls_DepositStatus a = DepositStatusHeld" "0 \<le> r" "0 \<le> d"
    "i64 (r + d) = ls_DepositAmount a"
    "b = a\<lparr>ls_DepositRefundAmount := Some r, ls_DepositDeductionAmount := Some d,
           ls_DepositDeductionReason := (if d > 0 then trimmedStringPtr why else None),
           ls_DepositStatus := DepositStatusSettled\<rparr>"
    "d > 0 \<Longrightarrow> trim (stringValue why) \<noteq> ''''"
  using assms by (auto simp: SettleDeposit_def split: if_splits)

lemma settle_sum:
  assumes "is_i64 r" "is_i64 d" "0 \<le> r" "0 \<le> d" "i64 (r + d) = dep" "0 \<le> dep"
  shows "r + d = dep"
  using i64_nonneg_sum_eq [of r d] assms by (simp add: is_i64_def)

text \<open>
  C21.  Settling a deposit conserves it.  Over 64-bit amounts \<open>SettleDeposit\<close>
  succeeds exactly when the deposit is held, both parts are non-negative, a
  deduction has a non-blank reason, and the parts add up to the deposit as
  mathematical integers: the wrap-around of Go's addition cannot make a wrong
  settlement pass.  A success records both parts, the trimmed reason of a
  deduction only, and marks the deposit settled; nothing else changes.
\<close>

theorem SettleDeposit_conserves:
  assumes "is_i64 r" "is_i64 d" "0 \<le> ls_DepositAmount a" "is_i64 (ls_DepositAmount a)"
  shows "SettleDeposit a r d why = Inr b \<longleftrightarrow>
     ls_DepositStatus a = DepositStatusHeld \<and> 0 \<le> r \<and> 0 \<le> d
     \<and> r + d = ls_DepositAmount a \<and> (0 < d \<longrightarrow> trim (stringValue why) \<noteq> '''')
     \<and> b = a\<lparr>ls_DepositRefundAmount := Some r, ls_DepositDeductionAmount := Some d,
           ls_DepositDeductionReason :=
             (if 0 < d then Some (trim (stringValue why)) else None),
           ls_DepositStatus := DepositStatusSettled\<rparr>"
    (is "?L \<longleftrightarrow> ?R")
proof
  assume l: ?L
  note f = SettleDeposit_Inr [OF l]
  have "r + d = ls_DepositAmount a"
    using settle_sum [OF assms(1,2) f(2,3,4) assms(3)] .
  then show ?R using f by (auto simp: trimmedStringPtr_def Let_def)
next
  assume r: ?R
  then have "i64 (r + d) = ls_DepositAmount a" using assms(4) by simp
  then show ?L using r by (auto simp: SettleDeposit_def trimmedStringPtr_def Let_def)
qed

text \<open>A lease for the concrete instances: 10 January to 9 July of year 2024,
  rent 12000, deposit 24000.\<close>

definition sample_lease :: lease_state where
  "sample_lease = \<lparr>ls_ID = ''l1'', ls_TenantID = ''t1'', ls_RoomID = ''r1'', ls_PropertyID = ''p1'',
     ls_RentAmount = 12000, ls_StartDate = go_date 2024 1 10 0, ls_EndDate = go_date 2024 7 9 0,
     ls_RentBillingCadence = BillingCadenceMonthly,
     ls_ElectricityBillingCadence = BillingCadenceBimonthly,
     ls_Status = StatusActive, ls_DepositAmount = 24000, ls_DepositRefundAmount = None,
     ls_DepositDeductionAmount = None, ls_DepositStatus = DepositStatusHeld,
     ls_DepositDeductionReason = None, ls_Version = 1\<rparr>"

lemma SettleDeposit_conserves_witness:
  "\<exists>b. SettleDeposit sample_lease 20000 4000 (Some '' paint '') = Inr b
     \<and> ls_DepositDeductionReason b = Some ''paint''"
proof -
  have i: "is_i64 20000" "is_i64 4000" "0 \<le> ls_DepositAmount sample_lease"
    "is_i64 (ls_DepositAmount sample_lease)"
    by (simp_all add: is_i64_def sample_lease_def)
  have "trim (stringValue (Some '' paint '')) = ''paint''" by code_simp
  then show ?thesis
    using SettleDeposit_conserves [OF i, of "Some '' paint ''"] by (simp add: sample_lease_def)
qed

section \<open>The invariant of reachable leases\<close>

definition deposit_ok :: "lease_state \<Rightarrow> bool" where
  "deposit_ok a \<longleftrightarrow>
    (ls_DepositStatus a = DepositStatusHeld \<longrightarrow>
       ls_DepositRefundAmount a = None \<and> ls_DepositDeductionAmount a = None)
    \<and> (ls_DepositStatus a = DepositStatusSettled \<longrightarrow>
       (\<exists>r d. ls_DepositRefundAmount a = Some r \<and> ls_DepositDeductionAmount a = Some d
            \<and> 0 \<le> r \<and> 0 \<le> d \<and> r + d = ls_DepositAmount a
            \<and> (0 < d \<longrightarrow> (\<exists>why. ls_DepositDeductionReason a = Some why
                           \<and> why \<noteq> '''' \<and> trim why = why))))
    \<and> ls_DepositStatus a \<in> {DepositStatusHeld, DepositStatusSettled, DepositStatusWrittenOff}
    \<and> (ls_DepositStatus a = DepositStatusWrittenOff \<longrightarrow> ls_Status a = StatusForceTerminated)
    \<and> ls_Status a \<in> {StatusActive, StatusExpired, StatusTerminated, StatusForceTerminated}"

lemma deposit_ok_settle:
  assumes "deposit_ok a" "0 \<le> ls_DepositAmount a" "is_i64 r" "is_i64 d" "SettleDeposit a r d why = Inr b"
  shows "deposit_ok b"
proof -
  note f = SettleDeposit_Inr [OF assms(5)]
  have "r + d = ls_DepositAmount a"
    using settle_sum [OF assms(3,4) f(2,3,4) assms(2)] .
  moreover have "\<exists>w. trimmedStringPtr why = Some w \<and> w \<noteq> '''' \<and> trim w = w" if "0 < d"
    using f(6) [OF that] by (simp add: trimmedStringPtr_def Let_def)
  moreover have "ls_Status a \<in> {StatusActive, StatusExpired, StatusTerminated, StatusForceTerminated}"
    using assms(1) by (simp add: deposit_ok_def)
  ultimately show ?thesis
    using f(2,3) unfolding f(5) deposit_ok_def by (auto simp: lease_consts)
qed

lemma deposit_ok_apply:
  assumes "deposit_ok a" "0 \<le> ls_DepositAmount a" "cmd_i64 c" "lease_apply a c = Inr b"
  shows "deposit_ok b"
proof (cases c)
  case (CmdChangeRent r)
  then show ?thesis using assms by (auto simp: ChangeRent_def deposit_ok_def split: if_splits)
next
  case (CmdSettleDeposit r d why)
  then show ?thesis using assms by (auto intro: deposit_ok_settle)
next
  case CmdTerminate
  then have b: "b = a\<lparr>ls_Status := StatusTerminated\<rparr>" and t: "isTerminableStatus (ls_Status a)"
    using assms by (auto simp: Terminate_def split: if_splits)
  have "ls_DepositStatus a \<noteq> DepositStatusWrittenOff"
    using t assms(1) by (auto simp: isTerminableStatus_def deposit_ok_def lease_consts)
  then show ?thesis using assms(1) unfolding b deposit_ok_def by simp
next
  case (CmdForceTerminate why h)
  then consider "b = a\<lparr>ls_DepositStatus := DepositStatusWrittenOff, ls_Status := StatusForceTerminated\<rparr>"
    | "b = a\<lparr>ls_Status := StatusForceTerminated\<rparr>"
    using assms(4) by (auto simp: ForceTerminate_def Let_def split: if_splits)
  then show ?thesis
  proof cases
    case 1
    then show ?thesis by (simp add: deposit_ok_def lease_consts)
  next
    case 2
    then show ?thesis using assms(1) unfolding deposit_ok_def by simp
  qed
qed

text \<open>What holds of a lease whatever the end date it was closed with.\<close>

definition lease_terms :: "lease_state \<Rightarrow> bool" where
  "lease_terms a \<longleftrightarrow> lease_wf (a\<lparr>ls_EndDate := ls_StartDate a\<rparr>)
     \<and> (ls_Status a \<in> {StatusActive, StatusExpired} \<longrightarrow> \<not> time_after (ls_StartDate a) (ls_EndDate a))"

lemma lease_terms_wf: "lease_terms a \<Longrightarrow> \<not> time_after (ls_StartDate a) (ls_EndDate a) \<Longrightarrow> lease_wf a"
  by (simp add: lease_terms_def lease_wf_def)

lemma lease_wf_terms: "lease_wf a \<Longrightarrow> lease_terms a"
  by (simp add: lease_terms_def lease_wf_def time_after_def)

lemma lease_terms_apply:
  assumes "lease_terms a" "lease_apply a c = Inr b"
  shows "lease_terms b"
proof (cases c)
  case (CmdChangeRent r)
  then show ?thesis using assms
    by (auto simp: lease_terms_def lease_wf_def ChangeRent_def split: if_splits)
next
  case (CmdSettleDeposit r d why)
  then show ?thesis using assms SettleDeposit_Inr(5) [of a r d why b]
    by (auto simp: lease_terms_def lease_wf_def)
next
  case CmdTerminate
  then show ?thesis using assms
    by (auto simp: lease_terms_def lease_wf_def Terminate_def lease_consts split: if_splits)
next
  case (CmdForceTerminate why h)
  then show ?thesis using assms
    by (auto simp: lease_terms_def lease_wf_def ForceTerminate_def lease_consts Let_def split: if_splits)
qed

text \<open>
  C22.  Every lease the program can reach, by its commands, the daily expiry or
  the writes that store it, has its deposit accounted for: while held nothing is
  booked, when settled the recorded refund and deduction are non-negative and
  add up to the deposit and a deduction has a reason, and it is written off only
  on a force-terminated lease.  A lease that is active or expired never ends
  before it starts, and every lease that does not is well formed (trimmed ids,
  positive rent, supported cadences) and rehydrating it from storage succeeds
  and changes nothing.  A lease that was closed takes the day it was closed as
  its end date, which the normal termination does not compare with its start.
\<close>

theorem lease_reachable_invariant:
  assumes "lease_reachable a"
  shows "deposit_ok a
     \<and> (ls_Status a \<in> {StatusActive, StatusExpired} \<longrightarrow> \<not> time_after (ls_StartDate a) (ls_EndDate a))
     \<and> (\<not> time_after (ls_StartDate a) (ls_EndDate a) \<longrightarrow> lease_wf a \<and> lease_Rehydrate a = Inr a)"
proof -
  have "lease_terms a \<and> deposit_ok a"
    using assms
  proof (induction rule: lease_reachable.induct)
    case (created s a)
    then have "lease_wf a" by (auto simp: lease_New_def intro: normalizeState_wf)
    then show ?case using created lease_wf_terms
      by (auto simp: lease_New_def normalizeState_def Let_def deposit_ok_def lease_consts
          split: if_splits)
  next
    case (command a c b)
    then have "0 \<le> ls_DepositAmount a" by (simp add: lease_terms_def lease_wf_def)
    then show ?case using command lease_terms_apply deposit_ok_apply by blast
  next
    case (expired a today)
    then show ?case by (auto simp: lease_terms_def lease_wf_def deposit_ok_def lease_consts)
  next
    case (stored a v)
    then show ?case by (simp add: lease_terms_def lease_wf_def deposit_ok_def)
  next
    case (ended a t)
    then show ?case by (auto simp: lease_terms_def lease_wf_def deposit_ok_def lease_consts)
  qed
  then show ?thesis using lease_terms_wf Rehydrate_id by (auto simp: lease_terms_def)
qed

text \<open>The sample lease, found by the expiry scan on 10 July.\<close>

definition expired_sample :: lease_state where
  "expired_sample = sample_lease\<lparr>ls_Version := 2, ls_Status := StatusExpired\<rparr>"

lemma lease_reachable_invariant_witness:
  "deposit_ok expired_sample \<and> lease_wf expired_sample \<and> lease_Rehydrate expired_sample = Inr expired_sample"
proof -
  have "lease_New (sample_lease\<lparr>ls_Status := '''', ls_DepositStatus := ''''\<rparr>) = Inr sample_lease"
    by code_simp
  then have new: "lease_reachable sample_lease"
    by (intro lease_reachable.created) (simp_all add: sample_lease_def)
  have "ls_Status (sample_lease\<lparr>ls_Version := 2\<rparr>) = StatusActive"
    "t_day (ls_EndDate (sample_lease\<lparr>ls_Version := 2\<rparr>)) < t_day (go_date 2024 7 10 0)"
    by code_simp+
  then have "lease_reachable expired_sample"
    unfolding expired_sample_def by (rule lease_reachable.expired [OF lease_reachable.stored [OF new]])
  then have "deposit_ok expired_sample \<and> (\<not> time_after (ls_StartDate expired_sample) (ls_EndDate expired_sample)
      \<longrightarrow> lease_wf expired_sample \<and> lease_Rehydrate expired_sample = Inr expired_sample)"
    using lease_reachable_invariant by blast
  moreover have "\<not> time_after (ls_StartDate expired_sample) (ls_EndDate expired_sample)" by code_simp
  ultimately show ?thesis by blast
qed

section \<open>The life cycle it implements\<close>

text \<open>The abstract contract: a lease is running or ended one way or the other.\<close>

datatype phase = Running | Expired | Ended | ForceEnded
datatype deposit = Held | Settled | WrittenOff

fun phase_of :: "lease_state \<Rightarrow> phase option" where
  "phase_of a =
    (if ls_Status a = StatusActive then Some Running
     else if ls_Status a = StatusExpired then Some Expired
     else if ls_Status a = StatusTerminated then Some Ended
     else if ls_Status a = StatusForceTerminated then Some ForceEnded else None)"

fun deposit_of :: "lease_state \<Rightarrow> deposit option" where
  "deposit_of a =
    (if ls_DepositStatus a = DepositStatusHeld then Some Held
     else if ls_DepositStatus a = DepositStatusSettled then Some Settled
     else if ls_DepositStatus a = DepositStatusWrittenOff then Some WrittenOff else None)"

fun life_cycle :: "phase \<times> deposit \<Rightarrow> lease_cmd \<Rightarrow> (phase \<times> deposit) option" where
  "life_cycle (Running, d) (CmdChangeRent _) = Some (Running, d)"
| "life_cycle (p, Held) (CmdSettleDeposit _ _ _) = Some (p, Settled)"
| "life_cycle (Running, d) CmdTerminate = Some (Ended, d)"
| "life_cycle (Expired, d) CmdTerminate = Some (Ended, d)"
| "life_cycle (Running, d) (CmdForceTerminate _ h) =
     Some (ForceEnded, if trim h = ForceTerminationDepositWriteOff then WrittenOff else d)"
| "life_cycle (Expired, d) (CmdForceTerminate _ h) =
     Some (ForceEnded, if trim h = ForceTerminationDepositWriteOff then WrittenOff else d)"
| "life_cycle _ _ = None"

text \<open>
  C23.  The aggregate implements the abstract life cycle: a command that
  succeeds on a lease with a recognised status takes exactly the abstract step
  (so a terminated or force-terminated lease accepts nothing but the
  settlement of a deposit that is still held), and a command the life cycle
  has no step for is refused with \<open>ErrLeaseNotActive\<close>, or \<open>ErrDepositNotHeld\<close>
  for a settlement.
\<close>

theorem lease_refines_life_cycle:
  assumes "phase_of a = Some p" "deposit_of a = Some d"
  shows "(\<forall>b. lease_apply a c = Inr b \<longrightarrow>
            (\<exists>p' d'. life_cycle (p, d) c = Some (p', d')
               \<and> phase_of b = Some p' \<and> deposit_of b = Some d'))
    \<and> (life_cycle (p, d) c = None \<longrightarrow>
         lease_apply a c = Inl (case c of CmdSettleDeposit _ _ _ \<Rightarrow> ErrDepositNotHeld
                                        | _ \<Rightarrow> ErrLeaseNotActive))"
proof (cases c)
  case (CmdChangeRent r)
  then show ?thesis using assms
    by (cases p) (auto simp: ChangeRent_def lease_consts split: if_splits)
next
  case (CmdSettleDeposit r e why)
  then show ?thesis using assms
    by (cases d; cases p) (auto simp: SettleDeposit_def lease_consts split: if_splits)
next
  case CmdTerminate
  then show ?thesis using assms
    by (cases p) (auto simp: Terminate_def isTerminableStatus_def lease_consts split: if_splits)
next
  case (CmdForceTerminate why h)
  then show ?thesis using assms
    by (cases p) (auto simp: ForceTerminate_def isTerminableStatus_def Let_def lease_consts
        split: if_splits)
qed

lemma lease_refines_life_cycle_witness:
  "lease_apply (sample_lease\<lparr>ls_Status := StatusTerminated\<rparr>) CmdTerminate = Inl ErrLeaseNotActive
   \<and> life_cycle (Running, Held) CmdTerminate = Some (Ended, Held)"
  using lease_refines_life_cycle [of "sample_lease\<lparr>ls_Status := StatusTerminated\<rparr>" Ended Held CmdTerminate]
  by (simp add: sample_lease_def lease_consts)

end
