(* ===== verification/BillingPeriods.thy ===== *)
theory BillingPeriods
  imports LeaseDomain
begin

text \<open>
  Billing periods (domain/lease/billing.go): the loops that cut the term of a
  lease into rent and electricity periods, and the search for the next payment
  date.  The locale \<open>schedule\<close> states what the loops have in common, a boundary
  function that moves forward; each loop is shown to compute the reference
  \<open>intervals\<close> of its own boundary function, and the locale's lemmas then give
  the properties.
\<close>

section \<open>The code\<close>

record billing_period =
  PeriodStart :: gtime
  PeriodEnd :: gtime
  DueDate :: gtime

definition normalizeDate :: "gtime \<Rightarrow> gtime" where
  "normalizeDate value =
     go_date (time_year value) (time_month value) (time_dayOfMonth value) (t_off value)"

definition clampedMonthDate :: "int \<Rightarrow> int \<Rightarrow> int \<Rightarrow> int \<Rightarrow> gtime" where
  "clampedMonthDate year month day location =
    (let firstOfNextMonth = go_date year (month + 1) 1 location;
         lastDay = time_dayOfMonth (add_date firstOfNextMonth 0 0 (- 1));
         day' = (if day > lastDay then lastDay else day)
     in go_date year month day' location)"

lemma normalizeDate_day_at [simp]: "normalizeDate t = day_at (t_day t) (t_off t)"
  by (simp add: normalizeDate_def day_at_def)

text \<open>The day of month \<open>k\<close> nearest to the anchor day \<open>a\<close>.\<close>

definition anchored_day :: "int \<Rightarrow> int \<Rightarrow> int" where
  "anchored_day a k = mfirst k + min a (mfirst (k + 1) - mfirst k) - 1"

lemma clampedMonthDate_eq:
  "clampedMonthDate y m a off = day_at (anchored_day a (12 * y + m - 1)) off"
proof -
  let ?k = "12 * y + m - 1"
  have d: "go_date y (m + 1) 1 off = day_at (mfirst (?k + 1)) off"
    by (simp add: go_date_def go_date_at_def day_at_def algebra_simps)
  have "midx (mfirst (?k + 1) - 1) = ?k"
    by (rule cal.month_ofI) (use cal.first_step [of ?k] in simp_all)
  then have last: "time_dayOfMonth (add_date (go_date y (m + 1) 1 off) 0 0 (- 1))
      = mfirst (?k + 1) - mfirst ?k"
    unfolding d by (simp add: time_dayOfMonth_def)
  show ?thesis
    unfolding clampedMonthDate_def Let_def last
    by (simp add: anchored_day_def go_date_def go_date_at_def day_at_def min_def)
qed

text \<open>Evaluation of the dates of a schedule by day numbers.\<close>

lemma clampedMonthDate_code [code]:
  "clampedMonthDate y m a off =
     (let k = 12 * y + m - 1; f = mfirst k in day_at (f + min a (mfirst (k + 1) - f) - 1) off)"
  by (simp add: clampedMonthDate_eq anchored_day_def Let_def)

lemma normalizeDate_code [code]: "normalizeDate t = day_at (t_day t) (t_off t)"
  by simp

lemma clamped_next:
  "clampedMonthDate (time_year t) (time_month t + n) a off
     = day_at (anchored_day a (midx (t_day t) + n)) off"
proof -
  have "12 * time_year t + (time_month t + n) - 1 = midx (t_day t) + n"
    using month_year_idx [of t] by linarith
  then show ?thesis unfolding clampedMonthDate_eq by metis
qed

lemma clamped_this:
  "clampedMonthDate (time_year t) (time_month t) a off
     = day_at (anchored_day a (midx (t_day t))) off"
  using clamped_next [of t 0] by simp

lemma anchored_day_bounds:
  "1 \<le> a \<Longrightarrow> mfirst k \<le> anchored_day a k" "1 \<le> a \<Longrightarrow> anchored_day a k < mfirst (k + 1)"
  unfolding anchored_day_def using cal.clamp_in_month by blast+

lemma midx_anchored_day [simp]: "1 \<le> a \<Longrightarrow> midx (anchored_day a k) = k"
  by (simp add: anchored_day_def)

lemma anchored_day_later:
  assumes "1 \<le> a" "0 < n"
  shows "d < anchored_day a (midx d + n)"
proof -
  have "mfirst (midx d + 1) \<le> mfirst (midx d + n)"
    using assms by (intro cal.first_mono) simp
  then show ?thesis
    using cal.month_of_less [of d] anchored_day_bounds(1) [OF assms(1), of "midx d + n"] by linarith
qed

text \<open>The measure of the loops: the days left until the end of the term.\<close>

definition days_left :: "gtime \<Rightarrow> gtime \<Rightarrow> nat" where
  "days_left cur fin =
     nat ((instant fin + t_off cur * ns_per_sec) div ns_per_day + 1 - t_day cur)"

definition off_midnight :: "gtime \<Rightarrow> nat" where
  "off_midnight cur = (if t_ns cur = 0 then 0 else 1)"

lemma days_left_less:
  assumes "t_ns cur = 0" "\<not> time_after cur fin" "t_off nxt = t_off cur" "t_day cur < t_day nxt"
  shows "days_left nxt fin < days_left cur fin"
proof -
  have "t_day cur * ns_per_day \<le> instant fin + t_off cur * ns_per_sec"
    using assms(1,2) by (simp add: time_after_def instant_def)
  then have "t_day cur \<le> (instant fin + t_off cur * ns_per_sec) div ns_per_day"
    using zdiv_mono1 [of "t_day cur * ns_per_day" _ ns_per_day] by simp
  then show ?thesis using assms(3,4) by (simp add: days_left_def)
qed

text \<open>
  \<open>buildAnchoredPeriods\<close>.  The loop moves forward only for a positive step and
  an anchor day of at least 1; outside that the Go loop need not end, and the
  guard below makes the model total.  Every call site passes a step of 1, 3, 6
  or 12 and an anchor already checked to be in 1..31.
\<close>

function anchored_loop :: "gtime \<Rightarrow> gtime \<Rightarrow> int \<Rightarrow> int \<Rightarrow> billing_period list" where
  "anchored_loop currentStart finalEnd monthStep anchorDay =
    (if \<not> time_after currentStart finalEnd \<and> 0 < monthStep \<and> 1 \<le> anchorDay then
       let nextStart = clampedMonthDate (time_year currentStart)
                         (time_month currentStart + monthStep) anchorDay (t_off currentStart);
           periodEnd = add_date nextStart 0 0 (- 1);
           periodEnd' = (if time_after periodEnd finalEnd then finalEnd else periodEnd)
       in \<lparr>PeriodStart = currentStart, PeriodEnd = periodEnd', DueDate = currentStart\<rparr>
          # anchored_loop nextStart finalEnd monthStep anchorDay
     else [])"
  by pat_completeness auto
termination
proof (relation "measures [\<lambda>(c, e, _, _). off_midnight c, \<lambda>(c, e, _, _). days_left c e]", goal_cases)
  case (2 cur fin step a n)
  have "n = day_at (anchored_day a (midx (t_day cur) + step)) (t_off cur)"
    using 2(2) by (simp add: clamped_next)
  then show ?case
    using 2(1) days_left_less [of cur fin n] anchored_day_later [of a step "t_day cur"]
    by (auto simp: off_midnight_def)
qed simp

definition buildAnchoredPeriods :: "gtime \<Rightarrow> gtime \<Rightarrow> int \<Rightarrow> int \<Rightarrow> billing_period list" where
  "buildAnchoredPeriods startDate endDate monthStep anchorDay =
     anchored_loop (normalizeDate startDate) (normalizeDate endDate) monthStep anchorDay"

text \<open>\<open>buildMonthlyPeriods\<close> is the same loop with a step of one month, but its
  due date is computed from the anchor rather than copied from the start.\<close>

function monthly_loop :: "gtime \<Rightarrow> gtime \<Rightarrow> int \<Rightarrow> billing_period list" where
  "monthly_loop currentStart finalEnd anchorDay =
    (if \<not> time_after currentStart finalEnd \<and> 1 \<le> anchorDay then
       let nextStart = clampedMonthDate (time_year currentStart)
                         (time_month currentStart + 1) anchorDay (t_off currentStart);
           periodEnd = add_date nextStart 0 0 (- 1);
           periodEnd' = (if time_after periodEnd finalEnd then finalEnd else periodEnd)
       in \<lparr>PeriodStart = currentStart, PeriodEnd = periodEnd',
           DueDate = clampedMonthDate (time_year currentStart) (time_month currentStart)
                       anchorDay (t_off currentStart)\<rparr>
          # monthly_loop nextStart finalEnd anchorDay
     else [])"
  by pat_completeness auto
termination
proof (relation "measures [\<lambda>(c, e, _). off_midnight c, \<lambda>(c, e, _). days_left c e]", goal_cases)
  case (2 cur fin a n)
  have "n = day_at (anchored_day a (midx (t_day cur) + 1)) (t_off cur)"
    using 2(2) by (simp add: clamped_next)
  then show ?case
    using 2(1) days_left_less [of cur fin n] anchored_day_later [of a 1 "t_day cur"]
    by (auto simp: off_midnight_def)
qed simp

definition buildMonthlyPeriods :: "gtime \<Rightarrow> gtime \<Rightarrow> int \<Rightarrow> billing_period list" where
  "buildMonthlyPeriods startDate endDate anchorDay =
     monthly_loop (normalizeDate startDate) (normalizeDate endDate) anchorDay"

text \<open>\<open>buildNaturalBimonthlyPeriods\<close>: windows of two calendar months starting in
  January, March, ..., November, whatever the day the lease starts on.\<close>

definition window_start_month :: "gtime \<Rightarrow> int" where
  "window_start_month currentStart =
    (if time_month currentStart mod 2 = 0 then time_month currentStart - 1
     else time_month currentStart)"

definition window_end :: "gtime \<Rightarrow> gtime" where
  "window_end currentStart =
    (let windowStartMonth = window_start_month currentStart;
         windowStart = go_date (time_year currentStart) windowStartMonth 1 (t_off currentStart)
     in add_date (clampedMonthDate (time_year windowStart) (windowStartMonth + 2) 1
          (t_off currentStart)) 0 0 (- 1))"

text \<open>The number of the first month of the window that follows month \<open>k\<close>'s.\<close>

definition next_window :: "int \<Rightarrow> int" where
  "next_window k = 2 * (k div 2) + 2"

lemma window_end_eq:
  "window_end t = day_at (mfirst (next_window (midx (t_day t))) - 1) (t_off t)"
proof -
  let ?k = "midx (t_day t)"
  have k: "12 * time_year t + (window_start_month t - 1) = 2 * (?k div 2)"
    unfolding window_start_month_def time_year_def time_month_def by presburger
  have r: "1 \<le> window_start_month t" "window_start_month t \<le> 12"
    using month_range [of t] by (auto simp: window_start_month_def) presburger
  have y: "time_year (go_date (time_year t) (window_start_month t) 1 (t_off t)) = time_year t"
    using time_dayOfMonth_roundtrip [OF r, of 1 "time_year t" "t_off t"] by simp
  have "12 * time_year t + (window_start_month t + 2) - 1 = next_window ?k"
    using k by (simp add: next_window_def)
  then show ?thesis
    unfolding window_end_def Let_def y clampedMonthDate_eq
    using cal.month_min [of "next_window ?k"]
    by (simp add: anchored_day_def min_def)
qed

lemma window_end_code [code]:
  "window_end t = day_at (mfirst (next_window (midx (t_day t))) - 1) (t_off t)"
  by (rule window_end_eq)

lemma next_window_later: "k < next_window k" "next_window k \<le> k + 2"
  unfolding next_window_def by presburger+

lemma window_later: "d < mfirst (next_window (midx d))"
  using cal.first_mono [of "midx d + 1" "next_window (midx d)"] next_window_later [of "midx d"]
    cal.month_of_less [of d] by simp

function bimonthly_loop :: "gtime \<Rightarrow> gtime \<Rightarrow> int \<Rightarrow> billing_period list" where
  "bimonthly_loop currentStart finalEnd anchorDay =
    (if \<not> time_after currentStart finalEnd then
       let windowEnd = window_end currentStart;
           periodEnd = (if time_after windowEnd finalEnd then finalEnd else windowEnd)
       in \<lparr>PeriodStart = currentStart, PeriodEnd = periodEnd,
           DueDate = clampedMonthDate (time_year currentStart) (time_month currentStart)
                       anchorDay (t_off currentStart)\<rparr>
          # bimonthly_loop (add_date windowEnd 0 0 1) finalEnd anchorDay
     else [])"
  by pat_completeness auto
termination
proof (relation "measures [\<lambda>(c, e, _). off_midnight c, \<lambda>(c, e, _). days_left c e]", goal_cases)
  case (2 cur fin a w p)
  have "add_date w 0 0 1 = day_at (mfirst (next_window (midx (t_day cur)))) (t_off cur)"
    using 2(2) by (simp add: window_end_eq)
  then show ?case
    using 2(1) days_left_less [of cur fin "add_date w 0 0 1"] window_later [of "t_day cur"]
    by (auto simp: off_midnight_def simp del: add_date_days)
qed simp

definition buildNaturalBimonthlyPeriods :: "gtime \<Rightarrow> gtime \<Rightarrow> int \<Rightarrow> billing_period list" where
  "buildNaturalBimonthlyPeriods startDate endDate anchorDay =
     bimonthly_loop (normalizeDate startDate) (normalizeDate endDate) anchorDay"

definition BuildBillingPeriods :: "gtime \<Rightarrow> gtime \<Rightarrow> string \<Rightarrow> gerr + billing_period list" where
  "BuildBillingPeriods startDate endDate cadence =
    (if time_after startDate endDate then Inl ErrInvalidDateRange
     else let anchorDay = time_dayOfMonth startDate
       in if cadence = BillingCadenceMonthly
          then Inr (buildMonthlyPeriods startDate endDate anchorDay)
          else if cadence = BillingCadenceBimonthly
          then Inr (buildNaturalBimonthlyPeriods startDate endDate anchorDay)
          else Inl ErrInvalidElectricityBillingCadence)"

definition BuildRentBillingPeriodsFromAnchor ::
    "gtime \<Rightarrow> gtime \<Rightarrow> string \<Rightarrow> int \<Rightarrow> gerr + billing_period list" where
  "BuildRentBillingPeriodsFromAnchor startDate endDate cadence anchorDay =
    (if time_after startDate endDate then Inl ErrInvalidDateRange
     else if anchorDay < 1 \<or> anchorDay > 31 then Inl ErrInvalidBillingAnchor
     else if cadence = BillingCadenceMonthly
       then Inr (buildAnchoredPeriods startDate endDate 1 anchorDay)
     else if cadence = BillingCadenceQuarterly
       then Inr (buildAnchoredPeriods startDate endDate 3 anchorDay)
     else if cadence = BillingCadenceSemiannual
       then Inr (buildAnchoredPeriods startDate endDate 6 anchorDay)
     else if cadence = BillingCadenceAnnual
       then Inr (buildAnchoredPeriods startDate endDate 12 anchorDay)
     else Inl ErrInvalidRentBillingCadence)"

definition BuildRentBillingPeriods :: "gtime \<Rightarrow> gtime \<Rightarrow> string \<Rightarrow> gerr + billing_period list" where
  "BuildRentBillingPeriods startDate endDate cadence =
     BuildRentBillingPeriodsFromAnchor startDate endDate cadence (time_dayOfMonth startDate)"

definition BuildMonthlyBillingPeriodsFromAnchor ::
    "gtime \<Rightarrow> gtime \<Rightarrow> int \<Rightarrow> gerr + billing_period list" where
  "BuildMonthlyBillingPeriodsFromAnchor startDate endDate anchorDay =
    (if time_after startDate endDate then Inl ErrInvalidDateRange
     else if anchorDay < 1 \<or> anchorDay > 31 then Inl ErrInvalidBillingAnchor
     else Inr (buildMonthlyPeriods startDate endDate anchorDay))"

definition rentCadenceMonths :: "string \<Rightarrow> int" where
  "rentCadenceMonths cadence =
    (if cadence = BillingCadenceMonthly then 1
     else if cadence = BillingCadenceQuarterly then 3
     else if cadence = BillingCadenceSemiannual then 6
     else if cadence = BillingCadenceAnnual then 12 else 0)"

text \<open>The search loop of \<open>NextRentPaymentDateAfter\<close>; as above, the guard only
  cuts off arguments for which the Go loop need not end, and its caller passes
  a positive number of months and a real day of a month.\<close>

function next_payment_loop :: "gtime \<Rightarrow> gtime \<Rightarrow> int \<Rightarrow> int \<Rightarrow> gtime" where
  "next_payment_loop candidate operationDate months anchorDay =
    (if \<not> time_after candidate operationDate \<and> 0 < months \<and> 1 \<le> anchorDay then
       next_payment_loop (clampedMonthDate (time_year candidate) (time_month candidate + months)
           anchorDay (t_off candidate)) operationDate months anchorDay
     else candidate)"
  by pat_completeness auto
termination
proof (relation "measures [\<lambda>(c, e, _, _). off_midnight c, \<lambda>(c, e, _, _). days_left c e]", goal_cases)
  case (2 cur fin m a)
  then show ?case
    using days_left_less [of cur fin "day_at (anchored_day a (midx (t_day cur) + m)) (t_off cur)"]
      anchored_day_later [of a m "t_day cur"]
    by (auto simp: off_midnight_def clamped_next)
qed simp

definition NextRentPaymentDateAfter :: "gtime \<Rightarrow> gtime \<Rightarrow> string \<Rightarrow> gtime" where
  "NextRentPaymentDateAfter leaseStart operationDate cadence =
    (let months = rentCadenceMonths cadence;
         months = (if months = 0 then 1 else months);
         anchorDay = time_dayOfMonth leaseStart;
         leaseStart = normalizeDate leaseStart;
         normalizedOperationDate = normalizeDate operationDate
     in next_payment_loop leaseStart normalizedOperationDate months anchorDay)"

definition NextPaymentDateAfter :: "gtime \<Rightarrow> gtime \<Rightarrow> gtime" where
  "NextPaymentDateAfter leaseStart operationDate =
     NextRentPaymentDateAfter leaseStart operationDate BillingCadenceMonthly"

declare anchored_loop.simps [simp del] monthly_loop.simps [simp del]
  bimonthly_loop.simps [simp del] next_payment_loop.simps [simp del]

section \<open>The reference: cutting a term at moving boundaries\<close>

function intervals :: "(int \<Rightarrow> int) \<Rightarrow> int \<Rightarrow> int \<Rightarrow> (int \<times> int) list" where
  "intervals nxt s e =
     (if s \<le> e \<and> s < nxt s then (s, min (nxt s - 1) e) # intervals nxt (nxt s) e else [])"
  by pat_completeness auto
termination by (relation "measure (\<lambda>(nxt, s, e). nat (e + 1 - s))") auto

function first_boundary :: "(int \<Rightarrow> int) \<Rightarrow> int \<Rightarrow> int \<Rightarrow> int" where
  "first_boundary nxt c d = (if c \<le> d \<and> c < nxt c then first_boundary nxt (nxt c) d else c)"
  by pat_completeness auto
termination by (relation "measure (\<lambda>(nxt, c, d). nat (d + 1 - c))") auto

declare intervals.simps [simp del] first_boundary.simps [simp del]

text \<open>A list of intervals tiles \<open>s..e\<close>: each is non-empty, starts the day after
  the one before it and the last ends on \<open>e\<close>.\<close>

fun tiles :: "int \<Rightarrow> int \<Rightarrow> (int \<times> int) list \<Rightarrow> bool" where
  "tiles s e [] = (s = e + 1)"
| "tiles s e ((a, b) # ps) = (a = s \<and> a \<le> b \<and> b \<le> e \<and> tiles (b + 1) e ps)"

definition covers :: "int \<times> int \<Rightarrow> int \<Rightarrow> bool" where
  "covers p d \<longleftrightarrow> fst p \<le> d \<and> d \<le> snd p"

lemma tiles_start: "tiles s e ps \<Longrightarrow> s \<le> e + 1"
  by (induction s e ps rule: tiles.induct) auto

lemma tiles_no_cover_before:
  "tiles s e ps \<Longrightarrow> d < s \<Longrightarrow> filter (\<lambda>p. covers p d) ps = []"
  by (induction s e ps rule: tiles.induct) (auto simp: covers_def)

lemma tiles_cover:
  "tiles s e ps \<Longrightarrow>
     length (filter (\<lambda>p. covers p d) ps) = (if s \<le> d \<and> d \<le> e then 1 else 0)"
proof (induction s e ps rule: tiles.induct)
  case (2 s e a b ps)
  then show ?case
    using tiles_no_cover_before [of "b + 1" e ps d] tiles_start [of "b + 1" e ps]
    by (auto simp: covers_def)
qed auto

locale schedule =
  fixes nxt :: "int \<Rightarrow> int"
  assumes forward: "d < nxt d"
begin

lemma step: "s \<le> e \<Longrightarrow> intervals nxt s e = (s, min (nxt s - 1) e) # intervals nxt (nxt s) e"
  using forward [of s] by (subst intervals.simps) simp

lemma stop: "e < s \<Longrightarrow> intervals nxt s e = []"
  by (subst intervals.simps) simp

lemma walk_induct [case_names walk]:
  assumes "\<And>s. (s \<le> e \<Longrightarrow> P (nxt s)) \<Longrightarrow> P s"
  shows "P s"
proof (induction "nat (e + 1 - s)" arbitrary: s rule: less_induct)
  case less
  show ?case
  proof (rule assms)
    assume "s \<le> e"
    then have "nat (e + 1 - nxt s) < nat (e + 1 - s)" using forward [of s] by simp
    then show "P (nxt s)" by (rule less)
  qed
qed

lemma intervals_tile: "s \<le> e + 1 \<Longrightarrow> tiles s e (intervals nxt s e)"
proof (induction s rule: walk_induct [where e = e])
  case (walk s)
  show ?case
  proof (cases "s \<le> e")
    case True
    show ?thesis
    proof (cases "nxt s \<le> e + 1")
      case True
      then show ?thesis using walk \<open>s \<le> e\<close> forward [of s] by (simp add: step)
    next
      case False
      then show ?thesis using \<open>s \<le> e\<close> by (simp add: step stop)
    qed
  next
    case False
    then show ?thesis using walk by (simp add: stop)
  qed
qed

lemma iter_less: "0 < n \<Longrightarrow> s < (nxt ^^ n) s"
proof (induction n)
  case (Suc n)
  then show ?case using forward [of "(nxt ^^ n) s"] by (cases n) auto
qed simp

lemma iter_shift: "(nxt ^^ n) (nxt s) = (nxt ^^ Suc n) s"
  by (simp add: funpow_swap1)

lemma nth_start:
  "i < length (intervals nxt s e) \<Longrightarrow> fst (intervals nxt s e ! i) = (nxt ^^ i) s"
proof (induction s arbitrary: i rule: walk_induct [where e = e])
  case (walk s)
  show ?case
  proof (cases "s \<le> e")
    case True
    then show ?thesis
      using walk forward [of s] by (cases i) (auto simp: step iter_shift simp del: funpow.simps)
  next
    case False
    then show ?thesis using walk by (simp add: stop)
  qed
qed

lemma start_ge: "p \<in> set (intervals nxt s e) \<Longrightarrow> s \<le> fst p"
proof (induction s rule: walk_induct [where e = e])
  case (walk s)
  then show ?case
    by (cases "s \<le> e") (use forward [of s] in \<open>fastforce simp: step stop\<close>)+
qed

text \<open>Starting over at a boundary yields exactly the rest of the schedule.\<close>

lemma suffix:
  "intervals nxt ((nxt ^^ n) s) e
     = filter (\<lambda>p. (nxt ^^ n) s \<le> fst p) (intervals nxt s e)"
proof (induction n arbitrary: s)
  case 0
  then show ?case using start_ge by (simp add: filter_id_conv)
next
  case (Suc n)
  let ?b = "(nxt ^^ Suc n) s"
  have b: "?b = (nxt ^^ n) (nxt s)" by (simp add: funpow_swap1)
  have less: "s < ?b" by (rule iter_less) simp
  show ?case
  proof (cases "s \<le> e")
    case True
    then show ?thesis using Suc [of "nxt s"] less unfolding b by (simp add: step)
  next
    case False
    then show ?thesis using less by (simp add: stop)
  qed
qed

lemma boundary_iter: "\<exists>n. first_boundary nxt c d = (nxt ^^ n) c"
proof (induction c rule: walk_induct [where e = d])
  case (walk c)
  show ?case
  proof (cases "c \<le> d")
    case True
    then obtain n where "first_boundary nxt (nxt c) d = (nxt ^^ n) (nxt c)"
      using walk forward [of c] by blast
    then have "first_boundary nxt c d = (nxt ^^ Suc n) c"
      using True forward [of c] by (subst first_boundary.simps) (simp add: iter_shift del: funpow.simps)
    then show ?thesis by blast
  next
    case False
    then have "first_boundary nxt c d = (nxt ^^ 0) c" by (subst first_boundary.simps) simp
    then show ?thesis by blast
  qed
qed

lemma boundary_after: "d < first_boundary nxt c d"
proof (induction c rule: walk_induct [where e = d])
  case (walk c)
  then show ?case using forward [of c] by (subst first_boundary.simps) auto
qed

lemma boundary_least: "d < (nxt ^^ m) c \<Longrightarrow> first_boundary nxt c d \<le> (nxt ^^ m) c"
proof (induction c arbitrary: m rule: walk_induct [where e = d])
  case (walk c)
  show ?case
  proof (cases "c \<le> d")
    case True
    then obtain k where m: "m = Suc k" using walk by (cases m) auto
    then show ?thesis
      using walk True forward [of c]
      by (subst first_boundary.simps) (simp add: iter_shift [symmetric] del: funpow.simps)
  next
    case False
    then have "c \<le> (nxt ^^ m) c" using iter_less [of m c] by (cases m) auto
    then show ?thesis using False by (subst first_boundary.simps) simp
  qed
qed

end

section \<open>The boundaries of the code\<close>

definition rent_next :: "int \<Rightarrow> int \<Rightarrow> int \<Rightarrow> int" where
  "rent_next step a d = anchored_day (max 1 a) (midx d + max 1 step)"

definition window_next :: "int \<Rightarrow> int" where
  "window_next d = mfirst (next_window (midx d))"

interpretation rent: schedule "rent_next step a" for step a
  by unfold_locales (simp add: rent_next_def anchored_day_later)

interpretation window: schedule window_next
  by unfold_locales (simp add: window_next_def window_later)

text \<open>No drift: the anchor is applied to the month number, so after a short
  month the schedule returns to the anchor day.\<close>

lemma rent_iter:
  assumes "0 < step" "1 \<le> a" "0 < n"
  shows "(rent_next step a ^^ n) s = anchored_day a (midx s + int n * step)"
  using assms(3)
proof (induction n)
  case (Suc n)
  then show ?case
    using assms by (cases n) (simp_all add: rent_next_def max_def algebra_simps)
qed simp

definition rent_period :: "int \<Rightarrow> int \<times> int \<Rightarrow> billing_period" where
  "rent_period off p =
     \<lparr>PeriodStart = day_at (fst p) off, PeriodEnd = day_at (snd p) off, DueDate = day_at (fst p) off\<rparr>"

definition electricity_period :: "int \<Rightarrow> int \<Rightarrow> int \<times> int \<Rightarrow> billing_period" where
  "electricity_period off a p =
     \<lparr>PeriodStart = day_at (fst p) off, PeriodEnd = day_at (snd p) off,
      DueDate = day_at (anchored_day a (midx (fst p))) off\<rparr>"

definition period_days :: "billing_period \<Rightarrow> int \<times> int" where
  "period_days p = (t_day (PeriodStart p), t_day (PeriodEnd p))"

lemma period_days_simps [simp]:
  "period_days (rent_period off p) = p" "period_days (electricity_period off a p) = p"
  by (simp_all add: period_days_def rent_period_def electricity_period_def)

lemma min_period_end:
  "(if time_after (day_at (n - 1) off) (day_at e off) then day_at e off else day_at (n - 1) off)
     = day_at (min (n - 1) e) off"
  by (simp add: min_def)

lemma anchored_loop_eq:
  assumes "0 < step" "1 \<le> a"
  shows "anchored_loop (day_at s off) (day_at e off) step a
       = map (rent_period off) (intervals (rent_next step a) s e)"
proof (induction "rent_next step a" s e rule: intervals.induct)
  case (1 s e)
  have n: "clampedMonthDate (time_year (day_at s off)) (time_month (day_at s off) + step) a off
      = day_at (rent_next step a s) off"
    using assms by (simp add: clamped_next rent_next_def max_def)
  show ?case
    using 1 assms rent.forward [of s step a]
    by (subst anchored_loop.simps)
       (auto simp: n Let_def rent.step rent.stop rent_period_def min_def)
qed

lemma monthly_loop_eq:
  assumes "1 \<le> a"
  shows "monthly_loop (day_at s off) (day_at e off) a
       = map (electricity_period off a) (intervals (rent_next 1 a) s e)"
proof (induction "rent_next 1 a" s e rule: intervals.induct)
  case (1 s e)
  have n: "clampedMonthDate (time_year (day_at s off)) (time_month (day_at s off) + 1) a off
      = day_at (rent_next 1 a s) off"
    using assms by (simp add: clamped_next rent_next_def max_def)
  show ?case
    using 1 assms rent.forward [of s 1 a]
    by (subst monthly_loop.simps)
       (auto simp: n Let_def rent.step rent.stop electricity_period_def clamped_this min_def)
qed

lemma bimonthly_loop_eq:
  "bimonthly_loop (day_at s off) (day_at e off) a
     = map (electricity_period off a) (intervals window_next s e)"
proof (induction window_next s e rule: intervals.induct)
  case (1 s e)
  have w: "window_end (day_at s off) = day_at (window_next s - 1) off"
    by (simp add: window_end_eq window_next_def)
  show ?case
    using 1 window.forward [of s]
    by (subst bimonthly_loop.simps)
       (auto simp: w Let_def window.step window.stop electricity_period_def clamped_this min_def)
qed

lemma next_payment_loop_eq:
  assumes "0 < step" "1 \<le> a"
  shows "next_payment_loop (day_at c off) (day_at d off) step a
       = day_at (first_boundary (rent_next step a) c d) off"
proof (induction "rent_next step a" c d rule: first_boundary.induct)
  case (1 c d)
  have n: "clampedMonthDate (time_year (day_at c off)) (time_month (day_at c off) + step) a off
      = day_at (rent_next step a c) off"
    using assms by (simp add: clamped_next rent_next_def max_def)
  show ?case
    using 1 assms rent.forward [of c step a]
    by (subst next_payment_loop.simps, subst first_boundary.simps) (auto simp: n)
qed

section \<open>The exported functions in terms of the reference\<close>

text \<open>A clock reading with a nanosecond inside its day.\<close>

definition time_ok :: "gtime \<Rightarrow> bool" where
  "time_ok t \<longleftrightarrow> 0 \<le> t_ns t \<and> t_ns t < ns_per_day"

lemma time_ok_day_at [simp]: "time_ok (day_at d off)"
  by (simp add: time_ok_def)

lemma days_in_order:
  assumes "time_ok s" "time_ok e" "t_off s = t_off e" "\<not> time_after s e"
  shows "t_day s \<le> t_day e"
proof -
  have "t_day s * ns_per_day < (t_day e + 1) * ns_per_day"
    using assms by (simp add: time_ok_def time_after_def instant_def algebra_simps)
  then show ?thesis by simp
qed

lemma rentCadenceMonths_pos: "0 < rentCadenceMonths c \<longleftrightarrow> isValidRentCadence c"
  by (auto simp: rentCadenceMonths_def isValidRentCadence_def)

lemma rent_periods_iff:
  assumes "t_off s = t_off e"
  shows "BuildRentBillingPeriodsFromAnchor s e cadence a = Inr ps \<longleftrightarrow>
     \<not> time_after s e \<and> 1 \<le> a \<and> a \<le> 31 \<and> isValidRentCadence cadence
     \<and> ps = map (rent_period (t_off s))
               (intervals (rent_next (rentCadenceMonths cadence) a) (t_day s) (t_day e))"
proof -
  have b: "buildAnchoredPeriods s e n a
      = map (rent_period (t_off s)) (intervals (rent_next n a) (t_day s) (t_day e))"
    if "0 < n" "1 \<le> a" for n
    using that assms by (simp add: buildAnchoredPeriods_def anchored_loop_eq)
  show ?thesis
    by (auto simp: BuildRentBillingPeriodsFromAnchor_def b rentCadenceMonths_def
        isValidRentCadence_def lease_consts)
qed

lemma electricity_periods_iff:
  assumes "t_off s = t_off e"
  shows "BuildBillingPeriods s e cadence = Inr ps \<longleftrightarrow>
     \<not> time_after s e \<and> isValidElectricityCadence cadence
     \<and> ps = map (electricity_period (t_off s) (time_dayOfMonth s))
         (intervals (if cadence = BillingCadenceMonthly then rent_next 1 (time_dayOfMonth s)
                     else window_next) (t_day s) (t_day e))"
  using assms day_range(1) [of s]
  by (auto simp: BuildBillingPeriods_def buildMonthlyPeriods_def buildNaturalBimonthlyPeriods_def
      monthly_loop_eq bimonthly_loop_eq isValidElectricityCadence_def lease_consts)

lemma next_payment_eq:
  assumes "t_off s = t_off d" "isValidRentCadence cadence"
  shows "NextRentPaymentDateAfter s d cadence
       = day_at (first_boundary (rent_next (rentCadenceMonths cadence) (time_dayOfMonth s))
                  (t_day s) (t_day d)) (t_off s)"
  using assms rentCadenceMonths_pos [of cadence] day_range(1) [of s]
  by (simp add: NextRentPaymentDateAfter_def Let_def next_payment_loop_eq)

lemma anchored_day_self: "anchored_day (time_dayOfMonth t) (midx (t_day t)) = t_day t"
  using cal.month_of_less [of "t_day t"] by (simp add: anchored_day_def time_dayOfMonth_def)

lemma interval_in_intervals:
  "p \<in> set (intervals nxt s e) \<Longrightarrow> fst p \<le> e \<and> snd p = min (nxt (fst p) - 1) e"
  by (induction nxt s e rule: intervals.induct) (subst (asm) intervals.simps, auto split: if_splits)

lemma regenerated_days:
  assumes "BuildRentBillingPeriods s e cadence = Inr ps"
    and "t_off s = t_off e" "t_off s = t_off d"
    and "boundary = NextRentPaymentDateAfter s d cadence"
    and "BuildRentBillingPeriodsFromAnchor boundary e cadence (time_dayOfMonth s) = Inr qs"
  shows "map period_days qs = filter (\<lambda>p. t_day boundary \<le> fst p) (map period_days ps)"
proof -
  let ?f = "rent_next (rentCadenceMonths cadence) (time_dayOfMonth s)"
  have ps: "ps = map (rent_period (t_off s)) (intervals ?f (t_day s) (t_day e))"
    and v: "isValidRentCadence cadence"
    using assms(1) rent_periods_iff [OF assms(2)] by (auto simp: BuildRentBillingPeriods_def)
  let ?b = "first_boundary ?f (t_day s) (t_day d)"
  have b: "boundary = day_at ?b (t_off s)"
    using assms(4) next_payment_eq [OF assms(3) v] by simp
  obtain n where n: "?b = (?f ^^ n) (t_day s)" using rent.boundary_iter by blast
  have "qs = map (rent_period (t_off s)) (intervals ?f ?b (t_day e))"
    using assms(2,5) b by (simp add: rent_periods_iff)
  moreover have "intervals ?f ?b (t_day e) = filter (\<lambda>p. ?b \<le> fst p) (intervals ?f (t_day s) (t_day e))"
    unfolding n by (rule rent.suffix)
  ultimately show ?thesis by (simp add: ps b comp_def)
qed

section \<open>Properties of the billing schedule\<close>

text \<open>
  C17.  The rent periods of a lease partition its term: for every valid cadence
  and anchor the periods are non-empty, consecutive (each starts the day after
  the one before ends), the first starts on the first and the last ends on the
  last day, so every day of the term lies in exactly one rent period and no
  day outside it in any; every period is due on its first day.
\<close>

theorem rent_periods_partition_term:
  assumes "BuildRentBillingPeriodsFromAnchor s e cadence a = Inr ps"
    and "t_off s = t_off e" "time_ok s" "time_ok e"
  shows "ps \<noteq> [] \<and> tiles (t_day s) (t_day e) (map period_days ps)
    \<and> length (filter (\<lambda>p. covers (period_days p) d) ps)
       = (if t_day s \<le> d \<and> d \<le> t_day e then 1 else 0)
    \<and> (\<forall>p \<in> set ps. DueDate p = PeriodStart p \<and> PeriodStart p = day_at (fst (period_days p)) (t_off s)
       \<and> PeriodEnd p = day_at (snd (period_days p)) (t_off s))"
proof (intro conjI)
  let ?nxt = "rent_next (rentCadenceMonths cadence) a"
  have ps: "ps = map (rent_period (t_off s)) (intervals ?nxt (t_day s) (t_day e))"
    and le: "t_day s \<le> t_day e"
    using assms rent_periods_iff [OF assms(2)] days_in_order by auto
  show "ps \<noteq> []" using le by (simp add: ps rent.step)
  have t: "tiles (t_day s) (t_day e) (map period_days ps)"
    using le rent.intervals_tile by (simp add: ps comp_def)
  then show "tiles (t_day s) (t_day e) (map period_days ps)" .
  show "length (filter (\<lambda>p. covers (period_days p) d) ps)
       = (if t_day s \<le> d \<and> d \<le> t_day e then 1 else 0)"
    using tiles_cover [OF t, of d] by (simp add: filter_map comp_def)
  show "\<forall>p \<in> set ps. DueDate p = PeriodStart p \<and> PeriodStart p = day_at (fst (period_days p)) (t_off s)
       \<and> PeriodEnd p = day_at (snd (period_days p)) (t_off s)"
    by (auto simp: ps rent_period_def period_days_def)
qed

text \<open>A half-year lease that starts on the 31st.\<close>

definition sample_start :: gtime where "sample_start = go_date 2024 1 31 0"
definition sample_end :: gtime where "sample_end = go_date 2024 7 30 0"

lemma rent_periods_partition_term_witness:
  "\<exists>ps. BuildRentBillingPeriods sample_start sample_end BillingCadenceMonthly = Inr ps
     \<and> length ps = 6
     \<and> length (filter (\<lambda>p. covers (period_days p) (t_day (go_date 2024 2 29 0))) ps) = 1"
proof -
  let ?r = "BuildRentBillingPeriodsFromAnchor sample_start sample_end BillingCadenceMonthly 31"
  have l: "is_inr ?r \<and> length (projr ?r) = 6" by code_simp
  then obtain ps where ps: "?r = Inr ps" "length ps = 6" by (auto simp: is_inr_iff)
  have ok: "t_off sample_start = t_off sample_end" "time_ok sample_start" "time_ok sample_end"
    "time_dayOfMonth sample_start = 31"
    "t_day sample_start \<le> t_day (go_date 2024 2 29 0) \<and> t_day (go_date 2024 2 29 0) \<le> t_day sample_end"
    by code_simp+
  show ?thesis
    using rent_periods_partition_term [OF ps(1) ok(1-3), of "t_day (go_date 2024 2 29 0)"] ps ok(4,5)
    by (simp add: BuildRentBillingPeriods_def)
qed

text \<open>
  C18.  The schedule does not drift.  The \<open>i\<close>-th rent period (\<open>i > 0\<close>) starts in
  the month exactly \<open>i\<close> cadence steps after the first one, on the anchor day or
  on the last day of a month too short for it: after February a lease anchored
  on the 31st goes back to the 31st.
\<close>

theorem rent_period_starts_on_anchor:
  assumes "BuildRentBillingPeriodsFromAnchor s e cadence a = Inr ps"
    and "t_off s = t_off e" "i < length ps"
  shows "PeriodStart (ps ! i)
       = day_at (if i = 0 then t_day s
                 else anchored_day a (midx (t_day s) + int i * rentCadenceMonths cadence)) (t_off s)"
proof -
  let ?step = "rentCadenceMonths cadence"
  have ps: "ps = map (rent_period (t_off s)) (intervals (rent_next ?step a) (t_day s) (t_day e))"
    and v: "1 \<le> a" "0 < ?step"
    using assms rent_periods_iff [OF assms(2)] rentCadenceMonths_pos by auto
  have "fst (intervals (rent_next ?step a) (t_day s) (t_day e) ! i) = (rent_next ?step a ^^ i) (t_day s)"
    using assms(3) by (simp add: ps rent.nth_start)
  then show ?thesis
    using assms(3) rent_iter [OF v(2,1), of i "t_day s"] by (auto simp: ps rent_period_def)
qed

lemma rent_period_starts_on_anchor_witness:
  "map PeriodStart (projr (BuildRentBillingPeriods sample_start sample_end BillingCadenceMonthly)) ! 2
     = go_date 2024 3 31 0"
proof -
  let ?r = "BuildRentBillingPeriodsFromAnchor sample_start sample_end BillingCadenceMonthly 31"
  have l: "is_inr ?r \<and> length (projr ?r) = 6" by code_simp
  then obtain ps where ps: "?r = Inr ps" "length ps = 6" by (auto simp: is_inr_iff)
  have off: "t_off sample_start = t_off sample_end" "time_dayOfMonth sample_start = 31"
    "day_at (anchored_day 31 (midx (t_day sample_start) + 2)) (t_off sample_start) = go_date 2024 3 31 0"
    "rentCadenceMonths BillingCadenceMonthly = 1"
    by code_simp+
  show ?thesis
    using rent_period_starts_on_anchor [OF ps(1) off(1), of 2] ps off
    by (simp add: BuildRentBillingPeriods_def)
qed

text \<open>
  C20.  Electricity periods partition the term as well, for both cadences, and
  a bimonthly period never crosses the natural two-month windows
  (January-February, ..., November-December): its first and its last day lie
  in the same window.
\<close>

theorem electricity_periods_partition_term:
  assumes "BuildBillingPeriods s e cadence = Inr ps"
    and "t_off s = t_off e" "time_ok s" "time_ok e"
  shows "tiles (t_day s) (t_day e) (map period_days ps)
    \<and> length (filter (\<lambda>p. covers (period_days p) d) ps)
       = (if t_day s \<le> d \<and> d \<le> t_day e then 1 else 0)
    \<and> (cadence = BillingCadenceBimonthly \<longrightarrow>
       (\<forall>p \<in> set ps. midx (fst (period_days p)) div 2 = midx (snd (period_days p)) div 2))"
proof (intro conjI)
  let ?a = "time_dayOfMonth s"
  define nxt where "nxt = (if cadence = BillingCadenceMonthly then rent_next 1 ?a else window_next)"
  have ps: "ps = map (electricity_period (t_off s) ?a) (intervals nxt (t_day s) (t_day e))"
    and le: "t_day s \<le> t_day e"
    using assms electricity_periods_iff [OF assms(2)] days_in_order by (auto simp: nxt_def)
  have t: "tiles (t_day s) (t_day e) (map period_days ps)"
    using le rent.intervals_tile window.intervals_tile by (simp add: ps comp_def nxt_def)
  then show "tiles (t_day s) (t_day e) (map period_days ps)" .
  show "length (filter (\<lambda>p. covers (period_days p) d) ps)
       = (if t_day s \<le> d \<and> d \<le> t_day e then 1 else 0)"
    using tiles_cover [OF t, of d] by (simp add: filter_map comp_def)
  have "midx a div 2 = midx b div 2"
    if b: "(a, b) \<in> set (intervals window_next (t_day s) (t_day e))" and ab: "a \<le> b" for a b
  proof -
    have "b < mfirst (next_window (midx a))"
      using interval_in_intervals [OF b] by (simp add: window_next_def)
    then have "midx b < next_window (midx a)"
      using cal.month_of_le [of b] cal.first_less_iff by (meson order_le_less_trans)
    moreover have "midx a \<le> midx b" using ab by (rule cal.month_of_mono)
    ultimately show ?thesis unfolding next_window_def by presburger
  qed
  moreover have "a \<le> b" if "(a, b) \<in> set (intervals window_next (t_day s) (t_day e))" for a b
    using interval_in_intervals [OF that] window.forward [of a] by (simp add: min_def)
  ultimately show "cadence = BillingCadenceBimonthly \<longrightarrow>
       (\<forall>p \<in> set ps. midx (fst (period_days p)) div 2 = midx (snd (period_days p)) div 2)"
    by (auto simp: ps nxt_def lease_consts)
qed

lemma electricity_periods_partition_term_witness:
  "\<exists>ps. BuildBillingPeriods sample_start sample_end BillingCadenceBimonthly = Inr ps
     \<and> length (filter (\<lambda>p. covers (period_days p) (t_day (go_date 2024 2 29 0))) ps) = 1
     \<and> map period_days ps ! 1 = (t_day (go_date 2024 3 1 0), t_day (go_date 2024 4 30 0))"
proof -
  let ?r = "BuildBillingPeriods sample_start sample_end BillingCadenceBimonthly"
  have l: "is_inr ?r \<and> map period_days (projr ?r) ! 1
      = (t_day (go_date 2024 3 1 0), t_day (go_date 2024 4 30 0))" by code_simp
  then obtain ps where ps: "?r = Inr ps"
    "map period_days ps ! 1 = (t_day (go_date 2024 3 1 0), t_day (go_date 2024 4 30 0))"
    by (auto simp: is_inr_iff)
  have ok: "t_off sample_start = t_off sample_end" "time_ok sample_start" "time_ok sample_end"
    "t_day sample_start \<le> t_day (go_date 2024 2 29 0) \<and> t_day (go_date 2024 2 29 0) \<le> t_day sample_end"
    by code_simp+
  show ?thesis
    using electricity_periods_partition_term [OF ps(1) ok(1-3), of "t_day (go_date 2024 2 29 0)"] ps ok(4)
    by simp
qed

text \<open>
  The next payment date is right: \<open>NextRentPaymentDateAfter\<close> returns a
  date strictly after the operation date that is the lease start or one of the
  anchored boundaries after it, and no earlier boundary is after the operation
  date.
\<close>

theorem next_payment_date_is_first_boundary:
  assumes "t_off s = t_off d" "isValidRentCadence cadence"
  shows "\<exists>n. t_day (NextRentPaymentDateAfter s d cadence)
             = (if n = 0 then t_day s
                else anchored_day (time_dayOfMonth s) (midx (t_day s) + int n * rentCadenceMonths cadence))
           \<and> t_day d < t_day (NextRentPaymentDateAfter s d cadence)
           \<and> (\<forall>m. t_day d < anchored_day (time_dayOfMonth s)
                               (midx (t_day s) + int m * rentCadenceMonths cadence) \<longrightarrow>
                   t_day (NextRentPaymentDateAfter s d cadence)
                     \<le> anchored_day (time_dayOfMonth s)
                          (midx (t_day s) + int m * rentCadenceMonths cadence))"
proof -
  let ?step = "rentCadenceMonths cadence" and ?a = "time_dayOfMonth s"
  let ?f = "rent_next ?step ?a"
  have v: "0 < ?step" "1 \<le> ?a"
    using assms rentCadenceMonths_pos day_range by auto
  have it: "(?f ^^ n) (t_day s) = anchored_day ?a (midx (t_day s) + int n * ?step)" for n
    using rent_iter [OF v, of n "t_day s"] anchored_day_self [of s] by (cases n) auto
  obtain n where n: "first_boundary ?f (t_day s) (t_day d) = (?f ^^ n) (t_day s)"
    using rent.boundary_iter by blast
  show ?thesis
    using n rent.boundary_after [of "t_day d" ?step ?a "t_day s"]
      rent.boundary_least [where d = "t_day d" and c = "t_day s" and step = ?step and a = ?a]
      anchored_day_self [of s]
    by (intro exI [of _ n]) (auto simp: next_payment_eq [OF assms] it)
qed

lemma next_payment_date_is_first_boundary_witness:
  "t_day (go_date 2024 2 10 0)
     < t_day (NextRentPaymentDateAfter sample_start (go_date 2024 2 10 0) BillingCadenceMonthly)
   \<and> NextRentPaymentDateAfter sample_start (go_date 2024 2 10 0) BillingCadenceMonthly
     = go_date 2024 2 29 0"
proof -
  have "t_off sample_start = t_off (go_date 2024 2 10 0)" "isValidRentCadence BillingCadenceMonthly"
    by code_simp+
  moreover have "NextRentPaymentDateAfter sample_start (go_date 2024 2 10 0) BillingCadenceMonthly
     = go_date 2024 2 29 0"
    by code_simp
  ultimately show ?thesis
    using next_payment_date_is_first_boundary by blast
qed

text \<open>
  C19.  Regeneration is exact.  Cutting the rest of the term from the next
  payment date, with the day of the original start as anchor (what a rent
  change does), yields exactly those periods of the original schedule that
  start on or after that date: regenerated bills neither overlap nor leave a
  gap after the periods that are kept.
\<close>

theorem regeneration_is_suffix_of_schedule:
  assumes "BuildRentBillingPeriods s e cadence = Inr ps"
    and "t_off s = t_off e" "t_off s = t_off d"
    and "boundary = NextRentPaymentDateAfter s d cadence" "\<not> time_after boundary e"
  shows "BuildRentBillingPeriodsFromAnchor boundary e cadence (time_dayOfMonth s)
       = Inr (filter (\<lambda>p. \<not> time_before (PeriodStart p) boundary) ps)"
proof -
  let ?a = "time_dayOfMonth s"
  let ?f = "rent_next (rentCadenceMonths cadence) ?a"
  have f: "1 \<le> ?a" "?a \<le> 31" "isValidRentCadence cadence"
    "ps = map (rent_period (t_off s)) (intervals ?f (t_day s) (t_day e))"
    using assms(1) rent_periods_iff [OF assms(2)] by (auto simp: BuildRentBillingPeriods_def)
  let ?b = "first_boundary ?f (t_day s) (t_day d)"
  have b: "boundary = day_at ?b (t_off s)"
    using assms(4) next_payment_eq [OF assms(3) f(3)] by simp
  obtain n where n: "?b = (?f ^^ n) (t_day s)" using rent.boundary_iter by blast
  have "intervals ?f ?b (t_day e) = filter (\<lambda>p. ?b \<le> fst p) (intervals ?f (t_day s) (t_day e))"
    unfolding n by (rule rent.suffix)
  moreover have "\<not> time_before (PeriodStart (rent_period (t_off s) p)) boundary \<longleftrightarrow> ?b \<le> fst p" for p
    by (auto simp: b rent_period_def time_before_def instant_def)
  ultimately have "filter (\<lambda>p. \<not> time_before (PeriodStart p) boundary) ps
      = map (rent_period (t_off s)) (intervals ?f ?b (t_day e))"
    by (simp add: f(4) filter_map comp_def)
  then show ?thesis
    using f assms(2,5) by (simp add: rent_periods_iff b)
qed

lemma regeneration_is_suffix_of_schedule_witness:
  "BuildRentBillingPeriodsFromAnchor (go_date 2024 5 31 0) sample_end BillingCadenceMonthly 31
     = Inr (filter (\<lambda>p. \<not> time_before (PeriodStart p) (go_date 2024 5 31 0))
         (projr (BuildRentBillingPeriods sample_start sample_end BillingCadenceMonthly)))"
proof -
  let ?r = "BuildRentBillingPeriods sample_start sample_end BillingCadenceMonthly"
  have "is_inr ?r" by code_simp
  then have r: "?r = Inr (projr ?r)" by (auto simp: is_inr_iff)
  have h: "t_off sample_start = t_off sample_end" "t_off sample_start = t_off (go_date 2024 5 3 0)"
    "go_date 2024 5 31 0
       = NextRentPaymentDateAfter sample_start (go_date 2024 5 3 0) BillingCadenceMonthly"
    "\<not> time_after (go_date 2024 5 31 0) sample_end" "time_dayOfMonth sample_start = 31"
    by code_simp+
  show ?thesis
    using regeneration_is_suffix_of_schedule [OF r h(1-4)] h(5) by simp
qed

text \<open>
  The two monthly loops agree: for monthly cadence the electricity
  schedule of a lease is its rent schedule, due dates included, although the
  one computes the due date from the anchor and the other copies the start.
\<close>

theorem monthly_schedules_agree:
  assumes "t_off s = t_off e"
  shows "BuildBillingPeriods s e BillingCadenceMonthly
       = BuildRentBillingPeriods s e BillingCadenceMonthly"
proof (cases "time_after s e")
  case True
  then show ?thesis
    by (simp add: BuildBillingPeriods_def BuildRentBillingPeriods_def
        BuildRentBillingPeriodsFromAnchor_def)
next
  case False
  let ?a = "time_dayOfMonth s"
  have m: "rentCadenceMonths BillingCadenceMonthly = 1" "isValidRentCadence BillingCadenceMonthly"
    "isValidElectricityCadence BillingCadenceMonthly"
    by code_simp+
  have due: "anchored_day ?a (midx d) = d"
    if d: "d \<in> fst ` set (intervals (rent_next 1 ?a) (t_day s) (t_day e))" for d
  proof -
    obtain i where i: "i < length (intervals (rent_next 1 ?a) (t_day s) (t_day e))"
      "d = fst (intervals (rent_next 1 ?a) (t_day s) (t_day e) ! i)"
      using d by (auto simp: in_set_conv_nth)
    then have "d = (rent_next 1 ?a ^^ i) (t_day s)" by (simp add: rent.nth_start)
    then show ?thesis
      using anchored_day_self [of s] rent_iter [of 1 ?a i "t_day s"] day_range(1) [of s]
      by (cases i) auto
  qed
  have "map (electricity_period (t_off s) ?a) (intervals (rent_next 1 ?a) (t_day s) (t_day e))
      = map (rent_period (t_off s)) (intervals (rent_next 1 ?a) (t_day s) (t_day e))"
    using due by (auto simp: electricity_period_def rent_period_def)
  then have "BuildBillingPeriods s e BillingCadenceMonthly
      = Inr (map (rent_period (t_off s)) (intervals (rent_next 1 ?a) (t_day s) (t_day e)))"
    using False m assms by (simp add: electricity_periods_iff)
  moreover have "BuildRentBillingPeriods s e BillingCadenceMonthly
      = Inr (map (rent_period (t_off s)) (intervals (rent_next 1 ?a) (t_day s) (t_day e)))"
    using False m assms day_range [of s] by (simp add: BuildRentBillingPeriods_def rent_periods_iff)
  ultimately show ?thesis by simp
qed

lemma monthly_schedules_agree_witness:
  "BuildBillingPeriods sample_start sample_end BillingCadenceMonthly
     = BuildRentBillingPeriods sample_start sample_end BillingCadenceMonthly"
  by (rule monthly_schedules_agree) code_simp

end
