(* ===== verification/LeaseRepo.thy ===== *)
theory LeaseRepo
  imports Store BillingPeriods "HOL-Library.Product_Lexorder" "HOL-Library.List_Lexorder"
    "HOL-Library.Char_ord"
begin

text \<open>
  The SQL statements of the lease repository (platform/database/leases) and of
  the accounting part of the billing repository, and the adapters of
  server/lease_adapters.go that translate their sentinel errors for the
  application layer.  Every statement is one \<open>stmt\<close> whose body is the
  statement's effect on the tables.
\<close>

definition ErrLeaseNotFound_app :: gerr where
  "ErrLeaseNotFound_app = Sentinel ''applease.ErrLeaseNotFound''"
definition ErrTenantNotFound_app :: gerr where
  "ErrTenantNotFound_app = Sentinel ''applease.ErrTenantNotFound''"
definition ErrRoomNotFound_app :: gerr where
  "ErrRoomNotFound_app = Sentinel ''applease.ErrRoomNotFound''"
definition ErrForceTerminationNotFound_app :: gerr where
  "ErrForceTerminationNotFound_app = Sentinel ''applease.ErrForceTerminationNotFound''"
definition ErrPropertyAccountNotFound_app :: gerr where
  "ErrPropertyAccountNotFound_app = Sentinel ''applease.ErrPropertyAccountNotFound''"

definition ErrLeaseNotFound_db :: gerr where
  "ErrLeaseNotFound_db = Sentinel ''leases.ErrLeaseNotFound''"
definition ErrTenantNotFound_db :: gerr where
  "ErrTenantNotFound_db = Sentinel ''leases.ErrTenantNotFound''"
definition ErrRoomNotFound_db :: gerr where
  "ErrRoomNotFound_db = Sentinel ''leases.ErrRoomNotFound''"
definition ErrForceTerminationNotFound_db :: gerr where
  "ErrForceTerminationNotFound_db = Sentinel ''leases.ErrForceTerminationNotFound''"
definition ErrNotFound_billing :: gerr where
  "ErrNotFound_billing = Sentinel ''billing.ErrNotFound''"

text \<open>A time passed to a \<open>DATE\<close> column and read back: midnight UTC of its
  calendar day.\<close>

definition pg_date :: "gtime \<Rightarrow> gtime" where
  "pg_date t = day_at (t_day t) 0"

lemma pg_date_simps [simp]: "t_day (pg_date t) = t_day t" "pg_date (pg_date t) = pg_date t"
  "t_off (pg_date t) = 0" "time_ok (pg_date t)"
  by (simp_all add: pg_date_def)

text \<open>\<open>sql.ErrNoRows\<close> mapped to a sentinel of the repository.\<close>

definition found_or :: "gerr \<Rightarrow> 'a option \<Rightarrow> 'a tx" where
  "found_or e x = (case x of None \<Rightarrow> tx_throw e | Some y \<Rightarrow> tx_return y)"

lemma found_or_ok [tx_simps]: "found_or e x w = (Inr y, v) \<longleftrightarrow> x = Some y \<and> v = w"
  by (auto simp: found_or_def tx_throw_def tx_return_def split: option.splits)

section \<open>Parameters\<close>

record create_lease_params =
  clp_TenantID :: string
  clp_RoomID :: string
  clp_PropertyID :: string
  clp_RentAmount :: int
  clp_StartDate :: gtime
  clp_EndDate :: gtime
  clp_RentBillingCadence :: string
  clp_ElectricityBillingCadence :: string
  clp_StartingMeterReading :: int
  clp_DepositAmount :: int
  clp_Notes :: "string option"

record create_bill_params =
  cbp_LeaseID :: string
  cbp_TenantID :: string
  cbp_RoomID :: string
  cbp_PropertyID :: string
  cbp_Type :: string
  cbp_Amount :: "int option"
  cbp_PeriodStart :: gtime
  cbp_PeriodEnd :: gtime
  cbp_DueDate :: gtime
  cbp_Status :: string

record lease_room =
  room_ID :: string
  room_PropertyID :: string
  room_Status :: string
  room_DefaultElectricityBillingCadence :: string

record lease_bill =
  bill_ID :: string
  bill_Type :: string
  bill_Status :: string
  bill_PeriodStart :: gtime
  bill_PeriodEnd :: gtime
  bill_Version :: int

section \<open>Queries\<close>

definition FindTenantByID :: "string \<Rightarrow> (string \<times> string) tx" where
  "FindTenantByID tenantID =
     tx_bind (stmt ''find tenant by id'' (\<lambda>_ d.
         (find (\<lambda>t. tn_ID t = tenantID) (live (db_tenants d)), d)))
       (\<lambda>r. found_or ErrTenantNotFound_db (map_option (\<lambda>t. (tn_ID t, tn_Status t)) r))"

text \<open>The join of a live room with its live property.\<close>

definition FindRoomByIDForUpdate :: "string \<Rightarrow> lease_room tx" where
  "FindRoomByIDForUpdate roomID =
     tx_bind (stmt ''find room by id for update'' (\<lambda>_ d.
         (case find (\<lambda>r. rm_ID r = roomID) (live (db_rooms d)) of
            None \<Rightarrow> None
          | Some r \<Rightarrow>
              map_option (\<lambda>p. \<lparr>room_ID = rm_ID r, room_PropertyID = rm_PropertyID r,
                    room_Status = rm_Status r,
                    room_DefaultElectricityBillingCadence = pr_DefaultElectricityBillingCadence p\<rparr>)
                (find (\<lambda>p. pr_ID p = rm_PropertyID r) (live (db_properties d))), d)))
       (\<lambda>r. found_or ErrRoomNotFound_db r)"

definition lease_by_id :: "string \<Rightarrow> db \<Rightarrow> lease option" where
  "lease_by_id leaseID d = find (\<lambda>l. l_ID l = leaseID) (live (db_leases d))"

definition FindLeaseByIDForUpdate :: "string \<Rightarrow> lease tx" where
  "FindLeaseByIDForUpdate leaseID =
     tx_bind (stmt ''find lease by id for update'' (\<lambda>_ d. (lease_by_id leaseID d, d)))
       (\<lambda>r. found_or ErrLeaseNotFound_db r)"

definition bill_view :: "bill \<Rightarrow> lease_bill" where
  "bill_view b = \<lparr>bill_ID = b_ID b, bill_Type = b_Type b, bill_Status = b_Status b,
     bill_PeriodStart = b_PeriodStart b, bill_PeriodEnd = b_PeriodEnd b, bill_Version = b_Version b\<rparr>"

definition bills_of :: "string \<Rightarrow> db \<Rightarrow> bill list" where
  "bills_of leaseID d = filter (\<lambda>b. b_LeaseID b = leaseID) (live (db_bills d))"

definition ListBillsByLeaseIDForUpdate :: "string \<Rightarrow> lease_bill list tx" where
  "ListBillsByLeaseIDForUpdate leaseID =
     stmt ''list bills by lease id for update'' (\<lambda>_ d.
       (map bill_view (sort_key (\<lambda>b. (t_day (b_PeriodStart b), b_Type b, b_ID b))
          (bills_of leaseID d)), d))"

definition HasLockedRentBillsFromDueDate :: "string \<Rightarrow> gtime \<Rightarrow> bool tx" where
  "HasLockedRentBillsFromDueDate leaseID dueDate =
     stmt ''check locked rent bills from due date'' (\<lambda>_ d.
       (\<exists>b \<in> set (bills_of leaseID d). b_Type b = ''rent''
           \<and> t_day dueDate \<le> t_day (b_DueDate b)
           \<and> b_Status b \<notin> {''pending_payment'', ''pending_meter'', ''voided''}, d))"

section \<open>Lease writes\<close>

text \<open>\<open>UPDATE leases SET ... WHERE id = $1 AND deleted_at IS NULL RETURNING ...\<close>:
  every update bumps the version and \<open>updated_at\<close>.\<close>

definition update_lease_returning ::
    "string \<Rightarrow> env \<Rightarrow> string \<Rightarrow> (lease \<Rightarrow> lease) \<Rightarrow> lease tx" where
  "update_lease_returning ctx E leaseID f =
     tx_bind (stmt ctx (\<lambda>_ d.
         let touch = (\<lambda>l. l\<lparr>l_UpdatedAt := e_now E, l_Version := l_Version l + 1\<rparr>);
             d' = d\<lparr>db_leases := tab_update (\<lambda>l. l_ID l = leaseID) (touch \<circ> f) (db_leases d)\<rparr>
         in (lease_by_id leaseID d', d')))
       (\<lambda>r. found_or ErrLeaseNotFound_db r)"

definition new_lease :: "env \<Rightarrow> nat \<Rightarrow> create_lease_params \<Rightarrow> lease" where
  "new_lease E n params =
     \<lparr>l_ID = e_id E n, l_TenantID = clp_TenantID params,
      l_PropertyID = clp_PropertyID params, l_RoomID = clp_RoomID params,
      l_RentAmount = clp_RentAmount params,
      l_StartDate = pg_date (clp_StartDate params), l_EndDate = pg_date (clp_EndDate params),
      l_ActualMoveOutDate = None, l_RentBillingCadence = clp_RentBillingCadence params,
      l_ElectricityBillingCadence = clp_ElectricityBillingCadence params,
      l_StartingMeterReading = Some (clp_StartingMeterReading params),
      l_Status = ''active'', l_DepositAmount = clp_DepositAmount params,
      l_DepositRefundAmount = None, l_DepositDeductionAmount = None,
      l_DepositStatus = ''held'', l_DepositDeductionReason = None,
      l_Notes = clp_Notes params, l_TerminationReason = None, l_SettlementDetail = None,
      l_CreatedAt = e_now E, l_UpdatedAt = e_now E, l_Version = 1\<rparr>"

definition CreateLease :: "env \<Rightarrow> create_lease_params \<Rightarrow> lease tx" where
  "CreateLease E params =
     stmt ''create lease'' (\<lambda>n d.
       let l = new_lease E n params
       in (l, d\<lparr>db_leases := tab_insert l (db_leases d)\<rparr>))"

definition UpdateLeaseConditions :: "env \<Rightarrow> string \<Rightarrow> int \<Rightarrow> lease tx" where
  "UpdateLeaseConditions E leaseID rentAmount =
     update_lease_returning ''update lease conditions'' E leaseID
       (\<lambda>l. l\<lparr>l_RentAmount := rentAmount\<rparr>)"

definition SettleDeposit_repo :: "env \<Rightarrow> string \<Rightarrow> int \<Rightarrow> int \<Rightarrow> string option \<Rightarrow> lease tx" where
  "SettleDeposit_repo E leaseID refundAmount deductionAmount reason =
     update_lease_returning ''settle lease deposit'' E leaseID
       (\<lambda>l. l\<lparr>l_DepositStatus := ''settled'', l_DepositRefundAmount := Some refundAmount,
              l_DepositDeductionAmount := Some deductionAmount,
              l_DepositDeductionReason := reason\<rparr>)"

text \<open>\<open>COALESCE(new, old)\<close>.\<close>

definition coalesce :: "'a option \<Rightarrow> 'a option \<Rightarrow> 'a option" where
  "coalesce x y = (case x of None \<Rightarrow> y | Some _ \<Rightarrow> x)"

definition TerminateLease_repo ::
    "env \<Rightarrow> string \<Rightarrow> gtime \<Rightarrow> gtime option \<Rightarrow> string \<Rightarrow> jval option \<Rightarrow> lease tx" where
  "TerminateLease_repo E leaseID endDate actualMoveOutDate reason settlementDetail =
     update_lease_returning ''terminate lease'' E leaseID
       (\<lambda>l. l\<lparr>l_Status := ''terminated'', l_EndDate := pg_date endDate,
              l_TerminationReason := Some reason,
              l_SettlementDetail := coalesce settlementDetail (l_SettlementDetail l),
              l_ActualMoveOutDate :=
                coalesce (map_option pg_date actualMoveOutDate) (l_ActualMoveOutDate l)\<rparr>)"

definition ForceTerminateLease_repo ::
    "env \<Rightarrow> string \<Rightarrow> gtime \<Rightarrow> gtime option \<Rightarrow> string \<Rightarrow> string \<Rightarrow> lease tx" where
  "ForceTerminateLease_repo E leaseID terminationDate actualMoveOutDate reason depositStatus =
     update_lease_returning ''force terminate lease'' E leaseID
       (\<lambda>l. l\<lparr>l_Status := ''force_terminated'', l_EndDate := pg_date terminationDate,
              l_TerminationReason := Some reason, l_DepositStatus := depositStatus,
              l_ActualMoveOutDate :=
                coalesce (map_option pg_date actualMoveOutDate) (l_ActualMoveOutDate l)\<rparr>)"

section \<open>Bill writes\<close>

definition update_bills :: "env \<Rightarrow> (bill \<Rightarrow> bool) \<Rightarrow> (bill \<Rightarrow> bill) \<Rightarrow> db \<Rightarrow> db" where
  "update_bills E P f d =
     d\<lparr>db_bills := tab_update P
         (\<lambda>b. (f b)\<lparr>b_UpdatedAt := e_now E, b_Version := b_Version b + 1\<rparr>) (db_bills d)\<rparr>"

definition VoidRentBillsFromDueDate :: "env \<Rightarrow> string \<Rightarrow> gtime \<Rightarrow> unit tx" where
  "VoidRentBillsFromDueDate E leaseID dueDate =
     stmt ''void rent bills from due date'' (\<lambda>_ d.
       ((), update_bills E (\<lambda>b. b_LeaseID b = leaseID \<and> b_Type b = ''rent''
                 \<and> t_day dueDate \<le> t_day (b_DueDate b)
                 \<and> b_Status b \<in> {''pending_payment'', ''pending_meter''})
               (\<lambda>b. b\<lparr>b_Status := ''voided''\<rparr>) d))"

definition VoidBillsOverlappingOrAfter :: "env \<Rightarrow> string \<Rightarrow> gtime \<Rightarrow> unit tx" where
  "VoidBillsOverlappingOrAfter E leaseID boundary =
     stmt ''void bills overlapping or after boundary'' (\<lambda>_ d.
       ((), update_bills E (\<lambda>b. b_LeaseID b = leaseID
                 \<and> t_day boundary \<le> t_day (b_PeriodEnd b)
                 \<and> b_Status b \<in> {''pending_payment'', ''pending_meter''})
               (\<lambda>b. b\<lparr>b_Status := ''voided''\<rparr>) d))"

definition WriteOffBillsWithCount :: "env \<Rightarrow> string list \<Rightarrow> string \<Rightarrow> int tx" where
  "WriteOffBillsWithCount E billIDs reason =
     (if billIDs = [] then tx_return 0
      else stmt ''write off bills'' (\<lambda>_ d.
        let P = (\<lambda>b. b_ID b \<in> set billIDs \<and> b_Status b \<notin> {''paid'', ''voided''})
        in (int (length (filter P (live (db_bills d)))),
            update_bills E P (\<lambda>b. b\<lparr>b_Status := ''written_off'',
                                     b_WrittenOffReason := Some reason\<rparr>) d)))"

definition WriteOffBills :: "env \<Rightarrow> string list \<Rightarrow> string \<Rightarrow> unit tx" where
  "WriteOffBills E billIDs reason =
     tx_bind (WriteOffBillsWithCount E billIDs reason) (\<lambda>_. tx_return ())"

definition new_bill :: "env \<Rightarrow> nat \<Rightarrow> create_bill_params \<Rightarrow> bill" where
  "new_bill E n p =
     \<lparr>b_ID = e_id E n, b_LeaseID = cbp_LeaseID p, b_TenantID = cbp_TenantID p,
      b_RoomID = cbp_RoomID p, b_PropertyID = cbp_PropertyID p, b_Type = cbp_Type p,
      b_Amount = cbp_Amount p, b_PeriodStart = pg_date (cbp_PeriodStart p),
      b_PeriodEnd = pg_date (cbp_PeriodEnd p), b_DueDate = pg_date (cbp_DueDate p),
      b_Status = cbp_Status p, b_PaymentMethod = None, b_PaidAt = None, b_PaidAmount = None,
      b_MeterPreviousReading = None, b_MeterCurrentReading = None, b_MeterUnitPrice = None,
      b_MeterRecordedAt = None, b_WrittenOffReason = None, b_OverdueNoticeCount = 0,
      b_CreatedAt = e_now E, b_UpdatedAt = e_now E, b_Version = 1\<rparr>"

fun insert_bills :: "env \<Rightarrow> create_bill_params list \<Rightarrow> unit tx" where
  "insert_bills E [] = tx_return ()"
| "insert_bills E (p # ps) =
     tx_bind (stmt ''create bill for lease'' (\<lambda>n d.
         ((), d\<lparr>db_bills := tab_insert (new_bill E n p) (db_bills d)\<rparr>)))
       (\<lambda>_. insert_bills E ps)"

definition CreateBills :: "env \<Rightarrow> create_bill_params list \<Rightarrow> unit tx" where
  "CreateBills E params =
     (if params = [] then tx_return ()
      else tx_bind (stmt ''prepare create bills'' (\<lambda>_ d. ((), d)))
             (\<lambda>_. insert_bills E params))"

section \<open>Force terminations\<close>

definition CreateForceTermination ::
    "env \<Rightarrow> string \<Rightarrow> string \<Rightarrow> string \<Rightarrow> string \<Rightarrow> force_termination_row tx" where
  "CreateForceTermination E leaseID initiatedBy reason depositHandling =
     stmt ''create force termination'' (\<lambda>n d.
       let ft = \<lparr>ft_ID = e_id E n, ft_LeaseID = leaseID, ft_InitiatedBy = initiatedBy,
                 ft_Reason = reason, ft_DepositHandling = depositHandling,
                 ft_Status = ''in_progress'', ft_CreatedAt = e_now E, ft_UpdatedAt = e_now E\<rparr>
       in (ft, d\<lparr>db_force_terminations := db_force_terminations d @ [ft]\<rparr>))"

fun insert_force_termination_bills :: "env \<Rightarrow> string \<Rightarrow> string list \<Rightarrow> unit tx" where
  "insert_force_termination_bills E ftID [] = tx_return ()"
| "insert_force_termination_bills E ftID (b # bs) =
     tx_bind (stmt ''create force termination bill'' (\<lambda>_ d.
         ((), d\<lparr>db_force_termination_bills := db_force_termination_bills d @
               [\<lparr>fb_ForceTerminationID = ftID, fb_BillID = b, fb_Status = ''pending'',
                 fb_UpdatedAt = e_now E\<rparr>]\<rparr>)))
       (\<lambda>_. insert_force_termination_bills E ftID bs)"

definition CreateForceTerminationBills :: "env \<Rightarrow> string \<Rightarrow> string list \<Rightarrow> unit tx" where
  "CreateForceTerminationBills E ftID billIDs =
     (if billIDs = [] then tx_return ()
      else tx_bind (stmt ''prepare create force termination bills'' (\<lambda>_ d. ((), d)))
             (\<lambda>_. insert_force_termination_bills E ftID billIDs))"

definition MarkForceTerminationBillsDone :: "env \<Rightarrow> string \<Rightarrow> string list \<Rightarrow> unit tx" where
  "MarkForceTerminationBillsDone E ftID billIDs =
     (if billIDs = [] then tx_return ()
      else stmt ''mark force termination bills done'' (\<lambda>_ d.
        ((), d\<lparr>db_force_termination_bills :=
            map (\<lambda>fb. if fb_ForceTerminationID fb = ftID \<and> fb_BillID fb \<in> set billIDs
                      then fb\<lparr>fb_Status := ''done'', fb_UpdatedAt := e_now E\<rparr> else fb)
              (db_force_termination_bills d)\<rparr>)))"

definition CompleteForceTermination :: "env \<Rightarrow> string \<Rightarrow> unit tx" where
  "CompleteForceTermination E ftID =
     stmt ''complete force termination'' (\<lambda>_ d.
       ((), d\<lparr>db_force_terminations :=
           map (\<lambda>ft. if ft_ID ft = ftID then ft\<lparr>ft_Status := ''completed'', ft_UpdatedAt := e_now E\<rparr>
                     else ft) (db_force_terminations d)\<rparr>))"

record force_termination_bill =
  ftb_BillID :: string
  ftb_Status :: string
  ftb_Type :: "string option"
  ftb_PeriodStart :: "gtime option"
  ftb_PeriodEnd :: "gtime option"

record force_termination =
  ftd_ID :: string
  ftd_LeaseID :: string
  ftd_PropertyID :: string
  ftd_RoomID :: string
  ftd_TenantID :: string
  ftd_PropertyLabel :: string
  ftd_RoomLabel :: string
  ftd_TenantLabel :: string
  ftd_InitiatedByLabel :: string
  ftd_Status :: string
  ftd_InitiatedBy :: string
  ftd_Reason :: string
  ftd_DepositHandling :: string
  ftd_Bills :: "force_termination_bill list"
  ftd_CreatedAt :: gtime
  ftd_UpdatedAt :: gtime

text \<open>\<open>LEFT JOIN ... COALESCE(x.name, id::text)\<close>: the label of a row, whether it
  is soft-deleted or not, or its id when there is none.\<close>

definition label_of :: "('r \<Rightarrow> string) \<Rightarrow> ('r \<Rightarrow> string) \<Rightarrow> 'r list \<Rightarrow> string \<Rightarrow> string" where
  "label_of key name rows k = (case find (\<lambda>r. key r = k) rows of None \<Rightarrow> k | Some r \<Rightarrow> name r)"

definition force_termination_detail :: "db \<Rightarrow> string \<Rightarrow> force_termination option" where
  "force_termination_detail d ftID =
     (case find (\<lambda>ft. ft_ID ft = ftID) (db_force_terminations d) of
        None \<Rightarrow> None
      | Some ft \<Rightarrow>
          map_option (\<lambda>l.
            \<lparr>ftd_ID = ft_ID ft, ftd_LeaseID = ft_LeaseID ft, ftd_PropertyID = l_PropertyID l,
             ftd_RoomID = l_RoomID l, ftd_TenantID = l_TenantID l,
             ftd_PropertyLabel = label_of pr_ID pr_Name (all_rows (db_properties d)) (l_PropertyID l),
             ftd_RoomLabel = label_of rm_ID rm_Name (all_rows (db_rooms d)) (l_RoomID l),
             ftd_TenantLabel = label_of tn_ID tn_Name (all_rows (db_tenants d)) (l_TenantID l),
             ftd_InitiatedByLabel =
               label_of us_ID (\<lambda>u. case us_Name u of Some n \<Rightarrow> n | None \<Rightarrow> us_Email u)
                 (all_rows (db_users d)) (ft_InitiatedBy ft),
             ftd_Status = ft_Status ft, ftd_InitiatedBy = ft_InitiatedBy ft,
             ftd_Reason = ft_Reason ft, ftd_DepositHandling = ft_DepositHandling ft,
             ftd_Bills = [], ftd_CreatedAt = ft_CreatedAt ft, ftd_UpdatedAt = ft_UpdatedAt ft\<rparr>)
            (find (\<lambda>l. l_ID l = ft_LeaseID ft) (all_rows (db_leases d))))"

definition force_termination_bills :: "db \<Rightarrow> string \<Rightarrow> force_termination_bill list" where
  "force_termination_bills d ftID =
     map (\<lambda>fb. let b = find (\<lambda>b. b_ID b = fb_BillID fb) (all_rows (db_bills d))
               in \<lparr>ftb_BillID = fb_BillID fb, ftb_Status = fb_Status fb,
                   ftb_Type = map_option b_Type b, ftb_PeriodStart = map_option b_PeriodStart b,
                   ftb_PeriodEnd = map_option b_PeriodEnd b\<rparr>)
       (sort_key fb_BillID
         (filter (\<lambda>fb. fb_ForceTerminationID fb = ftID) (db_force_termination_bills d)))"

definition FindForceTerminationByID :: "string \<Rightarrow> force_termination tx" where
  "FindForceTerminationByID ftID =
     tx_bind (stmt ''find force termination by id'' (\<lambda>_ d. (force_termination_detail d ftID, d)))
       (\<lambda>r. tx_bind (found_or ErrForceTerminationNotFound_db r)
         (\<lambda>ft. tx_bind (stmt ''list force termination bills''
                          (\<lambda>_ d. (force_termination_bills d ftID, d)))
           (\<lambda>bs. tx_return (ft\<lparr>ftd_Bills := bs\<rparr>))))"

section \<open>Rooms and tenants\<close>

definition set_room_status :: "env \<Rightarrow> string \<Rightarrow> string \<Rightarrow> db \<Rightarrow> db" where
  "set_room_status E roomID status d =
     d\<lparr>db_rooms := tab_update (\<lambda>r. rm_ID r = roomID)
         (\<lambda>r. r\<lparr>rm_Status := status, rm_UpdatedAt := e_now E\<rparr>) (db_rooms d)\<rparr>"

definition MarkRoomOccupied :: "env \<Rightarrow> string \<Rightarrow> unit tx" where
  "MarkRoomOccupied E roomID =
     stmt ''mark room occupied'' (\<lambda>_ d. ((), set_room_status E roomID ''occupied'' d))"

definition MarkRoomVacant :: "env \<Rightarrow> string \<Rightarrow> unit tx" where
  "MarkRoomVacant E roomID =
     stmt ''mark room vacant'' (\<lambda>_ d. ((), set_room_status E roomID ''vacant'' d))"

definition ActivateTenant :: "env \<Rightarrow> string \<Rightarrow> unit tx" where
  "ActivateTenant E tenantID =
     stmt ''activate tenant'' (\<lambda>_ d.
       ((), d\<lparr>db_tenants := tab_update (\<lambda>t. tn_ID t = tenantID \<and> tn_Status t = ''inactive'')
               (\<lambda>t. t\<lparr>tn_Status := ''active'', tn_UpdatedAt := e_now E\<rparr>) (db_tenants d)\<rparr>))"

definition has_active_lease :: "string \<Rightarrow> db \<Rightarrow> bool" where
  "has_active_lease tenantID d \<longleftrightarrow>
     (\<exists>l \<in> set (live (db_leases d)). l_TenantID l = tenantID \<and> l_Status l \<in> {''active'', ''expired''})"

definition DeactivateTenantIfNoActiveLeases :: "env \<Rightarrow> string \<Rightarrow> unit tx" where
  "DeactivateTenantIfNoActiveLeases E tenantID =
     stmt ''deactivate tenant if no active leases'' (\<lambda>_ d.
       ((), d\<lparr>db_tenants := tab_update
               (\<lambda>t. tn_ID t = tenantID \<and> \<not> has_active_lease tenantID d)
               (\<lambda>t. t\<lparr>tn_Status := ''inactive'', tn_UpdatedAt := e_now E\<rparr>) (db_tenants d)\<rparr>))"

section \<open>Accounting entries (platform/database/billing)\<close>

definition FindPropertyAccountByPropertyID :: "string \<Rightarrow> account_row tx" where
  "FindPropertyAccountByPropertyID propertyID =
     tx_bind (stmt ''find property account by property id'' (\<lambda>_ d.
         (find (\<lambda>a. pa_PropertyID a = propertyID) (live (db_accounts d)), d)))
       (\<lambda>r. found_or ErrNotFound_billing r)"

record accounting_entry_params =
  aep_PropertyID :: string
  aep_Category :: string
  aep_AccountingTitleCode :: string
  aep_Amount :: int
  aep_Description :: "string option"
  aep_SourceRef :: jval
  aep_Year :: int
  aep_Month :: int
  aep_SourceDate :: "gtime option"
  aep_RoomLabel :: "string option"
  aep_TenantLabel :: "string option"
  aep_PeriodLabel :: "string option"
  aep_DisplayNote :: "string option"

text \<open>\<open>INSERT ... SELECT ... FROM accounting_titles\<close>: one row per active title with
  the code (there is at most one, \<open>code\<close> is unique); the affected-row count decides
  the error.  The table's defaults give the row its id and creation time.\<close>

definition new_entry ::
    "string \<Rightarrow> gtime \<Rightarrow> string \<Rightarrow> accounting_entry_params \<Rightarrow> title_row \<Rightarrow> entry_row" where
  "new_entry i created accountID p t =
     \<lparr>en_ID = i, en_PropertyAccountID = accountID, en_Category = aep_Category p,
      en_TitleID = ti_ID t, en_TitleCode = ti_Code t, en_TitleName = ti_Name t,
      en_Amount = aep_Amount p, en_Description = aep_Description p,
      en_SourceRef = aep_SourceRef p, en_Year = aep_Year p, en_Month = aep_Month p,
      en_SourceDate = map_option pg_date (aep_SourceDate p),
      en_RoomLabel = aep_RoomLabel p, en_TenantLabel = aep_TenantLabel p,
      en_PeriodLabel = aep_PeriodLabel p, en_DisplayNote = aep_DisplayNote p,
      en_CreatedAt = created\<rparr>"

definition active_titles :: "string \<Rightarrow> db \<Rightarrow> title_row list" where
  "active_titles code d = filter (\<lambda>t. ti_Code t = code \<and> ti_IsActive t) (db_titles d)"

definition InsertAccountingEntry :: "env \<Rightarrow> string \<Rightarrow> accounting_entry_params \<Rightarrow> unit tx" where
  "InsertAccountingEntry E accountID p =
     tx_bind (stmt ''insert accounting entry'' (\<lambda>k d.
         let es = map (new_entry (e_id E k) (e_now E) accountID p) (active_titles (aep_AccountingTitleCode p) d)
         in (length es, d\<lparr>db_entries := db_entries d @ es\<rparr>)))
       (\<lambda>n. if n = 0
            then tx_throw (DriverErr ''insert accounting entry: accounting title code not found'')
            else tx_return ())"

section \<open>Adapters (server/lease_adapters.go)\<close>

text \<open>\<open>switch err { case dbleases.X: return applease.X; default: return err }\<close>:
  the comparison is by identity, so a wrapped error passes through.\<close>

definition adapt :: "gerr \<Rightarrow> gerr \<Rightarrow> gerr \<Rightarrow> gerr" where
  "adapt from_err to_err e = (if e = from_err then to_err else e)"

definition a_FindTenantByID :: "string \<Rightarrow> (string \<times> string) tx" where
  "a_FindTenantByID tenantID =
     tx_map_err (adapt ErrTenantNotFound_db ErrTenantNotFound_app) (FindTenantByID tenantID)"

definition a_FindRoomByIDForUpdate :: "string \<Rightarrow> lease_room tx" where
  "a_FindRoomByIDForUpdate roomID =
     tx_map_err (adapt ErrRoomNotFound_db ErrRoomNotFound_app) (FindRoomByIDForUpdate roomID)"

definition a_FindLeaseByIDForUpdate :: "string \<Rightarrow> lease tx" where
  "a_FindLeaseByIDForUpdate leaseID =
     tx_map_err (adapt ErrLeaseNotFound_db ErrLeaseNotFound_app) (FindLeaseByIDForUpdate leaseID)"

definition a_UpdateLeaseConditions :: "env \<Rightarrow> string \<Rightarrow> int \<Rightarrow> lease tx" where
  "a_UpdateLeaseConditions E leaseID rentAmount =
     tx_map_err (adapt ErrLeaseNotFound_db ErrLeaseNotFound_app)
       (UpdateLeaseConditions E leaseID rentAmount)"

definition a_SettleDeposit :: "env \<Rightarrow> string \<Rightarrow> int \<Rightarrow> int \<Rightarrow> string option \<Rightarrow> lease tx" where
  "a_SettleDeposit E leaseID refundAmount deductionAmount reason =
     tx_map_err (adapt ErrLeaseNotFound_db ErrLeaseNotFound_app)
       (SettleDeposit_repo E leaseID refundAmount deductionAmount reason)"

definition a_TerminateLease ::
    "env \<Rightarrow> string \<Rightarrow> gtime \<Rightarrow> gtime option \<Rightarrow> string \<Rightarrow> jval option \<Rightarrow> lease tx" where
  "a_TerminateLease E leaseID endDate actualMoveOutDate reason settlementDetail =
     tx_map_err (adapt ErrLeaseNotFound_db ErrLeaseNotFound_app)
       (TerminateLease_repo E leaseID endDate actualMoveOutDate reason settlementDetail)"

definition a_ForceTerminateLease ::
    "env \<Rightarrow> string \<Rightarrow> gtime \<Rightarrow> gtime option \<Rightarrow> string \<Rightarrow> string \<Rightarrow> lease tx" where
  "a_ForceTerminateLease E leaseID terminationDate actualMoveOutDate reason depositStatus =
     tx_map_err (adapt ErrLeaseNotFound_db ErrLeaseNotFound_app)
       (ForceTerminateLease_repo E leaseID terminationDate actualMoveOutDate reason depositStatus)"

definition a_FindForceTerminationByID :: "string \<Rightarrow> force_termination tx" where
  "a_FindForceTerminationByID ftID =
     tx_map_err (adapt ErrForceTerminationNotFound_db ErrForceTerminationNotFound_app)
       (FindForceTerminationByID ftID)"

definition CreateDepositAccountingEntry :: "env \<Rightarrow> accounting_entry_params \<Rightarrow> unit tx" where
  "CreateDepositAccountingEntry E params =
     tx_bind (tx_map_err (\<lambda>e. if errors_Is e ErrNotFound_billing
                              then ErrPropertyAccountNotFound_app else e)
               (FindPropertyAccountByPropertyID (aep_PropertyID params)))
       (\<lambda>account. InsertAccountingEntry E (pa_ID account) params)"

section \<open>Effects of successful statements\<close>

lemma FindTenantByID_ok:
  "FindTenantByID tenantID w = (Inr r, v) \<longleftrightarrow>
     \<not> next_fault w \<and> v = (tick w)\<lparr>w_fresh := Suc (w_fresh w)\<rparr>
     \<and> (\<exists>t. find (\<lambda>t. tn_ID t = tenantID) (live (db_tenants (w_db w))) = Some t
           \<and> r = (tn_ID t, tn_Status t))"
  by (auto simp: FindTenantByID_def tx_simps)

definition room_lookup :: "string \<Rightarrow> db \<Rightarrow> lease_room option" where
  "room_lookup roomID d =
    (case find (\<lambda>r. rm_ID r = roomID) (live (db_rooms d)) of
       None \<Rightarrow> None
     | Some r \<Rightarrow> map_option (\<lambda>p. \<lparr>room_ID = rm_ID r, room_PropertyID = rm_PropertyID r,
           room_Status = rm_Status r,
           room_DefaultElectricityBillingCadence = pr_DefaultElectricityBillingCadence p\<rparr>)
         (find (\<lambda>p. pr_ID p = rm_PropertyID r) (live (db_properties d))))"

lemma FindRoomByIDForUpdate_ok:
  "FindRoomByIDForUpdate roomID w = (Inr r, v) \<longleftrightarrow>
     \<not> next_fault w \<and> v = (tick w)\<lparr>w_fresh := Suc (w_fresh w)\<rparr>
     \<and> room_lookup roomID (w_db w) = Some r"
  unfolding FindRoomByIDForUpdate_def by (auto simp: tx_simps room_lookup_def)

lemma FindLeaseByIDForUpdate_ok:
  "FindLeaseByIDForUpdate leaseID w = (Inr l, v) \<longleftrightarrow>
     \<not> next_fault w \<and> v = (tick w)\<lparr>w_fresh := Suc (w_fresh w)\<rparr>
     \<and> lease_by_id leaseID (w_db w) = Some l"
  by (auto simp: FindLeaseByIDForUpdate_def tx_simps)

lemma lease_by_id_Some: "lease_by_id leaseID d = Some l \<Longrightarrow> l \<in> set (live (db_leases d)) \<and> l_ID l = leaseID"
  unfolding lease_by_id_def by (rule find_Some_filter)

definition add_lease :: "lease \<Rightarrow> db \<Rightarrow> db" where
  "add_lease l d = d\<lparr>db_leases := tab_insert l (db_leases d)\<rparr>"

lemma add_lease_simps [simp]:
  "live (db_leases (add_lease l d)) = live (db_leases d) @ [l]"
  "db_bills (add_lease l d) = db_bills d" "db_rooms (add_lease l d) = db_rooms d"
  "db_tenants (add_lease l d) = db_tenants d" "db_entries (add_lease l d) = db_entries d"
  by (simp_all add: add_lease_def)

lemma CreateLease_ok:
  "CreateLease E p w = (Inr l, v) \<longleftrightarrow>
     \<not> next_fault w \<and> l = new_lease E (w_fresh w) p
     \<and> v = (tick w)\<lparr>w_db := add_lease l (w_db w), w_fresh := Suc (w_fresh w)\<rparr>"
  by (auto simp: CreateLease_def Let_def tx_simps add_lease_def)

text \<open>The row an \<open>UPDATE ... RETURNING\<close> gives back.\<close>

definition touched :: "env \<Rightarrow> (lease \<Rightarrow> lease) \<Rightarrow> lease \<Rightarrow> lease" where
  "touched E f l = (f l)\<lparr>l_UpdatedAt := e_now E, l_Version := l_Version (f l) + 1\<rparr>"

definition with_lease :: "env \<Rightarrow> string \<Rightarrow> (lease \<Rightarrow> lease) \<Rightarrow> db \<Rightarrow> db" where
  "with_lease E leaseID f d =
     d\<lparr>db_leases := tab_update (\<lambda>l. l_ID l = leaseID) (touched E f) (db_leases d)\<rparr>"

lemma update_lease_returning_ok:
  assumes "\<And>l. l_ID (f l) = l_ID l"
  shows "update_lease_returning ctx E leaseID f w = (Inr l', v) \<longleftrightarrow>
     \<not> next_fault w
     \<and> v = (tick w)\<lparr>w_db := with_lease E leaseID f (w_db w), w_fresh := Suc (w_fresh w)\<rparr>
     \<and> (\<exists>l. lease_by_id leaseID (w_db w) = Some l \<and> l' = touched E f l)"
proof -
  have t: "(\<lambda>l. l\<lparr>l_UpdatedAt := e_now E, l_Version := l_Version l + 1\<rparr>) \<circ> f = touched E f"
    by (simp add: fun_eq_iff touched_def)
  have id: "l_ID (touched E f l) = l_ID l" for l by (simp add: touched_def assms)
  have "lease_by_id leaseID (with_lease E leaseID f d)
      = map_option (touched E f) (lease_by_id leaseID d)" for d
  proof -
    have "find (\<lambda>l. l_ID l = leaseID) (map (\<lambda>l. if l_ID l = leaseID then touched E f l else l) ls)
        = map_option (touched E f) (find (\<lambda>l. l_ID l = leaseID) ls)" for ls
      by (induction ls) (auto simp: id)
    then show ?thesis by (simp add: lease_by_id_def with_lease_def)
  qed
  then show ?thesis
    unfolding update_lease_returning_def Let_def t with_lease_def [symmetric]
    by (auto simp: tx_simps)
qed

lemma with_lease_simps [simp]:
  "db_bills (with_lease E k f d) = db_bills d" "db_rooms (with_lease E k f d) = db_rooms d"
  "db_tenants (with_lease E k f d) = db_tenants d"
  "db_entries (with_lease E k f d) = db_entries d"
  "db_accounts (with_lease E k f d) = db_accounts d"
  "db_titles (with_lease E k f d) = db_titles d"
  "db_properties (with_lease E k f d) = db_properties d"
  "live (db_leases (with_lease E k f d))
     = map (\<lambda>l. if l_ID l = k then touched E f l else l) (live (db_leases d))"
  by (simp_all add: with_lease_def)

fun created_bills :: "env \<Rightarrow> nat \<Rightarrow> create_bill_params list \<Rightarrow> bill list" where
  "created_bills E n [] = []"
| "created_bills E n (p # ps) = new_bill E n p # created_bills E (Suc n) ps"

definition add_bills :: "bill list \<Rightarrow> db \<Rightarrow> db" where
  "add_bills bs d = d\<lparr>db_bills := db_bills d @ map (\<lambda>b. (b, False)) bs\<rparr>"

lemma add_bills_simps [simp]:
  "live (db_bills (add_bills bs d)) = live (db_bills d) @ bs"
  "db_leases (add_bills bs d) = db_leases d" "db_rooms (add_bills bs d) = db_rooms d"
  "db_tenants (add_bills bs d) = db_tenants d" "db_entries (add_bills bs d) = db_entries d"
  "add_bills [] d = d" "add_bills bs' (add_bills bs d) = add_bills (bs @ bs') d"
  by (simp_all add: add_bills_def live_def comp_def)

lemma add_one_bill:
  "d\<lparr>db_bills := tab_insert b (db_bills d)\<rparr> = add_bills [b] d"
  by (simp add: add_bills_def tab_insert_def)

lemma insert_bills_ok:
  "insert_bills E ps w = (Inr u, v) \<Longrightarrow>
     w_db v = add_bills (created_bills E (w_fresh w) ps) (w_db w) \<and> w_events v = w_events w"
proof (induction ps arbitrary: w)
  case Nil
  then show ?case by (simp add: tx_simps)
next
  case (Cons p ps)
  then show ?case by (auto simp: tx_simps add_one_bill)
qed

lemma CreateBills_ok:
  "CreateBills E ps w = (Inr u, v) \<Longrightarrow>
     \<exists>n. w_db v = add_bills (created_bills E n ps) (w_db w) \<and> w_events v = w_events w"
  by (cases "ps = []") (auto simp: CreateBills_def tx_simps dest!: insert_bills_ok)

text \<open>What a created bill takes from its seed, whatever its id.\<close>

lemma created_bills_map:
  assumes "\<And>n p. g (new_bill E n p) = h p"
  shows "map g (created_bills E n ps) = map h ps"
  using assms by (induction ps arbitrary: n) simp_all

lemma set_created_bills:
  "b \<in> set (created_bills E n ps) \<Longrightarrow> \<exists>p \<in> set ps. \<exists>m. b = new_bill E m p"
  by (induction ps arbitrary: n) auto

lemma created_bills_append:
  "created_bills E n (ps @ qs) = created_bills E n ps @ created_bills E (n + length ps) qs"
  by (induction ps arbitrary: n) simp_all

lemma update_bills_simps [simp]:
  "live (db_bills (update_bills E P f d)) =
     map (\<lambda>b. if P b then (f b)\<lparr>b_UpdatedAt := e_now E, b_Version := b_Version b + 1\<rparr> else b)
       (live (db_bills d))"
  "db_leases (update_bills E P f d) = db_leases d" "db_rooms (update_bills E P f d) = db_rooms d"
  "db_tenants (update_bills E P f d) = db_tenants d"
  "db_entries (update_bills E P f d) = db_entries d"
  "db_accounts (update_bills E P f d) = db_accounts d"
  "db_titles (update_bills E P f d) = db_titles d"
  by (simp_all add: update_bills_def)

lemma set_room_status_simps [simp]:
  "db_leases (set_room_status E k s d) = db_leases d"
  "db_bills (set_room_status E k s d) = db_bills d"
  "db_tenants (set_room_status E k s d) = db_tenants d"
  "db_entries (set_room_status E k s d) = db_entries d"
  by (simp_all add: set_room_status_def)

definition add_entries :: "entry_row list \<Rightarrow> db \<Rightarrow> db" where
  "add_entries es d = d\<lparr>db_entries := db_entries d @ es\<rparr>"

lemma add_entries_simps [simp]:
  "db_entries (add_entries es d) = db_entries d @ es" "db_leases (add_entries es d) = db_leases d"
  "db_bills (add_entries es d) = db_bills d" "db_rooms (add_entries es d) = db_rooms d"
  "db_tenants (add_entries es d) = db_tenants d" "db_accounts (add_entries es d) = db_accounts d"
  "db_titles (add_entries es d) = db_titles d"
  by (simp_all add: add_entries_def)

lemma InsertAccountingEntry_ok:
  "InsertAccountingEntry E a p w = (Inr u, v) \<longleftrightarrow>
     \<not> next_fault w \<and> active_titles (aep_AccountingTitleCode p) (w_db w) \<noteq> []
     \<and> v = (tick w)\<lparr>w_db := add_entries (map (new_entry (e_id E (w_fresh w)) (e_now E) a p)
                (active_titles (aep_AccountingTitleCode p) (w_db w))) (w_db w),
              w_fresh := Suc (w_fresh w)\<rparr>"
  by (auto simp: InsertAccountingEntry_def Let_def tx_simps tx_throw_def tx_return_def add_entries_def
      split: if_splits)

text \<open>The entries one call books for a property: its account's id, and one row
  per active title of the code (exactly one, since codes are unique), with the id
  and time of the insertion.\<close>

definition booked :: "accounting_entry_params \<Rightarrow> db \<Rightarrow> entry_row list \<Rightarrow> bool" where
  "booked p d es \<longleftrightarrow>
    (\<exists>a i t. find (\<lambda>a. pa_PropertyID a = aep_PropertyID p) (live (db_accounts d)) = Some a
       \<and> es = map (new_entry i t (pa_ID a) p) (active_titles (aep_AccountingTitleCode p) d)
       \<and> es \<noteq> [])"

lemma CreateDepositAccountingEntry_ok:
  "CreateDepositAccountingEntry E p w = (Inr u, v) \<Longrightarrow>
     \<exists>es. booked p (w_db w) es \<and> w_db v = add_entries es (w_db w) \<and> w_events v = w_events w"
  unfolding CreateDepositAccountingEntry_def FindPropertyAccountByPropertyID_def booked_def
  by (fastforce simp: tx_simps InsertAccountingEntry_ok)

section \<open>What a successful statement leaves behind\<close>

text \<open>The same facts without the bookkeeping of failures and fresh ids: the
  result, the database and the recorded events.\<close>

lemma stmt_D:
  "stmt c b w = (Inr y, v) \<Longrightarrow>
     \<exists>n. y = fst (b n (w_db w)) \<and> w_db v = snd (b n (w_db w)) \<and> w_events v = w_events w"
  by (auto simp: stmt_ok)

lemma FindTenantByID_D:
  "FindTenantByID tenantID w = (Inr r, v) \<Longrightarrow>
     (\<exists>t \<in> set (live (db_tenants (w_db w))). tn_ID t = tenantID)
     \<and> w_db v = w_db w \<and> w_events v = w_events w"
  by (auto simp: FindTenantByID_ok dest: find_Some_filter)

lemma FindRoomByIDForUpdate_D:
  "FindRoomByIDForUpdate roomID w = (Inr r, v) \<Longrightarrow>
     room_lookup roomID (w_db w) = Some r \<and> w_db v = w_db w \<and> w_events v = w_events w"
  by (simp add: FindRoomByIDForUpdate_ok)

lemma FindLeaseByIDForUpdate_D:
  "FindLeaseByIDForUpdate leaseID w = (Inr l, v) \<Longrightarrow>
     lease_by_id leaseID (w_db w) = Some l \<and> w_db v = w_db w \<and> w_events v = w_events w"
  by (simp add: FindLeaseByIDForUpdate_ok)

lemma CreateLease_D:
  "CreateLease E p w = (Inr l, v) \<Longrightarrow>
     (\<exists>n. l = new_lease E n p) \<and> w_db v = add_lease l (w_db w) \<and> w_events v = w_events w"
  by (auto simp: CreateLease_ok)

lemma update_lease_returning_D:
  assumes "update_lease_returning ctx E leaseID f w = (Inr l', v)" "\<And>l. l_ID (f l) = l_ID l"
  shows "(\<exists>l. lease_by_id leaseID (w_db w) = Some l \<and> l' = touched E f l)
     \<and> w_db v = with_lease E leaseID f (w_db w) \<and> w_events v = w_events w"
  using assms(1) unfolding update_lease_returning_ok [OF assms(2)] by auto

lemma UpdateLeaseConditions_D:
  "UpdateLeaseConditions E leaseID rentAmount w = (Inr l', v) \<Longrightarrow>
     (\<exists>l. lease_by_id leaseID (w_db w) = Some l
        \<and> l' = touched E (\<lambda>l. l\<lparr>l_RentAmount := rentAmount\<rparr>) l)
     \<and> w_db v = with_lease E leaseID (\<lambda>l. l\<lparr>l_RentAmount := rentAmount\<rparr>) (w_db w)
     \<and> w_events v = w_events w"
  unfolding UpdateLeaseConditions_def by (erule update_lease_returning_D) simp

definition settled_lease :: "int \<Rightarrow> int \<Rightarrow> string option \<Rightarrow> lease \<Rightarrow> lease" where
  "settled_lease r d why l =
     l\<lparr>l_DepositStatus := ''settled'', l_DepositRefundAmount := Some r,
       l_DepositDeductionAmount := Some d, l_DepositDeductionReason := why\<rparr>"

lemma SettleDeposit_repo_D:
  "SettleDeposit_repo E leaseID r d why w = (Inr l', v) \<Longrightarrow>
     (\<exists>l. lease_by_id leaseID (w_db w) = Some l \<and> l' = touched E (settled_lease r d why) l)
     \<and> w_db v = with_lease E leaseID (settled_lease r d why) (w_db w)
     \<and> w_events v = w_events w"
  unfolding SettleDeposit_repo_def settled_lease_def [abs_def]
  by (erule update_lease_returning_D) simp

definition terminated_lease ::
    "gtime \<Rightarrow> gtime option \<Rightarrow> string \<Rightarrow> jval option \<Rightarrow> lease \<Rightarrow> lease" where
  "terminated_lease endDate moveOut reason detail l =
     l\<lparr>l_Status := ''terminated'', l_EndDate := pg_date endDate, l_TerminationReason := Some reason,
       l_SettlementDetail := coalesce detail (l_SettlementDetail l),
       l_ActualMoveOutDate := coalesce (map_option pg_date moveOut) (l_ActualMoveOutDate l)\<rparr>"

lemma TerminateLease_repo_D:
  "TerminateLease_repo E leaseID endDate moveOut reason detail w = (Inr l', v) \<Longrightarrow>
     (\<exists>l. lease_by_id leaseID (w_db w) = Some l
        \<and> l' = touched E (terminated_lease endDate moveOut reason detail) l)
     \<and> w_db v = with_lease E leaseID (terminated_lease endDate moveOut reason detail) (w_db w)
     \<and> w_events v = w_events w"
  unfolding TerminateLease_repo_def terminated_lease_def [abs_def]
  by (erule update_lease_returning_D) simp

definition force_terminated_lease ::
    "gtime \<Rightarrow> gtime option \<Rightarrow> string \<Rightarrow> string \<Rightarrow> lease \<Rightarrow> lease" where
  "force_terminated_lease date moveOut reason depositStatus l =
     l\<lparr>l_Status := ''force_terminated'', l_EndDate := pg_date date,
       l_TerminationReason := Some reason, l_DepositStatus := depositStatus,
       l_ActualMoveOutDate := coalesce (map_option pg_date moveOut) (l_ActualMoveOutDate l)\<rparr>"

lemma ForceTerminateLease_repo_D:
  "ForceTerminateLease_repo E leaseID date moveOut reason depositStatus w = (Inr l', v) \<Longrightarrow>
     (\<exists>l. lease_by_id leaseID (w_db w) = Some l
        \<and> l' = touched E (force_terminated_lease date moveOut reason depositStatus) l)
     \<and> w_db v = with_lease E leaseID (force_terminated_lease date moveOut reason depositStatus) (w_db w)
     \<and> w_events v = w_events w"
  unfolding ForceTerminateLease_repo_def force_terminated_lease_def [abs_def]
  by (erule update_lease_returning_D) simp

lemma HasLockedRentBillsFromDueDate_D:
  "HasLockedRentBillsFromDueDate leaseID dueDate w = (Inr h, v) \<Longrightarrow>
     (h \<longleftrightarrow> (\<exists>b \<in> set (bills_of leaseID (w_db w)). b_Type b = ''rent''
           \<and> t_day dueDate \<le> t_day (b_DueDate b)
           \<and> b_Status b \<notin> {''pending_payment'', ''pending_meter'', ''voided''}))
     \<and> w_db v = w_db w \<and> w_events v = w_events w"
  unfolding HasLockedRentBillsFromDueDate_def by (drule stmt_D) auto

definition void_future_rent :: "env \<Rightarrow> string \<Rightarrow> gtime \<Rightarrow> db \<Rightarrow> db" where
  "void_future_rent E leaseID dueDate =
     update_bills E (\<lambda>b. b_LeaseID b = leaseID \<and> b_Type b = ''rent''
                 \<and> t_day dueDate \<le> t_day (b_DueDate b)
                 \<and> b_Status b \<in> {''pending_payment'', ''pending_meter''})
               (\<lambda>b. b\<lparr>b_Status := ''voided''\<rparr>)"

lemma VoidRentBillsFromDueDate_D:
  "VoidRentBillsFromDueDate E leaseID dueDate w = (Inr u, v) \<Longrightarrow>
     w_db v = void_future_rent E leaseID dueDate (w_db w) \<and> w_events v = w_events w"
  unfolding VoidRentBillsFromDueDate_def void_future_rent_def by (drule stmt_D) auto

lemma ListBills_D:
  "ListBillsByLeaseIDForUpdate leaseID w = (Inr bs, v) \<Longrightarrow>
     bs = map bill_view (sort_key (\<lambda>b. (t_day (b_PeriodStart b), b_Type b, b_ID b))
            (bills_of leaseID (w_db w)))
     \<and> w_db v = w_db w \<and> w_events v = w_events w"
  unfolding ListBillsByLeaseIDForUpdate_def by (drule stmt_D) auto

lemmas tx_control = tx_return_ok tx_throw_ok tx_bind_ok tx_map_err_ok tx_reject_ok tx_lift_ok

end
