(* ===== verification/LeaseErrors.thy ===== *)
theory LeaseErrors
  imports LeaseRepo
begin

text \<open>
  The application errors of the lease use cases (application/lease/errors.go),
  the translation of domain and repository errors into them, and the small
  helpers the use cases share.
\<close>

definition errValidationTenantIDRequired :: gerr where
  "errValidationTenantIDRequired =
     apperr_New ''VALIDATION_TENANT_ID_REQUIRED'' 400 ''tenant_id is required.''"
definition errValidationRoomIDRequired :: gerr where
  "errValidationRoomIDRequired =
     apperr_New ''VALIDATION_ROOM_ID_REQUIRED'' 400 ''room_id is required.''"
definition errValidationStartDateRequired :: gerr where
  "errValidationStartDateRequired =
     apperr_New ''VALIDATION_START_DATE_REQUIRED'' 400 ''start_date is required.''"
definition errValidationEndDateRequired :: gerr where
  "errValidationEndDateRequired =
     apperr_New ''VALIDATION_END_DATE_REQUIRED'' 400 ''end_date is required.''"
definition errValidationStartingMeterReadingInvalid :: gerr where
  "errValidationStartingMeterReadingInvalid =
     apperr_New ''VALIDATION_STARTING_METER_READING'' 400
       ''starting_meter_reading must be greater than or equal to zero.''"
definition errLeaseInvalidDateRange :: gerr where
  "errLeaseInvalidDateRange =
     apperr_New ''LEASE_INVALID_DATE_RANGE'' 422
       ''Lease start date must not be later than end date.''"
definition errLeaseRentAmountNonPositive :: gerr where
  "errLeaseRentAmountNonPositive =
     apperr_New ''LEASE_RENT_AMOUNT_NON_POSITIVE'' 422
       ''Lease rent amount must be greater than zero.''"
definition errLeaseDepositNegative :: gerr where
  "errLeaseDepositNegative =
     apperr_New ''LEASE_DEPOSIT_NEGATIVE'' 422 ''Lease deposit amount must not be negative.''"
definition errSettlementNegative :: gerr where
  "errSettlementNegative =
     apperr_New ''LEASE_SETTLEMENT_NEGATIVE'' 422
       ''Deposit settlement amounts must not be negative.''"
definition errLeaseUnsupportedUpdate :: gerr where
  "errLeaseUnsupportedUpdate =
     apperr_New ''LEASE_UNSUPPORTED_UPDATE'' 422 ''Unsupported lease update field.''"
definition errDepositDeductionReasonRequired :: gerr where
  "errDepositDeductionReasonRequired =
     apperr_New ''DEPOSIT_DEDUCTION_REASON_REQUIRED'' 422
       ''Deposit deduction reason is required.''"
definition errDepositSettlementAmountMismatch :: gerr where
  "errDepositSettlementAmountMismatch =
     apperr_New ''DEPOSIT_SETTLEMENT_AMOUNT_MISMATCH'' 422
       ''Deposit refund and deduction amounts must match the deposit amount.''"
definition errDepositNotHeld :: gerr where
  "errDepositNotHeld = apperr_New ''DEPOSIT_NOT_HELD'' 422 ''Deposit is not held.''"
definition errLeaseHasUnpaidBills :: gerr where
  "errLeaseHasUnpaidBills =
     apperr_New ''LEASE_HAS_UNPAID_BILLS'' 422 ''Lease has unpaid bills.''"
definition errForbiddenForceTermination :: gerr where
  "errForbiddenForceTermination =
     apperr_New ''FORBIDDEN_FORCE_TERMINATION'' 403
       ''Force termination requires organizer or admin role.''"
definition errForceTerminationReasonRequired :: gerr where
  "errForceTerminationReasonRequired =
     apperr_New ''FORCE_TERMINATION_REASON_REQUIRED'' 422
       ''Force termination reason is required.''"
definition errForceTerminationDepositHandlingRequired :: gerr where
  "errForceTerminationDepositHandlingRequired =
     apperr_New ''FORCE_TERMINATION_DEPOSIT_HANDLING_REQUIRED'' 422
       ''Force termination deposit handling is required.''"
definition errLeaseUpdateHasLockedBills :: gerr where
  "errLeaseUpdateHasLockedBills =
     apperr_New ''LEASE_UPDATE_HAS_LOCKED_FUTURE_BILLS'' 422
       ''Lease update has locked future bills.''"
definition errLeaseNotActive :: gerr where
  "errLeaseNotActive = apperr_New ''LEASE_NOT_ACTIVE'' 422 ''Lease is not active.''"
definition errRoomNotVacant :: gerr where
  "errRoomNotVacant = apperr_New ''ROOM_NOT_VACANT'' 422 ''Room is not vacant.''"
definition errReplacementNotAtBillingBoundary :: gerr where
  "errReplacementNotAtBillingBoundary =
     apperr_New ''LEASE_REPLACEMENT_NOT_AT_BILLING_BOUNDARY'' 422
       ''Lease replacement is allowed only at a complete billing period boundary.''"
definition errReplacementHasUnsettledBills :: gerr where
  "errReplacementHasUnsettledBills =
     apperr_New ''LEASE_REPLACEMENT_HAS_UNSETTLED_BILLS'' 422
       ''Lease replacement has unsettled bills before the boundary.''"
definition errReplacementScopeMismatch :: gerr where
  "errReplacementScopeMismatch =
     apperr_New ''LEASE_REPLACEMENT_SCOPE_MISMATCH'' 422
       ''Lease replacement supports only the same tenant, room, and property.''"
definition errReplacementDepositHandlingUnsupported :: gerr where
  "errReplacementDepositHandlingUnsupported =
     apperr_New ''LEASE_REPLACEMENT_DEPOSIT_HANDLING_UNSUPPORTED'' 422
       ''Lease replacement v1 supports only deposit carry_over.''"

definition ErrForceTerminationNotFound :: gerr where
  "ErrForceTerminationNotFound =
     apperr_New ''FORCE_TERMINATION_NOT_FOUND'' 404 ''Force termination not found.''"

definition lease_mapDomainError :: "gerr \<Rightarrow> gerr" where
  "lease_mapDomainError err =
    (if errors_Is err ErrInvalidDateRange then errLeaseInvalidDateRange
     else if errors_Is err ErrRentAmountNonPositive then errLeaseRentAmountNonPositive
     else if errors_Is err ErrDepositNegative then errLeaseDepositNegative
     else if errors_Is err ErrSettlementNegative then errSettlementNegative
     else if errors_Is err ErrDepositReasonRequired then errDepositDeductionReasonRequired
     else if errors_Is err ErrDepositSettlementSum then errDepositSettlementAmountMismatch
     else if errors_Is err ErrDepositNotHeld then errDepositNotHeld
     else if errors_Is err ErrLeaseNotActive then errLeaseNotActive
     else if errors_Is err ErrTerminationReasonRequired then errForceTerminationReasonRequired
     else if errors_Is err ErrInvalidForceTerminationDepositHandling
       then apperr_WithDetails (apperr_WithCause ErrBadRequest err) (field_detail ''deposit_handling'')
     else if errors_Is err ErrInvalidRentBillingCadence
       then apperr_WithDetails ErrBadRequest (field_detail ''rent_billing_cadence'')
     else if errors_Is err ErrInvalidElectricityBillingCadence
       then apperr_WithDetails ErrBadRequest (field_detail ''electricity_billing_cadence'')
     else internal_cause err)"

text \<open>A lookup error: the sentinel becomes the public not-found error, anything
  else an internal error with the cause attached.\<close>

definition lookup_error :: "gerr \<Rightarrow> gerr \<Rightarrow> gerr \<Rightarrow> gerr" where
  "lookup_error sentinel public e = (if errors_Is e sentinel then public else internal_cause e)"

definition mapLeaseLookupError :: "gerr \<Rightarrow> gerr" where
  "mapLeaseLookupError = lookup_error ErrLeaseNotFound_app ErrLeaseNotFound"

definition mapForceTerminationLookupError :: "gerr \<Rightarrow> gerr" where
  "mapForceTerminationLookupError =
     lookup_error ErrForceTerminationNotFound_app ErrForceTerminationNotFound"

definition zeroUUID :: string where
  "zeroUUID = ''00000000-0000-0000-0000-000000000000''"

definition normalizeLeaseID :: "env \<Rightarrow> string \<Rightarrow> gerr + string" where
  "normalizeLeaseID E value =
    (let leaseID = trim value
     in if leaseID = '''' \<or> leaseID = zeroUUID then Inl ErrLeaseNotFound
        else if \<not> e_uuid_ok E leaseID
          then Inl (apperr_WithDetails ErrBadRequest (field_detail ''lease_id''))
        else Inr leaseID)"

definition containsAssignedProperty :: "string list \<Rightarrow> string \<Rightarrow> bool" where
  "containsAssignedProperty assignedPropertyIDs propertyID =
     (\<exists>assignedID \<in> set assignedPropertyIDs. trim assignedID = propertyID)"

definition trimmedOptionalString :: "string option \<Rightarrow> string option" where
  "trimmedOptionalString value =
    (case value of None \<Rightarrow> None
     | Some s \<Rightarrow> (let trimmed = trim s in if trimmed = '''' then None else Some trimmed))"

definition actor_role :: "string \<Rightarrow> string" where
  "actor_role role = to_lower (trim role)"

text \<open>The role check and the property scope most lease commands make: \<open>roles\<close> are
  the roles let in, \<open>scoped\<close> those restricted to their assigned properties.\<close>

definition in_scope :: "string \<Rightarrow> string list \<Rightarrow> string list \<Rightarrow> string \<Rightarrow> bool" where
  "in_scope role scoped assigned propertyID =
     (role \<in> set scoped \<longrightarrow> containsAssignedProperty assigned propertyID)"

definition intValue :: "int option \<Rightarrow> int" where
  "intValue value = (case value of None \<Rightarrow> 0 | Some n \<Rightarrow> n)"

text \<open>\<open>domainlease.State\<close> from a stored lease.  \<open>UpdateLease\<close> passes the rent
  cadence on, the deposit and termination commands leave it blank (and the
  aggregate then defaults it to monthly); \<open>UpdateLease\<close> leaves out the
  settlement fields.\<close>

definition lease_to_state_update :: "lease \<Rightarrow> lease_state" where
  "lease_to_state_update current =
    \<lparr>ls_ID = l_ID current, ls_TenantID = l_TenantID current, ls_RoomID = l_RoomID current,
     ls_PropertyID = l_PropertyID current, ls_RentAmount = l_RentAmount current,
     ls_StartDate = l_StartDate current, ls_EndDate = l_EndDate current,
     ls_RentBillingCadence = l_RentBillingCadence current,
     ls_ElectricityBillingCadence = l_ElectricityBillingCadence current,
     ls_Status = l_Status current, ls_DepositAmount = l_DepositAmount current,
     ls_DepositRefundAmount = None, ls_DepositDeductionAmount = None,
     ls_DepositStatus = l_DepositStatus current, ls_DepositDeductionReason = None,
     ls_Version = l_Version current\<rparr>"

definition lease_to_state_settle :: "lease \<Rightarrow> lease_state" where
  "lease_to_state_settle current =
    \<lparr>ls_ID = l_ID current, ls_TenantID = l_TenantID current, ls_RoomID = l_RoomID current,
     ls_PropertyID = l_PropertyID current, ls_RentAmount = l_RentAmount current,
     ls_StartDate = l_StartDate current, ls_EndDate = l_EndDate current,
     ls_RentBillingCadence = '''',
     ls_ElectricityBillingCadence = l_ElectricityBillingCadence current,
     ls_Status = l_Status current, ls_DepositAmount = l_DepositAmount current,
     ls_DepositRefundAmount = l_DepositRefundAmount current,
     ls_DepositDeductionAmount = l_DepositDeductionAmount current,
     ls_DepositStatus = l_DepositStatus current,
     ls_DepositDeductionReason = l_DepositDeductionReason current,
     ls_Version = l_Version current\<rparr>"

end
