(* ===== verification/LeaseCreate.thy ===== *)
theory LeaseCreate
  imports LeaseErrors
begin

text \<open>
  Creating a lease and changing its rent (application/lease/create_lease.go,
  update_lease.go), with the subscribers of the lease events
  (application/lease/subscribers.go, wired in server/server.go).
\<close>

section \<open>Event subscribers\<close>

definition OccupyRoom_HandleLeaseCreated :: "env \<Rightarrow> handler" where
  "OccupyRoom_HandleLeaseCreated E event =
     WithinTransaction NoopPublish (MarkRoomOccupied E (lc_RoomID event))"

definition ActivateTenant_HandleLeaseCreated :: "env \<Rightarrow> handler" where
  "ActivateTenant_HandleLeaseCreated E event =
     WithinTransaction NoopPublish (ActivateTenant E (lc_TenantID event))"

definition ReleaseRoom_HandleLeaseTerminated :: "env \<Rightarrow> handler" where
  "ReleaseRoom_HandleLeaseTerminated E event =
     WithinTransaction NoopPublish (MarkRoomVacant E (lt_RoomID event))"

definition DeactivateTenant_HandleLeaseTerminated :: "env \<Rightarrow> handler" where
  "DeactivateTenant_HandleLeaseTerminated E event =
     WithinTransaction NoopPublish (DeactivateTenantIfNoActiveLeases E (lt_TenantID event))"

text \<open>The handlers' transactions record no event, so what their runner publishes
  after the commit is nothing; they are given the publisher that does nothing
  instead of the bus they are registered on.\<close>

definition registerLeaseEventSubscribers :: "env \<Rightarrow> bus \<Rightarrow> bus" where
  "registerLeaseEventSubscribers E bus =
    (let b1 = bus_Subscribe bus T_LeaseCreated (OccupyRoom_HandleLeaseCreated E);
         b2 = bus_Subscribe b1 T_LeaseCreated (ActivateTenant_HandleLeaseCreated E);
         b3 = bus_Subscribe b2 T_LeaseTerminated (ReleaseRoom_HandleLeaseTerminated E)
     in bus_Subscribe b3 T_LeaseTerminated (DeactivateTenant_HandleLeaseTerminated E))"

text \<open>The publisher the server gives to every transaction runner.\<close>

definition server_publish :: "env \<Rightarrow> event \<Rightarrow> unit tx" where
  "server_publish E = bus_Publish (registerLeaseEventSubscribers E bus_New)"

section \<open>CreateLease\<close>

record create_lease_input =
  cli_ActorRole :: string
  cli_AssignedPropertyIDs :: "string list"
  cli_TenantID :: string
  cli_RoomID :: string
  cli_RentAmount :: int
  cli_StartDate :: gtime
  cli_EndDate :: gtime
  cli_DepositAmount :: int
  cli_RentBillingCadence :: string
  cli_ElectricityBillingCadence :: "string option"
  cli_StartingMeterReading :: int
  cli_Notes :: "string option"

definition rent_seed :: "lease \<Rightarrow> billing_period \<Rightarrow> create_bill_params" where
  "rent_seed lease period =
    \<lparr>cbp_LeaseID = l_ID lease, cbp_TenantID = l_TenantID lease, cbp_RoomID = l_RoomID lease,
     cbp_PropertyID = l_PropertyID lease, cbp_Type = TypeRent,
     cbp_Amount = Some (l_RentAmount lease), cbp_PeriodStart = PeriodStart period,
     cbp_PeriodEnd = PeriodEnd period, cbp_DueDate = DueDate period,
     cbp_Status = StatusPendingPayment\<rparr>"

definition electricity_seed :: "lease \<Rightarrow> billing_period \<Rightarrow> create_bill_params" where
  "electricity_seed lease period =
    \<lparr>cbp_LeaseID = l_ID lease, cbp_TenantID = l_TenantID lease, cbp_RoomID = l_RoomID lease,
     cbp_PropertyID = l_PropertyID lease, cbp_Type = TypeElectricity, cbp_Amount = None,
     cbp_PeriodStart = PeriodStart period, cbp_PeriodEnd = PeriodEnd period,
     cbp_DueDate = DueDate period, cbp_Status = StatusPendingMeter\<rparr>"

definition buildRentBillSeeds :: "lease \<Rightarrow> billing_period list \<Rightarrow> create_bill_params list" where
  "buildRentBillSeeds lease rentPeriods = map (rent_seed lease) rentPeriods"

definition buildBillSeeds ::
    "lease \<Rightarrow> billing_period list \<Rightarrow> billing_period list \<Rightarrow> create_bill_params list" where
  "buildBillSeeds lease rentPeriods electricityPeriods =
     map (rent_seed lease) rentPeriods @ map (electricity_seed lease) electricityPeriods"

text \<open>The checks \<open>Execute\<close> makes before it opens the transaction.\<close>

definition CreateLease_validate ::
    "create_lease_input \<Rightarrow> gerr + (string \<times> string \<times> string)" where
  "CreateLease_validate input =
    (let tenantID = trim (cli_TenantID input);
         roomID = trim (cli_RoomID input);
         actorRole = actor_role (cli_ActorRole input)
     in if tenantID = '''' \<or> tenantID = zeroUUID then Inl errValidationTenantIDRequired
        else if roomID = '''' \<or> roomID = zeroUUID then Inl errValidationRoomIDRequired
        else if is_zero_time (cli_StartDate input) then Inl errValidationStartDateRequired
        else if is_zero_time (cli_EndDate input) then Inl errValidationEndDateRequired
        else if cli_StartingMeterReading input < 0
          then Inl errValidationStartingMeterReadingInvalid
        else if actorRole \<notin> {''admin'', ''organizer'', ''staff''} then Inl ErrForbidden
        else Inr (tenantID, roomID, actorRole))"

text \<open>The aggregate state of a new lease, before \<open>domainlease.New\<close>.\<close>

definition CreateLease_state :: "create_lease_input \<Rightarrow> string \<Rightarrow> string \<Rightarrow> lease_room \<Rightarrow> lease_state" where
  "CreateLease_state input tenantID roomID room =
    \<lparr>ls_ID = '''', ls_TenantID = tenantID, ls_RoomID = roomID,
     ls_PropertyID = room_PropertyID room, ls_RentAmount = cli_RentAmount input,
     ls_StartDate = cli_StartDate input, ls_EndDate = cli_EndDate input,
     ls_RentBillingCadence =
       (if trim (cli_RentBillingCadence input) \<noteq> '''' then trim (cli_RentBillingCadence input)
        else BillingCadenceMonthly),
     ls_ElectricityBillingCadence =
       (case cli_ElectricityBillingCadence input of
          None \<Rightarrow> room_DefaultElectricityBillingCadence room | Some c \<Rightarrow> trim c),
     ls_Status = '''', ls_DepositAmount = cli_DepositAmount input, ls_DepositRefundAmount = None,
     ls_DepositDeductionAmount = None, ls_DepositStatus = '''', ls_DepositDeductionReason = None,
     ls_Version = 0\<rparr>"

definition lease_params :: "lease_state \<Rightarrow> int \<Rightarrow> string option \<Rightarrow> create_lease_params" where
  "lease_params state startingMeterReading notes =
    \<lparr>clp_TenantID = ls_TenantID state, clp_RoomID = ls_RoomID state,
     clp_PropertyID = ls_PropertyID state, clp_RentAmount = ls_RentAmount state,
     clp_StartDate = ls_StartDate state, clp_EndDate = ls_EndDate state,
     clp_RentBillingCadence = ls_RentBillingCadence state,
     clp_ElectricityBillingCadence = ls_ElectricityBillingCadence state,
     clp_StartingMeterReading = startingMeterReading,
     clp_DepositAmount = ls_DepositAmount state, clp_Notes = notes\<rparr>"

definition CreateLease_body ::
    "env \<Rightarrow> create_lease_input \<Rightarrow> string \<Rightarrow> string \<Rightarrow> string \<Rightarrow> lease tx" where
  "CreateLease_body E input tenantID roomID actorRole =
     tx_bind (tx_map_err (lookup_error ErrTenantNotFound_app ErrTenantNotFound)
                (a_FindTenantByID tenantID)) (\<lambda>_.
     tx_bind (tx_map_err (lookup_error ErrRoomNotFound_app ErrRoomNotFound)
                (a_FindRoomByIDForUpdate roomID)) (\<lambda>room.
     tx_bind (tx_reject (room_Status room \<noteq> ''vacant'') errRoomNotVacant) (\<lambda>_.
     tx_bind (tx_reject (\<not> in_scope actorRole [''organizer'', ''staff'']
                           (cli_AssignedPropertyIDs input) (room_PropertyID room)) ErrForbidden) (\<lambda>_.
     tx_bind (tx_map_err lease_mapDomainError
                (tx_lift (lease_New (CreateLease_state input tenantID roomID room)))) (\<lambda>state.
     tx_bind (tx_map_err internal_cause (CreateLease E (lease_params state
                (cli_StartingMeterReading input) (trimmedOptionalString (cli_Notes input))))) (\<lambda>createdLease.
     tx_bind (tx_map_err lease_mapDomainError (tx_lift (BuildRentBillingPeriods
                (ls_StartDate state) (ls_EndDate state) (ls_RentBillingCadence state)))) (\<lambda>rentPeriods.
     tx_bind (tx_map_err lease_mapDomainError (tx_lift (BuildBillingPeriods
                (ls_StartDate state) (ls_EndDate state)
                (ls_ElectricityBillingCadence state)))) (\<lambda>electricityPeriods.
     tx_bind (tx_map_err internal_cause
                (CreateBills E (buildBillSeeds createdLease rentPeriods electricityPeriods))) (\<lambda>_.
     tx_bind (record_event (LeaseCreated (l_ID createdLease) (l_RoomID createdLease)
                (l_PropertyID createdLease) (l_TenantID createdLease) (l_StartDate createdLease)
                (l_EndDate createdLease) (l_RentBillingCadence createdLease)
                (l_ElectricityBillingCadence createdLease) (time_UTC (e_now E)))) (\<lambda>_.
     tx_return createdLease))))))))))"

definition CreateLease_Execute ::
    "env \<Rightarrow> (event \<Rightarrow> unit tx) \<Rightarrow> create_lease_input \<Rightarrow> lease tx" where
  "CreateLease_Execute E publish input =
     tx_bind (tx_lift (CreateLease_validate input))
       (\<lambda>(tenantID, roomID, actorRole).
          WithinTransaction publish (CreateLease_body E input tenantID roomID actorRole))"

section \<open>UpdateLease\<close>

record update_lease_input =
  uli_ActorRole :: string
  uli_AssignedPropertyIDs :: "string list"
  uli_LeaseID :: string
  uli_RentAmount :: "int option"
  uli_EndDate :: "gtime option"
  uli_RentBillingCadence :: "string option"
  uli_OperationDate :: gtime

definition UpdateLease_validate ::
    "env \<Rightarrow> update_lease_input \<Rightarrow> gerr + (string \<times> int \<times> string \<times> gtime)" where
  "UpdateLease_validate E input =
    (case normalizeLeaseID E (uli_LeaseID input) of
       Inl e \<Rightarrow> Inl e
     | Inr leaseID \<Rightarrow>
         if uli_EndDate input \<noteq> None
           then Inl (apperr_WithDetails errLeaseUnsupportedUpdate (field_detail ''end_date''))
         else if uli_RentBillingCadence input \<noteq> None
           then Inl (apperr_WithDetails errLeaseUnsupportedUpdate (field_detail ''rent_billing_cadence''))
         else (case uli_RentAmount input of
             None \<Rightarrow> Inl (apperr_WithDetails errLeaseUnsupportedUpdate (field_detail ''rent_amount''))
           | Some rentAmount \<Rightarrow>
               (let actorRole = actor_role (uli_ActorRole input)
                in if actorRole \<notin> {''admin'', ''organizer''} then Inl ErrForbidden
                   else Inr (leaseID, rentAmount, actorRole,
                     if is_zero_time (uli_OperationDate input) then time_UTC (e_now E)
                     else uli_OperationDate input))))"

definition UpdateLease_body ::
    "env \<Rightarrow> update_lease_input \<Rightarrow> string \<Rightarrow> int \<Rightarrow> string \<Rightarrow> gtime \<Rightarrow> lease tx" where
  "UpdateLease_body E input leaseID rentAmount actorRole operationDate =
     tx_bind (tx_map_err mapLeaseLookupError (a_FindLeaseByIDForUpdate leaseID)) (\<lambda>current.
     tx_bind (tx_reject (\<not> in_scope actorRole [''organizer'']
                           (uli_AssignedPropertyIDs input) (l_PropertyID current)) ErrForbidden) (\<lambda>_.
     tx_bind (tx_map_err lease_mapDomainError
                (tx_lift (lease_Rehydrate (lease_to_state_update current)))) (\<lambda>rehydrated.
     tx_bind (tx_map_err lease_mapDomainError (tx_lift (ChangeRent rehydrated rentAmount))) (\<lambda>state.
     if l_RentAmount current = ls_RentAmount state then tx_return current
     else let nextPaymentDate = NextRentPaymentDateAfter (l_StartDate current) operationDate
                (ls_RentBillingCadence state);
              regenerate = \<not> time_after nextPaymentDate (l_EndDate current)
          in tx_bind (if regenerate
                then tx_bind (tx_map_err internal_cause
                       (HasLockedRentBillsFromDueDate leaseID nextPaymentDate))
                     (\<lambda>hasLockedBills. tx_reject hasLockedBills errLeaseUpdateHasLockedBills)
                else tx_return ()) (\<lambda>_.
             tx_bind (tx_map_err internal_cause
                (a_UpdateLeaseConditions E leaseID (ls_RentAmount state))) (\<lambda>updatedLease.
             tx_bind (if regenerate
                then tx_bind (tx_map_err internal_cause
                       (VoidRentBillsFromDueDate E leaseID nextPaymentDate)) (\<lambda>_.
                     tx_bind (tx_map_err lease_mapDomainError (tx_lift
                       (BuildRentBillingPeriodsFromAnchor nextPaymentDate (l_EndDate current)
                          (ls_RentBillingCadence state)
                          (time_dayOfMonth (l_StartDate current))))) (\<lambda>rentPeriods.
                     tx_map_err internal_cause
                       (CreateBills E (buildRentBillSeeds updatedLease rentPeriods))))
                else tx_return ()) (\<lambda>_.
             tx_bind (record_event (LeaseConditionChanged (l_ID updatedLease)
                (l_PropertyID updatedLease) (l_RoomID updatedLease) (l_TenantID updatedLease)
                (l_RentAmount updatedLease) nextPaymentDate (time_UTC (e_now E)))) (\<lambda>_.
             tx_return updatedLease))))))))"

definition UpdateLease_Execute ::
    "env \<Rightarrow> (event \<Rightarrow> unit tx) \<Rightarrow> update_lease_input \<Rightarrow> lease tx" where
  "UpdateLease_Execute E publish input =
     tx_bind (tx_lift (UpdateLease_validate E input))
       (\<lambda>(leaseID, rentAmount, actorRole, operationDate).
          WithinTransaction publish
            (UpdateLease_body E input leaseID rentAmount actorRole operationDate))"

section \<open>What a created lease is\<close>

definition bill_days :: "bill \<Rightarrow> int \<times> int" where
  "bill_days b = (t_day (b_PeriodStart b), t_day (b_PeriodEnd b))"

definition is_rent :: "bill \<Rightarrow> bool" where
  "is_rent b \<longleftrightarrow> b_Type b = TypeRent"

lemma CreateLease_body_ok:
  assumes "CreateLease_body E input tenantID roomID role w = (Inr l, v)"
  shows "\<exists>room state rp ep n m.
     room_lookup roomID (w_db w) = Some room \<and> room_Status room = ''vacant''
     \<and> (\<exists>t \<in> set (live (db_tenants (w_db w))). tn_ID t = tenantID)
     \<and> in_scope role [''organizer'', ''staff''] (cli_AssignedPropertyIDs input) (room_PropertyID room)
     \<and> lease_New (CreateLease_state input tenantID roomID room) = Inr state
     \<and> l = new_lease E m (lease_params state (cli_StartingMeterReading input)
             (trimmedOptionalString (cli_Notes input)))
     \<and> BuildRentBillingPeriods (ls_StartDate state) (ls_EndDate state)
         (ls_RentBillingCadence state) = Inr rp
     \<and> BuildBillingPeriods (ls_StartDate state) (ls_EndDate state)
         (ls_ElectricityBillingCadence state) = Inr ep
     \<and> w_db v = add_bills (created_bills E n (buildBillSeeds l rp ep)) (add_lease l (w_db w))
     \<and> w_events v = w_events w @ [LeaseCreated (l_ID l) (l_RoomID l) (l_PropertyID l)
         (l_TenantID l) (l_StartDate l) (l_EndDate l) (l_RentBillingCadence l)
         (l_ElectricityBillingCadence l) (time_UTC (e_now E))]"
proof -
  note run = assms [unfolded CreateLease_body_def a_FindTenantByID_def a_FindRoomByIDForUpdate_def
      tx_control]
  from run obtain t room state rp ep u1 u2 u3 u4 where
    ops: "FindTenantByID tenantID w = (Inr t, u1)" "FindRoomByIDForUpdate roomID u1 = (Inr room, u2)"
      "room_Status room = ''vacant''"
      "in_scope role [''organizer'', ''staff''] (cli_AssignedPropertyIDs input) (room_PropertyID room)"
      "lease_New (CreateLease_state input tenantID roomID room) = Inr state"
      "CreateLease E (lease_params state (cli_StartingMeterReading input)
             (trimmedOptionalString (cli_Notes input))) u2 = (Inr l, u3)"
      "BuildRentBillingPeriods (ls_StartDate state) (ls_EndDate state)
         (ls_RentBillingCadence state) = Inr rp"
      "BuildBillingPeriods (ls_StartDate state) (ls_EndDate state)
         (ls_ElectricityBillingCadence state) = Inr ep"
      "CreateBills E (buildBillSeeds l rp ep) u3 = (Inr (), u4)" and
    rec: "record_event (LeaseCreated (l_ID l) (l_RoomID l) (l_PropertyID l)
         (l_TenantID l) (l_StartDate l) (l_EndDate l) (l_RentBillingCadence l)
         (l_ElectricityBillingCadence l) (time_UTC (e_now E))) u4 = (Inr (), v)"
    by auto
  show ?thesis
    using ops FindTenantByID_D [OF ops(1)] FindRoomByIDForUpdate_D [OF ops(2)]
      CreateLease_D [OF ops(6)] CreateBills_ok [OF ops(9)] rec
    by (auto simp: record_event_ok)
qed

section \<open>Publishing to the subscribers\<close>

lemma WithinTransaction_Noop_D:
  assumes "WithinTransaction NoopPublish m w = (Inr x, u)"
  shows "\<exists>v0 v. w_db v0 = w_db w \<and> m v0 = (Inr x, v) \<and> w_db u = w_db v"
proof -
  obtain v where v: "m ((tick w)\<lparr>w_events := []\<rparr>) = (Inr x, v)"
    "u = (tick v)\<lparr>w_events := w_events w\<rparr>"
    using assms by (auto simp: WithinTransaction_ok tx_return_ok)
  show ?thesis
    by (rule exI [of _ "(tick w)\<lparr>w_events := []\<rparr>"], rule exI [of _ v]) (simp add: v)
qed

definition activate_tenant :: "env \<Rightarrow> string \<Rightarrow> db \<Rightarrow> db" where
  "activate_tenant E tenantID d =
     d\<lparr>db_tenants := tab_update (\<lambda>t. tn_ID t = tenantID \<and> tn_Status t = ''inactive'')
         (\<lambda>t. t\<lparr>tn_Status := ''active'', tn_UpdatedAt := e_now E\<rparr>) (db_tenants d)\<rparr>"

definition deactivate_tenant :: "env \<Rightarrow> string \<Rightarrow> db \<Rightarrow> db" where
  "deactivate_tenant E tenantID d =
     d\<lparr>db_tenants := tab_update (\<lambda>t. tn_ID t = tenantID \<and> \<not> has_active_lease tenantID d)
         (\<lambda>t. t\<lparr>tn_Status := ''inactive'', tn_UpdatedAt := e_now E\<rparr>) (db_tenants d)\<rparr>"

lemma tenant_update_simps [simp]:
  "db_leases (activate_tenant E k d) = db_leases d" "db_bills (activate_tenant E k d) = db_bills d"
  "db_rooms (activate_tenant E k d) = db_rooms d" "db_entries (activate_tenant E k d) = db_entries d"
  "db_leases (deactivate_tenant E k d) = db_leases d"
  "db_bills (deactivate_tenant E k d) = db_bills d"
  "db_rooms (deactivate_tenant E k d) = db_rooms d"
  "db_entries (deactivate_tenant E k d) = db_entries d"
  by (simp_all add: activate_tenant_def deactivate_tenant_def)

lemma subscriber_D:
  "OccupyRoom_HandleLeaseCreated E e w = (Inr u, v) \<Longrightarrow>
     w_db v = set_room_status E (lc_RoomID e) ''occupied'' (w_db w)"
  "ActivateTenant_HandleLeaseCreated E e w = (Inr u, v) \<Longrightarrow>
     w_db v = activate_tenant E (lc_TenantID e) (w_db w)"
  "ReleaseRoom_HandleLeaseTerminated E e w = (Inr u, v) \<Longrightarrow>
     w_db v = set_room_status E (lt_RoomID e) ''vacant'' (w_db w)"
  "DeactivateTenant_HandleLeaseTerminated E e w = (Inr u, v) \<Longrightarrow>
     w_db v = deactivate_tenant E (lt_TenantID e) (w_db w)"
  unfolding OccupyRoom_HandleLeaseCreated_def ActivateTenant_HandleLeaseCreated_def
    ReleaseRoom_HandleLeaseTerminated_def DeactivateTenant_HandleLeaseTerminated_def
    MarkRoomOccupied_def MarkRoomVacant_def ActivateTenant_def DeactivateTenantIfNoActiveLeases_def
    activate_tenant_def deactivate_tenant_def
  by (drule WithinTransaction_Noop_D, auto simp: stmt_ok)+

text \<open>The effect of one published event on the database.\<close>

fun event_effect :: "env \<Rightarrow> event \<Rightarrow> db \<Rightarrow> db" where
  "event_effect E (LeaseCreated l room p t s e rc ec o') d =
     activate_tenant E t (set_room_status E room ''occupied'' d)"
| "event_effect E (LeaseTerminated l room p t f r o') d =
     deactivate_tenant E t (set_room_status E room ''vacant'' d)"
| "event_effect E e d = d"

lemma server_publish_D:
  assumes "server_publish E e w = (Inr u, v)"
  shows "w_db v = event_effect E e (w_db w)"
proof (cases e)
  case (LeaseCreated a b c d f g h i j)
  with assms obtain w1 where
    "OccupyRoom_HandleLeaseCreated E e w = (Inr (), w1)"
    "ActivateTenant_HandleLeaseCreated E e w1 = (Inr (), v)"
    by (auto simp: server_publish_def registerLeaseEventSubscribers_def bus_Publish_def
        bus_Subscribe_def bus_New_def tx_control)
  then show ?thesis using LeaseCreated subscriber_D(1,2) by fastforce
next
  case (LeaseTerminated a b c d f g h)
  with assms obtain w1 where
    "ReleaseRoom_HandleLeaseTerminated E e w = (Inr (), w1)"
    "DeactivateTenant_HandleLeaseTerminated E e w1 = (Inr (), v)"
    by (auto simp: server_publish_def registerLeaseEventSubscribers_def bus_Publish_def
        bus_Subscribe_def bus_New_def tx_control)
  then show ?thesis using LeaseTerminated subscriber_D(3,4) by fastforce
qed (use assms in \<open>simp_all add: server_publish_def registerLeaseEventSubscribers_def bus_Publish_def
        bus_Subscribe_def bus_New_def tx_control\<close>)

definition events_effect :: "env \<Rightarrow> event list \<Rightarrow> db \<Rightarrow> db" where
  "events_effect E es d = foldl (\<lambda>d e. event_effect E e d) d es"

lemma publish_all_D:
  "publish_all (server_publish E) es w = (Inr u, v) \<Longrightarrow> w_db v = events_effect E es (w_db w)"
proof (induction es arbitrary: w)
  case (Cons e es)
  then obtain x w1 where "server_publish E e w = (Inr x, w1)"
    "publish_all (server_publish E) es w1 = (Inr u, v)"
    by (auto simp: tx_control)
  then show ?case using Cons.IH server_publish_D by (fastforce simp: events_effect_def)
qed (simp add: tx_control events_effect_def)

text \<open>A command of the server that succeeds: its body ran to the end on the
  database it found, and the subscribers of its events ran on the result.\<close>

lemma server_run_D:
  assumes "WithinTransaction (server_publish E) m w = (Inr x, u)"
  shows "\<exists>v0 v. w_db v0 = w_db w \<and> w_events v0 = [] \<and> m v0 = (Inr x, v)
     \<and> w_db u = events_effect E (w_events v) (w_db v)"
proof -
  obtain v where v: "m ((tick w)\<lparr>w_events := []\<rparr>) = (Inr x, v)"
    "publish_all (server_publish E) (w_events v) ((tick v)\<lparr>w_events := w_events w\<rparr>) = (Inr (), u)"
    using assms by (auto simp: WithinTransaction_ok)
  show ?thesis
    by (rule exI [of _ "(tick w)\<lparr>w_events := []\<rparr>"], rule exI [of _ v])
       (use v publish_all_D [OF v(2)] in simp)
qed

section \<open>Creating a lease: the property\<close>

lemma rent_seed_bill:
  "bill_days (new_bill E n (rent_seed l p)) = period_days p"
  "is_rent (new_bill E n (rent_seed l p))"
  "bill_wf (new_bill E n (rent_seed l p))"
  "b_LeaseID (new_bill E n (rent_seed l p)) = l_ID l"
  "b_Amount (new_bill E n (rent_seed l p)) = Some (l_RentAmount l)"
  by (simp_all add: bill_days_def new_bill_def rent_seed_def period_days_def is_rent_def bill_wf_def)

lemma electricity_seed_bill:
  "bill_days (new_bill E n (electricity_seed l p)) = period_days p"
  "\<not> is_rent (new_bill E n (electricity_seed l p))"
  "bill_wf (new_bill E n (electricity_seed l p))"
  "b_LeaseID (new_bill E n (electricity_seed l p)) = l_ID l"
  by (simp_all add: bill_days_def new_bill_def electricity_seed_def period_days_def is_rent_def bill_wf_def)

lemma created_rent_bills:
  "filter is_rent (created_bills E n (map (rent_seed l) ps)) = created_bills E n (map (rent_seed l) ps)"
  "map bill_days (created_bills E n (map (rent_seed l) ps)) = map period_days ps"
  by (induction ps arbitrary: n) (simp_all add: rent_seed_bill)

lemma created_electricity_bills:
  "filter is_rent (created_bills E n (map (electricity_seed l) ps)) = []"
  "filter (\<lambda>b. \<not> is_rent b) (created_bills E n (map (electricity_seed l) ps))
     = created_bills E n (map (electricity_seed l) ps)"
  "filter (\<lambda>b. \<not> is_rent b) (created_bills E n (map (rent_seed l) ps)) = []"
  "map bill_days (created_bills E n (map (electricity_seed l) ps)) = map period_days ps"
  by (induction ps arbitrary: n) (simp_all add: rent_seed_bill electricity_seed_bill)

lemma seeds_wf:
  "b \<in> set (created_bills E n (buildBillSeeds l rp ep)) \<Longrightarrow>
     bill_wf b \<and> b_LeaseID b = l_ID l \<and> (is_rent b \<longrightarrow> b_Amount b = Some (l_RentAmount l))"
  by (drule set_created_bills)
     (auto simp: buildBillSeeds_def rent_seed_bill electricity_seed_bill)

text \<open>The bills created from the two schedules of a lease.\<close>

lemma seeded_schedule:
  assumes "BuildRentBillingPeriods s e rc = Inr rp" "BuildBillingPeriods s e ec = Inr ep"
    and "t_off s = t_off e" "time_ok s" "time_ok e"
    and bs: "bs = created_bills E n (buildBillSeeds l rp ep)"
  shows "tiles (t_day s) (t_day e) (map bill_days (filter is_rent bs))"
    and "tiles (t_day s) (t_day e) (map bill_days (filter (\<lambda>b. \<not> is_rent b) bs))"
    and "\<forall>b \<in> set bs. bill_wf b \<and> b_LeaseID b = l_ID l
           \<and> (is_rent b \<longrightarrow> b_Amount b = Some (l_RentAmount l))"
proof -
  have split: "map bill_days (filter is_rent bs) = map period_days rp"
    "map bill_days (filter (\<lambda>b. \<not> is_rent b) bs) = map period_days ep"
    by (simp_all add: bs buildBillSeeds_def created_bills_append created_rent_bills
        created_electricity_bills)
  have "tiles (t_day s) (t_day e) (map period_days rp)"
    using assms(1) rent_periods_iff [of s e] assms(3) days_in_order [OF assms(4,5,3)]
      rent.intervals_tile
    by (auto simp: BuildRentBillingPeriods_def comp_def)
  then show "tiles (t_day s) (t_day e) (map bill_days (filter is_rent bs))" unfolding split .
  have "tiles (t_day s) (t_day e) (map period_days ep)"
    using assms(2) electricity_periods_iff [of s e] assms(3) days_in_order [OF assms(4,5,3)]
      rent.intervals_tile window.intervals_tile
    by (auto simp: comp_def)
  then show "tiles (t_day s) (t_day e) (map bill_days (filter (\<lambda>b. \<not> is_rent b) bs))"
    unfolding split .
  show "\<forall>b \<in> set bs. bill_wf b \<and> b_LeaseID b = l_ID l
           \<and> (is_rent b \<longrightarrow> b_Amount b = Some (l_RentAmount l))"
    unfolding bs using seeds_wf by blast
qed

text \<open>
  C1.  Creating a lease works end to end, subscribers included.  When
  \<open>CreateLease\<close> returns a lease, the room existed and was vacant, the lease is
  the one new row (active, deposit held, with the requested terms), the new
  bills are exactly its own: well formed, the rent bills at the lease's rent
  tiling the term and the electricity bills tiling it too; and afterwards the
  room is occupied and the tenant is not inactive.
\<close>

theorem CreateLease_creates_schedule:
  assumes run: "CreateLease_Execute E (server_publish E) input w = (Inr l, w')"
    and "t_off (cli_StartDate input) = t_off (cli_EndDate input)"
    and "time_ok (cli_StartDate input)" "time_ok (cli_EndDate input)"
  shows "\<exists>room bs.
      room_lookup (trim (cli_RoomID input)) (w_db w) = Some room \<and> room_Status room = ''vacant''
    \<and> live (db_leases (w_db w')) = live (db_leases (w_db w)) @ [l]
    \<and> l_Status l = StatusActive \<and> l_DepositStatus l = DepositStatusHeld
    \<and> l_RoomID l = trim (cli_RoomID input) \<and> l_TenantID l = trim (cli_TenantID input)
    \<and> l_RentAmount l = cli_RentAmount input \<and> 0 < l_RentAmount l
    \<and> l_DepositAmount l = cli_DepositAmount input \<and> 0 \<le> l_DepositAmount l
    \<and> l_StartDate l = pg_date (cli_StartDate input) \<and> l_EndDate l = pg_date (cli_EndDate input)
    \<and> live (db_bills (w_db w')) = live (db_bills (w_db w)) @ bs
    \<and> (\<forall>b \<in> set bs. bill_wf b \<and> b_LeaseID b = l_ID l
         \<and> (is_rent b \<longrightarrow> b_Amount b = Some (l_RentAmount l)))
    \<and> tiles (t_day (l_StartDate l)) (t_day (l_EndDate l)) (map bill_days (filter is_rent bs))
    \<and> tiles (t_day (l_StartDate l)) (t_day (l_EndDate l))
        (map bill_days (filter (\<lambda>b. \<not> is_rent b) bs))
    \<and> (\<forall>r \<in> set (live (db_rooms (w_db w'))). rm_ID r = l_RoomID l \<longrightarrow> rm_Status r = ''occupied'')
    \<and> (\<forall>t \<in> set (live (db_tenants (w_db w'))). tn_ID t = l_TenantID l \<longrightarrow> tn_Status t \<noteq> ''inactive'')"
proof -
  from run obtain role where
    v: "CreateLease_validate input = Inr (trim (cli_TenantID input), trim (cli_RoomID input), role)" and
    tx: "WithinTransaction (server_publish E) (CreateLease_body E input (trim (cli_TenantID input))
           (trim (cli_RoomID input)) role) w = (Inr l, w')"
    by (auto simp: CreateLease_Execute_def tx_control CreateLease_validate_def Let_def split: if_splits)
  obtain v0 v1 where
    body: "w_db v0 = w_db w" "w_events v0 = []"
      "CreateLease_body E input (trim (cli_TenantID input)) (trim (cli_RoomID input)) role v0 = (Inr l, v1)"
      "w_db w' = events_effect E (w_events v1) (w_db v1)"
    using server_run_D [OF tx] by blast
  from CreateLease_body_ok [OF body(3)] obtain room state rp ep n m where
    room: "room_lookup (trim (cli_RoomID input)) (w_db w) = Some room" "room_Status room = ''vacant''" and
    state: "lease_New (CreateLease_state input (trim (cli_TenantID input))
              (trim (cli_RoomID input)) room) = Inr state" and
    l: "l = new_lease E m (lease_params state (cli_StartingMeterReading input)
             (trimmedOptionalString (cli_Notes input)))" and
    rp: "BuildRentBillingPeriods (ls_StartDate state) (ls_EndDate state)
         (ls_RentBillingCadence state) = Inr rp" and
    ep: "BuildBillingPeriods (ls_StartDate state) (ls_EndDate state)
         (ls_ElectricityBillingCadence state) = Inr ep" and
    db: "w_db v1 = add_bills (created_bills E n (buildBillSeeds l rp ep)) (add_lease l (w_db w))" and
    ev: "w_events v1 = [LeaseCreated (l_ID l) (l_RoomID l) (l_PropertyID l)
         (l_TenantID l) (l_StartDate l) (l_EndDate l) (l_RentBillingCadence l)
         (l_ElectricityBillingCadence l) (time_UTC (e_now E))]"
    using body(1,2) by auto
  have st: "ls_StartDate state = cli_StartDate input" "ls_EndDate state = cli_EndDate input"
    "ls_TenantID state = trim (cli_TenantID input)" "ls_RoomID state = trim (cli_RoomID input)"
    "ls_RentAmount state = cli_RentAmount input" "ls_DepositAmount state = cli_DepositAmount input"
    "0 < cli_RentAmount input" "0 \<le> cli_DepositAmount input"
    using state by (auto simp: lease_New_def normalizeState_def CreateLease_state_def Let_def
        split: if_splits)
  have lf: "l_StartDate l = pg_date (cli_StartDate input)" "l_EndDate l = pg_date (cli_EndDate input)"
    "l_RoomID l = trim (cli_RoomID input)" "l_TenantID l = trim (cli_TenantID input)"
    "l_RentAmount l = cli_RentAmount input" "l_DepositAmount l = cli_DepositAmount input"
    "l_Status l = StatusActive" "l_DepositStatus l = DepositStatusHeld"
    by (simp_all add: l new_lease_def lease_params_def st lease_consts)
  define bs where "bs = created_bills E n (buildBillSeeds l rp ep)"
  note bills = seeded_schedule [OF rp [unfolded st] ep [unfolded st] assms(2-4) bs_def]
  have fin: "w_db w' = activate_tenant E (l_TenantID l) (set_room_status E (l_RoomID l) ''occupied'' (w_db v1))"
    by (simp add: body(4) ev events_effect_def)
  have "room_lookup (trim (cli_RoomID input)) (w_db w) = Some room \<and> room_Status room = ''vacant''"
    using room by simp
  moreover have "live (db_leases (w_db w')) = live (db_leases (w_db w)) @ [l]"
    by (simp add: fin db)
  moreover have "live (db_bills (w_db w')) = live (db_bills (w_db w)) @ bs"
    by (simp add: fin db bs_def)
  moreover have "\<forall>r \<in> set (live (db_rooms (w_db w'))). rm_ID r = l_RoomID l \<longrightarrow> rm_Status r = ''occupied''"
    by (auto simp: fin set_room_status_def)
  moreover have "\<forall>t \<in> set (live (db_tenants (w_db w'))). tn_ID t = l_TenantID l \<longrightarrow> tn_Status t \<noteq> ''inactive''"
    by (auto simp: fin activate_tenant_def)
  ultimately show ?thesis using bills lf st(7,8) by (intro exI [of _ room] exI [of _ bs]) simp
qed

section \<open>A concrete office\<close>

text \<open>One property with one vacant room, one inactive tenant, the deposit titles,
  and no failures; ids are runs of a letter.\<close>

definition sample_env :: env where
  "sample_env = \<lparr>e_now = go_date 2024 2 10 0, e_id = (\<lambda>n. replicate (Suc n) CHR ''x''),
     e_row_id = (\<lambda>n k. replicate (Suc n) CHR ''x'' @ replicate (Suc k) CHR ''y''),
     e_uuid_ok = (\<lambda>s. True)\<rparr>"

definition sample_tenant :: tenant_row where
  "sample_tenant = \<lparr>tn_ID = ''t1'', tn_Name = ''Lin'', tn_Email = None, tn_Phone = None, tn_Contacts = [],
     tn_BirthDate = None, tn_NationalID = None, tn_Address = None, tn_Occupation = None,
     tn_Status = ''inactive'', tn_CreatedAt = zero_time, tn_UpdatedAt = zero_time, tn_Version = 1\<rparr>"

definition sample_room :: room_row where
  "sample_room = \<lparr>rm_ID = ''r1'', rm_PropertyID = ''p1'', rm_Name = ''101'', rm_Status = ''vacant'',
     rm_Size = None, rm_Floor = Some ''1F'', rm_RoomType = None, rm_Facilities = None,
     rm_DefaultRentAmount = Some 12000, rm_Notes = None, rm_Zone = None, rm_CreatedAt = zero_time,
     rm_UpdatedAt = zero_time\<rparr>"

definition sample_property :: property_row where
  "sample_property = \<lparr>pr_ID = ''p1'', pr_Name = ''House'', pr_PropertyPublicName = ''House'', pr_Subtitle = None,
     pr_Address = ''Main St'', pr_ElectricityUnitPrice = Some (11 / 2),
     pr_DefaultElectricityBillingCadence = BillingCadenceBimonthly, pr_OwnerID = ''o1'',
     pr_ContactPhone = None, pr_ContactEmail = None, pr_Notes = None, pr_Facilities = None,
     pr_CreatedAt = zero_time, pr_UpdatedAt = zero_time, pr_Version = 1\<rparr>"

definition sample_db :: db where
  "sample_db = \<lparr>
     db_tenants = [(sample_tenant, False)], db_rooms = [(sample_room, False)],
     db_properties = [(sample_property, False)],
     db_leases = [], db_bills = [],
     db_accounts = [(\<lparr>pa_ID = ''a1'', pa_PropertyID = ''p1'', pa_Version = 1\<rparr>, False)],
     db_titles =
       [\<lparr>ti_ID = ''i1'', ti_Code = ''4601'', ti_Name = ''deduction'', ti_Kind = ''income'', ti_IsActive = True\<rparr>,
        \<lparr>ti_ID = ''i2'', ti_Code = ''4602'', ti_Name = ''refund'', ti_Kind = ''income'', ti_IsActive = True\<rparr>],
     db_entries = [], db_force_terminations = [], db_force_termination_bills = [],
     db_users = [], db_snapshots = [], db_snapshot_entries = [], db_job_runs = [],
     db_repairs = [], db_journals = []\<rparr>"

definition sample_world :: world where
  "sample_world = \<lparr>w_db = sample_db, w_fresh = 0, w_faults = [], w_events = [], w_mails = []\<rparr>"

definition sample_create :: create_lease_input where
  "sample_create = \<lparr>cli_ActorRole = ''Admin'', cli_AssignedPropertyIDs = [], cli_TenantID = ''t1'',
     cli_RoomID = ''r1'', cli_RentAmount = 12000, cli_StartDate = go_date 2024 1 31 0,
     cli_EndDate = go_date 2024 3 30 0, cli_DepositAmount = 24000,
     cli_RentBillingCadence = '''', cli_ElectricityBillingCadence = None,
     cli_StartingMeterReading = 10, cli_Notes = None\<rparr>"

definition sample_created :: "(gerr + lease) \<times> world" where
  "sample_created = CreateLease_Execute sample_env (server_publish sample_env) sample_create sample_world"

lemma sample_created_ok: "is_inr (fst sample_created)"
  by code_simp

lemma CreateLease_creates_schedule_witness:
  "\<exists>l w'. CreateLease_Execute sample_env (server_publish sample_env) sample_create sample_world
            = (Inr l, w')
     \<and> l_RentAmount l = 12000 \<and> live (db_leases (w_db w')) = [l]
     \<and> (\<forall>r \<in> set (live (db_rooms (w_db w'))). rm_ID r = l_RoomID l \<longrightarrow> rm_Status r = ''occupied'')"
proof -
  obtain l w' where r: "CreateLease_Execute sample_env (server_publish sample_env) sample_create sample_world
      = (Inr l, w')"
    using sample_created_ok unfolding sample_created_def
    by (metis is_inr_iff prod.collapse)
  have ok: "t_off (cli_StartDate sample_create) = t_off (cli_EndDate sample_create)"
    "time_ok (cli_StartDate sample_create)" "time_ok (cli_EndDate sample_create)"
    by code_simp+
  have "live (db_leases (w_db sample_world)) = []" "cli_RentAmount sample_create = 12000"
    by code_simp+
  then show ?thesis
    using CreateLease_creates_schedule [OF r ok] r by (intro exI [of _ l] exI [of _ w']) auto
qed

end
