(* ===== verification/LeaseUpdate.thy ===== *)
theory LeaseUpdate
  imports LeaseCreate "HOL-Library.Multiset"
begin

text \<open>
  A rent change keeps the rent schedule of the lease: the property of
  \<open>UpdateLease\<close> that the regeneration of bills rests on.
\<close>

text \<open>The rent bills of a lease that count: not deleted and not voided.\<close>

definition live_rent :: "string \<Rightarrow> db \<Rightarrow> bill list" where
  "live_rent leaseID d =
     filter (\<lambda>b. is_rent b \<and> b_Status b \<noteq> StatusVoided) (bills_of leaseID d)"

text \<open>They are the periods the lease's terms call for, each due on its first day.\<close>

definition rent_schedule_ok :: "lease \<Rightarrow> db \<Rightarrow> bool" where
  "rent_schedule_ok l d \<longleftrightarrow>
    (\<exists>ps. BuildRentBillingPeriods (l_StartDate l) (l_EndDate l) (l_RentBillingCadence l) = Inr ps
       \<and> mset (map bill_days (live_rent (l_ID l) d)) = mset (map period_days ps)
       \<and> (\<forall>b \<in> set (live_rent (l_ID l) d). t_day (b_DueDate b) = t_day (b_PeriodStart b)))"

lemma UpdateLease_body_ok:
  assumes "UpdateLease_body E input leaseID rentAmount role op w = (Inr l', v)"
  shows "\<exists>l state. lease_by_id leaseID (w_db w) = Some l
     \<and> lease_Rehydrate (lease_to_state_update l) = Inr state
     \<and> ls_Status state = StatusActive \<and> 0 < rentAmount
     \<and> (if l_RentAmount l = rentAmount then l' = l \<and> w_db v = w_db w \<and> w_events v = w_events w
        else l' = touched E (\<lambda>l. l\<lparr>l_RentAmount := rentAmount\<rparr>) l
          \<and> (\<exists>nx. nx = NextRentPaymentDateAfter (l_StartDate l) op (ls_RentBillingCadence state)
            \<and> w_events v = w_events w @ [LeaseConditionChanged (l_ID l') (l_PropertyID l')
                 (l_RoomID l') (l_TenantID l') (l_RentAmount l') nx (time_UTC (e_now E))]
            \<and> (if time_after nx (l_EndDate l)
               then w_db v = with_lease E leaseID (\<lambda>l. l\<lparr>l_RentAmount := rentAmount\<rparr>) (w_db w)
               else (\<forall>b \<in> set (bills_of leaseID (w_db w)).
                       b_Type b = ''rent'' \<and> t_day nx \<le> t_day (b_DueDate b) \<longrightarrow>
                       b_Status b \<in> {''pending_payment'', ''pending_meter'', ''voided''})
                 \<and> (\<exists>rp n. BuildRentBillingPeriodsFromAnchor nx (l_EndDate l)
                        (ls_RentBillingCadence state) (time_dayOfMonth (l_StartDate l)) = Inr rp
                      \<and> w_db v = add_bills (created_bills E n (buildRentBillSeeds l' rp))
                          (void_future_rent E leaseID nx
                            (with_lease E leaseID (\<lambda>l. l\<lparr>l_RentAmount := rentAmount\<rparr>) (w_db w)))))))"
proof -
  from assms obtain l rh state u1 where
    ops: "FindLeaseByIDForUpdate leaseID w = (Inr l, u1)"
      "lease_Rehydrate (lease_to_state_update l) = Inr rh" "ChangeRent rh rentAmount = Inr state" and
    rest: "(if l_RentAmount l = ls_RentAmount state then tx_return l
       else let nextPaymentDate = NextRentPaymentDateAfter (l_StartDate l) op
                (ls_RentBillingCadence state);
              regenerate = \<not> time_after nextPaymentDate (l_EndDate l)
          in tx_bind (if regenerate
                then tx_bind (tx_map_err internal_cause
                       (HasLockedRentBillsFromDueDate leaseID nextPaymentDate))
                     (\<lambda>hasLockedBills. tx_reject hasLockedBills errLeaseUpdateHasLockedBills)
                else tx_return ()) (\<lambda>_.
             tx_bind (tx_map_err internal_cause
                (a_UpdateLeaseConditions E leaseID (ls_RentAmount state))) (\<lambda>updatedLease.
             tx_bind (if regenerate
                then tx_bind (tx_map_err internal_cause
                       (VoidRentBillsFromDueDate E leaseID nextPaymentDate)) (\<lambda>_.
                     tx_bind (tx_map_err lease_mapDomainError (tx_lift
                       (BuildRentBillingPeriodsFromAnchor nextPaymentDate (l_EndDate l)
                          (ls_RentBillingCadence state)
                          (time_dayOfMonth (l_StartDate l))))) (\<lambda>rentPeriods.
                     tx_map_err internal_cause
                       (CreateBills E (buildRentBillSeeds updatedLease rentPeriods))))
                else tx_return ()) (\<lambda>_.
             tx_bind (record_event (LeaseConditionChanged (l_ID updatedLease)
                (l_PropertyID updatedLease) (l_RoomID updatedLease) (l_TenantID updatedLease)
                (l_RentAmount updatedLease) nextPaymentDate (time_UTC (e_now E)))) (\<lambda>_.
             tx_return updatedLease))))) u1 = (Inr l', v)"
    unfolding UpdateLease_body_def a_FindLeaseByIDForUpdate_def tx_control by auto
  have ch: "ls_RentAmount state = rentAmount" "0 < rentAmount" "ls_Status rh = StatusActive"
    "ls_RentBillingCadence state = ls_RentBillingCadence rh"
    using ops(3) by (auto simp: ChangeRent_def split: if_splits)
  have f: "lease_by_id leaseID (w_db w) = Some l" "w_db u1 = w_db w" "w_events u1 = w_events w"
    using FindLeaseByIDForUpdate_D [OF ops(1)] by auto
  define nx where "nx = NextRentPaymentDateAfter (l_StartDate l) op (ls_RentBillingCadence rh)"
  show ?thesis
  proof (cases "l_RentAmount l = rentAmount")
    case True
    then show ?thesis using rest f ops(2) ch by (auto simp: tx_control)
  next
    case ne: False
    show ?thesis
    proof (cases "time_after nx (l_EndDate l)")
      case True
      then obtain u2 where u2: "UpdateLeaseConditions E leaseID rentAmount u1 = (Inr l', u2)"
        "record_event (LeaseConditionChanged (l_ID l') (l_PropertyID l') (l_RoomID l')
           (l_TenantID l') (l_RentAmount l') nx (time_UTC (e_now E))) u2 = (Inr (), v)"
        using rest ne by (auto simp: tx_control ch nx_def Let_def a_UpdateLeaseConditions_def)
      then show ?thesis
        using True ne f ops(2) ch UpdateLeaseConditions_D [OF u2(1)]
        by (auto simp: nx_def record_event_ok)
    next
      case False
      then obtain u2 u3 u4 u5 rp h where u:
        "HasLockedRentBillsFromDueDate leaseID nx u1 = (Inr h, u2)" "\<not> h"
        "UpdateLeaseConditions E leaseID rentAmount u2 = (Inr l', u3)"
        "VoidRentBillsFromDueDate E leaseID nx u3 = (Inr (), u4)"
        "BuildRentBillingPeriodsFromAnchor nx (l_EndDate l) (ls_RentBillingCadence rh)
           (time_dayOfMonth (l_StartDate l)) = Inr rp"
        "CreateBills E (buildRentBillSeeds l' rp) u4 = (Inr (), u5)"
        "record_event (LeaseConditionChanged (l_ID l') (l_PropertyID l') (l_RoomID l')
           (l_TenantID l') (l_RentAmount l') nx (time_UTC (e_now E))) u5 = (Inr (), v)"
        using rest ne by (auto simp: tx_control ch nx_def Let_def a_UpdateLeaseConditions_def)
      have lk: "\<forall>b \<in> set (bills_of leaseID (w_db w)).
           b_Type b = ''rent'' \<and> t_day nx \<le> t_day (b_DueDate b) \<longrightarrow>
           b_Status b \<in> {''pending_payment'', ''pending_meter'', ''voided''}"
        and w2: "w_db u2 = w_db w" "w_events u2 = w_events w"
        using HasLockedRentBillsFromDueDate_D [OF u(1)] u(2) f by auto
      have l': "l' = touched E (\<lambda>l. l\<lparr>l_RentAmount := rentAmount\<rparr>) l"
        and w3: "w_db u3 = with_lease E leaseID (\<lambda>l. l\<lparr>l_RentAmount := rentAmount\<rparr>) (w_db w)"
          "w_events u3 = w_events w"
        using UpdateLeaseConditions_D [OF u(3)] w2 f by auto
      obtain n where w5: "w_db u5 = add_bills (created_bills E n (buildRentBillSeeds l' rp))
             (void_future_rent E leaseID nx (w_db u3))" "w_events u5 = w_events w"
        using CreateBills_ok [OF u(6)] VoidRentBillsFromDueDate_D [OF u(4)] w3 by auto
      show ?thesis
        apply (rule exI [of _ l], rule exI [of _ rh])
        using f ops(2) ch ne False lk l' w5 w3 u(5,7) by (auto simp: nx_def record_event_ok)
    qed
  qed
qed

section \<open>What the statements do to the rent bills\<close>

lemma lease_by_id_with_lease:
  assumes "\<And>l. l_ID (f l) = l_ID l"
  shows "lease_by_id k (with_lease E k f d) = map_option (touched E f) (lease_by_id k d)"
proof -
  have "l_ID (touched E f l) = l_ID l" for l by (simp add: touched_def assms)
  then have "find (\<lambda>l. l_ID l = k) (map (\<lambda>l. if l_ID l = k then touched E f l else l) ls)
      = map_option (touched E f) (find (\<lambda>l. l_ID l = k) ls)" for ls
    by (induction ls) auto
  then show ?thesis by (simp add: lease_by_id_def)
qed

lemma bills_of_simps [simp]:
  "bills_of k (with_lease E k' f d) = bills_of k d"
  "bills_of k (add_bills bs d) = bills_of k d @ filter (\<lambda>b. b_LeaseID b = k) bs"
  "bills_of k (add_entries es d) = bills_of k d"
  "bills_of k (add_lease l d) = bills_of k d"
  by (simp_all add: bills_of_def)

lemma lease_by_id_simps [simp]:
  "lease_by_id k (add_bills bs d) = lease_by_id k d"
  "lease_by_id k (update_bills E P f d) = lease_by_id k d"
  "lease_by_id k (void_future_rent E k' nx d) = lease_by_id k d"
  "lease_by_id k (add_entries es d) = lease_by_id k d"
  by (simp_all add: lease_by_id_def void_future_rent_def)

lemma live_rent_simps [simp]:
  "live_rent k (with_lease E k' f d) = live_rent k d"
  "live_rent k (add_bills bs d) = live_rent k d
     @ filter (\<lambda>b. is_rent b \<and> b_Status b \<noteq> StatusVoided) (filter (\<lambda>b. b_LeaseID b = k) bs)"
  by (simp_all add: live_rent_def)

text \<open>With no locked bill from the date on, voiding leaves exactly the earlier
  bills, untouched.\<close>

lemma filter_after_void:
  assumes "\<And>b. K (f b) = K b" "\<And>b. \<not> Q (f b)"
    and "\<And>b. P b \<Longrightarrow> K b \<and> \<not> D b"
    and "\<And>b. b \<in> set xs \<Longrightarrow> K b \<Longrightarrow> Q b \<Longrightarrow> \<not> D b \<Longrightarrow> P b"
  shows "filter Q (filter K (map (\<lambda>b. if P b then f b else b) xs)) = filter D (filter Q (filter K xs))"
  using assms(4)
proof (induction xs)
  case (Cons b xs)
  have IH: "filter Q (filter K (map (\<lambda>b. if P b then f b else b) xs)) = filter D (filter Q (filter K xs))"
    using Cons.prems by (intro Cons.IH) simp
  have p: "P b \<Longrightarrow> K b" "P b \<Longrightarrow> \<not> D b" "K b \<Longrightarrow> Q b \<Longrightarrow> \<not> D b \<Longrightarrow> P b"
    and f: "K (f b) = K b" "\<not> Q (f b)"
    using assms(1-3) Cons.prems by simp_all
  show ?case
  proof (cases "P b")
    case True
    then show ?thesis using p(1,2) [OF True]
      by (cases "Q b") (simp_all only: list.map filter.simps if_True f simp_thms IH if_False)
  next
    case False
    then show ?thesis using p(3) by (cases "K b"; cases "Q b"; cases "D b")
      (simp_all only: list.map filter.simps if_True simp_thms IH if_False)
  qed
qed simp

lemma live_rent_void:
  assumes "\<forall>b \<in> set (bills_of k d). b_Type b = ''rent'' \<and> t_day nx \<le> t_day (b_DueDate b) \<longrightarrow>
      b_Status b \<in> {''pending_payment'', ''pending_meter'', ''voided''}"
  shows "live_rent k (void_future_rent E k nx d)
       = filter (\<lambda>b. t_day (b_DueDate b) < t_day nx) (live_rent k d)"
proof -
  let ?P = "\<lambda>b. b_LeaseID b = k \<and> b_Type b = ''rent'' \<and> t_day nx \<le> t_day (b_DueDate b)
      \<and> b_Status b \<in> {''pending_payment'', ''pending_meter''}"
  let ?f = "\<lambda>b. b\<lparr>b_Status := ''voided'', b_UpdatedAt := e_now E, b_Version := b_Version b + 1\<rparr>"
  have "?P b" if "b \<in> set (live (db_bills d))" "b_LeaseID b = k"
    "is_rent b \<and> b_Status b \<noteq> StatusVoided" "\<not> t_day (b_DueDate b) < t_day nx" for b
  proof -
    have "b \<in> set (bills_of k d)" "b_Type b = ''rent''" "t_day nx \<le> t_day (b_DueDate b)"
      "b_Status b \<noteq> ''voided''"
      using that by (simp_all add: bills_of_def is_rent_def bill_consts)
    then show ?thesis using assms that(2) by blast
  qed
  then have "filter (\<lambda>b. is_rent b \<and> b_Status b \<noteq> StatusVoided)
        (filter (\<lambda>b. b_LeaseID b = k) (map (\<lambda>b. if ?P b then ?f b else b) (live (db_bills d))))
      = filter (\<lambda>b. t_day (b_DueDate b) < t_day nx)
          (filter (\<lambda>b. is_rent b \<and> b_Status b \<noteq> StatusVoided)
            (filter (\<lambda>b. b_LeaseID b = k) (live (db_bills d))))"
    by (intro filter_after_void) (simp_all add: bill_consts)
  then show ?thesis
    by (simp add: live_rent_def bills_of_def void_future_rent_def)
qed

lemma void_other_leases:
  "filter (\<lambda>b. b_LeaseID b \<noteq> k) (live (db_bills (void_future_rent E k nx d)))
     = filter (\<lambda>b. b_LeaseID b \<noteq> k) (live (db_bills d))"
proof -
  have "filter (\<lambda>b. b_LeaseID b \<noteq> k) (map (\<lambda>b. if b_LeaseID b = k \<and> P b then f b else b) xs)
      = filter (\<lambda>b. b_LeaseID b \<noteq> k) xs"
    if "\<And>b. b_LeaseID (f b) = b_LeaseID b" for P and f :: "bill \<Rightarrow> bill" and xs
    using that by (induction xs) auto
  then show ?thesis by (simp add: void_future_rent_def)
qed

lemma rent_bills_live:
  "filter (\<lambda>b. is_rent b \<and> b_Status b \<noteq> StatusVoided)
       (filter (\<lambda>b. b_LeaseID b = l_ID l) (created_bills E n (map (rent_seed l) ps)))
     = created_bills E n (map (rent_seed l) ps)"
  "filter (\<lambda>b. b_LeaseID b \<noteq> l_ID l) (created_bills E n (map (rent_seed l) ps)) = []"
proof -
  have st: "b_Status (new_bill E n (rent_seed l p)) \<noteq> StatusVoided" for n p
    by (simp add: new_bill_def rent_seed_def bill_consts)
  show "filter (\<lambda>b. is_rent b \<and> b_Status b \<noteq> StatusVoided)
       (filter (\<lambda>b. b_LeaseID b = l_ID l) (created_bills E n (map (rent_seed l) ps)))
     = created_bills E n (map (rent_seed l) ps)"
    and "filter (\<lambda>b. b_LeaseID b \<noteq> l_ID l) (created_bills E n (map (rent_seed l) ps)) = []"
    by (induction ps arbitrary: n) (simp_all add: rent_seed_bill st)
qed

lemma valid_cadence_trim: "isValidRentCadence c \<Longrightarrow> trim c = c \<and> c \<noteq> ''''"
proof -
  have "trim BillingCadenceMonthly = BillingCadenceMonthly"
    "trim BillingCadenceQuarterly = BillingCadenceQuarterly"
    "trim BillingCadenceSemiannual = BillingCadenceSemiannual"
    "trim BillingCadenceAnnual = BillingCadenceAnnual" by code_simp+
  moreover have "\<not> isValidRentCadence ''''" by code_simp
  ultimately show "isValidRentCadence c \<Longrightarrow> trim c = c \<and> c \<noteq> ''''"
    unfolding isValidRentCadence_def by metis
qed

lemma Rehydrate_cadence:
  assumes "lease_Rehydrate s = Inr t" "isValidRentCadence (ls_RentBillingCadence s)"
  shows "ls_RentBillingCadence t = ls_RentBillingCadence s"
  using assms valid_cadence_trim [OF assms(2)]
  by (auto simp: lease_Rehydrate_def normalizeState_def Let_def split: if_splits)

lemma rent_periods_due:
  assumes "BuildRentBillingPeriodsFromAnchor s e cadence a = Inr ps" "t_off s = t_off e" "p \<in> set ps"
  shows "DueDate p = PeriodStart p"
  using assms(1,3) rent_periods_iff [OF assms(2)] by (auto simp: rent_period_def)

text \<open>The heart of the matter: kept and regenerated bills together are the
  schedule again.\<close>

lemma regenerated_schedule:
  assumes ok: "rent_schedule_ok l d" and k: "l_ID l = k"
    and zone: "t_off (l_StartDate l) = 0" "t_off (l_EndDate l) = 0" "t_off op = 0"
    and nx: "nx = NextRentPaymentDateAfter (l_StartDate l) op (l_RentBillingCadence l)"
    and lock: "\<forall>b \<in> set (bills_of k d). b_Type b = ''rent'' \<and> t_day nx \<le> t_day (b_DueDate b) \<longrightarrow>
      b_Status b \<in> {''pending_payment'', ''pending_meter'', ''voided''}"
    and rp: "BuildRentBillingPeriodsFromAnchor nx (l_EndDate l) (l_RentBillingCadence l)
               (time_dayOfMonth (l_StartDate l)) = Inr rp"
    and l': "l_ID l' = k" "l_StartDate l' = l_StartDate l" "l_EndDate l' = l_EndDate l"
      "l_RentBillingCadence l' = l_RentBillingCadence l"
    and d': "live_rent k d' = filter (\<lambda>b. t_day (b_DueDate b) < t_day nx) (live_rent k d)
               @ created_bills E n (map (rent_seed l') rp)"
  shows "rent_schedule_ok l' d'"
proof -
  obtain ps where ps: "BuildRentBillingPeriods (l_StartDate l) (l_EndDate l) (l_RentBillingCadence l) = Inr ps"
    "mset (map bill_days (live_rent k d)) = mset (map period_days ps)"
    "\<forall>b \<in> set (live_rent k d). t_day (b_DueDate b) = t_day (b_PeriodStart b)"
    using ok unfolding rent_schedule_ok_def k by blast
  have days: "map period_days rp = filter (\<lambda>p. t_day nx \<le> fst p) (map period_days ps)"
    using regenerated_days [OF ps(1) _ _ nx rp] zone by simp
  have "t_off nx = 0"
    using rp nx zone ps(1) rent_periods_iff [of "l_StartDate l" "l_EndDate l"]
    by (simp add: BuildRentBillingPeriods_def next_payment_eq)
  then have due: "\<forall>p \<in> set rp. DueDate p = PeriodStart p"
    using rent_periods_due [OF rp] zone by simp
  have kept: "map bill_days (filter (\<lambda>b. t_day (b_DueDate b) < t_day nx) xs)
      = filter (\<lambda>p. fst p < t_day nx) (map bill_days xs)"
    if "\<forall>b \<in> set xs. t_day (b_DueDate b) = t_day (b_PeriodStart b)" for xs
    using that by (induction xs) (auto simp: bill_days_def)
  have "mset (map bill_days (live_rent k d'))
      = filter_mset (\<lambda>p. fst p < t_day nx) (mset (map bill_days (live_rent k d)))
        + mset (map period_days rp)"
    unfolding d' by (simp only: map_append mset_append kept [OF ps(3)] created_rent_bills mset_filter)
  also have "\<dots> = filter_mset (\<lambda>p. fst p < t_day nx) (mset (map period_days ps))
      + filter_mset (\<lambda>p. \<not> fst p < t_day nx) (mset (map period_days ps))"
    unfolding ps(2) days mset_filter by (simp add: not_less)
  also have "\<dots> = mset (map period_days ps)"
    by (rule multiset_partition [symmetric])
  finally have m: "mset (map bill_days (live_rent k d')) = mset (map period_days ps)" .
  have "t_day (b_DueDate b) = t_day (b_PeriodStart b)"
    if "b \<in> set (created_bills E n (map (rent_seed l') rp))" for b
    using set_created_bills [OF that] due by (auto simp: new_bill_def rent_seed_def)
  then have "\<forall>b \<in> set (live_rent k d'). t_day (b_DueDate b) = t_day (b_PeriodStart b)"
    using ps(3) by (auto simp: d')
  then show ?thesis using ps(1) m l' unfolding rent_schedule_ok_def by auto
qed

section \<open>The property\<close>

text \<open>What a successful rent change has done, with the database it leaves.\<close>

lemma UpdateLease_Execute_ok:
  assumes "UpdateLease_Execute E (server_publish E) input w = (Inr l', w')"
  shows "\<exists>rentAmount role op v. uli_RentAmount input = Some rentAmount
     \<and> (op = uli_OperationDate input \<or> op = time_UTC (e_now E))
     \<and> w_db v = w_db w \<and> w_events v = []
     \<and> (\<exists>v'. UpdateLease_body E input (trim (uli_LeaseID input)) rentAmount role op v = (Inr l', v')
         \<and> w_db w' = events_effect E (w_events v') (w_db v'))"
proof -
  from assms obtain rentAmount role op where
    v: "uli_RentAmount input = Some rentAmount"
      "op = uli_OperationDate input \<or> op = time_UTC (e_now E)" and
    tx: "WithinTransaction (server_publish E) (UpdateLease_body E input (trim (uli_LeaseID input))
           rentAmount role op) w = (Inr l', w')"
    by (auto simp: UpdateLease_Execute_def tx_control UpdateLease_validate_def normalizeLeaseID_def
        Let_def split: if_splits sum.splits option.splits)
  then show ?thesis using server_run_D [OF tx] by fast
qed

lemma schedule_unchanged:
  assumes "rent_schedule_ok l d" "live_rent (l_ID l') d' = live_rent (l_ID l) d"
    "l_StartDate l' = l_StartDate l" "l_EndDate l' = l_EndDate l"
    "l_RentBillingCadence l' = l_RentBillingCadence l"
  shows "rent_schedule_ok l' d'"
  using assms unfolding rent_schedule_ok_def by simp

lemma touched_rent [simp]:
  "l_ID (touched E (\<lambda>l. l\<lparr>l_RentAmount := r\<rparr>) l) = l_ID l"
  "l_StartDate (touched E (\<lambda>l. l\<lparr>l_RentAmount := r\<rparr>) l) = l_StartDate l"
  "l_EndDate (touched E (\<lambda>l. l\<lparr>l_RentAmount := r\<rparr>) l) = l_EndDate l"
  "l_RentBillingCadence (touched E (\<lambda>l. l\<lparr>l_RentAmount := r\<rparr>) l) = l_RentBillingCadence l"
  "l_RentAmount (touched E (\<lambda>l. l\<lparr>l_RentAmount := r\<rparr>) l) = r"
  by (simp_all add: touched_def)

definition with_rent :: "env \<Rightarrow> string \<Rightarrow> int \<Rightarrow> db \<Rightarrow> db" where
  "with_rent E k r d = with_lease E k (\<lambda>l. l\<lparr>l_RentAmount := r\<rparr>) d"

text \<open>The three outcomes of a successful rent change on a lease in order.\<close>

lemma UpdateLease_outcome:
  assumes run: "UpdateLease_Execute E (server_publish E) input w = (Inr l', w')"
    and l: "lease_by_id (trim (uli_LeaseID input)) (w_db w) = Some l" "rent_schedule_ok l (w_db w)"
    and zone: "t_off (l_StartDate l) = 0" "t_off (l_EndDate l) = 0"
      "t_off (uli_OperationDate input) = 0"
  obtains (same) "l' = l" "w_db w' = w_db w" "uli_RentAmount input = Some (l_RentAmount l')"
    | (late) r where "uli_RentAmount input = Some r"
        "l' = touched E (\<lambda>l. l\<lparr>l_RentAmount := r\<rparr>) l" "w_db w' = with_rent E (l_ID l) r (w_db w)"
    | (regenerate) r op nx rp n where "uli_RentAmount input = Some r" "t_off op = 0"
        "l' = touched E (\<lambda>l. l\<lparr>l_RentAmount := r\<rparr>) l"
        "nx = NextRentPaymentDateAfter (l_StartDate l) op (l_RentBillingCadence l)"
        "\<forall>b \<in> set (bills_of (l_ID l) (w_db w)). b_Type b = ''rent'' \<and> t_day nx \<le> t_day (b_DueDate b) \<longrightarrow>
           b_Status b \<in> {''pending_payment'', ''pending_meter'', ''voided''}"
        "BuildRentBillingPeriodsFromAnchor nx (l_EndDate l) (l_RentBillingCadence l)
           (time_dayOfMonth (l_StartDate l)) = Inr rp"
        "w_db w' = add_bills (created_bills E n (map (rent_seed l') rp))
           (void_future_rent E (l_ID l) nx (with_rent E (l_ID l) r (w_db w)))"
proof -
  have id: "trim (uli_LeaseID input) = l_ID l" using lease_by_id_Some [OF l(1)] by simp
  obtain rentAmount role op v v' where
    x: "uli_RentAmount input = Some rentAmount"
      "op = uli_OperationDate input \<or> op = time_UTC (e_now E)"
      "w_db v = w_db w" "w_events v = []"
      "UpdateLease_body E input (l_ID l) rentAmount role op v = (Inr l', v')"
      "w_db w' = events_effect E (w_events v') (w_db v')"
    using UpdateLease_Execute_ok [OF run] unfolding id by blast
  have op: "t_off op = 0" using x(2) zone(3) by auto
  obtain state where state: "lease_Rehydrate (lease_to_state_update l) = Inr state" and
    body: "if l_RentAmount l = rentAmount then l' = l \<and> w_db v' = w_db v \<and> w_events v' = w_events v
        else l' = touched E (\<lambda>l. l\<lparr>l_RentAmount := rentAmount\<rparr>) l
          \<and> (\<exists>nx. nx = NextRentPaymentDateAfter (l_StartDate l) op (ls_RentBillingCadence state)
            \<and> w_events v' = w_events v @ [LeaseConditionChanged (l_ID l') (l_PropertyID l')
                 (l_RoomID l') (l_TenantID l') (l_RentAmount l') nx (time_UTC (e_now E))]
            \<and> (if time_after nx (l_EndDate l)
               then w_db v' = with_rent E (l_ID l) rentAmount (w_db v)
               else (\<forall>b \<in> set (bills_of (l_ID l) (w_db v)).
                       b_Type b = ''rent'' \<and> t_day nx \<le> t_day (b_DueDate b) \<longrightarrow>
                       b_Status b \<in> {''pending_payment'', ''pending_meter'', ''voided''})
                 \<and> (\<exists>rp n. BuildRentBillingPeriodsFromAnchor nx (l_EndDate l)
                        (ls_RentBillingCadence state) (time_dayOfMonth (l_StartDate l)) = Inr rp
                      \<and> w_db v' = add_bills (created_bills E n (buildRentBillSeeds l' rp))
                          (void_future_rent E (l_ID l) nx (with_rent E (l_ID l) rentAmount (w_db v))))))"
    using UpdateLease_body_ok [OF x(5)] l(1) unfolding id x(3) with_rent_def by auto
  have "isValidRentCadence (l_RentBillingCadence l)"
    using l(2) by (auto simp: rent_schedule_ok_def BuildRentBillingPeriods_def
        rent_periods_iff [of "l_StartDate l" "l_EndDate l"] zone)
  then have cad: "ls_RentBillingCadence state = l_RentBillingCadence l"
    using Rehydrate_cadence [OF state] by (simp add: lease_to_state_update_def)
  show ?thesis
    using body x(1,4,6) same late regenerate op unfolding cad buildRentBillSeeds_def x(3)
    by (fastforce simp: events_effect_def split: if_splits)
qed

text \<open>What regeneration leaves of the rent bills.\<close>

lemma regenerated_live_rent:
  assumes "\<forall>b \<in> set (bills_of k d). b_Type b = ''rent'' \<and> t_day nx \<le> t_day (b_DueDate b) \<longrightarrow>
           b_Status b \<in> {''pending_payment'', ''pending_meter'', ''voided''}" "l_ID l' = k"
    and "d' = add_bills (created_bills E n (map (rent_seed l') rp))
           (void_future_rent E k nx (with_rent E k r d))"
  shows "live_rent k d' = filter (\<lambda>b. t_day (b_DueDate b) < t_day nx) (live_rent k d)
        @ created_bills E n (map (rent_seed l') rp)"
    and "b \<in> set (live_rent k d) \<Longrightarrow> b_Status b \<notin> {StatusPendingPayment, StatusPendingMeter} \<Longrightarrow>
      t_day (b_DueDate b) < t_day nx"
    and "filter (\<lambda>b. b_LeaseID b \<noteq> k) (live (db_bills d'))
      = filter (\<lambda>b. b_LeaseID b \<noteq> k) (live (db_bills d))"
proof -
  show "live_rent k d' = filter (\<lambda>b. t_day (b_DueDate b) < t_day nx) (live_rent k d)
        @ created_bills E n (map (rent_seed l') rp)"
    using live_rent_void [of k "with_rent E k r d" nx E] assms(1,2) rent_bills_live(1) [of l' E n rp]
    by (simp add: assms(3) with_rent_def)
  show "filter (\<lambda>b. b_LeaseID b \<noteq> k) (live (db_bills d'))
      = filter (\<lambda>b. b_LeaseID b \<noteq> k) (live (db_bills d))"
    using rent_bills_live(2) [of l' E n rp] assms(2)
    by (simp add: assms(3) with_rent_def void_other_leases)
  assume b: "b \<in> set (live_rent k d)" "b_Status b \<notin> {StatusPendingPayment, StatusPendingMeter}"
  then have "b \<in> set (bills_of k d)" "b_Type b = ''rent''" "b_Status b \<noteq> ''voided''"
    by (simp_all add: live_rent_def is_rent_def bill_consts)
  then show "t_day (b_DueDate b) < t_day nx"
    using assms(1) b(2) unfolding bill_consts by (metis insert_iff not_le singletonD)
qed

text \<open>
  C2.  A rent change keeps the rent schedule.  Starting from a lease whose
  rent bills are the periods of its terms, each due on its first day, a
  successful \<open>UpdateLease\<close> leaves the lease with the requested rent and with
  rent bills that again are exactly the periods of its terms: every bill that
  counts is an old one, unchanged, or a new pending one at the new rent; every
  bill that is neither pending nor voided (paid, overdue, written off) is kept
  as it is; and no bill of another lease is touched.
\<close>

theorem UpdateLease_keeps_schedule:
  assumes run: "UpdateLease_Execute E (server_publish E) input w = (Inr l', w')"
    and l: "lease_by_id (trim (uli_LeaseID input)) (w_db w) = Some l" "rent_schedule_ok l (w_db w)"
    and zone: "t_off (l_StartDate l) = 0" "t_off (l_EndDate l) = 0"
      "t_off (uli_OperationDate input) = 0"
  shows "lease_by_id (l_ID l) (w_db w') = Some l' \<and> uli_RentAmount input = Some (l_RentAmount l')
    \<and> rent_schedule_ok l' (w_db w')
    \<and> (\<forall>b \<in> set (live_rent (l_ID l) (w_db w')). b \<in> set (live_rent (l_ID l) (w_db w))
         \<or> b_Amount b = Some (l_RentAmount l') \<and> b_Status b = StatusPendingPayment)
    \<and> (\<forall>b \<in> set (live_rent (l_ID l) (w_db w)).
         b_Status b \<notin> {StatusPendingPayment, StatusPendingMeter} \<longrightarrow>
         b \<in> set (live_rent (l_ID l) (w_db w')))
    \<and> filter (\<lambda>b. b_LeaseID b \<noteq> l_ID l) (live (db_bills (w_db w')))
      = filter (\<lambda>b. b_LeaseID b \<noteq> l_ID l) (live (db_bills (w_db w)))"
proof -
  have id: "lease_by_id (l_ID l) (w_db w) = Some l" using l(1) lease_by_id_Some [OF l(1)] by simp
  show ?thesis
  proof (rule UpdateLease_outcome [OF run l zone], goal_cases)
    case 1
    then show ?case using id l(2) by simp
  next
    case (2 r)
    then have "rent_schedule_ok l' (w_db w')"
      by (intro schedule_unchanged [OF l(2)]) (simp_all add: with_rent_def)
    then show ?case using 2 id by (simp add: lease_by_id_with_lease with_rent_def)
  next
    case (3 r op nx rp n)
    have id': "l_ID l' = l_ID l" by (simp add: 3(3))
    note kept = regenerated_live_rent [OF 3(5) id' 3(7)]
    have "rent_schedule_ok l' (w_db w')"
      by (intro regenerated_schedule [OF l(2) refl zone(1,2) 3(2,4,5,6) _ _ _ _ kept(1)])
        (simp_all add: 3(3))
    moreover have "b_Amount b = Some (l_RentAmount l') \<and> b_Status b = StatusPendingPayment"
      if "b \<in> set (created_bills E n (map (rent_seed l') rp))" for b
      using set_created_bills [OF that] by (auto simp: rent_seed_bill) (simp add: new_bill_def rent_seed_def)
    moreover have "lease_by_id (l_ID l) (w_db w') = Some l'"
      using id by (simp add: 3(3,7) lease_by_id_with_lease with_rent_def)
    ultimately show ?case using 3(1,3) kept by auto
  qed
qed

text \<open>The office with one lease from 31 January to 29 April 2024 and its rent
  bills; the rent is raised on 10 February.\<close>

definition leased_row :: lease where
  "leased_row = new_lease sample_env 0
     \<lparr>clp_TenantID = ''t1'', clp_RoomID = ''r1'', clp_PropertyID = ''p1'', clp_RentAmount = 12000,
      clp_StartDate = go_date 2024 1 31 0, clp_EndDate = go_date 2024 4 29 0,
      clp_RentBillingCadence = ''monthly'', clp_ElectricityBillingCadence = ''bimonthly'',
      clp_StartingMeterReading = 10, clp_DepositAmount = 24000, clp_Notes = None\<rparr>"

definition leased_periods :: "billing_period list" where
  "leased_periods = projr (BuildRentBillingPeriods (l_StartDate leased_row) (l_EndDate leased_row)
     (l_RentBillingCadence leased_row))"

definition leased_world :: world where
  "leased_world = sample_world\<lparr>w_db := add_bills (created_bills sample_env 1
      (map (rent_seed leased_row) leased_periods)) (add_lease leased_row sample_db), w_fresh := 9\<rparr>"

definition sample_raise :: update_lease_input where
  "sample_raise = \<lparr>uli_ActorRole = ''organizer'', uli_AssignedPropertyIDs = ['' p1''],
     uli_LeaseID = '' x '', uli_RentAmount = Some 15000, uli_EndDate = None,
     uli_RentBillingCadence = None, uli_OperationDate = zero_time\<rparr>"

lemma leased_periods_ok:
  "BuildRentBillingPeriods (l_StartDate leased_row) (l_EndDate leased_row)
     (l_RentBillingCadence leased_row) = Inr leased_periods \<and> length leased_periods = 3"
proof -
  have "is_inr (BuildRentBillingPeriods (l_StartDate leased_row) (l_EndDate leased_row)
     (l_RentBillingCadence leased_row)) \<and> length leased_periods = 3" by code_simp
  then show ?thesis by (auto simp: is_inr_iff leased_periods_def)
qed

lemma leased_schedule: "rent_schedule_ok leased_row (w_db leased_world)"
proof -
  have "live_rent (l_ID leased_row) sample_db = []" by code_simp
  then have lr: "live_rent (l_ID leased_row) (w_db leased_world)
      = created_bills sample_env 1 (map (rent_seed leased_row) leased_periods)"
    using rent_bills_live(1) [of leased_row sample_env 1 leased_periods]
    by (simp add: leased_world_def) (simp add: live_rent_def bills_of_def)
  have z: "t_off (l_StartDate leased_row) = t_off (l_EndDate leased_row)" by code_simp
  have "DueDate p = PeriodStart p" if "p \<in> set leased_periods" for p
    by (rule rent_periods_due [OF leased_periods_ok [THEN conjunct1, unfolded BuildRentBillingPeriods_def]
          z that])
  then have "t_day (b_DueDate b) = t_day (b_PeriodStart b)"
    if "b \<in> set (created_bills sample_env 1 (map (rent_seed leased_row) leased_periods))" for b
    using set_created_bills [OF that] by (auto simp: new_bill_def rent_seed_def)
  then show ?thesis
    using leased_periods_ok created_rent_bills(2) [of sample_env 1 leased_row leased_periods]
    unfolding rent_schedule_ok_def lr by (intro exI [of _ leased_periods]) simp
qed

lemma sample_raise_runs:
  "is_inr (fst (UpdateLease_Execute sample_env (server_publish sample_env) sample_raise leased_world))"
  by code_simp

lemma leased_row_found: "lease_by_id (trim (uli_LeaseID sample_raise)) (w_db leased_world) = Some leased_row"
  by code_simp

lemma UpdateLease_keeps_schedule_witness:
  "\<exists>l' w'. UpdateLease_Execute sample_env (server_publish sample_env) sample_raise leased_world = (Inr l', w')
     \<and> l_RentAmount l' = 15000 \<and> rent_schedule_ok l' (w_db w')"
proof -
  obtain l' w' where r: "UpdateLease_Execute sample_env (server_publish sample_env) sample_raise leased_world
      = (Inr l', w')"
    using sample_raise_runs by (metis is_inr_iff prod.collapse)
  have z: "t_off (l_StartDate leased_row) = 0" "t_off (l_EndDate leased_row) = 0"
    "t_off (uli_OperationDate sample_raise) = 0" "uli_RentAmount sample_raise = Some 15000"
    by code_simp+
  show ?thesis
    using UpdateLease_keeps_schedule [OF r leased_row_found leased_schedule z(1-3)] z(4) r by auto
qed

end
