(* ===== verification/LeaseDeposit.thy ===== *)
theory LeaseDeposit
  imports LeaseUpdate
begin

text \<open>
  The commands that end a lease or its deposit: the settlement of the deposit
  (application/lease/update_deposit.go), the normal and the forced termination
  and the query for a forced termination (application/lease/terminate_lease.go),
  with the ledger entries they book.
\<close>

section \<open>Ledger entries of a deposit\<close>

definition depositAccountingCategoryRefund :: string where
  "depositAccountingCategoryRefund = ''deposit_refund''"
definition depositAccountingCategoryDeduction :: string where
  "depositAccountingCategoryDeduction = ''deposit_deduction''"
definition depositAccountingTitleCodeRefund :: string where
  "depositAccountingTitleCodeRefund = ''4602''"
definition depositAccountingTitleCodeDeduction :: string where
  "depositAccountingTitleCodeDeduction = ''4601''"

lemmas deposit_consts = depositAccountingCategoryRefund_def depositAccountingCategoryDeduction_def
  depositAccountingTitleCodeRefund_def depositAccountingTitleCodeDeduction_def

text \<open>\<open>time.FixedZone("Asia/Taipei", 8*60*60)\<close>.\<close>

definition depositAccountingSourceDate :: "gtime \<Rightarrow> gtime" where
  "depositAccountingSourceDate value = time_in value (8 * 60 * 60)"

definition depositReasonValue :: "string option \<Rightarrow> string" where
  "depositReasonValue value = (case value of None \<Rightarrow> '''' | Some s \<Rightarrow> trim s)"

text \<open>The UTF-8 bytes of the display note of a refund.\<close>

definition refundDisplayNote :: string where
  "refundDisplayNote =
     [CHR 0xE6, CHR 0x8A, CHR 0xBC, CHR 0xE9, CHR 0x87, CHR 0x91, CHR 0xE9, CHR 0x80, CHR 0x80,
      CHR 0xE6, CHR 0xAC, CHR 0xBE]"

definition mapDepositAccountingError :: "gerr \<Rightarrow> gerr" where
  "mapDepositAccountingError err =
    (if errors_Is err ErrPropertyAccountNotFound_app
     then apperr_WithDetails (internal_cause err)
            (JObj [(''dependency'', JStr ''property_account'')])
     else internal_cause err)"

text \<open>The repository is an interface value that may be nil; the server passes the
  billing repository.\<close>

type_synonym deposit_repo = "(accounting_entry_params \<Rightarrow> unit tx) option"

definition server_deposit_repo :: "env \<Rightarrow> deposit_repo" where
  "server_deposit_repo E = Some (CreateDepositAccountingEntry E)"

definition errDepositAccountingMissing :: gerr where
  "errDepositAccountingMissing =
     apperr_WithDetails ErrInternalServerError (JObj [(''dependency'', JStr ''deposit_accounting'')])"

definition refund_entry :: "lease \<Rightarrow> int \<Rightarrow> gtime \<Rightarrow> accounting_entry_params" where
  "refund_entry lease refundAmount sourceDate =
    \<lparr>aep_PropertyID = l_PropertyID lease, aep_Category = depositAccountingCategoryRefund,
     aep_AccountingTitleCode = depositAccountingTitleCodeRefund, aep_Amount = - refundAmount,
     aep_Description = None,
     aep_SourceRef = JObj [(''lease_id'', JStr (l_ID lease)), (''type'', JStr ''DepositRefunded'')],
     aep_Year = time_year sourceDate, aep_Month = time_month sourceDate,
     aep_SourceDate = Some sourceDate, aep_RoomLabel = None, aep_TenantLabel = None,
     aep_PeriodLabel = None, aep_DisplayNote = Some refundDisplayNote\<rparr>"

definition deduction_entry :: "lease \<Rightarrow> int \<Rightarrow> string \<Rightarrow> gtime \<Rightarrow> accounting_entry_params" where
  "deduction_entry lease deductionAmount deductionReason sourceDate =
    \<lparr>aep_PropertyID = l_PropertyID lease, aep_Category = depositAccountingCategoryDeduction,
     aep_AccountingTitleCode = depositAccountingTitleCodeDeduction, aep_Amount = deductionAmount,
     aep_Description = Some deductionReason,
     aep_SourceRef = JObj [(''lease_id'', JStr (l_ID lease)), (''reason'', JStr deductionReason),
       (''type'', JStr ''DepositDeducted'')],
     aep_Year = time_year sourceDate, aep_Month = time_month sourceDate,
     aep_SourceDate = Some sourceDate, aep_RoomLabel = None, aep_TenantLabel = None,
     aep_PeriodLabel = None, aep_DisplayNote = Some deductionReason\<rparr>"

definition recordDepositAccountingEntries ::
    "deposit_repo \<Rightarrow> lease \<Rightarrow> int \<Rightarrow> int \<Rightarrow> string \<Rightarrow> gtime \<Rightarrow> unit tx" where
  "recordDepositAccountingEntries repo lease refundAmount deductionAmount deductionReason occurredAt =
    (if refundAmount = 0 \<and> deductionAmount = 0 then tx_return ()
     else case repo of
       None \<Rightarrow> tx_throw errDepositAccountingMissing
     | Some create \<Rightarrow>
         (let sourceDate = depositAccountingSourceDate occurredAt
          in tx_bind (if refundAmount > 0
                then tx_map_err mapDepositAccountingError
                       (create (refund_entry lease refundAmount sourceDate))
                else tx_return ()) (\<lambda>_.
             if deductionAmount > 0
             then tx_map_err mapDepositAccountingError
                    (create (deduction_entry lease deductionAmount deductionReason sourceDate))
             else tx_return ())))"

section \<open>UpdateDeposit\<close>

record update_deposit_input =
  udi_ActorRole :: string
  udi_AssignedPropertyIDs :: "string list"
  udi_LeaseID :: string
  udi_RefundAmount :: "int option"
  udi_DeductionAmount :: "int option"
  udi_DeductionReason :: "string option"

text \<open>The three events a deposit command may record.\<close>

definition record_deposit_events :: "lease \<Rightarrow> int \<Rightarrow> int \<Rightarrow> string option \<Rightarrow> gtime \<Rightarrow> unit tx" where
  "record_deposit_events lease refundAmount deductionAmount reason occurredAt =
     tx_bind (record_event_if (refundAmount > 0)
        (DepositRefunded (l_ID lease) (l_PropertyID lease) refundAmount occurredAt)) (\<lambda>_.
     record_event_if (deductionAmount > 0)
        (DepositDeducted (l_ID lease) (l_PropertyID lease) deductionAmount
           (depositReasonValue reason) occurredAt))"

definition UpdateDeposit_validate ::
    "env \<Rightarrow> update_deposit_input \<Rightarrow> gerr + (string \<times> string)" where
  "UpdateDeposit_validate E input =
    (let leaseID = trim (udi_LeaseID input); actorRole = actor_role (udi_ActorRole input)
     in if leaseID = '''' \<or> leaseID = zeroUUID then Inl ErrLeaseNotFound
        else if \<not> e_uuid_ok E leaseID
          then Inl (apperr_WithDetails ErrBadRequest (field_detail ''lease_id''))
        else if actorRole \<notin> {''admin'', ''organizer'', ''staff''} then Inl ErrForbidden
        else Inr (leaseID, actorRole))"

text \<open>The settled aggregate always has both amounts, so the dereferences
  \<open>*state.DepositRefundAmount\<close> and \<open>*state.DepositDeductionAmount\<close> are \<open>the\<close>.\<close>

definition UpdateDeposit_body ::
    "env \<Rightarrow> deposit_repo \<Rightarrow> update_deposit_input \<Rightarrow> string \<Rightarrow> string \<Rightarrow> lease tx" where
  "UpdateDeposit_body E repo input leaseID actorRole =
    (let refundAmount = intValue (udi_RefundAmount input);
         deductionAmount = intValue (udi_DeductionAmount input);
         occurredAt = time_UTC (e_now E)
     in tx_bind (tx_map_err mapLeaseLookupError (a_FindLeaseByIDForUpdate leaseID)) (\<lambda>current.
        tx_bind (tx_reject (\<not> in_scope actorRole [''organizer'', ''staff'']
                   (udi_AssignedPropertyIDs input) (l_PropertyID current)) ErrForbidden) (\<lambda>_.
        tx_bind (tx_map_err lease_mapDomainError
                   (tx_lift (lease_Rehydrate (lease_to_state_settle current)))) (\<lambda>aggregate.
        tx_bind (tx_map_err lease_mapDomainError (tx_lift (SettleDeposit aggregate refundAmount
                   deductionAmount (udi_DeductionReason input)))) (\<lambda>state.
        tx_bind (tx_map_err internal_cause (a_SettleDeposit E leaseID
                   (the (ls_DepositRefundAmount state)) (the (ls_DepositDeductionAmount state))
                   (ls_DepositDeductionReason state))) (\<lambda>updatedLease.
        tx_bind (recordDepositAccountingEntries repo updatedLease refundAmount deductionAmount
                   (depositReasonValue (udi_DeductionReason input)) occurredAt) (\<lambda>_.
        tx_bind (record_deposit_events updatedLease refundAmount deductionAmount
                   (udi_DeductionReason input) occurredAt) (\<lambda>_.
        tx_return updatedLease))))))))"

definition UpdateDeposit_Execute ::
    "env \<Rightarrow> deposit_repo \<Rightarrow> (event \<Rightarrow> unit tx) \<Rightarrow> update_deposit_input \<Rightarrow> lease tx" where
  "UpdateDeposit_Execute E repo publish input =
     tx_bind (tx_lift (UpdateDeposit_validate E input))
       (\<lambda>(leaseID, actorRole).
          WithinTransaction publish (UpdateDeposit_body E repo input leaseID actorRole))"

section \<open>TerminateLease\<close>

record terminate_lease_input =
  tli_ActorRole :: string
  tli_AssignedPropertyIDs :: "string list"
  tli_LeaseID :: string
  tli_RefundAmount :: "int option"
  tli_DeductionAmount :: "int option"
  tli_DeductionReason :: "string option"

definition unpaidBillIDs :: "lease_bill list \<Rightarrow> string list" where
  "unpaidBillIDs bills =
     map bill_ID (filter (\<lambda>b. bill_Status b \<notin> {''paid'', ''voided'', ''written_off''}) bills)"

definition TerminateLease_validate ::
    "env \<Rightarrow> terminate_lease_input \<Rightarrow> gerr + (string \<times> string)" where
  "TerminateLease_validate E input =
    (case normalizeLeaseID E (tli_LeaseID input) of
       Inl e \<Rightarrow> Inl e
     | Inr leaseID \<Rightarrow>
         (let actorRole = actor_role (tli_ActorRole input)
          in if actorRole \<notin> {''admin'', ''organizer'', ''staff''} then Inl ErrForbidden
             else Inr (leaseID, actorRole)))"

definition TerminateLease_body ::
    "env \<Rightarrow> deposit_repo \<Rightarrow> terminate_lease_input \<Rightarrow> string \<Rightarrow> string \<Rightarrow> lease tx" where
  "TerminateLease_body E repo input leaseID actorRole =
    (let refundAmount = intValue (tli_RefundAmount input);
         deductionAmount = intValue (tli_DeductionAmount input);
         occurredAt = time_UTC (e_now E)
     in tx_bind (tx_map_err mapLeaseLookupError (a_FindLeaseByIDForUpdate leaseID)) (\<lambda>current.
        tx_bind (tx_reject (\<not> in_scope actorRole [''organizer'', ''staff'']
                   (tli_AssignedPropertyIDs input) (l_PropertyID current)) ErrForbidden) (\<lambda>_.
        tx_bind (tx_map_err internal_cause (ListBillsByLeaseIDForUpdate leaseID)) (\<lambda>bills.
        tx_bind (tx_reject (unpaidBillIDs bills \<noteq> []) (apperr_WithDetails errLeaseHasUnpaidBills
                   (JObj [(''unpaid_bill_ids'', JList (map JStr (unpaidBillIDs bills)))]))) (\<lambda>_.
        tx_bind (tx_map_err lease_mapDomainError
                   (tx_lift (lease_Rehydrate (lease_to_state_settle current)))) (\<lambda>aggregate.
        tx_bind (tx_map_err lease_mapDomainError (tx_lift (SettleDeposit aggregate refundAmount
                   deductionAmount (tli_DeductionReason input)))) (\<lambda>settledState.
        tx_bind (tx_map_err lease_mapDomainError (tx_lift (Terminate settledState))) (\<lambda>state.
        tx_bind (tx_map_err mapLeaseLookupError (a_SettleDeposit E leaseID
                   (the (ls_DepositRefundAmount state)) (the (ls_DepositDeductionAmount state))
                   (ls_DepositDeductionReason state))) (\<lambda>settled.
        tx_bind (tx_map_err mapLeaseLookupError (a_TerminateLease E leaseID
                   (normalizeDate occurredAt) None ''normal termination'' None)) (\<lambda>terminatedLease.
        tx_bind (recordDepositAccountingEntries repo settled refundAmount deductionAmount
                   (depositReasonValue (tli_DeductionReason input)) occurredAt) (\<lambda>_.
        tx_bind (record_deposit_events settled refundAmount deductionAmount
                   (tli_DeductionReason input) occurredAt) (\<lambda>_.
        tx_bind (record_event (LeaseTerminated (l_ID terminatedLease) (l_RoomID terminatedLease)
                   (l_PropertyID terminatedLease) (l_TenantID terminatedLease) False False
                   occurredAt)) (\<lambda>_.
        tx_return terminatedLease)))))))))))))"

definition TerminateLease_Execute ::
    "env \<Rightarrow> deposit_repo \<Rightarrow> (event \<Rightarrow> unit tx) \<Rightarrow> terminate_lease_input \<Rightarrow> lease tx" where
  "TerminateLease_Execute E repo publish input =
     tx_bind (tx_lift (TerminateLease_validate E input))
       (\<lambda>(leaseID, actorRole).
          WithinTransaction publish (TerminateLease_body E repo input leaseID actorRole))"

section \<open>ForceTerminateLease\<close>

record force_terminate_input =
  fti_ActorRole :: string
  fti_ActorUserID :: string
  fti_AssignedPropertyIDs :: "string list"
  fti_LeaseID :: string
  fti_TerminationDate :: gtime
  fti_ActualMoveOutDate :: "gtime option"
  fti_Reason :: string
  fti_DepositHandling :: string

record force_terminate_args =
  fta_LeaseID :: string
  fta_ActorUserID :: string
  fta_ActorRole :: string
  fta_Reason :: string
  fta_DepositHandling :: string
  fta_TerminationDate :: gtime
  fta_ActualMoveOutDate :: "gtime option"

definition ForceTerminate_validate ::
    "env \<Rightarrow> force_terminate_input \<Rightarrow> gerr + force_terminate_args" where
  "ForceTerminate_validate E input =
    (case normalizeLeaseID E (fti_LeaseID input) of
       Inl e \<Rightarrow> Inl e
     | Inr leaseID \<Rightarrow>
         (let actorUserID = trim (fti_ActorUserID input);
              actorRole = actor_role (fti_ActorRole input);
              reason = trim (fti_Reason input);
              depositHandling = trim (fti_DepositHandling input);
              terminationDate = normalizeDate (fti_TerminationDate input)
          in if actorUserID = '''' \<or> actorUserID = zeroUUID then Inl ErrUnauthorized
             else if \<not> e_uuid_ok E actorUserID then Inl ErrUnauthorized
             else if actorRole \<notin> {''admin'', ''organizer''} then Inl errForbiddenForceTermination
             else if reason = '''' then Inl errForceTerminationReasonRequired
             else if depositHandling = '''' then Inl errForceTerminationDepositHandlingRequired
             else if is_zero_time terminationDate
               then Inl (apperr_WithDetails ErrBadRequest (field_detail ''termination_date''))
             else Inr \<lparr>fta_LeaseID = leaseID, fta_ActorUserID = actorUserID,
                    fta_ActorRole = actorRole, fta_Reason = reason,
                    fta_DepositHandling = depositHandling, fta_TerminationDate = terminationDate,
                    fta_ActualMoveOutDate = map_option normalizeDate (fti_ActualMoveOutDate input)\<rparr>))"

text \<open>The UTF-8 bytes of the description of a write-off and of the full-width
  colon before its reason.\<close>

definition writeOffDescription :: string where
  "writeOffDescription =
     [CHR 0xE5, CHR 0xBC, CHR 0xB7, CHR 0xE5, CHR 0x88, CHR 0xB6, CHR 0xE7, CHR 0xB5, CHR 0x82,
      CHR 0xE6, CHR 0xAD, CHR 0xA2, CHR 0xE6, CHR 0x8A, CHR 0xBC, CHR 0xE9, CHR 0x87, CHR 0x91,
      CHR 0xE6, CHR 0xB2, CHR 0x92, CHR 0xE6, CHR 0x94, CHR 0xB6]"

definition fullWidthColon :: string where
  "fullWidthColon = [CHR 0xEF, CHR 0xBC, CHR 0x9A]"

definition write_off_entry :: "lease \<Rightarrow> string \<Rightarrow> string \<Rightarrow> gtime \<Rightarrow> accounting_entry_params" where
  "write_off_entry lease forceTerminationID reason sourceDate =
    (let accountingSourceDate = depositAccountingSourceDate sourceDate;
         description = (if reason \<noteq> '''' then writeOffDescription @ fullWidthColon @ reason
                        else writeOffDescription)
     in \<lparr>aep_PropertyID = l_PropertyID lease, aep_Category = depositAccountingCategoryDeduction,
         aep_AccountingTitleCode = depositAccountingTitleCodeDeduction,
         aep_Amount = l_DepositAmount lease, aep_Description = Some description,
         aep_SourceRef = JObj [(''force_termination_id'', JStr forceTerminationID),
           (''lease_id'', JStr (l_ID lease)), (''reason'', JStr reason),
           (''type'', JStr ''ForceTerminationDepositWrittenOff'')],
         aep_Year = time_year accountingSourceDate, aep_Month = time_month accountingSourceDate,
         aep_SourceDate = Some accountingSourceDate, aep_RoomLabel = None, aep_TenantLabel = None,
         aep_PeriodLabel = None, aep_DisplayNote = Some description\<rparr>)"

definition recordForceTerminationDepositWriteOff ::
    "deposit_repo \<Rightarrow> lease \<Rightarrow> string \<Rightarrow> string \<Rightarrow> gtime \<Rightarrow> unit tx" where
  "recordForceTerminationDepositWriteOff repo lease forceTerminationID reason sourceDate =
    (if l_DepositAmount lease = 0 then tx_return ()
     else case repo of
       None \<Rightarrow> tx_throw errDepositAccountingMissing
     | Some create \<Rightarrow> tx_map_err mapDepositAccountingError
         (create (write_off_entry lease forceTerminationID reason sourceDate)))"

definition ForceTerminate_body ::
    "env \<Rightarrow> deposit_repo \<Rightarrow> string list \<Rightarrow> force_terminate_args \<Rightarrow> force_termination tx" where
  "ForceTerminate_body E repo assigned args =
    (let leaseID = fta_LeaseID args; reason = fta_Reason args;
         depositHandling = fta_DepositHandling args; terminationDate = fta_TerminationDate args
     in tx_bind (tx_map_err mapLeaseLookupError (a_FindLeaseByIDForUpdate leaseID)) (\<lambda>current.
        tx_bind (tx_reject (\<not> in_scope (fta_ActorRole args) [''organizer''] assigned
                   (l_PropertyID current)) ErrForbidden) (\<lambda>_.
        tx_bind (tx_reject (time_before terminationDate (normalizeDate (l_StartDate current)))
                   (apperr_WithDetails ErrBadRequest (field_detail ''termination_date''))) (\<lambda>_.
        tx_bind (tx_map_err lease_mapDomainError
                   (tx_lift (lease_Rehydrate (lease_to_state_settle current)))) (\<lambda>aggregate.
        tx_bind (tx_map_err lease_mapDomainError
                   (tx_lift (ForceTerminate aggregate reason depositHandling))) (\<lambda>state.
        tx_bind (tx_map_err internal_cause (ListBillsByLeaseIDForUpdate leaseID)) (\<lambda>bills.
        tx_bind (tx_map_err internal_cause (CreateForceTermination E leaseID
                   (fta_ActorUserID args) reason depositHandling)) (\<lambda>created.
        tx_bind (tx_map_err internal_cause
                   (CreateForceTerminationBills E (ft_ID created) (unpaidBillIDs bills))) (\<lambda>_.
        tx_bind (tx_map_err internal_cause (WriteOffBills E (unpaidBillIDs bills) reason)) (\<lambda>_.
        tx_bind (tx_map_err internal_cause
                   (MarkForceTerminationBillsDone E (ft_ID created) (unpaidBillIDs bills))) (\<lambda>_.
        tx_bind (tx_map_err mapLeaseLookupError (a_ForceTerminateLease E leaseID terminationDate
                   (fta_ActualMoveOutDate args) reason (ls_DepositStatus state))) (\<lambda>terminatedLease.
        tx_bind (tx_map_err internal_cause (CompleteForceTermination E (ft_ID created))) (\<lambda>_.
        tx_bind (if depositHandling = ForceTerminationDepositWriteOff
                 then recordForceTerminationDepositWriteOff repo terminatedLease (ft_ID created)
                        reason terminationDate
                 else tx_return ()) (\<lambda>_.
        tx_bind (tx_map_err mapForceTerminationLookupError
                   (a_FindForceTerminationByID (ft_ID created))) (\<lambda>detail.
        tx_bind (record_event (LeaseTerminated (l_ID terminatedLease) (l_RoomID terminatedLease)
                   (l_PropertyID terminatedLease) (l_TenantID terminatedLease) True False
                   (time_UTC (e_now E)))) (\<lambda>_.
        tx_return detail))))))))))))))))"

definition ForceTerminate_Execute ::
    "env \<Rightarrow> deposit_repo \<Rightarrow> (event \<Rightarrow> unit tx) \<Rightarrow> force_terminate_input \<Rightarrow> force_termination tx" where
  "ForceTerminate_Execute E repo publish input =
     tx_bind (tx_lift (ForceTerminate_validate E input))
       (\<lambda>args. WithinTransaction publish
          (ForceTerminate_body E repo (fti_AssignedPropertyIDs input) args))"

section \<open>GetForceTermination\<close>

definition GetForceTermination_Execute ::
    "env \<Rightarrow> (event \<Rightarrow> unit tx) \<Rightarrow> string \<Rightarrow> string \<Rightarrow> force_termination tx" where
  "GetForceTermination_Execute E publish inputActorRole inputForceTerminationID =
    (let forceTerminationID = trim inputForceTerminationID;
         actorRole = actor_role inputActorRole
     in if forceTerminationID = '''' \<or> forceTerminationID = zeroUUID
          then tx_throw ErrForceTerminationNotFound
        else if \<not> e_uuid_ok E forceTerminationID
          then tx_throw (apperr_WithDetails ErrBadRequest (field_detail ''id''))
        else if actorRole \<notin> {''admin'', ''organizer''} then tx_throw ErrForbidden
        else WithinTransaction publish
               (tx_map_err mapForceTerminationLookupError
                  (a_FindForceTerminationByID forceTerminationID)))"

section \<open>What the deposit commands do\<close>

text \<open>The title codes of the ledger are unique (the database's constraint).\<close>

definition unique_codes :: "db \<Rightarrow> bool" where
  "unique_codes d \<longleftrightarrow> distinct (map ti_Code (db_titles d))"

lemma booked_cong:
  "db_accounts d = db_accounts d' \<Longrightarrow> db_titles d = db_titles d' \<Longrightarrow> booked p d es = booked p d' es"
  by (simp add: booked_def active_titles_def)

text \<open>What a reader of the ledger sees of an entry.\<close>

definition entry_view :: "entry_row \<Rightarrow> string \<times> string \<times> int" where
  "entry_view e = (en_Category e, en_TitleCode e, en_Amount e)"

text \<open>The account of a property.\<close>

definition account_of :: "string \<Rightarrow> db \<Rightarrow> string option" where
  "account_of propertyID d =
     map_option pa_ID (find (\<lambda>a. pa_PropertyID a = propertyID) (live (db_accounts d)))"

lemma booked_one:
  assumes "booked p d es" "unique_codes d"
  shows "map entry_view es = [(aep_Category p, aep_AccountingTitleCode p, aep_Amount p)]"
    and "\<forall>e \<in> set es. account_of (aep_PropertyID p) d = Some (en_PropertyAccountID e)
      \<and> en_Year e = aep_Year p \<and> en_Month e = aep_Month p
      \<and> en_SourceDate e = map_option pg_date (aep_SourceDate p)"
proof -
  obtain a i s where a: "find (\<lambda>a. pa_PropertyID a = aep_PropertyID p) (live (db_accounts d)) = Some a"
    "es = map (new_entry i s (pa_ID a) p) (active_titles (aep_AccountingTitleCode p) d)" "es \<noteq> []"
    using assms(1) by (auto simp: booked_def)
  have "length (filter (\<lambda>t. ti_Code t = c \<and> ti_IsActive t) ts) \<le> 1" if "distinct (map ti_Code ts)" for c ts
    using that
  proof (induction ts)
    case (Cons t ts)
    have "filter (\<lambda>u. ti_Code u = c \<and> ti_IsActive u) ts = []" if "ti_Code t = c"
      using Cons.prems that by (auto simp: filter_empty_conv image_iff)
    then show ?case using Cons by auto
  qed simp
  then have "length (active_titles (aep_AccountingTitleCode p) d) \<le> 1"
    using assms(2) by (simp add: active_titles_def unique_codes_def)
  moreover have "active_titles (aep_AccountingTitleCode p) d \<noteq> []" using a(2,3) by auto
  ultimately obtain t where t: "active_titles (aep_AccountingTitleCode p) d = [t]"
    by (cases "active_titles (aep_AccountingTitleCode p) d") auto
  then have "t \<in> set (active_titles (aep_AccountingTitleCode p) d)" by simp
  then have c: "ti_Code t = aep_AccountingTitleCode p" by (simp add: active_titles_def)
  show "map entry_view es = [(aep_Category p, aep_AccountingTitleCode p, aep_Amount p)]"
    by (simp add: a(2) t entry_view_def new_entry_def c)
  show "\<forall>e \<in> set es. account_of (aep_PropertyID p) d = Some (en_PropertyAccountID e)
      \<and> en_Year e = aep_Year p \<and> en_Month e = aep_Month p
      \<and> en_SourceDate e = map_option pg_date (aep_SourceDate p)"
    by (simp add: a t new_entry_def account_of_def)
qed

text \<open>The entries of a settlement: the refund goes out, the deduction comes in,
  dated with the Taipei date of the command.\<close>

definition settlement_entries :: "db \<Rightarrow> lease \<Rightarrow> int \<Rightarrow> int \<Rightarrow> gtime \<Rightarrow> entry_row list \<Rightarrow> bool" where
  "settlement_entries d lease refund deduction occurredAt es \<longleftrightarrow>
     map entry_view es =
       (if 0 < refund then [(''deposit_refund'', ''4602'', - refund)] else [])
       @ (if 0 < deduction then [(''deposit_deduction'', ''4601'', deduction)] else [])
     \<and> (\<forall>e \<in> set es. account_of (l_PropertyID lease) d = Some (en_PropertyAccountID e)
         \<and> en_Year e = time_year (time_in occurredAt 28800)
         \<and> en_Month e = time_month (time_in occurredAt 28800)
         \<and> en_SourceDate e = Some (pg_date (time_in occurredAt 28800)))"

lemma settlement_entries_cong:
  "db_accounts d = db_accounts d' \<Longrightarrow> l_PropertyID l = l_PropertyID l' \<Longrightarrow>
     settlement_entries d l r e t es = settlement_entries d' l' r e t es"
  by (simp add: settlement_entries_def account_of_def)

lemma recordDeposit_D:
  assumes "recordDepositAccountingEntries (server_deposit_repo E) l r d why t w = (Inr u, v)"
    and "0 \<le> r" "0 \<le> d" "unique_codes (w_db w)"
  shows "\<exists>es. settlement_entries (w_db w) l r d t es \<and> w_db v = add_entries es (w_db w)
     \<and> w_events v = w_events w"
proof -
  let ?t = "depositAccountingSourceDate t"
  define one where "one c p es \<longleftrightarrow> (if c then booked p (w_db w) es else es = [])" for c p es
  have "\<exists>es1 es2. one (0 < r) (refund_entry l r ?t) es1 \<and> one (0 < d) (deduction_entry l d why ?t) es2
      \<and> w_db v = add_entries (es1 @ es2) (w_db w) \<and> w_events v = w_events w"
  proof (cases "r = 0 \<and> d = 0")
    case True
    then have "v = w" using assms(1) by (simp add: recordDepositAccountingEntries_def tx_control)
    then show ?thesis using True by (simp add: one_def add_entries_def)
  next
    case False
    then obtain u1 where u: "(if 0 < r then CreateDepositAccountingEntry E (refund_entry l r ?t) w = (Inr (), u1)
          else u1 = w)"
      "(if 0 < d then CreateDepositAccountingEntry E (deduction_entry l d why ?t) u1 = (Inr (), v) else v = u1)"
      using assms(1) by (auto simp: recordDepositAccountingEntries_def server_deposit_repo_def Let_def
          tx_control split: if_splits)
    obtain es1 where 1: "one (0 < r) (refund_entry l r ?t) es1"
      "w_db u1 = add_entries es1 (w_db w)" "w_events u1 = w_events w"
      using u(1) CreateDepositAccountingEntry_ok [of E "refund_entry l r ?t" w "()" u1]
      by (cases "0 < r") (auto simp: one_def add_entries_def)
    have b: "booked p (w_db u1) es = booked p (w_db w) es" for p es
      by (rule booked_cong) (simp_all add: 1)
    obtain es2 where 2: "one (0 < d) (deduction_entry l d why ?t) es2"
      "w_db v = add_entries es2 (w_db u1)" "w_events v = w_events w"
      using u(2) CreateDepositAccountingEntry_ok [of E "deduction_entry l d why ?t" u1 "()" v] 1(3)
      by (cases "0 < d") (auto simp: one_def add_entries_def b)
    have "w_db v = add_entries (es1 @ es2) (w_db w)" by (simp add: 2 1 add_entries_def)
    then show ?thesis using 1 2 by blast
  qed
  then obtain es1 es2 where es: "one (0 < r) (refund_entry l r ?t) es1"
    "one (0 < d) (deduction_entry l d why ?t) es2"
    "w_db v = add_entries (es1 @ es2) (w_db w)" "w_events v = w_events w" by blast
  have "settlement_entries (w_db w) l r d t (es1 @ es2)"
    using es(1,2) booked_one [OF _ assms(4), of "refund_entry l r ?t" es1]
      booked_one [OF _ assms(4), of "deduction_entry l d why ?t" es2]
    by (auto simp: settlement_entries_def one_def refund_entry_def deduction_entry_def deposit_consts
        depositAccountingSourceDate_def split: if_splits)
  then show ?thesis using es(3,4) by blast
qed

text \<open>The settlement the aggregate accepts for a stored lease.\<close>

lemma settle_state:
  assumes "lease_Rehydrate st = Inr a" "SettleDeposit a r d why = Inr s" "is_i64 r" "is_i64 d"
    and st: "ls_DepositStatus st = l_DepositStatus l" "ls_DepositAmount st = l_DepositAmount l"
      "ls_Status st = l_Status l"
  shows "l_DepositStatus l = DepositStatusHeld" "0 \<le> r" "0 \<le> d" "r + d = l_DepositAmount l"
    "the (ls_DepositRefundAmount s) = r" "the (ls_DepositDeductionAmount s) = d"
    "ls_DepositDeductionReason s = (if 0 < d then trimmedStringPtr why else None)"
    "ls_Status s = l_Status l"
proof -
  have a: "ls_DepositStatus a = l_DepositStatus l" "ls_DepositAmount a = l_DepositAmount l"
    "ls_Status a = l_Status l" "0 \<le> ls_DepositAmount a"
    using Rehydrate_Inr [OF assms(1)] st by (simp_all add: lease_wf_def)
  note s = SettleDeposit_Inr [OF assms(2)]
  show "r + d = l_DepositAmount l" using settle_sum [OF assms(3,4) s(2,3,4) a(4)] a(2) by simp
  show "l_DepositStatus l = DepositStatusHeld" "0 \<le> r" "0 \<le> d"
    "the (ls_DepositRefundAmount s) = r" "the (ls_DepositDeductionAmount s) = d"
    "ls_DepositDeductionReason s = (if 0 < d then trimmedStringPtr why else None)"
    "ls_Status s = l_Status l"
    using s a by simp_all
qed

lemma settle_row:
  assumes "lease_Rehydrate (lease_to_state_settle l) = Inr a" "SettleDeposit a r d why = Inr s"
    and "is_i64 r" "is_i64 d"
  shows "l_DepositStatus l = DepositStatusHeld" "0 \<le> r" "0 \<le> d" "r + d = l_DepositAmount l"
    "the (ls_DepositRefundAmount s) = r" "the (ls_DepositDeductionAmount s) = d"
    "ls_DepositDeductionReason s = (if 0 < d then trimmedStringPtr why else None)"
    "ls_Status s = l_Status l"
  using settle_state [OF assms, of l] by (simp_all add: lease_to_state_settle_def)

lemma record_deposit_events_D:
  "record_deposit_events l r d why t w = (Inr u, v) \<Longrightarrow>
     w_db v = w_db w
     \<and> w_events v = w_events w @ (if 0 < r then [DepositRefunded (l_ID l) (l_PropertyID l) r t] else [])
         @ (if 0 < d then [DepositDeducted (l_ID l) (l_PropertyID l) d (depositReasonValue why) t] else [])"
  by (auto simp: record_deposit_events_def tx_simps)

lemma touched_settled [simp]:
  "l_ID (touched E (settled_lease r d why) l) = l_ID l"
  "l_PropertyID (touched E (settled_lease r d why) l) = l_PropertyID l"
  by (simp_all add: touched_def settled_lease_def)

lemma other_leases_kept:
  assumes "\<And>l. l_ID (f l) = l_ID l"
  shows "filter (\<lambda>l. l_ID l \<noteq> k) (live (db_leases (with_lease E k f d)))
       = filter (\<lambda>l. l_ID l \<noteq> k) (live (db_leases d))"
proof -
  have "l_ID (touched E f l) = l_ID l" for l by (simp add: touched_def assms)
  then have "filter (\<lambda>l. l_ID l \<noteq> k) (map (\<lambda>l. if l_ID l = k then touched E f l else l) ls)
      = filter (\<lambda>l. l_ID l \<noteq> k) ls" for ls
    by (induction ls) auto
  then show ?thesis by simp
qed

lemma UpdateDeposit_body_ok:
  assumes "UpdateDeposit_body E (server_deposit_repo E) input leaseID role w = (Inr l', v)"
    and "is_i64 (intValue (udi_RefundAmount input))" "is_i64 (intValue (udi_DeductionAmount input))"
    and "unique_codes (w_db w)"
  shows "\<exists>l why es. lease_by_id leaseID (w_db w) = Some l
     \<and> l_DepositStatus l = DepositStatusHeld
     \<and> 0 \<le> intValue (udi_RefundAmount input) \<and> 0 \<le> intValue (udi_DeductionAmount input)
     \<and> intValue (udi_RefundAmount input) + intValue (udi_DeductionAmount input) = l_DepositAmount l
     \<and> l' = touched E (settled_lease (intValue (udi_RefundAmount input))
                         (intValue (udi_DeductionAmount input)) why) l
     \<and> settlement_entries (w_db w) l (intValue (udi_RefundAmount input))
         (intValue (udi_DeductionAmount input)) (time_UTC (e_now E)) es
     \<and> w_db v = add_entries es (with_lease E leaseID (settled_lease (intValue (udi_RefundAmount input))
                         (intValue (udi_DeductionAmount input)) why) (w_db w))
     \<and> events_effect E (drop (length (w_events w)) (w_events v)) = id"
proof -
  let ?r = "intValue (udi_RefundAmount input)" and ?d = "intValue (udi_DeductionAmount input)"
  let ?t = "time_UTC (e_now E)"
  obtain l a s u1 u2 u3 where
    ops: "FindLeaseByIDForUpdate leaseID w = (Inr l, u1)"
      "lease_Rehydrate (lease_to_state_settle l) = Inr a"
      "SettleDeposit a ?r ?d (udi_DeductionReason input) = Inr s"
      "SettleDeposit_repo E leaseID (the (ls_DepositRefundAmount s))
         (the (ls_DepositDeductionAmount s)) (ls_DepositDeductionReason s) u1 = (Inr l', u2)"
      "recordDepositAccountingEntries (server_deposit_repo E) l' ?r ?d
         (depositReasonValue (udi_DeductionReason input)) ?t u2 = (Inr (), u3)"
      "record_deposit_events l' ?r ?d (udi_DeductionReason input) ?t u3 = (Inr (), v)"
    using assms(1) unfolding UpdateDeposit_body_def a_FindLeaseByIDForUpdate_def a_SettleDeposit_def
      Let_def tx_control by auto
  note s = settle_row [OF ops(2,3) assms(2,3)]
  note f = FindLeaseByIDForUpdate_D [OF ops(1)]
  note g = SettleDeposit_repo_D [OF ops(4) [unfolded s(5,6)]]
  have l': "l' = touched E (settled_lease ?r ?d (ls_DepositDeductionReason s)) l"
    and w2: "w_db u2 = with_lease E leaseID (settled_lease ?r ?d (ls_DepositDeductionReason s)) (w_db w)"
      "w_events u2 = w_events w"
    using f g by auto
  have "unique_codes (w_db u2)" using assms(4) by (simp add: w2 unique_codes_def)
  then obtain es where es: "settlement_entries (w_db u2) l' ?r ?d ?t es"
    "w_db u3 = add_entries es (w_db u2)" "w_events u3 = w_events u2"
    using recordDeposit_D [OF ops(5) s(2,3)] by blast
  have "settlement_entries (w_db w) l ?r ?d ?t es"
    using es(1) settlement_entries_cong [of "w_db u2" "w_db w" l' l] by (simp add: w2 l')
  moreover have "events_effect E (drop (length (w_events w)) (w_events v)) = id"
    using record_deposit_events_D [OF ops(6)] es(3) w2(2)
    by (auto simp: events_effect_def fun_eq_iff)
  ultimately show ?thesis
    using f s(1-4) l' es(2) w2(1) record_deposit_events_D [OF ops(6)] by auto
qed

text \<open>
  C4.  Settling a deposit balances the books.  A successful \<open>UpdateDeposit\<close> found
  a lease whose deposit was held; refund and deduction are non-negative and add
  up to the deposit; the ledger gains exactly one entry of minus the refund and
  one of plus the deduction (none for a part that is zero), in the account of
  the lease's property and dated with the Taipei date of the command; the lease
  is settled with these amounts and keeps its status; and no other lease, no
  bill, no room and no tenant changes.
\<close>

theorem UpdateDeposit_books_settlement:
  assumes "UpdateDeposit_Execute E (server_deposit_repo E) (server_publish E) input w = (Inr l', w')"
    and "is_i64 (intValue (udi_RefundAmount input))" "is_i64 (intValue (udi_DeductionAmount input))"
    and "unique_codes (w_db w)"
  shows "\<exists>l es. lease_by_id (trim (udi_LeaseID input)) (w_db w) = Some l
     \<and> l_DepositStatus l = DepositStatusHeld
     \<and> 0 \<le> intValue (udi_RefundAmount input) \<and> 0 \<le> intValue (udi_DeductionAmount input)
     \<and> intValue (udi_RefundAmount input) + intValue (udi_DeductionAmount input) = l_DepositAmount l
     \<and> settlement_entries (w_db w) l (intValue (udi_RefundAmount input))
         (intValue (udi_DeductionAmount input)) (time_UTC (e_now E)) es
     \<and> db_entries (w_db w') = db_entries (w_db w) @ es
     \<and> lease_by_id (l_ID l) (w_db w') = Some l'
     \<and> l_DepositStatus l' = DepositStatusSettled \<and> l_Status l' = l_Status l
     \<and> l_DepositRefundAmount l' = Some (intValue (udi_RefundAmount input))
     \<and> l_DepositDeductionAmount l' = Some (intValue (udi_DeductionAmount input))
     \<and> filter (\<lambda>k. l_ID k \<noteq> l_ID l) (live (db_leases (w_db w')))
       = filter (\<lambda>k. l_ID k \<noteq> l_ID l) (live (db_leases (w_db w)))
     \<and> db_bills (w_db w') = db_bills (w_db w) \<and> db_rooms (w_db w') = db_rooms (w_db w)
     \<and> db_tenants (w_db w') = db_tenants (w_db w)"
proof -
  let ?r = "intValue (udi_RefundAmount input)" and ?d = "intValue (udi_DeductionAmount input)"
  from assms(1) obtain role where
    tx: "WithinTransaction (server_publish E) (UpdateDeposit_body E (server_deposit_repo E) input
           (trim (udi_LeaseID input)) role) w = (Inr l', w')"
    by (auto simp: UpdateDeposit_Execute_def tx_control UpdateDeposit_validate_def Let_def
        split: if_splits)
  obtain v0 v where v: "w_db v0 = w_db w" "w_events v0 = []"
    "UpdateDeposit_body E (server_deposit_repo E) input (trim (udi_LeaseID input)) role v0 = (Inr l', v)"
    "w_db w' = events_effect E (w_events v) (w_db v)"
    using server_run_D [OF tx] by blast
  obtain l why es where l: "lease_by_id (trim (udi_LeaseID input)) (w_db w) = Some l"
    "l_DepositStatus l = DepositStatusHeld" "0 \<le> ?r" "0 \<le> ?d" "?r + ?d = l_DepositAmount l"
    "l' = touched E (settled_lease ?r ?d why) l"
    "settlement_entries (w_db w) l ?r ?d (time_UTC (e_now E)) es"
    "w_db v = add_entries es (with_lease E (trim (udi_LeaseID input)) (settled_lease ?r ?d why) (w_db w))"
    "events_effect E (w_events v) = id"
    using UpdateDeposit_body_ok [OF v(3) assms(2,3)] assms(4) v(1,2) by auto
  have id: "trim (udi_LeaseID input) = l_ID l" using lease_by_id_Some [OF l(1)] by simp
  have w': "w_db w' = add_entries es (with_lease E (l_ID l) (settled_lease ?r ?d why) (w_db w))"
    using v(4) l(8,9) id by simp
  have "lease_by_id (l_ID l) (w_db w') = Some l'"
    using l(1,6) by (simp add: w' id lease_by_id_with_lease settled_lease_def)
  moreover have "l_DepositStatus l' = DepositStatusSettled" "l_Status l' = l_Status l"
    "l_DepositRefundAmount l' = Some ?r" "l_DepositDeductionAmount l' = Some ?d"
    by (simp_all add: l(6) settled_lease_def touched_def lease_consts)
  moreover have "filter (\<lambda>k. l_ID k \<noteq> l_ID l) (live (db_leases (w_db w')))
       = filter (\<lambda>k. l_ID k \<noteq> l_ID l) (live (db_leases (w_db w)))"
    using other_leases_kept [of "settled_lease ?r ?d why" "l_ID l" E "w_db w"]
    unfolding w' add_entries_simps by (simp add: settled_lease_def)
  moreover have "db_entries (w_db w') = db_entries (w_db w) @ es"
    "db_bills (w_db w') = db_bills (w_db w)" "db_rooms (w_db w') = db_rooms (w_db w)"
    "db_tenants (w_db w') = db_tenants (w_db w)"
    by (simp_all add: w')
  ultimately show ?thesis
    using l(1-5,7) by (intro exI [of _ l] exI [of _ es]) (simp only: simp_thms)
qed

text \<open>The leased office with two bills written down rather than computed.\<close>

definition billed_world :: world where
  "billed_world = sample_world\<lparr>w_db := add_bills
     [new_bill sample_env 1 (rent_seed leased_row \<lparr>PeriodStart = go_date 2024 1 31 0,
        PeriodEnd = go_date 2024 2 28 0, DueDate = go_date 2024 1 31 0\<rparr>),
      new_bill sample_env 2 (electricity_seed leased_row \<lparr>PeriodStart = go_date 2024 1 31 0,
        PeriodEnd = go_date 2024 2 29 0, DueDate = go_date 2024 1 31 0\<rparr>)]
     (add_lease leased_row sample_db), w_fresh := 3\<rparr>"

definition sample_deposit :: update_deposit_input where
  "sample_deposit = \<lparr>udi_ActorRole = ''staff'', udi_AssignedPropertyIDs = [''p1''],
     udi_LeaseID = ''x'', udi_RefundAmount = Some 20000, udi_DeductionAmount = Some 4000,
     udi_DeductionReason = Some '' paint ''\<rparr>"

lemma sample_deposit_runs:
  "is_inr (fst (UpdateDeposit_Execute sample_env (server_deposit_repo sample_env) (server_publish sample_env)
     sample_deposit billed_world))"
  by code_simp

lemma billed_world_books: "db_entries (w_db billed_world) = [] \<and> unique_codes (w_db billed_world)"
  by code_simp

lemma UpdateDeposit_books_settlement_witness:
  "\<exists>l' w'. UpdateDeposit_Execute sample_env (server_deposit_repo sample_env) (server_publish sample_env)
       sample_deposit billed_world = (Inr l', w')
     \<and> map entry_view (db_entries (w_db w'))
       = [(''deposit_refund'', ''4602'', - 20000), (''deposit_deduction'', ''4601'', 4000)]"
proof -
  obtain l' w' where r: "UpdateDeposit_Execute sample_env (server_deposit_repo sample_env) (server_publish sample_env)
      sample_deposit billed_world = (Inr l', w')"
    using sample_deposit_runs by (metis is_inr_iff prod.collapse)
  have a: "intValue (udi_RefundAmount sample_deposit) = 20000"
    "intValue (udi_DeductionAmount sample_deposit) = 4000"
    by (simp_all add: sample_deposit_def intValue_def)
  obtain l es where "settlement_entries (w_db billed_world) l 20000 4000 (time_UTC (e_now sample_env)) es"
    "db_entries (w_db w') = db_entries (w_db billed_world) @ es"
    using UpdateDeposit_books_settlement [OF r, unfolded a] billed_world_books
    by (auto simp: is_i64_def)
  then show ?thesis using r billed_world_books by (simp add: settlement_entries_def)
qed

section \<open>What the normal termination does\<close>

definition bill_closed :: "bill \<Rightarrow> bool" where
  "bill_closed b \<longleftrightarrow> b_Status b \<in> {''paid'', ''voided'', ''written_off''}"

lemma no_unpaid:
  assumes "ListBillsByLeaseIDForUpdate k w = (Inr bs, v)"
  shows "set (unpaidBillIDs bs) = b_ID ` {b \<in> set (bills_of k (w_db w)). \<not> bill_closed b}"
proof -
  have "set (unpaidBillIDs (map bill_view xs)) = b_ID ` {b \<in> set xs. \<not> bill_closed b}" for xs
    by (induction xs) (auto simp: unpaidBillIDs_def bill_view_def bill_closed_def)
  then show ?thesis using ListBills_D [OF assms] by simp
qed

definition ended_lease :: "env \<Rightarrow> int \<Rightarrow> int \<Rightarrow> string option \<Rightarrow> lease \<Rightarrow> lease" where
  "ended_lease E r d why l =
     touched E (terminated_lease (normalizeDate (time_UTC (e_now E))) None ''normal termination'' None)
       (touched E (settled_lease r d why) l)"

lemma ended_lease_simps [simp]:
  "l_ID (ended_lease E r d why l) = l_ID l" "l_RoomID (ended_lease E r d why l) = l_RoomID l"
  "l_TenantID (ended_lease E r d why l) = l_TenantID l"
  "l_PropertyID (ended_lease E r d why l) = l_PropertyID l"
  "l_Status (ended_lease E r d why l) = ''terminated''"
  "l_DepositStatus (ended_lease E r d why l) = ''settled''"
  "l_DepositRefundAmount (ended_lease E r d why l) = Some r"
  "l_DepositDeductionAmount (ended_lease E r d why l) = Some d"
  "l_EndDate (ended_lease E r d why l) = pg_date (time_UTC (e_now E))"
  by (simp_all add: ended_lease_def touched_def settled_lease_def terminated_lease_def pg_date_def)

definition with_ended :: "env \<Rightarrow> string \<Rightarrow> int \<Rightarrow> int \<Rightarrow> string option \<Rightarrow> db \<Rightarrow> db" where
  "with_ended E k r d why db =
     with_lease E k (terminated_lease (normalizeDate (time_UTC (e_now E))) None ''normal termination'' None)
       (with_lease E k (settled_lease r d why) db)"

lemma with_ended_simps [simp]:
  "db_bills (with_ended E k r d why db) = db_bills db"
  "db_entries (with_ended E k r d why db) = db_entries db"
  "db_accounts (with_ended E k r d why db) = db_accounts db"
  "db_titles (with_ended E k r d why db) = db_titles db"
  "lease_by_id k (with_ended E k r d why db) = map_option (ended_lease E r d why) (lease_by_id k db)"
  "filter (\<lambda>l. l_ID l \<noteq> k) (live (db_leases (with_ended E k r d why db)))
     = filter (\<lambda>l. l_ID l \<noteq> k) (live (db_leases db))"
proof -
  have id: "l_ID (terminated_lease a b c e l) = l_ID l" "l_ID (settled_lease r d why l) = l_ID l" for a b c e l
    by (simp_all add: terminated_lease_def settled_lease_def)
  show "lease_by_id k (with_ended E k r d why db) = map_option (ended_lease E r d why) (lease_by_id k db)"
    unfolding with_ended_def lease_by_id_with_lease [OF id(1)] lease_by_id_with_lease [OF id(2)]
    by (simp add: ended_lease_def [abs_def] map_option.compositionality comp_def)
  show "filter (\<lambda>l. l_ID l \<noteq> k) (live (db_leases (with_ended E k r d why db)))
     = filter (\<lambda>l. l_ID l \<noteq> k) (live (db_leases db))"
    unfolding with_ended_def other_leases_kept [OF id(1)] other_leases_kept [OF id(2)] ..
qed (simp_all add: with_ended_def)

lemma TerminateLease_body_ok:
  assumes "TerminateLease_body E (server_deposit_repo E) input leaseID role w = (Inr l', v)"
    and "is_i64 (intValue (tli_RefundAmount input))" "is_i64 (intValue (tli_DeductionAmount input))"
    and "unique_codes (w_db w)"
  shows "\<exists>l why es evs. lease_by_id leaseID (w_db w) = Some l
     \<and> (\<forall>b \<in> set (bills_of leaseID (w_db w)). bill_closed b)
     \<and> l_Status l \<in> {''active'', ''expired''} \<and> l_DepositStatus l = DepositStatusHeld
     \<and> 0 \<le> intValue (tli_RefundAmount input) \<and> 0 \<le> intValue (tli_DeductionAmount input)
     \<and> intValue (tli_RefundAmount input) + intValue (tli_DeductionAmount input) = l_DepositAmount l
     \<and> l' = ended_lease E (intValue (tli_RefundAmount input)) (intValue (tli_DeductionAmount input)) why l
     \<and> settlement_entries (w_db w) l (intValue (tli_RefundAmount input))
         (intValue (tli_DeductionAmount input)) (time_UTC (e_now E)) es
     \<and> w_db v = add_entries es (with_ended E leaseID (intValue (tli_RefundAmount input))
         (intValue (tli_DeductionAmount input)) why (w_db w))
     \<and> w_events v = w_events w @ evs @ [LeaseTerminated (l_ID l') (l_RoomID l') (l_PropertyID l')
         (l_TenantID l') False False (time_UTC (e_now E))]
     \<and> events_effect E evs = id"
proof -
  let ?r = "intValue (tli_RefundAmount input)" and ?d = "intValue (tli_DeductionAmount input)"
  let ?t = "time_UTC (e_now E)"
  obtain l bs a s s' u1 u2 u3 u4 u5 u6 settled where
    ops: "FindLeaseByIDForUpdate leaseID w = (Inr l, u1)"
      "ListBillsByLeaseIDForUpdate leaseID u1 = (Inr bs, u2)" "unpaidBillIDs bs = []"
      "lease_Rehydrate (lease_to_state_settle l) = Inr a"
      "SettleDeposit a ?r ?d (tli_DeductionReason input) = Inr s" "Terminate s = Inr s'"
      "SettleDeposit_repo E leaseID (the (ls_DepositRefundAmount s'))
         (the (ls_DepositDeductionAmount s')) (ls_DepositDeductionReason s') u2 = (Inr settled, u3)"
      "TerminateLease_repo E leaseID (normalizeDate ?t) None ''normal termination'' None u3 = (Inr l', u4)"
      "recordDepositAccountingEntries (server_deposit_repo E) settled ?r ?d
         (depositReasonValue (tli_DeductionReason input)) ?t u4 = (Inr (), u5)"
      "record_deposit_events settled ?r ?d (tli_DeductionReason input) ?t u5 = (Inr (), u6)"
      "record_event (LeaseTerminated (l_ID l') (l_RoomID l') (l_PropertyID l')
         (l_TenantID l') False False ?t) u6 = (Inr (), v)"
    using assms(1) unfolding TerminateLease_body_def a_FindLeaseByIDForUpdate_def a_SettleDeposit_def
      a_TerminateLease_def Let_def tx_control by auto
  note s = settle_row [OF ops(4,5) assms(2,3)]
  have s': "ls_DepositRefundAmount s' = ls_DepositRefundAmount s"
    "ls_DepositDeductionAmount s' = ls_DepositDeductionAmount s" "l_Status l \<in> {''active'', ''expired''}"
    using ops(6) s(8) by (auto simp: Terminate_def isTerminableStatus_def lease_consts split: if_splits)
  note f = FindLeaseByIDForUpdate_D [OF ops(1)]
  note lb = ListBills_D [OF ops(2)]
  note g = SettleDeposit_repo_D [OF ops(7) [unfolded s'(1,2) s(5,6)]]
  note h = TerminateLease_repo_D [OF ops(8)]
  have closed: "\<forall>b \<in> set (bills_of leaseID (w_db w)). bill_closed b"
    using no_unpaid [OF ops(2)] ops(3) f by auto
  have st: "settled = touched E (settled_lease ?r ?d (ls_DepositDeductionReason s')) l"
    and w3: "w_db u3 = with_lease E leaseID (settled_lease ?r ?d (ls_DepositDeductionReason s')) (w_db w)"
    using f lb g by auto
  have id: "l_ID (settled_lease ?r ?d why l) = l_ID l" for why l by (simp add: settled_lease_def)
  have l': "l' = ended_lease E ?r ?d (ls_DepositDeductionReason s') l"
    using h f unfolding w3 lease_by_id_with_lease [of "settled_lease ?r ?d (ls_DepositDeductionReason s')",
        OF id] by (auto simp: ended_lease_def)
  have w4: "w_db u4 = with_ended E leaseID ?r ?d (ls_DepositDeductionReason s') (w_db w)"
    "w_events u4 = w_events w"
    using h g lb f w3 by (auto simp: with_ended_def)
  have "unique_codes (w_db u4)" using assms(4) by (simp add: w4 unique_codes_def)
  then obtain es where es: "settlement_entries (w_db u4) settled ?r ?d ?t es"
    "w_db u5 = add_entries es (w_db u4)" "w_events u5 = w_events u4"
    using recordDeposit_D [OF ops(9) s(2,3)] by blast
  have "settlement_entries (w_db w) l ?r ?d ?t es"
    using es(1) settlement_entries_cong [of "w_db u4" "w_db w" settled l] by (simp add: w4 st)
  moreover obtain evs where "w_events u6 = w_events w @ evs" "events_effect E evs = id"
    using record_deposit_events_D [OF ops(10)] es(3) w4(2)
    by (auto simp: events_effect_def fun_eq_iff)
  moreover have "w_db u6 = add_entries es (with_ended E leaseID ?r ?d (ls_DepositDeductionReason s') (w_db w))"
    using record_deposit_events_D [OF ops(10)] es(2) w4(1) by simp
  ultimately show ?thesis
    using f s(1-4) s'(3) l' closed ops(11) by (auto simp: record_event_ok)
qed

text \<open>What the subscribers of a termination leave.\<close>

definition released :: "env \<Rightarrow> string \<Rightarrow> string \<Rightarrow> db \<Rightarrow> db" where
  "released E room tenant d = deactivate_tenant E tenant (set_room_status E room ''vacant'' d)"

lemma released_simps [simp]:
  "db_leases (released E room tenant d) = db_leases d"
  "db_bills (released E room tenant d) = db_bills d"
  "db_entries (released E room tenant d) = db_entries d"
  "lease_by_id k (released E room tenant d) = lease_by_id k d"
  "bills_of k (released E room tenant d) = bills_of k d"
  by (simp_all add: released_def lease_by_id_def bills_of_def)


lemma released_rooms:
  "\<forall>r \<in> set (live (db_rooms (released E room tenant d))). rm_ID r = room \<longrightarrow> rm_Status r = ''vacant''"
proof -
  have "live (db_rooms (released E room tenant d)) = map (\<lambda>r. if rm_ID r = room
      then r\<lparr>rm_Status := ''vacant'', rm_UpdatedAt := e_now E\<rparr> else r) (live (db_rooms d))"
    by (simp add: released_def set_room_status_def)
  then show ?thesis by (simp only: ball_map_if) simp
qed

lemma released_tenants:
  "\<forall>t \<in> set (live (db_tenants (released E room tenant d))).
     tn_ID t = tenant \<and> \<not> has_active_lease tenant (released E room tenant d) \<longrightarrow> tn_Status t = ''inactive''"
proof -
  have h: "has_active_lease tenant (released E room tenant d) = has_active_lease tenant d"
    "has_active_lease tenant (set_room_status E room ''vacant'' d) = has_active_lease tenant d"
    by (simp_all add: has_active_lease_def)
  have "live (db_tenants (released E room tenant d)) = map (\<lambda>t. if tn_ID t = tenant \<and> \<not> has_active_lease tenant d
      then t\<lparr>tn_Status := ''inactive'', tn_UpdatedAt := e_now E\<rparr> else t) (live (db_tenants d))"
    unfolding released_def deactivate_tenant_def h by simp
  then show ?thesis by (simp only: ball_map_if h) (simp, blast)
qed

text \<open>
  C3.  The normal termination (rule BR-04) works end to end.  A successful
  \<open>TerminateLease\<close> found an active or expired lease with a held deposit and no
  open bill (every bill paid, voided or written off); it settles the deposit,
  with refund and deduction adding up to it and the same ledger entries as
  \<open>UpdateDeposit\<close>, ends the lease today, and its subscribers leave the room
  vacant and the tenant inactive unless another lease of theirs still runs.
  Other leases and all bills are untouched.
\<close>

theorem TerminateLease_settles_and_releases:
  assumes "TerminateLease_Execute E (server_deposit_repo E) (server_publish E) input w = (Inr l', w')"
    and "is_i64 (intValue (tli_RefundAmount input))" "is_i64 (intValue (tli_DeductionAmount input))"
    and "unique_codes (w_db w)"
  shows "\<exists>l es. lease_by_id (trim (tli_LeaseID input)) (w_db w) = Some l
     \<and> l_Status l \<in> {''active'', ''expired''} \<and> l_DepositStatus l = DepositStatusHeld
     \<and> (\<forall>b \<in> set (bills_of (l_ID l) (w_db w)). bill_closed b)
     \<and> 0 \<le> intValue (tli_RefundAmount input) \<and> 0 \<le> intValue (tli_DeductionAmount input)
     \<and> intValue (tli_RefundAmount input) + intValue (tli_DeductionAmount input) = l_DepositAmount l
     \<and> settlement_entries (w_db w) l (intValue (tli_RefundAmount input))
         (intValue (tli_DeductionAmount input)) (time_UTC (e_now E)) es
     \<and> db_entries (w_db w') = db_entries (w_db w) @ es
     \<and> lease_by_id (l_ID l) (w_db w') = Some l'
     \<and> l_Status l' = StatusTerminated \<and> l_DepositStatus l' = DepositStatusSettled
     \<and> l_EndDate l' = pg_date (time_UTC (e_now E))
     \<and> filter (\<lambda>k. l_ID k \<noteq> l_ID l) (live (db_leases (w_db w')))
       = filter (\<lambda>k. l_ID k \<noteq> l_ID l) (live (db_leases (w_db w)))
     \<and> db_bills (w_db w') = db_bills (w_db w)
     \<and> (\<forall>r \<in> set (live (db_rooms (w_db w'))). rm_ID r = l_RoomID l \<longrightarrow> rm_Status r = ''vacant'')
     \<and> (\<forall>t \<in> set (live (db_tenants (w_db w'))).
          tn_ID t = l_TenantID l \<and> \<not> has_active_lease (l_TenantID l) (w_db w') \<longrightarrow>
          tn_Status t = ''inactive'')"
proof -
  let ?r = "intValue (tli_RefundAmount input)" and ?d = "intValue (tli_DeductionAmount input)"
  from assms(1) obtain role where
    tx: "WithinTransaction (server_publish E) (TerminateLease_body E (server_deposit_repo E) input
           (trim (tli_LeaseID input)) role) w = (Inr l', w')"
    by (auto simp: TerminateLease_Execute_def tx_control TerminateLease_validate_def
        normalizeLeaseID_def Let_def split: if_splits sum.splits)
  obtain v0 v where v: "w_db v0 = w_db w" "w_events v0 = []"
    "TerminateLease_body E (server_deposit_repo E) input (trim (tli_LeaseID input)) role v0 = (Inr l', v)"
    "w_db w' = events_effect E (w_events v) (w_db v)"
    using server_run_D [OF tx] by blast
  obtain l why es evs where l: "lease_by_id (trim (tli_LeaseID input)) (w_db w) = Some l"
    "\<forall>b \<in> set (bills_of (trim (tli_LeaseID input)) (w_db w)). bill_closed b"
    "l_Status l \<in> {''active'', ''expired''}" "l_DepositStatus l = DepositStatusHeld"
    "0 \<le> ?r" "0 \<le> ?d" "?r + ?d = l_DepositAmount l" "l' = ended_lease E ?r ?d why l"
    "settlement_entries (w_db w) l ?r ?d (time_UTC (e_now E)) es"
    "w_db v = add_entries es (with_ended E (trim (tli_LeaseID input)) ?r ?d why (w_db w))"
    "w_events v = evs @ [LeaseTerminated (l_ID l') (l_RoomID l') (l_PropertyID l')
         (l_TenantID l') False False (time_UTC (e_now E))]" "events_effect E evs = id"
    using TerminateLease_body_ok [OF v(3) assms(2,3)] assms(4) v(1,2) by auto
  have id: "trim (tli_LeaseID input) = l_ID l" using lease_by_id_Some [OF l(1)] by simp
  have "events_effect E (evs @ [e]) d = event_effect E e (events_effect E evs d)" for e d
    by (simp add: events_effect_def)
  then have w': "w_db w' = released E (l_RoomID l) (l_TenantID l)
      (add_entries es (with_ended E (l_ID l) ?r ?d why (w_db w)))"
    using v(4) l(8,10-12) id by (simp add: released_def)
  have "lease_by_id (l_ID l) (w_db w') = Some l'" using l(1,8) by (simp add: w' id)
  moreover have "l_Status l' = StatusTerminated" "l_DepositStatus l' = DepositStatusSettled"
    "l_EndDate l' = pg_date (time_UTC (e_now E))"
    by (simp_all add: l(8) lease_consts)
  moreover have "filter (\<lambda>k. l_ID k \<noteq> l_ID l) (live (db_leases (w_db w')))
       = filter (\<lambda>k. l_ID k \<noteq> l_ID l) (live (db_leases (w_db w)))"
    "db_entries (w_db w') = db_entries (w_db w) @ es" "db_bills (w_db w') = db_bills (w_db w)"
    by (simp_all add: w')
  moreover note released_rooms [of E "l_RoomID l" "l_TenantID l", folded w']
    released_tenants [of E "l_RoomID l" "l_TenantID l"
      "add_entries es (with_ended E (l_ID l) ?r ?d why (w_db w))", folded w']
  ultimately show ?thesis
    using l(1-7,9) id released_rooms [of E "l_RoomID l" "l_TenantID l"
      "add_entries es (with_ended E (l_ID l) ?r ?d why (w_db w))", folded w']
    by (intro exI [of _ l] exI [of _ es]) (simp only: simp_thms)
qed

text \<open>The lease of the office once its bills are paid.\<close>

definition paid_world :: world where
  "paid_world = billed_world\<lparr>w_db := update_bills sample_env (\<lambda>b. True)
      (\<lambda>b. b\<lparr>b_Status := ''paid''\<rparr>) (w_db billed_world)\<rparr>"

definition sample_terminate :: terminate_lease_input where
  "sample_terminate = \<lparr>tli_ActorRole = ''admin'', tli_AssignedPropertyIDs = [],
     tli_LeaseID = ''x'', tli_RefundAmount = Some 24000, tli_DeductionAmount = None,
     tli_DeductionReason = None\<rparr>"

lemma sample_terminate_runs:
  "is_inr (fst (TerminateLease_Execute sample_env (server_deposit_repo sample_env) (server_publish sample_env)
     sample_terminate paid_world))"
  by code_simp

lemma TerminateLease_settles_and_releases_witness:
  "\<exists>l' w'. TerminateLease_Execute sample_env (server_deposit_repo sample_env) (server_publish sample_env)
       sample_terminate paid_world = (Inr l', w')
     \<and> l_Status l' = ''terminated'' \<and> l_DepositStatus l' = ''settled''"
proof -
  obtain l' w' where r: "TerminateLease_Execute sample_env (server_deposit_repo sample_env) (server_publish sample_env)
      sample_terminate paid_world = (Inr l', w')"
    using sample_terminate_runs by (metis is_inr_iff prod.collapse)
  have "is_i64 (intValue (tli_RefundAmount sample_terminate))"
    "is_i64 (intValue (tli_DeductionAmount sample_terminate))"
    by (simp_all add: sample_terminate_def intValue_def is_i64_def)
  moreover have "unique_codes (w_db paid_world)"
    using billed_world_books by (simp add: paid_world_def unique_codes_def)
  ultimately show ?thesis
    using TerminateLease_settles_and_releases [OF r] r by (auto simp: lease_consts)
qed

end
