(* ===== verification/LeaseForce.thy ===== *)
theory LeaseForce
  imports LeaseDeposit
begin

text \<open>
  What a forced termination does: the effects of its statements on the tables
  and the property of the whole command (\<open>ForceTerminateLeaseService.Execute\<close>
  in application/lease/terminate_lease.go).
\<close>

section \<open>The statements\<close>

definition add_ft :: "force_termination_row \<Rightarrow> db \<Rightarrow> db" where
  "add_ft ft d = d\<lparr>db_force_terminations := db_force_terminations d @ [ft]\<rparr>"

definition add_ft_bills :: "env \<Rightarrow> string \<Rightarrow> string list \<Rightarrow> db \<Rightarrow> db" where
  "add_ft_bills E ftID ids d = d\<lparr>db_force_termination_bills := db_force_termination_bills d @
     map (\<lambda>b. \<lparr>fb_ForceTerminationID = ftID, fb_BillID = b, fb_Status = ''pending'',
                fb_UpdatedAt = e_now E\<rparr>) ids\<rparr>"

definition write_off :: "env \<Rightarrow> string list \<Rightarrow> string \<Rightarrow> db \<Rightarrow> db" where
  "write_off E ids reason = update_bills E
     (\<lambda>b. b_ID b \<in> set ids \<and> b_Status b \<notin> {''paid'', ''voided''})
     (\<lambda>b. b\<lparr>b_Status := ''written_off'', b_WrittenOffReason := Some reason\<rparr>)"

definition done_ft_bills :: "env \<Rightarrow> string \<Rightarrow> string list \<Rightarrow> db \<Rightarrow> db" where
  "done_ft_bills E ftID ids d = d\<lparr>db_force_termination_bills :=
     map (\<lambda>fb. if fb_ForceTerminationID fb = ftID \<and> fb_BillID fb \<in> set ids
               then fb\<lparr>fb_Status := ''done'', fb_UpdatedAt := e_now E\<rparr> else fb)
       (db_force_termination_bills d)\<rparr>"

definition complete_ft :: "env \<Rightarrow> string \<Rightarrow> db \<Rightarrow> db" where
  "complete_ft E ftID d = d\<lparr>db_force_terminations :=
     map (\<lambda>ft. if ft_ID ft = ftID then ft\<lparr>ft_Status := ''completed'', ft_UpdatedAt := e_now E\<rparr> else ft)
       (db_force_terminations d)\<rparr>"

lemma ft_statement_simps [simp]:
  "db_leases (add_ft ft d) = db_leases d" "db_bills (add_ft ft d) = db_bills d"
  "db_rooms (add_ft ft d) = db_rooms d" "db_tenants (add_ft ft d) = db_tenants d"
  "db_entries (add_ft ft d) = db_entries d" "db_accounts (add_ft ft d) = db_accounts d"
  "db_titles (add_ft ft d) = db_titles d"
  "db_force_terminations (add_ft ft d) = db_force_terminations d @ [ft]"
  "db_force_termination_bills (add_ft ft d) = db_force_termination_bills d"
  "db_leases (add_ft_bills E i ids d) = db_leases d" "db_bills (add_ft_bills E i ids d) = db_bills d"
  "db_entries (add_ft_bills E i ids d) = db_entries d" "db_accounts (add_ft_bills E i ids d) = db_accounts d"
  "db_titles (add_ft_bills E i ids d) = db_titles d"
  "db_force_terminations (add_ft_bills E i ids d) = db_force_terminations d"
  "db_leases (done_ft_bills E i ids d) = db_leases d" "db_bills (done_ft_bills E i ids d) = db_bills d"
  "db_entries (done_ft_bills E i ids d) = db_entries d" "db_accounts (done_ft_bills E i ids d) = db_accounts d"
  "db_titles (done_ft_bills E i ids d) = db_titles d"
  "db_force_terminations (done_ft_bills E i ids d) = db_force_terminations d"
  "db_leases (complete_ft E i d) = db_leases d" "db_bills (complete_ft E i d) = db_bills d"
  "db_entries (complete_ft E i d) = db_entries d" "db_accounts (complete_ft E i d) = db_accounts d"
  "db_titles (complete_ft E i d) = db_titles d"
  "db_force_termination_bills (complete_ft E i d) = db_force_termination_bills d"
  by (simp_all add: add_ft_def add_ft_bills_def done_ft_bills_def complete_ft_def)

lemma write_off_simps [simp]:
  "db_leases (write_off E ids why d) = db_leases d"
  "db_entries (write_off E ids why d) = db_entries d"
  "db_accounts (write_off E ids why d) = db_accounts d"
  "db_titles (write_off E ids why d) = db_titles d"
  "db_force_terminations (write_off E ids why d) = db_force_terminations d"
  "db_force_termination_bills (write_off E ids why d) = db_force_termination_bills d"
  by (simp_all add: write_off_def update_bills_def)

lemma ft_more_simps [simp]:
  "db_force_terminations (with_lease E k f d) = db_force_terminations d"
  "db_force_termination_bills (with_lease E k f d) = db_force_termination_bills d"
  "db_force_terminations (add_entries es d) = db_force_terminations d"
  "db_force_termination_bills (add_entries es d) = db_force_termination_bills d"
  by (simp_all add: with_lease_def add_entries_def)

lemma CreateForceTermination_D:
  "CreateForceTermination E k by' why h w = (Inr ft, v) \<Longrightarrow>
     (\<exists>n. ft = \<lparr>ft_ID = e_id E n, ft_LeaseID = k, ft_InitiatedBy = by', ft_Reason = why,
        ft_DepositHandling = h, ft_Status = ''in_progress'', ft_CreatedAt = e_now E,
        ft_UpdatedAt = e_now E\<rparr>)
     \<and> w_db v = add_ft ft (w_db w) \<and> w_events v = w_events w"
  unfolding CreateForceTermination_def add_ft_def by (drule stmt_D) (auto simp: Let_def)

lemma insert_ft_bills_D:
  "insert_force_termination_bills E i ids w = (Inr u, v) \<Longrightarrow>
     w_db v = add_ft_bills E i ids (w_db w) \<and> w_events v = w_events w"
proof (induction ids arbitrary: w)
  case Nil
  then show ?case by (simp add: tx_return_ok add_ft_bills_def)
next
  case (Cons b ids)
  obtain w1 where w1: "w_db w1 = add_ft_bills E i [b] (w_db w)" "w_events w1 = w_events w"
    "insert_force_termination_bills E i ids w1 = (Inr u, v)"
    using Cons.prems by (auto simp: tx_bind_ok add_ft_bills_def dest!: stmt_D)
  show ?case using Cons.IH [OF w1(3)] w1(1,2) by (simp add: add_ft_bills_def)
qed

lemma CreateForceTerminationBills_D:
  "CreateForceTerminationBills E i ids w = (Inr u, v) \<Longrightarrow>
     w_db v = add_ft_bills E i ids (w_db w) \<and> w_events v = w_events w"
  by (cases "ids = []")
     (auto simp: CreateForceTerminationBills_def tx_bind_ok tx_return_ok add_ft_bills_def
       dest!: stmt_D insert_ft_bills_D)

lemma tab_update_none: "(\<And>r. \<not> P r) \<Longrightarrow> tab_update P f t = t"
  by (induction t) (auto simp: tab_update_def)

lemma WriteOffBills_D:
  "WriteOffBills E ids why w = (Inr u, v) \<Longrightarrow>
     w_db v = write_off E ids why (w_db w) \<and> w_events v = w_events w"
proof (cases "ids = []")
  case True
  assume "WriteOffBills E ids why w = (Inr u, v)"
  then have "v = w" using True by (simp add: WriteOffBills_def WriteOffBillsWithCount_def tx_control)
  then show ?thesis using True by (simp add: write_off_def update_bills_def tab_update_none)
next
  case False
  assume "WriteOffBills E ids why w = (Inr u, v)"
  then show ?thesis using False
    by (auto simp: WriteOffBills_def WriteOffBillsWithCount_def tx_bind_ok tx_return_ok write_off_def
        Let_def dest!: stmt_D)
qed

lemma MarkForceTerminationBillsDone_D:
  "MarkForceTerminationBillsDone E i ids w = (Inr u, v) \<Longrightarrow>
     w_db v = done_ft_bills E i ids (w_db w) \<and> w_events v = w_events w"
  by (cases "ids = []")
     (auto simp: MarkForceTerminationBillsDone_def tx_return_ok done_ft_bills_def dest!: stmt_D)

lemma CompleteForceTermination_D:
  "CompleteForceTermination E i w = (Inr u, v) \<Longrightarrow>
     w_db v = complete_ft E i (w_db w) \<and> w_events v = w_events w"
  unfolding CompleteForceTermination_def complete_ft_def by (drule stmt_D) auto

lemma FindForceTerminationByID_D:
  "FindForceTerminationByID i w = (Inr ft, v) \<Longrightarrow>
     (\<exists>ft0. force_termination_detail (w_db w) i = Some ft0
        \<and> ft = ft0\<lparr>ftd_Bills := force_termination_bills (w_db w) i\<rparr>)
     \<and> w_db v = w_db w \<and> w_events v = w_events w"
proof -
  assume "FindForceTerminationByID i w = (Inr ft, v)"
  then obtain r x bs u1 u2 where
    s: "stmt ''find force termination by id'' (\<lambda>_ d. (force_termination_detail d i, d)) w = (Inr r, u1)"
      "r = Some x" "stmt ''list force termination bills'' (\<lambda>_ d. (force_termination_bills d i, d)) u1 = (Inr bs, u2)"
      "ft = x\<lparr>ftd_Bills := bs\<rparr>" "v = u2"
    unfolding FindForceTerminationByID_def by (auto simp: tx_bind_ok tx_return_ok found_or_ok)
  show ?thesis
    using stmt_D [OF s(1)] stmt_D [OF s(3)] s(2,4,5) by (intro conjI exI [of _ x]) simp_all
qed

section \<open>The write-off\<close>

lemma write_off_bills:
  "live (db_bills (write_off E ids why d)) =
     map (\<lambda>b. if b_ID b \<in> set ids \<and> b_Status b \<notin> {''paid'', ''voided''}
        then b\<lparr>b_Status := ''written_off'', b_WrittenOffReason := Some why,
               b_UpdatedAt := e_now E, b_Version := b_Version b + 1\<rparr> else b) (live (db_bills d))"
  by (simp add: write_off_def)

definition open_ids :: "string \<Rightarrow> db \<Rightarrow> string set" where
  "open_ids k d = b_ID ` {b \<in> set (bills_of k d). \<not> bill_closed b}"

lemma write_off_closes:
  assumes "set ids = open_ids k d"
  shows "\<forall>b \<in> set (bills_of k (write_off E ids why d)). bill_closed b"
proof -
  have "b_Status b \<notin> {''paid'', ''voided''} \<longrightarrow> b_ID b \<in> set ids \<or> bill_closed b"
    if "b \<in> set (live (db_bills d))" "b_LeaseID b = k" for b
    using that by (auto simp: assms open_ids_def bills_of_def)
  then have "\<forall>b \<in> set (live (db_bills (write_off E ids why d))). b_LeaseID b = k \<longrightarrow> bill_closed b"
    unfolding write_off_bills ball_map_if by (auto simp: bill_closed_def)
  then show ?thesis by (auto simp: bills_of_def)
qed

lemma write_off_keeps:
  assumes "b \<in> set (live (db_bills d))" "b_ID b \<notin> set ids \<or> b_Status b \<in> {''paid'', ''voided''}"
  shows "b \<in> set (live (db_bills (write_off E ids why d)))"
  unfolding write_off_bills by (rule map_if_keeps) (use assms in blast)+

lemma write_off_others:
  assumes "set ids = open_ids k d" "distinct (map b_ID (live (db_bills d)))"
  shows "filter (\<lambda>b. b_LeaseID b \<noteq> k) (live (db_bills (write_off E ids why d)))
       = filter (\<lambda>b. b_LeaseID b \<noteq> k) (live (db_bills d))"
proof -
  let ?P = "\<lambda>b. b_ID b \<in> set ids \<and> b_Status b \<notin> {''paid'', ''voided''}"
  have own: "b_LeaseID b = k" if p: "b \<in> set (live (db_bills d))" "?P b" for b
  proof -
    obtain c where c: "c \<in> set (live (db_bills d))" "b_LeaseID c = k" "b_ID b = b_ID c"
      using p(2) by (auto simp: assms(1) open_ids_def bills_of_def)
    then have "b = c" using assms(2) p(1) by (auto simp: distinct_map dest: inj_onD)
    then show ?thesis using c by simp
  qed
  show ?thesis
    unfolding write_off_bills by (rule filter_map_if_other) (use own in simp_all)
qed

section \<open>The command\<close>

text \<open>The database after a forced termination, before its event is published.\<close>

definition force_ended :: "env \<Rightarrow> force_terminate_args \<Rightarrow> string \<Rightarrow> force_termination_row \<Rightarrow>
    string list \<Rightarrow> entry_row list \<Rightarrow> db \<Rightarrow> db" where
  "force_ended E args depositStatus ft ids es d =
     add_entries es (complete_ft E (ft_ID ft)
       (with_lease E (fta_LeaseID args) (force_terminated_lease (fta_TerminationDate args)
            (fta_ActualMoveOutDate args) (fta_Reason args) depositStatus)
         (done_ft_bills E (ft_ID ft) ids
           (write_off E ids (fta_Reason args) (add_ft_bills E (ft_ID ft) ids (add_ft ft d))))))"

definition new_ft :: "env \<Rightarrow> force_terminate_args \<Rightarrow> nat \<Rightarrow> force_termination_row" where
  "new_ft E args n = \<lparr>ft_ID = e_id E n, ft_LeaseID = fta_LeaseID args,
     ft_InitiatedBy = fta_ActorUserID args, ft_Reason = fta_Reason args,
     ft_DepositHandling = fta_DepositHandling args, ft_Status = ''in_progress'',
     ft_CreatedAt = e_now E, ft_UpdatedAt = e_now E\<rparr>"

text \<open>The entry of a write-off: the whole deposit is taken in.\<close>

definition write_off_entries :: "db \<Rightarrow> lease \<Rightarrow> string \<Rightarrow> entry_row list \<Rightarrow> bool" where
  "write_off_entries d lease handling es \<longleftrightarrow>
     map entry_view es = (if handling = ForceTerminationDepositWriteOff \<and> l_DepositAmount lease \<noteq> 0
       then [(''deposit_deduction'', ''4601'', l_DepositAmount lease)] else [])
     \<and> (\<forall>e \<in> set es. account_of (l_PropertyID lease) d = Some (en_PropertyAccountID e))"

lemma write_off_entries_cong:
  "db_accounts d = db_accounts d' \<Longrightarrow> l_PropertyID l = l_PropertyID l' \<Longrightarrow>
     l_DepositAmount l = l_DepositAmount l' \<Longrightarrow>
     write_off_entries d l h es = write_off_entries d' l' h es"
  by (simp add: write_off_entries_def account_of_def)

lemma recordWriteOff_D:
  assumes "(if handling = ForceTerminationDepositWriteOff
      then recordForceTerminationDepositWriteOff (server_deposit_repo E) l i why date
      else tx_return ()) w = (Inr u, v)" and "unique_codes (w_db w)"
  shows "\<exists>es. write_off_entries (w_db w) l handling es \<and> w_db v = add_entries es (w_db w)
     \<and> w_events v = w_events w"
proof (cases "handling = ForceTerminationDepositWriteOff \<and> l_DepositAmount l \<noteq> 0")
  case True
  then have c: "CreateDepositAccountingEntry E (write_off_entry l i why date) w = (Inr (), v)"
    using assms(1) by (simp add: recordForceTerminationDepositWriteOff_def server_deposit_repo_def tx_control)
  obtain es where es: "booked (write_off_entry l i why date) (w_db w) es"
    "w_db v = add_entries es (w_db w)" "w_events v = w_events w"
    using CreateDepositAccountingEntry_ok [OF c] by blast
  then show ?thesis
    using True booked_one [OF es(1) assms(2)]
    by (intro exI [of _ es]) (simp add: write_off_entries_def write_off_entry_def deposit_consts Let_def)
next
  case False
  then have "v = w"
    using assms(1) by (auto simp: recordForceTerminationDepositWriteOff_def tx_control split: if_splits)
  then show ?thesis
    using False by (intro exI [of _ "[]"]) (simp add: write_off_entries_def add_entries_def)
qed

lemma ForceTerminate_aggregate:
  assumes "lease_Rehydrate (lease_to_state_settle l) = Inr a" "ForceTerminate a why h = Inr s" "trim h = h"
  shows "l_Status l \<in> {''active'', ''expired''}"
    "ls_DepositStatus s = (if h = ForceTerminationDepositWriteOff then ''written_off'' else l_DepositStatus l)"
    "h = ForceTerminationDepositWriteOff \<or> h = ForceTerminationDepositKeepHeld"
proof -
  have a: "ls_DepositStatus a = l_DepositStatus l" "ls_Status a = l_Status l"
    using assms(1) by (auto simp: lease_Rehydrate_def normalizeState_def lease_to_state_settle_def
        Let_def split: if_splits)
  have "ForceTerminationDepositWriteOff \<noteq> ForceTerminationDepositKeepHeld" by code_simp
  then show "l_Status l \<in> {''active'', ''expired''}"
    "ls_DepositStatus s = (if h = ForceTerminationDepositWriteOff then ''written_off'' else l_DepositStatus l)"
    "h = ForceTerminationDepositWriteOff \<or> h = ForceTerminationDepositKeepHeld"
    using assms(2,3) a by (auto simp: ForceTerminate_def Let_def isTerminableStatus_def
        StatusActive_def StatusExpired_def DepositStatusWrittenOff_def split: if_splits)
qed

lemma ForceTerminate_body_ok:
  assumes "ForceTerminate_body E (server_deposit_repo E) assigned args w = (Inr detail, v)"
    and "unique_codes (w_db w)" "trim (fta_DepositHandling args) = fta_DepositHandling args"
  shows "\<exists>l n ids es st. lease_by_id (fta_LeaseID args) (w_db w) = Some l
     \<and> l_Status l \<in> {''active'', ''expired''}
     \<and> \<not> time_before (fta_TerminationDate args) (normalizeDate (l_StartDate l))
     \<and> st = (if fta_DepositHandling args = ForceTerminationDepositWriteOff then ''written_off''
             else l_DepositStatus l)
     \<and> set ids = open_ids (fta_LeaseID args) (w_db w)
     \<and> write_off_entries (w_db w) l (fta_DepositHandling args) es
     \<and> w_db v = force_ended E args st (new_ft E args n) ids es (w_db w)
     \<and> w_events v = w_events w @ [LeaseTerminated (l_ID l) (l_RoomID l) (l_PropertyID l)
         (l_TenantID l) True False (time_UTC (e_now E))]
     \<and> (\<exists>ft0. force_termination_detail (w_db v) (e_id E n) = Some ft0
         \<and> detail = ft0\<lparr>ftd_Bills := force_termination_bills (w_db v) (e_id E n)\<rparr>)"
proof -
  let ?f = "\<lambda>st. force_terminated_lease (fta_TerminationDate args) (fta_ActualMoveOutDate args)
      (fta_Reason args) st"
  obtain l a s bs ft t u1 u2 u3 u4 u5 u6 u7 u8 u9 u10 where
    ops: "FindLeaseByIDForUpdate (fta_LeaseID args) w = (Inr l, u1)"
      "\<not> time_before (fta_TerminationDate args) (normalizeDate (l_StartDate l))"
      "lease_Rehydrate (lease_to_state_settle l) = Inr a"
      "ForceTerminate a (fta_Reason args) (fta_DepositHandling args) = Inr s"
      "ListBillsByLeaseIDForUpdate (fta_LeaseID args) u1 = (Inr bs, u2)"
      "CreateForceTermination E (fta_LeaseID args) (fta_ActorUserID args) (fta_Reason args)
         (fta_DepositHandling args) u2 = (Inr ft, u3)"
      "CreateForceTerminationBills E (ft_ID ft) (unpaidBillIDs bs) u3 = (Inr (), u4)"
      "WriteOffBills E (unpaidBillIDs bs) (fta_Reason args) u4 = (Inr (), u5)"
      "MarkForceTerminationBillsDone E (ft_ID ft) (unpaidBillIDs bs) u5 = (Inr (), u6)"
      "ForceTerminateLease_repo E (fta_LeaseID args) (fta_TerminationDate args)
         (fta_ActualMoveOutDate args) (fta_Reason args) (ls_DepositStatus s) u6 = (Inr t, u7)"
      "CompleteForceTermination E (ft_ID ft) u7 = (Inr (), u8)"
      "(if fta_DepositHandling args = ForceTerminationDepositWriteOff
        then recordForceTerminationDepositWriteOff (server_deposit_repo E) t (ft_ID ft) (fta_Reason args)
               (fta_TerminationDate args) else tx_return ()) u8 = (Inr (), u9)"
      "FindForceTerminationByID (ft_ID ft) u9 = (Inr detail, u10)"
      "record_event (LeaseTerminated (l_ID t) (l_RoomID t) (l_PropertyID t)
         (l_TenantID t) True False (time_UTC (e_now E))) u10 = (Inr (), v)"
    using assms(1) unfolding ForceTerminate_body_def a_FindLeaseByIDForUpdate_def
      a_ForceTerminateLease_def a_FindForceTerminationByID_def Let_def
      tx_bind_ok tx_map_err_ok tx_reject_ok tx_lift_ok by (auto simp: tx_return_ok)
  note D = FindLeaseByIDForUpdate_D [OF ops(1)] ListBills_D [OF ops(5)]
    CreateForceTermination_D [OF ops(6)] CreateForceTerminationBills_D [OF ops(7)]
    WriteOffBills_D [OF ops(8)] MarkForceTerminationBillsDone_D [OF ops(9)]
    ForceTerminateLease_repo_D [OF ops(10)] CompleteForceTermination_D [OF ops(11)]
    FindForceTerminationByID_D [OF ops(13)]
  note st = ForceTerminate_aggregate [OF ops(3,4) assms(3)]
  obtain n where ft: "ft = new_ft E args n" using D(3) by (auto simp: new_ft_def)
  have ids: "set (unpaidBillIDs bs) = open_ids (fta_LeaseID args) (w_db w)"
    using no_unpaid [OF ops(5)] D(1) by (simp add: open_ids_def)
  have w8: "w_db u8 = complete_ft E (ft_ID ft) (with_lease E (fta_LeaseID args) (?f (ls_DepositStatus s))
         (done_ft_bills E (ft_ID ft) (unpaidBillIDs bs)
           (write_off E (unpaidBillIDs bs) (fta_Reason args)
             (add_ft_bills E (ft_ID ft) (unpaidBillIDs bs) (add_ft ft (w_db w))))))"
    "w_events u8 = w_events w"
    using D by simp_all
  have t: "t = touched E (?f (ls_DepositStatus s)) l"
    using D by (auto simp: lease_by_id_def)
  have tf: "l_ID t = l_ID l" "l_RoomID t = l_RoomID l" "l_PropertyID t = l_PropertyID l"
    "l_TenantID t = l_TenantID l" "l_DepositAmount t = l_DepositAmount l"
    by (simp_all add: t touched_def force_terminated_lease_def)
  have "unique_codes (w_db u8)" using assms(2) by (simp add: w8 unique_codes_def)
  then obtain es where es: "write_off_entries (w_db u8) t (fta_DepositHandling args) es"
    "w_db u9 = add_entries es (w_db u8)" "w_events u9 = w_events u8"
    using recordWriteOff_D [OF ops(12)] by blast
  have "write_off_entries (w_db w) l (fta_DepositHandling args) es"
    using es(1) write_off_entries_cong [of "w_db u8" "w_db w" t l] by (simp add: w8 tf)
  moreover have "w_db v = force_ended E args (ls_DepositStatus s) ft (unpaidBillIDs bs) es (w_db w)"
    using ops(14) D(9) es(2) w8(1) by (auto simp: force_ended_def record_event_ok)
  moreover have "w_events v = w_events w @ [LeaseTerminated (l_ID l) (l_RoomID l) (l_PropertyID l)
         (l_TenantID l) True False (time_UTC (e_now E))]" "w_db v = w_db u9"
    using ops(14) D(9) es(3) w8(2) tf by (auto simp: record_event_ok)
  ultimately show ?thesis
    using D(1,9) ops(2) st(1,2) ids ft
    by (intro exI [of _ l] exI [of _ n] exI [of _ "unpaidBillIDs bs"] exI [of _ es]
        exI [of _ "ls_DepositStatus s"]) (simp add: new_ft_def)
qed

section \<open>The progress record\<close>

text \<open>Generated ids do not clash with the stored ones.\<close>

definition fresh_ids :: "env \<Rightarrow> db \<Rightarrow> bool" where
  "fresh_ids E d \<longleftrightarrow>
     (\<forall>ft \<in> set (db_force_terminations d). ft_ID ft \<notin> range (e_id E))
   \<and> (\<forall>fb \<in> set (db_force_termination_bills d). fb_ForceTerminationID fb \<notin> range (e_id E))"

lemma force_ended_fts:
  "db_force_terminations (force_ended E args st ft ids es d)
     = map (\<lambda>x. if ft_ID x = ft_ID ft then x\<lparr>ft_Status := ''completed'', ft_UpdatedAt := e_now E\<rparr> else x)
         (db_force_terminations d @ [ft])"
  by (simp add: force_ended_def complete_ft_def)

lemma force_ended_ft_bills:
  "db_force_termination_bills (force_ended E args st ft ids es d)
     = map (\<lambda>fb. if fb_ForceTerminationID fb = ft_ID ft \<and> fb_BillID fb \<in> set ids
               then fb\<lparr>fb_Status := ''done'', fb_UpdatedAt := e_now E\<rparr> else fb)
         (db_force_termination_bills d @
          map (\<lambda>b. \<lparr>fb_ForceTerminationID = ft_ID ft, fb_BillID = b, fb_Status = ''pending'',
                fb_UpdatedAt = e_now E\<rparr>) ids)"
  by (simp add: force_ended_def done_ft_bills_def add_ft_bills_def)

lemma progress_header:
  assumes "fresh_ids E d"
    and "force_termination_detail (force_ended E args st (new_ft E args n) ids es d) (e_id E n) = Some x"
  shows "ftd_LeaseID x = fta_LeaseID args \<and> ftd_Status x = ''completed''
     \<and> ftd_InitiatedBy x = fta_ActorUserID args \<and> ftd_Reason x = fta_Reason args"
proof -
  let ?new = "(new_ft E args n)\<lparr>ft_Status := ''completed'', ft_UpdatedAt := e_now E\<rparr>"
  have id: "ft_ID (new_ft E args n) = e_id E n" by (simp add: new_ft_def)
  have h: "find (\<lambda>y. ft_ID y = i) (map (\<lambda>y. if ft_ID y = i then g y else y) (xs @ [z])) = Some (g z)"
    if "\<forall>y \<in> set xs. ft_ID y \<noteq> i" "ft_ID z = i" "ft_ID (g z) = i" for g i z and xs :: "force_termination_row list"
    using that by (induction xs) auto
  have "\<forall>y \<in> set (db_force_terminations d). ft_ID y \<noteq> e_id E n"
    using assms(1) by (auto simp: fresh_ids_def)
  then have "find (\<lambda>y. ft_ID y = e_id E n)
      (db_force_terminations (force_ended E args st (new_ft E args n) ids es d)) = Some ?new"
    unfolding force_ended_fts id by (rule h) (simp_all add: id)
  then show ?thesis
    using assms(2) by (auto simp: force_termination_detail_def new_ft_def)
qed

lemma progress_bills:
  assumes "fresh_ids E d"
  shows "set (map (\<lambda>b. (ftb_BillID b, ftb_Status b))
      (force_termination_bills (force_ended E args st (new_ft E args n) ids es d) (e_id E n)))
     = (\<lambda>i. (i, ''done'')) ` set ids"
proof -
  let ?row = "\<lambda>s b. \<lparr>fb_ForceTerminationID = e_id E n, fb_BillID = b, fb_Status = s, fb_UpdatedAt = e_now E\<rparr>"
  let ?g = "\<lambda>fb. if fb_ForceTerminationID fb = e_id E n \<and> fb_BillID fb \<in> set ids
               then fb\<lparr>fb_Status := ''done'', fb_UpdatedAt := e_now E\<rparr> else fb"
  have id: "ft_ID (new_ft E args n) = e_id E n" by (simp add: new_ft_def)
  have fr: "\<forall>fb \<in> set (db_force_termination_bills d). fb_ForceTerminationID fb \<noteq> e_id E n"
    using assms by (auto simp: fresh_ids_def)
  have old: "filter (\<lambda>fb. fb_ForceTerminationID fb = e_id E n) (map ?g xs) = []"
    if "\<forall>fb \<in> set xs. fb_ForceTerminationID fb \<noteq> e_id E n" for xs
    using that by (induction xs) auto
  have new: "filter (\<lambda>fb. fb_ForceTerminationID fb = e_id E n) (map ?g (map (?row ''pending'') is))
      = map (?row ''done'') is" if "set is \<subseteq> set ids" for "is"
    using that by (induction "is") auto
  have "filter (\<lambda>fb. fb_ForceTerminationID fb = e_id E n)
      (db_force_termination_bills (force_ended E args st (new_ft E args n) ids es d))
      = map (?row ''done'') ids"
    unfolding force_ended_ft_bills id map_append filter_append new [OF subset_refl]
    by (simp only: old [OF fr] append_Nil)
  then show ?thesis
    by (simp only: force_termination_bills_def Let_def map_map comp_def set_map set_sort image_image
        force_termination_bill.simps force_termination_bill_row.simps)
qed

text \<open>
  C9.  The forced termination (rule BR-14) works end to end.  A successful
  \<open>ForceTerminateLease\<close> found an active or expired lease that had started by the
  termination date; afterwards the lease is force-terminated, every bill of it
  is closed (paid and voided ones kept, the others written off) while no bill of
  another lease changes, the ledger has taken in the whole deposit exactly when
  the deposit is written off (and is not zero), whatever had become of the
  deposit before, the room is vacant, and the progress record returned is
  completed and lists the open bills, all done.
\<close>

theorem ForceTerminate_closes_lease:
  assumes "ForceTerminate_Execute E (server_deposit_repo E) (server_publish E) input w = (Inr detail, w')"
    and "unique_codes (w_db w)" "fresh_ids E (w_db w)"
    and "distinct (map b_ID (live (db_bills (w_db w))))"
  shows "\<exists>l l' es. lease_by_id (trim (fti_LeaseID input)) (w_db w) = Some l
     \<and> l_Status l \<in> {''active'', ''expired''}
     \<and> \<not> time_before (normalizeDate (fti_TerminationDate input)) (normalizeDate (l_StartDate l))
     \<and> lease_by_id (l_ID l) (w_db w') = Some l'
     \<and> l_Status l' = StatusForceTerminated
     \<and> l_DepositStatus l' = (if trim (fti_DepositHandling input) = ForceTerminationDepositWriteOff
                             then ''written_off'' else l_DepositStatus l)
     \<and> (\<forall>b \<in> set (bills_of (l_ID l) (w_db w')). bill_closed b)
     \<and> (\<forall>b \<in> set (bills_of (l_ID l) (w_db w)).
          b_Status b \<in> {''paid'', ''voided''} \<longrightarrow> b \<in> set (live (db_bills (w_db w'))))
     \<and> filter (\<lambda>b. b_LeaseID b \<noteq> l_ID l) (live (db_bills (w_db w')))
       = filter (\<lambda>b. b_LeaseID b \<noteq> l_ID l) (live (db_bills (w_db w)))
     \<and> write_off_entries (w_db w) l (trim (fti_DepositHandling input)) es
     \<and> db_entries (w_db w') = db_entries (w_db w) @ es
     \<and> (\<forall>r \<in> set (live (db_rooms (w_db w'))). rm_ID r = l_RoomID l \<longrightarrow> rm_Status r = ''vacant'')
     \<and> ftd_LeaseID detail = l_ID l \<and> ftd_Status detail = ''completed''
     \<and> set (map (\<lambda>b. (ftb_BillID b, ftb_Status b)) (ftd_Bills detail))
       = (\<lambda>i. (i, ''done'')) ` open_ids (l_ID l) (w_db w)"
proof -
  from assms(1) obtain args where va: "ForceTerminate_validate E input = Inr args" and
    tx: "WithinTransaction (server_publish E) (ForceTerminate_body E (server_deposit_repo E)
           (fti_AssignedPropertyIDs input) args) w = (Inr detail, w')"
    by (auto simp: ForceTerminate_Execute_def tx_control)
  from va have args: "fta_LeaseID args = trim (fti_LeaseID input)"
      "fta_DepositHandling args = trim (fti_DepositHandling input)"
      "fta_TerminationDate args = normalizeDate (fti_TerminationDate input)"
    by (auto simp: ForceTerminate_validate_def normalizeLeaseID_def Let_def split: if_splits sum.splits)
  obtain v0 v where v: "w_db v0 = w_db w" "w_events v0 = []"
    "ForceTerminate_body E (server_deposit_repo E) (fti_AssignedPropertyIDs input) args v0 = (Inr detail, v)"
    "w_db w' = events_effect E (w_events v) (w_db v)"
    using server_run_D [OF tx] by blast
  have tr: "trim (fta_DepositHandling args) = fta_DepositHandling args" by (simp add: args)
  obtain l n ids es st where l: "lease_by_id (fta_LeaseID args) (w_db w) = Some l"
    "l_Status l \<in> {''active'', ''expired''}"
    "\<not> time_before (fta_TerminationDate args) (normalizeDate (l_StartDate l))"
    "st = (if fta_DepositHandling args = ForceTerminationDepositWriteOff then ''written_off''
           else l_DepositStatus l)"
    "set ids = open_ids (fta_LeaseID args) (w_db w)"
    "write_off_entries (w_db w) l (fta_DepositHandling args) es"
    "w_db v = force_ended E args st (new_ft E args n) ids es (w_db w)"
    "w_events v = [LeaseTerminated (l_ID l) (l_RoomID l) (l_PropertyID l)
         (l_TenantID l) True False (time_UTC (e_now E))]"
    "\<exists>ft0. force_termination_detail (w_db v) (e_id E n) = Some ft0
         \<and> detail = ft0\<lparr>ftd_Bills := force_termination_bills (w_db v) (e_id E n)\<rparr>"
    using ForceTerminate_body_ok [OF v(3) _ tr] assms(2) unfolding v(1,2) by auto
  from l(9) obtain ft0 where ft0: "force_termination_detail (w_db v) (e_id E n) = Some ft0"
    "detail = ft0\<lparr>ftd_Bills := force_termination_bills (w_db v) (e_id E n)\<rparr>" by blast
  have id: "fta_LeaseID args = l_ID l" using lease_by_id_Some [OF l(1)] by simp
  let ?f = "force_terminated_lease (fta_TerminationDate args) (fta_ActualMoveOutDate args)
      (fta_Reason args) st"
  have f: "l_ID (?f k) = l_ID k" for k by (simp add: force_terminated_lease_def)
  have w': "w_db w' = released E (l_RoomID l) (l_TenantID l) (w_db v)"
    using v(4) l(8) by (simp add: events_effect_def released_def)
  have bills: "db_bills (w_db w') = db_bills (write_off E ids (fta_Reason args) (add_ft_bills E
      (e_id E n) ids (add_ft (new_ft E args n) (w_db w))))"
    by (simp add: w' l(7) force_ended_def new_ft_def)
  let ?d = "add_ft_bills E (e_id E n) ids (add_ft (new_ft E args n) (w_db w))"
  have ids: "set ids = open_ids (l_ID l) ?d" using l(5) id by (simp add: open_ids_def bills_of_def)
  have "lease_by_id (l_ID l) (w_db w') = Some (touched E ?f l)"
    using l(1) lease_by_id_with_lease [OF f, of "l_ID l" E]
    by (simp add: w' l(7) force_ended_def id lease_by_id_def complete_ft_def)
  moreover have "l_Status (touched E ?f l) = StatusForceTerminated" "l_DepositStatus (touched E ?f l) = st"
    by (simp_all add: touched_def force_terminated_lease_def StatusForceTerminated_def)
  moreover have "\<forall>b \<in> set (bills_of (l_ID l) (w_db w')). bill_closed b"
    using write_off_closes [OF ids] by (simp add: bills_of_def bills)
  moreover have "\<forall>b \<in> set (bills_of (l_ID l) (w_db w)).
      b_Status b \<in> {''paid'', ''voided''} \<longrightarrow> b \<in> set (live (db_bills (w_db w')))"
    using write_off_keeps [of _ ?d ids E] by (auto simp: bills_of_def bills)
  moreover have "filter (\<lambda>b. b_LeaseID b \<noteq> l_ID l) (live (db_bills (w_db w')))
       = filter (\<lambda>b. b_LeaseID b \<noteq> l_ID l) (live (db_bills (w_db w)))"
    using write_off_others [OF ids] assms(4) by (simp add: bills)
  moreover have "db_entries (w_db w') = db_entries (w_db w) @ es"
    by (simp add: w' l(7) force_ended_def)
  moreover note released_rooms [of E "l_RoomID l" "l_TenantID l" "w_db v", folded w']
  moreover have "ftd_LeaseID detail = l_ID l \<and> ftd_Status detail = ''completed''
     \<and> set (map (\<lambda>b. (ftb_BillID b, ftb_Status b)) (ftd_Bills detail))
       = (\<lambda>i. (i, ''done'')) ` open_ids (l_ID l) (w_db w)"
    using progress_header [OF assms(3) ft0(1) [unfolded l(7)]]
      progress_bills [OF assms(3), of args st n ids es] l(5) id
    unfolding ft0(2) l(7) by simp
  ultimately show ?thesis
    using l(1-4,6) id unfolding args [symmetric]
    by (intro exI [of _ l] exI [of _ "touched E ?f l"] exI [of _ es]) (simp only: simp_thms)
qed

text \<open>The lease of the office after its whole deposit was refunded: a forced
  termination with a write-off still takes the deposit in.\<close>

definition refunded_world :: world where
  "refunded_world = billed_world\<lparr>w_db := with_lease sample_env ''x'' (settled_lease 24000 0 None)
     (w_db billed_world)\<rparr>"

definition sample_force :: force_terminate_input where
  "sample_force = \<lparr>fti_ActorRole = ''admin'', fti_ActorUserID = ''u1'', fti_AssignedPropertyIDs = [],
     fti_LeaseID = ''x'', fti_TerminationDate = go_date 2024 2 10 0, fti_ActualMoveOutDate = None,
     fti_Reason = ''moved out'', fti_DepositHandling = ''write_off''\<rparr>"

lemma sample_force_runs:
  "is_inr (fst (ForceTerminate_Execute sample_env (server_deposit_repo sample_env) (server_publish sample_env)
     sample_force refunded_world))"
  by code_simp

lemma ForceTerminate_closes_lease_witness:
  "map_option l_DepositRefundAmount (lease_by_id ''x'' (w_db refunded_world)) = Some (Some 24000)
   \<and> (\<exists>detail w'. ForceTerminate_Execute sample_env (server_deposit_repo sample_env) (server_publish sample_env)
         sample_force refunded_world = (Inr detail, w')
       \<and> map entry_view (db_entries (w_db w')) = [(''deposit_deduction'', ''4601'', 24000)])"
proof -
  obtain detail w' where r: "ForceTerminate_Execute sample_env (server_deposit_repo sample_env)
      (server_publish sample_env) sample_force refunded_world = (Inr detail, w')"
    using sample_force_runs by (metis is_inr_iff prod.collapse)
  have "unique_codes (w_db refunded_world)" "db_entries (w_db refunded_world) = []"
    using billed_world_books by (simp_all add: refunded_world_def unique_codes_def)
  moreover have "db_force_terminations (w_db refunded_world) = []"
    "db_force_termination_bills (w_db refunded_world) = []" by code_simp+
  then have "fresh_ids sample_env (w_db refunded_world)" by (simp add: fresh_ids_def)
  moreover have "distinct (map b_ID (live (db_bills (w_db refunded_world))))" by code_simp
  moreover have "map_option l_DepositAmount (lease_by_id (trim (fti_LeaseID sample_force)) (w_db refunded_world))
      = Some 24000" by code_simp
  moreover have "trim (fti_DepositHandling sample_force) = ForceTerminationDepositWriteOff" by code_simp
  moreover have "map_option l_DepositRefundAmount (lease_by_id ''x'' (w_db refunded_world)) = Some (Some 24000)"
    by code_simp
  ultimately show ?thesis
    using ForceTerminate_closes_lease [OF r] r by (auto simp: write_off_entries_def)
qed

end
