(* ===== verification/Runs.thy ===== *)
theory Runs
  imports LeaseCreate
begin

text \<open>
  Total correctness of transactional code: \<open>wp m P w\<close> says that \<open>m\<close> run from \<open>w\<close>
  returns a result, and that the result and the world it leaves satisfy \<open>P\<close>.
  The rules compute \<open>wp\<close> along the code, so that in a world without failures a
  command is shown to succeed from the conditions it checks.
\<close>

definition wp :: "'a tx \<Rightarrow> ('a \<Rightarrow> world \<Rightarrow> bool) \<Rightarrow> world \<Rightarrow> bool" where
  "wp m P w \<longleftrightarrow> (\<exists>x v. m w = (Inr x, v) \<and> P x v)"

named_theorems wp_simps \<open>weakest preconditions of transactional code\<close>

text \<open>No statement fails from here on.\<close>

definition calm :: "world \<Rightarrow> bool" where
  "calm w \<longleftrightarrow> w_faults w = []"

text \<open>The world after one statement that leaves the database \<open>d\<close>.\<close>

definition stepped :: "world \<Rightarrow> db \<Rightarrow> world" where
  "stepped w d = (tick w)\<lparr>w_db := d, w_fresh := Suc (w_fresh w)\<rparr>"

lemma stepped_simps [simp]:
  "w_db (stepped w d) = d" "w_events (stepped w d) = w_events w" "calm w \<Longrightarrow> calm (stepped w d)"
  by (simp_all add: stepped_def calm_def tick_def)

lemma calm_simps [simp]:
  "calm w \<Longrightarrow> \<not> next_fault w" "calm w \<Longrightarrow> calm (tick w)"
  "calm (w\<lparr>w_events := es\<rparr>) = calm w" "calm (w\<lparr>w_db := d\<rparr>) = calm w"
  by (simp_all add: calm_def next_fault_def tick_def)

lemma wp_mono: "wp m P w \<Longrightarrow> (\<And>x v. P x v \<Longrightarrow> Q x v) \<Longrightarrow> wp m Q w"
  by (auto simp: wp_def)

lemma wp_return [wp_simps]: "wp (tx_return x) P = P x"
  by (auto simp: wp_def tx_simps fun_eq_iff)

lemma wp_bind [wp_simps]: "wp (tx_bind m f) P = wp m (\<lambda>x. wp (f x) P)"
  by (auto simp: wp_def tx_simps fun_eq_iff)

lemma wp_map_err [wp_simps]: "wp (tx_map_err g m) P = wp m P"
  by (auto simp: wp_def tx_simps fun_eq_iff)

lemma wp_control [wp_simps]:
  "wp (tx_reject c e) R w \<longleftrightarrow> \<not> c \<and> R () w"
  "wp (tx_lift r) P w \<longleftrightarrow> (\<exists>x. r = Inr x \<and> P x w)"
  "wp (found_or e o') Q w \<longleftrightarrow> (\<exists>x. o' = Some x \<and> Q x w)"
  "wp (record_event ev) R w \<longleftrightarrow> R () (w\<lparr>w_events := w_events w @ [ev]\<rparr>)"
  unfolding wp_def by (auto simp: tx_simps)

lemma wp_stmt [wp_simps]:
  "wp (stmt c b) P w \<longleftrightarrow> \<not> next_fault w
     \<and> P (fst (b (w_fresh w) (w_db w))) (stepped w (snd (b (w_fresh w) (w_db w))))"
  unfolding wp_def by (auto simp: stmt_ok stepped_def)

lemma wp_transaction:
  "wp (WithinTransaction publish fn) P w \<longleftrightarrow> \<not> next_fault w
     \<and> wp fn (\<lambda>x v. \<not> next_fault v
         \<and> wp (publish_all publish (w_events v)) (\<lambda>_. P x) ((tick v)\<lparr>w_events := w_events w\<rparr>))
       ((tick w)\<lparr>w_events := []\<rparr>)"
  unfolding wp_def by (auto simp: WithinTransaction_ok)

section \<open>Statements of the lease repository\<close>

lemma wp_queries [wp_simps]:
  "wp (FindTenantByID k) P w \<longleftrightarrow> \<not> next_fault w
     \<and> (\<exists>t. find (\<lambda>t. tn_ID t = k) (live (db_tenants (w_db w))) = Some t
         \<and> P (tn_ID t, tn_Status t) (stepped w (w_db w)))"
  "wp (FindRoomByIDForUpdate k) Q w \<longleftrightarrow> \<not> next_fault w
     \<and> (\<exists>r. room_lookup k (w_db w) = Some r \<and> Q r (stepped w (w_db w)))"
  "wp (FindLeaseByIDForUpdate k) R w \<longleftrightarrow> \<not> next_fault w
     \<and> (\<exists>l. lease_by_id k (w_db w) = Some l \<and> R l (stepped w (w_db w)))"
  "wp (ListBillsByLeaseIDForUpdate k) S w \<longleftrightarrow> \<not> next_fault w
     \<and> S (map bill_view (sort_key (\<lambda>b. (t_day (b_PeriodStart b), b_Type b, b_ID b))
            (bills_of k (w_db w)))) (stepped w (w_db w))"
proof -
  show "wp (FindTenantByID k) P w \<longleftrightarrow> \<not> next_fault w
     \<and> (\<exists>t. find (\<lambda>t. tn_ID t = k) (live (db_tenants (w_db w))) = Some t
         \<and> P (tn_ID t, tn_Status t) (stepped w (w_db w)))"
    unfolding FindTenantByID_def wp_simps by auto
  show "wp (FindRoomByIDForUpdate k) Q w \<longleftrightarrow> \<not> next_fault w
     \<and> (\<exists>r. room_lookup k (w_db w) = Some r \<and> Q r (stepped w (w_db w)))"
    unfolding FindRoomByIDForUpdate_def wp_simps by (simp add: room_lookup_def)
  show "wp (FindLeaseByIDForUpdate k) R w \<longleftrightarrow> \<not> next_fault w
     \<and> (\<exists>l. lease_by_id k (w_db w) = Some l \<and> R l (stepped w (w_db w)))"
    unfolding FindLeaseByIDForUpdate_def wp_simps by simp
  show "wp (ListBillsByLeaseIDForUpdate k) S w \<longleftrightarrow> \<not> next_fault w
     \<and> S (map bill_view (sort_key (\<lambda>b. (t_day (b_PeriodStart b), b_Type b, b_ID b))
            (bills_of k (w_db w)))) (stepped w (w_db w))"
    unfolding ListBillsByLeaseIDForUpdate_def wp_simps by simp
qed

lemma wp_CreateLease [wp_simps]:
  "wp (CreateLease E p) P w \<longleftrightarrow> \<not> next_fault w
     \<and> P (new_lease E (w_fresh w) p) (stepped w (add_lease (new_lease E (w_fresh w) p) (w_db w)))"
  unfolding CreateLease_def wp_simps by (simp add: Let_def add_lease_def)

lemma wp_update_lease:
  assumes "\<And>l. l_ID (f l) = l_ID l"
  shows "wp (update_lease_returning ctx E k f) P w \<longleftrightarrow> \<not> next_fault w
     \<and> (\<exists>l. lease_by_id k (w_db w) = Some l
         \<and> P (touched E f l) (stepped w (with_lease E k f (w_db w))))"
  unfolding wp_def update_lease_returning_ok [OF assms] stepped_def by auto

lemma wp_lease_writes [wp_simps]:
  "wp (TerminateLease_repo E k t m why d) P w \<longleftrightarrow> \<not> next_fault w
     \<and> (\<exists>l. lease_by_id k (w_db w) = Some l \<and> P (touched E (terminated_lease t m why d) l)
          (stepped w (with_lease E k (terminated_lease t m why d) (w_db w))))"
  "wp (SettleDeposit_repo E k r d' why') P w \<longleftrightarrow> \<not> next_fault w
     \<and> (\<exists>l. lease_by_id k (w_db w) = Some l \<and> P (touched E (settled_lease r d' why') l)
          (stepped w (with_lease E k (settled_lease r d' why') (w_db w))))"
  unfolding TerminateLease_repo_def SettleDeposit_repo_def
    terminated_lease_def [abs_def] settled_lease_def [abs_def]
  by (subst wp_update_lease, simp_all)+

text \<open>Creating bills always succeeds in a calm world.\<close>

lemma wp_insert_bills:
  "calm w \<Longrightarrow> (\<And>v. calm v \<Longrightarrow> w_events v = w_events w \<Longrightarrow> P () v) \<Longrightarrow> wp (insert_bills E ps) P w"
  by (induction ps arbitrary: w) (simp_all add: wp_simps)

lemma wp_CreateBills:
  "calm w \<Longrightarrow> (\<And>v. calm v \<Longrightarrow> w_events v = w_events w \<Longrightarrow> P () v) \<Longrightarrow> wp (CreateBills E ps) P w"
  unfolding CreateBills_def by (cases "ps = []") (simp_all add: wp_simps wp_insert_bills)

section \<open>Commands of the server\<close>

lemma wp_Noop_transaction:
  "calm w \<Longrightarrow> wp fn (\<lambda>x v. calm v \<and> P x ((tick v)\<lparr>w_events := w_events w\<rparr>)) ((tick w)\<lparr>w_events := []\<rparr>) \<Longrightarrow>
     wp (WithinTransaction NoopPublish fn) P w"
  unfolding wp_transaction publish_all_Noop by (auto simp: wp_simps elim: wp_mono)

lemma subscribers_run:
  assumes "calm w"
  shows "wp (OccupyRoom_HandleLeaseCreated E e) (\<lambda>_. calm) w"
    "wp (ActivateTenant_HandleLeaseCreated E e) (\<lambda>_. calm) w"
    "wp (ReleaseRoom_HandleLeaseTerminated E e) (\<lambda>_. calm) w"
    "wp (DeactivateTenant_HandleLeaseTerminated E e) (\<lambda>_. calm) w"
  unfolding OccupyRoom_HandleLeaseCreated_def ActivateTenant_HandleLeaseCreated_def
    ReleaseRoom_HandleLeaseTerminated_def DeactivateTenant_HandleLeaseTerminated_def
    MarkRoomOccupied_def MarkRoomVacant_def ActivateTenant_def DeactivateTenantIfNoActiveLeases_def
  by (rule wp_Noop_transaction [OF assms], simp add: wp_simps assms)+

lemma server_publish_runs:
  assumes "calm w"
  shows "wp (server_publish E e) (\<lambda>_. calm) w"
  unfolding server_publish_def registerLeaseEventSubscribers_def bus_Publish_def
  by (cases e)
    (auto simp: bus_Subscribe_def bus_New_def wp_simps assms
      intro!: subscribers_run [THEN wp_mono, OF assms] subscribers_run)

lemma publish_all_runs: "calm w \<Longrightarrow> wp (publish_all (server_publish E) es) (\<lambda>_. calm) w"
proof (induction es arbitrary: w)
  case (Cons e es)
  show ?case
    using Cons.IH by (auto simp: wp_simps intro: wp_mono [OF server_publish_runs [OF Cons.prems]])
qed (simp add: wp_simps)

text \<open>A command succeeds in a calm world when its body does.\<close>

lemma server_command_runs:
  assumes "calm w" "wp fn (\<lambda>_. calm) ((tick w)\<lparr>w_events := []\<rparr>)"
  shows "wp (WithinTransaction (server_publish E) fn) (\<lambda>_. calm) w"
  unfolding wp_transaction
  using assms by (auto intro!: publish_all_runs elim!: wp_mono)

lemma wp_result: "wp m P w \<Longrightarrow> \<exists>x v. m w = (Inr x, v)"
  by (auto simp: wp_def)

end
