(* ===== verification/LeaseReplace.thy ===== *)
theory LeaseReplace
  imports LeaseDeposit Runs
begin

text \<open>
  Replacing a lease by a successor for the same tenant and room
  (application/lease/replace_lease.go).
\<close>

section \<open>The code\<close>

definition replacementDepositCarryOver :: string where
  "replacementDepositCarryOver = ''carry_over''"

record replace_lease_input =
  rli_ActorRole :: string
  rli_AssignedPropertyIDs :: "string list"
  rli_LeaseID :: string
  rli_Reason :: string
  rli_EffectiveStartDate :: gtime
  rli_DepositHandling :: string
  rli_NewEndDate :: gtime
  rli_NewRentAmount :: int
  rli_NewRentBillingCadence :: string
  rli_NewCadence :: string
  rli_NewNotes :: "string option"

record replace_lease_result =
  rlr_OldLease :: lease
  rlr_NewLease :: lease
  rlr_Reason :: string
  rlr_EffectiveStartDate :: gtime
  rlr_DepositHandling :: string
  rlr_ChangedFields :: "string list"

text \<open>The values \<open>Execute\<close> computes before it opens the transaction.\<close>

record replace_args =
  ra_LeaseID :: string
  ra_ActorRole :: string
  ra_Reason :: string
  ra_RentCadence :: string
  ra_ElectricityCadence :: string
  ra_EffectiveStart :: gtime
  ra_NewEndDate :: gtime

definition isCompleteBoundaryBill :: "lease \<Rightarrow> lease_bill \<Rightarrow> bool" where
  "isCompleteBoundaryBill lease b =
    (let start = bill_PeriodStart b; until = add_date start 2 0 0;
         periods =
           (if bill_Type b = TypeRent
            then BuildRentBillingPeriodsFromAnchor start until (l_RentBillingCadence lease)
                   (time_dayOfMonth (l_StartDate lease))
            else if bill_Type b = TypeElectricity
            then (if l_ElectricityBillingCadence lease = BillingCadenceMonthly
                  then BuildMonthlyBillingPeriodsFromAnchor start until
                         (time_dayOfMonth (l_StartDate lease))
                  else BuildBillingPeriods start until (l_ElectricityBillingCadence lease))
            else Inr [])
     in case periods of
          Inl _ \<Rightarrow> False
        | Inr [] \<Rightarrow> False
        | Inr (p # _) \<Rightarrow> time_equal (normalizeDate (PeriodEnd p)) (normalizeDate (bill_PeriodEnd b)))"

text \<open>The loop over the bills; the last bill that ends on the eve of the boundary
  decides for its type.\<close>

definition ends_before :: "gtime \<Rightarrow> lease_bill \<Rightarrow> bool" where
  "ends_before effectiveStart b =
     time_equal (add_date (normalizeDate (bill_PeriodEnd b)) 0 0 1) effectiveStart"

fun boundary_loop :: "lease \<Rightarrow> gtime \<Rightarrow> lease_bill list \<Rightarrow> bool \<Rightarrow> bool \<Rightarrow> bool" where
  "boundary_loop lease effectiveStart [] hasRent hasElectricity = (hasRent \<and> hasElectricity)"
| "boundary_loop lease effectiveStart (b # bs) hasRent hasElectricity =
    (if ends_before effectiveStart b \<and> bill_Type b = TypeRent
     then boundary_loop lease effectiveStart bs (isCompleteBoundaryBill lease b) hasElectricity
     else if ends_before effectiveStart b \<and> bill_Type b = TypeElectricity
     then boundary_loop lease effectiveStart bs hasRent (isCompleteBoundaryBill lease b)
     else boundary_loop lease effectiveStart bs hasRent hasElectricity)"

definition isReplacementBoundary :: "lease \<Rightarrow> lease_bill list \<Rightarrow> gtime \<Rightarrow> bool" where
  "isReplacementBoundary lease bills effectiveStart =
     boundary_loop lease effectiveStart bills False False"

definition unsettledBeforeBoundary :: "lease_bill list \<Rightarrow> gtime \<Rightarrow> string list" where
  "unsettledBeforeBoundary bills effectiveStart =
     map bill_ID (filter (\<lambda>b. time_before (normalizeDate (bill_PeriodEnd b)) effectiveStart
                            \<and> bill_Status b \<noteq> StatusPaid) bills)"

definition replacementChangedFields :: "lease \<Rightarrow> lease \<Rightarrow> string list" where
  "replacementChangedFields oldLease newLease =
     (if l_RentAmount oldLease \<noteq> l_RentAmount newLease then [''rent_amount''] else [])
     @ (if \<not> time_equal (normalizeDate (l_EndDate oldLease)) (normalizeDate (l_EndDate newLease))
        then [''end_date''] else [])
     @ (if l_ElectricityBillingCadence oldLease \<noteq> l_ElectricityBillingCadence newLease
        then [''electricity_billing_cadence''] else [])
     @ (if l_RentBillingCadence oldLease \<noteq> l_RentBillingCadence newLease
        then [''rent_billing_cadence''] else [])"

definition ReplaceLease_validate :: "env \<Rightarrow> replace_lease_input \<Rightarrow> gerr + replace_args" where
  "ReplaceLease_validate E input =
    (let leaseID = trim (rli_LeaseID input); actorRole = actor_role (rli_ActorRole input);
         reason = trim (rli_Reason input); rentCadence = trim (rli_NewRentBillingCadence input)
     in if leaseID = '''' \<or> leaseID = zeroUUID then Inl ErrLeaseNotFound
        else if \<not> e_uuid_ok E leaseID
          then Inl (apperr_WithDetails ErrBadRequest (field_detail ''lease_id''))
        else if is_zero_time (rli_EffectiveStartDate input)
          then Inl (apperr_WithDetails ErrBadRequest (field_detail ''effective_start_date''))
        else if is_zero_time (rli_NewEndDate input) then Inl errValidationEndDateRequired
        else if trim (rli_DepositHandling input) \<noteq> replacementDepositCarryOver
          then Inl errReplacementDepositHandlingUnsupported
        else if actorRole \<notin> {''admin'', ''organizer'', ''staff''} then Inl ErrForbidden
        else if reason \<notin> {''cadence_change'', ''renewal'', ''contract_reissue'', ''other_exception''}
          then Inl (apperr_WithDetails ErrBadRequest (field_detail ''reason''))
        else if rentCadence = ''''
          then Inl (apperr_WithDetails ErrBadRequest (field_detail ''rent_billing_cadence''))
        else Inr \<lparr>ra_LeaseID = leaseID, ra_ActorRole = actorRole, ra_Reason = reason,
               ra_RentCadence = rentCadence, ra_ElectricityCadence = trim (rli_NewCadence input),
               ra_EffectiveStart = normalizeDate (rli_EffectiveStartDate input),
               ra_NewEndDate = normalizeDate (rli_NewEndDate input)\<rparr>)"

definition successor_state :: "replace_lease_input \<Rightarrow> replace_args \<Rightarrow> lease \<Rightarrow> lease_state" where
  "successor_state input args current =
    \<lparr>ls_ID = '''', ls_TenantID = l_TenantID current, ls_RoomID = l_RoomID current,
     ls_PropertyID = l_PropertyID current, ls_RentAmount = rli_NewRentAmount input,
     ls_StartDate = ra_EffectiveStart args, ls_EndDate = ra_NewEndDate args,
     ls_RentBillingCadence = ra_RentCadence args,
     ls_ElectricityBillingCadence = ra_ElectricityCadence args,
     ls_Status = '''', ls_DepositAmount = l_DepositAmount current, ls_DepositRefundAmount = None,
     ls_DepositDeductionAmount = None, ls_DepositStatus = '''', ls_DepositDeductionReason = None,
     ls_Version = 0\<rparr>"

text \<open>The parameters of the successor leave \<open>StartingMeterReading\<close> out, so it is
  Go's zero; its notes are passed on untrimmed.\<close>

definition ReplaceLease_body ::
    "env \<Rightarrow> replace_lease_input \<Rightarrow> replace_args \<Rightarrow> replace_lease_result tx" where
  "ReplaceLease_body E input args =
    (let leaseID = ra_LeaseID args; effectiveStart = ra_EffectiveStart args;
         reason = ra_Reason args; now = time_UTC (e_now E)
     in tx_bind (tx_map_err mapLeaseLookupError (a_FindLeaseByIDForUpdate leaseID)) (\<lambda>current.
        tx_bind (tx_reject (\<not> in_scope (ra_ActorRole args) [''organizer'', ''staff'']
                   (rli_AssignedPropertyIDs input) (l_PropertyID current)) ErrForbidden) (\<lambda>_.
        tx_bind (tx_reject (l_Status current \<noteq> StatusActive) errLeaseNotActive) (\<lambda>_.
        tx_bind (tx_reject (l_DepositStatus current \<noteq> DepositStatusHeld)
                   (apperr_WithDetails errReplacementDepositHandlingUnsupported
                      (field_detail ''deposit_status''))) (\<lambda>_.
        tx_bind (tx_map_err (lookup_error ErrTenantNotFound_app ErrTenantNotFound)
                   (a_FindTenantByID (l_TenantID current))) (\<lambda>_.
        tx_bind (tx_map_err (lookup_error ErrRoomNotFound_app ErrRoomNotFound)
                   (a_FindRoomByIDForUpdate (l_RoomID current))) (\<lambda>room.
        tx_bind (tx_reject (room_PropertyID room \<noteq> l_PropertyID current)
                   errReplacementScopeMismatch) (\<lambda>_.
        tx_bind (tx_map_err internal_cause (ListBillsByLeaseIDForUpdate leaseID)) (\<lambda>bills.
        tx_bind (tx_reject (\<not> isReplacementBoundary current bills effectiveStart)
                   errReplacementNotAtBillingBoundary) (\<lambda>_.
        tx_bind (tx_reject (unsettledBeforeBoundary bills effectiveStart \<noteq> [])
                   (apperr_WithDetails errReplacementHasUnsettledBills (JObj [(''bill_ids'',
                      JList (map JStr (unsettledBeforeBoundary bills effectiveStart)))]))) (\<lambda>_.
        tx_bind (tx_map_err lease_mapDomainError
                   (tx_lift (lease_New (successor_state input args current)))) (\<lambda>state.
        tx_bind (tx_reject (time_before (add_date effectiveStart 0 0 (- 1))
                              (normalizeDate (l_StartDate current)))
                   errReplacementNotAtBillingBoundary) (\<lambda>_.
        tx_bind (tx_map_err internal_cause (a_TerminateLease E leaseID
                   (add_date effectiveStart 0 0 (- 1)) None
                   (''lease replacement: '' @ reason) None)) (\<lambda>terminated.
        tx_bind (tx_map_err internal_cause
                   (VoidBillsOverlappingOrAfter E leaseID effectiveStart)) (\<lambda>_.
        tx_bind (tx_map_err internal_cause
                   (CreateLease E (lease_params state 0 (rli_NewNotes input)))) (\<lambda>successor.
        tx_bind (tx_map_err lease_mapDomainError (tx_lift (BuildRentBillingPeriods
                   (ls_StartDate state) (ls_EndDate state) (ls_RentBillingCadence state)))) (\<lambda>rentPeriods.
        tx_bind (tx_map_err lease_mapDomainError (tx_lift (BuildBillingPeriods
                   (ls_StartDate state) (ls_EndDate state)
                   (ls_ElectricityBillingCadence state)))) (\<lambda>electricityPeriods.
        tx_bind (tx_map_err internal_cause
                   (CreateBills E (buildBillSeeds successor rentPeriods electricityPeriods))) (\<lambda>_.
        tx_bind (record_event (LeaseTerminated (l_ID terminated) (l_RoomID terminated)
                   (l_PropertyID terminated) (l_TenantID terminated) False True now)) (\<lambda>_.
        tx_bind (record_event (LeaseCreated (l_ID successor) (l_RoomID successor)
                   (l_PropertyID successor) (l_TenantID successor) (l_StartDate successor)
                   (l_EndDate successor) (l_RentBillingCadence successor)
                   (l_ElectricityBillingCadence successor) now)) (\<lambda>_.
        tx_bind (record_event (LeaseReplaced (l_ID terminated) (l_ID successor) (l_RoomID successor)
                   (l_PropertyID successor) (l_TenantID successor) reason effectiveStart
                   (replacementChangedFields current successor) replacementDepositCarryOver now)) (\<lambda>_.
        tx_return \<lparr>rlr_OldLease = terminated, rlr_NewLease = successor, rlr_Reason = reason,
          rlr_EffectiveStartDate = effectiveStart, rlr_DepositHandling = replacementDepositCarryOver,
          rlr_ChangedFields = replacementChangedFields current successor\<rparr>))))))))))))))))))))))"

definition ReplaceLease_Execute ::
    "env \<Rightarrow> (event \<Rightarrow> unit tx) \<Rightarrow> replace_lease_input \<Rightarrow> replace_lease_result tx" where
  "ReplaceLease_Execute E publish input =
     tx_bind (tx_lift (ReplaceLease_validate E input))
       (\<lambda>args. WithinTransaction publish (ReplaceLease_body E input args))"

section \<open>What a replacement does\<close>

definition void_overlapping :: "env \<Rightarrow> string \<Rightarrow> gtime \<Rightarrow> db \<Rightarrow> db" where
  "void_overlapping E k boundary =
     update_bills E (\<lambda>b. b_LeaseID b = k \<and> t_day boundary \<le> t_day (b_PeriodEnd b)
                 \<and> b_Status b \<in> {''pending_payment'', ''pending_meter''})
               (\<lambda>b. b\<lparr>b_Status := ''voided''\<rparr>)"

lemma void_overlapping_simps [simp]:
  "db_leases (void_overlapping E k t d) = db_leases d" "db_rooms (void_overlapping E k t d) = db_rooms d"
  "db_tenants (void_overlapping E k t d) = db_tenants d"
  "db_entries (void_overlapping E k t d) = db_entries d"
  by (simp_all add: void_overlapping_def)

lemma VoidBillsOverlappingOrAfter_D:
  "VoidBillsOverlappingOrAfter E k t w = (Inr u, v) \<Longrightarrow>
     w_db v = void_overlapping E k t (w_db w) \<and> w_events v = w_events w"
  unfolding VoidBillsOverlappingOrAfter_def void_overlapping_def by (drule stmt_D) auto

text \<open>The events of a replacement, and the old lease as it leaves it.\<close>

definition replacement_events :: "env \<Rightarrow> replace_args \<Rightarrow> lease \<Rightarrow> lease \<Rightarrow> lease \<Rightarrow> event list" where
  "replacement_events E args current terminated successor =
    [LeaseTerminated (l_ID terminated) (l_RoomID terminated) (l_PropertyID terminated)
       (l_TenantID terminated) False True (time_UTC (e_now E)),
     LeaseCreated (l_ID successor) (l_RoomID successor) (l_PropertyID successor)
       (l_TenantID successor) (l_StartDate successor) (l_EndDate successor)
       (l_RentBillingCadence successor) (l_ElectricityBillingCadence successor) (time_UTC (e_now E)),
     LeaseReplaced (l_ID terminated) (l_ID successor) (l_RoomID successor) (l_PropertyID successor)
       (l_TenantID successor) (ra_Reason args) (ra_EffectiveStart args)
       (replacementChangedFields current successor) replacementDepositCarryOver (time_UTC (e_now E))]"

definition replaced_lease :: "env \<Rightarrow> replace_args \<Rightarrow> lease \<Rightarrow> lease" where
  "replaced_lease E args = touched E (terminated_lease (add_date (ra_EffectiveStart args) 0 0 (- 1)) None
     (''lease replacement: '' @ ra_Reason args) None)"

lemma ReplaceLease_body_ok:
  assumes "ReplaceLease_body E input args w = (Inr r, v)"
  shows "\<exists>l bills state rp ep n m. lease_by_id (ra_LeaseID args) (w_db w) = Some l
     \<and> l_Status l = StatusActive \<and> l_DepositStatus l = DepositStatusHeld
     \<and> bills = map bill_view (sort_key (\<lambda>b. (t_day (b_PeriodStart b), b_Type b, b_ID b))
            (bills_of (ra_LeaseID args) (w_db w)))
     \<and> isReplacementBoundary l bills (ra_EffectiveStart args)
     \<and> unsettledBeforeBoundary bills (ra_EffectiveStart args) = []
     \<and> lease_New (successor_state input args l) = Inr state
     \<and> rlr_OldLease r = replaced_lease E args l
     \<and> rlr_NewLease r = new_lease E m (lease_params state 0 (rli_NewNotes input))
     \<and> BuildRentBillingPeriods (ls_StartDate state) (ls_EndDate state)
         (ls_RentBillingCadence state) = Inr rp
     \<and> BuildBillingPeriods (ls_StartDate state) (ls_EndDate state)
         (ls_ElectricityBillingCadence state) = Inr ep
     \<and> w_db v = add_bills (created_bills E n (buildBillSeeds (rlr_NewLease r) rp ep))
         (add_lease (rlr_NewLease r) (void_overlapping E (ra_LeaseID args) (ra_EffectiveStart args)
           (with_lease E (ra_LeaseID args) (terminated_lease (add_date (ra_EffectiveStart args) 0 0 (- 1))
              None (''lease replacement: '' @ ra_Reason args) None) (w_db w))))
     \<and> w_events v = w_events w
         @ replacement_events E args l (rlr_OldLease r) (rlr_NewLease r)
     \<and> rlr_ChangedFields r = replacementChangedFields l (rlr_NewLease r)"
proof -
  note run = assms [unfolded ReplaceLease_body_def a_FindLeaseByIDForUpdate_def a_FindTenantByID_def
      a_FindRoomByIDForUpdate_def a_TerminateLease_def Let_def tx_control]
  from run obtain l t room bs state old new rp ep u1 u2 u3 u4 u5 u6 u7 u8 where
    ops: "FindLeaseByIDForUpdate (ra_LeaseID args) w = (Inr l, u1)"
      "l_Status l = StatusActive" "l_DepositStatus l = DepositStatusHeld"
      "FindTenantByID (l_TenantID l) u1 = (Inr t, u2)"
      "FindRoomByIDForUpdate (l_RoomID l) u2 = (Inr room, u3)"
      "ListBillsByLeaseIDForUpdate (ra_LeaseID args) u3 = (Inr bs, u4)"
      "isReplacementBoundary l bs (ra_EffectiveStart args)"
      "unsettledBeforeBoundary bs (ra_EffectiveStart args) = []"
      "lease_New (successor_state input args l) = Inr state"
      "TerminateLease_repo E (ra_LeaseID args) (add_date (ra_EffectiveStart args) 0 0 (- 1)) None
         (''lease replacement: '' @ ra_Reason args) None u4 = (Inr old, u5)"
      "VoidBillsOverlappingOrAfter E (ra_LeaseID args) (ra_EffectiveStart args) u5 = (Inr (), u6)"
      "CreateLease E (lease_params state 0 (rli_NewNotes input)) u6 = (Inr new, u7)"
      "BuildRentBillingPeriods (ls_StartDate state) (ls_EndDate state)
         (ls_RentBillingCadence state) = Inr rp"
      "BuildBillingPeriods (ls_StartDate state) (ls_EndDate state)
         (ls_ElectricityBillingCadence state) = Inr ep"
      "CreateBills E (buildBillSeeds new rp ep) u7 = (Inr (), u8)" and
    rec: "w_db v = w_db u8" "w_events v = w_events u8 @ replacement_events E args l old new"
      "rlr_OldLease r = old" "rlr_NewLease r = new"
      "rlr_ChangedFields r = replacementChangedFields l new"
    by (auto simp: record_event_ok replacement_events_def)
  note d = FindLeaseByIDForUpdate_D [OF ops(1)] FindTenantByID_D [OF ops(4)]
    FindRoomByIDForUpdate_D [OF ops(5)] ListBills_D [OF ops(6)] TerminateLease_repo_D [OF ops(10)]
    VoidBillsOverlappingOrAfter_D [OF ops(11)] CreateLease_D [OF ops(12)] CreateBills_ok [OF ops(15)]
  have old: "old = replaced_lease E args l" using d by (auto simp: replaced_lease_def)
  obtain m where m: "new = new_lease E m (lease_params state 0 (rli_NewNotes input))"
    using d(7) by blast
  obtain n where n: "w_db u8 = add_bills (created_bills E n (buildBillSeeds new rp ep)) (w_db u7)"
    "w_events u8 = w_events u7" using d(8) by blast
  have db: "w_db u8 = add_bills (created_bills E n (buildBillSeeds new rp ep))
     (add_lease new (void_overlapping E (ra_LeaseID args) (ra_EffectiveStart args)
           (with_lease E (ra_LeaseID args) (terminated_lease (add_date (ra_EffectiveStart args) 0 0 (- 1))
              None (''lease replacement: '' @ ra_Reason args) None) (w_db w))))"
    "w_events u8 = w_events w" using n d by simp_all
  have "bs = map bill_view (sort_key (\<lambda>b. (t_day (b_PeriodStart b), b_Type b, b_ID b))
            (bills_of (ra_LeaseID args) (w_db w)))" using d by simp
  then show ?thesis
    using ops(2,3,7-9,13,14) d(1) old m db rec
    by (intro exI [of _ l] exI [of _ bs] exI [of _ state] exI [of _ rp] exI [of _ ep] exI [of _ n]
        exI [of _ m]) simp
qed

lemma settled_before_boundary:
  assumes "unsettledBeforeBoundary (map bill_view (sort_key f bs)) (day_at d 0) = []"
    and "b \<in> set bs" "t_off (b_PeriodEnd b) = 0" "t_day (b_PeriodEnd b) < d"
  shows "b_Status b = StatusPaid"
  using assms by (auto simp: unsettledBeforeBoundary_def filter_empty_conv bill_view_def)

lemma ReplaceLease_Execute_ok:
  assumes "ReplaceLease_Execute E (server_publish E) input w = (Inr r, w')"
  shows "\<exists>args v0 v. ra_LeaseID args = trim (rli_LeaseID input)
     \<and> ra_EffectiveStart args = normalizeDate (rli_EffectiveStartDate input)
     \<and> ra_NewEndDate args = normalizeDate (rli_NewEndDate input)
     \<and> w_db v0 = w_db w \<and> w_events v0 = []
     \<and> ReplaceLease_body E input args v0 = (Inr r, v)
     \<and> w_db w' = events_effect E (w_events v) (w_db v)"
proof -
  obtain args where v: "ReplaceLease_validate E input = Inr args" and
    tx: "WithinTransaction (server_publish E) (ReplaceLease_body E input args) w = (Inr r, w')"
    using assms by (auto simp: ReplaceLease_Execute_def tx_control)
  have "ra_LeaseID args = trim (rli_LeaseID input)"
      "ra_EffectiveStart args = normalizeDate (rli_EffectiveStartDate input)"
      "ra_NewEndDate args = normalizeDate (rli_NewEndDate input)"
    using v by (auto simp: ReplaceLease_validate_def Let_def split: if_splits)
  then show ?thesis using server_run_D [OF tx] by blast
qed

text \<open>The ids of a lease row are uuids, without blanks around them.\<close>

definition trimmed_ids :: "lease \<Rightarrow> bool" where
  "trimmed_ids l \<longleftrightarrow> trim (l_TenantID l) = l_TenantID l \<and> trim (l_RoomID l) = l_RoomID l
     \<and> trim (l_PropertyID l) = l_PropertyID l"

lemma successor_fields:
  assumes "lease_New (successor_state input args l) = Inr state"
    and "new = new_lease E m (lease_params state 0 notes)" and "trimmed_ids l"
  shows "ls_StartDate state = ra_EffectiveStart args" "ls_EndDate state = ra_NewEndDate args"
    "l_StartDate new = pg_date (ra_EffectiveStart args)" "l_EndDate new = pg_date (ra_NewEndDate args)"
    "l_TenantID new = l_TenantID l" "l_RoomID new = l_RoomID l" "l_PropertyID new = l_PropertyID l"
    "l_RentAmount new = rli_NewRentAmount input" "0 < l_RentAmount new"
    "l_DepositAmount new = l_DepositAmount l" "l_Status new = StatusActive"
    "l_DepositStatus new = DepositStatusHeld" "l_StartingMeterReading new = Some 0"
  using assms(1,3) unfolding assms(2) trimmed_ids_def
  by (auto simp: lease_New_def normalizeState_def successor_state_def new_lease_def lease_params_def
      lease_consts Let_def split: if_splits)

lemma replacement_effect:
  assumes run: "ReplaceLease_Execute E (server_publish E) input w = (Inr r, w')"
    and l: "lease_by_id (trim (rli_LeaseID input)) (w_db w) = Some l" "trimmed_ids l"
    and zone: "t_off (rli_EffectiveStartDate input) = 0" "t_off (rli_NewEndDate input) = 0"
      "\<forall>b \<in> set (live (db_bills (w_db w))). t_off (b_PeriodEnd b) = 0"
  shows "\<exists>args bs. l_Status l = StatusActive \<and> l_DepositStatus l = DepositStatusHeld
     \<and> (\<forall>b \<in> set (bills_of (l_ID l) (w_db w)).
          t_day (b_PeriodEnd b) < t_day (rli_EffectiveStartDate input) \<longrightarrow> b_Status b = StatusPaid)
     \<and> rlr_OldLease r = replaced_lease E args l
     \<and> l_Status (rlr_OldLease r) = StatusTerminated
     \<and> t_day (l_EndDate (rlr_OldLease r)) + 1 = t_day (l_StartDate (rlr_NewLease r))
     \<and> t_day (l_StartDate (rlr_NewLease r)) = t_day (rli_EffectiveStartDate input)
     \<and> t_day (l_EndDate (rlr_NewLease r)) = t_day (rli_NewEndDate input)
     \<and> live (db_leases (w_db w')) =
         map (\<lambda>k. if l_ID k = l_ID l then replaced_lease E args k else k) (live (db_leases (w_db w)))
         @ [rlr_NewLease r]
     \<and> l_Status (rlr_NewLease r) = StatusActive
     \<and> l_DepositStatus (rlr_NewLease r) = DepositStatusHeld
     \<and> l_DepositAmount (rlr_NewLease r) = l_DepositAmount l
     \<and> l_TenantID (rlr_NewLease r) = l_TenantID l \<and> l_RoomID (rlr_NewLease r) = l_RoomID l
     \<and> l_PropertyID (rlr_NewLease r) = l_PropertyID l
     \<and> l_RentAmount (rlr_NewLease r) = rli_NewRentAmount input
     \<and> live (db_bills (w_db w')) = live (db_bills (void_overlapping E (l_ID l)
          (rli_EffectiveStartDate input) (w_db w))) @ bs
     \<and> (\<forall>b \<in> set bs. bill_wf b \<and> b_LeaseID b = l_ID (rlr_NewLease r)
          \<and> (is_rent b \<longrightarrow> b_Amount b = Some (l_RentAmount (rlr_NewLease r))))
     \<and> tiles (t_day (l_StartDate (rlr_NewLease r))) (t_day (l_EndDate (rlr_NewLease r)))
          (map bill_days (filter is_rent bs))
     \<and> tiles (t_day (l_StartDate (rlr_NewLease r))) (t_day (l_EndDate (rlr_NewLease r)))
          (map bill_days (filter (\<lambda>b. \<not> is_rent b) bs))
     \<and> db_entries (w_db w') = db_entries (w_db w)
     \<and> (\<forall>m \<in> set (live (db_rooms (w_db w'))). rm_ID m = l_RoomID l \<longrightarrow> rm_Status m = ''occupied'')
     \<and> (\<forall>t \<in> set (live (db_tenants (w_db w'))). tn_ID t = l_TenantID l \<longrightarrow> tn_Status t \<noteq> ''inactive'')"
proof -
  obtain args v0 v where x: "ra_LeaseID args = trim (rli_LeaseID input)"
    "ra_EffectiveStart args = day_at (t_day (rli_EffectiveStartDate input)) 0"
    "ra_NewEndDate args = day_at (t_day (rli_NewEndDate input)) 0"
    "w_db v0 = w_db w" "w_events v0 = []" "ReplaceLease_body E input args v0 = (Inr r, v)"
    "w_db w' = events_effect E (w_events v) (w_db v)"
    using ReplaceLease_Execute_ok [OF run] zone(1,2) by auto
  let ?start = "ra_EffectiveStart args" and ?new = "rlr_NewLease r"
  let ?fin = "terminated_lease (add_date ?start 0 0 (- 1)) None (''lease replacement: '' @ ra_Reason args) None"
  obtain bills state rp ep n m where y: "lease_by_id (ra_LeaseID args) (w_db w) = Some l"
     "l_Status l = StatusActive" "l_DepositStatus l = DepositStatusHeld"
     "bills = map bill_view (sort_key (\<lambda>b. (t_day (b_PeriodStart b), b_Type b, b_ID b))
            (bills_of (ra_LeaseID args) (w_db w)))"
     "unsettledBeforeBoundary bills ?start = []"
     "lease_New (successor_state input args l) = Inr state"
     "rlr_OldLease r = replaced_lease E args l"
     "?new = new_lease E m (lease_params state 0 (rli_NewNotes input))"
     "BuildRentBillingPeriods (ls_StartDate state) (ls_EndDate state)
         (ls_RentBillingCadence state) = Inr rp"
     "BuildBillingPeriods (ls_StartDate state) (ls_EndDate state)
         (ls_ElectricityBillingCadence state) = Inr ep"
     "w_db v = add_bills (created_bills E n (buildBillSeeds ?new rp ep))
         (add_lease ?new (void_overlapping E (ra_LeaseID args) ?start
           (with_lease E (ra_LeaseID args) ?fin (w_db w))))"
     "w_events v = replacement_events E args l (rlr_OldLease r) ?new"
    using ReplaceLease_body_ok [OF x(6)] x(1,4,5) l(1) by auto
  note st = successor_fields [OF y(6,8) l(2)]
  have id: "ra_LeaseID args = l_ID l" using lease_by_id_Some [OF y(1)] by simp
  have old: "l_RoomID (rlr_OldLease r) = l_RoomID l" "l_TenantID (rlr_OldLease r) = l_TenantID l"
    "l_Status (rlr_OldLease r) = StatusTerminated"
    "t_day (l_EndDate (rlr_OldLease r)) = t_day (rli_EffectiveStartDate input) - 1"
    by (simp_all add: y(7) replaced_lease_def touched_def terminated_lease_def lease_consts x(2))
  define bs where "bs = created_bills E n (buildBillSeeds ?new rp ep)"
  note bills = seeded_schedule [OF y(9,10) _ _ _ bs_def, unfolded st(1,2) x(2,3), simplified]
  have w': "w_db w' = activate_tenant E (l_TenantID l) (set_room_status E (l_RoomID l) ''occupied''
      (released E (l_RoomID l) (l_TenantID l) (w_db v)))"
    by (simp add: x(7) y(12) replacement_events_def events_effect_def released_def old st)
  have paid: "\<forall>b \<in> set (bills_of (l_ID l) (w_db w)).
      t_day (b_PeriodEnd b) < t_day (rli_EffectiveStartDate input) \<longrightarrow> b_Status b = StatusPaid"
    using settled_before_boundary [OF y(5) [unfolded y(4) x(2)]] zone(3)
    by (auto simp: id bills_of_def)
  moreover have "live (db_leases (w_db w')) =
      map (\<lambda>k. if l_ID k = l_ID l then replaced_lease E args k else k) (live (db_leases (w_db w)))
      @ [?new]"
    by (simp add: w' y(11) id replaced_lease_def)
  moreover have "live (db_bills (w_db w')) = live (db_bills (void_overlapping E (l_ID l)
      (rli_EffectiveStartDate input) (w_db w))) @ bs"
    by (simp add: w' y(11) id bs_def x(2) void_overlapping_def)
  moreover have "db_entries (w_db w') = db_entries (w_db w)"
    by (simp add: w' y(11))
  moreover have "\<forall>m \<in> set (live (db_rooms (w_db w'))). rm_ID m = l_RoomID l \<longrightarrow> rm_Status m = ''occupied''"
    by (auto simp: w' set_room_status_def)
  moreover have "\<forall>t \<in> set (live (db_tenants (w_db w'))). tn_ID t = l_TenantID l \<longrightarrow> tn_Status t \<noteq> ''inactive''"
    by (auto simp: w' activate_tenant_def)
  moreover have "t_day (l_StartDate ?new) = t_day (rli_EffectiveStartDate input)"
    "t_day (l_EndDate ?new) = t_day (rli_NewEndDate input)"
    "t_day (l_EndDate (rlr_OldLease r)) + 1 = t_day (rli_EffectiveStartDate input)"
    using st(3,4) x(2,3) old(4) by simp_all
  ultimately show ?thesis
    using y(2,3,7) bills st(5-8,10-12) old(3)
    by (intro exI [of _ args] exI [of _ bs]) (simp only: simp_thms)
qed

text \<open>
  C10.  Replacing a lease hands the room over without a gap.  A successful
  \<open>ReplaceLease\<close> found an active lease with a held deposit all of whose bills
  that end before the effective date are paid.  Afterwards the old lease is
  terminated on the day before the effective date; its pending bills from the
  boundary on are voided and every other bill is as before; the successor is
  the one new lease, active, for the same tenant and room and with the same
  held deposit; the new bills are its own and tile its term; nothing is booked
  in the ledger; and although the subscribers first see the end of the old
  lease, the room ends up occupied and the tenant not inactive.
\<close>

theorem ReplaceLease_hands_over:
  assumes run: "ReplaceLease_Execute E (server_publish E) input w = (Inr r, w')"
    and l: "lease_by_id (trim (rli_LeaseID input)) (w_db w) = Some l" "trimmed_ids l"
    and zone: "t_off (rli_EffectiveStartDate input) = 0" "t_off (rli_NewEndDate input) = 0"
      "\<forall>b \<in> set (live (db_bills (w_db w))). t_off (b_PeriodEnd b) = 0"
  shows "\<exists>args bs. l_Status l = StatusActive \<and> l_DepositStatus l = DepositStatusHeld
     \<and> (\<forall>b \<in> set (bills_of (l_ID l) (w_db w)).
          t_day (b_PeriodEnd b) < t_day (rli_EffectiveStartDate input) \<longrightarrow> b_Status b = StatusPaid)
     \<and> rlr_OldLease r = replaced_lease E args l
     \<and> l_Status (rlr_OldLease r) = StatusTerminated
     \<and> t_day (l_EndDate (rlr_OldLease r)) + 1 = t_day (l_StartDate (rlr_NewLease r))
     \<and> t_day (l_StartDate (rlr_NewLease r)) = t_day (rli_EffectiveStartDate input)
     \<and> t_day (l_EndDate (rlr_NewLease r)) = t_day (rli_NewEndDate input)
     \<and> live (db_leases (w_db w')) =
         map (\<lambda>k. if l_ID k = l_ID l then replaced_lease E args k else k) (live (db_leases (w_db w)))
         @ [rlr_NewLease r]
     \<and> l_Status (rlr_NewLease r) = StatusActive
     \<and> l_DepositStatus (rlr_NewLease r) = DepositStatusHeld
     \<and> l_DepositAmount (rlr_NewLease r) = l_DepositAmount l
     \<and> l_TenantID (rlr_NewLease r) = l_TenantID l \<and> l_RoomID (rlr_NewLease r) = l_RoomID l
     \<and> l_PropertyID (rlr_NewLease r) = l_PropertyID l
     \<and> l_RentAmount (rlr_NewLease r) = rli_NewRentAmount input
     \<and> live (db_bills (w_db w')) = live (db_bills (void_overlapping E (l_ID l)
          (rli_EffectiveStartDate input) (w_db w))) @ bs
     \<and> (\<forall>b \<in> set bs. bill_wf b \<and> b_LeaseID b = l_ID (rlr_NewLease r)
          \<and> (is_rent b \<longrightarrow> b_Amount b = Some (l_RentAmount (rlr_NewLease r))))
     \<and> tiles (t_day (l_StartDate (rlr_NewLease r))) (t_day (l_EndDate (rlr_NewLease r)))
          (map bill_days (filter is_rent bs))
     \<and> tiles (t_day (l_StartDate (rlr_NewLease r))) (t_day (l_EndDate (rlr_NewLease r)))
          (map bill_days (filter (\<lambda>b. \<not> is_rent b) bs))
     \<and> db_entries (w_db w') = db_entries (w_db w)
     \<and> (\<forall>m \<in> set (live (db_rooms (w_db w'))). rm_ID m = l_RoomID l \<longrightarrow> rm_Status m = ''occupied'')
     \<and> (\<forall>t \<in> set (live (db_tenants (w_db w'))). tn_ID t = l_TenantID l \<longrightarrow> tn_Status t \<noteq> ''inactive'')"
  by (rule replacement_effect [OF assms])

section \<open>A bill that blocks the replacement\<close>

text \<open>A transaction whose body cannot succeed on this database changes nothing.\<close>

lemma WithinTransaction_fails:
  assumes "\<And>v x u. w_db v = w_db w \<Longrightarrow> fn v \<noteq> (Inr x, u)"
  shows "\<exists>e u. WithinTransaction publish fn w = (Inl e, u) \<and> w_db u = w_db w"
proof (cases "next_fault w")
  case False
  obtain e v where "fn ((tick w)\<lparr>w_events := []\<rparr>) = (Inl e, v)"
    using assms [of "(tick w)\<lparr>w_events := []\<rparr>"]
    by (metis old.sum.exhaust surj_pair tick_simps(1) world.select_convs(1) world.surjective
        world.update_convs(4))
  then show ?thesis using False by (simp add: WithinTransaction_def)
qed (simp add: WithinTransaction_def)

text \<open>
  C11.  A bill that ended before the effective date and is not paid blocks the
  replacement of the lease: the command fails and leaves the database as it
  was.  That includes a \<^emph>\<open>voided\<close> or written-off bill, and every rent change
  leaves voided bills behind (\<open>UpdateLease\<close> voids the future rent bills and
  creates new ones), so a lease whose rent was changed can never be replaced
  once the voided periods are over.
\<close>

theorem unpaid_past_bill_blocks_replacement:
  assumes b: "b \<in> set (bills_of (trim (rli_LeaseID input)) (w_db w))" "b_Status b \<noteq> StatusPaid"
      "t_day (b_PeriodEnd b) < t_day (rli_EffectiveStartDate input)"
    and zone: "t_off (rli_EffectiveStartDate input) = 0" "t_off (b_PeriodEnd b) = 0"
  shows "\<exists>e w'. ReplaceLease_Execute E publish input w = (Inl e, w') \<and> w_db w' = w_db w"
proof (cases "ReplaceLease_validate E input")
  case (Inl e)
  then show ?thesis by (simp add: ReplaceLease_Execute_def tx_bind_def tx_lift_def tx_throw_def)
next
  case (Inr args)
  have a: "ra_LeaseID args = trim (rli_LeaseID input)"
    "ra_EffectiveStart args = day_at (t_day (rli_EffectiveStartDate input)) 0"
    using Inr zone(1) by (auto simp: ReplaceLease_validate_def Let_def split: if_splits)
  have no: "ReplaceLease_body E input args v \<noteq> (Inr x, u)" if "w_db v = w_db w" for v x u
  proof
    assume "ReplaceLease_body E input args v = (Inr x, u)"
    then obtain bills where "bills = map bill_view (sort_key
        (\<lambda>b. (t_day (b_PeriodStart b), b_Type b, b_ID b)) (bills_of (ra_LeaseID args) (w_db v)))"
      "unsettledBeforeBoundary bills (ra_EffectiveStart args) = []"
      using ReplaceLease_body_ok by blast
    then have "unsettledBeforeBoundary (map bill_view (sort_key
        (\<lambda>b. (t_day (b_PeriodStart b), b_Type b, b_ID b)) (bills_of (trim (rli_LeaseID input)) (w_db w))))
        (day_at (t_day (rli_EffectiveStartDate input)) 0) = []"
      using that unfolding a by simp
    from settled_before_boundary [OF this b(1) zone(2) b(3)] show False using b(2) by simp
  qed
  obtain e u where "WithinTransaction publish (ReplaceLease_body E input args) w = (Inl e, u)"
    "w_db u = w_db w"
    using WithinTransaction_fails [where fn = "ReplaceLease_body E input args", OF no] by blast
  then show ?thesis using Inr
    by (simp add: ReplaceLease_Execute_def tx_bind_def tx_lift_def tx_return_def)
qed

section \<open>A replacement goes through\<close>

lemma schedules_build:
  assumes "lease_New s = Inr state"
  shows "\<exists>rp. BuildRentBillingPeriods (ls_StartDate state) (ls_EndDate state)
           (ls_RentBillingCadence state) = Inr rp"
    and "\<exists>ep. BuildBillingPeriods (ls_StartDate state) (ls_EndDate state)
           (ls_ElectricityBillingCadence state) = Inr ep"
proof -
  have n: "\<not> time_after (ls_StartDate state) (ls_EndDate state)"
    "isValidRentCadence (ls_RentBillingCadence state)"
    "isValidElectricityCadence (ls_ElectricityBillingCadence state)"
    using assms by (auto simp: lease_New_def normalizeState_def Let_def
        split: if_splits)
  show "\<exists>rp. BuildRentBillingPeriods (ls_StartDate state) (ls_EndDate state)
           (ls_RentBillingCadence state) = Inr rp"
    unfolding BuildRentBillingPeriods_def BuildRentBillingPeriodsFromAnchor_def
    using n(1,2) day_range [of "ls_StartDate state"]
    by (auto simp: rentCadenceMonths_def isValidRentCadence_def)
  show "\<exists>ep. BuildBillingPeriods (ls_StartDate state) (ls_EndDate state)
           (ls_ElectricityBillingCadence state) = Inr ep"
    unfolding BuildBillingPeriods_def Let_def
    using n(1,3) by (auto simp: isValidElectricityCadence_def)
qed

text \<open>When a replacement should go through, in terms of the calendar and the rows.
  A bill covers a whole period of its kind when the next period would start on the
  day after it: a rent bill, on the anchor day (or the last day) of the month one
  cadence later; an electricity bill, on the anchor day of the next month, or on
  the first of the next odd month when electricity is billed bimonthly.\<close>

definition cadence_months :: "string \<Rightarrow> int" where
  "cadence_months c = (if c = ''annual'' then 12 else if c = ''semiannual'' then 6
     else if c = ''quarterly'' then 3 else 1)"

definition whole_period :: "lease \<Rightarrow> bill \<Rightarrow> bool" where
  "whole_period l b \<longleftrightarrow>
     (let k = midx (t_day (b_PeriodStart b)); anchor = time_dayOfMonth (l_StartDate l)
      in t_day (b_PeriodEnd b) + 1 =
        (if b_Type b = ''rent'' then anchored_day anchor (k + cadence_months (l_RentBillingCadence l))
         else if l_ElectricityBillingCadence l = ''monthly'' then anchored_day anchor (k + 1)
         else mfirst (2 * (k div 2) + 2)))"

text \<open>The eve of day \<open>e\<close> closes a rent bill and an electricity bill, and every bill it
  closes is a whole period.\<close>

definition at_boundary :: "lease \<Rightarrow> bill list \<Rightarrow> int \<Rightarrow> bool" where
  "at_boundary l bs e \<longleftrightarrow>
     (\<exists>b \<in> set bs. b_Type b = ''rent'' \<and> t_day (b_PeriodEnd b) + 1 = e)
   \<and> (\<exists>b \<in> set bs. b_Type b = ''electricity'' \<and> t_day (b_PeriodEnd b) + 1 = e)
   \<and> (\<forall>b \<in> set bs. t_day (b_PeriodEnd b) + 1 = e \<longrightarrow> whole_period l b)"

definition proper_request :: "env \<Rightarrow> replace_lease_input \<Rightarrow> lease \<Rightarrow> bool" where
  "proper_request E input l \<longleftrightarrow>
     trim (rli_LeaseID input) \<notin> {'''', zeroUUID} \<and> e_uuid_ok E (trim (rli_LeaseID input))
   \<and> (to_lower (trim (rli_ActorRole input)) = ''admin''
      \<or> to_lower (trim (rli_ActorRole input)) \<in> {''organizer'', ''staff''}
        \<and> (\<exists>p \<in> set (rli_AssignedPropertyIDs input). trim p = l_PropertyID l))
   \<and> trim (rli_DepositHandling input) = ''carry_over''
   \<and> trim (rli_Reason input) \<in> {''cadence_change'', ''renewal'', ''contract_reissue'', ''other_exception''}
   \<and> trim (rli_NewRentBillingCadence input) \<in> {''monthly'', ''quarterly'', ''semiannual'', ''annual''}
   \<and> trim (rli_NewCadence input) \<in> {''monthly'', ''bimonthly''} \<and> 0 < rli_NewRentAmount input
   \<and> \<not> is_zero_time (rli_EffectiveStartDate input) \<and> \<not> is_zero_time (rli_NewEndDate input)
   \<and> t_off (rli_EffectiveStartDate input) = 0 \<and> t_off (rli_NewEndDate input) = 0
   \<and> t_day (rli_EffectiveStartDate input) \<le> t_day (rli_NewEndDate input)"

definition replaceable :: "replace_lease_input \<Rightarrow> db \<Rightarrow> lease \<Rightarrow> bool" where
  "replaceable input d l \<longleftrightarrow>
     lease_by_id (trim (rli_LeaseID input)) d = Some l \<and> trimmed_ids l
   \<and> l_Status l = ''active'' \<and> l_DepositStatus l = ''held'' \<and> 0 \<le> l_DepositAmount l
   \<and> l_RentBillingCadence l \<in> {''monthly'', ''quarterly'', ''semiannual'', ''annual''}
   \<and> l_ElectricityBillingCadence l \<in> {''monthly'', ''bimonthly''}
   \<and> t_off (l_StartDate l) = 0 \<and> t_day (l_StartDate l) < t_day (rli_EffectiveStartDate input)
   \<and> (\<exists>t \<in> set (live (db_tenants d)). tn_ID t = l_TenantID l)
   \<and> (\<exists>m \<in> set (live (db_rooms d)). rm_ID m = l_RoomID l)
   \<and> (\<forall>m \<in> set (live (db_rooms d)). rm_ID m = l_RoomID l \<longrightarrow> rm_PropertyID m = l_PropertyID l)
   \<and> (\<exists>p \<in> set (live (db_properties d)). pr_ID p = l_PropertyID l)
   \<and> (\<forall>b \<in> set (live (db_bills d)). t_off (b_PeriodStart b) = 0 \<and> t_off (b_PeriodEnd b) = 0
        \<and> b_Type b \<in> {''rent'', ''electricity''})
   \<and> (\<forall>b \<in> set (bills_of (l_ID l) d).
        t_day (b_PeriodEnd b) < t_day (rli_EffectiveStartDate input) \<longrightarrow> b_Status b = ''paid'')
   \<and> at_boundary l (bills_of (l_ID l) d) (t_day (rli_EffectiveStartDate input))"

text \<open>The code's check of one bill is \<open>whole_period\<close>: two years are enough for a whole
  first period of any cadence.\<close>

lemma two_years: "n \<le> 12 \<Longrightarrow> 1 \<le> a \<Longrightarrow> anchored_day a (midx (t_day t) + n) \<le> t_day (add_date t 2 0 0)"
proof -
  assume n: "n \<le> 12" "1 \<le> a"
  let ?k = "midx (t_day t)"
  have "anchored_day a (?k + n) < mfirst (?k + n + 1)" by (rule anchored_day_bounds(2) [OF n(2)])
  also have "\<dots> \<le> mfirst (?k + 24)" using n(1) by (intro cal.first_mono) simp
  also have "\<dots> \<le> t_day (add_date t 2 0 0)"
    unfolding add_date_code Let_def using cal.month_of_le [of "t_day t"] by simp
  finally show ?thesis by simp
qed

lemma first_interval:
  assumes "schedule nxt" "s < nxt s" "nxt s \<le> e"
  shows "\<exists>ps. intervals nxt s e = (s, nxt s - 1) # ps"
  using assms schedule.step [OF assms(1), of s e] by auto

lemma complete_iff_whole:
  assumes "l_RentBillingCadence l \<in> {''monthly'', ''quarterly'', ''semiannual'', ''annual''}"
    "l_ElectricityBillingCadence l \<in> {''monthly'', ''bimonthly''}"
    and b: "t_off (b_PeriodStart b) = 0" "t_off (b_PeriodEnd b) = 0" "b_Type b \<in> {''rent'', ''electricity''}"
  shows "isCompleteBoundaryBill l (bill_view b) \<longleftrightarrow> whole_period l b"
proof -
  let ?t = "b_PeriodStart b" and ?a = "time_dayOfMonth (l_StartDate l)"
  let ?u = "add_date ?t 2 0 0" and ?s = "t_day (b_PeriodStart b)"
  have u: "t_off ?u = 0" "t_ns ?u = t_ns ?t" by (simp_all add: add_date_def go_date_at_def b(1))
  have s: "?s < t_day ?u" using two_years [of 0 "time_dayOfMonth ?t" ?t] two_years [of 1 1 ?t]
      anchored_day_later [of 1 1 ?s] by simp
  then have after: "\<not> time_after ?t ?u" by (subst time_after_same_off) (simp_all add: u b(1))
  have a: "1 \<le> ?a" "?a \<le> 31" by (rule day_range)+
  have head: "(case map f (intervals nxt ?s (t_day ?u)) of [] \<Rightarrow> False
        | p # _ \<Rightarrow> time_equal (normalizeDate (PeriodEnd p)) (normalizeDate (b_PeriodEnd b)))
      \<longleftrightarrow> t_day (b_PeriodEnd b) + 1 = nxt ?s"
    if "schedule nxt" "nxt ?s \<le> t_day ?u" "\<And>p. PeriodEnd (f p) = day_at (snd p) 0" for nxt f
  proof -
    note h = that
    have "?s < nxt ?s" using h(1) by (simp add: schedule_def)
    then obtain ps where "intervals nxt ?s (t_day ?u) = (?s, nxt ?s - 1) # ps"
      using first_interval [OF h(1) _ h(2)] by blast
    then show ?thesis using h(3) b(2) by (auto simp: time_equal_def instant_def day_at_def)
  qed
  have months: "rentCadenceMonths (l_RentBillingCadence l) = cadence_months (l_RentBillingCadence l)"
    "0 < cadence_months (l_RentBillingCadence l)" "cadence_months (l_RentBillingCadence l) \<le> 12"
    "isValidRentCadence (l_RentBillingCadence l)"
    using assms(1) by (auto simp: rentCadenceMonths_def cadence_months_def isValidRentCadence_def lease_consts)
  have step: "rent_next n ?a ?s = anchored_day ?a (midx ?s + n)" if "0 < n" for n
    using that a(1) by (simp add: rent_next_def max_def)
  have ends: "PeriodEnd (rent_period 0 p) = day_at (snd p) 0"
    "PeriodEnd (electricity_period 0 x p) = day_at (snd p) 0" for p x
    by (simp_all add: rent_period_def electricity_period_def)
  have view: "bill_PeriodStart (bill_view b) = ?t" "bill_PeriodEnd (bill_view b) = b_PeriodEnd b"
    "bill_Type (bill_view b) = b_Type b" by (simp_all add: bill_view_def)
  consider (rent) "b_Type b = ''rent''" | (monthly) "b_Type b = ''electricity''" "l_ElectricityBillingCadence l = ''monthly''"
    | (bimonthly) "b_Type b = ''electricity''" "l_ElectricityBillingCadence l = ''bimonthly''"
    using b(3) assms(2) by auto
  then show ?thesis
  proof cases
    case rent
    let ?n = "cadence_months (l_RentBillingCadence l)"
    have "BuildRentBillingPeriodsFromAnchor ?t ?u (l_RentBillingCadence l) ?a
        = Inr (map (rent_period 0) (intervals (rent_next ?n ?a) ?s (t_day ?u)))"
      by (subst rent_periods_iff) (simp_all add: u b(1) after a months)
    moreover have "rent_next ?n ?a ?s \<le> t_day ?u"
      using two_years [OF months(3) a(1), of ?t] by (simp add: step months(2))
    ultimately show ?thesis using rent unfolding isCompleteBoundaryBill_def view Let_def
      by (simp del: normalizeDate_day_at add: bill_consts head [OF rent.schedule_axioms _ ends(1)]
          whole_period_def Let_def step months(2))
  next
    case monthly
    have "BuildMonthlyBillingPeriodsFromAnchor ?t ?u ?a
        = Inr (map (electricity_period 0 ?a) (intervals (rent_next 1 ?a) ?s (t_day ?u)))"
      using a by (simp add: BuildMonthlyBillingPeriodsFromAnchor_def after buildMonthlyPeriods_def monthly_loop_eq u b(1))
    moreover have "rent_next 1 ?a ?s \<le> t_day ?u"
      using two_years [OF _ a(1), of 1 ?t] by (simp add: step)
    ultimately show ?thesis using monthly unfolding isCompleteBoundaryBill_def view Let_def
      by (simp del: normalizeDate_day_at add: bill_consts lease_consts
          head [OF rent.schedule_axioms _ ends(2)] whole_period_def Let_def step)
  next
    case bimonthly
    have "BuildBillingPeriods ?t ?u ''bimonthly''
        = Inr (map (electricity_period 0 (time_dayOfMonth ?t)) (intervals window_next ?s (t_day ?u)))"
      by (subst electricity_periods_iff) (simp_all add: u b(1) after isValidElectricityCadence_def lease_consts)
    moreover have "window_next ?s \<le> t_day ?u"
    proof -
      have "window_next ?s \<le> mfirst (midx ?s + 2)"
        unfolding window_next_def using next_window_later(2) [of "midx ?s"] by (intro cal.first_mono)
      also have "\<dots> \<le> anchored_day 1 (midx ?s + 2)" by (rule anchored_day_bounds(1)) simp
      finally show ?thesis using two_years [of 2 1 ?t] by simp
    qed
    ultimately show ?thesis using bimonthly unfolding isCompleteBoundaryBill_def view Let_def
      by (simp del: normalizeDate_day_at add: bill_consts lease_consts
          head [OF window.schedule_axioms _ ends(2)] whole_period_def Let_def window_next_def next_window_def)
  qed
qed

text \<open>When every bill that ends on the eve is a whole period, the order of the bills
  does not matter.\<close>

lemma boundary_loop_whole:
  assumes "\<forall>b \<in> set bs. ends_before e b \<longrightarrow> isCompleteBoundaryBill l b"
  shows "boundary_loop l e bs r x \<longleftrightarrow>
     (r \<or> (\<exists>b \<in> set bs. ends_before e b \<and> bill_Type b = TypeRent))
   \<and> (x \<or> (\<exists>b \<in> set bs. ends_before e b \<and> bill_Type b = TypeElectricity))"
  using assms by (induction bs arbitrary: r x) (auto simp: bill_consts)

lemma boundary_accepted:
  assumes "replaceable input d l"
  defines "bills \<equiv> map bill_view (sort_key (\<lambda>b. (t_day (b_PeriodStart b), b_Type b, b_ID b)) (bills_of (l_ID l) d))"
    and "e \<equiv> day_at (t_day (rli_EffectiveStartDate input)) 0"
  shows "isReplacementBoundary l bills e" "unsettledBeforeBoundary bills e = []"
proof -
  note r = assms(1) [unfolded replaceable_def]
  have mine: "b \<in> set (live (db_bills d))" if "b \<in> set (bills_of (l_ID l) d)" for b
    using that by (simp add: bills_of_def)
  have eve: "ends_before e (bill_view b) \<longleftrightarrow> t_day (b_PeriodEnd b) + 1 = t_day (rli_EffectiveStartDate input)"
    if "b \<in> set (bills_of (l_ID l) d)" for b
    using r mine [OF that] by (auto simp: ends_before_def e_def bill_view_def time_equal_def instant_def day_at_def)
  have whole: "isCompleteBoundaryBill l (bill_view b)"
    if "b \<in> set (bills_of (l_ID l) d)" "ends_before e (bill_view b)" for b
    using r mine [OF that(1)] complete_iff_whole [of l b] eve [OF that(1)] that by (auto simp: at_boundary_def)
  have "(\<exists>b \<in> set bills. ends_before e b \<and> bill_Type b = ty)" if "ty \<in> {''rent'', ''electricity''}" for ty
  proof -
    note ty = that
    obtain b where b: "b \<in> set (bills_of (l_ID l) d)" "b_Type b = ty"
      "t_day (b_PeriodEnd b) + 1 = t_day (rli_EffectiveStartDate input)"
      using r ty unfolding at_boundary_def by blast
    then have "bill_view b \<in> set bills" by (simp add: bills_def)
    moreover have "bill_Type (bill_view b) = ty" by (simp add: bill_view_def b(2))
    ultimately show ?thesis using eve [OF b(1)] b(3) by blast
  qed
  then show "isReplacementBoundary l bills e"
    unfolding isReplacementBoundary_def
    by (subst boundary_loop_whole) (use whole in \<open>auto simp: bills_def bill_consts\<close>)
  show "unsettledBeforeBoundary bills e = []"
    using r mine by (auto simp: unsettledBeforeBoundary_def filter_empty_conv bills_def bill_view_def e_def bill_consts)
qed

lemma proper_request_validated:
  assumes "proper_request E input l"
  obtains args where "ReplaceLease_validate E input = Inr args" "ra_LeaseID args = trim (rli_LeaseID input)"
    "ra_EffectiveStart args = day_at (t_day (rli_EffectiveStartDate input)) 0"
    "ra_NewEndDate args = day_at (t_day (rli_NewEndDate input)) 0"
    "ra_RentCadence args = trim (rli_NewRentBillingCadence input)"
    "ra_ElectricityCadence args = trim (rli_NewCadence input)"
    "in_scope (ra_ActorRole args) [''organizer'', ''staff''] (rli_AssignedPropertyIDs input) (l_PropertyID l)"
proof -
  let ?args = "\<lparr>ra_LeaseID = trim (rli_LeaseID input), ra_ActorRole = actor_role (rli_ActorRole input),
      ra_Reason = trim (rli_Reason input), ra_RentCadence = trim (rli_NewRentBillingCadence input),
      ra_ElectricityCadence = trim (rli_NewCadence input),
      ra_EffectiveStart = day_at (t_day (rli_EffectiveStartDate input)) 0,
      ra_NewEndDate = day_at (t_day (rli_NewEndDate input)) 0\<rparr>"
  note q = assms [unfolded proper_request_def]
  have role: "actor_role (rli_ActorRole input) \<in> {''admin'', ''organizer'', ''staff''}"
    "in_scope (actor_role (rli_ActorRole input)) [''organizer'', ''staff''] (rli_AssignedPropertyIDs input)
       (l_PropertyID l)"
    using q by (auto simp: actor_role_def in_scope_def containsAssignedProperty_def)
  have "trim (rli_NewRentBillingCadence input) \<noteq> ''''" using q by auto
  then have "ReplaceLease_validate E input = Inr ?args"
    using q role(1) by (simp add: ReplaceLease_validate_def Let_def replacementDepositCarryOver_def)
  then show ?thesis using that role(2) by simp
qed

lemma find_exists: "\<exists>x \<in> set xs. P x \<Longrightarrow> \<exists>x. find P xs = Some x"
  by (induction xs) auto

lemma successor_accepted:
  assumes "proper_request E input l" "replaceable input d l"
    and "ra_EffectiveStart args = day_at (t_day (rli_EffectiveStartDate input)) 0"
    and "ra_NewEndDate args = day_at (t_day (rli_NewEndDate input)) 0"
    and "ra_RentCadence args = trim (rli_NewRentBillingCadence input)"
    and "ra_ElectricityCadence args = trim (rli_NewCadence input)"
  shows "\<exists>state. lease_New (successor_state input args l) = Inr state"
proof -
  note q = assms(1) [unfolded proper_request_def] and r = assms(2) [unfolded replaceable_def]
  have c: "isValidRentCadence (trim (rli_NewRentBillingCadence input))"
    "isValidElectricityCadence (trim (rli_NewCadence input))"
    using q by (auto simp: isValidRentCadence_def isValidElectricityCadence_def lease_consts)
  then have "trim (trim (rli_NewRentBillingCadence input)) = trim (rli_NewRentBillingCadence input)"
    "trim (trim (rli_NewCadence input)) = trim (rli_NewCadence input)"
    "trim (rli_NewRentBillingCadence input) \<noteq> ''''"
    using rent_cadence_ne by simp_all
  moreover have "\<not> time_after (day_at (t_day (rli_EffectiveStartDate input)) 0) (day_at (t_day (rli_NewEndDate input)) 0)"
    using q by simp
  ultimately show ?thesis using q r c
    by (simp add: lease_New_def normalizeState_def successor_state_def Let_def assms(3-6))
qed

lemma room_found:
  assumes "replaceable input d l"
  shows "\<exists>room. room_lookup (l_RoomID l) d = Some room \<and> room_PropertyID room = l_PropertyID l"
proof -
  note r = assms [unfolded replaceable_def]
  obtain m where m: "find (\<lambda>m. rm_ID m = l_RoomID l) (live (db_rooms d)) = Some m"
    using r find_exists [of "live (db_rooms d)" "\<lambda>m. rm_ID m = l_RoomID l"] by blast
  then have "m \<in> set (live (db_rooms d))" "rm_ID m = l_RoomID l" by (auto simp: find_Some_iff)
  then have p: "rm_PropertyID m = l_PropertyID l" using r by blast
  obtain x where "find (\<lambda>x. pr_ID x = l_PropertyID l) (live (db_properties d)) = Some x"
    using r find_exists [of "live (db_properties d)" "\<lambda>x. pr_ID x = l_PropertyID l"] by blast
  then show ?thesis using m p by (simp add: room_lookup_def)
qed

lemma ReplaceLease_body_runs:
  assumes "calm w" "proper_request E input l" "replaceable input (w_db w) l"
    and args: "ra_LeaseID args = trim (rli_LeaseID input)"
      "ra_EffectiveStart args = day_at (t_day (rli_EffectiveStartDate input)) 0"
      "ra_NewEndDate args = day_at (t_day (rli_NewEndDate input)) 0"
      "ra_RentCadence args = trim (rli_NewRentBillingCadence input)"
      "ra_ElectricityCadence args = trim (rli_NewCadence input)"
      "in_scope (ra_ActorRole args) [''organizer'', ''staff''] (rli_AssignedPropertyIDs input) (l_PropertyID l)"
  shows "wp (ReplaceLease_body E input args) (\<lambda>_. calm) w"
proof -
  note r = assms(3) [unfolded replaceable_def]
  obtain t where t: "find (\<lambda>t. tn_ID t = l_TenantID l) (live (db_tenants (w_db w))) = Some t"
    using r find_exists [of "live (db_tenants (w_db w))" "\<lambda>t. tn_ID t = l_TenantID l"] by blast
  obtain room where room: "room_lookup (l_RoomID l) (w_db w) = Some room" "room_PropertyID room = l_PropertyID l"
    using room_found [OF assms(3)] by blast
  obtain state where state: "lease_New (successor_state input args l) = Inr state"
    using successor_accepted [OF assms(2,3) args(2-5)] by blast
  obtain rp ep where periods: "BuildRentBillingPeriods (ls_StartDate state) (ls_EndDate state)
      (ls_RentBillingCadence state) = Inr rp"
    "BuildBillingPeriods (ls_StartDate state) (ls_EndDate state)
      (ls_ElectricityBillingCadence state) = Inr ep"
    using schedules_build [OF state] by blast
  have l: "lease_by_id (ra_LeaseID args) (w_db w) = Some l" using r args(1) by simp
  then have id: "ra_LeaseID args = l_ID l" using lease_by_id_Some by simp
  have start: "\<not> time_before (add_date (ra_EffectiveStart args) 0 0 (- 1)) (normalizeDate (l_StartDate l))"
    using r by (simp add: args(2) time_before_def instant_def day_at_def)
  show ?thesis
    using assms(1) l r t room state periods boundary_accepted [OF assms(3)] start args(6)
    unfolding ReplaceLease_body_def a_FindLeaseByIDForUpdate_def a_FindTenantByID_def
      a_FindRoomByIDForUpdate_def a_TerminateLease_def VoidBillsOverlappingOrAfter_def Let_def
    by (simp add: wp_simps wp_CreateBills id args(2) lease_consts)
qed

lemma ReplaceLease_command_runs:
  assumes "calm w" "proper_request E input l" "replaceable input (w_db w) l"
  shows "wp (ReplaceLease_Execute E (server_publish E) input) (\<lambda>_. calm) w"
proof -
  obtain args where args: "ReplaceLease_validate E input = Inr args" "ra_LeaseID args = trim (rli_LeaseID input)"
    "ra_EffectiveStart args = day_at (t_day (rli_EffectiveStartDate input)) 0"
    "ra_NewEndDate args = day_at (t_day (rli_NewEndDate input)) 0"
    "ra_RentCadence args = trim (rli_NewRentBillingCadence input)"
    "ra_ElectricityCadence args = trim (rli_NewCadence input)"
    "in_scope (ra_ActorRole args) [''organizer'', ''staff''] (rli_AssignedPropertyIDs input) (l_PropertyID l)"
    using proper_request_validated [OF assms(2)] by blast
  show ?thesis unfolding ReplaceLease_Execute_def using assms args
    by (auto simp: wp_simps intro!: server_command_runs ReplaceLease_body_runs)
qed


section \<open>A replacement at the office\<close>

text \<open>A lease from 1 March 2023 with yearly rent and bimonthly electricity, its
  last bills before 1 March 2024 paid, is renewed for two months.\<close>

definition renewal_row :: lease where
  "renewal_row = leased_row\<lparr>l_ID := ''k'', l_StartDate := go_date 2023 3 1 0,
     l_EndDate := go_date 2024 6 30 0, l_RentBillingCadence := ''annual''\<rparr>"

definition renewal_bill :: "string \<Rightarrow> string \<Rightarrow> gtime \<Rightarrow> gtime \<Rightarrow> bill" where
  "renewal_bill k typ start until = (new_bill sample_env 1 \<lparr>cbp_LeaseID = ''k'', cbp_TenantID = ''t1'',
     cbp_RoomID = ''r1'', cbp_PropertyID = ''p1'', cbp_Type = typ, cbp_Amount = Some 500,
     cbp_PeriodStart = start, cbp_PeriodEnd = until, cbp_DueDate = start, cbp_Status = ''paid''\<rparr>)
     \<lparr>b_ID := k\<rparr>"

definition renewal_world :: world where
  "renewal_world = sample_world\<lparr>w_db := add_bills
     [renewal_bill ''b1'' ''rent'' (go_date 2023 3 1 0) (go_date 2024 2 29 0),
      renewal_bill ''b2'' ''electricity'' (go_date 2024 1 1 0) (go_date 2024 2 29 0)]
     (add_lease renewal_row sample_db), w_fresh := 9\<rparr>"

definition sample_renewal :: replace_lease_input where
  "sample_renewal = \<lparr>rli_ActorRole = ''staff'', rli_AssignedPropertyIDs = [''p1''],
     rli_LeaseID = '' k'', rli_Reason = ''renewal'', rli_EffectiveStartDate = go_date 2024 3 1 0,
     rli_DepositHandling = ''carry_over'', rli_NewEndDate = go_date 2024 4 30 0,
     rli_NewRentAmount = 13000, rli_NewRentBillingCadence = ''annual'',
     rli_NewCadence = ''bimonthly'', rli_NewNotes = None\<rparr>"

lemma renewal_proper: "proper_request sample_env sample_renewal renewal_row"
  by code_simp

lemma renewal_replaceable: "replaceable sample_renewal (w_db renewal_world) renewal_row"
  unfolding replaceable_def
proof (intro conjI)
  show "at_boundary renewal_row (bills_of (l_ID renewal_row) (w_db renewal_world))
      (t_day (rli_EffectiveStartDate sample_renewal))"
    by code_simp
qed code_simp+


lemma ReplaceLease_hands_over_witness:
  "\<exists>r w'. ReplaceLease_Execute sample_env (server_publish sample_env) sample_renewal renewal_world
       = (Inr r, w')
     \<and> l_Status (rlr_OldLease r) = StatusTerminated \<and> l_RentAmount (rlr_NewLease r) = 13000
     \<and> (\<forall>m \<in> set (live (db_rooms (w_db w'))). rm_ID m = ''r1'' \<longrightarrow> rm_Status m = ''occupied'')"
proof -
  obtain r w' where r: "ReplaceLease_Execute sample_env (server_publish sample_env) sample_renewal
      renewal_world = (Inr r, w')"
    using wp_result [OF ReplaceLease_command_runs [OF _ renewal_proper renewal_replaceable]]
    by (auto simp: calm_def renewal_world_def sample_world_def)
  have c: "lease_by_id (trim (rli_LeaseID sample_renewal)) (w_db renewal_world) = Some renewal_row"
    "trimmed_ids renewal_row" "t_off (rli_EffectiveStartDate sample_renewal) = 0"
    "t_off (rli_NewEndDate sample_renewal) = 0"
    "\<forall>b \<in> set (live (db_bills (w_db renewal_world))). t_off (b_PeriodEnd b) = 0"
    "rli_NewRentAmount sample_renewal = 13000" "l_RoomID renewal_row = ''r1''"
    by code_simp+
  show ?thesis
    using ReplaceLease_hands_over [OF r c(1-5)] r c(6,7) by auto
qed

text \<open>The same office after a rent change has voided the bill of January.\<close>

definition voided_bill :: bill where
  "voided_bill = (renewal_bill ''b3'' ''rent'' (go_date 2024 1 1 0) (go_date 2024 1 31 0))
     \<lparr>b_Status := ''voided''\<rparr>"

definition voided_world :: world where
  "voided_world = renewal_world\<lparr>w_db := add_bills [voided_bill] (w_db renewal_world)\<rparr>"

lemma unpaid_past_bill_blocks_replacement_witness:
  "\<exists>e w'. ReplaceLease_Execute sample_env (server_publish sample_env) sample_renewal voided_world
     = (Inl e, w') \<and> w_db w' = w_db voided_world"
proof (rule unpaid_past_bill_blocks_replacement)
  show "voided_bill \<in> set (bills_of (trim (rli_LeaseID sample_renewal)) (w_db voided_world))"
    by code_simp
qed code_simp+

end
