(* ===== verification/BillingRepo.thy ===== *)
theory BillingRepo
  imports LeaseDeposit Runs
begin

text \<open>
  The statements of platform/database/billing the billing commands use, the
  adapters of server/billing_adapters.go, and the texts of dates.
\<close>

section \<open>Dates as text\<close>

text \<open>\<open>Format("2006-01-02")\<close> and \<open>period_start::text\<close>: year, month and day padded
  with zeros, for the years from 0 on.\<close>

fun digits :: "nat \<Rightarrow> nat \<Rightarrow> string" where
  "digits 0 n = ''''"
| "digits (Suc k) n = digits k (n div 10) @ [char_of (48 + n mod 10)]"

definition year_digits :: "int \<Rightarrow> nat" where
  "year_digits y = (if y < 10000 then 4 else if y < 100000 then 5 else 6)"

definition format_date :: "gtime \<Rightarrow> string" where
  "format_date t = digits (year_digits (time_year t)) (nat (time_year t)) @ ''-''
     @ digits 2 (nat (time_month t)) @ ''-'' @ digits 2 (nat (time_dayOfMonth t))"

section \<open>Numbers in the database\<close>

text \<open>A \<open>NUMERIC(10,4)\<close> column holds a multiple of 1/10000.  It is read into a
  \<open>float64\<close>; a \<open>float64\<close> written to it is rounded to four decimals.\<close>

definition numeric4 :: "rat \<Rightarrow> rat" where
  "numeric4 x = of_int (floor (x * 10000 + 1 / 2)) / 10000"

definition is_numeric4 :: "rat \<Rightarrow> bool" where
  "is_numeric4 x \<longleftrightarrow> 0 \<le> x \<and> x < 1000000 \<and> (\<exists>n. x * 10000 = of_int n)"

section \<open>Bills\<close>

text \<open>A bill as the queries return it: the row, with the unit price as
  \<open>float64\<close>, and the labels they join.\<close>

record app_bill =
  ab_row :: bill
  ab_PropertyLabel :: string
  ab_RoomLabel :: string
  ab_TenantLabel :: string
  ab_PeriodLabel :: string

definition scanBill :: "db \<Rightarrow> bill \<Rightarrow> app_bill" where
  "scanBill d b =
     \<lparr>ab_row = b\<lparr>b_MeterUnitPrice := map_option fl64 (b_MeterUnitPrice b)\<rparr>,
      ab_PropertyLabel = label_of pr_ID pr_Name (all_rows (db_properties d)) (b_PropertyID b),
      ab_RoomLabel = label_of rm_ID rm_Name (all_rows (db_rooms d)) (b_RoomID b),
      ab_TenantLabel = label_of tn_ID tn_Name (all_rows (db_tenants d)) (b_TenantID b),
      ab_PeriodLabel = format_date (b_PeriodStart b) @ ''..'' @ format_date (b_PeriodEnd b)\<rparr>"

definition bill_by_id :: "string \<Rightarrow> db \<Rightarrow> bill option" where
  "bill_by_id billID d = find (\<lambda>b. b_ID b = billID) (live (db_bills d))"

definition GetBillForUpdate :: "string \<Rightarrow> app_bill tx" where
  "GetBillForUpdate billID =
     tx_bind (stmt ''get bill for update'' (\<lambda>_ d. (map_option (scanBill d) (bill_by_id billID d), d)))
       (\<lambda>r. found_or ErrNotFound_billing r)"

text \<open>The metered electricity bills of a lease that end before a date, the latest
  first (the row order of equal keys is unspecified; insertion order is taken).\<close>

definition metered_before :: "string \<Rightarrow> gtime \<Rightarrow> db \<Rightarrow> bill list" where
  "metered_before leaseID periodStart d =
     sort_key (\<lambda>b. (- t_day (b_PeriodEnd b), - t_day (b_DueDate b), - instant (b_CreatedAt b)))
       (filter (\<lambda>b. b_Type b = ''electricity'' \<and> b_MeterCurrentReading b \<noteq> None
                  \<and> t_day (b_PeriodEnd b) < t_day periodStart) (bills_of leaseID d))"

text \<open>\<open>COALESCE(previous.meter_current_reading, l.starting_meter_reading, 0)\<close>.\<close>

definition previous_reading :: "lease \<Rightarrow> gtime \<Rightarrow> db \<Rightarrow> int" where
  "previous_reading l periodStart d =
     (case metered_before (l_ID l) periodStart d of
        b # _ \<Rightarrow> the (b_MeterCurrentReading b)
      | [] \<Rightarrow> (case l_StartingMeterReading l of Some r \<Rightarrow> r | None \<Rightarrow> 0))"

definition findPreviousMeterReading :: "string \<Rightarrow> gtime \<Rightarrow> int tx" where
  "findPreviousMeterReading leaseID periodStart =
     tx_bind (stmt ''find previous meter reading'' (\<lambda>_ d.
         (map_option (\<lambda>l. previous_reading l periodStart d) (lease_by_id leaseID d), d)))
       (\<lambda>r. found_or ErrNotFound_billing r)"

definition findPropertyElectricityUnitPrice :: "string \<Rightarrow> rat option tx" where
  "findPropertyElectricityUnitPrice propertyID =
     tx_bind (stmt ''find property electricity unit price'' (\<lambda>_ d.
         (map_option (\<lambda>p. map_option fl64 (pr_ElectricityUnitPrice p))
            (find (\<lambda>p. pr_ID p = propertyID) (live (db_properties d))), d)))
       (\<lambda>r. found_or ErrNotFound_billing r)"

definition ErrConcurrentUpdate_db :: gerr where
  "ErrConcurrentUpdate_db = Sentinel ''billing.ErrConcurrentUpdate''"

definition ensureUpdated :: "nat \<Rightarrow> unit tx" where
  "ensureUpdated rowsAffected = tx_reject (rowsAffected = 0) ErrConcurrentUpdate_db"

text \<open>The optimistic lock: the row is updated only at the version that was read.\<close>

definition update_bill_at ::
    "string \<Rightarrow> env \<Rightarrow> string \<Rightarrow> int \<Rightarrow> (bill \<Rightarrow> bill) \<Rightarrow> unit tx" where
  "update_bill_at ctx E billID version f =
     tx_bind (stmt ctx (\<lambda>_ d.
         let P = (\<lambda>b. b_ID b = billID \<and> b_Version b = version)
         in (length (filter P (live (db_bills d))), update_bills E P f d)))
       ensureUpdated"

record update_meter_params =
  ump_BillID :: string
  ump_Version :: int
  ump_MeterPreviousReading :: int
  ump_MeterCurrentReading :: int
  ump_MeterUnitPrice :: rat
  ump_MeterRecordedAt :: gtime
  ump_Amount :: int

definition UpdateMeter :: "env \<Rightarrow> update_meter_params \<Rightarrow> unit tx" where
  "UpdateMeter E p =
     update_bill_at ''update bill meter'' E (ump_BillID p) (ump_Version p)
       (\<lambda>b. b\<lparr>b_MeterPreviousReading := Some (ump_MeterPreviousReading p),
              b_MeterCurrentReading := Some (ump_MeterCurrentReading p),
              b_MeterUnitPrice := Some (numeric4 (ump_MeterUnitPrice p)),
              b_MeterRecordedAt := Some (ump_MeterRecordedAt p),
              b_Amount := Some (ump_Amount p), b_Status := ''pending_payment''\<rparr>)"

record update_payment_params =
  upp_BillID :: string
  upp_Version :: int
  upp_PaymentMethod :: string
  upp_PaidAmount :: int
  upp_PaidAt :: gtime

definition UpdatePayment :: "env \<Rightarrow> update_payment_params \<Rightarrow> unit tx" where
  "UpdatePayment E p =
     update_bill_at ''update bill payment'' E (upp_BillID p) (upp_Version p)
       (\<lambda>b. b\<lparr>b_PaymentMethod := Some (upp_PaymentMethod p), b_PaidAmount := Some (upp_PaidAmount p),
              b_PaidAt := Some (upp_PaidAt p), b_Status := ''paid''\<rparr>)"

section \<open>Adapters\<close>

definition ErrBillNotFound_app :: gerr where
  "ErrBillNotFound_app = Sentinel ''appbilling.ErrBillNotFound''"
definition ErrConcurrentUpdateConflict_app :: gerr where
  "ErrConcurrentUpdateConflict_app = Sentinel ''appbilling.ErrConcurrentUpdateConflict''"
definition ErrPropertyAccountNotFound_bill :: gerr where
  "ErrPropertyAccountNotFound_bill = Sentinel ''appbilling.ErrPropertyAccountNotFound''"
definition ErrPropertyElectricityUnitPriceNotFound :: gerr where
  "ErrPropertyElectricityUnitPriceNotFound =
     Sentinel ''appbilling.ErrPropertyElectricityUnitPriceNotFound''"

definition mapBillingRepositoryError :: "gerr \<Rightarrow> gerr" where
  "mapBillingRepositoryError e =
    (if errors_Is e ErrNotFound_billing then ErrBillNotFound_app
     else if errors_Is e ErrConcurrentUpdate_db then ErrConcurrentUpdateConflict_app
     else e)"

definition FindBillByIDForUpdate :: "string \<Rightarrow> app_bill tx" where
  "FindBillByIDForUpdate billID = tx_map_err mapBillingRepositoryError (GetBillForUpdate billID)"

definition FindPreviousElectricityReading :: "string \<Rightarrow> gtime \<Rightarrow> int tx" where
  "FindPreviousElectricityReading leaseID beforePeriodStart =
     tx_map_err mapBillingRepositoryError (findPreviousMeterReading leaseID beforePeriodStart)"

definition FindPropertyElectricityUnitPrice :: "string \<Rightarrow> rat option tx" where
  "FindPropertyElectricityUnitPrice propertyID =
     tx_map_err (\<lambda>e. if errors_Is e ErrNotFound_billing then ErrPropertyElectricityUnitPriceNotFound
                     else mapBillingRepositoryError e)
       (findPropertyElectricityUnitPrice propertyID)"

definition UpdateBillMeter :: "env \<Rightarrow> update_meter_params \<Rightarrow> app_bill tx" where
  "UpdateBillMeter E p =
     tx_bind (tx_map_err mapBillingRepositoryError (UpdateMeter E p))
       (\<lambda>_. FindBillByIDForUpdate (ump_BillID p))"

definition UpdateBillPayment :: "env \<Rightarrow> update_payment_params \<Rightarrow> app_bill tx" where
  "UpdateBillPayment E p =
     tx_bind (tx_map_err mapBillingRepositoryError (UpdatePayment E p))
       (\<lambda>_. FindBillByIDForUpdate (upp_BillID p))"

definition CreateAccountingEntry :: "env \<Rightarrow> accounting_entry_params \<Rightarrow> unit tx" where
  "CreateAccountingEntry E params =
     tx_bind (tx_map_err (\<lambda>e. if errors_Is e ErrNotFound_billing
                              then ErrPropertyAccountNotFound_bill else e)
               (FindPropertyAccountByPropertyID (aep_PropertyID params)))
       (\<lambda>account. InsertAccountingEntry E (pa_ID account) params)"

section \<open>What the statements do\<close>

lemma Some_eq_map_option: "Some y = map_option f v \<longleftrightarrow> (\<exists>x. v = Some x \<and> y = f x)"
  by (cases v) auto

lemma bill_by_id_Some: "bill_by_id k d = Some b \<Longrightarrow> b \<in> set (live (db_bills d)) \<and> b_ID b = k"
  unfolding bill_by_id_def by (rule find_Some_filter)

lemma FindBillByIDForUpdate_D:
  "FindBillByIDForUpdate k w = (Inr ab, v) \<Longrightarrow>
     (\<exists>b. bill_by_id k (w_db w) = Some b \<and> ab = scanBill (w_db w) b)
     \<and> w_db v = w_db w \<and> w_events v = w_events w"
  unfolding FindBillByIDForUpdate_def GetBillForUpdate_def
  by (auto simp: tx_control found_or_ok Some_eq_map_option dest!: stmt_D)

lemma FindPreviousElectricityReading_D:
  "FindPreviousElectricityReading k t w = (Inr r, v) \<Longrightarrow>
     (\<exists>l. lease_by_id k (w_db w) = Some l \<and> r = previous_reading l t (w_db w))
     \<and> w_db v = w_db w \<and> w_events v = w_events w"
  unfolding FindPreviousElectricityReading_def findPreviousMeterReading_def
  by (auto simp: tx_control found_or_ok Some_eq_map_option dest!: stmt_D)

lemma FindPropertyElectricityUnitPrice_D:
  "FindPropertyElectricityUnitPrice k w = (Inr r, v) \<Longrightarrow>
     (\<exists>p. find (\<lambda>p. pr_ID p = k) (live (db_properties (w_db w))) = Some p
        \<and> r = map_option fl64 (pr_ElectricityUnitPrice p))
     \<and> w_db v = w_db w \<and> w_events v = w_events w"
  unfolding FindPropertyElectricityUnitPrice_def findPropertyElectricityUnitPrice_def
  by (auto simp: tx_control found_or_ok Some_eq_map_option dest!: stmt_D)

text \<open>The row an update at a version touches, and the bills after it.\<close>

definition bumped :: "env \<Rightarrow> (bill \<Rightarrow> bill) \<Rightarrow> bill \<Rightarrow> bill" where
  "bumped E f b = (f b)\<lparr>b_UpdatedAt := e_now E, b_Version := b_Version b + 1\<rparr>"

definition with_bill :: "env \<Rightarrow> string \<Rightarrow> int \<Rightarrow> (bill \<Rightarrow> bill) \<Rightarrow> db \<Rightarrow> db" where
  "with_bill E k version f = update_bills E (\<lambda>b. b_ID b = k \<and> b_Version b = version) f"

lemma with_bill_simps [simp]:
  "live (db_bills (with_bill E k n f d)) =
     map (\<lambda>b. if b_ID b = k \<and> b_Version b = n then bumped E f b else b) (live (db_bills d))"
  "db_leases (with_bill E k n f d) = db_leases d" "db_entries (with_bill E k n f d) = db_entries d"
  "db_accounts (with_bill E k n f d) = db_accounts d" "db_titles (with_bill E k n f d) = db_titles d"
  "db_rooms (with_bill E k n f d) = db_rooms d" "db_tenants (with_bill E k n f d) = db_tenants d"
  "db_properties (with_bill E k n f d) = db_properties d"
  by (simp_all add: with_bill_def bumped_def) (simp add: update_bills_def)

lemma update_bill_at_D:
  "update_bill_at ctx E k n f w = (Inr u, v) \<Longrightarrow>
     w_db v = with_bill E k n f (w_db w) \<and> w_events v = w_events w"
  unfolding update_bill_at_def ensureUpdated_def
  by (auto simp: tx_control Let_def with_bill_def dest!: stmt_D)

lemma bill_by_id_with_bill:
  assumes "bill_by_id k d = Some b" "b_Version b = n" "\<And>b. b_ID (f b) = b_ID b"
  shows "bill_by_id k (with_bill E k n f d) = Some (bumped E f b)"
proof -
  have "find (\<lambda>b. b_ID b = k) (map (\<lambda>b. if b_ID b = k \<and> b_Version b = n then bumped E f b else b) xs)
      = map_option (\<lambda>b. if b_ID b = k \<and> b_Version b = n then bumped E f b else b)
          (find (\<lambda>b. b_ID b = k) xs)" for xs
    by (induction xs) (auto simp: bumped_def assms(3))
  then show ?thesis
    using assms(1,2) bill_by_id_Some [OF assms(1)] by (simp add: bill_by_id_def)
qed

lemma CreateAccountingEntry_ok:
  "CreateAccountingEntry E p w = (Inr u, v) \<Longrightarrow>
     \<exists>es. booked p (w_db w) es \<and> w_db v = add_entries es (w_db w) \<and> w_events v = w_events w"
  unfolding CreateAccountingEntry_def FindPropertyAccountByPropertyID_def booked_def
  by (fastforce simp: tx_simps InsertAccountingEntry_ok)

section \<open>When the statements succeed\<close>

lemma wp_billing_queries [wp_simps]:
  "wp (FindBillByIDForUpdate k) P w \<longleftrightarrow> \<not> next_fault w
     \<and> (\<exists>b. bill_by_id k (w_db w) = Some b \<and> P (scanBill (w_db w) b) (stepped w (w_db w)))"
  "wp (FindPreviousElectricityReading k t) Q w \<longleftrightarrow> \<not> next_fault w
     \<and> (\<exists>l. lease_by_id k (w_db w) = Some l \<and> Q (previous_reading l t (w_db w)) (stepped w (w_db w)))"
  "wp (FindPropertyElectricityUnitPrice k) R w \<longleftrightarrow> \<not> next_fault w
     \<and> (\<exists>p. find (\<lambda>p. pr_ID p = k) (live (db_properties (w_db w))) = Some p
         \<and> R (map_option fl64 (pr_ElectricityUnitPrice p)) (stepped w (w_db w)))"
  unfolding FindBillByIDForUpdate_def GetBillForUpdate_def FindPreviousElectricityReading_def
    findPreviousMeterReading_def FindPropertyElectricityUnitPrice_def findPropertyElectricityUnitPrice_def
  by (auto simp: wp_simps)

lemma wp_update_bill_at [wp_simps]:
  "wp (update_bill_at ctx E k n f) P w \<longleftrightarrow> \<not> next_fault w
     \<and> (\<exists>b \<in> set (live (db_bills (w_db w))). b_ID b = k \<and> b_Version b = n)
     \<and> P () (stepped w (with_bill E k n f (w_db w)))"
  unfolding update_bill_at_def ensureUpdated_def wp_simps
  by (auto simp: Let_def with_bill_def filter_empty_conv)

lemma wp_CreateAccountingEntry [wp_simps]:
  "wp (CreateAccountingEntry E p) P w \<longleftrightarrow> \<not> next_fault w \<and> \<not> next_fault (stepped w (w_db w))
     \<and> (\<exists>a. find (\<lambda>a. pa_PropertyID a = aep_PropertyID p) (live (db_accounts (w_db w))) = Some a
         \<and> active_titles (aep_AccountingTitleCode p) (w_db w) \<noteq> []
         \<and> P () (stepped (stepped w (w_db w)) (add_entries (map (new_entry (e_id E (w_fresh (stepped w (w_db w)))) (e_now E) (pa_ID a) p)
              (active_titles (aep_AccountingTitleCode p) (w_db w))) (w_db w))))"
proof -
  have i: "wp (InsertAccountingEntry E a p) P v \<longleftrightarrow> \<not> next_fault v
      \<and> active_titles (aep_AccountingTitleCode p) (w_db v) \<noteq> []
      \<and> P () (stepped v (add_entries (map (new_entry (e_id E (w_fresh v)) (e_now E) a p)
           (active_titles (aep_AccountingTitleCode p) (w_db v))) (w_db v)))" for a v
    by (auto simp: wp_def InsertAccountingEntry_ok stepped_def)
  show ?thesis
    unfolding CreateAccountingEntry_def FindPropertyAccountByPropertyID_def wp_simps i by auto
qed

end
