(* ===== verification/BillingCommands.thy ===== *)
theory BillingCommands
  imports BillingRepo
begin

text \<open>
  The billing commands (application/billing): recording a meter reading
  (record_meter.go) and a payment (record_payment.go), with their errors
  (errors.go) and ledger categories (subscribers.go).  The server always passes
  the services their repositories and a transaction runner, so the checks that
  these are not nil are left out.
\<close>

section \<open>Errors\<close>

definition ErrBillAlreadyPaid_app :: gerr where
  "ErrBillAlreadyPaid_app = apperr_New ''BILL_ALREADY_PAID'' 422 ''Bill is already paid.''"
definition ErrMeterReadingLessThanPrevious_app :: gerr where
  "ErrMeterReadingLessThanPrevious_app = apperr_New ''METER_READING_LESS_THAN_PREVIOUS'' 422
     ''Current reading must not be less than previous reading.''"
definition ErrBillNotElectricityType_app :: gerr where
  "ErrBillNotElectricityType_app =
     apperr_New ''BILL_NOT_ELECTRICITY_TYPE'' 422 ''Bill is not an electricity bill.''"
definition ErrBillStatusNotRecordable_app :: gerr where
  "ErrBillStatusNotRecordable_app =
     apperr_New ''BILL_STATUS_NOT_RECORDABLE'' 422 ''Bill status is not recordable.''"
definition ErrBillStatusNotPayable_app :: gerr where
  "ErrBillStatusNotPayable_app =
     apperr_New ''BILL_STATUS_NOT_PAYABLE'' 422 ''Bill status is not payable.''"
definition ErrBillPaidAmountMismatch_app :: gerr where
  "ErrBillPaidAmountMismatch_app =
     apperr_New ''BILL_PAID_AMOUNT_MISMATCH'' 422 ''Paid amount must equal bill amount.''"

definition mapRepositoryError :: "gerr \<Rightarrow> gerr" where
  "mapRepositoryError e =
    (if errors_Is e ErrBillNotFound_app then ErrBillNotFound
     else if errors_Is e ErrConcurrentUpdateConflict_app then ErrConcurrentUpdateConflict
     else if errors_Is e ErrPropertyElectricityUnitPriceNotFound
     then apperr_WithDetails (internal_cause e)
            (JObj [(''dependency'', JStr ''electricity_unit_price'')])
     else internal_cause e)"

definition mapAccountingRepositoryError :: "gerr \<Rightarrow> gerr" where
  "mapAccountingRepositoryError e =
    (if errors_Is e ErrPropertyAccountNotFound_bill
     then apperr_WithDetails (internal_cause e)
            (JObj [(''dependency'', JStr ''property_account'')])
     else internal_cause e)"

text \<open>The bill may be nil; only its amount matters.\<close>

definition bill_mapDomainError :: "bill option \<Rightarrow> int \<Rightarrow> gerr \<Rightarrow> gerr" where
  "bill_mapDomainError bill submittedAmount e =
    (if errors_Is e ErrBillAlreadyPaid then ErrBillAlreadyPaid_app
     else if errors_Is e ErrMeterReadingLessThanPrevious then ErrMeterReadingLessThanPrevious_app
     else if errors_Is e ErrBillNotElectricityType then ErrBillNotElectricityType_app
     else if errors_Is e ErrBillStatusNotRecordable then ErrBillStatusNotRecordable_app
     else if errors_Is e ErrBillStatusNotPayable then ErrBillStatusNotPayable_app
     else if errors_Is e ErrBillAmountMissing then ErrBillStatusNotPayable_app
     else if errors_Is e ErrBillPaidAmountMismatch
     then apperr_WithDetails ErrBillPaidAmountMismatch_app
       (JObj ((''submitted_amount'', JInt submittedAmount)
          # (case bill of None \<Rightarrow> []
             | Some b \<Rightarrow> (case b_Amount b of None \<Rightarrow> []
                 | Some amount \<Rightarrow> [(''expected_amount'', JInt amount)]))))
     else internal_cause e)"

definition mapMeterDomainError :: "int \<Rightarrow> int \<Rightarrow> gerr \<Rightarrow> gerr" where
  "mapMeterDomainError previousReading submittedReading e =
    (if errors_Is e ErrMeterReadingLessThanPrevious
     then apperr_WithDetails ErrMeterReadingLessThanPrevious_app
       (JObj [(''previous_reading'', JInt previousReading),
              (''submitted_reading'', JInt submittedReading)])
     else bill_mapDomainError None 0 e)"

section \<open>Input\<close>

definition normalizeWriteRole :: "string \<Rightarrow> gerr + string" where
  "normalizeWriteRole role =
    (let normalized = to_lower (trim role)
     in if normalized \<in> {''admin'', ''organizer'', ''staff''} then Inr normalized
        else Inl ErrForbidden)"

definition normalizeBillID :: "env \<Rightarrow> string \<Rightarrow> gerr + string" where
  "normalizeBillID E value =
    (let trimmed = trim value
     in if trimmed = '''' then Inl ErrBillNotFound
        else if \<not> e_uuid_ok E trimmed
          then Inl (apperr_WithDetails ErrBadRequest (field_detail ''id''))
        else Inr trimmed)"

definition toDomainState :: "app_bill \<Rightarrow> bill" where
  "toDomainState bill = ab_row bill"

text \<open>\<open>time.Now().UTC()\<close> unless the caller gives a time.\<close>

definition utc_or_now :: "env \<Rightarrow> gtime option \<Rightarrow> gtime" where
  "utc_or_now E value = (case value of None \<Rightarrow> time_UTC (e_now E) | Some t \<Rightarrow> time_UTC t)"

section \<open>RecordMeter\<close>

record record_meter_input =
  rmi_ActorRole :: string
  rmi_BillID :: string
  rmi_CurrentReading :: int
  rmi_RecordedAt :: "gtime option"

text \<open>The metered aggregate has all five values, so the dereferences are \<open>the\<close>.\<close>

definition RecordMeter_body :: "env \<Rightarrow> record_meter_input \<Rightarrow> string \<Rightarrow> app_bill tx" where
  "RecordMeter_body E input billID =
    (let recordedAt = utc_or_now E (rmi_RecordedAt input)
     in tx_bind (tx_map_err mapRepositoryError (FindBillByIDForUpdate billID)) (\<lambda>current.
        tx_bind (tx_map_err mapRepositoryError (FindPreviousElectricityReading
                   (b_LeaseID (ab_row current)) (b_PeriodStart (ab_row current)))) (\<lambda>previousReading.
        tx_bind (tx_map_err mapRepositoryError
                   (FindPropertyElectricityUnitPrice (b_PropertyID (ab_row current)))) (\<lambda>price.
        tx_bind (tx_reject (price = None) (apperr_WithDetails ErrInternalServerError
                   (field_detail ''electricity_unit_price''))) (\<lambda>_.
        tx_bind (tx_map_err (mapMeterDomainError previousReading (rmi_CurrentReading input))
                   (tx_lift (RecordMeter (bill_Rehydrate (toDomainState current)) previousReading
                      (rmi_CurrentReading input) (the price) recordedAt))) (\<lambda>state.
        tx_bind (tx_map_err mapRepositoryError (UpdateBillMeter E
                   \<lparr>ump_BillID = billID, ump_Version = b_Version (ab_row current),
                    ump_MeterPreviousReading = the (b_MeterPreviousReading state),
                    ump_MeterCurrentReading = the (b_MeterCurrentReading state),
                    ump_MeterUnitPrice = the (b_MeterUnitPrice state),
                    ump_MeterRecordedAt = the (b_MeterRecordedAt state),
                    ump_Amount = the (b_Amount state)\<rparr>)) (\<lambda>updatedBill.
        tx_bind (record_event (MeterRecorded (b_ID (ab_row updatedBill))
                   (b_PropertyID (ab_row updatedBill)) (b_RoomID (ab_row updatedBill))
                   (b_LeaseID (ab_row updatedBill)) (the (b_MeterPreviousReading state))
                   (the (b_MeterCurrentReading state)) (the (b_MeterUnitPrice state))
                   (the (b_Amount state)) (the (b_MeterRecordedAt state)))) (\<lambda>_.
        tx_return updatedBill))))))))"

definition RecordMeter_validate :: "env \<Rightarrow> record_meter_input \<Rightarrow> gerr + string" where
  "RecordMeter_validate E input =
    (case normalizeWriteRole (rmi_ActorRole input) of
       Inl e \<Rightarrow> Inl e
     | Inr _ \<Rightarrow> normalizeBillID E (rmi_BillID input))"

definition RecordMeter_Execute ::
    "env \<Rightarrow> (event \<Rightarrow> unit tx) \<Rightarrow> record_meter_input \<Rightarrow> app_bill tx" where
  "RecordMeter_Execute E publish input =
     tx_bind (tx_lift (RecordMeter_validate E input))
       (\<lambda>billID. WithinTransaction publish (RecordMeter_body E input billID))"

section \<open>RecordPayment\<close>

definition AccountingCategoryRentPayment :: string where
  "AccountingCategoryRentPayment = ''rent_payment''"
definition AccountingCategoryElectricityPayment :: string where
  "AccountingCategoryElectricityPayment = ''electricity_payment''"
definition AccountingTitleCodeRentPayment :: string where
  "AccountingTitleCodeRentPayment = ''4603''"
definition AccountingTitleCodeElectricityPayment :: string where
  "AccountingTitleCodeElectricityPayment = ''4605''"

lemmas payment_consts = AccountingCategoryRentPayment_def AccountingCategoryElectricityPayment_def
  AccountingTitleCodeRentPayment_def AccountingTitleCodeElectricityPayment_def

definition accountingCategoryForBillType :: "string \<Rightarrow> gerr + string" where
  "accountingCategoryForBillType billType =
    (if billType = TypeRent then Inr AccountingCategoryRentPayment
     else if billType = TypeElectricity then Inr AccountingCategoryElectricityPayment
     else Inl (DriverErr ''unsupported bill type for accounting entry''))"

definition accountingTitleCodeForBillType :: "string \<Rightarrow> gerr + string" where
  "accountingTitleCodeForBillType billType =
    (if billType = TypeRent then Inr AccountingTitleCodeRentPayment
     else if billType = TypeElectricity then Inr AccountingTitleCodeElectricityPayment
     else Inl (DriverErr ''unsupported bill type for accounting title''))"

text \<open>The UTF-8 bytes of the texts between the dates and before the period.\<close>

definition period_separator :: string where
  "period_separator = [CHR '' '', CHR 0xE8, CHR 0x87, CHR 0xB3, CHR '' '']"

definition formatAccountingPeriodLabel :: "gtime \<Rightarrow> gtime \<Rightarrow> string" where
  "formatAccountingPeriodLabel start until = format_date start @ period_separator @ format_date until"

text \<open>\<open>taiwanReportLocation = time.FixedZone("Asia/Taipei", 8*60*60)\<close>.\<close>

definition taiwanReportLocation :: int where
  "taiwanReportLocation = 8 * 60 * 60"

definition accountingSourceDate :: "gtime \<Rightarrow> gtime" where
  "accountingSourceDate value = time_in value taiwanReportLocation"

definition electricity_note :: string where
  "electricity_note = [CHR 0xE9, CHR 0x9B, CHR 0xBB, CHR 0xE8, CHR 0xB2, CHR 0xBB, CHR 0xEF, CHR 0xBC, CHR 0x9A]"

definition rent_note :: string where
  "rent_note = [CHR 0xE7, CHR 0xA7, CHR 0x9F, CHR 0xE9, CHR 0x87, CHR 0x91, CHR 0xEF, CHR 0xBC, CHR 0x9A]"

definition formatBillAccountingDisplayNote :: "string \<Rightarrow> string \<Rightarrow> string" where
  "formatBillAccountingDisplayNote billType periodLabel =
    (if billType = TypeElectricity then electricity_note @ periodLabel else rent_note @ periodLabel)"

record record_payment_input =
  rpi_ActorRole :: string
  rpi_BillID :: string
  rpi_PaidAmount :: int
  rpi_PaymentMethod :: string
  rpi_PaidAt :: "gtime option"

definition payment_source_ref :: "string \<Rightarrow> jval" where
  "payment_source_ref billID = JObj [(''bill_id'', JStr billID), (''type'', JStr ''BillPaid'')]"

definition payment_entry :: "bill \<Rightarrow> string \<Rightarrow> string \<Rightarrow> int \<Rightarrow> gtime \<Rightarrow> accounting_entry_params" where
  "payment_entry bill category accountingTitleCode paidAmount paidAt =
    (let periodLabel = formatAccountingPeriodLabel (b_PeriodStart bill) (b_PeriodEnd bill)
     in \<lparr>aep_PropertyID = b_PropertyID bill, aep_Category = category,
         aep_AccountingTitleCode = accountingTitleCode, aep_Amount = paidAmount,
         aep_Description = None, aep_SourceRef = payment_source_ref (b_ID bill),
         aep_Year = time_year paidAt, aep_Month = time_month paidAt,
         aep_SourceDate = Some (accountingSourceDate paidAt), aep_RoomLabel = None,
         aep_TenantLabel = None, aep_PeriodLabel = Some periodLabel,
         aep_DisplayNote = Some (formatBillAccountingDisplayNote (b_Type bill) periodLabel)\<rparr>)"

definition RecordPayment_body ::
    "env \<Rightarrow> record_payment_input \<Rightarrow> string \<Rightarrow> string \<Rightarrow> app_bill tx" where
  "RecordPayment_body E input billID paymentMethod =
    (let paidAt = utc_or_now E (rpi_PaidAt input)
     in tx_bind (tx_map_err mapRepositoryError (FindBillByIDForUpdate billID)) (\<lambda>current.
        tx_bind (tx_map_err (bill_mapDomainError (Some (ab_row current)) (rpi_PaidAmount input))
                   (tx_lift (RecordPayment (bill_Rehydrate (toDomainState current))
                      (rpi_PaidAmount input) paymentMethod paidAt))) (\<lambda>state.
        tx_bind (tx_map_err mapRepositoryError (UpdateBillPayment E
                   \<lparr>upp_BillID = billID, upp_Version = b_Version (ab_row current),
                    upp_PaymentMethod = the (b_PaymentMethod state),
                    upp_PaidAmount = the (b_PaidAmount state),
                    upp_PaidAt = the (b_PaidAt state)\<rparr>)) (\<lambda>updatedBill.
        tx_bind (tx_map_err internal_cause
                   (tx_lift (accountingCategoryForBillType (b_Type (ab_row updatedBill))))) (\<lambda>category.
        tx_bind (tx_map_err internal_cause
                   (tx_lift (accountingTitleCodeForBillType (b_Type (ab_row updatedBill))))) (\<lambda>titleCode.
        tx_bind (tx_map_err mapAccountingRepositoryError (CreateAccountingEntry E
                   (payment_entry (ab_row updatedBill) category titleCode
                      (the (b_PaidAmount state)) (the (b_PaidAt state))))) (\<lambda>_.
        tx_bind (record_event (BillPaid (b_ID (ab_row updatedBill))
                   (b_PropertyID (ab_row updatedBill)) (b_LeaseID (ab_row updatedBill))
                   (b_RoomID (ab_row updatedBill)) (b_TenantID (ab_row updatedBill))
                   (b_Type (ab_row updatedBill)) (the (b_Amount state)) (the (b_PaidAmount state))
                   (the (b_PaymentMethod state)) (the (b_PaidAt state)))) (\<lambda>_.
        tx_return updatedBill))))))))"

definition RecordPayment_validate ::
    "env \<Rightarrow> record_payment_input \<Rightarrow> gerr + (string \<times> string)" where
  "RecordPayment_validate E input =
    (case normalizeWriteRole (rpi_ActorRole input) of
       Inl e \<Rightarrow> Inl e
     | Inr _ \<Rightarrow>
         (case normalizeBillID E (rpi_BillID input) of
            Inl e \<Rightarrow> Inl e
          | Inr billID \<Rightarrow>
              (let paymentMethod = trim (rpi_PaymentMethod input)
               in if paymentMethod \<notin> {''cash'', ''transfer'', ''other''}
                  then Inl (apperr_WithDetails ErrBadRequest (field_detail ''payment_method''))
                  else Inr (billID, paymentMethod))))"

definition RecordPayment_Execute ::
    "env \<Rightarrow> (event \<Rightarrow> unit tx) \<Rightarrow> record_payment_input \<Rightarrow> app_bill tx" where
  "RecordPayment_Execute E publish input =
     tx_bind (tx_lift (RecordPayment_validate E input))
       (\<lambda>(billID, paymentMethod).
          WithinTransaction publish (RecordPayment_body E input billID paymentMethod))"

section \<open>Unit prices survive the float\<close>

lemma numeric4_near:
  assumes "p * 10000 = of_int n" "\<bar>x - p\<bar> < 1 / 20000"
  shows "numeric4 x = p"
proof -
  have "x - p < 1 / 20000" "p - x < 1 / 20000" using assms(2) by (simp_all only: abs_less_iff minus_diff_eq)
  then have "x * 10000 < p * 10000 + 1 / 2" "p * 10000 - 1 / 2 < x * 10000" by linarith+
  then have "floor (x * 10000 + 1 / 2) = n"
    unfolding assms(1) by (intro floor_unique) simp_all
  then show ?thesis using assms(1) by (simp add: numeric4_def field_simps)
qed

lemma numeric4_fl64:
  assumes "is_numeric4 p"
  shows "numeric4 (fl64 p) = p"
proof -
  obtain n where n: "p * 10000 = of_int n" "0 \<le> p" "p < 1000000"
    using assms by (auto simp: is_numeric4_def)
  have "\<bar>fl64 p - p\<bar> \<le> p / 2 ^ 53" using fl64_error [of p] n(2) by simp
  also have "\<dots> < 1000000 / 2 ^ 53" using n(3) by (rule divide_strict_right_mono) simp
  finally have "\<bar>fl64 p - p\<bar> < 1 / 20000" by simp
  then show ?thesis by (rule numeric4_near [OF n(1)])
qed

section \<open>What recording a meter does\<close>

definition metered_bill :: "int \<Rightarrow> int \<Rightarrow> rat \<Rightarrow> gtime \<Rightarrow> int \<Rightarrow> bill \<Rightarrow> bill" where
  "metered_bill p c u tm amount b =
     b\<lparr>b_MeterPreviousReading := Some p, b_MeterCurrentReading := Some c,
       b_MeterUnitPrice := Some u, b_MeterRecordedAt := Some tm,
       b_Amount := Some amount, b_Status := ''pending_payment''\<rparr>"

lemma UpdateBillMeter_D:
  assumes "UpdateBillMeter E \<lparr>ump_BillID = k, ump_Version = n, ump_MeterPreviousReading = p,
      ump_MeterCurrentReading = c, ump_MeterUnitPrice = u, ump_MeterRecordedAt = tm,
      ump_Amount = amount\<rparr> w = (Inr ab, v)"
    and "bill_by_id k (w_db w) = Some b" "b_Version b = n"
  shows "w_db v = with_bill E k n (metered_bill p c (numeric4 u) tm amount) (w_db w)"
    and "w_events v = w_events w"
    and "ab = scanBill (w_db v) (bumped E (metered_bill p c (numeric4 u) tm amount) b)"
proof -
  let ?f = "metered_bill p c (numeric4 u) tm amount"
  obtain w1 where u: "update_bill_at ''update bill meter'' E k n ?f w = (Inr (), w1)"
    "FindBillByIDForUpdate k w1 = (Inr ab, v)"
    using assms(1) by (auto simp: UpdateBillMeter_def UpdateMeter_def metered_bill_def [abs_def] tx_control)
  have w1: "w_db w1 = with_bill E k n ?f (w_db w)" "w_events w1 = w_events w"
    using update_bill_at_D [OF u(1)] by simp_all
  have "bill_by_id k (w_db w1) = Some (bumped E ?f b)"
    unfolding w1 by (rule bill_by_id_with_bill [OF assms(2,3)]) (simp add: metered_bill_def)
  then show "w_db v = with_bill E k n ?f (w_db w)" "w_events v = w_events w"
    "ab = scanBill (w_db v) (bumped E ?f b)"
    using FindBillByIDForUpdate_D [OF u(2)] w1 by auto
qed

text \<open>
  A unit price survives its trip through a \<open>float64\<close>.  When the price of a
  property, a \<open>NUMERIC(10,4)\<close>, is read and written to a bill with its meter
  reading, the row of the bill holds exactly the price of the property, and
  reading the bill again gives the \<open>float64\<close> the amount was computed from.
\<close>

theorem unit_price_roundtrip:
  assumes "FindPropertyElectricityUnitPrice k w = (Inr (Some u), w1)"
    and "find (\<lambda>q. pr_ID q = k) (live (db_properties (w_db w))) = Some q"
      "pr_ElectricityUnitPrice q = Some p" "is_numeric4 p"
    and "UpdateBillMeter E params w1 = (Inr ab, v)" "ump_MeterUnitPrice params = u"
    and "bill_by_id (ump_BillID params) (w_db w) = Some b" "b_Version b = ump_Version params"
  shows "\<exists>b'. bill_by_id (ump_BillID params) (w_db v) = Some b' \<and> b_MeterUnitPrice b' = Some p
     \<and> b_MeterUnitPrice (ab_row ab) = Some u"
proof -
  have u: "u = fl64 p" "w_db w1 = w_db w"
    using FindPropertyElectricityUnitPrice_D [OF assms(1)] assms(2,3) by auto
  obtain i n pr c tm a where params: "params = \<lparr>ump_BillID = i, ump_Version = n,
      ump_MeterPreviousReading = pr, ump_MeterCurrentReading = c, ump_MeterUnitPrice = u,
      ump_MeterRecordedAt = tm, ump_Amount = a\<rparr>"
    using assms(6) by (cases params) auto
  have b: "bill_by_id i (w_db w) = Some b" "b_Version b = n" using assms(7,8) by (simp_all add: params)
  let ?f = "metered_bill pr c p tm a"
  have up: "w_db v = with_bill E i n ?f (w_db w)" "ab = scanBill (w_db v) (bumped E ?f b)"
    using UpdateBillMeter_D [OF assms(5) [unfolded params]] b numeric4_fl64 [OF assms(4)] u by simp_all
  have "bill_by_id i (w_db v) = Some (bumped E ?f b)"
    unfolding up(1) by (rule bill_by_id_with_bill [OF b]) (simp add: metered_bill_def)
  then show ?thesis by (simp add: params up(2) scanBill_def bumped_def metered_bill_def u(1))
qed

text \<open>The \<open>CHECK\<close> constraints of the table on type and status.\<close>

definition bill_typed :: "bill \<Rightarrow> bool" where
  "bill_typed b \<longleftrightarrow> b_Type b \<in> {TypeRent, TypeElectricity}
     \<and> b_Status b \<in> {StatusPendingMeter, StatusPendingPayment, StatusPaid, StatusOverdue,
                      StatusVoided, StatusWrittenOff}"

lemma Rehydrate_typed: "bill_typed b \<Longrightarrow> bill_Rehydrate (ab_row (scanBill d b)) = ab_row (scanBill d b)"
proof -
  assume t: "bill_typed b"
  then have "trim (b_Type b) = b_Type b" by (auto simp: bill_typed_def)
  moreover have "trim (b_Status b) = b_Status b"
    using t unfolding bill_typed_def by (intro trim_bill_status) blast
  ultimately show ?thesis by (simp add: bill_Rehydrate_def scanBill_def)
qed

lemma scan_fields [simp]:
  "b_ID (ab_row (scanBill d b)) = b_ID b" "b_LeaseID (ab_row (scanBill d b)) = b_LeaseID b"
  "b_PropertyID (ab_row (scanBill d b)) = b_PropertyID b" "b_Type (ab_row (scanBill d b)) = b_Type b"
  "b_RoomID (ab_row (scanBill d b)) = b_RoomID b" "b_TenantID (ab_row (scanBill d b)) = b_TenantID b"
  "b_Status (ab_row (scanBill d b)) = b_Status b" "b_Version (ab_row (scanBill d b)) = b_Version b"
  "b_Amount (ab_row (scanBill d b)) = b_Amount b"
  "b_PeriodStart (ab_row (scanBill d b)) = b_PeriodStart b"
  "b_PeriodEnd (ab_row (scanBill d b)) = b_PeriodEnd b"
  by (simp_all add: scanBill_def)

lemma RecordMeter_body_ok:
  assumes "RecordMeter_body E input k w = (Inr ab, v)"
    and typed: "\<forall>b \<in> set (live (db_bills (w_db w))). bill_typed b"
  shows "\<exists>b l q price p amount. bill_by_id k (w_db w) = Some b
     \<and> lease_by_id (b_LeaseID b) (w_db w) = Some l
     \<and> find (\<lambda>q. pr_ID q = b_PropertyID b) (live (db_properties (w_db w))) = Some q
     \<and> pr_ElectricityUnitPrice q = Some price
     \<and> b_Type b = TypeElectricity \<and> b_Status b = StatusPendingMeter
     \<and> p = previous_reading l (b_PeriodStart b) (w_db w) \<and> p \<le> rmi_CurrentReading input
     \<and> amount = meter_amount p (rmi_CurrentReading input) (fl64 price)
     \<and> w_db v = with_bill E k (b_Version b) (metered_bill p (rmi_CurrentReading input)
           (numeric4 (fl64 price)) (utc_or_now E (rmi_RecordedAt input)) amount) (w_db w)
     \<and> (\<exists>ev. w_events v = w_events w @ [ev] \<and> type_of_event ev = T_MeterRecorded)"
proof -
  let ?c = "rmi_CurrentReading input" and ?t = "utc_or_now E (rmi_RecordedAt input)"
  obtain cur p pr state w1 w2 w3 w4 where
    ops: "FindBillByIDForUpdate k w = (Inr cur, w1)"
      "FindPreviousElectricityReading (b_LeaseID (ab_row cur)) (b_PeriodStart (ab_row cur)) w1 = (Inr p, w2)"
      "FindPropertyElectricityUnitPrice (b_PropertyID (ab_row cur)) w2 = (Inr pr, w3)" "pr \<noteq> None"
      "RecordMeter (bill_Rehydrate (ab_row cur)) p ?c (the pr) ?t = Inr state"
      "UpdateBillMeter E \<lparr>ump_BillID = k, ump_Version = b_Version (ab_row cur),
          ump_MeterPreviousReading = the (b_MeterPreviousReading state),
          ump_MeterCurrentReading = the (b_MeterCurrentReading state),
          ump_MeterUnitPrice = the (b_MeterUnitPrice state),
          ump_MeterRecordedAt = the (b_MeterRecordedAt state),
          ump_Amount = the (b_Amount state)\<rparr> w3 = (Inr ab, w4)" and
    ev: "w_db v = w_db w4" "\<exists>ev. w_events v = w_events w4 @ [ev] \<and> type_of_event ev = T_MeterRecorded"
    using assms(1) unfolding RecordMeter_body_def Let_def tx_control toDomainState_def
    by (auto simp: record_event_ok)
  obtain b where b: "bill_by_id k (w_db w) = Some b" "cur = scanBill (w_db w) b"
    "w_db w1 = w_db w" "w_events w1 = w_events w"
    using FindBillByIDForUpdate_D [OF ops(1)] by auto
  note q = FindPreviousElectricityReading_D [OF ops(2)] FindPropertyElectricityUnitPrice_D [OF ops(3)]
  obtain l where l: "lease_by_id (b_LeaseID b) (w_db w) = Some l"
    "p = previous_reading l (b_PeriodStart b) (w_db w)"
    using q(1) b(2,3) by auto
  obtain r where r0: "find (\<lambda>q. pr_ID q = b_PropertyID b) (live (db_properties (w_db w))) = Some r"
    "pr = map_option fl64 (pr_ElectricityUnitPrice r)"
    using q b by auto
  obtain price where r: "pr_ElectricityUnitPrice r = Some price" "the pr = fl64 price"
    using r0(2) ops(4) by (cases "pr_ElectricityUnitPrice r") simp_all
  have bt: "bill_typed b" using typed bill_by_id_Some [OF b(1)] by blast
  have st: "b_Type b = TypeElectricity" "b_Status b = StatusPendingMeter" "p \<le> ?c"
    "b_MeterPreviousReading state = Some p" "b_MeterCurrentReading state = Some ?c"
    "b_MeterUnitPrice state = Some (fl64 price)" "b_MeterRecordedAt state = Some ?t"
    "b_Amount state = Some (meter_amount p ?c (fl64 price))"
    using ops(5) unfolding b(2) Rehydrate_typed [OF bt] RecordMeter_Inr r(2) by auto
  note up = UpdateBillMeter_D [OF ops(6) [unfolded st option.sel b(2) scan_fields], of b]
  have w3: "w_db w3 = w_db w" "w_events w3 = w_events w" using q b(3,4) by simp_all
  have "w_db w4 = with_bill E k (b_Version b) (metered_bill p ?c (numeric4 (fl64 price)) ?t
      (meter_amount p ?c (fl64 price))) (w_db w)" "w_events w4 = w_events w"
    using up b(1) by (simp_all add: w3)
  then show ?thesis using b(1) l r0(1) r(1) st(1-3) ev by metis
qed

lemma RecordMeter_body_runs:
  assumes "calm w" and b: "bill_by_id k (w_db w) = Some b" "bill_typed b" "b_Type b = TypeElectricity"
      "b_Status b = StatusPendingMeter"
    and "lease_by_id (b_LeaseID b) (w_db w) = Some l"
    and "find (\<lambda>q. pr_ID q = b_PropertyID b) (live (db_properties (w_db w))) = Some q"
    and "pr_ElectricityUnitPrice q = Some price"
    and "previous_reading l (b_PeriodStart b) (w_db w) \<le> rmi_CurrentReading input"
  shows "wp (RecordMeter_body E input k) (\<lambda>_. calm) w"
proof -
  have m: "b \<in> set (live (db_bills (w_db w)))" "b_ID b = k" using bill_by_id_Some [OF b(1)] by auto
  have f: "bill_by_id k (with_bill E k (b_Version b) (metered_bill p c u tm a) (w_db w))
      = Some (bumped E (metered_bill p c u tm a) b)" for p c u tm a
    by (rule bill_by_id_with_bill [OF b(1) refl]) (simp add: metered_bill_def)
  have u: "UpdateBillMeter E \<lparr>ump_BillID = k, ump_Version = n, ump_MeterPreviousReading = p,
      ump_MeterCurrentReading = c, ump_MeterUnitPrice = u, ump_MeterRecordedAt = tm, ump_Amount = a\<rparr>
    = tx_bind (tx_map_err mapBillingRepositoryError (update_bill_at ''update bill meter'' E k n
        (metered_bill p c (numeric4 u) tm a))) (\<lambda>_. FindBillByIDForUpdate k)" for n p c u tm a
    by (simp add: UpdateBillMeter_def UpdateMeter_def metered_bill_def [abs_def])
  obtain state where "RecordMeter (ab_row (scanBill (w_db w) b)) (previous_reading l (b_PeriodStart b) (w_db w))
      (rmi_CurrentReading input) (fl64 price) (utc_or_now E (rmi_RecordedAt input)) = Inr state"
    using assms(9) b(3,4) by (simp add: RecordMeter_def)
  then show ?thesis
    using assms m unfolding RecordMeter_body_def Let_def toDomainState_def u
    by (auto simp: wp_simps Rehydrate_typed [OF b(2)] f)
qed

end
