(* ===== verification/MeterChain.thy ===== *)
theory MeterChain
  imports BillingCommands
begin

text \<open>
  The readings of a meter over the bills of a lease: \<open>RecordMeter\<close> bills every
  unit once when the periods are recorded in order, and bills units twice when
  they are not.
\<close>

section \<open>Sorting by a key that separates the elements\<close>

lemma sort_key_unique:
  assumes "inj_on f (set xs)" "distinct xs" "distinct ys" "set ys = set xs" "sorted (map f ys)"
  shows "sort_key f xs = ys"
proof -
  have "map f (sort_key f xs) = map f ys"
    by (rule sorted_distinct_set_unique) (use assms in \<open>simp_all add: distinct_map\<close>)
  then show ?thesis using assms(1,4) by (intro map_inj_on [of f]) simp_all
qed

section \<open>The meter history of a lease\<close>

definition is_metered :: "bill \<Rightarrow> bool" where
  "is_metered b \<longleftrightarrow> b_Type b = ''electricity'' \<and> b_MeterCurrentReading b \<noteq> None"

definition end_day :: "bill \<Rightarrow> int" where
  "end_day b = t_day (b_PeriodEnd b)"

text \<open>The metered bills of a lease in the order of their periods.\<close>

definition meter_history :: "string \<Rightarrow> db \<Rightarrow> bill list" where
  "meter_history k d = sort_key end_day (filter is_metered (bills_of k d))"

definition usage :: "bill \<Rightarrow> int" where
  "usage b = the (b_MeterCurrentReading b) - the (b_MeterPreviousReading b)"

definition starting_reading :: "lease \<Rightarrow> int" where
  "starting_reading l = (case l_StartingMeterReading l of Some r \<Rightarrow> r | None \<Rightarrow> 0)"

fun chain :: "int \<Rightarrow> bill list \<Rightarrow> bool" where
  "chain r [] = True"
| "chain r (b # bs) = (b_MeterPreviousReading b = Some r \<and> b_MeterCurrentReading b \<noteq> None
     \<and> r \<le> the (b_MeterCurrentReading b) \<and> chain (the (b_MeterCurrentReading b)) bs)"

fun last_reading :: "int \<Rightarrow> bill list \<Rightarrow> int" where
  "last_reading r [] = r"
| "last_reading r (b # bs) = last_reading (the (b_MeterCurrentReading b)) bs"

lemma last_reading_snoc: "last_reading r (bs @ [b]) = the (b_MeterCurrentReading b)"
  by (induction bs arbitrary: r) simp_all

lemma chain_snoc:
  "chain r (bs @ [b]) \<longleftrightarrow> chain r bs \<and> b_MeterPreviousReading b = Some (last_reading r bs)
     \<and> b_MeterCurrentReading b \<noteq> None \<and> last_reading r bs \<le> the (b_MeterCurrentReading b)"
  by (induction bs arbitrary: r) simp_all

lemma chain_usage: "chain r bs \<Longrightarrow> sum_list (map usage bs) = last_reading r bs - r"
proof (induction bs arbitrary: r)
  case (Cons b bs)
  then show ?case using Cons.IH [of "the (b_MeterCurrentReading b)"] by (auto simp: usage_def [of b])
qed simp

text \<open>What holds of the electricity bills of a lease while its periods are
  recorded in order.\<close>

definition meters_ok :: "lease \<Rightarrow> db \<Rightarrow> bool" where
  "meters_ok l d \<longleftrightarrow> distinct (map b_ID (live (db_bills d)))
     \<and> (\<forall>b \<in> set (live (db_bills d)). bill_typed b
          \<and> (b_Status b = StatusPendingMeter \<longrightarrow> b_MeterCurrentReading b = None)
          \<and> t_day (b_PeriodStart b) \<le> t_day (b_PeriodEnd b))
     \<and> inj_on end_day (set (filter is_metered (bills_of (l_ID l) d)))
     \<and> chain (starting_reading l) (meter_history (l_ID l) d)"

lemma history_order:
  assumes "meters_ok l d"
  shows "distinct (filter is_metered (bills_of (l_ID l) d))" "distinct (meter_history (l_ID l) d)"
    "set (meter_history (l_ID l) d) = set (filter is_metered (bills_of (l_ID l) d))"
    "sorted (map end_day (meter_history (l_ID l) d))"
  using assms by (auto simp: meters_ok_def meter_history_def bills_of_def distinct_map intro!: distinct_filter)

text \<open>The query for the previous reading finds the last one of the history when
  no later period has been recorded.\<close>

lemma previous_reading_last:
  assumes ok: "meters_ok l d"
    and before: "\<forall>c \<in> set (meter_history (l_ID l) d). end_day c < t_day t"
  shows "previous_reading l t d = last_reading (starting_reading l) (meter_history (l_ID l) d)"
proof -
  let ?f = "\<lambda>b. (- t_day (b_PeriodEnd b), - t_day (b_DueDate b), - instant (b_CreatedAt b))"
  let ?M = "filter is_metered (bills_of (l_ID l) d)" and ?H = "meter_history (l_ID l) d"
  note h = history_order [OF ok]
  have "filter (\<lambda>b. b_Type b = ''electricity'' \<and> b_MeterCurrentReading b \<noteq> None
      \<and> t_day (b_PeriodEnd b) < t_day t) (bills_of (l_ID l) d) = ?M"
    using before h(3) by (intro filter_cong refl) (auto simp: is_metered_def end_day_def)
  moreover have "sort_key ?f ?M = rev ?H"
  proof (rule sort_key_unique)
    show "inj_on ?f (set ?M)" "distinct ?M"
      using ok h(1) by (auto simp: meters_ok_def inj_on_def end_day_def)
    have "sorted_wrt (\<lambda>x y. end_day x < end_day y) ?H"
    proof -
      have "distinct (map end_day ?H)" using h(2,3) ok by (simp add: distinct_map meters_ok_def)
      then have "sorted_wrt (<) (map end_day ?H)" using h(4) by (simp add: strict_sorted_iff)
      then show ?thesis by (simp add: sorted_wrt_map)
    qed
    then show "sorted (map ?f (rev ?H))"
      unfolding rev_map [symmetric] sorted_wrt_rev sorted_wrt_map
      by (rule sorted_wrt_mono_rel [rotated]) (auto simp: end_day_def)
  qed (use h in simp_all)
  ultimately have "metered_before (l_ID l) t d = rev ?H" by (simp add: metered_before_def)
  then show ?thesis
    by (cases ?H rule: rev_cases)
      (simp_all add: previous_reading_def starting_reading_def last_reading_snoc)
qed

section \<open>Recording in order\<close>

lemma ball_insert_minus: "P x \<Longrightarrow> \<forall>c \<in> A. P c \<Longrightarrow> \<forall>c \<in> insert x (A - {b}). P c"
  by blast

text \<open>The history after the bill \<open>b\<close>, the last of the periods, got its reading.\<close>

lemma history_extends:
  assumes ok: "meters_ok l d" and b: "bill_by_id k d = Some b" "b_LeaseID b = l_ID l"
    and before: "\<forall>c \<in> set (meter_history (l_ID l) d). end_day c < t_day (b_PeriodStart b)"
    and b': "b' = bumped E f b" "is_metered b'" "\<not> is_metered b"
      "b_LeaseID b' = b_LeaseID b" "b_PeriodEnd b' = b_PeriodEnd b" "b_ID b' = b_ID b"
    and d': "live (db_bills d') = map (\<lambda>c. if b_ID c = k \<and> b_Version c = b_Version b then bumped E f c else c)
       (live (db_bills d))"
  shows "meter_history (l_ID l) d' = meter_history (l_ID l) d @ [b']"
    and "inj_on end_day (set (filter is_metered (bills_of (l_ID l) d')))"
    and "set (live (db_bills d')) = insert b' (set (live (db_bills d)) - {b})"
    and "distinct (map b_ID (live (db_bills d')))"
proof -
  let ?H = "meter_history (l_ID l) d"
  note h = history_order [OF ok]
  have dist: "distinct (map b_ID (live (db_bills d)))" using ok by (simp add: meters_ok_def)
  have mem: "b \<in> set (live (db_bills d))" "b_ID b = k" using bill_by_id_Some [OF b(1)] by auto
  have only: "b_ID c = k \<and> b_Version c = b_Version b \<longleftrightarrow> c = b" if "c \<in> set (live (db_bills d))" for c
    using that mem dist by (auto simp: distinct_map dest: inj_onD)
  have bills: "live (db_bills d') = map (\<lambda>c. if c = b then b' else c) (live (db_bills d))"
    unfolding d' using only b'(1) by (intro map_cong) auto
  have "map b_ID (live (db_bills d')) = map b_ID (live (db_bills d))"
    unfolding bills using b'(6) by simp
  then show dist': "distinct (map b_ID (live (db_bills d')))" using dist by simp
  show set': "set (live (db_bills d')) = insert b' (set (live (db_bills d)) - {b})"
    unfolding bills using mem(1) by auto
  have M': "set (filter is_metered (bills_of (l_ID l) d')) = insert b' (set ?H)"
    unfolding h(3) using set' b'(2-4) b(2) by (auto simp: bills_of_def)
  have later: "\<forall>c \<in> set ?H. end_day c < end_day b'"
    using before ok mem(1) b'(5) by (fastforce simp: meters_ok_def end_day_def)
  then show inj: "inj_on end_day (set (filter is_metered (bills_of (l_ID l) d')))"
    unfolding M' using ok h(3) by (auto simp: meters_ok_def)
  have "b' \<notin> set ?H" using later by auto
  moreover have "distinct (filter is_metered (bills_of (l_ID l) d'))"
    using dist' by (simp add: bills_of_def distinct_map distinct_filter)
  ultimately show "meter_history (l_ID l) d' = ?H @ [b']"
    unfolding meter_history_def [of _ d'] using h inj M' later
    by (intro sort_key_unique) (auto simp: sorted_append)
qed

lemma RecordMeter_Execute_ok:
  assumes "RecordMeter_Execute E (server_publish E) input w = (Inr r, w')"
  shows "\<exists>v0 v. w_db v0 = w_db w \<and> w_events v0 = []
     \<and> RecordMeter_body E input (trim (rmi_BillID input)) v0 = (Inr r, v)
     \<and> w_db w' = events_effect E (w_events v) (w_db v)"
proof -
  have "WithinTransaction (server_publish E) (RecordMeter_body E input (trim (rmi_BillID input))) w = (Inr r, w')"
    using assms by (auto simp: RecordMeter_Execute_def RecordMeter_validate_def normalizeBillID_def
        Let_def tx_control split: if_splits sum.splits)
  from server_run_D [OF this] show ?thesis by blast
qed

lemma meter_event_effect: "type_of_event ev = T_MeterRecorded \<or> type_of_event ev = T_BillPaid \<Longrightarrow>
    events_effect E [ev] d = d"
  by (cases ev) (simp_all add: events_effect_def)

lemma RecordMeter_effect:
  assumes "RecordMeter_Execute E (server_publish E) input w = (Inr r, w')"
    and "\<forall>b \<in> set (live (db_bills (w_db w))). bill_typed b"
  shows "\<exists>b l q price p. bill_by_id (trim (rmi_BillID input)) (w_db w) = Some b
     \<and> lease_by_id (b_LeaseID b) (w_db w) = Some l
     \<and> find (\<lambda>q. pr_ID q = b_PropertyID b) (live (db_properties (w_db w))) = Some q
     \<and> pr_ElectricityUnitPrice q = Some price
     \<and> b_Type b = TypeElectricity \<and> b_Status b = StatusPendingMeter
     \<and> p = previous_reading l (b_PeriodStart b) (w_db w) \<and> p \<le> rmi_CurrentReading input
     \<and> w_db w' = with_bill E (trim (rmi_BillID input)) (b_Version b)
          (metered_bill p (rmi_CurrentReading input) (numeric4 (fl64 price))
            (utc_or_now E (rmi_RecordedAt input)) (meter_amount p (rmi_CurrentReading input) (fl64 price)))
          (w_db w)"
proof -
  obtain v0 v where v: "w_db v0 = w_db w" "w_events v0 = []"
    "RecordMeter_body E input (trim (rmi_BillID input)) v0 = (Inr r, v)"
    "w_db w' = events_effect E (w_events v) (w_db v)"
    using RecordMeter_Execute_ok [OF assms(1)] by blast
  show ?thesis
    using RecordMeter_body_ok [OF v(3)] assms(2) v(1,2,4) by (auto simp: meter_event_effect)
qed

lemma metered_fields [simp]:
  "b_ID (bumped E (metered_bill p c u tm a) b) = b_ID b"
  "b_LeaseID (bumped E (metered_bill p c u tm a) b) = b_LeaseID b"
  "b_Type (bumped E (metered_bill p c u tm a) b) = b_Type b"
  "b_PeriodStart (bumped E (metered_bill p c u tm a) b) = b_PeriodStart b"
  "b_PeriodEnd (bumped E (metered_bill p c u tm a) b) = b_PeriodEnd b"
  "b_Status (bumped E (metered_bill p c u tm a) b) = ''pending_payment''"
  "b_Amount (bumped E (metered_bill p c u tm a) b) = Some a"
  "b_MeterPreviousReading (bumped E (metered_bill p c u tm a) b) = Some p"
  "b_MeterCurrentReading (bumped E (metered_bill p c u tm a) b) = Some c"
  "b_MeterUnitPrice (bumped E (metered_bill p c u tm a) b) = Some u"
  by (simp_all add: bumped_def metered_bill_def)

text \<open>
  C14.  Metering in order bills every unit exactly once.  Let the readings of a
  lease form a chain (each bill starts where the one before ended, the first at
  the starting reading), and let no period from the bill's on be recorded yet.
  Then a successful \<open>RecordMeter\<close> appends the bill to the chain: it starts at
  the last reading, it is billed the rounded cost of its own units at the unit
  price of its property, and all units billed so far are exactly the distance
  the meter moved since the lease began.  No other bill changes.
\<close>

theorem RecordMeter_extends_chain:
  assumes run: "RecordMeter_Execute E (server_publish E) input w = (Inr r, w')"
    and b: "bill_by_id (trim (rmi_BillID input)) (w_db w) = Some b"
    and l: "lease_by_id (b_LeaseID b) (w_db w) = Some l" and ok: "meters_ok l (w_db w)"
    and before: "\<forall>c \<in> set (meter_history (l_ID l) (w_db w)). end_day c < t_day (b_PeriodStart b)"
  shows "\<exists>b' price. meter_history (l_ID l) (w_db w') = meter_history (l_ID l) (w_db w) @ [b']
     \<and> b_ID b' = b_ID b \<and> b_Status b' = StatusPendingPayment
     \<and> b_MeterPreviousReading b'
         = Some (last_reading (starting_reading l) (meter_history (l_ID l) (w_db w)))
     \<and> b_MeterCurrentReading b' = Some (rmi_CurrentReading input)
     \<and> b_Amount b' = Some (meter_amount
         (last_reading (starting_reading l) (meter_history (l_ID l) (w_db w)))
         (rmi_CurrentReading input) (fl64 price))
     \<and> (\<exists>q. find (\<lambda>q. pr_ID q = b_PropertyID b) (live (db_properties (w_db w))) = Some q
          \<and> pr_ElectricityUnitPrice q = Some price)
     \<and> sum_list (map usage (meter_history (l_ID l) (w_db w')))
         = rmi_CurrentReading input - starting_reading l
     \<and> set (live (db_bills (w_db w'))) = insert b' (set (live (db_bills (w_db w))) - {b})
     \<and> meters_ok l (w_db w')"
proof -
  have typed: "\<forall>b \<in> set (live (db_bills (w_db w))). bill_typed b" using ok by (simp add: meters_ok_def)
  let ?c = "rmi_CurrentReading input" and ?last = "last_reading (starting_reading l) (meter_history (l_ID l) (w_db w))"
  have id: "b_LeaseID b = l_ID l" using lease_by_id_Some [OF l] by simp
  obtain q price u tm where x: "find (\<lambda>q. pr_ID q = b_PropertyID b) (live (db_properties (w_db w))) = Some q"
    "pr_ElectricityUnitPrice q = Some price" "b_Type b = TypeElectricity" "b_Status b = StatusPendingMeter"
    "?last \<le> ?c" and
    w': "w_db w' = with_bill E (trim (rmi_BillID input)) (b_Version b)
      (metered_bill ?last ?c u tm (meter_amount ?last ?c (fl64 price))) (w_db w)"
    using RecordMeter_effect [OF run typed] b l previous_reading_last [OF ok before] by auto
  let ?b' = "bumped E (metered_bill ?last ?c u tm (meter_amount ?last ?c (fl64 price))) b"
  have "b \<in> set (live (db_bills (w_db w)))" using bill_by_id_Some [OF b] by simp
  then have unread: "\<not> is_metered b" and wf: "bill_typed b" "t_day (b_PeriodStart b) \<le> t_day (b_PeriodEnd b)"
    using ok x(4) by (auto simp: meters_ok_def is_metered_def)
  have m: "is_metered ?b'" using x(3) by (simp add: is_metered_def TypeElectricity_def)
  have d': "live (db_bills (w_db w')) = map (\<lambda>k. if b_ID k = trim (rmi_BillID input) \<and> b_Version k = b_Version b
      then bumped E (metered_bill ?last ?c u tm (meter_amount ?last ?c (fl64 price))) k else k)
      (live (db_bills (w_db w)))"
    by (simp add: w')
  note ext = history_extends [OF ok b id before refl m unread metered_fields(2,5,1) d']
  note hist = ext(1)
  have chain': "chain (starting_reading l) (meter_history (l_ID l) (w_db w'))"
    unfolding hist chain_snoc using ok x(5) by (simp add: meters_ok_def)
  have typed': "\<forall>c \<in> set (live (db_bills (w_db w'))). bill_typed c
          \<and> (b_Status c = StatusPendingMeter \<longrightarrow> b_MeterCurrentReading c = None)
          \<and> t_day (b_PeriodStart c) \<le> t_day (b_PeriodEnd c)"
  proof -
    have "bill_typed ?b'" "b_Status ?b' \<noteq> StatusPendingMeter"
      using x(3) by (simp_all add: bill_typed_def bill_consts)
    then have new: "bill_typed ?b' \<and> (b_Status ?b' = StatusPendingMeter \<longrightarrow> b_MeterCurrentReading ?b' = None)
        \<and> t_day (b_PeriodStart ?b') \<le> t_day (b_PeriodEnd ?b')" using wf(2) by simp
    show ?thesis
      unfolding ext(3)
      by (rule ball_insert_minus) (use new ok [unfolded meters_ok_def] in blast)+
  qed
  have "meters_ok l (w_db w')"
    unfolding meters_ok_def using ext(2,4) typed' chain' by simp
  moreover have "sum_list (map usage (meter_history (l_ID l) (w_db w'))) = ?c - starting_reading l"
    using chain_usage [OF chain'] unfolding hist last_reading_snoc by simp
  moreover note ext(3)
  moreover have "b_ID ?b' = b_ID b" "b_Status ?b' = StatusPendingPayment"
    "b_MeterPreviousReading ?b' = Some ?last" "b_MeterCurrentReading ?b' = Some ?c"
    "b_Amount ?b' = Some (meter_amount ?last ?c (fl64 price))"
    by (simp_all add: StatusPendingPayment_def)
  moreover have "\<exists>q. find (\<lambda>q. pr_ID q = b_PropertyID b) (live (db_properties (w_db w))) = Some q
      \<and> pr_ElectricityUnitPrice q = Some price" using x(1,2) by blast
  ultimately show ?thesis using hist
    by (intro exI [of _ ?b'] exI [of _ price]) (simp only: simp_thms)
qed

text \<open>The office with the lease from 31 January 2024 (starting reading 10) and
  its first electricity bill.\<close>

definition unread_bill :: bill where
  "unread_bill = (new_bill sample_env 1 \<lparr>cbp_LeaseID = l_ID leased_row, cbp_TenantID = ''t1'',
     cbp_RoomID = ''r1'', cbp_PropertyID = ''p1'', cbp_Type = ''electricity'', cbp_Amount = None,
     cbp_PeriodStart = go_date 2024 1 31 0, cbp_PeriodEnd = go_date 2024 2 29 0,
     cbp_DueDate = go_date 2024 1 31 0, cbp_Status = ''pending_meter''\<rparr>)\<lparr>b_ID := ''e1''\<rparr>"

definition meter_world :: world where
  "meter_world = sample_world\<lparr>w_db := add_bills [unread_bill] (add_lease leased_row sample_db)\<rparr>"

definition sample_meter :: record_meter_input where
  "sample_meter = \<lparr>rmi_ActorRole = ''staff'', rmi_BillID = ''e1 '', rmi_CurrentReading = 133,
     rmi_RecordedAt = None\<rparr>"

lemma meter_facts:
  "bill_by_id ''e1'' (w_db meter_world) = Some unread_bill"
  "lease_by_id (b_LeaseID unread_bill) (w_db meter_world) = Some leased_row"
  "meter_history (l_ID leased_row) (w_db meter_world) = []"
  "starting_reading leased_row = 10" "b_Type unread_bill = TypeElectricity"
  "b_Status unread_bill = StatusPendingMeter" "live (db_bills (w_db meter_world)) = [unread_bill]"
  "b_MeterCurrentReading unread_bill = None"
  "t_day (b_PeriodStart unread_bill) \<le> t_day (b_PeriodEnd unread_bill)"
  "previous_reading leased_row (b_PeriodStart unread_bill) (w_db meter_world) = 10"
  "filter is_metered (bills_of (l_ID leased_row) (w_db meter_world)) = []"
  by code_simp+

lemma meter_world_ok: "meters_ok leased_row (w_db meter_world)"
  using meter_facts by (simp add: meters_ok_def bill_typed_def)

lemma sample_meter_runs:
  "\<exists>r w'. RecordMeter_Execute sample_env (server_publish sample_env) sample_meter meter_world = (Inr r, w')"
proof -
  have "calm meter_world" by (simp add: meter_world_def sample_world_def calm_def)
  moreover have "RecordMeter_validate sample_env sample_meter = Inr ''e1''" by code_simp
  moreover have "\<exists>q. find (\<lambda>q. pr_ID q = b_PropertyID unread_bill) (live (db_properties (w_db meter_world))) = Some q
      \<and> pr_ElectricityUnitPrice q = Some (11 / 2)"
    by (simp add: meter_world_def sample_world_def sample_db_def sample_tenant_def sample_room_def sample_property_def unread_bill_def new_bill_def live_def
        add_bills_def add_lease_def)
  ultimately have "wp (RecordMeter_Execute sample_env (server_publish sample_env) sample_meter) (\<lambda>_. calm) meter_world"
    unfolding RecordMeter_Execute_def using meter_facts(1,2,5,6,10)
    by (auto simp: wp_simps sample_meter_def bill_typed_def intro!: server_command_runs RecordMeter_body_runs)
  then show ?thesis by (rule wp_result)
qed

lemma RecordMeter_extends_chain_witness:
  "\<exists>r w' b'. RecordMeter_Execute sample_env (server_publish sample_env) sample_meter meter_world = (Inr r, w')
     \<and> meter_history (l_ID leased_row) (w_db w') = [b'] \<and> b_MeterPreviousReading b' = Some 10
     \<and> usage b' = 123"
proof -
  obtain r w' where r: "RecordMeter_Execute sample_env (server_publish sample_env) sample_meter meter_world = (Inr r, w')"
    using sample_meter_runs by blast
  have id: "trim (rmi_BillID sample_meter) = ''e1''" "rmi_CurrentReading sample_meter = 133" by code_simp+
  have b: "bill_by_id (trim (rmi_BillID sample_meter)) (w_db meter_world) = Some unread_bill"
    unfolding id by (rule meter_facts(1))
  show ?thesis
    using RecordMeter_extends_chain [OF r b meter_facts(2) meter_world_ok] r meter_facts(3,4) id(2) by auto
qed

lemma unit_price_roundtrip_witness:
  "\<exists>u w1 ab v b'. FindPropertyElectricityUnitPrice ''p1'' meter_world = (Inr (Some u), w1)
     \<and> UpdateBillMeter sample_env \<lparr>ump_BillID = ''e1'', ump_Version = 1, ump_MeterPreviousReading = 10,
         ump_MeterCurrentReading = 133, ump_MeterUnitPrice = u, ump_MeterRecordedAt = zero_time,
         ump_Amount = 677\<rparr> w1 = (Inr ab, v)
     \<and> bill_by_id ''e1'' (w_db v) = Some b' \<and> b_MeterUnitPrice b' = Some (11 / 2)"
proof -
  have calm: "calm meter_world" by (simp add: meter_world_def sample_world_def calm_def)
  obtain q where q: "find (\<lambda>q. pr_ID q = ''p1'') (live (db_properties (w_db meter_world))) = Some q"
    "pr_ElectricityUnitPrice q = Some (11 / 2)"
    by (simp add: meter_world_def sample_world_def sample_db_def sample_tenant_def sample_room_def sample_property_def live_def add_bills_def add_lease_def)
  let ?params = "\<lambda>u. \<lparr>ump_BillID = ''e1'', ump_Version = 1, ump_MeterPreviousReading = 10,
         ump_MeterCurrentReading = 133, ump_MeterUnitPrice = u, ump_MeterRecordedAt = zero_time, ump_Amount = 677\<rparr>"
  have one: "b_Version unread_bill = 1" "b_ID unread_bill = ''e1''" by code_simp+
  have f: "bill_by_id ''e1'' (with_bill sample_env ''e1'' 1 (metered_bill p c u tm a) (w_db meter_world))
      = Some (bumped sample_env (metered_bill p c u tm a) unread_bill)" for p c u tm a
    by (rule bill_by_id_with_bill [OF meter_facts(1) one(1)]) (simp add: metered_bill_def)
  obtain w1 where w1: "FindPropertyElectricityUnitPrice ''p1'' meter_world = (Inr (Some (fl64 (11 / 2))), w1)"
    "calm w1" "w_db w1 = w_db meter_world"
  proof -
    have "wp (FindPropertyElectricityUnitPrice ''p1'')
        (\<lambda>x v. x = Some (fl64 (11 / 2)) \<and> calm v \<and> w_db v = w_db meter_world) meter_world"
      unfolding wp_billing_queries(3)
      using q(1) calm by (intro conjI exI [of _ q]) (simp_all only: q(2) option.map stepped_simps calm_simps simp_thms)
    then show thesis using that by (auto simp: wp_def)
  qed
  have "wp (UpdateBillMeter sample_env (?params (fl64 (11 / 2)))) (\<lambda>_ _. True) w1"
    using w1(2,3) meter_facts(7) one f
    by (simp add: UpdateBillMeter_def UpdateMeter_def wp_simps metered_bill_def [abs_def])
  then obtain ab v where v: "UpdateBillMeter sample_env (?params (fl64 (11 / 2))) w1 = (Inr ab, v)"
    by (auto simp: wp_def)
  have "is_numeric4 (11 / 2)"
  proof -
    have "(11 / 2 :: rat) * 10000 = of_int 55000" by simp
    then show ?thesis unfolding is_numeric4_def by (intro conjI exI) simp_all
  qed
  from unit_price_roundtrip [OF w1(1) q this v] meter_facts(1) one(1) w1(1) v show ?thesis by auto
qed

section \<open>Recording out of order\<close>

lemma map_if_hits: "x \<in> set xs \<Longrightarrow> P x \<Longrightarrow> f x \<in> set (map (\<lambda>x. if P x then f x else x) xs)"
  by (induction xs) auto

text \<open>
  C15.  Nothing stops an earlier period from being recorded after a later one,
  and then units are billed twice.  If a later bill of the lease was already
  billed from the reading that precedes the earlier bill, a successful
  \<open>RecordMeter\<close> on the earlier bill starts from the same reading again: the two
  bills together charge the whole distance the meter moved and, on top of it,
  the distance to the lower of the two readings.
\<close>

theorem late_meter_bills_twice:
  assumes run: "RecordMeter_Execute E (server_publish E) input w = (Inr r, w')"
    and b: "bill_by_id (trim (rmi_BillID input)) (w_db w) = Some b"
    and l: "lease_by_id (b_LeaseID b) (w_db w) = Some l" and ok: "meters_ok l (w_db w)"
    and c: "c \<in> set (meter_history (l_ID l) (w_db w))" "t_day (b_PeriodStart b) \<le> end_day c"
      "b_MeterPreviousReading c = Some (previous_reading l (b_PeriodStart b) (w_db w))"
  shows "\<exists>b'. b' \<in> set (live (db_bills (w_db w'))) \<and> c \<in> set (live (db_bills (w_db w')))
     \<and> b_ID b' = b_ID b \<and> b_ID c \<noteq> b_ID b
     \<and> b_MeterPreviousReading b' = b_MeterPreviousReading c
     \<and> usage b' + usage c =
         (max (rmi_CurrentReading input) (the (b_MeterCurrentReading c)) - the (b_MeterPreviousReading c))
         + (min (rmi_CurrentReading input) (the (b_MeterCurrentReading c)) - the (b_MeterPreviousReading c))"
proof -
  have typed: "\<forall>b \<in> set (live (db_bills (w_db w))). bill_typed b" using ok by (simp add: meters_ok_def)
  let ?p = "previous_reading l (b_PeriodStart b) (w_db w)" and ?c = "rmi_CurrentReading input"
  obtain u tm amount where x: "b_Status b = StatusPendingMeter" and
    w': "w_db w' = with_bill E (trim (rmi_BillID input)) (b_Version b) (metered_bill ?p ?c u tm amount) (w_db w)"
    using RecordMeter_effect [OF run typed] b l by auto
  let ?b' = "bumped E (metered_bill ?p ?c u tm amount) b"
  have mem: "b \<in> set (live (db_bills (w_db w)))" "b_ID b = trim (rmi_BillID input)"
    using bill_by_id_Some [OF b] by auto
  have cm: "c \<in> set (live (db_bills (w_db w)))" "is_metered c"
    using c(1) history_order(3) [OF ok] by (auto simp: bills_of_def)
  have "b \<noteq> c" using ok mem(1) x cm(2) by (auto simp: meters_ok_def is_metered_def)
  then have other: "b_ID c \<noteq> b_ID b"
    using ok mem(1) cm(1) by (auto simp: meters_ok_def distinct_map dest: inj_onD)
  have "?b' \<in> set (live (db_bills (w_db w')))" "c \<in> set (live (db_bills (w_db w')))"
    unfolding w' with_bill_simps
    by (rule map_if_hits; use mem in simp) (rule map_if_keeps; use cm(1) other mem in simp)
  then show ?thesis
    using other c(3) by (intro exI [of _ ?b']) (simp add: usage_def)
qed

text \<open>The bill of March and April was read first.\<close>

definition later_bill :: bill where
  "later_bill = (unread_bill\<lparr>b_ID := ''e2'', b_PeriodStart := go_date 2024 3 1 0,
     b_PeriodEnd := go_date 2024 4 29 0, b_Status := ''pending_payment'', b_Amount := Some 677,
     b_MeterPreviousReading := Some 10, b_MeterCurrentReading := Some 133\<rparr>)"

definition late_world :: world where
  "late_world = meter_world\<lparr>w_db := add_bills [later_bill] (w_db meter_world)\<rparr>"

definition late_meter :: record_meter_input where
  "late_meter = sample_meter\<lparr>rmi_CurrentReading := 80\<rparr>"

lemma late_facts:
  "bill_by_id ''e1'' (w_db late_world) = Some unread_bill"
  "lease_by_id (b_LeaseID unread_bill) (w_db late_world) = Some leased_row"
  "meter_history (l_ID leased_row) (w_db late_world) = [later_bill]"
  "live (db_bills (w_db late_world)) = [unread_bill, later_bill]"
  "t_day (b_PeriodStart later_bill) \<le> t_day (b_PeriodEnd later_bill)"
  "previous_reading leased_row (b_PeriodStart unread_bill) (w_db late_world) = 10"
  "filter is_metered (bills_of (l_ID leased_row) (w_db late_world)) = [later_bill]"
  "t_day (b_PeriodStart unread_bill) \<le> end_day later_bill"
  "b_ID unread_bill \<noteq> b_ID later_bill"
  by code_simp+

lemma late_world_ok: "meters_ok leased_row (w_db late_world)"
  using late_facts meter_facts(4-6,8,9)
  by (simp add: meters_ok_def bill_typed_def) (simp add: later_bill_def bill_consts unread_bill_def new_bill_def)

lemma late_meter_runs:
  "\<exists>r w'. RecordMeter_Execute sample_env (server_publish sample_env) late_meter late_world = (Inr r, w')"
proof -
  have "calm late_world" by (simp add: late_world_def meter_world_def sample_world_def calm_def)
  moreover have "RecordMeter_validate sample_env late_meter = Inr ''e1''" by code_simp
  moreover have "\<exists>q. find (\<lambda>q. pr_ID q = b_PropertyID unread_bill) (live (db_properties (w_db late_world))) = Some q
      \<and> pr_ElectricityUnitPrice q = Some (11 / 2)"
    by (simp add: late_world_def meter_world_def sample_world_def sample_db_def sample_tenant_def sample_room_def sample_property_def unread_bill_def new_bill_def
        live_def add_bills_def add_lease_def)
  ultimately have "wp (RecordMeter_Execute sample_env (server_publish sample_env) late_meter) (\<lambda>_. calm) late_world"
    unfolding RecordMeter_Execute_def using late_facts(1,2,6) meter_facts(5,6)
    by (auto simp: wp_simps late_meter_def sample_meter_def bill_typed_def
        intro!: server_command_runs RecordMeter_body_runs)
  then show ?thesis by (rule wp_result)
qed

lemma late_meter_bills_twice_witness:
  "\<exists>r w' b'. RecordMeter_Execute sample_env (server_publish sample_env) late_meter late_world = (Inr r, w')
     \<and> b' \<in> set (live (db_bills (w_db w'))) \<and> later_bill \<in> set (live (db_bills (w_db w')))
     \<and> usage b' + usage later_bill = 123 + 70"
proof -
  obtain r w' where r: "RecordMeter_Execute sample_env (server_publish sample_env) late_meter late_world = (Inr r, w')"
    using late_meter_runs by blast
  have id: "trim (rmi_BillID late_meter) = ''e1''" "rmi_CurrentReading late_meter = 80" by code_simp+
  have b: "bill_by_id (trim (rmi_BillID late_meter)) (w_db late_world) = Some unread_bill"
    unfolding id by (rule late_facts(1))
  have c: "later_bill \<in> set (meter_history (l_ID leased_row) (w_db late_world))"
    "b_MeterPreviousReading later_bill = Some (previous_reading leased_row (b_PeriodStart unread_bill) (w_db late_world))"
    "b_MeterPreviousReading later_bill = Some 10" "b_MeterCurrentReading later_bill = Some 133"
    unfolding late_facts(3,6) by (simp_all add: later_bill_def)
  show ?thesis
    using late_meter_bills_twice [OF r b late_facts(2) late_world_ok c(1) late_facts(8) c(2)] r c(3,4) id(2)
    by auto
qed

end
