(* ===== verification/PaymentLedger.thy ===== *)
theory PaymentLedger
  imports BillingCommands
begin

text \<open>
  What recording a payment does: the bill is paid once, with exactly its
  amount, and the ledger of the property gets exactly one entry for it.
\<close>

section \<open>The effect of a payment\<close>

definition paid_bill :: "string \<Rightarrow> int \<Rightarrow> gtime \<Rightarrow> bill \<Rightarrow> bill" where
  "paid_bill m n tm b =
     b\<lparr>b_PaymentMethod := Some m, b_PaidAmount := Some n, b_PaidAt := Some tm, b_Status := ''paid''\<rparr>"

lemma paid_fields [simp]:
  "b_ID (bumped E (paid_bill m n tm) b) = b_ID b"
  "b_LeaseID (bumped E (paid_bill m n tm) b) = b_LeaseID b"
  "b_Type (bumped E (paid_bill m n tm) b) = b_Type b"
  "b_PropertyID (bumped E (paid_bill m n tm) b) = b_PropertyID b"
  "b_PeriodStart (bumped E (paid_bill m n tm) b) = b_PeriodStart b"
  "b_PeriodEnd (bumped E (paid_bill m n tm) b) = b_PeriodEnd b"
  "b_Status (bumped E (paid_bill m n tm) b) = ''paid''"
  "b_Amount (bumped E (paid_bill m n tm) b) = b_Amount b"
  "b_PaidAmount (bumped E (paid_bill m n tm) b) = Some n"
  by (simp_all add: bumped_def paid_bill_def)

lemma UpdateBillPayment_D:
  assumes "UpdateBillPayment E \<lparr>upp_BillID = k, upp_Version = n, upp_PaymentMethod = m,
      upp_PaidAmount = a, upp_PaidAt = tm\<rparr> w = (Inr ab, v)"
    and "bill_by_id k (w_db w) = Some b" "b_Version b = n"
  shows "w_db v = with_bill E k n (paid_bill m a tm) (w_db w) \<and> w_events v = w_events w
     \<and> ab = scanBill (w_db v) (bumped E (paid_bill m a tm) b)"
proof -
  let ?f = "paid_bill m a tm"
  obtain w1 where u: "update_bill_at ''update bill payment'' E k n ?f w = (Inr (), w1)"
    "FindBillByIDForUpdate k w1 = (Inr ab, v)"
    using assms(1) by (auto simp: UpdateBillPayment_def UpdatePayment_def paid_bill_def [abs_def] tx_control)
  have w1: "w_db w1 = with_bill E k n ?f (w_db w)" "w_events w1 = w_events w"
    using update_bill_at_D [OF u(1)] by simp_all
  have "bill_by_id k (w_db w1) = Some (bumped E ?f b)"
    unfolding w1 by (rule bill_by_id_with_bill [OF assms(2,3)]) (simp add: paid_bill_def)
  then show ?thesis using FindBillByIDForUpdate_D [OF u(2)] w1 by auto
qed

definition payment_category :: "string \<Rightarrow> string" where
  "payment_category billType = (if billType = TypeRent then ''rent_payment'' else ''electricity_payment'')"

definition payment_title :: "string \<Rightarrow> string" where
  "payment_title billType = (if billType = TypeRent then ''4603'' else ''4605'')"

lemma RecordPayment_body_ok:
  assumes "RecordPayment_body E input k method w = (Inr ab, v)"
    and typed: "\<forall>b \<in> set (live (db_bills (w_db w))). bill_typed b"
  shows "\<exists>b es. bill_by_id k (w_db w) = Some b
     \<and> b_Status b \<in> {StatusPendingPayment, StatusOverdue} \<and> b_Amount b = Some (rpi_PaidAmount input)
     \<and> booked (payment_entry b (payment_category (b_Type b)) (payment_title (b_Type b))
          (rpi_PaidAmount input) (utc_or_now E (rpi_PaidAt input))) (w_db w) es
     \<and> w_db v = add_entries es (with_bill E k (b_Version b) (paid_bill (trim method)
          (rpi_PaidAmount input) (utc_or_now E (rpi_PaidAt input))) (w_db w))
     \<and> (\<exists>ev. w_events v = w_events w @ [ev] \<and> type_of_event ev = T_BillPaid)"
proof -
  let ?n = "rpi_PaidAmount input" and ?t = "utc_or_now E (rpi_PaidAt input)"
  obtain cur state up cat title w1 w2 w3 where
    ops: "FindBillByIDForUpdate k w = (Inr cur, w1)"
      "RecordPayment (bill_Rehydrate (ab_row cur)) ?n method ?t = Inr state"
      "UpdateBillPayment E \<lparr>upp_BillID = k, upp_Version = b_Version (ab_row cur),
          upp_PaymentMethod = the (b_PaymentMethod state), upp_PaidAmount = the (b_PaidAmount state),
          upp_PaidAt = the (b_PaidAt state)\<rparr> w1 = (Inr up, w2)"
      "accountingCategoryForBillType (b_Type (ab_row up)) = Inr cat"
      "accountingTitleCodeForBillType (b_Type (ab_row up)) = Inr title"
      "CreateAccountingEntry E (payment_entry (ab_row up) cat title (the (b_PaidAmount state))
          (the (b_PaidAt state))) w2 = (Inr (), w3)" and
    ev: "w_db v = w_db w3" "\<exists>ev. w_events v = w_events w3 @ [ev] \<and> type_of_event ev = T_BillPaid"
    using assms(1) unfolding RecordPayment_body_def Let_def tx_control toDomainState_def
    by (auto simp: record_event_ok)
  obtain b where b: "bill_by_id k (w_db w) = Some b" "cur = scanBill (w_db w) b"
    "w_db w1 = w_db w" "w_events w1 = w_events w"
    using FindBillByIDForUpdate_D [OF ops(1)] by auto
  have bt: "bill_typed b" using typed bill_by_id_Some [OF b(1)] by blast
  have st: "b_Status b = StatusPendingPayment \<or> b_Status b = StatusOverdue" "b_Amount b = Some ?n"
    "b_PaymentMethod state = Some (trim method)" "b_PaidAmount state = Some ?n" "b_PaidAt state = Some ?t"
    using ops(2) unfolding b(2) Rehydrate_typed [OF bt] RecordPayment_Inr by auto
  have up: "w_db w2 = with_bill E k (b_Version b) (paid_bill (trim method) ?n ?t) (w_db w)"
    "w_events w2 = w_events w" "up = scanBill (w_db w2) (bumped E (paid_bill (trim method) ?n ?t) b)"
    using UpdateBillPayment_D [OF ops(3) [unfolded st option.sel b(2) scan_fields], of b] b by auto
  have cat: "cat = payment_category (b_Type b)" "title = payment_title (b_Type b)"
    using ops(4,5) unfolding up(3) by (auto simp: accountingCategoryForBillType_def
        accountingTitleCodeForBillType_def payment_category_def payment_title_def payment_consts split: if_splits)
  have "payment_entry (ab_row up) cat title ?n ?t
      = payment_entry b (payment_category (b_Type b)) (payment_title (b_Type b)) ?n ?t"
    unfolding cat up(3) by (simp add: payment_entry_def)
  then obtain es where es: "booked (payment_entry b (payment_category (b_Type b))
      (payment_title (b_Type b)) ?n ?t) (w_db w2) es" "w_db w3 = add_entries es (w_db w2)"
    "w_events w3 = w_events w2"
    using CreateAccountingEntry_ok [OF ops(6)] st(4,5) by auto
  have "booked (payment_entry b (payment_category (b_Type b)) (payment_title (b_Type b)) ?n ?t) (w_db w) es"
    using es(1) booked_cong [of "w_db w2" "w_db w"] by (simp add: up(1))
  then show ?thesis using b(1) st(1,2) es(2,3) up(1,2) ev by auto
qed

lemma RecordPayment_validate_ok:
  "RecordPayment_validate E input = Inr (k, m) \<Longrightarrow>
     k = trim (rpi_BillID input) \<and> m = trim (rpi_PaymentMethod input) \<and> m \<in> {''cash'', ''transfer'', ''other''}"
  by (auto simp: RecordPayment_validate_def normalizeBillID_def Let_def split: if_splits sum.splits)

lemma booked_single:
  assumes "booked p d es" "unique_codes d"
  shows "\<exists>e. es = [e] \<and> entry_view e = (aep_Category p, aep_AccountingTitleCode p, aep_Amount p)
     \<and> account_of (aep_PropertyID p) d = Some (en_PropertyAccountID e)
     \<and> en_SourceRef e = aep_SourceRef p \<and> en_Year e = aep_Year p \<and> en_Month e = aep_Month p
     \<and> en_SourceDate e = map_option pg_date (aep_SourceDate p)"
proof -
  obtain e where e: "es = [e]" using booked_one(1) [OF assms] by auto
  have "\<forall>e \<in> set es. en_SourceRef e = aep_SourceRef p"
    using assms(1) by (auto simp: booked_def new_entry_def)
  then show ?thesis using booked_one [OF assms] by (simp add: e)
qed

lemma RecordPayment_effect:
  assumes "RecordPayment_Execute E (server_publish E) input w = (Inr r, w')"
    and "\<forall>b \<in> set (live (db_bills (w_db w))). bill_typed b"
  shows "\<exists>b es. bill_by_id (trim (rpi_BillID input)) (w_db w) = Some b
     \<and> b_Status b \<in> {StatusPendingPayment, StatusOverdue} \<and> b_Amount b = Some (rpi_PaidAmount input)
     \<and> booked (payment_entry b (payment_category (b_Type b)) (payment_title (b_Type b))
          (rpi_PaidAmount input) (utc_or_now E (rpi_PaidAt input))) (w_db w) es
     \<and> w_db w' = add_entries es (with_bill E (trim (rpi_BillID input)) (b_Version b)
          (paid_bill (trim (rpi_PaymentMethod input)) (rpi_PaidAmount input)
             (utc_or_now E (rpi_PaidAt input))) (w_db w))"
proof -
  obtain k m where v: "RecordPayment_validate E input = Inr (k, m)" and
    tx: "WithinTransaction (server_publish E) (RecordPayment_body E input k m) w = (Inr r, w')"
    using assms(1) by (auto simp: RecordPayment_Execute_def tx_control)
  note km = RecordPayment_validate_ok [OF v]
  obtain v0 v where x: "w_db v0 = w_db w" "w_events v0 = []"
    "RecordPayment_body E input k m v0 = (Inr r, v)" "w_db w' = events_effect E (w_events v) (w_db v)"
    using server_run_D [OF tx] by blast
  have "events_effect E [ev] d = d" if "type_of_event ev = T_BillPaid" for ev d
    using that by (cases ev) (simp_all add: events_effect_def)
  then show ?thesis
    using RecordPayment_body_ok [OF x(3)] assms(2) x(1,2,4) km by auto
qed

section \<open>The properties\<close>

text \<open>
  C13.  A payment is booked once.  A successful \<open>RecordPayment\<close> found a bill
  waiting for payment (or overdue) whose amount is the amount paid; it marks
  exactly that bill paid, with that amount, and adds exactly one entry to the
  ledger: in the account of the bill's property, under the category and title
  of the bill's type, over the amount, and with the bill as its source.  No
  lease changes.
\<close>

theorem RecordPayment_books_once:
  assumes run: "RecordPayment_Execute E (server_publish E) input w = (Inr r, w')"
    and typed: "\<forall>b \<in> set (live (db_bills (w_db w))). bill_typed b" and "unique_codes (w_db w)"
  shows "\<exists>b b' e. bill_by_id (trim (rpi_BillID input)) (w_db w) = Some b
     \<and> b_Status b \<in> {StatusPendingPayment, StatusOverdue} \<and> b_Amount b = Some (rpi_PaidAmount input)
     \<and> bill_by_id (b_ID b) (w_db w') = Some b' \<and> b_Status b' = StatusPaid
     \<and> b_PaidAmount b' = b_Amount b \<and> b_Version b' = b_Version b + 1
     \<and> filter (\<lambda>c. b_ID c \<noteq> b_ID b) (live (db_bills (w_db w')))
       = filter (\<lambda>c. b_ID c \<noteq> b_ID b) (live (db_bills (w_db w)))
     \<and> db_entries (w_db w') = db_entries (w_db w) @ [e]
     \<and> account_of (b_PropertyID b) (w_db w) = Some (en_PropertyAccountID e)
     \<and> en_Category e = payment_category (b_Type b) \<and> en_TitleCode e = payment_title (b_Type b)
     \<and> en_Amount e = rpi_PaidAmount input \<and> en_SourceRef e = payment_source_ref (b_ID b)
     \<and> db_leases (w_db w') = db_leases (w_db w)"
proof -
  let ?k = "trim (rpi_BillID input)" and ?f = "paid_bill (trim (rpi_PaymentMethod input))
      (rpi_PaidAmount input) (utc_or_now E (rpi_PaidAt input))"
  obtain b es where x: "bill_by_id ?k (w_db w) = Some b"
     "b_Status b \<in> {StatusPendingPayment, StatusOverdue}" "b_Amount b = Some (rpi_PaidAmount input)"
     "booked (payment_entry b (payment_category (b_Type b)) (payment_title (b_Type b))
          (rpi_PaidAmount input) (utc_or_now E (rpi_PaidAt input))) (w_db w) es"
     "w_db w' = add_entries es (with_bill E ?k (b_Version b) ?f (w_db w))"
    using RecordPayment_effect [OF run typed] by blast
  have id: "?k = b_ID b" using bill_by_id_Some [OF x(1)] by simp
  obtain e where e: "es = [e]" "entry_view e = (payment_category (b_Type b), payment_title (b_Type b),
      rpi_PaidAmount input)" "account_of (b_PropertyID b) (w_db w) = Some (en_PropertyAccountID e)"
    "en_SourceRef e = payment_source_ref (b_ID b)"
    using booked_single [OF x(4) assms(3)] by (auto simp: payment_entry_def Let_def)
  let ?b' = "bumped E ?f b"
  have "bill_by_id (b_ID b) (w_db w') = Some ?b'"
    using bill_by_id_with_bill [OF x(1) refl, of ?f E] x(5)
    by (simp add: id bill_by_id_def paid_bill_def)
  moreover have "b_Status ?b' = StatusPaid" "b_PaidAmount ?b' = b_Amount b" "b_Version ?b' = b_Version b + 1"
    using x(3) by (simp_all add: StatusPaid_def) (simp add: bumped_def)
  moreover have "filter (\<lambda>c. b_ID c \<noteq> b_ID b) (live (db_bills (w_db w')))
       = filter (\<lambda>c. b_ID c \<noteq> b_ID b) (live (db_bills (w_db w)))"
    unfolding x(5) add_entries_simps with_bill_simps
    by (rule filter_map_if_other) (simp_all add: id)
  moreover have "db_entries (w_db w') = db_entries (w_db w) @ [e]" "db_leases (w_db w') = db_leases (w_db w)"
    by (simp_all add: x(5) e(1))
  ultimately show ?thesis
    using x(1-3) e(2-4) by (intro exI [of _ b] exI [of _ ?b'] exI [of _ e]) (simp add: entry_view_def)
qed

text \<open>
  A bill is never paid twice.  Once a bill is paid, every further
  \<open>RecordPayment\<close> for it fails and leaves the database as it is; when no
  statement fails and the request itself is valid, the caller is told
  \<open>BILL_ALREADY_PAID\<close>.
\<close>

theorem paid_bill_refuses_payment:
  assumes b: "bill_by_id (trim (rpi_BillID input)) (w_db w) = Some b" "b_Status b = StatusPaid"
  shows "\<exists>e w'. RecordPayment_Execute E publish input w = (Inl e, w') \<and> w_db w' = w_db w
     \<and> (w_faults w = [] \<and> is_inr (RecordPayment_validate E input) \<longrightarrow> e = ErrBillAlreadyPaid_app)"
proof (cases "RecordPayment_validate E input")
  case (Inl e)
  then show ?thesis by (simp add: RecordPayment_Execute_def tx_bind_def tx_lift_def tx_throw_def)
next
  case (Inr km)
  obtain k m where km: "km = (k, m)" by force
  have k: "k = trim (rpi_BillID input)" using RecordPayment_validate_ok Inr km by blast
  have tp: "trim (b_Status b) = StatusPaid" using b(2) by simp
  have body: "\<exists>e u. RecordPayment_body E input k m v = (Inl e, u) \<and> (calm v \<longrightarrow> calm u \<and> e = ErrBillAlreadyPaid_app)"
    if "w_db v = w_db w" for v
  proof (cases "next_fault v")
    case True
    then show ?thesis
      by (auto simp: RecordPayment_body_def Let_def tx_bind_def tx_map_err_def FindBillByIDForUpdate_def
          GetBillForUpdate_def stmt_def calm_def)
  next
    case False
    have "FindBillByIDForUpdate k v = (Inr (scanBill (w_db w) b), stepped v (w_db w))"
      using False b(1) that k
      by (simp add: FindBillByIDForUpdate_def GetBillForUpdate_def stmt_def tx_bind_def tx_map_err_def
          found_or_def tx_return_def stepped_def)
    moreover have "RecordPayment (bill_Rehydrate (ab_row (scanBill (w_db w) b))) n m t = Inl ErrBillAlreadyPaid" for n t
      using tp by (simp add: RecordPayment_def bill_Rehydrate_def)
    ultimately show ?thesis
      by (simp add: RecordPayment_body_def Let_def tx_bind_def tx_map_err_def tx_lift_def tx_throw_def
          toDomainState_def bill_mapDomainError_def)
  qed
  show ?thesis
  proof (cases "next_fault w")
    case True
    then show ?thesis using Inr km
      by (auto simp: RecordPayment_Execute_def tx_bind_def tx_lift_def tx_return_def WithinTransaction_def next_fault_def)
  next
    case False
    obtain e u where eu: "RecordPayment_body E input k m ((tick w)\<lparr>w_events := []\<rparr>) = (Inl e, u)"
      "calm ((tick w)\<lparr>w_events := []\<rparr>) \<longrightarrow> calm u \<and> e = ErrBillAlreadyPaid_app"
      using body [of "(tick w)\<lparr>w_events := []\<rparr>"] by force
    then show ?thesis using Inr km False
      by (auto simp: RecordPayment_Execute_def tx_bind_def tx_lift_def tx_return_def WithinTransaction_def
          calm_def next_fault_def tick_def)
  qed
qed

lemma time_taipei:
  assumes "t_off t = 0" "0 \<le> t_ns t" "t_ns t < ns_per_day"
  shows "t_day (accountingSourceDate t) = (if 57600 * ns_per_sec \<le> t_ns t then t_day t + 1 else t_day t)"
proof -
  have "t_day (accountingSourceDate t) = (t_day t * ns_per_day + (t_ns t + 28800 * ns_per_sec)) div ns_per_day"
    using assms(1) by (simp add: accountingSourceDate_def time_in_def Let_def taiwanReportLocation_def instant_def)
  also have "\<dots> = t_day t + (t_ns t + 28800 * ns_per_sec) div ns_per_day" by simp
  also have "(t_ns t + 28800 * ns_per_sec) div ns_per_day = (if 57600 * ns_per_sec \<le> t_ns t then 1 else 0)"
    using assms(2,3) by (auto intro!: int_div_pos_eq [of _ _ _ "t_ns t + 28800 * ns_per_sec - ns_per_day"])
  finally show ?thesis by simp
qed

text \<open>
  The month of a payment is counted in UTC, its date in Taipei.  The
  entry of a payment lands in the books of another month than the one of its
  own source date exactly when it was paid in the last eight hours (UTC) of a
  month, that is, on the morning of the first in Taipei.
\<close>

theorem payment_month_is_utc:
  assumes "t_off t = 0" "0 \<le> t_ns t" "t_ns t < ns_per_day"
    and p: "p = payment_entry b cat title n t"
  shows "(aep_Year p, aep_Month p) = (time_year t, time_month t)
     \<and> aep_SourceDate p = Some (accountingSourceDate t)
     \<and> ((aep_Year p, aep_Month p) \<noteq> (time_year (accountingSourceDate t), time_month (accountingSourceDate t))
        \<longleftrightarrow> 57600 * ns_per_sec \<le> t_ns t \<and> midx (t_day t + 1) \<noteq> midx (t_day t))"
proof -
  have eq: "(time_year x, time_month x) = (time_year y, time_month y) \<longleftrightarrow> midx (t_day x) = midx (t_day y)" for x y
    by (metis month_year_idx prod.inject time_month_def time_year_def)
  have "aep_Year p = time_year t" "aep_Month p = time_month t" "aep_SourceDate p = Some (accountingSourceDate t)"
    by (simp_all add: p payment_entry_def Let_def)
  moreover have "(time_year t, time_month t) \<noteq> (time_year (accountingSourceDate t), time_month (accountingSourceDate t))
      \<longleftrightarrow> 57600 * ns_per_sec \<le> t_ns t \<and> midx (t_day t + 1) \<noteq> midx (t_day t)"
    unfolding eq time_taipei [OF assms(1-3)] by auto
  ultimately show ?thesis by (simp only: simp_thms)
qed

lemma payment_month_is_utc_witness:
  "let p = payment_entry sample_bill ''rent_payment'' ''4603'' 500 ((go_date 2024 1 31 0)\<lparr>t_ns := 60000 * ns_per_sec\<rparr>)
   in (aep_Year p, aep_Month p) = (2024, 1)
      \<and> (aep_Year p, aep_Month p) \<noteq> (time_year (the (aep_SourceDate p)), time_month (the (aep_SourceDate p)))"
proof -
  let ?t = "(go_date 2024 1 31 0)\<lparr>t_ns := 60000 * ns_per_sec\<rparr>"
  have t: "t_off ?t = 0" "0 \<le> t_ns ?t" "t_ns ?t < ns_per_day" "57600 * ns_per_sec \<le> t_ns ?t"
    by (simp_all add: go_date_def go_date_at_def)
  have m: "midx (t_day ?t + 1) \<noteq> midx (t_day ?t)" "time_year ?t = 2024" "time_month ?t = 1" by code_simp+
  show ?thesis
    using payment_month_is_utc [OF t(1-3) refl, of sample_bill "''rent_payment''" "''4603''" 500] t(4) m
    unfolding Let_def by (metis option.sel)
qed

section \<open>A payment at the office\<close>

lemma RecordPayment_body_runs:
  assumes "calm w" and b: "bill_by_id k (w_db w) = Some b" "bill_typed b"
      "b_Status b \<in> {StatusPendingPayment, StatusOverdue}" "b_Amount b = Some (rpi_PaidAmount input)"
    and "account_of (b_PropertyID b) (w_db w) \<noteq> None"
    and "active_titles (payment_title (b_Type b)) (w_db w) \<noteq> []"
  shows "wp (RecordPayment_body E input k method) (\<lambda>_. calm) w"
proof -
  let ?n = "rpi_PaidAmount input" and ?t = "utc_or_now E (rpi_PaidAt input)"
  have m: "b \<in> set (live (db_bills (w_db w)))" "b_ID b = k" using bill_by_id_Some [OF b(1)] by auto
  have f: "bill_by_id k (with_bill E k (b_Version b) (paid_bill m n tm) (w_db w))
      = Some (bumped E (paid_bill m n tm) b)" for m n tm
    by (rule bill_by_id_with_bill [OF b(1) refl]) (simp add: paid_bill_def)
  have u: "UpdateBillPayment E \<lparr>upp_BillID = k, upp_Version = v, upp_PaymentMethod = m,
      upp_PaidAmount = n, upp_PaidAt = tm\<rparr>
    = tx_bind (tx_map_err mapBillingRepositoryError (update_bill_at ''update bill payment'' E k v
        (paid_bill m n tm))) (\<lambda>_. FindBillByIDForUpdate k)" for v m n tm
    by (simp add: UpdateBillPayment_def UpdatePayment_def paid_bill_def [abs_def])
  obtain state where st: "RecordPayment (ab_row (scanBill (w_db w) b)) ?n method ?t = Inr state"
    "b_PaidAmount state = Some ?n" "b_PaidAt state = Some ?t" "b_PaymentMethod state = Some (trim method)"
    using b(3,4) by (auto simp: RecordPayment_def)
  have cat: "accountingCategoryForBillType (b_Type b) = Inr (payment_category (b_Type b))"
    "accountingTitleCodeForBillType (b_Type b) = Inr (payment_title (b_Type b))"
    using b(2) by (auto simp: bill_typed_def accountingCategoryForBillType_def
        accountingTitleCodeForBillType_def payment_category_def payment_title_def payment_consts)
  obtain a where a: "find (\<lambda>a. pa_PropertyID a = b_PropertyID b) (live (db_accounts (w_db w))) = Some a"
    using assms(6) by (auto simp: account_of_def)
  have pe: "aep_PropertyID (payment_entry c x y n t) = b_PropertyID c"
    "aep_AccountingTitleCode (payment_entry c x y n t) = y" for c x y n t
    by (simp_all add: payment_entry_def Let_def)
  have tit: "active_titles c (with_bill E k v g (w_db w)) = active_titles c (w_db w)" for c v g
    by (simp add: active_titles_def)
  show ?thesis
    using assms(1,7) b(1) m a st cat unfolding RecordPayment_body_def Let_def toDomainState_def u
    by (auto simp: wp_simps Rehydrate_typed [OF b(2)] f pe tit)
qed

definition rent_due :: bill where
  "rent_due = (new_bill sample_env 1 \<lparr>cbp_LeaseID = l_ID leased_row, cbp_TenantID = ''t1'',
     cbp_RoomID = ''r1'', cbp_PropertyID = ''p1'', cbp_Type = ''rent'', cbp_Amount = Some 12000,
     cbp_PeriodStart = go_date 2024 1 31 0, cbp_PeriodEnd = go_date 2024 2 28 0,
     cbp_DueDate = go_date 2024 1 31 0, cbp_Status = ''pending_payment''\<rparr>)\<lparr>b_ID := ''b1''\<rparr>"

definition rent_title :: title_row where
  "rent_title = \<lparr>ti_ID = ''i3'', ti_Code = ''4603'', ti_Name = ''rent'', ti_Kind = ''income'', ti_IsActive = True\<rparr>"

definition rent_world :: world where
  "rent_world = sample_world\<lparr>w_db := add_bills [rent_due] (sample_db\<lparr>db_titles := db_titles sample_db @ [rent_title]\<rparr>)\<rparr>"

definition sample_payment :: record_payment_input where
  "sample_payment = \<lparr>rpi_ActorRole = ''admin'', rpi_BillID = ''b1'', rpi_PaidAmount = 12000,
     rpi_PaymentMethod = '' cash'', rpi_PaidAt = None\<rparr>"

lemma rent_facts:
  "bill_by_id ''b1'' (w_db rent_world) = Some rent_due" "live (db_bills (w_db rent_world)) = [rent_due]"
  "bill_typed rent_due" "b_Status rent_due = StatusPendingPayment" "b_Amount rent_due = Some 12000"
  "account_of (b_PropertyID rent_due) (w_db rent_world) = Some ''a1''"
  "active_titles (payment_title (b_Type rent_due)) (w_db rent_world) = [rent_title]"
  "unique_codes (w_db rent_world)" "RecordPayment_validate sample_env sample_payment = Inr (''b1'', ''cash'')"
  "trim (rpi_BillID sample_payment) = ''b1''" "db_entries (w_db rent_world) = []"
  by code_simp+

lemma sample_payment_runs:
  "\<exists>r w'. RecordPayment_Execute sample_env (server_publish sample_env) sample_payment rent_world = (Inr r, w')"
proof -
  have "calm rent_world" by (simp add: rent_world_def sample_world_def calm_def)
  then have "wp (RecordPayment_Execute sample_env (server_publish sample_env) sample_payment) (\<lambda>_. calm) rent_world"
    unfolding RecordPayment_Execute_def using rent_facts
    by (auto simp: wp_simps sample_payment_def intro!: server_command_runs RecordPayment_body_runs)
  then show ?thesis by (rule wp_result)
qed

lemma RecordPayment_books_once_witness:
  "\<exists>r w' e. RecordPayment_Execute sample_env (server_publish sample_env) sample_payment rent_world = (Inr r, w')
     \<and> db_entries (w_db w') = [e] \<and> en_Amount e = 12000 \<and> en_PropertyAccountID e = ''a1''"
proof -
  obtain r w' where r: "RecordPayment_Execute sample_env (server_publish sample_env) sample_payment rent_world = (Inr r, w')"
    using sample_payment_runs by blast
  have "\<forall>b \<in> set (live (db_bills (w_db rent_world))). bill_typed b" using rent_facts(2,3) by simp
  from RecordPayment_books_once [OF r this rent_facts(8)] show ?thesis
    using r rent_facts by (auto simp: sample_payment_def)
qed

lemma paid_bill_refuses_payment_witness:
  "\<exists>w'. RecordPayment_Execute sample_env (server_publish sample_env) sample_payment
       (rent_world\<lparr>w_db := update_bills sample_env (\<lambda>b. True) (\<lambda>b. b\<lparr>b_Status := ''paid''\<rparr>) (w_db rent_world)\<rparr>)
     = (Inl ErrBillAlreadyPaid_app, w')"
proof -
  let ?w = "rent_world\<lparr>w_db := update_bills sample_env (\<lambda>b. True) (\<lambda>b. b\<lparr>b_Status := ''paid''\<rparr>) (w_db rent_world)\<rparr>"
  have "bill_by_id ''b1'' (w_db ?w) = Some ((rent_due\<lparr>b_Status := ''paid''\<rparr>)
      \<lparr>b_UpdatedAt := e_now sample_env, b_Version := b_Version rent_due + 1\<rparr>)"
    using rent_facts(1,2) by (simp add: bill_by_id_def split: if_splits)
  then have b: "bill_by_id (trim (rpi_BillID sample_payment)) (w_db ?w) = Some ((rent_due\<lparr>b_Status := ''paid''\<rparr>)
      \<lparr>b_UpdatedAt := e_now sample_env, b_Version := b_Version rent_due + 1\<rparr>)"
    unfolding rent_facts(10) .
  have "w_faults ?w = []" by (simp add: rent_world_def sample_world_def)
  then show ?thesis
    using paid_bill_refuses_payment [OF b, of sample_env "server_publish sample_env"] rent_facts(9)
    by (auto simp: StatusPaid_def)
qed

end
