(* ===== verification/JobRuns.thy ===== *)
theory JobRuns
  imports BillingRepo
begin

text \<open>
  The scheduler: the store of job runs (platform/database/jobruns), one row per
  job and window, and the service that triggers a job for a window
  (application/jobs/trigger.go).  Proved here: however often and however
  concurrently a window is triggered, its job is started at most once plus the
  allowed retries.
\<close>

section \<open>The store of job runs\<close>

definition StatusStarted :: string where
  "StatusStarted = ''started''"
definition StatusCompleted :: string where
  "StatusCompleted = ''completed''"
definition StatusFailed :: string where
  "StatusFailed = ''failed''"
definition StatusSkipped :: string where
  "StatusSkipped = ''skipped''"

lemmas run_status_defs = StatusStarted_def StatusCompleted_def StatusFailed_def StatusSkipped_def

record start_result =
  sr_RunID :: string
  sr_Status :: string
  sr_Acquired :: bool
  sr_Message :: string
  sr_StartedAt :: gtime
  sr_RetryCount :: int

definition nullableString :: "string \<Rightarrow> string option" where
  "nullableString value = (if value = '''' then None else Some value)"

definition same_window :: "string \<Rightarrow> string \<Rightarrow> job_run_row \<Rightarrow> bool" where
  "same_window jobKey windowKey r \<longleftrightarrow> jr_JobKey r = jobKey \<and> jr_WindowKey r = windowKey"

definition start_result_of :: "job_run_row \<Rightarrow> bool \<Rightarrow> start_result" where
  "start_result_of r acquired =
     \<lparr>sr_RunID = jr_ID r, sr_Status = jr_Status r, sr_Acquired = acquired,
      sr_Message = stringValue (jr_Message r), sr_StartedAt = jr_StartedAt r,
      sr_RetryCount = jr_RetryCount r\<rparr>"

text \<open>\<open>INSERT ... ON CONFLICT (job_key, window_key) DO NOTHING RETURNING ...\<close>: no row
  is returned when the window has a run.\<close>

definition new_job_run :: "env \<Rightarrow> nat \<Rightarrow> string \<Rightarrow> string \<Rightarrow> string \<Rightarrow> job_run_row" where
  "new_job_run E n jobKey windowKey requestID =
     \<lparr>jr_ID = e_id E n, jr_JobKey = jobKey, jr_WindowKey = windowKey,
      jr_RequestID = nullableString requestID, jr_RetryCount = 0, jr_Status = ''started'',
      jr_Message = None, jr_StartedAt = e_now E, jr_FinishedAt = None, jr_UpdatedAt = e_now E\<rparr>"

definition insert_job_run :: "env \<Rightarrow> string \<Rightarrow> string \<Rightarrow> string \<Rightarrow> job_run_row option tx" where
  "insert_job_run E jobKey windowKey requestID =
     stmt ''insert scheduler job run'' (\<lambda>n d.
       if find (same_window jobKey windowKey) (db_job_runs d) \<noteq> None then (None, d)
       else let r = new_job_run E n jobKey windowKey requestID
            in (Some r, d\<lparr>db_job_runs := db_job_runs d @ [r]\<rparr>))"

definition retried :: "env \<Rightarrow> string \<Rightarrow> job_run_row \<Rightarrow> job_run_row" where
  "retried E requestID r =
     r\<lparr>jr_Status := ''started'',
       jr_RequestID := (case nullableString requestID of Some q \<Rightarrow> Some q | None \<Rightarrow> jr_RequestID r),
       jr_Message := None, jr_StartedAt := e_now E, jr_FinishedAt := None, jr_UpdatedAt := e_now E,
       jr_RetryCount := jr_RetryCount r + 1\<rparr>"

definition update_runs :: "string \<Rightarrow> (job_run_row \<Rightarrow> job_run_row) \<Rightarrow> db \<Rightarrow> db" where
  "update_runs runID f d =
     d\<lparr>db_job_runs := map (\<lambda>r. if jr_ID r = runID then f r else r) (db_job_runs d)\<rparr>"

text \<open>The body of \<open>Start\<close>: its result and the context of a failing commit.  A
  failing insert ends it; when the driver reports the failure as a \<open>PgError\<close>
  the code goes on to the next query, which then fails on the aborted
  transaction.\<close>

definition Start_body :: "env \<Rightarrow> string \<Rightarrow> string \<Rightarrow> string \<Rightarrow> int \<Rightarrow> (string \<times> start_result) tx" where
  "Start_body E jobKey windowKey requestID maxRetries =
     tx_bind (insert_job_run E jobKey windowKey requestID) (\<lambda>inserted.
       case inserted of
         Some r \<Rightarrow> tx_return (''commit inserted scheduler job run'', start_result_of r True)
       | None \<Rightarrow>
           tx_bind (stmt ''load existing scheduler job run'' (\<lambda>_ d.
               (find (same_window jobKey windowKey) (db_job_runs d), d)))
             (\<lambda>row. tx_bind (found_or (Wrapped ''load existing scheduler job run''
                                          (Sentinel ''sql.ErrNoRows'')) row)
               (\<lambda>r. if jr_Status r = StatusFailed \<and> jr_RetryCount r < maxRetries
                    then tx_bind (stmt ''retry scheduler job run'' (\<lambda>_ d.
                             (retried E requestID r, update_runs (jr_ID r) (retried E requestID) d)))
                           (\<lambda>r'. tx_return (''commit scheduler job run state'', start_result_of r' True))
                    else tx_return (''commit scheduler job run state'', start_result_of r False))))"

text \<open>The transaction of \<open>Start\<close>, with its deferred rollback (whose error is
  ignored, and which does nothing after a commit).\<close>

definition Start :: "env \<Rightarrow> string \<Rightarrow> string \<Rightarrow> string \<Rightarrow> int \<Rightarrow> start_result tx" where
  "Start E jobKey windowKey requestID maxRetries w =
    (if next_fault w
     then (Inl (Wrapped ''begin scheduler job run transaction'' driver_error), tick w)
     else case Start_body E jobKey windowKey requestID maxRetries (tick w) of
       (Inl e, v) \<Rightarrow> (Inl e, (tick v)\<lparr>w_db := w_db w\<rparr>)
     | (Inr (ctx, r), v) \<Rightarrow>
         if next_fault v then (Inl (Wrapped ctx driver_error), (tick v)\<lparr>w_db := w_db w\<rparr>)
         else (Inr r, tick v))"

definition updateStatus :: "env \<Rightarrow> string \<Rightarrow> string \<Rightarrow> string \<Rightarrow> unit tx" where
  "updateStatus E runID status message =
     stmt ''update scheduler job run status'' (\<lambda>_ d. ((), update_runs runID
       (\<lambda>r. r\<lparr>jr_Status := status, jr_Message := nullableString message,
               jr_FinishedAt := Some (e_now E), jr_UpdatedAt := e_now E\<rparr>) d))"

definition Complete :: "env \<Rightarrow> string \<Rightarrow> string \<Rightarrow> unit tx" where
  "Complete E runID message = updateStatus E runID StatusCompleted message"
definition Fail :: "env \<Rightarrow> string \<Rightarrow> string \<Rightarrow> unit tx" where
  "Fail E runID message = updateStatus E runID StatusFailed message"
definition Skip :: "env \<Rightarrow> string \<Rightarrow> string \<Rightarrow> unit tx" where
  "Skip E runID message = updateStatus E runID StatusSkipped message"

section \<open>Triggering a job\<close>

record execution_summary =
  ProcessedCount :: int
  SkippedCount :: int
  FailedCount :: int
  Note :: string

record trigger_result =
  tr_JobKey :: string
  tr_Status :: string
  tr_WindowKey :: string
  tr_Message :: string
  tr_RequestedAt :: gtime
  tr_RetryCount :: int
  tr_DurationMs :: int
  tr_Summary :: "execution_summary option"

type_synonym runner = "string \<Rightarrow> execution_summary tx"

record trigger_service =
  ts_runners :: "string \<Rightarrow> runner option"
  ts_timeout :: int
  ts_maxRetries :: int

definition JobOverdueBillsScan :: string where
  "JobOverdueBillsScan = ''overdue_bills_scan''"
definition JobOverdueBillReminders :: string where
  "JobOverdueBillReminders = ''overdue_bill_reminders''"
definition JobLeaseExpiryScan :: string where
  "JobLeaseExpiryScan = ''lease_expiry_scan''"
definition JobLeaseExpiringSoonReminder :: string where
  "JobLeaseExpiringSoonReminder = ''lease_expiring_soon_reminder''"
definition JobMonthlySnapshot :: string where
  "JobMonthlySnapshot = ''monthly_snapshot''"
definition JobForceTerminationCompensation :: string where
  "JobForceTerminationCompensation = ''force_termination_compensation''"

lemmas job_keys = JobOverdueBillsScan_def JobOverdueBillReminders_def JobLeaseExpiryScan_def
  JobLeaseExpiringSoonReminder_def JobMonthlySnapshot_def JobForceTerminationCompensation_def

definition defaultRunners :: "string \<Rightarrow> runner option" where
  "defaultRunners jobKey =
     (if jobKey \<in> {JobOverdueBillsScan, JobOverdueBillReminders, JobLeaseExpiryScan,
           JobLeaseExpiringSoonReminder, JobMonthlySnapshot, JobForceTerminationCompensation}
      then Some (\<lambda>windowKey. tx_return \<lparr>ProcessedCount = 0, SkippedCount = 0, FailedCount = 0,
                                        Note = ''job completed''\<rparr>)
      else None)"

definition NewTriggerService ::
    "(string \<Rightarrow> runner option) option \<Rightarrow> int \<Rightarrow> int \<Rightarrow> trigger_service" where
  "NewTriggerService runners timeout maxRetries =
     \<lparr>ts_runners = (case runners of None \<Rightarrow> defaultRunners | Some rs \<Rightarrow> rs),
      ts_timeout = (if timeout \<le> 0 then 2 * 60 * ns_per_sec else timeout),
      ts_maxRetries = (if maxRetries < 0 then 0 else maxRetries)\<rparr>"

text \<open>\<open>TriggerService.Execute\<close>.  The clock does not advance during one command, so
  the duration is 0; the timeout of the runner makes its statements fail, which
  the schedule of failures covers.\<close>

definition TriggerService_Execute ::
    "env \<Rightarrow> trigger_service \<Rightarrow> string \<Rightarrow> string \<Rightarrow> string \<Rightarrow> trigger_result tx" where
  "TriggerService_Execute E s jobKey windowKey requestID =
    (case ts_runners s jobKey of
       None \<Rightarrow> tx_throw (DriverErr ''job runner is not configured'')
     | Some runner \<Rightarrow>
         tx_bind (Start E jobKey windowKey requestID (ts_maxRetries s)) (\<lambda>started.
           let result = \<lparr>tr_JobKey = jobKey, tr_Status = '''', tr_WindowKey = windowKey,
                         tr_Message = '''', tr_RequestedAt = time_UTC (e_now E),
                         tr_RetryCount = sr_RetryCount started, tr_DurationMs = 0, tr_Summary = None\<rparr>
           in if \<not> sr_Acquired started
              then let message = ''job window already processed with status '' @ sr_Status started
                   in tx_return (result\<lparr>tr_Status := ''skipped'', tr_Message := message,
                        tr_Summary := Some \<lparr>ProcessedCount = 0, SkippedCount = 0, FailedCount = 0,
                                            Note = message\<rparr>\<rparr>)
              else (\<lambda>w. case runner windowKey w of
                  (Inl err, v) \<Rightarrow>
                    (Inl err, snd (Fail E (sr_RunID started) (''job failed: '' @ apperr_Error err) v))
                | (Inr summary, v) \<Rightarrow>
                    (let completeMessage = (if Note summary = '''' then ''job completed'' else Note summary)
                     in tx_bind (Complete E (sr_RunID started) completeMessage)
                          (\<lambda>_. tx_return (result\<lparr>tr_Status := ''accepted'', tr_Message := completeMessage,
                                                  tr_Summary := Some summary\<rparr>)) v))))"

section \<open>Windows are deduplicated\<close>

text \<open>The rows have distinct ids and windows, and their ids were handed out.\<close>

definition runs_ok :: "env \<Rightarrow> world \<Rightarrow> bool" where
  "runs_ok E w \<longleftrightarrow> distinct (map jr_ID (db_job_runs (w_db w)))
     \<and> distinct (map (\<lambda>r. (jr_JobKey r, jr_WindowKey r)) (db_job_runs (w_db w)))
     \<and> (\<forall>r \<in> set (db_job_runs (w_db w)). \<exists>n < w_fresh w. jr_ID r = e_id E n)"

text \<open>How often the run of a window was started.\<close>

definition starts :: "string \<times> string \<Rightarrow> db \<Rightarrow> int" where
  "starts k d = (case find (same_window (fst k) (snd k)) (db_job_runs d) of
                   None \<Rightarrow> 0 | Some r \<Rightarrow> 1 + jr_RetryCount r)"

definition retries_within :: "int \<Rightarrow> db \<Rightarrow> bool" where
  "retries_within R d \<longleftrightarrow> (\<forall>r \<in> set (db_job_runs d). 0 \<le> jr_RetryCount r \<and> jr_RetryCount r \<le> max 0 R)"

lemma find_append: "find P (xs @ ys) = (case find P xs of None \<Rightarrow> find P ys | Some x \<Rightarrow> Some x)"
  by (induction xs) auto

lemma find_map_keeps:
  "(\<And>x. P (f x) = P x) \<Longrightarrow> find P (map f xs) = map_option f (find P xs)"
  by (induction xs) auto

lemma update_runs_rows [simp]:
  "db_job_runs (update_runs i f d) = map (\<lambda>r. if jr_ID r = i then f r else r) (db_job_runs d)"
  by (simp add: update_runs_def)

lemma update_runs_ok:
  assumes "\<And>r. jr_ID (f r) = jr_ID r \<and> jr_JobKey (f r) = jr_JobKey r \<and> jr_WindowKey (f r) = jr_WindowKey r"
    and "runs_ok E w" "w_fresh w \<le> w_fresh v" "w_db v = update_runs i f (w_db w)"
  shows "runs_ok E v"
proof -
  let ?g = "\<lambda>r. if jr_ID r = i then f r else r"
  have keys: "jr_ID (?g r) = jr_ID r" "(jr_JobKey (?g r), jr_WindowKey (?g r)) = (jr_JobKey r, jr_WindowKey r)" for r
    using assms(1) by simp_all
  have "map jr_ID (map ?g rs) = map jr_ID rs"
    "map (\<lambda>r. (jr_JobKey r, jr_WindowKey r)) (map ?g rs) = map (\<lambda>r. (jr_JobKey r, jr_WindowKey r)) rs" for rs
    using keys by simp_all
  moreover have "\<forall>r \<in> set (db_job_runs (w_db v)). \<exists>n < w_fresh v. jr_ID r = e_id E n"
    using assms(2,3) unfolding runs_ok_def assms(4) update_runs_rows set_map ball_simps keys(1)
    by (meson less_le_trans)
  ultimately show ?thesis using assms(2) unfolding runs_ok_def assms(4) update_runs_rows
    by (simp only: simp_thms)
qed

lemma find_same_window:
  "find (same_window j k) rs = Some r \<Longrightarrow> r \<in> set rs \<and> jr_JobKey r = j \<and> jr_WindowKey r = k"
  by (drule find_Some_filter) (simp add: same_window_def)

lemmas start_defs = Start_body_def insert_job_run_def tx_bind_def tx_return_def tx_throw_def stmt_def
  found_or_def Let_def

text \<open>What \<open>Start\<close> does to the rows: nothing, a new row, or a retry.\<close>

lemma Start_cases:
  assumes "Start E j k q R w = (res, v)"
  obtains (same) "w_db v = w_db w" "w_fresh w \<le> w_fresh v" "\<forall>s. res = Inr s \<longrightarrow> \<not> sr_Acquired s
      \<and> (\<exists>r. find (same_window j k) (db_job_runs (w_db w)) = Some r \<and> sr_Status s = jr_Status r
           \<and> \<not> (jr_Status r = StatusFailed \<and> jr_RetryCount r < R))"
  | (fresh) s where "res = Inr s" "sr_Acquired s" "find (same_window j k) (db_job_runs (w_db w)) = None"
      "w_db v = (w_db w)\<lparr>db_job_runs := db_job_runs (w_db w) @ [new_job_run E (w_fresh w) j k q]\<rparr>"
      "sr_RunID s = e_id E (w_fresh w)" "w_fresh w < w_fresh v"
  | (retry) s r where "res = Inr s" "sr_Acquired s"
      "find (same_window j k) (db_job_runs (w_db w)) = Some r" "jr_Status r = StatusFailed"
      "jr_RetryCount r < R" "w_db v = update_runs (jr_ID r) (retried E q) (w_db w)"
      "sr_RunID s = jr_ID r" "w_fresh w \<le> w_fresh v"
proof (cases "next_fault w")
  case True
  then show ?thesis using assms same by (auto simp: Start_def)
next
  case False
  note run = assms [unfolded Start_def, simplified False, simplified]
  let ?u = "tick w"
  let ?old = "find (same_window j k) (db_job_runs (w_db w))"
  show ?thesis
  proof (cases "Start_body E j k q R ?u")
    case (Pair b u)
    show ?thesis
    proof (cases b)
      case (Inl e)
      have "w_fresh w \<le> w_fresh u"
        using Pair Inl by (auto simp: start_defs split: if_splits option.splits)
      then show ?thesis using run Pair Inl same by auto
    next
      case (Inr cs)
      obtain ctx s where cs: "cs = (ctx, s)" by force
      note body = Pair [unfolded Inr cs]
      show ?thesis
      proof (cases "next_fault u")
        case True
        have "w_fresh w \<le> w_fresh u"
          using body by (auto simp: start_defs split: if_splits option.splits)
        then show ?thesis using run Pair Inr cs True same by auto
      next
        case ok: False
        then have v: "res = Inr s" "v = tick u" using run Pair Inr cs by auto
        show ?thesis
        proof (cases ?old)
          case None
          then show ?thesis using body fresh [of s] v
            by (auto simp: start_defs start_result_of_def new_job_run_def split: if_splits)
        next
          case (Some r)
          show ?thesis
          proof (cases "jr_Status r = StatusFailed \<and> jr_RetryCount r < R")
            case True
            then show ?thesis using Some body retry [of s r] v
              by (auto simp: start_defs start_result_of_def retried_def split: if_splits)
          next
            case False
            then show ?thesis using Some body same v
              by (auto simp: start_defs start_result_of_def split: if_splits)
          qed
        qed
      qed
    qed
  qed
qed


lemma runs_ok_same:
  "runs_ok E w \<Longrightarrow> w_db v = w_db w \<Longrightarrow> w_fresh w \<le> w_fresh v \<Longrightarrow> runs_ok E v"
  unfolding runs_ok_def by (metis less_le_trans)

lemma runs_ok_new:
  assumes "inj (e_id E)" "runs_ok E w" "find (same_window j k) (db_job_runs (w_db w)) = None"
    and "w_db v = (w_db w)\<lparr>db_job_runs := db_job_runs (w_db w) @ [new_job_run E (w_fresh w) j k q]\<rparr>"
    and "w_fresh w < w_fresh v"
  shows "runs_ok E v"
proof -
  have "\<forall>r \<in> set (db_job_runs (w_db w)). jr_ID r \<noteq> e_id E (w_fresh w)"
    using assms(1,2) by (fastforce simp: runs_ok_def inj_def)
  moreover have "\<forall>r \<in> set (db_job_runs (w_db w)). \<not> same_window j k r"
    using assms(3) by (simp add: find_None_iff)
  moreover have "\<forall>r \<in> set (db_job_runs (w_db w)). \<exists>n < w_fresh v. jr_ID r = e_id E n"
    using assms(2,5) unfolding runs_ok_def by (meson less_trans)
  ultimately show ?thesis
    using assms(2,5) by (auto simp: runs_ok_def assms(4) new_job_run_def same_window_def)
qed

lemma starts_update:
  assumes "distinct (map jr_ID (db_job_runs d))"
    and "\<And>r. jr_JobKey (f r) = jr_JobKey r \<and> jr_WindowKey (f r) = jr_WindowKey r"
    and "\<And>r. jr_RetryCount (f r) = jr_RetryCount r + n"
  shows "starts key (update_runs i f d)
    = starts key d + (if \<exists>r \<in> set (db_job_runs d). jr_ID r = i \<and> find (same_window (fst key) (snd key)) (db_job_runs d) = Some r
                      then n else 0)"
proof -
  let ?rs = "db_job_runs d" and ?k = "same_window (fst key) (snd key)"
  have "find ?k (map (\<lambda>r. if jr_ID r = i then f r else r) ?rs)
      = map_option (\<lambda>r. if jr_ID r = i then f r else r) (find ?k ?rs)"
    by (rule find_map_keeps) (simp add: same_window_def assms(2))
  then show ?thesis
    by (auto simp: starts_def assms(3) split: option.split dest: find_Some_filter)
qed

subsection \<open>Any sequence of calls\<close>

datatype store_call =
    CallStart string string string
  | CallComplete string string
  | CallFail string string
  | CallSkip string string

text \<open>One call: the window whose run it started, and the world it leaves.\<close>

fun run_call :: "env \<Rightarrow> int \<Rightarrow> store_call \<Rightarrow> world \<Rightarrow> (string \<times> string) list \<times> world" where
  "run_call E R (CallStart j k q) w =
     (case Start E j k q R w of
        (Inr s, v) \<Rightarrow> (if sr_Acquired s then [(j, k)] else [], v)
      | (Inl e, v) \<Rightarrow> ([], v))"
| "run_call E R (CallComplete i m) w = ([], snd (Complete E i m w))"
| "run_call E R (CallFail i m) w = ([], snd (Fail E i m w))"
| "run_call E R (CallSkip i m) w = ([], snd (Skip E i m w))"

fun run_calls :: "env \<Rightarrow> int \<Rightarrow> store_call list \<Rightarrow> world \<Rightarrow> (string \<times> string) list \<times> world" where
  "run_calls E R [] w = ([], w)"
| "run_calls E R (c # cs) w =
     (case run_call E R c w of (a, v) \<Rightarrow> (case run_calls E R cs v of (a', u) \<Rightarrow> (a @ a', u)))"

lemma updateStatus_effect:
  "snd (updateStatus E i st m w) = v \<Longrightarrow> w_fresh w \<le> w_fresh v \<and>
     (w_db v = w_db w \<or> w_db v = update_runs i (\<lambda>r. r\<lparr>jr_Status := st, jr_Message := nullableString m,
               jr_FinishedAt := Some (e_now E), jr_UpdatedAt := e_now E\<rparr>) (w_db w))"
  by (auto simp: updateStatus_def stmt_def)

lemma updateStatus_keeps:
  assumes "runs_ok E w" "retries_within R (w_db w)" "v = snd (updateStatus E i st m w)"
  shows "runs_ok E v \<and> retries_within R (w_db v) \<and> starts key (w_db v) = starts key (w_db w)"
proof -
  let ?f = "\<lambda>r. r\<lparr>jr_Status := st, jr_Message := nullableString m,
               jr_FinishedAt := Some (e_now E), jr_UpdatedAt := e_now E\<rparr>"
  consider "w_db v = w_db w" | "w_db v = update_runs i ?f (w_db w)"
    using updateStatus_effect assms(3) by blast
  then show ?thesis
  proof cases
    case 1
    have "w_fresh w \<le> w_fresh v" using updateStatus_effect assms(3) by blast
    then show ?thesis using runs_ok_same [OF assms(1) 1] assms(2) by (simp add: 1)
  next
    case 2
    have "runs_ok E v"
      by (rule update_runs_ok [OF _ assms(1) _ 2]) (use updateStatus_effect assms(3) in auto)
    moreover have "starts key (w_db v) = starts key (w_db w)"
      unfolding 2 using assms(1) by (subst starts_update [where n = 0]) (auto simp: runs_ok_def)
    moreover have "retries_within R (w_db v)"
      using assms(2) by (auto simp: 2 retries_within_def)
    ultimately show ?thesis by blast
  qed
qed

lemma run_call_keeps:
  assumes "inj (e_id E)" "runs_ok E w" "retries_within R (w_db w)" "run_call E R c w = (a, v)"
  shows "runs_ok E v \<and> retries_within R (w_db v)
     \<and> starts key (w_db v) = starts key (w_db w) + int (count_list a key)"
proof (cases c)
  case (CallStart j k q)
  obtain res where res: "Start E j k q R w = (res, v)"
    and a: "a = (case res of Inr s \<Rightarrow> if sr_Acquired s then [(j, k)] else [] | Inl e \<Rightarrow> [])"
    using assms(4) CallStart by (auto split: prod.splits sum.splits)
  from res show ?thesis
  proof (cases rule: Start_cases)
    case same
    then have "runs_ok E v" using runs_ok_same [OF assms(2)] by blast
    then show ?thesis using same assms(3) a by (auto split: sum.splits)
  next
    case (fresh s)
    have "runs_ok E v" by (rule runs_ok_new [OF assms(1,2) fresh(3,4,6)])
    moreover have "retries_within R (w_db v)"
      using assms(3) by (auto simp: fresh(4) retries_within_def new_job_run_def)
    moreover have "starts key (w_db v) = starts key (w_db w) + (if key = (j, k) then 1 else 0)"
      using fresh(3) by (cases key)
        (auto simp: starts_def fresh(4) find_append new_job_run_def same_window_def split: option.split)
    ultimately show ?thesis using a fresh by auto
  next
    case (retry s r)
    note r = find_same_window [OF retry(3)]
    have f: "jr_ID (retried E q x) = jr_ID x \<and> jr_JobKey (retried E q x) = jr_JobKey x
        \<and> jr_WindowKey (retried E q x) = jr_WindowKey x" "jr_RetryCount (retried E q x) = jr_RetryCount x + 1" for x
      by (simp_all add: retried_def)
    have ids: "distinct (map jr_ID (db_job_runs (w_db w)))" using assms(2) by (simp add: runs_ok_def)
    have one: "x = r" if "x \<in> set (db_job_runs (w_db w))" "jr_ID x = jr_ID r" for x
      using ids that r by (auto simp: distinct_map inj_on_def)
    have "runs_ok E v" by (rule update_runs_ok [OF f(1) assms(2) retry(8,6)])
    moreover have "retries_within R (w_db v)"
      using assms(3) one retry(5) by (fastforce simp: retry(6) retries_within_def f(2))
    moreover have "starts key (w_db v) = starts key (w_db w) + (if key = (j, k) then 1 else 0)"
    proof -
      have "(\<exists>x \<in> set (db_job_runs (w_db w)). jr_ID x = jr_ID r
          \<and> find (same_window (fst key) (snd key)) (db_job_runs (w_db w)) = Some x) \<longleftrightarrow> key = (j, k)"
        using one r retry(3) by (cases key) (auto dest: find_same_window)
      then show ?thesis unfolding retry(6)
        by (subst starts_update [OF ids, where n = 1]) (use f in auto)
    qed
    ultimately show ?thesis using a retry by auto
  qed
next
  case (CallComplete i m)
  then show ?thesis using assms(4) updateStatus_keeps [OF assms(2,3) refl, of i StatusCompleted m key]
    by (auto simp: Complete_def)
next
  case (CallFail i m)
  then show ?thesis using assms(4) updateStatus_keeps [OF assms(2,3) refl, of i StatusFailed m key]
    by (auto simp: Fail_def)
next
  case (CallSkip i m)
  then show ?thesis using assms(4) updateStatus_keeps [OF assms(2,3) refl, of i StatusSkipped m key]
    by (auto simp: Skip_def)
qed

lemma run_calls_keep:
  assumes "inj (e_id E)"
  shows "runs_ok E w \<Longrightarrow> retries_within R (w_db w) \<Longrightarrow> run_calls E R cs w = (a, v) \<Longrightarrow>
     runs_ok E v \<and> retries_within R (w_db v)
     \<and> starts key (w_db v) = starts key (w_db w) + int (count_list a key)"
proof (induction cs arbitrary: w a)
  case (Cons c cs)
  obtain b u a' where x: "run_call E R c w = (b, u)" "run_calls E R cs u = (a', v)" "a = b @ a'"
    using Cons.prems(3) by (auto split: prod.splits)
  note h = run_call_keeps [OF assms Cons.prems(1,2) x(1), of key]
  show ?case using Cons.IH [OF _ _ x(2)] h x(3) by simp
qed simp

text \<open>
  C28.  A window is not run over and over.  However the calls to the store of
  job runs follow each other and whichever of their statements fail, the run of
  a job for a window is handed out at most once plus the allowed number of
  retries; the count the row keeps is exact.
\<close>

theorem window_runs_bounded:
  assumes "inj (e_id E)" "db_job_runs (w_db w) = []"
    and "run_calls E R cs w = (started, v)"
  shows "int (count_list started (jobKey, windowKey)) \<le> 1 + max 0 R
     \<and> int (count_list started (jobKey, windowKey)) = starts (jobKey, windowKey) (w_db v)"
proof -
  have "runs_ok E w" "retries_within R (w_db w)" "starts (jobKey, windowKey) (w_db w) = 0"
    using assms(2) by (simp_all add: runs_ok_def retries_within_def starts_def)
  then have x: "retries_within R (w_db v)"
    "starts (jobKey, windowKey) (w_db v) = int (count_list started (jobKey, windowKey))"
    using run_calls_keep [OF assms(1) _ _ assms(3)] by auto
  have "starts (jobKey, windowKey) (w_db v) \<le> 1 + max 0 R"
    using x(1) by (auto simp: starts_def retries_within_def split: option.split dest!: find_same_window)
  then show ?thesis using x(2) by simp
qed

text \<open>A world whose statements fail now and then: the run is handed out twice when
  one retry is allowed, and not a third time.\<close>

definition failing_runs :: world where
  "failing_runs = sample_world\<lparr>w_faults := [False, False, False, False, True]\<rparr>"

lemma window_runs_bounded_witness:
  "int (count_list (fst (run_calls sample_env 1
      [CallStart ''j'' ''2024-02-10'' ''a'', CallFail ''x'' ''m'', CallFail ''x'' ''m'',
       CallStart ''j'' ''2024-02-10'' ''b'', CallFail ''x'' ''m'',
       CallStart ''j'' ''2024-02-10'' ''c''] failing_runs)) (''j'', ''2024-02-10'')) = 2
   \<and> (2 :: int) \<le> 1 + max 0 1"
proof -
  let ?cs = "[CallStart ''j'' ''2024-02-10'' ''a'', CallFail ''x'' ''m'', CallFail ''x'' ''m'',
       CallStart ''j'' ''2024-02-10'' ''b'', CallFail ''x'' ''m'', CallStart ''j'' ''2024-02-10'' ''c'']"
  obtain a v where r: "run_calls sample_env 1 ?cs failing_runs = (a, v)" by force
  have "inj (e_id sample_env)" by (auto simp: sample_env_def inj_def)
  moreover have "db_job_runs (w_db failing_runs) = []"
    by (simp add: failing_runs_def sample_world_def sample_db_def)
  ultimately have "int (count_list a (''j'', ''2024-02-10'')) \<le> 1 + max 0 1"
    using window_runs_bounded r by blast
  moreover have "count_list (fst (run_calls sample_env 1 ?cs failing_runs)) (''j'', ''2024-02-10'') = 2"
    by code_simp
  ultimately show ?thesis using r by simp
qed

end
