(* ===== verification/Notification.thy ===== *)
theory Notification
  imports BillingRepo
begin

text \<open>
  Mails: the dispatcher of platform/notification and the service of
  application/notification that composes the mails of the scheduled jobs and of
  the password reset.  The mail service itself (Resend, outside this
  repository) either fails or takes the message over, which is then in
  \<^const>\<open>w_mails\<close>; whether it fails is part of the schedule of failures.
\<close>

section \<open>Texts\<close>

text \<open>\<open>htmlEscape\<close>: \<open>strings.NewReplacer\<close> with single-byte patterns replaces byte by
  byte.\<close>

fun escape_char :: "char \<Rightarrow> string" where
  "escape_char c =
     (if c = CHR ''&'' then ''&amp;'' else if c = CHR ''<'' then ''&lt;''
      else if c = CHR ''>'' then ''&gt;'' else if c = CHR 0x22 then ''&quot;''
      else if c = CHR 0x27 then ''&#39;'' else [c])"

definition htmlEscape :: "string \<Rightarrow> string" where
  "htmlEscape s = concat (map escape_char s)"

definition defaultName :: "string \<Rightarrow> string" where
  "defaultName name = (if name = '''' then ''there'' else name)"

text \<open>\<open>%d\<close>.\<close>

fun nat_text :: "nat \<Rightarrow> string" where
  "nat_text n = (if n < 10 then [char_of (48 + n)] else nat_text (n div 10) @ [char_of (48 + n mod 10)])"

definition int_text :: "int \<Rightarrow> string" where
  "int_text i = (if i < 0 then CHR ''-'' # nat_text (nat (- i)) else nat_text (nat i))"

definition quote :: string where
  "quote = [CHR 0x22]"

definition newline :: string where
  "newline = [CHR 0x0A]"

definition apostrophe :: string where
  "apostrophe = [CHR 0x27]"

section \<open>Dispatcher (platform/notification/dispatcher.go)\<close>

datatype channel = ChannelEmail | ChannelLine | OtherChannel string

record line_message =
  lm_To :: string
  lm_Text :: string

record send_command =
  sc_Channel :: channel
  sc_Email :: "email_message option"
  sc_Line :: "line_message option"

definition ErrUnsupportedChannel :: gerr where
  "ErrUnsupportedChannel = Sentinel ''notification.ErrUnsupportedChannel''"
definition ErrEmailMessageRequired :: gerr where
  "ErrEmailMessageRequired = Sentinel ''notification.ErrEmailMessageRequired''"
definition ErrLineMessageRequired :: gerr where
  "ErrLineMessageRequired = Sentinel ''notification.ErrLineMessageRequired''"
definition ErrLineNotImplemented :: gerr where
  "ErrLineNotImplemented = Sentinel ''notification.ErrLineNotImplemented''"

text \<open>\<open>ResendSender.Send\<close> and \<open>StubLineSender.Send\<close>.\<close>

definition resend_Send :: "email_message \<Rightarrow> unit tx" where
  "resend_Send message w =
     (if next_fault w then (Inl (Wrapped ''send email via resend'' driver_error), tick w)
      else (Inr (), (tick w)\<lparr>w_mails := w_mails w @ [message]\<rparr>))"

definition StubLineSender_Send :: "line_message \<Rightarrow> unit tx" where
  "StubLineSender_Send message = tx_throw ErrLineNotImplemented"

text \<open>\<open>Dispatcher.Send\<close>; the server gives it a mail sender or none.\<close>

record dispatcher =
  d_emailSender :: "(email_message \<Rightarrow> unit tx) option"
  d_lineSender :: "(line_message \<Rightarrow> unit tx) option"

definition channel_text :: "channel \<Rightarrow> string" where
  "channel_text c = (case c of ChannelEmail \<Rightarrow> ''email'' | ChannelLine \<Rightarrow> ''line'' | OtherChannel s \<Rightarrow> s)"

definition Dispatcher_Send :: "dispatcher \<Rightarrow> send_command \<Rightarrow> unit tx" where
  "Dispatcher_Send d command =
    (case sc_Channel command of
       ChannelEmail \<Rightarrow>
         (case sc_Email command of None \<Rightarrow> tx_throw ErrEmailMessageRequired
          | Some m \<Rightarrow> (case d_emailSender d of
               None \<Rightarrow> tx_throw (Wrapped (channel_text (sc_Channel command)) ErrUnsupportedChannel)
             | Some send \<Rightarrow> send m))
     | ChannelLine \<Rightarrow>
         (case sc_Line command of None \<Rightarrow> tx_throw ErrLineMessageRequired
          | Some m \<Rightarrow> (case d_lineSender d of
               None \<Rightarrow> tx_throw (Wrapped (channel_text (sc_Channel command)) ErrUnsupportedChannel)
             | Some send \<Rightarrow> send m))
     | OtherChannel _ \<Rightarrow> tx_throw (Wrapped (channel_text (sc_Channel command)) ErrUnsupportedChannel))"

definition server_dispatcher :: dispatcher where
  "server_dispatcher = \<lparr>d_emailSender = Some resend_Send, d_lineSender = Some StubLineSender_Send\<rparr>"

section \<open>Service (application/notification/service.go)\<close>

definition ErrNotificationSenderNotConfigured :: gerr where
  "ErrNotificationSenderNotConfigured =
     apperr_New ''NOTIFICATION_SENDER_NOT_CONFIGURED'' 500 ''Notification sender is not configured.''"
definition ErrNotificationSendFailed :: gerr where
  "ErrNotificationSendFailed = apperr_New ''NOTIFICATION_SEND_FAILED'' 500 ''Notification send failed.''"
definition ErrNotificationInvalidInput :: gerr where
  "ErrNotificationInvalidInput =
     apperr_New ''NOTIFICATION_INVALID_INPUT'' 500 ''Notification input is invalid.''"

text \<open>The service: its sender, when it has one.\<close>

type_synonym notification_service = "(send_command \<Rightarrow> unit tx) option"

definition send_mail :: "(send_command \<Rightarrow> unit tx) \<Rightarrow> email_message \<Rightarrow> unit tx" where
  "send_mail send m =
     tx_map_err (apperr_WithCause ErrNotificationSendFailed)
       (send \<lparr>sc_Channel = ChannelEmail, sc_Email = Some m, sc_Line = None\<rparr>)"

definition password_reset_mail :: "string \<Rightarrow> string \<Rightarrow> string \<Rightarrow> email_message" where
  "password_reset_mail email name resetURL =
     \<lparr>em_To = [email], em_Subject = ''Set your STDS password'',
      em_HTML = ''<p>Hello '' @ htmlEscape (defaultName name)
        @ '',</p><p>Please use the link below to set or reset your STDS password.</p><p><a href='' @ quote
        @ htmlEscape resetURL @ quote
        @ ''>Set password</a></p><p>If you did not expect this email, you can ignore it.</p>'',
      em_Text = ''Hello '' @ defaultName name @ '','' @ newline @ newline
        @ ''Please use the link below to set or reset your STDS password:'' @ newline
        @ resetURL @ newline @ newline
        @ ''If you did not expect this email, you can ignore it.'' @ newline\<rparr>"

definition SendUserPasswordResetEmail ::
    "notification_service \<Rightarrow> string \<Rightarrow> string \<Rightarrow> string \<Rightarrow> unit tx" where
  "SendUserPasswordResetEmail s inputEmail inputName inputResetURL =
    (case s of None \<Rightarrow> tx_throw ErrNotificationSenderNotConfigured
     | Some send \<Rightarrow>
         let email = trim inputEmail; name = trim inputName; resetURL = trim inputResetURL
         in if email = '''' \<or> resetURL = '''' then tx_throw ErrNotificationInvalidInput
            else send_mail send (password_reset_mail email name resetURL))"

definition overdue_mail :: "string \<Rightarrow> int option \<Rightarrow> gtime \<Rightarrow> email_message" where
  "overdue_mail email inputAmount due =
    (let amount = (case inputAmount of None \<Rightarrow> ''the outstanding amount'' | Some n \<Rightarrow> ''NT$'' @ int_text n);
         dueDate = format_date due
     in \<lparr>em_To = [email], em_Subject = ''Overdue bill reminder'',
         em_HTML = ''<p>Hello,</p><p>Your bill for '' @ htmlEscape amount @ '' was due on ''
           @ htmlEscape dueDate @ ''. Please complete payment as soon as possible.</p>'',
         em_Text = ''Hello,'' @ newline @ newline @ ''Your bill for '' @ amount @ '' was due on ''
           @ dueDate @ ''. Please complete payment as soon as possible.'' @ newline\<rparr>)"

definition SendOverdueBillReminderEmail ::
    "notification_service \<Rightarrow> string \<Rightarrow> int option \<Rightarrow> gtime \<Rightarrow> unit tx" where
  "SendOverdueBillReminderEmail s inputEmail amount dueDate =
    (case s of None \<Rightarrow> tx_throw ErrNotificationSenderNotConfigured
     | Some send \<Rightarrow>
         let email = trim inputEmail
         in if email = '''' \<or> is_zero_time dueDate then tx_throw ErrNotificationInvalidInput
            else send_mail send (overdue_mail email amount dueDate))"

definition expiring_mail :: "string \<Rightarrow> string \<Rightarrow> string \<Rightarrow> gtime \<Rightarrow> email_message" where
  "expiring_mail email name leaseID end_date =
    (let endDate = format_date end_date
     in \<lparr>em_To = [email], em_Subject = ''Lease expiring soon'',
         em_HTML = ''<p>Hello '' @ htmlEscape name @ '',</p><p>Lease '' @ htmlEscape leaseID
           @ '' is scheduled to end on '' @ htmlEscape endDate @ ''.</p>'',
         em_Text = ''Hello '' @ name @ '','' @ newline @ newline @ ''Lease '' @ leaseID
           @ '' is scheduled to end on '' @ endDate @ ''.'' @ newline\<rparr>)"

definition SendLeaseExpiringSoonEmail ::
    "notification_service \<Rightarrow> string \<Rightarrow> string \<Rightarrow> string \<Rightarrow> gtime \<Rightarrow> unit tx" where
  "SendLeaseExpiringSoonEmail s inputEmail inputName inputLeaseID endDate =
    (case s of None \<Rightarrow> tx_throw ErrNotificationSenderNotConfigured
     | Some send \<Rightarrow>
         let email = trim inputEmail; name = defaultName (trim inputName); leaseID = trim inputLeaseID
         in if email = '''' \<or> leaseID = '''' \<or> is_zero_time endDate
            then tx_throw ErrNotificationInvalidInput
            else send_mail send (expiring_mail email name leaseID endDate))"

section \<open>Escaping\<close>

text \<open>What a browser makes of the five character references.\<close>

fun html_unescape :: "string \<Rightarrow> string" where
  "html_unescape [] = []"
| "html_unescape (c # s) =
     (if c = CHR ''&'' \<and> take 4 s = ''amp;'' then CHR ''&'' # html_unescape (drop 4 s)
      else if c = CHR ''&'' \<and> take 3 s = ''lt;'' then CHR ''<'' # html_unescape (drop 3 s)
      else if c = CHR ''&'' \<and> take 3 s = ''gt;'' then CHR ''>'' # html_unescape (drop 3 s)
      else if c = CHR ''&'' \<and> take 5 s = ''quot;'' then CHR 0x22 # html_unescape (drop 5 s)
      else if c = CHR ''&'' \<and> take 4 s = ''#39;'' then CHR 0x27 # html_unescape (drop 4 s)
      else c # html_unescape s)"

lemma unescape_char: "html_unescape (escape_char c @ s) = c # html_unescape s"
  by simp

lemma escape_char_safe: "set (escape_char c) \<inter> {CHR ''<'', CHR ''>'', CHR 0x22, CHR 0x27} = {}"
  by (simp split: if_split)

text \<open>
  Escaping is faithful and safe.  What a reader's browser makes of an
  escaped text is the text itself, and an escaped text contains no bracket and
  no quote, so no name, amount or address can open a tag or leave an attribute
  of a mail.
\<close>

theorem htmlEscape_roundtrip:
  "html_unescape (htmlEscape s) = s
   \<and> set (htmlEscape s) \<inter> {CHR ''<'', CHR ''>'', CHR 0x22, CHR 0x27} = {}"
proof
  show "html_unescape (htmlEscape s) = s"
    by (induction s) (simp_all only: htmlEscape_def list.map concat.simps unescape_char html_unescape.simps)
  show "set (htmlEscape s) \<inter> {CHR ''<'', CHR ''>'', CHR 0x22, CHR 0x27} = {}"
    unfolding htmlEscape_def set_concat set_map using escape_char_safe by blast
qed

section \<open>What sending does\<close>

lemma resend_D: "resend_Send m w = (r, v) \<Longrightarrow> w_db v = w_db w \<and> w_events v = w_events w
   \<and> w_fresh v = w_fresh w \<and> w_mails v = w_mails w @ (if is_inr r then [m] else [])"
  by (auto simp: resend_Send_def split: if_splits)

end
