(* ===== verification/JobRepo.thy ===== *)
theory JobRepo
  imports JobRuns Notification
begin

text \<open>
  The statements the scheduled jobs use (platform/database/billing, leases and
  users), their adapters (server/jobs_adapters.go) and the window keys the jobs
  are triggered with.
\<close>

section \<open>Window keys\<close>

definition is_digit :: "char \<Rightarrow> bool" where
  "is_digit c \<longleftrightarrow> 48 \<le> (of_char c :: nat) \<and> (of_char c :: nat) \<le> 57"

definition digits_value :: "string \<Rightarrow> int" where
  "digits_value s = foldl (\<lambda>n c. 10 * n + (of_char c - 48)) 0 s"

definition month_days :: "int \<Rightarrow> int \<Rightarrow> int" where
  "month_days year month = mfirst (12 * year + month) - mfirst (12 * year + month - 1)"

text \<open>\<open>time.Parse("2006-01", s)\<close> and \<open>time.Parse("2006-01-02", s)\<close>: exactly four, two
  and two digits, a month that exists and a day the month has; the result is
  midnight UTC.\<close>

fun parse_month :: "string \<Rightarrow> (int \<times> int) option" where
  "parse_month [a, b, c, d, h, e, f] =
     (let year = digits_value [a, b, c, d]; month = digits_value [e, f]
      in if (\<forall>x \<in> set [a, b, c, d, e, f]. is_digit x) \<and> h = CHR ''-'' \<and> 1 \<le> month \<and> month \<le> 12
         then Some (year, month) else None)"
| "parse_month _ = None"

fun parse_date :: "string \<Rightarrow> gtime option" where
  "parse_date [a, b, c, d, h, e, f, k, g, i] =
     (case parse_month [a, b, c, d, h, e, f] of
        None \<Rightarrow> None
      | Some (year, month) \<Rightarrow>
          let day = digits_value [g, i]
          in if is_digit g \<and> is_digit i \<and> k = CHR ''-'' \<and> 1 \<le> day \<and> day \<le> month_days year month
             then Some (go_date year month day 0) else None)"
| "parse_date _ = None"

definition ErrInvalidWindowKey :: gerr where
  "ErrInvalidWindowKey = Sentinel ''jobs.ErrInvalidWindowKey''"

definition parseDailyWindowKey :: "string \<Rightarrow> gerr + gtime" where
  "parseDailyWindowKey windowKey =
    (let value = trim windowKey
     in if value = '''' then Inl ErrInvalidWindowKey
        else (case parse_date value of
            None \<Rightarrow> Inl (Wrapped ''expected YYYY-MM-DD'' ErrInvalidWindowKey)
          | Some t \<Rightarrow> Inr t))"

definition parseMonthlyWindowKey :: "string \<Rightarrow> gerr + (int \<times> int)" where
  "parseMonthlyWindowKey windowKey =
    (let value = trim windowKey
     in if value = '''' then Inl ErrInvalidWindowKey
        else (case parse_month value of
            None \<Rightarrow> Inl (Wrapped ''expected YYYY-MM'' ErrInvalidWindowKey)
          | Some ym \<Rightarrow> Inr ym))"

section \<open>Bills\<close>

definition ErrConcurrentUpdate_jobs :: gerr where
  "ErrConcurrentUpdate_jobs = Sentinel ''jobs.ErrConcurrentUpdate''"
definition ErrAlreadyProcessed :: gerr where
  "ErrAlreadyProcessed = Sentinel ''jobs.ErrAlreadyProcessed''"

record candidate =
  jc_ID :: string
  jc_Version :: int

definition overdue_on :: "gtime \<Rightarrow> bill \<Rightarrow> bool" where
  "overdue_on today b \<longleftrightarrow> t_day (b_DueDate b) < t_day today \<and> b_Status b = ''pending_payment''"

definition ListOverdueScanCandidates :: "gtime \<Rightarrow> candidate list tx" where
  "ListOverdueScanCandidates today =
     stmt ''list overdue scan candidates'' (\<lambda>_ d.
       (map (\<lambda>b. \<lparr>jc_ID = b_ID b, jc_Version = b_Version b\<rparr>)
          (sort_key (\<lambda>b. (t_day (b_DueDate b), b_ID b)) (filter (overdue_on today) (live (db_bills d)))), d))"

definition guarded_bill_update ::
    "string \<Rightarrow> env \<Rightarrow> (bill \<Rightarrow> bool) \<Rightarrow> (bill \<Rightarrow> bill) \<Rightarrow> unit tx" where
  "guarded_bill_update ctx E P f =
     tx_bind (stmt ctx (\<lambda>_ d. (length (filter P (live (db_bills d))), update_bills E P f d)))
       (\<lambda>affected. if affected = 0 then tx_throw ErrConcurrentUpdate_db else tx_return ())"

definition MarkBillOverdue :: "env \<Rightarrow> string \<Rightarrow> int \<Rightarrow> unit tx" where
  "MarkBillOverdue E billID expectedVersion =
     guarded_bill_update ''mark bill overdue'' E
       (\<lambda>b. b_ID b = billID \<and> b_Version b = expectedVersion \<and> b_Status b = ''pending_payment'')
       (\<lambda>b. b\<lparr>b_Status := ''overdue''\<rparr>)"

record reminder_candidate =
  rc_ID :: string
  rc_TenantID :: string
  rc_TenantEmail :: "string option"
  rc_Amount :: "int option"
  rc_DueDate :: gtime
  rc_OverdueNoticeCount :: int
  rc_Version :: int

definition ListOverdueReminderCandidates :: "reminder_candidate list tx" where
  "ListOverdueReminderCandidates =
     stmt ''list overdue reminder candidates'' (\<lambda>_ d.
       (concat (map (\<lambda>b. map (\<lambda>t.
            \<lparr>rc_ID = b_ID b, rc_TenantID = b_TenantID b, rc_TenantEmail = tn_Email t,
             rc_Amount = b_Amount b, rc_DueDate = b_DueDate b,
             rc_OverdueNoticeCount = b_OverdueNoticeCount b, rc_Version = b_Version b\<rparr>)
            (filter (\<lambda>t. tn_ID t = b_TenantID b) (live (db_tenants d))))
          (sort_key (\<lambda>b. (t_day (b_DueDate b), b_ID b))
            (filter (\<lambda>b. b_Status b = ''overdue'' \<and> b_OverdueNoticeCount b < 3) (live (db_bills d))))), d))"

definition IncrementOverdueNoticeCount :: "env \<Rightarrow> string \<Rightarrow> int \<Rightarrow> unit tx" where
  "IncrementOverdueNoticeCount E billID expectedVersion =
     guarded_bill_update ''increment overdue notice count'' E
       (\<lambda>b. b_ID b = billID \<and> b_Version b = expectedVersion \<and> b_Status b = ''overdue''
            \<and> b_OverdueNoticeCount b < 3)
       (\<lambda>b. b\<lparr>b_OverdueNoticeCount := b_OverdueNoticeCount b + 1\<rparr>)"

section \<open>Leases and force terminations\<close>

definition expired_on :: "gtime \<Rightarrow> lease \<Rightarrow> bool" where
  "expired_on today l \<longleftrightarrow> t_day (l_EndDate l) < t_day today \<and> l_Status l = ''active''"

definition ListLeaseExpiryCandidates :: "gtime \<Rightarrow> candidate list tx" where
  "ListLeaseExpiryCandidates today =
     stmt ''list lease expiry candidates'' (\<lambda>_ d.
       (map (\<lambda>l. \<lparr>jc_ID = l_ID l, jc_Version = l_Version l\<rparr>)
          (sort_key (\<lambda>l. (t_day (l_EndDate l), l_ID l)) (filter (expired_on today) (live (db_leases d)))), d))"

definition MarkLeaseExpired :: "env \<Rightarrow> string \<Rightarrow> int \<Rightarrow> unit tx" where
  "MarkLeaseExpired E leaseID expectedVersion =
     (let P = (\<lambda>l. l_ID l = leaseID \<and> l_Version l = expectedVersion \<and> l_Status l = ''active'')
      in tx_bind (stmt ''mark lease expired'' (\<lambda>_ d.
             (length (filter P (live (db_leases d))),
              d\<lparr>db_leases := tab_update P (touched E (\<lambda>l. l\<lparr>l_Status := ''expired''\<rparr>)) (db_leases d)\<rparr>)))
           (\<lambda>affected. if affected = 0 then tx_throw ErrLeaseNotFound_db else tx_return ()))"

record expiring_candidate =
  ec_ID :: string
  ec_PropertyID :: string
  ec_TenantID :: string
  ec_RoomID :: string
  ec_EndDate :: gtime

definition ListLeaseExpiringSoonCandidates :: "gtime \<Rightarrow> expiring_candidate list tx" where
  "ListLeaseExpiringSoonCandidates targetDate =
     stmt ''list lease expiring soon candidates'' (\<lambda>_ d.
       (map (\<lambda>l. \<lparr>ec_ID = l_ID l, ec_PropertyID = l_PropertyID l, ec_TenantID = l_TenantID l,
                  ec_RoomID = l_RoomID l, ec_EndDate = l_EndDate l\<rparr>)
          (sort_key (\<lambda>l. (l_PropertyID l, t_day (l_EndDate l), l_ID l))
            (filter (\<lambda>l. t_day (l_EndDate l) = t_day targetDate \<and> l_Status l = ''active'')
              (live (db_leases d)))), d))"

record notification_recipient =
  nr_Email :: string
  nr_Name :: string

text \<open>\<open>users.name\<close> is scanned into a string: a \<open>NULL\<close> name fails the query.\<close>

definition ListLeaseExpiringSoonRecipients :: "string \<Rightarrow> notification_recipient list tx" where
  "ListLeaseExpiringSoonRecipients propertyID =
     tx_bind (stmt ''list lease expiring soon recipients'' (\<lambda>_ d.
       (sort_key (\<lambda>u. (us_Role u, instant (us_CreatedAt u), us_ID u))
         (filter (\<lambda>u. us_Role u = ''organizer''
                    \<or> us_Role u = ''staff'' \<and> propertyID \<in> set (us_AssignedPropertyIDs u))
            (live (db_users d))), d)))
       (\<lambda>us. if \<exists>u \<in> set us. us_Name u = None
             then tx_throw (Wrapped ''scan lease expiring soon recipient'' driver_error)
             else tx_return (map (\<lambda>u. \<lparr>nr_Email = us_Email u, nr_Name = the (us_Name u)\<rparr>) us))"

record force_termination_candidate =
  fc_ID :: string
  fc_Reason :: string

definition ListInProgressForceTerminations :: "force_termination_candidate list tx" where
  "ListInProgressForceTerminations =
     stmt ''list in-progress force terminations'' (\<lambda>_ d.
       (map (\<lambda>ft. \<lparr>fc_ID = ft_ID ft, fc_Reason = ft_Reason ft\<rparr>)
          (sort_key (\<lambda>ft. (instant (ft_CreatedAt ft), ft_ID ft))
            (filter (\<lambda>ft. ft_Status ft = ''in_progress'') (db_force_terminations d))), d))"

text \<open>The bills of one force termination are inserted by one transaction, so they
  share \<open>created_at\<close> and are ordered by bill id.\<close>

definition ListPendingForceTerminationBillIDs :: "string \<Rightarrow> string list tx" where
  "ListPendingForceTerminationBillIDs forceTerminationID =
     stmt ''list pending force termination bills'' (\<lambda>_ d.
       (sort_key (\<lambda>i. i) (map fb_BillID
          (filter (\<lambda>fb. fb_ForceTerminationID fb = forceTerminationID \<and> fb_Status fb = ''pending'')
            (db_force_termination_bills d))), d))"

section \<open>Adapters\<close>

definition a_MarkBillOverdue :: "env \<Rightarrow> string \<Rightarrow> int \<Rightarrow> unit tx" where
  "a_MarkBillOverdue E billID expectedVersion =
     tx_map_err (\<lambda>e. if errors_Is e ErrConcurrentUpdate_db then ErrConcurrentUpdate_jobs else e)
       (MarkBillOverdue E billID expectedVersion)"

definition a_IncrementOverdueNoticeCount :: "env \<Rightarrow> string \<Rightarrow> int \<Rightarrow> unit tx" where
  "a_IncrementOverdueNoticeCount E billID expectedVersion =
     tx_map_err (\<lambda>e. if errors_Is e ErrConcurrentUpdate_db then ErrConcurrentUpdate_jobs else e)
       (IncrementOverdueNoticeCount E billID expectedVersion)"

definition a_MarkLeaseExpired :: "env \<Rightarrow> string \<Rightarrow> int \<Rightarrow> unit tx" where
  "a_MarkLeaseExpired E leaseID expectedVersion =
     tx_map_err (\<lambda>e. if errors_Is e ErrLeaseNotFound_db then ErrConcurrentUpdate_jobs else e)
       (MarkLeaseExpired E leaseID expectedVersion)"

end
