(* ===== verification/Jobs.thy ===== *)
theory Jobs
  imports Snapshots
begin

text \<open>
  The six scheduled jobs of application/jobs/batch.go.  Each lists its
  candidates, treats every candidate in a transaction of its own, and counts
  the outcomes; a failing candidate does not stop the others.
\<close>

section \<open>Counting outcomes\<close>

definition no_summary :: execution_summary where
  "no_summary = \<lparr>ProcessedCount = 0, SkippedCount = 0, FailedCount = 0, Note = ''''\<rparr>"

definition processed :: "execution_summary \<Rightarrow> execution_summary" where
  "processed s = s\<lparr>ProcessedCount := ProcessedCount s + 1\<rparr>"
definition skipped :: "execution_summary \<Rightarrow> execution_summary" where
  "skipped s = s\<lparr>SkippedCount := SkippedCount s + 1\<rparr>"
definition failed :: "execution_summary \<Rightarrow> execution_summary" where
  "failed s = s\<lparr>FailedCount := FailedCount s + 1\<rparr>"

text \<open>\<open>switch { case err == nil: ...; case errors.Is(err, skip): ...; default: ... }\<close>.\<close>

definition tally :: "gerr option \<Rightarrow> unit tx \<Rightarrow> execution_summary \<Rightarrow> execution_summary tx" where
  "tally skip m s w =
    (case m w of
       (Inr _, v) \<Rightarrow> (Inr (processed s), v)
     | (Inl e, v) \<Rightarrow> (Inr (if (case skip of None \<Rightarrow> False | Some t \<Rightarrow> errors_Is e t)
                          then skipped s else failed s), v))"

text \<open>\<open>for _, candidate := range candidates { ... }\<close>.\<close>

fun each_candidate ::
    "('c \<Rightarrow> execution_summary \<Rightarrow> execution_summary tx) \<Rightarrow> 'c list \<Rightarrow> execution_summary \<Rightarrow> execution_summary tx" where
  "each_candidate step [] s = tx_return s"
| "each_candidate step (c # cs) s = tx_bind (step c s) (each_candidate step cs)"

definition job_completed :: "execution_summary \<Rightarrow> execution_summary tx" where
  "job_completed s = tx_return (s\<lparr>Note := ''job completed''\<rparr>)"

section \<open>The jobs\<close>

definition NewOverdueBillsScanRunner :: "env \<Rightarrow> (event \<Rightarrow> unit tx) \<Rightarrow> runner" where
  "NewOverdueBillsScanRunner E publish windowKey =
     tx_bind (tx_lift (parseDailyWindowKey windowKey)) (\<lambda>today.
       tx_bind (ListOverdueScanCandidates today) (\<lambda>candidates.
         tx_bind (each_candidate (\<lambda>c. tally (Some ErrConcurrentUpdate_jobs)
                     (WithinTransaction publish (a_MarkBillOverdue E (jc_ID c) (jc_Version c))))
                   candidates no_summary)
           job_completed))"

text \<open>The notifier: how it sends a reminder for an overdue bill and for a lease that
  is about to end.\<close>

record notifier =
  nf_overdue :: "notification_recipient \<Rightarrow> reminder_candidate \<Rightarrow> unit tx"
  nf_expiring :: "notification_recipient \<Rightarrow> expiring_candidate \<Rightarrow> unit tx"

definition remind ::
    "env \<Rightarrow> (event \<Rightarrow> unit tx) \<Rightarrow> notifier option \<Rightarrow> reminder_candidate \<Rightarrow>
     execution_summary \<Rightarrow> execution_summary tx" where
  "remind E publish nf c s =
    (let email = trim (stringValue (rc_TenantEmail c))
     in if email = '''' then tx_return (skipped s)
        else (case nf of
            None \<Rightarrow> tx_return (failed s)
          | Some n \<Rightarrow>
              tally (Some ErrConcurrentUpdate_jobs) (WithinTransaction publish
                (tx_bind (a_IncrementOverdueNoticeCount E (rc_ID c) (rc_Version c))
                  (\<lambda>_. nf_overdue n \<lparr>nr_Email = email, nr_Name = ''''\<rparr> c))) s))"

definition NewOverdueBillReminderRunner :: "env \<Rightarrow> (event \<Rightarrow> unit tx) \<Rightarrow> notifier option \<Rightarrow> runner" where
  "NewOverdueBillReminderRunner E publish nf windowKey =
     tx_bind (tx_lift (parseDailyWindowKey windowKey)) (\<lambda>_.
       tx_bind ListOverdueReminderCandidates (\<lambda>candidates.
         tx_bind (each_candidate (remind E publish nf) candidates no_summary) job_completed))"

definition NewLeaseExpiryRunner :: "env \<Rightarrow> (event \<Rightarrow> unit tx) \<Rightarrow> runner" where
  "NewLeaseExpiryRunner E publish windowKey =
     tx_bind (tx_lift (parseDailyWindowKey windowKey)) (\<lambda>today.
       tx_bind (ListLeaseExpiryCandidates today) (\<lambda>candidates.
         tx_bind (each_candidate (\<lambda>c. tally (Some ErrConcurrentUpdate_jobs)
                     (WithinTransaction publish (a_MarkLeaseExpired E (jc_ID c) (jc_Version c))))
                   candidates no_summary)
           job_completed))"

fun filterRecipients_loop ::
    "string list \<Rightarrow> notification_recipient list \<Rightarrow> notification_recipient list" where
  "filterRecipients_loop seen [] = []"
| "filterRecipients_loop seen (r # rs) =
    (let email = trim (nr_Email r)
     in if email = '''' \<or> email \<in> set seen then filterRecipients_loop seen rs
        else r\<lparr>nr_Email := email\<rparr> # filterRecipients_loop (email # seen) rs)"

definition filterRecipients :: "notification_recipient list \<Rightarrow> notification_recipient list" where
  "filterRecipients recipients = filterRecipients_loop [] recipients"

text \<open>All recipients are tried; whether one of them failed.\<close>

fun send_all :: "('r \<Rightarrow> unit tx) \<Rightarrow> 'r list \<Rightarrow> bool \<Rightarrow> world \<Rightarrow> bool \<times> world" where
  "send_all send [] bad w = (bad, w)"
| "send_all send (r # rs) bad w =
    (case send r w of
       (Inl e, v) \<Rightarrow> send_all send rs True v
     | (Inr _, v) \<Rightarrow> send_all send rs bad v)"

definition announce_expiry ::
    "notifier option \<Rightarrow> expiring_candidate \<Rightarrow> execution_summary \<Rightarrow> execution_summary tx" where
  "announce_expiry nf c s w =
    (case ListLeaseExpiringSoonRecipients (ec_PropertyID c) w of
       (Inl e, v) \<Rightarrow> (Inr (failed s), v)
     | (Inr found, v) \<Rightarrow>
         let recipients = filterRecipients found
         in if recipients = [] then (Inr (skipped s), v)
            else (case nf of
                None \<Rightarrow> (Inr (failed s), v)
              | Some n \<Rightarrow>
                  (case send_all (\<lambda>r. nf_expiring n r c) recipients False v of
                     (any_failed, u) \<Rightarrow> (Inr (if any_failed then failed s else processed s), u))))"

definition NewLeaseExpiringSoonReminderRunner :: "notifier option \<Rightarrow> runner" where
  "NewLeaseExpiringSoonReminderRunner nf windowKey =
     tx_bind (tx_lift (parseDailyWindowKey windowKey)) (\<lambda>today.
       tx_bind (ListLeaseExpiringSoonCandidates (add_date today 0 0 30)) (\<lambda>candidates.
         tx_bind (each_candidate (announce_expiry nf) candidates no_summary) job_completed))"

definition close_month :: "env \<Rightarrow> int \<Rightarrow> int \<Rightarrow> string \<Rightarrow> unit tx" where
  "close_month E year month propertyID =
     tx_bind (MonthlySnapshotExists propertyID year month) (\<lambda>already.
       if already then tx_throw ErrAlreadyProcessed
       else CreateMonthlySnapshot E propertyID year month)"

definition NewMonthlySnapshotRunner :: "env \<Rightarrow> (event \<Rightarrow> unit tx) \<Rightarrow> runner" where
  "NewMonthlySnapshotRunner E publish windowKey =
     tx_bind (tx_lift (parseMonthlyWindowKey windowKey)) (\<lambda>(year, month).
       tx_bind ListMonthlySnapshotProperties (\<lambda>properties.
         tx_bind (each_candidate (\<lambda>p. tally (Some ErrAlreadyProcessed)
                     (WithinTransaction publish (close_month E year month p)))
                   properties no_summary)
           job_completed))"

definition compensate :: "env \<Rightarrow> force_termination_candidate \<Rightarrow> unit tx" where
  "compensate E c =
     tx_bind (ListPendingForceTerminationBillIDs (fc_ID c)) (\<lambda>billIDs.
       tx_bind (WriteOffBillsWithCount E billIDs (fc_Reason c)) (\<lambda>updated.
         if updated \<noteq> int (length billIDs) then tx_throw ErrConcurrentUpdate_jobs
         else tx_bind (MarkForceTerminationBillsDone E (fc_ID c) billIDs)
                (\<lambda>_. CompleteForceTermination E (fc_ID c))))"

definition NewForceTerminationCompensationRunner :: "env \<Rightarrow> (event \<Rightarrow> unit tx) \<Rightarrow> runner" where
  "NewForceTerminationCompensationRunner E publish windowKey =
     tx_bind (tx_lift (parseDailyWindowKey windowKey)) (\<lambda>_.
       tx_bind ListInProgressForceTerminations (\<lambda>candidates.
         tx_bind (each_candidate (\<lambda>c. tally None (WithinTransaction publish (compensate E c)))
                   candidates no_summary)
           job_completed))"

section \<open>The jobs of the server\<close>

definition jobNotificationAdapter :: "notification_service \<Rightarrow> notifier" where
  "jobNotificationAdapter service =
     \<lparr>nf_overdue = (\<lambda>r b. SendOverdueBillReminderEmail service (nr_Email r) (rc_Amount b) (rc_DueDate b)),
      nf_expiring = (\<lambda>r l. SendLeaseExpiringSoonEmail service (nr_Email r) (nr_Name r) (ec_ID l) (ec_EndDate l))\<rparr>"

definition NewRunners :: "env \<Rightarrow> (event \<Rightarrow> unit tx) \<Rightarrow> notifier option \<Rightarrow> string \<Rightarrow> runner option" where
  "NewRunners E publish nf =
     [JobOverdueBillsScan \<mapsto> NewOverdueBillsScanRunner E publish,
      JobOverdueBillReminders \<mapsto> NewOverdueBillReminderRunner E publish nf,
      JobLeaseExpiryScan \<mapsto> NewLeaseExpiryRunner E publish,
      JobLeaseExpiringSoonReminder \<mapsto> NewLeaseExpiringSoonReminderRunner nf,
      JobMonthlySnapshot \<mapsto> NewMonthlySnapshotRunner E publish,
      JobForceTerminationCompensation \<mapsto> NewForceTerminationCompensationRunner E publish]"

definition newJobRunners :: "env \<Rightarrow> string \<Rightarrow> runner option" where
  "newJobRunners E = NewRunners E (server_publish E)
     (Some (jobNotificationAdapter (Some (Dispatcher_Send server_dispatcher))))"

end
