(* ===== verification/JobScans.thy ===== *)
theory JobScans
  imports Jobs
begin

text \<open>
  What the daily scans do.  Both scans (overdue bills, expired leases) have one
  shape, which the locale \<open>scan\<close> states: every row that is due is treated in its
  own transaction, which either changes exactly that row or changes nothing.
\<close>

section \<open>Transactions that publish nothing\<close>

lemma WithinTransaction_quiet:
  assumes "WithinTransaction publish m w = (res, v)"
    and "\<And>u r u'. m u = (r, u') \<Longrightarrow> w_events u' = w_events u"
  shows "case res of Inl e \<Rightarrow> w_db v = w_db w
       | Inr x \<Rightarrow> \<exists>u u'. w_db u = w_db w \<and> m u = (Inr x, u') \<and> w_db v = w_db u'"
proof (cases res)
  case (Inr x)
  then obtain u where u: "m ((tick w)\<lparr>w_events := []\<rparr>) = (Inr x, u)"
    "publish_all publish (w_events u) ((tick u)\<lparr>w_events := w_events w\<rparr>) = (Inr (), v)"
    using assms(1) by (auto simp: WithinTransaction_ok)
  have "w_events u = []" using assms(2) [OF u(1)] by simp
  then have "w_db v = w_db u" using u(2) by (simp add: tx_control)
  then have "\<exists>u0 u'. w_db u0 = w_db w \<and> m u0 = (Inr x, u') \<and> w_db v = w_db u'"
    using u(1) by (intro exI [of _ "(tick w)\<lparr>w_events := []\<rparr>"] exI [of _ u]) simp
  then show ?thesis by (simp add: Inr)
next
  case (Inl e)
  obtain r u where u: "m ((tick w)\<lparr>w_events := []\<rparr>) = (r, u)" by force
  have ev: "w_events u = []" using assms(2) [OF u] by simp
  then show ?thesis using assms(1) Inl u
    by (auto simp: WithinTransaction_def tx_control tx_return_def split: if_splits sum.splits prod.splits)
qed

lemma quiet_runs:
  assumes "calm w" "WithinTransaction publish m w = (res, v)"
    and "\<And>u r u'. m u = (r, u') \<Longrightarrow> w_events u' = w_events u"
    and "wp m (\<lambda>_ u. calm u) ((tick w)\<lparr>w_events := []\<rparr>)"
  shows "calm v \<and> (\<exists>x. res = Inr x)"
proof -
  obtain x u where u: "m ((tick w)\<lparr>w_events := []\<rparr>) = (Inr x, u)" "calm u"
    using assms(4) by (auto simp: wp_def)
  then have "w_events u = []" using assms(3) [OF u(1)] by simp
  then show ?thesis using assms(1,2) u
    by (auto simp: WithinTransaction_def tx_return_def)
qed

lemma each_candidate_map:
  "each_candidate step (map f cs) s = each_candidate (\<lambda>c. step (f c)) cs s"
proof (induction cs arbitrary: s)
  case (Cons c cs)
  then have "each_candidate step (map f cs) = each_candidate (\<lambda>c. step (f c)) cs" by (rule ext)
  then show ?case by simp
qed simp

lemma sorted_keys_distinct: "distinct (map key xs) \<Longrightarrow> distinct (map key (sort_key f (filter P xs)))"
  by (simp add: distinct_map inj_on_def)

section \<open>The shape of a scan\<close>

locale scan =
  fixes rows :: "db \<Rightarrow> 'r list"
    and ident :: "'r \<Rightarrow> string"
    and due :: "'r \<Rightarrow> bool"
    and mark :: "'r \<Rightarrow> 'r"
    and rest :: "db \<Rightarrow> db"
    and treat :: "'r \<Rightarrow> unit tx"
  assumes ident_mark: "ident (mark r) = ident r"
    and treat_D: "treat r w = (res, v) \<Longrightarrow> r \<in> set (rows (w_db w)) \<Longrightarrow> due r \<Longrightarrow>
       distinct (map ident (rows (w_db w))) \<Longrightarrow>
       (case res of
          Inl e \<Rightarrow> w_db v = w_db w
        | Inr _ \<Rightarrow> rows (w_db v) = map (\<lambda>x. if ident x = ident r then mark x else x) (rows (w_db w))
                 \<and> rest (w_db v) = rest (w_db w))"
    and treat_runs: "treat r w = (res, v) \<Longrightarrow> r \<in> set (rows (w_db w)) \<Longrightarrow> due r \<Longrightarrow>
       distinct (map ident (rows (w_db w))) \<Longrightarrow> calm w \<Longrightarrow> calm v \<and> res = Inr ()"
begin

definition marked :: "string set \<Rightarrow> 'r list \<Rightarrow> 'r list" where
  "marked D rs = map (\<lambda>x. if ident x \<in> D then mark x else x) rs"

lemma marked_keys [simp]: "map ident (marked D rs) = map ident rs"
  by (simp add: marked_def ident_mark)

lemma marked_insert:
  assumes "i \<notin> D"
  shows "map (\<lambda>x. if ident x = i then mark x else x) (marked D rs) = marked (insert i D) rs"
proof -
  have "(if ident (if ident x \<in> D then mark x else x) = i then mark (if ident x \<in> D then mark x else x)
        else if ident x \<in> D then mark x else x) = (if ident x \<in> insert i D then mark x else x)" for x
    using assms by (auto simp: ident_mark)
  then show ?thesis by (simp add: marked_def)
qed

lemma each_treated:
  assumes "each_candidate (\<lambda>r. tally skip (treat r)) rs s w = (res, v)"
    and "rows (w_db w) = marked D all" "distinct (map ident all)"
    and "set rs \<subseteq> set all" "\<forall>r \<in> set rs. due r \<and> ident r \<notin> D" "distinct (map ident rs)"
  shows "\<exists>D' s'. res = Inr s' \<and> D \<subseteq> D' \<and> D' \<subseteq> D \<union> ident ` set rs
     \<and> rows (w_db v) = marked D' all \<and> rest (w_db v) = rest (w_db w)
     \<and> ProcessedCount s' = ProcessedCount s + int (card (D' - D))
     \<and> ProcessedCount s' + SkippedCount s' + FailedCount s'
       = ProcessedCount s + SkippedCount s + FailedCount s + int (length rs)
     \<and> Note s' = Note s \<and> (calm w \<longrightarrow> calm v \<and> D' = D \<union> ident ` set rs)"
  using assms
proof (induction rs arbitrary: s w D)
  case Nil
  then show ?case by (intro exI [of _ D] exI [of _ s]) (auto simp: tx_return_def)
next
  case (Cons r rs)
  obtain b w1 where t: "treat r w = (b, w1)" by force
  define s1 where "s1 = (case b of Inr _ \<Rightarrow> processed s
       | Inl e \<Rightarrow> if (case skip of None \<Rightarrow> False | Some t \<Rightarrow> errors_Is e t) then skipped s else failed s)"
  have "tally skip (treat r) s w = (Inr s1, w1)"
    by (cases b) (simp_all add: tally_def t s1_def)
  then have s1: "each_candidate (\<lambda>r. tally skip (treat r)) rs s1 w1 = (res, v)"
    using Cons.prems(1) by (simp add: tx_bind_def)
  note s1 = s1 s1_def
  have r: "r \<in> set (rows (w_db w))"
    using Cons.prems(2,4,5) by (auto simp: marked_def image_iff)
  have keys: "distinct (map ident (rows (w_db w)))" using Cons.prems(2,3) by simp
  note eff = treat_D [OF t r _ keys] and runs = treat_runs [OF t r _ keys]
  have rs: "set rs \<subseteq> set all" "distinct (map ident rs)" "ident r \<notin> ident ` set rs" "due r" "ident r \<notin> D"
    using Cons.prems(4-6) by force+
  show ?case
  proof (cases b)
    case (Inl e)
    then have same: "w_db w1 = w_db w" using eff rs by simp
    have rs': "\<forall>r \<in> set rs. due r \<and> ident r \<notin> D" using Cons.prems(5) by simp
    obtain D' s' where h: "res = Inr s'" "D \<subseteq> D'" "D' \<subseteq> D \<union> ident ` set rs"
      "rows (w_db v) = marked D' all" "rest (w_db v) = rest (w_db w1)"
      "ProcessedCount s' = ProcessedCount s1 + int (card (D' - D))"
      "ProcessedCount s' + SkippedCount s' + FailedCount s'
       = ProcessedCount s1 + SkippedCount s1 + FailedCount s1 + int (length rs)" "Note s' = Note s1"
      using Cons.IH [OF s1(1) _ Cons.prems(3) rs(1) rs' rs(2)] unfolding same
      using Cons.prems(2) by blast
    have "\<not> calm w" using runs rs Inl by auto
    then show ?thesis
      using h Inl same s1(2)
      by (intro exI [of _ D'] exI [of _ s']) (auto simp: skipped_def failed_def split: if_splits)
  next
    case (Inr x)
    let ?D = "insert (ident r) D"
    have eff': "rows (w_db w1) = marked ?D all" "rest (w_db w1) = rest (w_db w)"
      using eff rs Inr Cons.prems(2) marked_insert [OF rs(5)] by auto
    have rs': "\<forall>r \<in> set rs. due r \<and> ident r \<notin> ?D" using Cons.prems(5) rs(3)
      by (metis imageI insert_iff list.set_intros(2))
    obtain D' s' where h: "res = Inr s'" "?D \<subseteq> D'" "D' \<subseteq> ?D \<union> ident ` set rs"
      "rows (w_db v) = marked D' all" "rest (w_db v) = rest (w_db w1)"
      "ProcessedCount s' = ProcessedCount s1 + int (card (D' - ?D))"
      "ProcessedCount s' + SkippedCount s' + FailedCount s'
       = ProcessedCount s1 + SkippedCount s1 + FailedCount s1 + int (length rs)" "Note s' = Note s1"
      "calm w1 \<longrightarrow> calm v \<and> D' = ?D \<union> ident ` set rs"
      using Cons.IH [OF s1(1) eff'(1) Cons.prems(3) rs(1) rs' rs(2)] by blast
    have "D' - ?D \<subseteq> ident ` set rs" using h(3) by blast
    then have fin: "finite (D' - ?D)" by (rule finite_subset) simp
    have "D' - D = insert (ident r) (D' - ?D)" using h(2) rs(5) by blast
    moreover have "card (insert (ident r) (D' - ?D)) = Suc (card (D' - ?D))"
      by (rule card_insert_disjoint [OF fin]) blast
    ultimately have "card (D' - D) = Suc (card (D' - ?D))" by (simp only:)
    moreover have "s1 = processed s" using s1(2) Inr by simp
    moreover have "calm w \<longrightarrow> calm w1" using runs rs(4) by blast
    moreover have "D \<subseteq> D'" "D' \<subseteq> D \<union> ident ` set (r # rs)" "?D \<union> ident ` set rs = D \<union> ident ` set (r # rs)"
      using h(2,3) by auto
    ultimately show ?thesis
      using h(1,4-9) eff'(2) by (intro exI [of _ D'] exI [of _ s']) (simp add: processed_def)
  qed
qed

lemma scan_all:
  assumes "distinct (map ident (rows (w_db w)))" "set rs = {r \<in> set (rows (w_db w)). due r}"
    and "distinct (map ident rs)" "each_candidate (\<lambda>r. tally skip (treat r)) rs s w = (res, v)"
    and "ProcessedCount s = 0" "SkippedCount s = 0" "FailedCount s = 0"
  shows "\<exists>D s'. res = Inr s' \<and> D \<subseteq> ident ` {r \<in> set (rows (w_db w)). due r}
     \<and> rows (w_db v) = map (\<lambda>x. if ident x \<in> D then mark x else x) (rows (w_db w))
     \<and> rest (w_db v) = rest (w_db w) \<and> ProcessedCount s' = int (card D)
     \<and> ProcessedCount s' + SkippedCount s' + FailedCount s' = int (length rs)
     \<and> (calm w \<longrightarrow> calm v \<and> D = ident ` {r \<in> set (rows (w_db w)). due r})"
proof -
  have start: "rows (w_db w) = marked {} (rows (w_db w))" by (simp add: marked_def)
  have sub: "set rs \<subseteq> set (rows (w_db w))" "\<forall>r \<in> set rs. due r \<and> ident r \<notin> {}"
    using assms(2) by auto
  obtain D s' where D: "res = Inr s'" "D \<subseteq> {} \<union> ident ` set rs" "rows (w_db v) = marked D (rows (w_db w))"
    "rest (w_db v) = rest (w_db w)" "ProcessedCount s' = ProcessedCount s + int (card (D - {}))"
    "ProcessedCount s' + SkippedCount s' + FailedCount s'
       = ProcessedCount s + SkippedCount s + FailedCount s + int (length rs)"
    "calm w \<longrightarrow> calm v \<and> D = {} \<union> ident ` set rs"
    using each_treated [OF assms(4) start assms(1) sub assms(3)] by blast
  show ?thesis
    using D assms(5-7) unfolding assms(2) marked_def by (intro exI [of _ D] exI [of _ s']) simp
qed

text \<open>The whole job: list the rows that are due, treat each, count.\<close>

definition scan_job ::
    "string \<Rightarrow> ('r \<Rightarrow> 'k::linorder) \<Rightarrow> ('r \<Rightarrow> 'c) \<Rightarrow> ('c \<Rightarrow> execution_summary \<Rightarrow> execution_summary tx) \<Rightarrow>
     execution_summary tx" where
  "scan_job ctx order cand step =
     tx_bind (stmt ctx (\<lambda>_ d. (map cand (sort_key order (filter due (rows d))), d)))
       (\<lambda>cs. tx_bind (each_candidate step cs no_summary) job_completed)"

lemma scan_job_D:
  assumes run: "scan_job ctx order cand step w = (res, v)" and keys: "distinct (map ident (rows (w_db w)))"
    and step: "\<And>r. step (cand r) = tally skip (treat r)"
  shows "\<exists>D \<subseteq> ident ` {r \<in> set (rows (w_db w)). due r}.
     rows (w_db v) = map (\<lambda>x. if ident x \<in> D then mark x else x) (rows (w_db w))
     \<and> rest (w_db v) = rest (w_db w)
     \<and> (\<forall>s. res = Inr s \<longrightarrow> ProcessedCount s = int (card D)
          \<and> ProcessedCount s + SkippedCount s + FailedCount s = int (length (filter due (rows (w_db w)))))
     \<and> (w_faults w = [] \<longrightarrow> is_inr res \<and> D = ident ` {r \<in> set (rows (w_db w)). due r})"
proof (cases "next_fault w")
  case True
  then have "w_db v = w_db w" "\<not> calm w" "\<not> is_inr res"
    using run by (auto simp: scan_job_def tx_bind_def stmt_def)
  then show ?thesis by (intro exI [of _ "{}"]) (auto simp: calm_def)
next
  case False
  let ?rs = "sort_key order (filter due (rows (w_db w)))" and ?u = "stepped w (w_db w)"
  obtain res1 where each: "each_candidate (\<lambda>r. tally skip (treat r)) ?rs no_summary ?u = (res1, v)"
    and res: "res = map_sum id (\<lambda>s. s\<lparr>Note := ''job completed''\<rparr>) res1"
    using run False
    by (auto simp: scan_job_def tx_bind_def tx_return_def stmt_def stepped_def job_completed_def
        each_candidate_map step split: prod.splits sum.splits)
  have rs: "set ?rs = {r \<in> set (rows (w_db ?u)). due r}" by auto
  have u: "distinct (map ident (rows (w_db ?u)))" "ProcessedCount no_summary = 0"
    "SkippedCount no_summary = 0" "FailedCount no_summary = 0"
    using keys by (simp_all add: no_summary_def)
  from scan_all [OF u(1) rs sorted_keys_distinct [OF keys] each u(2-4)]
  obtain D s where D: "res1 = Inr s" "D \<subseteq> ident ` {r \<in> set (rows (w_db w)). due r}"
    "rows (w_db v) = map (\<lambda>x. if ident x \<in> D then mark x else x) (rows (w_db w))"
    "rest (w_db v) = rest (w_db w)" "ProcessedCount s = int (card D)"
    "ProcessedCount s + SkippedCount s + FailedCount s = int (length ?rs)"
    "calm ?u \<longrightarrow> D = ident ` {r \<in> set (rows (w_db w)). due r}"
    unfolding stepped_simps by blast
  have "w_faults w = [] \<Longrightarrow> calm ?u" by (simp add: calm_def stepped_def tick_def)
  then show ?thesis using D res by (intro exI [of _ D]) auto
qed

end

section \<open>Overdue bills\<close>

lemma guarded_cases:
  assumes "tx_map_err g (tx_bind (stmt ctx (\<lambda>_ d. (length (filter P (R d)), U d)))
              (\<lambda>n. if n = 0 then tx_throw e else tx_return ())) w = (res, v)"
  shows "w_events v = w_events w" "calm w \<Longrightarrow> calm v" "res = Inr x \<Longrightarrow> w_db v = U (w_db w)"
    "calm w \<Longrightarrow> r \<in> set (R (w_db w)) \<Longrightarrow> P r \<Longrightarrow> res = Inr ()"
  using assms
  by (auto simp: tx_map_err_def tx_bind_def stmt_def tx_throw_def tx_return_def calm_def
      next_fault_def tick_def filter_empty_conv split: if_splits)

text \<open>A guarded update in a transaction of its own.\<close>

lemma guarded_transaction:
  assumes run: "WithinTransaction publish (tx_map_err g (tx_bind
      (stmt ctx (\<lambda>_ d. (length (filter P (R d)), U d)))
      (\<lambda>n. if n = 0 then tx_throw e else tx_return ()))) w = (res, v)"
  shows "case res of Inl _ \<Rightarrow> w_db v = w_db w | Inr _ \<Rightarrow> w_db v = U (w_db w)"
    and "calm w \<Longrightarrow> r \<in> set (R (w_db w)) \<Longrightarrow> P r \<Longrightarrow> calm v \<and> res = Inr ()"
proof -
  let ?m = "tx_map_err g (tx_bind (stmt ctx (\<lambda>_ d. (length (filter P (R d)), U d)))
      (\<lambda>n. if n = 0 then tx_throw e else tx_return ()))"
  note cases = guarded_cases [of g ctx P R U e]
  have eff: "case res of Inl e \<Rightarrow> w_db v = w_db w
      | Inr x \<Rightarrow> \<exists>u u'. w_db u = w_db w \<and> ?m u = (Inr x, u') \<and> w_db v = w_db u'"
    by (rule WithinTransaction_quiet [OF run cases(1)])
  show "case res of Inl _ \<Rightarrow> w_db v = w_db w | Inr _ \<Rightarrow> w_db v = U (w_db w)"
  proof (cases res)
    case (Inr x)
    then obtain u u' where u: "w_db u = w_db w" "?m u = (Inr x, u')" "w_db v = w_db u'"
      using eff by auto
    then show ?thesis using Inr cases(3) [OF u(2) refl] by simp
  qed (use eff in simp)
  assume calm: "calm w" and r: "r \<in> set (R (w_db w))" "P r"
  let ?u = "(tick w)\<lparr>w_events := []\<rparr>"
  obtain q u where q: "?m ?u = (q, u)" by force
  have "calm ?u" "r \<in> set (R (w_db ?u))" using calm r by simp_all
  then have "q = Inr ()" "calm u" using cases(2,4) [OF q] r(2) by simp_all
  then have "wp ?m (\<lambda>_. calm) ?u" using q by (simp add: wp_def)
  then show "calm v \<and> res = Inr ()"
    using quiet_runs [OF calm run cases(1)] by auto
qed

definition overdue_bill :: "env \<Rightarrow> bill \<Rightarrow> bill" where
  "overdue_bill E b = b\<lparr>b_Status := ''overdue'', b_UpdatedAt := e_now E, b_Version := b_Version b + 1\<rparr>"

definition without_bills :: "db \<Rightarrow> db" where
  "without_bills d = d\<lparr>db_bills := []\<rparr>"

definition mark_overdue :: "env \<Rightarrow> (event \<Rightarrow> unit tx) \<Rightarrow> bill \<Rightarrow> unit tx" where
  "mark_overdue E publish b = WithinTransaction publish (a_MarkBillOverdue E (b_ID b) (b_Version b))"

lemma update_one:
  assumes "r \<in> set xs" "distinct (map key xs)" "P r" "\<And>x. P x \<Longrightarrow> key x = key r"
  shows "map (\<lambda>x. if P x then f x else x) xs = map (\<lambda>x. if key x = key r then f x else x) xs"
proof (rule map_cong [OF refl])
  fix x assume "x \<in> set xs"
  then have "key x = key r \<Longrightarrow> x = r"
    using assms(1,2) unfolding distinct_map inj_on_def by blast
  then have "P x \<longleftrightarrow> key x = key r" using assms(3,4) by blast
  then show "(if P x then f x else x) = (if key x = key r then f x else x)" by (simp only:)
qed

interpretation overdue_scan: scan "\<lambda>d. live (db_bills d)" b_ID "overdue_on today" "overdue_bill E"
    without_bills "mark_overdue E publish" for today E publish
proof
  show "b_ID (overdue_bill E r) = b_ID r" for r by (simp add: overdue_bill_def)
next
  fix r w res v
  assume run: "mark_overdue E publish r w = (res, v)" and r: "r \<in> set (live (db_bills (w_db w)))"
    "overdue_on today r" "distinct (map b_ID (live (db_bills (w_db w))))"
  let ?P = "\<lambda>b. b_ID b = b_ID r \<and> b_Version b = b_Version r \<and> b_Status b = ''pending_payment''"
  note tx = guarded_transaction [OF run [unfolded mark_overdue_def a_MarkBillOverdue_def
        MarkBillOverdue_def guarded_bill_update_def]]
  have P: "?P r" using r(2) by (simp add: overdue_on_def)
  have one: "map (\<lambda>b. if ?P b then overdue_bill E b else b) (live (db_bills (w_db w)))
      = map (\<lambda>b. if b_ID b = b_ID r then overdue_bill E b else b) (live (db_bills (w_db w)))"
    by (rule update_one [where P = ?P, OF r(1,3) P]) simp
  show "case res of Inl e \<Rightarrow> w_db v = w_db w
      | Inr _ \<Rightarrow> live (db_bills (w_db v))
            = map (\<lambda>b. if b_ID b = b_ID r then overdue_bill E b else b) (live (db_bills (w_db w)))
          \<and> without_bills (w_db v) = without_bills (w_db w)"
  proof (cases res)
    case (Inr x)
    then have v: "w_db v = update_bills E ?P (\<lambda>b. b\<lparr>b_Status := ''overdue''\<rparr>) (w_db w)"
      using tx(1) by simp
    have "live (db_bills (w_db v)) = map (\<lambda>b. if ?P b then overdue_bill E b else b) (live (db_bills (w_db w)))"
      by (simp add: v overdue_bill_def)
    moreover have "without_bills (w_db v) = without_bills (w_db w)" by (simp add: v without_bills_def update_bills_def)
    ultimately show ?thesis using Inr one by simp
  qed (use tx(1) in simp)
  show "calm v \<and> res = Inr ()" if "calm w"
    by (rule tx(2) [OF that r(1)]) (rule P)
qed

lemma overdue_scan_D:
  assumes "parseDailyWindowKey key = Inr today" "distinct (map b_ID (live (db_bills (w_db w))))"
    and run: "NewOverdueBillsScanRunner E publish key w = (res, v)"
  shows "\<exists>D \<subseteq> b_ID ` {b \<in> set (live (db_bills (w_db w))). overdue_on today b}.
     live (db_bills (w_db v))
       = map (\<lambda>b. if b_ID b \<in> D then overdue_bill E b else b) (live (db_bills (w_db w)))
     \<and> without_bills (w_db v) = without_bills (w_db w)
     \<and> (\<forall>s. res = Inr s \<longrightarrow> ProcessedCount s = int (card D)
          \<and> ProcessedCount s + SkippedCount s + FailedCount s
            = int (length (filter (overdue_on today) (live (db_bills (w_db w))))))
     \<and> (w_faults w = [] \<longrightarrow> is_inr res
          \<and> D = b_ID ` {b \<in> set (live (db_bills (w_db w))). overdue_on today b})"
proof -
  let ?step = "\<lambda>c. tally (Some ErrConcurrentUpdate_jobs)
                     (WithinTransaction publish (a_MarkBillOverdue E (jc_ID c) (jc_Version c)))"
  have "overdue_scan.scan_job today ''list overdue scan candidates''
      (\<lambda>b. (t_day (b_DueDate b), b_ID b)) (\<lambda>b. \<lparr>jc_ID = b_ID b, jc_Version = b_Version b\<rparr>) ?step w = (res, v)"
    using run by (simp add: NewOverdueBillsScanRunner_def assms(1) ListOverdueScanCandidates_def
        overdue_scan.scan_job_def tx_bind_def tx_lift_def tx_return_def)
  then show ?thesis
    by (rule overdue_scan.scan_job_D [OF _ assms(2)]) (simp add: mark_overdue_def)
qed

text \<open>
  C26.  The overdue scan.  Whatever fails, the scan of a day changes nothing but
  bills: some of those that await payment and fell due before that day become
  overdue, one version later, and every other bill stays as it is.  The summary
  counts them, and every candidate is counted once.  When no statement fails
  the scan returns and all of them are overdue.
\<close>

theorem overdue_scan_marks_due_bills:
  assumes "parseDailyWindowKey key = Inr today" "distinct (map b_ID (live (db_bills (w_db w))))"
    and run: "NewOverdueBillsScanRunner E publish key w = (res, v)"
  shows "\<exists>D \<subseteq> b_ID ` {b \<in> set (live (db_bills (w_db w))). t_day (b_DueDate b) < t_day today \<and> b_Status b = ''pending_payment''}.
     live (db_bills (w_db v))
       = map (\<lambda>b. if b_ID b \<in> D then overdue_bill E b else b) (live (db_bills (w_db w)))
     \<and> without_bills (w_db v) = without_bills (w_db w)
     \<and> (\<forall>s. res = Inr s \<longrightarrow> ProcessedCount s = int (card D)
          \<and> ProcessedCount s + SkippedCount s + FailedCount s
            = int (length (filter (\<lambda>b. t_day (b_DueDate b) < t_day today \<and> b_Status b = ''pending_payment'') (live (db_bills (w_db w))))))
     \<and> (w_faults w = [] \<longrightarrow> is_inr res
          \<and> D = b_ID ` {b \<in> set (live (db_bills (w_db w))). t_day (b_DueDate b) < t_day today \<and> b_Status b = ''pending_payment''})"
  using overdue_scan_D [OF assms] unfolding overdue_on_def [abs_def] .

section \<open>Expired leases\<close>

definition expired_lease :: "env \<Rightarrow> lease \<Rightarrow> lease" where
  "expired_lease E = touched E (\<lambda>l. l\<lparr>l_Status := ''expired''\<rparr>)"

definition without_leases :: "db \<Rightarrow> db" where
  "without_leases d = d\<lparr>db_leases := []\<rparr>"

definition mark_expired :: "env \<Rightarrow> (event \<Rightarrow> unit tx) \<Rightarrow> lease \<Rightarrow> unit tx" where
  "mark_expired E publish l = WithinTransaction publish (a_MarkLeaseExpired E (l_ID l) (l_Version l))"

interpretation expiry_scan: scan "\<lambda>d. live (db_leases d)" l_ID "expired_on today" "expired_lease E"
    without_leases "mark_expired E publish" for today E publish
proof
  show "l_ID (expired_lease E r) = l_ID r" for r by (simp add: expired_lease_def touched_def)
next
  fix r w res v
  assume run: "mark_expired E publish r w = (res, v)" and r: "r \<in> set (live (db_leases (w_db w)))"
    "expired_on today r" "distinct (map l_ID (live (db_leases (w_db w))))"
  let ?P = "\<lambda>l. l_ID l = l_ID r \<and> l_Version l = l_Version r \<and> l_Status l = ''active''"
  note tx = guarded_transaction [OF run [unfolded mark_expired_def a_MarkLeaseExpired_def
        MarkLeaseExpired_def Let_def]]
  have P: "?P r" using r(2) by (simp add: expired_on_def)
  have one: "map (\<lambda>l. if ?P l then expired_lease E l else l) (live (db_leases (w_db w)))
      = map (\<lambda>l. if l_ID l = l_ID r then expired_lease E l else l) (live (db_leases (w_db w)))"
    by (rule update_one [where P = ?P, OF r(1,3) P]) simp
  show "case res of Inl e \<Rightarrow> w_db v = w_db w
      | Inr _ \<Rightarrow> live (db_leases (w_db v))
            = map (\<lambda>l. if l_ID l = l_ID r then expired_lease E l else l) (live (db_leases (w_db w)))
          \<and> without_leases (w_db v) = without_leases (w_db w)"
  proof (cases res)
    case (Inr x)
    then have v: "w_db v = (w_db w)\<lparr>db_leases := tab_update ?P (touched E (\<lambda>l. l\<lparr>l_Status := ''expired''\<rparr>)) (db_leases (w_db w))\<rparr>"
      using tx(1) by simp
    have "live (db_leases (w_db v)) = map (\<lambda>l. if ?P l then expired_lease E l else l) (live (db_leases (w_db w)))"
      by (simp add: v expired_lease_def)
    moreover have "without_leases (w_db v) = without_leases (w_db w)" by (simp add: v without_leases_def update_bills_def)
    ultimately show ?thesis using Inr one by simp
  qed (use tx(1) in simp)
  show "calm v \<and> res = Inr ()" if "calm w"
    by (rule tx(2) [OF that r(1)]) (rule P)
qed

lemma expiry_scan_D:
  assumes "parseDailyWindowKey key = Inr today" "distinct (map l_ID (live (db_leases (w_db w))))"
    and run: "NewLeaseExpiryRunner E publish key w = (res, v)"
  shows "\<exists>D \<subseteq> l_ID ` {l \<in> set (live (db_leases (w_db w))). expired_on today l}.
     live (db_leases (w_db v))
       = map (\<lambda>l. if l_ID l \<in> D then expired_lease E l else l) (live (db_leases (w_db w)))
     \<and> without_leases (w_db v) = without_leases (w_db w) \<and> db_rooms (w_db v) = db_rooms (w_db w)
     \<and> (\<forall>s. res = Inr s \<longrightarrow> ProcessedCount s = int (card D)
          \<and> ProcessedCount s + SkippedCount s + FailedCount s
            = int (length (filter (expired_on today) (live (db_leases (w_db w))))))
     \<and> (w_faults w = [] \<longrightarrow> is_inr res
          \<and> D = l_ID ` {l \<in> set (live (db_leases (w_db w))). expired_on today l})"
proof -
  let ?step = "\<lambda>c. tally (Some ErrConcurrentUpdate_jobs)
                     (WithinTransaction publish (a_MarkLeaseExpired E (jc_ID c) (jc_Version c)))"
  have job: "expiry_scan.scan_job today ''list lease expiry candidates''
      (\<lambda>l. (t_day (l_EndDate l), l_ID l)) (\<lambda>l. \<lparr>jc_ID = l_ID l, jc_Version = l_Version l\<rparr>) ?step w = (res, v)"
    using run by (simp add: NewLeaseExpiryRunner_def assms(1) ListLeaseExpiryCandidates_def
        expiry_scan.scan_job_def tx_bind_def tx_lift_def tx_return_def)
  have rooms: "without_leases d = without_leases d' \<Longrightarrow> db_rooms d = db_rooms d'" for d d'
    by (cases d; cases d') (simp add: without_leases_def)
  have step: "?step \<lparr>jc_ID = l_ID r, jc_Version = l_Version r\<rparr>
      = tally (Some ErrConcurrentUpdate_jobs) (mark_expired E publish r)" for r
    by (simp add: mark_expired_def)
  show ?thesis
    using expiry_scan.scan_job_D [OF job assms(2) step] rooms by blast
qed

text \<open>
  C27.  The expiry scan.  Whatever fails, the scan of a day changes nothing but
  leases: some of the active leases that ended before that day become expired,
  and their rooms stay occupied (an expired lease still has to be terminated).
  When no statement fails the scan returns and all of them are expired.
\<close>

theorem expiry_scan_expires_leases:
  assumes "parseDailyWindowKey key = Inr today" "distinct (map l_ID (live (db_leases (w_db w))))"
    and run: "NewLeaseExpiryRunner E publish key w = (res, v)"
  shows "\<exists>D \<subseteq> l_ID ` {l \<in> set (live (db_leases (w_db w))). t_day (l_EndDate l) < t_day today \<and> l_Status l = ''active''}.
     live (db_leases (w_db v))
       = map (\<lambda>l. if l_ID l \<in> D then expired_lease E l else l) (live (db_leases (w_db w)))
     \<and> without_leases (w_db v) = without_leases (w_db w) \<and> db_rooms (w_db v) = db_rooms (w_db w)
     \<and> (\<forall>s. res = Inr s \<longrightarrow> ProcessedCount s = int (card D)
          \<and> ProcessedCount s + SkippedCount s + FailedCount s
            = int (length (filter (\<lambda>l. t_day (l_EndDate l) < t_day today \<and> l_Status l = ''active'') (live (db_leases (w_db w))))))
     \<and> (w_faults w = [] \<longrightarrow> is_inr res
          \<and> D = l_ID ` {l \<in> set (live (db_leases (w_db w))). t_day (l_EndDate l) < t_day today \<and> l_Status l = ''active''})"
  using expiry_scan_D [OF assms] unfolding expired_on_def [abs_def] .

section \<open>The scans of a sample office\<close>

lemma overdue_scan_marks_due_bills_witness:
  "\<exists>s v. NewOverdueBillsScanRunner sample_env (server_publish sample_env) '' 2024-02-10'' billed_world
        = (Inr s, v)
     \<and> map b_Status (live (db_bills (w_db v))) = [''overdue'', ''pending_meter''] \<and> ProcessedCount s = 1"
proof -
  let ?w = billed_world and ?today = "go_date 2024 2 10 0"
  obtain res v where run: "NewOverdueBillsScanRunner sample_env (server_publish sample_env)
      '' 2024-02-10'' ?w = (res, v)" by force
  have key: "parseDailyWindowKey '' 2024-02-10'' = Inr ?today" by code_simp
  have bills: "distinct (map b_ID (live (db_bills (w_db ?w))))"
    "map b_ID (filter (overdue_on ?today) (live (db_bills (w_db ?w)))) = [''xx'']"
    "map (\<lambda>b. (b_ID b, b_Status b)) (live (db_bills (w_db ?w)))
       = [(''xx'', ''pending_payment''), (''xxx'', ''pending_meter'')]" "w_faults ?w = []"
    by code_simp+
  have due: "b_ID ` {b \<in> set (live (db_bills (w_db ?w))). t_day (b_DueDate b) < t_day ?today
      \<and> b_Status b = ''pending_payment''} = {''xx''}"
    using arg_cong [OF bills(2), of set] by (auto simp: overdue_on_def)
  obtain D where D: "live (db_bills (w_db v)) = map (\<lambda>b. if b_ID b \<in> D then overdue_bill sample_env b else b)
      (live (db_bills (w_db ?w)))" "D = {''xx''}" "is_inr res"
    "\<forall>s. res = Inr s \<longrightarrow> ProcessedCount s = int (card D)"
    using overdue_scan_marks_due_bills [OF key bills(1) run] bills(4) unfolding due by blast
  have st: "map b_Status (map (\<lambda>b. if b_ID b \<in> D then overdue_bill sample_env b else b) bs)
      = map (\<lambda>(i, st). if i \<in> D then ''overdue'' else st) (map (\<lambda>b. (b_ID b, b_Status b)) bs)" for bs
    by (induction bs) (simp_all add: overdue_bill_def)
  have "map b_Status (live (db_bills (w_db v))) = [''overdue'', ''pending_meter'']"
    unfolding D(1) st bills(3) by (simp add: D(2))
  then show ?thesis using run D(2-4) by (auto simp: is_inr_iff)
qed

lemma expiry_scan_expires_leases_witness:
  "\<exists>s v. NewLeaseExpiryRunner sample_env (server_publish sample_env) ''2024-05-01'' billed_world = (Inr s, v)
     \<and> map l_Status (live (db_leases (w_db v))) = [''expired''] \<and> ProcessedCount s = 1"
proof -
  let ?w = billed_world and ?today = "go_date 2024 5 1 0"
  obtain res v where run: "NewLeaseExpiryRunner sample_env (server_publish sample_env) ''2024-05-01'' ?w
      = (res, v)" by force
  have key: "parseDailyWindowKey ''2024-05-01'' = Inr ?today" by code_simp
  have one: "live (db_leases (w_db ?w)) = [leased_row]" "w_faults ?w = []"
    unfolding billed_world_def sample_world_def sample_db_def
    by (simp_all, simp add: live_def)
  have "expired_on ?today leased_row" by code_simp
  then have due: "{l \<in> set [leased_row]. t_day (l_EndDate l) < t_day ?today \<and> l_Status l = ''active''}
      = {leased_row}"
    by (auto simp: expired_on_def)
  obtain D where D: "live (db_leases (w_db v)) = map (\<lambda>l. if l_ID l \<in> D then expired_lease sample_env l else l)
      [leased_row]" "D = {l_ID leased_row}" "is_inr res"
    "\<forall>s. res = Inr s \<longrightarrow> ProcessedCount s = int (card D)"
    using expiry_scan_expires_leases [OF key _ run] one unfolding one due by auto
  then have "map l_Status (live (db_leases (w_db v))) = [''expired'']"
    by (simp add: expired_lease_def touched_def)
  then show ?thesis using run D(2-4) by (auto simp: is_inr_iff)
qed

end
