(* ===== verification/Reports.thy ===== *)
theory Reports
  imports Snapshots BillingCommands
begin

text \<open>
  The financial reports of a property: the queries of
  platform/database/billing, their adapters and the services of
  application/billing/reports.go.  The report of the current month (in Taipei)
  is computed from the ledger, every other one is read from its snapshot.
\<close>

section \<open>Scope\<close>

record report_scope =
  rs_Role :: string
  rs_UserID :: string
  rs_AssignedPropertyIDs :: "string list"

text \<open>\<open>appendPropertyScope\<close>: the condition it adds on the property, or none when the
  caller may see nothing.\<close>

definition appendPropertyScope :: "report_scope \<Rightarrow> (property_row \<Rightarrow> bool) option" where
  "appendPropertyScope scope =
    (let role = trim (rs_Role scope)
     in if role = ''admin'' then Some (\<lambda>p. True)
        else if role \<in> {''organizer'', ''staff''}
          then (if rs_AssignedPropertyIDs scope = [] then None
                else Some (\<lambda>p. pr_ID p \<in> set (rs_AssignedPropertyIDs scope)))
        else if role = ''owner'' then Some (\<lambda>p. pr_OwnerID p = trim (rs_UserID scope))
        else None)"

text \<open>The live property with this id, when the condition holds of it.\<close>

definition visible :: "(property_row \<Rightarrow> bool) \<Rightarrow> string \<Rightarrow> db \<Rightarrow> bool" where
  "visible P propertyID d \<longleftrightarrow> (\<exists>p \<in> set (live (db_properties d)). pr_ID p = propertyID \<and> P p)"

section \<open>Summaries\<close>

record report_summary =
  fs_Year :: int
  fs_Month :: int
  fs_TotalIncome :: int
  fs_TotalExpense :: int
  fs_Net :: int

record db_report_summary = report_summary +
  fs_IsFinalized :: bool

definition listFinalizedFinancialReportSummaries ::
    "report_scope \<Rightarrow> string \<Rightarrow> int option \<Rightarrow> db_report_summary list tx" where
  "listFinalizedFinancialReportSummaries scope propertyID year =
    (case appendPropertyScope scope of
       None \<Rightarrow> tx_return []
     | Some P \<Rightarrow>
         stmt ''list finalized financial report summaries'' (\<lambda>_ d.
           (map (\<lambda>s. \<lparr>fs_Year = sn_Year s, fs_Month = sn_Month s, fs_TotalIncome = sn_TotalIncome s,
                      fs_TotalExpense = sn_TotalExpense s, fs_Net = sn_Net s, fs_IsFinalized = True\<rparr>)
              (sort_key (\<lambda>s. (- sn_Year s, - sn_Month s))
                (filter (\<lambda>s. sn_PropertyID s = propertyID \<and> visible P propertyID d
                           \<and> (case year of None \<Rightarrow> True | Some y \<Rightarrow> sn_Year s = y)) (db_snapshots d))), d)))"

definition live_accounts_of :: "string \<Rightarrow> db \<Rightarrow> account_row list" where
  "live_accounts_of propertyID d = filter (\<lambda>a. pa_PropertyID a = propertyID) (live (db_accounts d))"

definition live_summary :: "int \<Rightarrow> int \<Rightarrow> entry_row list \<Rightarrow> db_report_summary" where
  "live_summary year month es =
     (let income = sum_categories income_categories (entry_amounts es);
          expense = sum_categories expense_categories (entry_amounts es)
      in \<lparr>fs_Year = year, fs_Month = month, fs_TotalIncome = income, fs_TotalExpense = expense,
          fs_Net = income - expense, fs_IsFinalized = False\<rparr>)"

definition live_entries :: "string \<Rightarrow> int \<Rightarrow> int \<Rightarrow> db \<Rightarrow> entry_row list" where
  "live_entries propertyID year month d =
     concat (map (\<lambda>a. account_entries a year month d) (live_accounts_of propertyID d))"

definition listLiveFinancialReportSummaries ::
    "report_scope \<Rightarrow> string \<Rightarrow> int \<Rightarrow> int \<Rightarrow> db_report_summary list tx" where
  "listLiveFinancialReportSummaries scope propertyID year month =
    (case appendPropertyScope scope of
       None \<Rightarrow> tx_return []
     | Some P \<Rightarrow>
         stmt ''list live financial report summaries'' (\<lambda>_ d.
           (if live_accounts_of propertyID d \<noteq> [] \<and> visible P propertyID d
            then [live_summary year month (live_entries propertyID year month d)] else [], d)))"

text \<open>\<open>byMonth[key] = summary\<close>: a later summary replaces the one of the same month.
  The key \<open>%04d-%02d\<close> of year and month is the pair itself.\<close>

definition byMonth_put :: "db_report_summary \<Rightarrow> db_report_summary list \<Rightarrow> db_report_summary list" where
  "byMonth_put s m = filter (\<lambda>t. (fs_Year t, fs_Month t) \<noteq> (fs_Year s, fs_Month s)) m @ [s]"

definition ListFinancialReportSummaries ::
    "report_scope \<Rightarrow> string \<Rightarrow> int option \<Rightarrow> int \<Rightarrow> int \<Rightarrow> db_report_summary list tx" where
  "ListFinancialReportSummaries scope propertyID year currentYear currentMonth =
     tx_bind (listFinalizedFinancialReportSummaries scope propertyID year) (\<lambda>finalized.
       let byMonth = foldl (\<lambda>m s. byMonth_put s m) [] finalized
       in tx_bind
            (if year = None \<or> year = Some currentYear
             then tx_bind (listLiveFinancialReportSummaries scope propertyID currentYear currentMonth)
                    (\<lambda>live. tx_return (foldl (\<lambda>m s. byMonth_put s m) byMonth live))
             else tx_return byMonth)
            (\<lambda>m. tx_return (sort_key (\<lambda>s. (- fs_Year s, - fs_Month s)) m)))"

section \<open>One report\<close>

record report_entry =
  re_ID :: string
  re_Category :: string
  re_TitleID :: string
  re_TitleCode :: string
  re_TitleName :: string
  re_SourceDate :: "gtime option"
  re_RoomLabel :: "string option"
  re_TenantLabel :: "string option"
  re_PeriodLabel :: "string option"
  re_DisplayNote :: "string option"
  re_Description :: "string option"
  re_Amount :: int
  re_SourceRef :: jval
  re_CreatedAt :: gtime

record financial_report =
  fr_PropertyID :: string
  fr_Year :: int
  fr_Month :: int
  fr_TotalIncome :: int
  fr_TotalExpense :: int
  fr_Net :: int
  fr_IsFinalized :: bool
  fr_Entries :: "report_entry list"

definition ledger_row :: "entry_row \<Rightarrow> report_entry" where
  "ledger_row e =
     \<lparr>re_ID = en_ID e, re_Category = en_Category e, re_TitleID = en_TitleID e, re_TitleCode = en_TitleCode e,
      re_TitleName = en_TitleName e, re_SourceDate = en_SourceDate e, re_RoomLabel = en_RoomLabel e,
      re_TenantLabel = en_TenantLabel e, re_PeriodLabel = en_PeriodLabel e,
      re_DisplayNote = en_DisplayNote e, re_Description = en_Description e,
      re_Amount = en_Amount e, re_SourceRef = en_SourceRef e,
      re_CreatedAt = en_CreatedAt e\<rparr>"

definition snapshot_entry :: "snapshot_entry_row \<Rightarrow> report_entry" where
  "snapshot_entry e =
     \<lparr>re_ID = se_ID e, re_Category = se_Category e, re_TitleID = se_TitleID e, re_TitleCode = se_TitleCode e,
      re_TitleName = se_TitleName e, re_SourceDate = se_SourceDate e, re_RoomLabel = se_RoomLabel e,
      re_TenantLabel = se_TenantLabel e, re_PeriodLabel = se_PeriodLabel e,
      re_DisplayNote = se_DisplayNote e, re_Description = se_Description e,
      re_Amount = se_Amount e, re_SourceRef = se_SourceRef e,
      re_CreatedAt = se_CreatedAt e\<rparr>"

definition absInt :: "int \<Rightarrow> int" where
  "absInt value = (if value < 0 then i64 (- value) else value)"

definition addFinancialReportAmount :: "financial_report \<Rightarrow> string \<Rightarrow> int \<Rightarrow> financial_report" where
  "addFinancialReportAmount report category amount =
     (if category \<in> {''rent_payment'', ''electricity_payment'', ''deposit_deduction''}
      then report\<lparr>fr_TotalIncome := i64 (fr_TotalIncome report + absInt amount)\<rparr>
      else if category \<in> {''deposit_refund'', ''rent_refund'', ''journal_expense''}
      then report\<lparr>fr_TotalExpense := i64 (fr_TotalExpense report + absInt amount)\<rparr>
      else report)"

definition add_row :: "financial_report \<Rightarrow> report_entry \<Rightarrow> financial_report" where
  "add_row report entry =
     addFinancialReportAmount (report\<lparr>fr_Entries := fr_Entries report @ [entry]\<rparr>)
       (re_Category entry) (re_Amount entry)"

definition getLiveFinancialReport :: "report_scope \<Rightarrow> string \<Rightarrow> int \<Rightarrow> int \<Rightarrow> financial_report tx" where
  "getLiveFinancialReport scope propertyID year month =
    (case appendPropertyScope scope of
       None \<Rightarrow> tx_throw ErrNotFound_billing
     | Some P \<Rightarrow>
         tx_bind (stmt ''get live financial report'' (\<lambda>_ d.
             (if live_accounts_of propertyID d \<noteq> [] \<and> visible P propertyID d
              then Some (map ledger_row (by_creation (live_entries propertyID year month d))) else None, d)))
           (\<lambda>rows. tx_bind (found_or ErrNotFound_billing rows) (\<lambda>es.
              let report = foldl add_row
                    \<lparr>fr_PropertyID = propertyID, fr_Year = year, fr_Month = month, fr_TotalIncome = 0,
                     fr_TotalExpense = 0, fr_Net = 0, fr_IsFinalized = False, fr_Entries = []\<rparr> es
              in tx_return (report\<lparr>fr_Net := i64 (fr_TotalIncome report - fr_TotalExpense report)\<rparr>))))"

text \<open>The snapshot of the month (it is unique, see \<open>monthly_snapshots\<close>) with its
  entries, \<open>ORDER BY mse.created_at ASC, mse.id ASC\<close>.\<close>

definition frozen_by_creation :: "snapshot_entry_row list \<Rightarrow> snapshot_entry_row list" where
  "frozen_by_creation es = sort_key (\<lambda>e. (instant (se_CreatedAt e), se_ID e)) es"

definition getFinalizedFinancialReport ::
    "report_scope \<Rightarrow> string \<Rightarrow> int \<Rightarrow> int \<Rightarrow> financial_report tx" where
  "getFinalizedFinancialReport scope propertyID year month =
    (case appendPropertyScope scope of
       None \<Rightarrow> tx_throw ErrNotFound_billing
     | Some P \<Rightarrow>
         tx_bind (stmt ''get finalized financial report'' (\<lambda>_ d.
             (if visible P propertyID d
              then map_option (\<lambda>s. (s, map snapshot_entry (frozen_by_creation
                       (filter (\<lambda>e. se_SnapshotID e = sn_ID s) (db_snapshot_entries d)))))
                  (find (\<lambda>s. sn_PropertyID s = propertyID \<and> sn_Year s = year \<and> sn_Month s = month)
                     (db_snapshots d))
              else None, d)))
           (\<lambda>rows. tx_bind (found_or ErrNotFound_billing rows) (\<lambda>(s, es).
              tx_return \<lparr>fr_PropertyID = sn_PropertyID s, fr_Year = sn_Year s, fr_Month = sn_Month s,
                fr_TotalIncome = sn_TotalIncome s, fr_TotalExpense = sn_TotalExpense s, fr_Net = sn_Net s,
                fr_IsFinalized = True, fr_Entries = es\<rparr>)))"

definition repo_GetFinancialReport ::
    "report_scope \<Rightarrow> string \<Rightarrow> int \<Rightarrow> int \<Rightarrow> bool \<Rightarrow> financial_report tx" where
  "repo_GetFinancialReport scope propertyID year month is_live =
     (if is_live then getLiveFinancialReport scope propertyID year month
      else getFinalizedFinancialReport scope propertyID year month)"

definition CalculateMonthlyCashflowOpeningBalance ::
    "report_scope \<Rightarrow> string \<Rightarrow> int \<Rightarrow> int \<Rightarrow> int tx" where
  "CalculateMonthlyCashflowOpeningBalance scope propertyID year month =
    (case appendPropertyScope scope of
       None \<Rightarrow> tx_throw ErrNotFound_billing
     | Some P \<Rightarrow>
         stmt ''calculate monthly cashflow opening balance'' (\<lambda>_ d.
           (sum_list (map sn_Net (filter (\<lambda>s. sn_PropertyID s = propertyID \<and> visible P propertyID d
                \<and> (sn_Year s < year \<or> sn_Year s = year \<and> sn_Month s < month)) (db_snapshots d))), d)))"

section \<open>Services (application/billing/reports.go)\<close>

record report_source =
  so_Type :: string
  so_ID :: string
  so_Detail :: "string option"

definition depositSourceDetail :: "string \<Rightarrow> string \<Rightarrow> string option" where
  "depositSourceDetail category sourceType =
     (if category = ''deposit_refund'' \<or> sourceType = ''DepositRefunded'' then Some ''deposit_refund''
      else if category = ''rent_refund'' \<or> sourceType = ''RentRefunded'' then Some ''rent_refund''
      else if category = ''deposit_deduction'' \<or> sourceType = ''DepositDeducted''
      then Some ''deposit_deduction'' else None)"

text \<open>\<open>json.Unmarshal\<close> into a \<open>map[string]string\<close>: every value has to be a string or
  \<open>null\<close> (which leaves the empty string); a missing key reads as the empty
  string.\<close>

fun string_values :: "jval \<Rightarrow> (string \<times> string) list option" where
  "string_values (JObj kvs) =
     (if \<forall>(k, v) \<in> set kvs. case v of JStr _ \<Rightarrow> True | JNull \<Rightarrow> True | _ \<Rightarrow> False
      then Some (map (\<lambda>(k, v). (k, case v of JStr s \<Rightarrow> s | _ \<Rightarrow> '''')) kvs) else None)"
| "string_values _ = None"

definition FinancialReportEntrySourceFromRef :: "string \<Rightarrow> jval \<Rightarrow> report_source option" where
  "FinancialReportEntrySourceFromRef category sourceRef =
    (if sourceRef = JNull then None
     else (case string_values sourceRef of
         None \<Rightarrow> None
       | Some values \<Rightarrow>
           let get = (\<lambda>k. stringValue (map_of values k));
               billID = trim (get ''bill_id''); journalLogID = trim (get ''journal_log_id'');
               leaseID = trim (get ''lease_id'')
           in if billID \<noteq> '''' then Some \<lparr>so_Type = ''bill'', so_ID = billID, so_Detail = Some ''payment''\<rparr>
              else if journalLogID \<noteq> ''''
              then Some \<lparr>so_Type = ''journal_log'', so_ID = journalLogID, so_Detail = Some ''journal_expense''\<rparr>
              else if leaseID \<noteq> ''''
              then Some \<lparr>so_Type = ''lease'', so_ID = leaseID,
                         so_Detail = depositSourceDetail category (get ''type'')\<rparr>
              else None))"

definition ErrFinancialReportNotFoundRepository :: gerr where
  "ErrFinancialReportNotFoundRepository = Sentinel ''billing.ErrFinancialReportNotFoundRepository''"
definition ErrFinancialReportNotFound :: gerr where
  "ErrFinancialReportNotFound =
     apperr_New ''FINANCIAL_REPORT_NOT_FOUND'' 404 ''Financial report not found.''"

definition mapBillingReportRepositoryError :: "gerr \<Rightarrow> gerr" where
  "mapBillingReportRepositoryError err =
     (if errors_Is err ErrNotFound_billing then ErrFinancialReportNotFoundRepository else err)"

definition mapReportRepositoryError :: "gerr \<Rightarrow> gerr" where
  "mapReportRepositoryError err =
     (if errors_Is err ErrBillNotFound_app then ErrBillNotFound
      else if errors_Is err ErrFinancialReportNotFoundRepository then ErrFinancialReportNotFound
      else apperr_WithCause ErrInternalServerError err)"

definition normalizeFinancialReportReadRole :: "string \<Rightarrow> gerr + string" where
  "normalizeFinancialReportReadRole role =
    (let normalized = to_lower (trim role)
     in if normalized \<in> {''admin'', ''organizer'', ''staff'', ''owner''} then Inr normalized
        else Inl ErrForbidden)"

definition normalizeRequiredUUID :: "env \<Rightarrow> string \<Rightarrow> string \<Rightarrow> gerr \<Rightarrow> gerr + string" where
  "normalizeRequiredUUID E value field emptyErr =
    (let trimmed = trim value
     in if trimmed = '''' then Inl emptyErr
        else if \<not> e_uuid_ok E trimmed
        then Inl (apperr_WithDetails ErrBadRequest (JObj [(''field'', JStr field)]))
        else Inr trimmed)"

definition validateYear :: "int \<Rightarrow> gerr + unit" where
  "validateYear value =
     (if value < 1 then Inl (apperr_WithDetails ErrBadRequest (JObj [(''field'', JStr ''year'')])) else Inr ())"

definition validateMonth :: "int \<Rightarrow> gerr + unit" where
  "validateMonth value =
     (if value < 1 \<or> value > 12 then Inl (apperr_WithDetails ErrBadRequest (JObj [(''field'', JStr ''month'')]))
      else Inr ())"

definition normalizeOptionalYear :: "int option \<Rightarrow> gerr + int option" where
  "normalizeOptionalYear value =
     (case value of None \<Rightarrow> Inr None
      | Some y \<Rightarrow> (case validateYear y of Inl e \<Rightarrow> Inl e | Inr _ \<Rightarrow> Inr (Some y)))"

definition currentReportPeriod :: "env \<Rightarrow> int \<times> int" where
  "currentReportPeriod E =
     (let now = time_in (e_now E) taiwanReportLocation in (time_year now, time_month now))"

record report_query_input =
  rq_ActorRole :: string
  rq_ActorUserID :: string
  rq_AssignedPropertyIDs :: "string list"
  rq_PropertyID :: string
  rq_Year :: int
  rq_Month :: int

record report_query =
  q_Scope :: report_scope
  q_PropertyID :: string
  q_Year :: int
  q_Month :: int

definition normalizeFinancialReportQuery :: "env \<Rightarrow> report_query_input \<Rightarrow> gerr + report_query" where
  "normalizeFinancialReportQuery E input =
    (case normalizeFinancialReportReadRole (rq_ActorRole input) of
       Inl e \<Rightarrow> Inl e
     | Inr actorRole \<Rightarrow>
         (case normalizeRequiredUUID E (rq_PropertyID input) ''property_id'' ErrPropertyNotFound of
            Inl e \<Rightarrow> Inl e
          | Inr propertyID \<Rightarrow>
              (case validateYear (rq_Year input) of
                 Inl e \<Rightarrow> Inl e
               | Inr _ \<Rightarrow>
                   (case validateMonth (rq_Month input) of
                      Inl e \<Rightarrow> Inl e
                    | Inr _ \<Rightarrow>
                        Inr \<lparr>q_Scope = \<lparr>rs_Role = actorRole, rs_UserID = trim (rq_ActorUserID input),
                               rs_AssignedPropertyIDs = rq_AssignedPropertyIDs input\<rparr>,
                             q_PropertyID = propertyID, q_Year = rq_Year input,
                             q_Month = rq_Month input\<rparr>))))"

definition findFinancialReport :: "env \<Rightarrow> report_query \<Rightarrow> financial_report tx" where
  "findFinancialReport E query =
     tx_map_err (\<lambda>e. mapReportRepositoryError (mapBillingReportRepositoryError e))
       (repo_GetFinancialReport (q_Scope query) (q_PropertyID query) (q_Year query) (q_Month query)
          ((q_Year query, q_Month query) = currentReportPeriod E))"

text \<open>\<open>GetFinancialReportService.Execute\<close>.  The report of the application layer: its
  entries carry the source that \<open>FinancialReportEntrySourceFromRef\<close> reads from the
  reference, and no longer the reference and the creation time.\<close>

record app_report_entry =
  ap_ID :: string
  ap_Category :: string
  ap_TitleID :: string
  ap_TitleCode :: string
  ap_TitleName :: string
  ap_SourceDate :: "gtime option"
  ap_RoomLabel :: "string option"
  ap_TenantLabel :: "string option"
  ap_PeriodLabel :: "string option"
  ap_DisplayNote :: "string option"
  ap_Description :: "string option"
  ap_Amount :: int
  ap_Source :: "report_source option"

record app_financial_report =
  ar_PropertyID :: string
  ar_Year :: int
  ar_Month :: int
  ar_TotalIncome :: int
  ar_TotalExpense :: int
  ar_Net :: int
  ar_IsFinalized :: bool
  ar_Entries :: "app_report_entry list"

definition app_entry :: "report_entry \<Rightarrow> app_report_entry" where
  "app_entry e =
     \<lparr>ap_ID = re_ID e, ap_Category = re_Category e, ap_TitleID = re_TitleID e,
      ap_TitleCode = re_TitleCode e, ap_TitleName = re_TitleName e, ap_SourceDate = re_SourceDate e,
      ap_RoomLabel = re_RoomLabel e, ap_TenantLabel = re_TenantLabel e,
      ap_PeriodLabel = re_PeriodLabel e, ap_DisplayNote = re_DisplayNote e,
      ap_Description = re_Description e, ap_Amount = re_Amount e,
      ap_Source = FinancialReportEntrySourceFromRef (re_Category e) (re_SourceRef e)\<rparr>"

definition toAppFinancialReport :: "financial_report \<Rightarrow> app_financial_report" where
  "toAppFinancialReport report =
     \<lparr>ar_PropertyID = fr_PropertyID report, ar_Year = fr_Year report, ar_Month = fr_Month report,
      ar_TotalIncome = fr_TotalIncome report, ar_TotalExpense = fr_TotalExpense report,
      ar_Net = fr_Net report, ar_IsFinalized = fr_IsFinalized report,
      ar_Entries = map app_entry (fr_Entries report)\<rparr>"

definition GetFinancialReport_Execute :: "env \<Rightarrow> report_query_input \<Rightarrow> app_financial_report tx" where
  "GetFinancialReport_Execute E input =
     tx_bind (tx_lift (normalizeFinancialReportQuery E input)) (\<lambda>query.
       tx_bind (findFinancialReport E query) (\<lambda>report. tx_return (toAppFinancialReport report)))"

record report_summary_input =
  ri_ActorRole :: string
  ri_ActorUserID :: string
  ri_AssignedPropertyIDs :: "string list"
  ri_PropertyID :: string
  ri_Year :: "int option"

definition toAppFinancialReportSummaries :: "db_report_summary list \<Rightarrow> report_summary list" where
  "toAppFinancialReportSummaries summaries = map report_summary.truncate summaries"

definition ListFinancialReportSummaries_Execute ::
    "env \<Rightarrow> report_summary_input \<Rightarrow> report_summary list tx" where
  "ListFinancialReportSummaries_Execute E input =
     tx_bind (tx_lift (normalizeFinancialReportReadRole (ri_ActorRole input))) (\<lambda>actorRole.
       tx_bind (tx_lift (normalizeRequiredUUID E (ri_PropertyID input) ''property_id'' ErrPropertyNotFound))
         (\<lambda>propertyID.
           tx_bind (tx_lift (normalizeOptionalYear (ri_Year input))) (\<lambda>year.
             let (currentYear, currentMonth) = currentReportPeriod E
             in tx_bind (tx_map_err (\<lambda>e. mapReportRepositoryError (mapBillingReportRepositoryError e))
                  (ListFinancialReportSummaries
                     \<lparr>rs_Role = actorRole, rs_UserID = trim (ri_ActorUserID input),
                      rs_AssignedPropertyIDs = ri_AssignedPropertyIDs input\<rparr>
                     propertyID year currentYear currentMonth))
                  (\<lambda>summaries. tx_return (toAppFinancialReportSummaries summaries)))))"

end
