(* ===== verification/MonthClose.thy ===== *)
theory MonthClose
  imports JobScans Reports "HOL-Library.Multiset"
begin

text \<open>
  Monthly closing and the reports.  The snapshot job moves the ledger entries of
  a month into a snapshot without losing or inventing money, closes every
  property once, and a report reads the same after the month is closed.
\<close>

section \<open>What closing a month does\<close>

text \<open>Primary key and unique index of \<open>property_accounts\<close>.\<close>

definition one_account :: "db \<Rightarrow> bool" where
  "one_account d \<longleftrightarrow> distinct (map pa_PropertyID (live (db_accounts d)))
     \<and> distinct (map pa_ID (live (db_accounts d)))"

definition open_account :: "account_row \<Rightarrow> db \<Rightarrow> bool" where
  "open_account a d \<longleftrightarrow> a \<in> set (live (db_accounts d))
     \<and> (\<exists>p \<in> set (live (db_properties d)). pr_ID p = pa_PropertyID a)"

definition closed_month :: "(nat \<Rightarrow> string) \<Rightarrow> string \<Rightarrow> account_row \<Rightarrow> int \<Rightarrow> int \<Rightarrow> db \<Rightarrow> db" where
  "closed_month ids i a year month d =
     d\<lparr>db_snapshots := db_snapshots d
         @ [snapshot_of i (pa_PropertyID a) year month (account_entries a year month d)],
       db_snapshot_entries := db_snapshot_entries d @ freeze ids i (account_entries a year month d),
       db_entries := filter (\<lambda>e. \<not> (en_PropertyAccountID e = pa_ID a \<and> en_Year e = year
                                    \<and> en_Month e = month)) (db_entries d)\<rparr>"

lemma filter_unique: "distinct (map f xs) \<Longrightarrow> a \<in> set xs \<Longrightarrow> filter (\<lambda>x. f x = f a) xs = [a]"
proof (induction xs)
  case (Cons x xs)
  have "filter (\<lambda>y. f y = f x) xs = []"
    using Cons.prems(1) by (auto simp: filter_empty_conv image_iff)
  then show ?case using Cons by (cases "a = x") (auto simp: image_iff)
qed simp

lemma open_accounts_one:
  assumes "one_account d"
  shows "open_accounts p d = [] \<or> (\<exists>a. open_accounts p d = [a] \<and> open_account a d \<and> pa_PropertyID a = p)"
proof (cases "open_accounts p d")
  case (Cons a as)
  then have "a \<in> set (open_accounts p d)" by simp
  then have a: "a \<in> set (live (db_accounts d))" "pa_PropertyID a = p"
    "\<exists>q \<in> set (live (db_properties d)). pr_ID q = pa_PropertyID a"
    by (auto simp: open_accounts_def)
  have "filter (\<lambda>x. pa_PropertyID x = p) (live (db_accounts d)) = [a]"
    using filter_unique [of pa_PropertyID "live (db_accounts d)" a] assms a by (simp add: one_account_def)
  moreover have "open_accounts p d = filter (\<lambda>x. \<exists>q \<in> set (live (db_properties d)). pr_ID q = pa_PropertyID x)
      (filter (\<lambda>x. pa_PropertyID x = p) (live (db_accounts d)))"
    by (simp add: open_accounts_def conj_commute)
  ultimately have "open_accounts p d = [a]" using a(3) by simp
  then show ?thesis using a by (auto simp: open_account_def)
qed simp

lemma in_month_account:
  assumes "one_account d" "a \<in> set (live (db_accounts d))"
  shows "in_month (pa_PropertyID a) year month d e
    \<longleftrightarrow> en_PropertyAccountID e = pa_ID a \<and> en_Year e = year \<and> en_Month e = month"
proof -
  have "b = a" if "b \<in> set (live (db_accounts d))" "pa_PropertyID b = pa_PropertyID a" for b
    using assms that unfolding one_account_def distinct_map inj_on_def by blast
  then have "(\<exists>b \<in> set (live (db_accounts d)). pa_PropertyID b = pa_PropertyID a \<and> pa_ID b = en_PropertyAccountID e)
      \<longleftrightarrow> en_PropertyAccountID e = pa_ID a"
    using assms(2) by metis
  then show ?thesis by (simp add: in_month_def)
qed

lemmas close_defs = close_month_def MonthlySnapshotExists_def CreateMonthlySnapshot_def insert_snapshot_def
  insert_snapshot_entries_def delete_entries_def

lemma close_month_quiet: "close_month E year month p w = (res, v) \<Longrightarrow> w_events v = w_events w"
  by (auto simp: close_defs tx_bind_def stmt_def tx_throw_def found_or_def tx_return_def
      split: if_splits prod.splits sum.splits option.splits list.splits)

lemma close_month_Inr:
  assumes "one_account (w_db w)" "close_month E year month p w = (Inr u, v)"
  shows "\<exists>a k n. open_account a (w_db w) \<and> pa_PropertyID a = p \<and> \<not> snapshot_exists p year month (w_db w)
     \<and> w_db v = closed_month (e_row_id E k) (e_id E n) a year month (w_db w)"
proof -
  let ?d = "w_db w"
  obtain b w1 where b: "MonthlySnapshotExists p year month w = (Inr b, w1)"
    "(if b then tx_throw ErrAlreadyProcessed else CreateMonthlySnapshot E p year month) w1 = (Inr u, v)"
    using assms(2) by (auto simp: close_month_def tx_control)
  have w1: "b = snapshot_exists p year month ?d" "w_db w1 = ?d"
    using b(1) by (auto simp: MonthlySnapshotExists_def stmt_ok)
  then have "\<not> b" "CreateMonthlySnapshot E p year month w1 = (Inr u, v)"
    using b(2) by (auto simp: tx_control split: if_splits)
  then obtain i w2 w3 where ops: "\<not> snapshot_exists p year month ?d" "w_db w1 = ?d"
    "insert_snapshot E p year month w1 = (Inr (Some i), w2)"
    "insert_snapshot_entries E i p year month w2 = (Inr (), w3)"
    "delete_entries p year month w3 = (Inr (), v)"
    using w1 by (auto simp: CreateMonthlySnapshot_def tx_control found_or_ok)
  have ne: "open_accounts p ?d \<noteq> []"
    using ops(2,3) by (auto simp: insert_snapshot_def stmt_ok)
  then obtain a where a: "open_accounts p ?d = [a]" "open_account a ?d" "pa_PropertyID a = p"
    using open_accounts_one [OF assms(1)] by blast
  have live: "a \<in> set (live (db_accounts ?d))" using a(2) by (simp add: open_account_def)
  define d2 where "d2 = ?d\<lparr>db_snapshots := db_snapshots ?d
      @ [snapshot_of i p year month (account_entries a year month ?d)]\<rparr>"
  have w2: "w_db w2 = d2" "i = e_id E (w_fresh w1)"
    using ops(2,3) a(1) by (auto simp: insert_snapshot_def stmt_ok d2_def)
  let ?P = "\<lambda>e. en_PropertyAccountID e = pa_ID a \<and> en_Year e = year \<and> en_Month e = month"
  have im: "in_month p year month d' = ?P" if "db_accounts d' = db_accounts ?d" for d'
    using in_month_account [OF assms(1) live, of year month] that by (simp add: in_month_def a(3) fun_eq_iff)
  have w3: "w_db w3 = d2\<lparr>db_snapshot_entries := db_snapshot_entries ?d
      @ freeze (e_row_id E (w_fresh w2)) i (filter ?P (db_entries ?d))\<rparr>"
    using ops(4) im [of d2] by (auto simp: insert_snapshot_entries_def stmt_ok w2(1) d2_def)
  have "w_db v = (w_db w3)\<lparr>db_entries := filter (\<lambda>e. \<not> ?P e) (db_entries ?d)\<rparr>"
    using ops(5) im [of "w_db w3"] by (auto simp: delete_entries_def stmt_ok w3 d2_def)
  then have "w_db v = closed_month (e_row_id E (w_fresh w2)) i a year month ?d"
    by (simp add: w3 closed_month_def d2_def a(3) account_entries_def)
  then show ?thesis using a(2,3) ops(1) w2(2) by blast
qed


section \<open>Money is conserved\<close>

definition net_of :: "(string \<times> int) list \<Rightarrow> int" where
  "net_of xs = sum_categories income_categories xs - sum_categories expense_categories xs"

text \<open>The ledger entries of a property, and its money: what its snapshots and its
  ledger add up to.\<close>

definition property_entries :: "string \<Rightarrow> db \<Rightarrow> entry_row list" where
  "property_entries p d =
     filter (\<lambda>e. \<exists>a \<in> set (live (db_accounts d)). pa_PropertyID a = p \<and> pa_ID a = en_PropertyAccountID e)
       (db_entries d)"

definition total_net :: "string \<Rightarrow> db \<Rightarrow> int" where
  "total_net p d = sum_list (map sn_Net (filter (\<lambda>s. sn_PropertyID s = p) (db_snapshots d)))
     + net_of (entry_amounts (property_entries p d))"

text \<open>All rows of the books, ledger entries and frozen entries together, with every
  column but the id (a frozen entry gets a new one).\<close>

definition unkeyed :: "report_entry \<Rightarrow> report_entry" where
  "unkeyed e = e\<lparr>re_ID := []\<rparr>"

definition all_books :: "db \<Rightarrow> report_entry multiset" where
  "all_books d = mset (map (unkeyed \<circ> ledger_row) (db_entries d))
     + mset (map (unkeyed \<circ> snapshot_entry) (db_snapshot_entries d))"

definition rest_of_books :: "db \<Rightarrow> db" where
  "rest_of_books d = d\<lparr>db_snapshots := [], db_snapshot_entries := [], db_entries := []\<rparr>"

lemma net_of_partition:
  "net_of (entry_amounts (filter P es)) + net_of (entry_amounts (filter (\<lambda>e. \<not> P e) es))
     = net_of (entry_amounts es)"
  by (induction es) (auto simp: net_of_def entry_amounts_def sum_categories_def)

lemma unkeyed_frozen [simp]: "unkeyed (snapshot_entry (frozen k i e)) = unkeyed (ledger_row e)"
  by (simp add: unkeyed_def snapshot_entry_def frozen_def ledger_row_def)

lemma mset_by_creation [simp]: "mset (by_creation es) = mset es"
  by (simp add: by_creation_def)

lemma mset_freeze: "mset (map (unkeyed \<circ> snapshot_entry) (freeze ids i es)) = mset (map (unkeyed \<circ> ledger_row) es)"
proof -
  have "map (unkeyed \<circ> snapshot_entry) (freeze ids i es)
      = map (unkeyed \<circ> ledger_row) (map snd (enumerate 0 (by_creation es)))"
    by (simp add: freeze_def comp_def case_prod_beta del: map_snd_enumerate)
  then show ?thesis by simp
qed

lemma sn_Net_snapshot [simp]: "sn_Net (snapshot_of i p y m es) = net_of (entry_amounts es)"
  by (simp add: snapshot_of_def net_of_def Let_def)

lemma snapshot_of_simps [simp]:
  "sn_PropertyID (snapshot_of i p y m es) = p" "sn_Year (snapshot_of i p y m es) = y"
  "sn_Month (snapshot_of i p y m es) = m" "sn_ID (snapshot_of i p y m es) = i"
  by (simp_all add: snapshot_of_def Let_def)

lemma closed_month_conserves:
  assumes "one_account d" "open_account a d"
  shows "total_net p (closed_month ids i a y m d) = total_net p d"
    "all_books (closed_month ids i a y m d) = all_books d"
    "rest_of_books (closed_month ids i a y m d) = rest_of_books d"
proof -
  let ?P = "\<lambda>e. en_PropertyAccountID e = pa_ID a \<and> en_Year e = y \<and> en_Month e = m"
  have a: "a \<in> set (live (db_accounts d))" using assms(2) by (simp add: open_account_def)
  have same: "b = a" if "b \<in> set (live (db_accounts d))" "pa_ID b = pa_ID a" for b
    using assms(1) a that unfolding one_account_def distinct_map inj_on_def by blast
  let ?own = "\<lambda>e. \<exists>b \<in> set (live (db_accounts d)). pa_PropertyID b = p \<and> pa_ID b = en_PropertyAccountID e"
  have entries: "property_entries p (closed_month ids i a y m d) = filter (\<lambda>e. \<not> ?P e) (property_entries p d)"
    by (simp add: property_entries_def closed_month_def conj_commute)
  have mine: "filter ?P (property_entries p d)
      = (if pa_PropertyID a = p then account_entries a y m d else [])"
  proof (cases "pa_PropertyID a = p")
    case True
    then have "?P e \<Longrightarrow> ?own e" for e using a by auto
    then have "filter (\<lambda>e. ?own e \<and> ?P e) (db_entries d) = filter ?P (db_entries d)" by meson
    then show ?thesis using True by (simp add: property_entries_def account_entries_def conj_commute)
  next
    case False
    then have "\<forall>b \<in> set (live (db_accounts d)). pa_PropertyID b = p \<longrightarrow> pa_ID b \<noteq> pa_ID a"
      using same by blast
    then show ?thesis using False by (auto simp: property_entries_def filter_empty_conv)
  qed
  show "total_net p (closed_month ids i a y m d) = total_net p d"
    using net_of_partition [of ?P "property_entries p d"] unfolding total_net_def entries mine
    by (cases "pa_PropertyID a = p") (simp_all add: closed_month_def net_of_def entry_amounts_def sum_categories_def)
  have "mset (filter ?P es) + mset (filter (\<lambda>e. \<not> ?P e) es) = mset es" for es
    using multiset_partition [of "mset es" ?P] by (simp add: mset_filter)
  from arg_cong [OF this, of "image_mset (unkeyed \<circ> ledger_row)"]
  have "mset (map (unkeyed \<circ> ledger_row) (filter ?P es)) + mset (map (unkeyed \<circ> ledger_row) (filter (\<lambda>e. \<not> ?P e) es))
      = mset (map (unkeyed \<circ> ledger_row) es)" for es by simp
  from this [of "db_entries d"] show "all_books (closed_month ids i a y m d) = all_books d"
    using mset_freeze [of ids i "account_entries a y m d"]
    by (simp add: all_books_def closed_month_def account_entries_def) (simp add: ac_simps)
  show "rest_of_books (closed_month ids i a y m d) = rest_of_books d"
    by (simp add: rest_of_books_def closed_month_def)
qed

section \<open>The snapshot job\<close>

text \<open>A relation between databases that every candidate keeps is kept by the loop.\<close>

lemma each_candidate_rel:
  assumes "\<And>c s u r v. step c s u = (r, v) \<Longrightarrow> Q (w_db u) \<Longrightarrow> Q (w_db v)"
  shows "each_candidate step cs s w = (res, v) \<Longrightarrow> Q (w_db w) \<Longrightarrow> Q (w_db v)"
proof (induction cs arbitrary: s w)
  case (Cons c cs)
  obtain r u where r: "step c s w = (r, u)" by force
  then show ?case using Cons assms [OF r]
    by (cases r) (auto simp: tx_bind_def)
qed (simp add: tx_return_def)

lemma tally_db: "tally skip m s w = (r, v) \<Longrightarrow> \<exists>x. m w = (x, v)"
  by (auto simp: tally_def split: prod.splits sum.splits)

text \<open>One candidate: the month of the property is closed, or nothing happens.\<close>

lemma close_candidate:
  assumes "WithinTransaction publish (close_month E y m p) w = (res, v)" "one_account (w_db w)"
  shows "w_db v = w_db w \<and> \<not> is_inr res
     \<or> (\<exists>a k n. is_inr res \<and> open_account a (w_db w) \<and> pa_PropertyID a = p
           \<and> \<not> snapshot_exists p y m (w_db w) \<and> w_db v = closed_month (e_row_id E k) (e_id E n) a y m (w_db w))"
proof -
  have eff: "case res of Inl e \<Rightarrow> w_db v = w_db w
      | Inr x \<Rightarrow> \<exists>u u'. w_db u = w_db w \<and> close_month E y m p u = (Inr x, u') \<and> w_db v = w_db u'"
    by (rule WithinTransaction_quiet [OF assms(1)]) (rule close_month_quiet)
  show ?thesis
  proof (cases res)
    case (Inr x)
    obtain u u' where u: "w_db u = w_db w" "close_month E y m p u = (Inr x, u')" "w_db v = w_db u'"
      using eff Inr by auto
    then show ?thesis using close_month_Inr [OF _ u(2)] assms(2) Inr by auto
  next
    case (Inl e)
    then show ?thesis using eff by simp
  qed
qed

lemma open_account_closed [simp]:
  "open_account b (closed_month ids i a y m d) = open_account b d" "one_account (closed_month ids i a y m d) = one_account d"
  by (simp_all add: open_account_def one_account_def closed_month_def)

lemma snapshot_job_step:
  assumes "NewMonthlySnapshotRunner E publish key w = (res, v)"
  obtains "w_db v = w_db w" "\<not> is_inr res"
  | y m ps r where "parseMonthlyWindowKey key = Inr (y, m)" "\<not> next_fault w"
      "ps = sort_key (\<lambda>i. i) (map pa_PropertyID (filter (\<lambda>a. \<exists>p \<in> set (live (db_properties (w_db w))).
          pr_ID p = pa_PropertyID a) (live (db_accounts (w_db w)))))"
      "each_candidate (\<lambda>p. tally (Some ErrAlreadyProcessed)
          (WithinTransaction publish (close_month E y m p))) ps no_summary (stepped w (w_db w)) = (r, v)"
      "res = map_sum id (\<lambda>s. s\<lparr>Note := ''job completed''\<rparr>) r"
proof (cases "parseMonthlyWindowKey key")
  case (Inl e)
  then show ?thesis using assms that(1)
    by (auto simp: NewMonthlySnapshotRunner_def tx_bind_def tx_lift_def tx_throw_def)
next
  case (Inr ym)
  obtain y m where ym: "ym = (y, m)" by force
  show ?thesis
  proof (cases "next_fault w")
    case True
    then show ?thesis using assms Inr ym that(1)
      by (auto simp: NewMonthlySnapshotRunner_def tx_bind_def tx_lift_def tx_return_def
          ListMonthlySnapshotProperties_def stmt_def)
  next
    case False
    then show ?thesis using assms Inr ym that(2) [of y m]
      by (auto simp: NewMonthlySnapshotRunner_def tx_bind_def tx_lift_def tx_return_def
          ListMonthlySnapshotProperties_def stmt_def stepped_def job_completed_def
          split: prod.splits sum.splits)
  qed
qed

lemma snapshot_job_keeps_books:
  assumes "one_account (w_db w)" "NewMonthlySnapshotRunner E publish key w = (res, v)"
  shows "total_net p (w_db v) = total_net p (w_db w) \<and> all_books (w_db v) = all_books (w_db w)
     \<and> rest_of_books (w_db v) = rest_of_books (w_db w)"
proof -
  let ?Q = "\<lambda>d. one_account d \<and> total_net p d = total_net p (w_db w) \<and> all_books d = all_books (w_db w)
     \<and> rest_of_books d = rest_of_books (w_db w)"
  have start: "?Q (w_db (stepped w (w_db w)))" using assms(1) by simp
  show ?thesis using assms(2)
  proof (cases rule: snapshot_job_step)
    case (2 y m ps r)
    have "?Q (w_db v)"
    proof (rule each_candidate_rel [where Q = ?Q, OF _ 2(4) start])
      fix q s u r' v'
      assume "tally (Some ErrAlreadyProcessed) (WithinTransaction publish (close_month E y m q)) s u = (r', v')"
        and Q: "?Q (w_db u)"
      then obtain x where "WithinTransaction publish (close_month E y m q) u = (x, v')"
        using tally_db by blast
      then show "?Q (w_db v')"
        using close_candidate [of publish E y m q u x v'] closed_month_conserves Q by auto
    qed
    then show ?thesis by blast
  qed simp
qed

text \<open>
  C24.  Closing a month moves money, it never makes or loses any.  Whatever fails
  during the snapshot job, for every property the snapshots and the ledger
  together have the same net as before, every row of the books is still there
  once, in the ledger or frozen in a snapshot, and nothing else in the database
  changes.
\<close>

theorem snapshot_job_conserves_books:
  assumes "one_account (w_db w)" "NewMonthlySnapshotRunner E publish key w = (res, v)"
  shows "total_net p (w_db v) = total_net p (w_db w) \<and> all_books (w_db v) = all_books (w_db w)
     \<and> rest_of_books (w_db v) = rest_of_books (w_db w)"
  by (rule snapshot_job_keeps_books [OF assms])


section \<open>Every property is closed, once\<close>

lemma snapshot_exists_closed [simp]:
  "snapshot_exists p y m (closed_month ids i a y m d) \<longleftrightarrow> pa_PropertyID a = p \<or> snapshot_exists p y m d"
  by (auto simp: snapshot_exists_def closed_month_def)

lemma account_entries_closed [simp]:
  "account_entries b y m (closed_month ids i a y m d)
     = (if pa_ID b = pa_ID a then [] else account_entries b y m d)"
  by (auto simp: account_entries_def closed_month_def filter_empty_conv intro!: filter_cong)

lemma open_account_listed:
  "open_account a d \<Longrightarrow> open_accounts (pa_PropertyID a) d \<noteq> []"
  by (auto simp: open_account_def open_accounts_def filter_empty_conv)

lemma close_runs:
  assumes "calm w" "open_account a (w_db w)" "pa_PropertyID a = p"
    and run: "WithinTransaction publish (close_month E y m p) w = (res, v)"
  shows "calm v \<and> (if snapshot_exists p y m (w_db w) then res = Inl ErrAlreadyProcessed else is_inr res)"
proof -
  let ?u = "(tick w)\<lparr>w_events := []\<rparr>"
  show ?thesis
  proof (cases "snapshot_exists p y m (w_db w)")
    case True
    have "close_month E y m p ?u = (Inl ErrAlreadyProcessed, stepped ?u (w_db w))"
      using assms(1) True by (simp add: close_month_def MonthlySnapshotExists_def tx_bind_def stmt_def
          tx_throw_def stepped_def)
    then show ?thesis using run True assms(1) by (auto simp: WithinTransaction_def)
  next
    case False
    have ne: "open_accounts p (w_db w) \<noteq> []" using open_account_listed [OF assms(2)] assms(3) by simp
    have "wp (close_month E y m p) (\<lambda>_. calm) ?u"
      using assms(1) False ne by (auto simp: close_defs wp_simps neq_Nil_conv)
    moreover have "close_month E y m p u = (r, u') \<Longrightarrow> w_events u' = w_events u" for u r u'
      by (rule close_month_quiet)
    ultimately show ?thesis using quiet_runs [OF assms(1) run] False by (auto simp: is_inr_iff)
  qed
qed

text \<open>The properties in \<open>ps\<close> are closed, the entries of those that were open are
  gone, and nothing failed.\<close>

lemma closing_loop:
  assumes "each_candidate (\<lambda>p. tally (Some ErrAlreadyProcessed)
      (WithinTransaction publish (close_month E y m p))) ps s w = (r, v)"
    and "calm w" "one_account (w_db w)" "\<forall>p \<in> set ps. \<exists>a. open_account a (w_db w) \<and> pa_PropertyID a = p"
  shows "\<exists>s'. r = Inr s' \<and> FailedCount s' = FailedCount s
     \<and> (\<forall>p. snapshot_exists p y m (w_db v) \<longleftrightarrow> p \<in> set ps \<or> snapshot_exists p y m (w_db w))
     \<and> (\<forall>a. account_entries a y m (w_db w) = [] \<longrightarrow> account_entries a y m (w_db v) = [])
     \<and> (\<forall>a. open_account a (w_db w) \<and> pa_PropertyID a \<in> set ps
          \<and> \<not> snapshot_exists (pa_PropertyID a) y m (w_db w) \<longrightarrow> account_entries a y m (w_db v) = [])"
  using assms
proof (induction ps arbitrary: s w)
  case Nil
  then show ?case by (intro exI [of _ s]) (auto simp: tx_return_def)
next
  case (Cons p ps)
  obtain q u where q: "WithinTransaction publish (close_month E y m p) w = (q, u)" by force
  define s1 where "s1 = (case q of Inr _ \<Rightarrow> processed s
       | Inl e \<Rightarrow> if errors_Is e ErrAlreadyProcessed then skipped s else failed s)"
  have "tally (Some ErrAlreadyProcessed) (WithinTransaction publish (close_month E y m p)) s w = (Inr s1, u)"
    by (cases q) (simp_all add: tally_def q s1_def)
  then have rest: "each_candidate (\<lambda>p. tally (Some ErrAlreadyProcessed)
      (WithinTransaction publish (close_month E y m p))) ps s1 u = (r, v)"
    using Cons.prems(1) by (simp add: tx_bind_def)
  obtain a0 where a0: "open_account a0 (w_db w)" "pa_PropertyID a0 = p" using Cons.prems(4) by auto
  note runs = close_runs [OF Cons.prems(2) a0 q]
  have failed: "FailedCount s1 = FailedCount s"
    using runs by (auto simp: s1_def processed_def skipped_def ErrAlreadyProcessed_def is_inr_iff split: if_splits)
  consider (same) "w_db u = w_db w" "snapshot_exists p y m (w_db w)"
    | (closed) a k n where "open_account a (w_db w)" "pa_PropertyID a = p" "\<not> snapshot_exists p y m (w_db w)"
        "w_db u = closed_month (e_row_id E k) (e_id E n) a y m (w_db w)"
    using close_candidate [OF q Cons.prems(3)] runs by (auto split: if_splits)
  then show ?case
  proof cases
    case same
    then show ?thesis using Cons.IH [OF rest] runs Cons.prems(3,4) failed by auto
  next
    case closed
    have one: "b = a" if "open_account b (w_db w)" "pa_PropertyID b = p" for b
      using Cons.prems(3) closed(1,2) that unfolding one_account_def open_account_def distinct_map inj_on_def
      by blast
    obtain s' where IH: "r = Inr s'" "FailedCount s' = FailedCount s1"
      "\<And>p. snapshot_exists p y m (w_db v) \<longleftrightarrow> p \<in> set ps \<or> snapshot_exists p y m (w_db u)"
      "\<And>b. account_entries b y m (w_db u) = [] \<Longrightarrow> account_entries b y m (w_db v) = []"
      "\<And>b. open_account b (w_db u) \<Longrightarrow> pa_PropertyID b \<in> set ps \<Longrightarrow>
          \<not> snapshot_exists (pa_PropertyID b) y m (w_db u) \<Longrightarrow> account_entries b y m (w_db v) = []"
      using Cons.IH [OF rest] runs Cons.prems(3,4) by (auto simp: closed(4))
    have "account_entries b y m (w_db v) = []"
      if "open_account b (w_db w)" "pa_PropertyID b \<in> set (p # ps)"
        "\<not> snapshot_exists (pa_PropertyID b) y m (w_db w)" for b
    proof (cases "b = a")
      case True
      then show ?thesis using IH(4) by (simp add: closed(4))
    next
      case False
      then have "pa_PropertyID b \<noteq> p" using one that(1) by blast
      then show ?thesis using IH(5) that closed(2) by (simp add: closed(4))
    qed
    moreover have "snapshot_exists q y m (w_db v) \<longleftrightarrow> q \<in> set (p # ps) \<or> snapshot_exists q y m (w_db w)" for q
      using IH(3) closed(2) by (auto simp: closed(4))
    moreover have "account_entries b y m (w_db v) = []" if "account_entries b y m (w_db w) = []" for b
      using IH(4) that by (simp add: closed(4))
    ultimately show ?thesis using IH(1,2) failed by auto
  qed
qed

lemma all_closed_loop:
  assumes "each_candidate (\<lambda>p. tally (Some ErrAlreadyProcessed)
      (WithinTransaction publish (close_month E y m p))) ps s w = (r, v)"
    and "one_account (w_db w)" "\<forall>a. open_account a (w_db w) \<longrightarrow> snapshot_exists (pa_PropertyID a) y m (w_db w)"
  shows "w_db v = w_db w"
proof -
  have "w_db v = w_db w" if "w_db w = d" for d
  proof (rule each_candidate_rel [where Q = "\<lambda>x. x = w_db w", OF _ assms(1) refl])
    fix q t u r' v'
    assume "tally (Some ErrAlreadyProcessed) (WithinTransaction publish (close_month E y m q)) t u = (r', v')"
      and u: "w_db u = w_db w"
    then obtain x where "WithinTransaction publish (close_month E y m q) u = (x, v')"
      using tally_db by blast
    then show "w_db v' = w_db w" using close_candidate [of publish E y m q u x v'] assms(2,3) u by auto
  qed
  then show ?thesis by blast
qed

text \<open>
  C25.  The snapshot job closes every property exactly once.  When no statement
  fails it returns, nothing is counted as failed, every property with a live
  account has a snapshot of the month, and the entries of the properties closed
  by this run are gone from the ledger.  Running the job again for that month,
  whatever fails then, changes nothing.
\<close>

theorem snapshot_job_closes_once:
  assumes "one_account (w_db w)" "w_faults w = []" "parseMonthlyWindowKey key = Inr (y, m)"
  shows "\<exists>s v. NewMonthlySnapshotRunner E publish key w = (Inr s, v) \<and> FailedCount s = 0
     \<and> (\<forall>a. open_account a (w_db w) \<longrightarrow> snapshot_exists (pa_PropertyID a) y m (w_db v)
          \<and> (\<not> snapshot_exists (pa_PropertyID a) y m (w_db w) \<longrightarrow> account_entries a y m (w_db v) = []))
     \<and> (\<forall>w2 res2 v2. w_db w2 = w_db v \<and> NewMonthlySnapshotRunner E publish key w2 = (res2, v2) \<longrightarrow>
          w_db v2 = w_db v)"
proof -
  let ?ps = "sort_key (\<lambda>i. i) (map pa_PropertyID (filter (\<lambda>a. \<exists>p \<in> set (live (db_properties (w_db w))).
          pr_ID p = pa_PropertyID a) (live (db_accounts (w_db w)))))"
  have listed: "set ?ps = {pa_PropertyID a | a. open_account a (w_db w)}"
    by (auto simp: open_account_def)
  obtain res v where run: "NewMonthlySnapshotRunner E publish key w = (res, v)" by force
  from run have "\<exists>r. each_candidate (\<lambda>p. tally (Some ErrAlreadyProcessed)
          (WithinTransaction publish (close_month E y m p))) ?ps no_summary (stepped w (w_db w)) = (r, v)
        \<and> res = map_sum id (\<lambda>s. s\<lparr>Note := ''job completed''\<rparr>) r"
    using assms(2,3) by (auto simp: NewMonthlySnapshotRunner_def tx_bind_def tx_lift_def tx_return_def
          ListMonthlySnapshotProperties_def stmt_def stepped_def job_completed_def split: prod.splits sum.splits)
  then obtain r where r: "each_candidate (\<lambda>p. tally (Some ErrAlreadyProcessed)
          (WithinTransaction publish (close_month E y m p))) ?ps no_summary (stepped w (w_db w)) = (r, v)"
    "res = map_sum id (\<lambda>s. s\<lparr>Note := ''job completed''\<rparr>) r" by blast
  have calm: "calm (stepped w (w_db w))" using assms(2) by (simp add: calm_def stepped_def tick_def)
  have ps: "\<forall>p \<in> set ?ps. \<exists>a. open_account a (w_db (stepped w (w_db w))) \<and> pa_PropertyID a = p"
    unfolding listed by auto
  from closing_loop [OF r(1) calm _ ps] obtain s where s: "r = Inr s" "FailedCount s = 0"
    "\<And>p. snapshot_exists p y m (w_db v) \<longleftrightarrow> p \<in> set ?ps \<or> snapshot_exists p y m (w_db w)"
    "\<And>a. open_account a (w_db w) \<Longrightarrow> pa_PropertyID a \<in> set ?ps \<Longrightarrow>
       \<not> snapshot_exists (pa_PropertyID a) y m (w_db w) \<Longrightarrow> account_entries a y m (w_db v) = []"
    using assms(1) unfolding stepped_simps by (auto simp: no_summary_def)
  have v: "one_account (w_db v)" "open_account a (w_db v) = open_account a (w_db w)" for a
  proof -
    have "rest_of_books (w_db v) = rest_of_books (w_db w)"
      using snapshot_job_keeps_books [OF assms(1) run] by blast
    then have "db_accounts (w_db v) = db_accounts (w_db w)" "db_properties (w_db v) = db_properties (w_db w)"
      by (cases "w_db v"; cases "w_db w"; simp add: rest_of_books_def)+
    then show "one_account (w_db v)" "open_account a (w_db v) = open_account a (w_db w)"
      using assms(1) by (simp_all add: one_account_def open_account_def)
  qed
  have closed: "\<forall>a. open_account a (w_db v) \<longrightarrow> snapshot_exists (pa_PropertyID a) y m (w_db v)"
    using s(3) listed v(2) by auto
  have again: "w_db v2 = w_db v" if w2: "w_db w2 = w_db v" "NewMonthlySnapshotRunner E publish key w2 = (res2, v2)"
    for w2 res2 v2
    using w2(2)
  proof (cases rule: snapshot_job_step)
    case (2 y' m' ps q)
    have ym: "y' = y" "m' = m" using 2(1) assms(3) by simp_all
    show ?thesis
      using all_closed_loop [OF 2(4) [unfolded ym]] v(1) closed unfolding stepped_simps w2(1) by blast
  qed (use w2(1) in simp)
  have "NewMonthlySnapshotRunner E publish key w = (Inr (s\<lparr>Note := ''job completed''\<rparr>), v)"
    using run r(2) s(1) by simp
  moreover have "snapshot_exists (pa_PropertyID a) y m (w_db v) \<and>
      (\<not> snapshot_exists (pa_PropertyID a) y m (w_db w) \<longrightarrow> account_entries a y m (w_db v) = [])"
    if "open_account a (w_db w)" for a
    using s(3,4) that listed by blast
  moreover have "FailedCount (s\<lparr>Note := ''job completed''\<rparr>) = 0" using s(2) by simp
  ultimately show ?thesis using again by blast
qed

section \<open>Closing a sample month\<close>

definition sample_entry :: "string \<Rightarrow> string \<Rightarrow> int \<Rightarrow> int \<Rightarrow> int \<Rightarrow> entry_row" where
  "sample_entry i category amount year month =
     \<lparr>en_ID = i, en_PropertyAccountID = ''a1'', en_Category = category, en_TitleID = ''i1'', en_TitleCode = ''4601'',
      en_TitleName = ''deduction'', en_Amount = amount, en_Description = None, en_SourceRef = JObj [],
      en_Year = year, en_Month = month, en_SourceDate = None, en_RoomLabel = None, en_TenantLabel = None,
      en_PeriodLabel = None, en_DisplayNote = None, en_CreatedAt = go_date year month 5 0\<rparr>"

definition ledgered_world :: world where
  "ledgered_world = sample_world\<lparr>w_db := sample_db\<lparr>db_entries :=
     [sample_entry ''e1'' ''rent_payment'' 12000 2024 2, sample_entry ''e2'' ''deposit_refund'' (- 500) 2024 2,
      sample_entry ''e3'' ''rent_payment'' 12000 2024 3]\<rparr>\<rparr>"

lemma ledgered_one_account: "one_account (w_db ledgered_world)"
  by code_simp

lemma snapshot_job_conserves_books_witness:
  "total_net ''p1'' (w_db (snd (NewMonthlySnapshotRunner sample_env (server_publish sample_env) ''2024-02''
      (ledgered_world\<lparr>w_faults := [False, False, False, False, True]\<rparr>)))) = 23500"
proof -
  let ?w = "ledgered_world\<lparr>w_faults := [False, False, False, False, True]\<rparr>"
  obtain res v where run: "NewMonthlySnapshotRunner sample_env (server_publish sample_env) ''2024-02'' ?w = (res, v)"
    by force
  have "one_account (w_db ?w)" "total_net ''p1'' (w_db ?w) = 23500"
    by code_simp+
  then show ?thesis using snapshot_job_conserves_books [OF _ run, of "''p1''"] run by simp
qed

lemma snapshot_job_closes_once_witness:
  "\<exists>s v. NewMonthlySnapshotRunner sample_env (server_publish sample_env) ''2024-02'' ledgered_world = (Inr s, v)
     \<and> FailedCount s = 0 \<and> snapshot_exists ''p1'' 2024 2 (w_db v)
     \<and> (\<forall>a \<in> set (live (db_accounts (w_db ledgered_world))). account_entries a 2024 2 (w_db v) = [])"
proof -
  let ?a = "\<lparr>pa_ID = ''a1'', pa_PropertyID = ''p1'', pa_Version = 1\<rparr>"
  have key: "parseMonthlyWindowKey ''2024-02'' = Inr (2024, 2)" by code_simp
  have start: "w_faults ledgered_world = []" "live (db_accounts (w_db ledgered_world)) = [?a]"
    "open_account ?a (w_db ledgered_world)" "\<not> snapshot_exists ''p1'' 2024 2 (w_db ledgered_world)"
    by code_simp+
  obtain s v where "NewMonthlySnapshotRunner sample_env (server_publish sample_env) ''2024-02'' ledgered_world
      = (Inr s, v)" "FailedCount s = 0"
    "snapshot_exists (pa_PropertyID ?a) 2024 2 (w_db v)"
    "\<not> snapshot_exists (pa_PropertyID ?a) 2024 2 (w_db ledgered_world) \<longrightarrow> account_entries ?a 2024 2 (w_db v) = []"
    using snapshot_job_closes_once [OF ledgered_one_account start(1) key] start(3) by blast
  then show ?thesis using start by auto
qed

end
