(* ===== verification/ReportProps.thy ===== *)
theory ReportProps
  imports MonthClose PaymentLedger
begin

text \<open>
  What the reader of a financial report sees: before and after a month is closed
  its report lists the same entries, in the order of their creation, under other
  row ids; and a payment booked into a month that is already closed is in no
  report once that month is no longer the current one.
\<close>

section \<open>The totals of a live report\<close>

definition row_amounts :: "report_entry list \<Rightarrow> (string \<times> int) list" where
  "row_amounts es = map (\<lambda>e. (re_Category e, re_Amount e)) es"

lemma row_amounts_ledger [simp]: "row_amounts (map ledger_row es) = entry_amounts es"
  by (simp add: row_amounts_def entry_amounts_def ledger_row_def)

lemma sum_categories_mset:
  assumes "mset es = mset fs"
  shows "sum_categories cs (entry_amounts es) = sum_categories cs (entry_amounts fs)"
proof -
  have "mset (map f (entry_amounts es)) = mset (map f (entry_amounts fs))" for f :: "string \<times> int \<Rightarrow> int"
    using assms by (simp add: entry_amounts_def)
  then show ?thesis unfolding sum_categories_def by (metis sum_mset_sum_list)
qed

lemma sum_categories_nonneg: "0 \<le> sum_categories cs xs"
  by (auto simp: sum_categories_def intro!: sum_list_nonneg split: if_splits)

lemma sum_categories_Cons [simp]:
  "sum_categories cs ((c, a) # xs) = (if c \<in> set cs then \<bar>a\<bar> else 0) + sum_categories cs xs"
  by (simp add: sum_categories_def)

lemma categories_disjoint:
  "c \<in> set income_categories \<Longrightarrow> c \<notin> set expense_categories"
  by (auto simp: income_categories_def expense_categories_def)

lemma add_row_exact:
  assumes "0 \<le> fr_TotalIncome r" "0 \<le> fr_TotalExpense r"
    and "fr_TotalIncome r + (if re_Category e \<in> set income_categories then \<bar>re_Amount e\<bar> else 0) < 2 ^ 63"
    and "fr_TotalExpense r + (if re_Category e \<in> set expense_categories then \<bar>re_Amount e\<bar> else 0) < 2 ^ 63"
  shows "add_row r e = r\<lparr>
      fr_TotalIncome := fr_TotalIncome r + (if re_Category e \<in> set income_categories then \<bar>re_Amount e\<bar> else 0),
      fr_TotalExpense := fr_TotalExpense r + (if re_Category e \<in> set expense_categories then \<bar>re_Amount e\<bar> else 0),
      fr_Entries := fr_Entries r @ [e]\<rparr>"
proof -
  have abs: "absInt a = \<bar>a\<bar>" if "\<bar>a\<bar> < 2 ^ 63" for a
    using that by (auto simp: absInt_def is_i64_def intro!: i64_id)
  have id: "i64 x = x" if "0 \<le> x" "x < 2 ^ 63" for x
    using that by (simp add: is_i64_def)
  consider "re_Category e \<in> set income_categories" "re_Category e \<notin> set expense_categories"
    | "re_Category e \<in> set expense_categories" "re_Category e \<notin> set income_categories"
    | "re_Category e \<notin> set income_categories" "re_Category e \<notin> set expense_categories"
    using categories_disjoint by blast
  then show ?thesis
  proof cases
    case 1
    then have "\<bar>re_Amount e\<bar> < 2 ^ 63" using assms(1,3) by simp
    then show ?thesis using 1 assms(1,3)
      by (simp add: add_row_def addFinancialReportAmount_def abs id income_categories_def expense_categories_def)
  next
    case 2
    then have "\<bar>re_Amount e\<bar> < 2 ^ 63" using assms(2,4) by simp
    then show ?thesis using 2 assms(2,4)
      by (simp add: add_row_def addFinancialReportAmount_def abs id income_categories_def expense_categories_def)
  next
    case 3
    then show ?thesis
      by (simp add: add_row_def addFinancialReportAmount_def income_categories_def expense_categories_def)
  qed
qed

lemma fold_add_row:
  assumes "0 \<le> fr_TotalIncome r" "0 \<le> fr_TotalExpense r"
    and "fr_TotalIncome r + sum_categories income_categories (row_amounts es) < 2 ^ 63"
    and "fr_TotalExpense r + sum_categories expense_categories (row_amounts es) < 2 ^ 63"
  shows "foldl add_row r es = r\<lparr>
      fr_TotalIncome := fr_TotalIncome r + sum_categories income_categories (row_amounts es),
      fr_TotalExpense := fr_TotalExpense r + sum_categories expense_categories (row_amounts es),
      fr_Entries := fr_Entries r @ es\<rparr>"
  using assms
proof (induction es arbitrary: r)
  case Nil
  then show ?case by (simp add: row_amounts_def sum_categories_def)
next
  case (Cons e es)
  let ?i = "if re_Category e \<in> set income_categories then \<bar>re_Amount e\<bar> else 0"
  let ?x = "if re_Category e \<in> set expense_categories then \<bar>re_Amount e\<bar> else 0"
  have nn: "0 \<le> ?i" "0 \<le> ?x" by simp_all
  have cons: "row_amounts (e # es) = (re_Category e, re_Amount e) # row_amounts es"
    by (simp add: row_amounts_def)
  have b: "fr_TotalIncome r + ?i + sum_categories income_categories (row_amounts es) < 2 ^ 63"
    "fr_TotalExpense r + ?x + sum_categories expense_categories (row_amounts es) < 2 ^ 63"
    using Cons.prems(3,4) unfolding cons sum_categories_Cons by linarith+
  have "fr_TotalIncome r + ?i < 2 ^ 63" "fr_TotalExpense r + ?x < 2 ^ 63"
    using b sum_categories_nonneg [of income_categories "row_amounts es"]
      sum_categories_nonneg [of expense_categories "row_amounts es"] by linarith+
  note step = add_row_exact [OF Cons.prems(1,2) this]
  have "foldl add_row (add_row r e) es = (add_row r e)\<lparr>
      fr_TotalIncome := fr_TotalIncome (add_row r e) + sum_categories income_categories (row_amounts es),
      fr_TotalExpense := fr_TotalExpense (add_row r e) + sum_categories expense_categories (row_amounts es),
      fr_Entries := fr_Entries (add_row r e) @ es\<rparr>"
    by (rule Cons.IH) (use Cons.prems(1,2) nn b in \<open>simp_all add: step\<close>)
  then show ?case unfolding step cons sum_categories_Cons foldl_Cons by (simp add: add.assoc)
qed

section \<open>Reports and closed months\<close>

text \<open>Primary key of \<open>monthly_snapshots\<close>, and the foreign key of its entries.\<close>

definition snapshot_keys :: "db \<Rightarrow> bool" where
  "snapshot_keys d \<longleftrightarrow> distinct (map sn_ID (db_snapshots d))
     \<and> (\<forall>e \<in> set (db_snapshot_entries d). se_SnapshotID e \<in> sn_ID ` set (db_snapshots d))"

lemma open_account_live:
  assumes "one_account d" "open_account a d"
  shows "live_accounts_of (pa_PropertyID a) d = [a]"
  using filter_unique [of pa_PropertyID "live (db_accounts d)" a] assms
  by (simp add: one_account_def open_account_def live_accounts_of_def)

text \<open>What the two reports of a month are made of.\<close>

definition live_report :: "string \<Rightarrow> int \<Rightarrow> int \<Rightarrow> entry_row list \<Rightarrow> financial_report" where
  "live_report p y m es =
     \<lparr>fr_PropertyID = p, fr_Year = y, fr_Month = m,
      fr_TotalIncome = sum_categories income_categories (entry_amounts es),
      fr_TotalExpense = sum_categories expense_categories (entry_amounts es),
      fr_Net = net_of (entry_amounts es), fr_IsFinalized = False, fr_Entries = map ledger_row (by_creation es)\<rparr>"

definition exact_totals :: "entry_row list \<Rightarrow> bool" where
  "exact_totals es \<longleftrightarrow> sum_categories income_categories (entry_amounts es) < 2 ^ 63
     \<and> sum_categories expense_categories (entry_amounts es) < 2 ^ 63"

lemma getLive_ok:
  assumes "getLiveFinancialReport scope p y m w = (Inr r, w')" "exact_totals (live_entries p y m (w_db w))"
  shows "\<exists>P. appendPropertyScope scope = Some P \<and> visible P p (w_db w) \<and> live_accounts_of p (w_db w) \<noteq> []
     \<and> r = live_report p y m (live_entries p y m (w_db w))"
proof -
  let ?es = "live_entries p y m (w_db w)"
  let ?z = "\<lparr>fr_PropertyID = p, fr_Year = y, fr_Month = m, fr_TotalIncome = 0,
      fr_TotalExpense = 0, fr_Net = 0, fr_IsFinalized = False, fr_Entries = []\<rparr>"
  obtain P where P: "appendPropertyScope scope = Some P"
    using assms(1) by (auto simp: getLiveFinancialReport_def tx_throw_def split: option.splits)
  have r: "visible P p (w_db w)" "live_accounts_of p (w_db w) \<noteq> []"
    "r = (let report = foldl add_row ?z (map ledger_row (by_creation ?es))
          in report\<lparr>fr_Net := i64 (fr_TotalIncome report - fr_TotalExpense report)\<rparr>)"
    using assms(1) P by (auto simp: getLiveFinancialReport_def tx_control stmt_ok found_or_ok Let_def split: if_splits)
  let ?i = "sum_categories income_categories (entry_amounts ?es)"
  let ?x = "sum_categories expense_categories (entry_amounts ?es)"
  have "foldl add_row ?z (map ledger_row (by_creation ?es))
      = ?z\<lparr>fr_TotalIncome := ?i, fr_TotalExpense := ?x, fr_Entries := map ledger_row (by_creation ?es)\<rparr>"
    using fold_add_row [of ?z "map ledger_row (by_creation ?es)"] assms(2)
      sum_categories_mset [OF mset_by_creation, of _ ?es] by (simp add: exact_totals_def)
  moreover have "i64 (?i - ?x) = ?i - ?x"
    using assms(2) sum_categories_nonneg [of income_categories "entry_amounts ?es"]
      sum_categories_nonneg [of expense_categories "entry_amounts ?es"]
    by (intro i64_id) (simp add: exact_totals_def is_i64_def)
  ultimately show ?thesis using P r by (simp add: Let_def live_report_def net_of_def)
qed

lemma find_append_none: "(\<forall>x \<in> set xs. \<not> P x) \<Longrightarrow> P y \<Longrightarrow> find P (xs @ [y]) = Some y"
  by (induction xs) auto

text \<open>The finalized report of the month a closing has just frozen.\<close>

definition frozen_report :: "(nat \<Rightarrow> string) \<Rightarrow> string \<Rightarrow> string \<Rightarrow> int \<Rightarrow> int \<Rightarrow> entry_row list \<Rightarrow> financial_report" where
  "frozen_report ids i p y m es = (live_report p y m es)\<lparr>fr_IsFinalized := True,
     fr_Entries := map snapshot_entry (frozen_by_creation (freeze ids i es))\<rparr>"

lemma getFinalized_closed:
  assumes "appendPropertyScope scope = Some P" "visible P p d" "pa_PropertyID a = p"
    and "\<not> snapshot_exists p y m d" "snapshot_keys d"
    and "distinct (map sn_ID (db_snapshots (closed_month ids i a y m d)))"
    and "w_db w = closed_month ids i a y m d" "\<not> next_fault w"
  shows "\<exists>w'. getFinalizedFinancialReport scope p y m w
     = (Inr (frozen_report ids i p y m (account_entries a y m d)), w')"
proof -
  let ?es = "account_entries a y m d"
  let ?s = "snapshot_of i p y m ?es"
  have vis: "visible P p (closed_month ids i a y m d) = visible P p d"
    by (simp add: visible_def closed_month_def)
  have find: "find (\<lambda>s. sn_PropertyID s = p \<and> sn_Year s = y \<and> sn_Month s = m)
      (db_snapshots (closed_month ids i a y m d)) = Some ?s"
    using assms(3,4) by (auto simp: closed_month_def snapshot_exists_def intro!: find_append_none)
  have "i \<notin> sn_ID ` set (db_snapshots d)"
    using assms(6) by (simp add: closed_month_def)
  then have "filter (\<lambda>e. se_SnapshotID e = i) (db_snapshot_entries d) = []"
    using assms(5) by (force simp: snapshot_keys_def filter_empty_conv)
  moreover have "filter (\<lambda>e. se_SnapshotID e = i) (freeze ids i ?es) = freeze ids i ?es"
    by (rule filter_True) (auto simp: freeze_def frozen_def)
  ultimately have rows: "filter (\<lambda>e. se_SnapshotID e = sn_ID ?s)
      (db_snapshot_entries (closed_month ids i a y m d)) = freeze ids i ?es"
    by (simp add: closed_month_def)
  have "frozen_report ids i p y m ?es = \<lparr>fr_PropertyID = sn_PropertyID ?s, fr_Year = sn_Year ?s,
      fr_Month = sn_Month ?s, fr_TotalIncome = sn_TotalIncome ?s, fr_TotalExpense = sn_TotalExpense ?s,
      fr_Net = sn_Net ?s, fr_IsFinalized = True,
      fr_Entries = map snapshot_entry (frozen_by_creation (freeze ids i ?es))\<rparr>"
    by (simp add: frozen_report_def live_report_def snapshot_of_def Let_def net_of_def)
  then show ?thesis
    using assms(1,2,8) find rows
    by (simp add: getFinalizedFinancialReport_def stmt_def assms(7) vis tx_bind_def found_or_def tx_return_def)
qed

lemma normalizeFinancialReportQuery_ok:
  "normalizeFinancialReportQuery E input = Inr q \<Longrightarrow>
     q_PropertyID q = trim (rq_PropertyID input) \<and> q_Year q = rq_Year input \<and> q_Month q = rq_Month input"
  by (auto simp: normalizeFinancialReportQuery_def normalizeRequiredUUID_def Let_def split: sum.splits if_splits)

lemma normalizeFinancialReportQuery_env:
  assumes "e_uuid_ok E = e_uuid_ok E'"
  shows "normalizeFinancialReportQuery E input = normalizeFinancialReportQuery E' input"
proof -
  have "normalizeRequiredUUID E = normalizeRequiredUUID E'"
    by (intro ext) (simp add: normalizeRequiredUUID_def Let_def assms)
  then show ?thesis by (simp only: normalizeFinancialReportQuery_def)
qed

section \<open>The entries of a report\<close>

text \<open>A report entry as the reader sees it, but for the row id; and a list of ledger
  entries in the order of their creation.\<close>

definition plain :: "app_report_entry \<Rightarrow> app_report_entry" where
  "plain e = e\<lparr>ap_ID := []\<rparr>"

definition shown :: "entry_row \<Rightarrow> app_report_entry" where
  "shown e = plain (app_entry (ledger_row e))"

definition created :: "entry_row \<Rightarrow> int" where
  "created e = instant (en_CreatedAt e)"

lemma plain_frozen: "plain (app_entry (snapshot_entry (frozen k i e))) = shown e"
  by (simp add: shown_def plain_def app_entry_def snapshot_entry_def frozen_def ledger_row_def)

lemma insort_key_map: "insort_key f (g x) (map g xs) = map g (insort_key (f \<circ> g) x xs)"
  by (induction xs) simp_all

lemma sort_key_map: "sort_key f (map g xs) = map g (sort_key (f \<circ> g) xs)"
  by (induction xs) (simp_all add: insort_key_map comp_def)

lemma sorted_first:
  fixes f :: "'a \<Rightarrow> int" and g :: "'a \<Rightarrow> string"
  shows "sorted (map f (sort_key (\<lambda>x. (f x, g x)) xs))"
proof -
  have "sorted (map (\<lambda>x. (f x, g x)) (sort_key (\<lambda>x. (f x, g x)) xs))" by simp
  then have "sorted_wrt (\<lambda>x y. (f x, g x) \<le> (f y, g y)) (sort_key (\<lambda>x. (f x, g x)) xs)"
    by (simp add: sorted_map)
  then have "sorted_wrt (\<lambda>x y. f x \<le> f y) (sort_key (\<lambda>x. (f x, g x)) xs)"
    by (rule sorted_wrt_mono_rel [rotated]) (auto simp: less_eq_prod_def)
  then show ?thesis by (simp add: sorted_map)
qed

lemma by_creation_sorted: "sorted (map created (by_creation es))"
  unfolding by_creation_def created_def by (rule sorted_first)

text \<open>The frozen entries in their order are the ledger entries in one of the orders of
  their creation, under the ids drawn for them.\<close>

lemma frozen_entries:
  obtains L where "map (plain \<circ> app_entry \<circ> snapshot_entry) (frozen_by_creation (freeze ids i es)) = map shown L"
    and "mset L = mset es" "sorted (map created L)"
    and "mset (map se_ID (frozen_by_creation (freeze ids i es))) = mset (map ids [0..<length es])"
proof -
  let ?f = "\<lambda>(k, e). frozen (ids k) i e" and ?ps = "enumerate 0 (by_creation es)"
  let ?key = "\<lambda>e. (instant (se_CreatedAt e), se_ID e)"
  let ?zs = "sort_key (\<lambda>z. (created (snd z), ids (fst z))) ?ps"
  have "?key \<circ> ?f = (\<lambda>z. (created (snd z), ids (fst z)))"
    by (auto simp: fun_eq_iff frozen_def created_def)
  then have zs: "frozen_by_creation (freeze ids i es) = map ?f ?zs"
    unfolding frozen_by_creation_def freeze_def by (simp only: sort_key_map)
  have perm: "mset ?zs = mset ?ps" by simp
  show ?thesis
  proof (rule that [of "map snd ?zs"])
    show "map (plain \<circ> app_entry \<circ> snapshot_entry) (frozen_by_creation (freeze ids i es)) = map shown (map snd ?zs)"
      unfolding zs by (auto simp: plain_frozen case_prod_beta)
    have "mset (map snd ?zs) = mset (map snd ?ps)" unfolding mset_map perm ..
    then show "mset (map snd ?zs) = mset es" unfolding map_snd_enumerate by simp
    show "sorted (map created (map snd ?zs))"
      using sorted_first [of "\<lambda>z. created (snd z)" "\<lambda>z. ids (fst z)" ?ps] by (simp add: comp_def)
    have "mset (map (ids \<circ> fst) ?zs) = mset (map (ids \<circ> fst) ?ps)" unfolding mset_map perm ..
    also have "map (ids \<circ> fst) ?ps = map ids [0..<length es]"
      by (simp flip: map_map add: by_creation_def)
    finally show "mset (map se_ID (frozen_by_creation (freeze ids i es))) = mset (map ids [0..<length es])"
      unfolding zs by (simp add: comp_def case_prod_beta frozen_def)
  qed
qed

text \<open>
  C32.  A report survives the closing of its month, all but its row ids.  Once the
  monthly snapshot of a property is committed, its report of that month, asked
  for by the same reader when the month is no longer the current one, has the
  totals it had while the month was open and is marked as finalized.  Both
  reports list exactly the ledger entries of the month, with every field and the
  source of each, in the order of their creation: entries created at different
  times keep their order, so the two lists are the same when no two were created
  at once.  The row ids are not kept: the finalized report shows the ids drawn
  when the month was closed.
\<close>

theorem report_survives_closing:
  assumes "one_account (w_db w)" "snapshot_keys (w_db w)" "exact_totals (live_entries p y m (w_db w))"
    and close: "WithinTransaction publish (close_month E y m p) w = (Inr u, v)"
    and pk: "distinct (map sn_ID (db_snapshots (w_db v)))"
    and before: "GetFinancialReport_Execute E1 input w1 = (Inr r, w1')" "w_db w1 = w_db w"
      "currentReportPeriod E1 = (y, m)" "(rq_Year input, rq_Month input) = (y, m)" "trim (rq_PropertyID input) = p"
    and after: "w_db w2 = w_db v" "\<not> next_fault w2" "currentReportPeriod E2 \<noteq> (y, m)"
      "e_uuid_ok E2 = e_uuid_ok E1"
  shows "\<exists>r' L L' n w2'. GetFinancialReport_Execute E2 input w2 = (Inr r', w2')
     \<and> \<not> ar_IsFinalized r \<and> r'\<lparr>ar_IsFinalized := False, ar_Entries := ar_Entries r\<rparr> = r \<and> ar_IsFinalized r'
     \<and> map plain (ar_Entries r) = map shown L \<and> map plain (ar_Entries r') = map shown L'
     \<and> mset L = mset (live_entries p y m (w_db w)) \<and> mset L' = mset L
     \<and> sorted (map created L) \<and> sorted (map created L')
     \<and> (distinct (map created L) \<longrightarrow> map plain (ar_Entries r') = map plain (ar_Entries r))
     \<and> mset (map ap_ID (ar_Entries r)) = mset (map en_ID L)
     \<and> mset (map ap_ID (ar_Entries r')) = mset (map (e_row_id E n) [0..<length L'])"
proof -
  obtain a n k where a: "open_account a (w_db w)" "pa_PropertyID a = p" "\<not> snapshot_exists p y m (w_db w)"
    "w_db v = closed_month (e_row_id E k) (e_id E n) a y m (w_db w)"
    using close_candidate [OF close assms(1)] by auto
  let ?es = "account_entries a y m (w_db w)"
  have es: "live_entries p y m (w_db w) = ?es"
    using open_account_live [OF assms(1) a(1)] by (simp add: live_entries_def a(2))
  obtain q u1 s where q: "normalizeFinancialReportQuery E1 input = Inr q"
    "getLiveFinancialReport (q_Scope q) p y m w1 = (Inr s, u1)" "r = toAppFinancialReport s"
    "q_PropertyID q = p" "q_Year q = y" "q_Month q = m"
    using before normalizeFinancialReportQuery_ok [of E1 input]
    by (auto simp: GetFinancialReport_Execute_def findFinancialReport_def repo_GetFinancialReport_def tx_control)
  obtain P where P: "appendPropertyScope (q_Scope q) = Some P" "visible P p (w_db w)" "s = live_report p y m ?es"
    using getLive_ok [OF q(2)] assms(3) before(2) es by auto
  let ?f = "frozen_report (e_row_id E k) (e_id E n) p y m ?es"
  have w2: "w_db w2 = closed_month (e_row_id E k) (e_id E n) a y m (w_db w)" using after(1) a(4) by simp
  obtain w2' where w2': "getFinalizedFinancialReport (q_Scope q) p y m w2 = (Inr ?f, w2')"
    using getFinalized_closed [OF P(1,2) a(2,3) assms(2) pk [unfolded a(4)] w2 after(2)] by blast
  have run: "GetFinancialReport_Execute E2 input w2 = (Inr (toAppFinancialReport ?f), w2')"
    using q(1,4-6) w2' after(3) normalizeFinancialReportQuery_env [OF after(4)]
    by (auto simp: GetFinancialReport_Execute_def findFinancialReport_def repo_GetFinancialReport_def tx_lift_def
        tx_bind_def tx_map_err_def tx_return_def)
  obtain L' where L': "map (plain \<circ> app_entry \<circ> snapshot_entry)
      (frozen_by_creation (freeze (e_row_id E k) (e_id E n) ?es)) = map shown L'"
    "mset L' = mset ?es" "sorted (map created L')"
    "mset (map se_ID (frozen_by_creation (freeze (e_row_id E k) (e_id E n) ?es)))
      = mset (map (e_row_id E k) [0..<length ?es])"
    using frozen_entries by blast
  let ?L = "by_creation ?es" and ?r = "toAppFinancialReport ?f"
  have rows: "map plain (ar_Entries r) = map shown ?L" "map plain (ar_Entries ?r) = map shown L'"
    using L'(1) by (simp_all add: q(3) P(3) live_report_def frozen_report_def toAppFinancialReport_def shown_def comp_def)
  have keys: "map ap_ID (ar_Entries r) = map en_ID ?L"
    by (simp add: q(3) P(3) live_report_def toAppFinancialReport_def app_entry_def ledger_row_def)
  have ids: "mset (map ap_ID (ar_Entries ?r)) = mset (map (e_row_id E k) [0..<length L'])"
    using L'(4) mset_eq_length [OF L'(2)]
    by (simp add: frozen_report_def toAppFinancialReport_def comp_def app_entry_def snapshot_entry_def)
  have same: "L' = ?L" if "distinct (map created ?L)"
  proof (rule map_sorted_distinct_set_unique [of created])
    have "mset (map created L') = mset (map created ?L)" using L'(2) by simp
    then show "distinct (map created L')" using that mset_eq_imp_distinct_iff by blast
    have "set L' = set ?L" using L'(2) by (metis mset_by_creation set_mset_mset)
    then show "inj_on created (set L' \<union> set ?L)" "set L' = set ?L" using that by (simp_all add: distinct_map)
  qed (use that L'(3) by_creation_sorted in simp_all)
  have "r = toAppFinancialReport (live_report p y m ?es)" by (simp add: q(3) P(3))
  then have totals: "\<not> ar_IsFinalized r" "ar_IsFinalized ?r" "?r\<lparr>ar_IsFinalized := False, ar_Entries := ar_Entries r\<rparr> = r"
    by (simp_all add: toAppFinancialReport_def frozen_report_def live_report_def)
  show ?thesis
    using run rows keys ids same totals L'(2,3) by_creation_sorted [of ?es] es
    by (intro exI [of _ ?r] exI [of _ ?L] exI [of _ L'] exI [of _ k] exI [of _ w2']) simp
qed

section \<open>Payments into closed months\<close>

text \<open>A report depends on the ledger only through the current month.\<close>

lemma report_cong:
  assumes "db_properties (w_db u) = db_properties (w_db w)" "db_accounts (w_db u) = db_accounts (w_db w)"
    and "db_snapshots (w_db u) = db_snapshots (w_db w)" "db_snapshot_entries (w_db u) = db_snapshot_entries (w_db w)"
    and "\<And>a. account_entries a (fst (currentReportPeriod E)) (snd (currentReportPeriod E)) (w_db u)
           = account_entries a (fst (currentReportPeriod E)) (snd (currentReportPeriod E)) (w_db w)"
    and "w_faults u = w_faults w"
  shows "fst (GetFinancialReport_Execute E input u) = fst (GetFinancialReport_Execute E input w)"
proof -
  have f: "next_fault u = next_fault w" using assms(6) by (simp add: next_fault_def)
  have vis: "visible P p (w_db u) = visible P p (w_db w)" "live_accounts_of p (w_db u) = live_accounts_of p (w_db w)" for P p
    using assms(1,2) by (simp_all add: visible_def live_accounts_of_def)
  have live: "live_entries p y m (w_db u) = live_entries p y m (w_db w)" if "(y, m) = currentReportPeriod E" for p y m
  proof -
    have "account_entries a y m (w_db u) = account_entries a y m (w_db w)" for a
      using assms(5) [of a] that [symmetric] by simp
    then show ?thesis by (simp add: live_entries_def vis)
  qed
  show ?thesis
  proof (cases "normalizeFinancialReportQuery E input")
    case (Inr q)
    have "fst (repo_GetFinancialReport (q_Scope q) (q_PropertyID q) (q_Year q) (q_Month q)
        ((q_Year q, q_Month q) = currentReportPeriod E) u)
      = fst (repo_GetFinancialReport (q_Scope q) (q_PropertyID q) (q_Year q) (q_Month q)
        ((q_Year q, q_Month q) = currentReportPeriod E) w)"
      using live f vis assms(3,4)
      by (cases "(q_Year q, q_Month q) = currentReportPeriod E")
        (auto simp: repo_GetFinancialReport_def getLiveFinancialReport_def getFinalizedFinancialReport_def tx_throw_def
          tx_bind_def stmt_def found_or_def tx_return_def Let_def split: option.splits)
    then show ?thesis
      by (auto simp: GetFinancialReport_Execute_def Inr tx_bind_def tx_lift_def findFinancialReport_def tx_map_err_def
          tx_return_def split: prod.splits sum.splits)
  qed (simp add: GetFinancialReport_Execute_def tx_bind_def tx_lift_def tx_throw_def)
qed

text \<open>A month that has a snapshot is never closed again.\<close>

lemma closed_stays_closed:
  assumes "one_account (w_db u)" "snapshot_exists p y m (w_db u)"
    and "WithinTransaction publish (close_month E y m p) u = (res, v)"
  shows "w_db v = w_db u"
  using close_candidate [OF assms(3,1)] assms(2) by auto

text \<open>
  C33.  A payment booked into a closed month drops out of the reports.  When the
  UTC month of a payment has a snapshot already, the payment still succeeds and
  its entry goes to the ledger of that month, where only the live report lists
  it, which is shown while that month is the current one in Taipei.  For a reader
  in any other month no financial report, of any property and month, changes by
  the payment, and the monthly closing of that month never picks it up.
\<close>

theorem late_payment_drops_out_of_reports:
  assumes pay: "RecordPayment_Execute E (server_publish E) input w = (Inr r, w')"
    and rows: "\<forall>b \<in> set (live (db_bills (w_db w))). bill_typed b" "unique_codes (w_db w)" "one_account (w_db w)"
    and bill: "bill_by_id (trim (rpi_BillID input)) (w_db w) = Some b"
    and month: "y = time_year (utc_or_now E (rpi_PaidAt input))" "m = time_month (utc_or_now E (rpi_PaidAt input))"
    and closed: "snapshot_exists (b_PropertyID b) y m (w_db w)"
  shows "\<exists>e. db_entries (w_db w') = db_entries (w_db w) @ [e] \<and> en_Amount e = rpi_PaidAmount input
     \<and> en_Year e = y \<and> en_Month e = m
     \<and> e \<in> set (live_entries (b_PropertyID b) y m (w_db w'))
     \<and> (\<forall>E2 query u u'. w_db u = w_db w \<and> w_db u' = w_db w' \<and> w_faults u' = w_faults u
          \<and> currentReportPeriod E2 \<noteq> (y, m) \<longrightarrow>
          fst (GetFinancialReport_Execute E2 query u') = fst (GetFinancialReport_Execute E2 query u))
     \<and> (\<forall>E2 publish u res v. w_db u = w_db w' \<and>
          WithinTransaction publish (close_month E2 y m (b_PropertyID b)) u = (res, v) \<longrightarrow> w_db v = w_db u)"
proof -
  let ?t = "utc_or_now E (rpi_PaidAt input)"
  let ?p = "payment_entry b (payment_category (b_Type b)) (payment_title (b_Type b)) (rpi_PaidAmount input) ?t"
  obtain es d where d: "booked ?p (w_db w) es" "w_db w' = add_entries es d"
    "d = with_bill E (trim (rpi_BillID input)) (b_Version b)
          (paid_bill (trim (rpi_PaymentMethod input)) (rpi_PaidAmount input) ?t) (w_db w)"
    using RecordPayment_effect [OF pay rows(1)] bill by auto
  have same: "db_snapshots d = db_snapshots (w_db w)" "db_snapshot_entries d = db_snapshot_entries (w_db w)"
    unfolding d(3) with_bill_def update_bills_def by simp_all
  obtain e where e: "es = [e]" "en_Amount e = rpi_PaidAmount input" "en_Year e = y" "en_Month e = m"
    "account_of (b_PropertyID b) (w_db w) = Some (en_PropertyAccountID e)"
    using booked_single [OF d(1) rows(2)] by (auto simp: payment_entry_def Let_def month entry_view_def)
  have entries: "db_entries (w_db w') = db_entries (w_db w) @ [e]"
    using d(2,3) e(1) by simp
  have kept: "db_properties (w_db w') = db_properties (w_db w)" "db_accounts (w_db w') = db_accounts (w_db w)"
    "db_snapshots (w_db w') = db_snapshots (w_db w)" "db_snapshot_entries (w_db w') = db_snapshot_entries (w_db w)"
    using d(2,3) same by (simp_all add: add_entries_def)
  obtain a where "a \<in> set (live (db_accounts (w_db w)))" "pa_PropertyID a = b_PropertyID b"
    "pa_ID a = en_PropertyAccountID e"
    using e(5) nth_mem by (fastforce simp: account_of_def find_Some_iff)
  then have listed: "e \<in> set (live_entries (b_PropertyID b) y m (w_db w'))"
    using e(3,4) by (auto simp: live_entries_def live_accounts_of_def kept(2) account_entries_def entries)
  have "fst (GetFinancialReport_Execute E2 query u') = fst (GetFinancialReport_Execute E2 query u)"
    if u: "w_db u = w_db w" "w_db u' = w_db w'" "w_faults u' = w_faults u" "currentReportPeriod E2 \<noteq> (y, m)"
    for E2 query u u'
  proof (rule report_cong)
    fix a
    have "fst (currentReportPeriod E2) \<noteq> y \<or> snd (currentReportPeriod E2) \<noteq> m"
      using u(4) by (metis prod.collapse)
    then show "account_entries a (fst (currentReportPeriod E2)) (snd (currentReportPeriod E2)) (w_db u')
        = account_entries a (fst (currentReportPeriod E2)) (snd (currentReportPeriod E2)) (w_db u)"
      using e(3,4) by (auto simp: u(1,2) account_entries_def entries)
  qed (use u kept in simp_all)
  moreover have "w_db v = w_db u"
    if u: "w_db u = w_db w'" "WithinTransaction publish (close_month E2 y m (b_PropertyID b)) u = (res, v)"
    for E2 publish u res v
  proof (rule closed_stays_closed [OF _ _ u(2)])
    show "one_account (w_db u)" using rows(3) by (simp add: u(1) one_account_def kept)
    show "snapshot_exists (b_PropertyID b) y m (w_db u)" using closed by (simp add: u(1) snapshot_exists_def kept)
  qed
  ultimately show ?thesis using entries e(2-4) listed by blast
qed

section \<open>A sample office at the turn of the month\<close>

definition sample_reader :: report_query_input where
  "sample_reader = \<lparr>rq_ActorRole = '' Staff'', rq_ActorUserID = ''u1'', rq_AssignedPropertyIDs = [''p1''],
     rq_PropertyID = ''p1'', rq_Year = 2024, rq_Month = 2\<rparr>"

definition march_env :: env where
  "march_env = sample_env\<lparr>e_now := go_date 2024 3 1 0\<rparr>"

definition sample_live :: financial_report where
  "sample_live = live_report ''p1'' 2024 2 (account_entries \<lparr>pa_ID = ''a1'', pa_PropertyID = ''p1'', pa_Version = 1\<rparr>
     2024 2 (w_db ledgered_world))"

lemma sample_live_report:
  "fst (GetFinancialReport_Execute sample_env sample_reader ledgered_world) = Inr (toAppFinancialReport sample_live)"
  by code_simp

lemma report_survives_closing_witness:
  "\<exists>u v r' w2. WithinTransaction (server_publish sample_env) (close_month sample_env 2024 2 ''p1'') ledgered_world = (Inr u, v)
     \<and> GetFinancialReport_Execute march_env sample_reader v = (Inr r', w2)
     \<and> ar_IsFinalized r' \<and> ar_Net r' = 11500
     \<and> mset (map plain (ar_Entries r')) = mset (map plain (ar_Entries (toAppFinancialReport sample_live)))"
proof -
  let ?w = ledgered_world and ?a = "\<lparr>pa_ID = ''a1'', pa_PropertyID = ''p1'', pa_Version = 1\<rparr>"
  let ?r = "toAppFinancialReport sample_live"
  obtain res v where run: "WithinTransaction (server_publish sample_env) (close_month sample_env 2024 2 ''p1'') ?w = (res, v)"
    by force
  have calm: "calm ?w" by (simp add: ledgered_world_def sample_world_def calm_def)
  have start: "open_account ?a (w_db ?w)" "pa_PropertyID ?a = ''p1''" "\<not> snapshot_exists ''p1'' 2024 2 (w_db ?w)"
    "snapshot_keys (w_db ?w)" "exact_totals (live_entries ''p1'' 2024 2 (w_db ?w))" "db_snapshots (w_db ?w) = []"
    "currentReportPeriod sample_env = (2024, 2)" "currentReportPeriod march_env \<noteq> (2024, 2)"
    "(rq_Year sample_reader, rq_Month sample_reader) = (2024, 2)"
    "trim (rq_PropertyID sample_reader) = ''p1''" "ar_Net ?r = 11500"
    by code_simp+
  have uuid: "e_uuid_ok march_env = e_uuid_ok sample_env" by (simp add: march_env_def)
  note ok = close_runs [OF calm start(1,2) run]
  obtain u where u: "res = Inr u" using ok start(3) by (auto simp: is_inr_iff)
  have faults: "\<not> next_fault v" using ok by (simp add: calm_def next_fault_def)
  have pk: "distinct (map sn_ID (db_snapshots (w_db v)))"
    using close_candidate [OF run ledgered_one_account] u start(6) by (auto simp: closed_month_def)
  obtain w1' where before: "GetFinancialReport_Execute sample_env sample_reader ?w = (Inr ?r, w1')"
    using sample_live_report by (cases "GetFinancialReport_Execute sample_env sample_reader ?w") auto
  from report_survives_closing [OF ledgered_one_account start(4,5) run [unfolded u] pk before refl start(7,9,10)
      refl faults start(8) uuid]
  obtain r' L L' w2 where r': "GetFinancialReport_Execute march_env sample_reader v = (Inr r', w2)"
    "r'\<lparr>ar_IsFinalized := False, ar_Entries := ar_Entries ?r\<rparr> = ?r" "ar_IsFinalized r'"
    "map plain (ar_Entries ?r) = map shown L" "map plain (ar_Entries r') = map shown L'" "mset L' = mset L"
    by blast
  have "ar_Net r' = 11500" using r'(2) start(11) by (metis app_financial_report.select_convs(6)
      app_financial_report.surjective app_financial_report.update_convs(7,8))
  moreover have "mset (map plain (ar_Entries r')) = mset (map plain (ar_Entries ?r))"
    unfolding r'(4,5) using r'(6) by simp
  ultimately show ?thesis using run u r'(1,3) by blast
qed

definition closed_february :: world where
  "closed_february = rent_world\<lparr>w_db := (w_db rent_world)\<lparr>db_snapshots := [snapshot_of ''s1'' ''p1'' 2024 2 []]\<rparr>\<rparr>"

lemma closed_february_facts:
  "bill_by_id ''b1'' (w_db closed_february) = Some rent_due" "live (db_bills (w_db closed_february)) = [rent_due]"
  "account_of (b_PropertyID rent_due) (w_db closed_february) = Some ''a1''"
  "active_titles (payment_title (b_Type rent_due)) (w_db closed_february) = [rent_title]"
  "unique_codes (w_db closed_february)" "one_account (w_db closed_february)"
  "snapshot_exists (b_PropertyID rent_due) 2024 2 (w_db closed_february)" "db_entries (w_db closed_february) = []"
  "2024 = time_year (utc_or_now sample_env (rpi_PaidAt sample_payment))"
  "2 = time_month (utc_or_now sample_env (rpi_PaidAt sample_payment))"
  "currentReportPeriod march_env \<noteq> (2024, 2)"
  by code_simp+

lemma late_payment_drops_out_of_reports_witness:
  "\<exists>r w' e. RecordPayment_Execute sample_env (server_publish sample_env) sample_payment closed_february = (Inr r, w')
     \<and> db_entries (w_db w') = [e] \<and> en_Amount e = 12000
     \<and> fst (GetFinancialReport_Execute march_env sample_reader (closed_february\<lparr>w_db := w_db w'\<rparr>))
         = fst (GetFinancialReport_Execute march_env sample_reader closed_february)"
proof -
  have "calm closed_february" by (simp add: closed_february_def rent_world_def sample_world_def calm_def)
  then have "wp (RecordPayment_Execute sample_env (server_publish sample_env) sample_payment) (\<lambda>_. calm) closed_february"
    unfolding RecordPayment_Execute_def using rent_facts(3-5,9,10) closed_february_facts
    by (auto simp: wp_simps sample_payment_def intro!: server_command_runs RecordPayment_body_runs)
  then obtain r w' where r: "RecordPayment_Execute sample_env (server_publish sample_env) sample_payment closed_february
      = (Inr r, w')"
    using wp_result by blast
  have typed: "\<forall>b \<in> set (live (db_bills (w_db closed_february))). bill_typed b"
    using rent_facts(3) closed_february_facts(2) by simp
  have bill: "bill_by_id (trim (rpi_BillID sample_payment)) (w_db closed_february) = Some rent_due"
    using closed_february_facts(1) rent_facts(10) by simp
  have same: "w_db (closed_february\<lparr>w_db := w_db w'\<rparr>) = w_db w'"
    "w_faults (closed_february\<lparr>w_db := w_db w'\<rparr>) = w_faults closed_february" by simp_all
  obtain e where e: "db_entries (w_db w') = db_entries (w_db closed_february) @ [e]"
    "en_Amount e = rpi_PaidAmount sample_payment"
    "\<And>E2 query u u'. w_db u = w_db closed_february \<and> w_db u' = w_db w' \<and> w_faults u' = w_faults u
        \<and> currentReportPeriod E2 \<noteq> (2024, 2) \<Longrightarrow>
        fst (GetFinancialReport_Execute E2 query u') = fst (GetFinancialReport_Execute E2 query u)"
    using late_payment_drops_out_of_reports [OF r typed closed_february_facts(5,6) bill closed_february_facts(9,10,7)]
    by blast
  show ?thesis
    using r e(1,2) closed_february_facts(8) e(3) [OF conjI [OF refl conjI [OF same(1) conjI [OF same(2)
        closed_february_facts(11)]]]] by (auto simp: sample_payment_def)
qed

end
