(* ===== verification/PropertyDomain.thy ===== *)
theory PropertyDomain
  imports Store
begin

text \<open>
  The property and room aggregates (domain/property): construction, rehydration,
  patches, deletability and maintenance.  A price or a size is a rational (the
  JSON numbers a request can carry), a JSON object a \<open>jval\<close>; the deep copies of the
  code are the values themselves.
\<close>

section \<open>Properties\<close>

definition RoomStatusVacant :: string where "RoomStatusVacant = ''vacant''"
definition RoomStatusOccupied :: string where "RoomStatusOccupied = ''occupied''"
definition RoomStatusMaintenance :: string where "RoomStatusMaintenance = ''maintenance''"

lemmas room_statuses = RoomStatusVacant_def RoomStatusOccupied_def RoomStatusMaintenance_def

definition ErrNameRequired :: gerr where
  "ErrNameRequired = Sentinel ''property.ErrNameRequired''"
definition ErrPropertyPublicNameRequired :: gerr where
  "ErrPropertyPublicNameRequired = Sentinel ''property.ErrPropertyPublicNameRequired''"
definition ErrAddressRequired :: gerr where
  "ErrAddressRequired = Sentinel ''property.ErrAddressRequired''"
definition ErrOwnerIDRequired :: gerr where
  "ErrOwnerIDRequired = Sentinel ''property.ErrOwnerIDRequired''"
definition ErrElectricityPriceMustBePositive :: gerr where
  "ErrElectricityPriceMustBePositive = Sentinel ''property.ErrElectricityPriceMustBePositive''"
definition ErrInvalidBillingCadence :: gerr where
  "ErrInvalidBillingCadence = Sentinel ''property.ErrInvalidBillingCadence''"
definition ErrForbiddenElectricityPriceUpdate :: gerr where
  "ErrForbiddenElectricityPriceUpdate = Sentinel ''property.ErrForbiddenElectricityPriceUpdate''"
definition ErrRoomNameRequired :: gerr where
  "ErrRoomNameRequired = Sentinel ''property.ErrRoomNameRequired''"
definition ErrRoomIsOccupied :: gerr where
  "ErrRoomIsOccupied = Sentinel ''property.ErrRoomIsOccupied''"
definition ErrRoomIsInMaintenance :: gerr where
  "ErrRoomIsInMaintenance = Sentinel ''property.ErrRoomIsInMaintenance''"
definition ErrBadRoomStatus :: gerr where
  "ErrBadRoomStatus = Sentinel ''property.ErrBadRoomStatus''"

lemmas property_errors = ErrNameRequired_def ErrPropertyPublicNameRequired_def ErrAddressRequired_def
  ErrOwnerIDRequired_def ErrElectricityPriceMustBePositive_def ErrInvalidBillingCadence_def
  ErrForbiddenElectricityPriceUpdate_def ErrRoomNameRequired_def ErrRoomIsOccupied_def
  ErrRoomIsInMaintenance_def ErrBadRoomStatus_def

record property_state =
  ps_ID :: string
  ps_Name :: string
  ps_PropertyPublicName :: string
  ps_Subtitle :: "string option"
  ps_Address :: string
  ps_ElectricityUnitPrice :: "rat option"
  ps_DefaultElectricityBillingCadence :: string
  ps_OwnerID :: string
  ps_ContactPhone :: "string option"
  ps_ContactEmail :: "string option"
  ps_Notes :: "string option"
  ps_Facilities :: "jval option"
  ps_Version :: int

text \<open>\<open>normalizeOptionalStringPtr\<close>; \<open>cloneMapPtr\<close> turns a pointer to a nil map into
  one to an empty map.\<close>

definition normalizeOptionalStringPtr :: "string option \<Rightarrow> string option" where
  "normalizeOptionalStringPtr value =
     (case value of None \<Rightarrow> None | Some s \<Rightarrow> if trim s = '''' then None else Some (trim s))"

definition cloneMapPtr :: "jval option \<Rightarrow> jval option" where
  "cloneMapPtr value = map_option (\<lambda>v. if v = JNull then JObj [] else v) value"

definition isValidBillingCadence :: "string \<Rightarrow> bool" where
  "isValidBillingCadence cadence \<longleftrightarrow> cadence \<in> {''monthly'', ''bimonthly''}"

definition property_normalizeState :: "property_state \<Rightarrow> bool \<Rightarrow> gerr + property_state" where
  "property_normalizeState state requireElectricityPrice =
    (let state = state\<lparr>ps_Name := trim (ps_Name state)\<rparr>
     in if ps_Name state = '''' then Inl ErrNameRequired
     else let state = state\<lparr>ps_PropertyPublicName := trim (ps_PropertyPublicName state)\<rparr>;
              state = (if ps_PropertyPublicName state = ''''
                       then state\<lparr>ps_PropertyPublicName := ps_Name state\<rparr> else state);
              state = state\<lparr>ps_Subtitle := normalizeOptionalStringPtr (ps_Subtitle state),
                            ps_Address := trim (ps_Address state)\<rparr>
     in if ps_Address state = '''' then Inl ErrAddressRequired
     else if (case ps_ElectricityUnitPrice state of None \<Rightarrow> requireElectricityPrice | Some p \<Rightarrow> p \<le> 0)
     then Inl ErrElectricityPriceMustBePositive
     else let state = state\<lparr>ps_DefaultElectricityBillingCadence :=
                        trim (ps_DefaultElectricityBillingCadence state)\<rparr>
     in if \<not> isValidBillingCadence (ps_DefaultElectricityBillingCadence state)
     then Inl ErrInvalidBillingCadence
     else let state = state\<lparr>ps_OwnerID := trim (ps_OwnerID state)\<rparr>
     in if ps_OwnerID state = '''' then Inl ErrOwnerIDRequired
     else Inr (state\<lparr>ps_ContactPhone := normalizeOptionalStringPtr (ps_ContactPhone state),
                 ps_ContactEmail := normalizeOptionalStringPtr (ps_ContactEmail state),
                 ps_Notes := normalizeOptionalStringPtr (ps_Notes state),
                 ps_Facilities := cloneMapPtr (ps_Facilities state)\<rparr>))"

definition property_New :: "property_state \<Rightarrow> gerr + property_state" where
  "property_New state = property_normalizeState state True"

definition property_Rehydrate :: "property_state \<Rightarrow> gerr + property_state" where
  "property_Rehydrate state = property_normalizeState state False"

record property_update_input =
  pui_ActorRole :: string
  pui_Name :: "string option"
  pui_PropertyPublicName :: "string option"
  pui_Subtitle :: "string option"
  pui_ClearSubtitle :: bool
  pui_Address :: "string option"
  pui_ElectricityUnitPrice :: "rat option"
  pui_DefaultElectricityBillingCadence :: "string option"
  pui_ContactPhone :: "string option"
  pui_ClearContactPhone :: bool
  pui_ContactEmail :: "string option"
  pui_ClearContactEmail :: bool
  pui_Notes :: "string option"
  pui_ClearNotes :: bool
  pui_Facilities :: "jval option"
  pui_ClearFacilities :: bool

text \<open>One field of a patch: a new value (normalised) wins over the clear flag, which
  wins over the current value.\<close>

definition patch :: "('a \<Rightarrow> 'b option) \<Rightarrow> 'a option \<Rightarrow> bool \<Rightarrow> 'b option \<Rightarrow> 'b option" where
  "patch f new clear cur = (case new of Some x \<Rightarrow> f x | None \<Rightarrow> if clear then None else cur)"

definition patch_string :: "string option \<Rightarrow> bool \<Rightarrow> string option \<Rightarrow> string option" where
  "patch_string = patch (\<lambda>s. normalizeOptionalStringPtr (Some s))"

definition patch_map :: "jval option \<Rightarrow> bool \<Rightarrow> jval option \<Rightarrow> jval option" where
  "patch_map = patch (\<lambda>v. cloneMapPtr (Some v))"

text \<open>A required string: trimmed, and not blank.\<close>

definition patch_required :: "gerr \<Rightarrow> string option \<Rightarrow> string \<Rightarrow> gerr + string" where
  "patch_required e new cur =
     (case new of None \<Rightarrow> Inr cur | Some s \<Rightarrow> if trim s = '''' then Inl e else Inr (trim s))"

definition property_Update :: "property_state \<Rightarrow> property_update_input \<Rightarrow> gerr + property_state" where
  "property_Update a input =
    (case patch_required ErrNameRequired (pui_Name input) (ps_Name a) of Inl e \<Rightarrow> Inl e | Inr name \<Rightarrow>
     case patch_required ErrPropertyPublicNameRequired (pui_PropertyPublicName input)
            (ps_PropertyPublicName a) of Inl e \<Rightarrow> Inl e | Inr publicName \<Rightarrow>
     case patch_required ErrAddressRequired (pui_Address input) (ps_Address a) of
       Inl e \<Rightarrow> Inl e | Inr address \<Rightarrow>
     if pui_ElectricityUnitPrice input \<noteq> None \<and> trim (pui_ActorRole input) = ''staff''
     then Inl ErrForbiddenElectricityPriceUpdate
     else if (case pui_ElectricityUnitPrice input of None \<Rightarrow> False | Some p \<Rightarrow> p \<le> 0)
     then Inl ErrElectricityPriceMustBePositive
     else if (case pui_DefaultElectricityBillingCadence input of None \<Rightarrow> False
              | Some c \<Rightarrow> \<not> isValidBillingCadence (trim c))
     then Inl ErrInvalidBillingCadence
     else Inr (a\<lparr>ps_Name := name, ps_PropertyPublicName := publicName,
            ps_Subtitle := patch_string (pui_Subtitle input) (pui_ClearSubtitle input) (ps_Subtitle a),
            ps_Address := address,
            ps_ElectricityUnitPrice :=
              (case pui_ElectricityUnitPrice input of None \<Rightarrow> ps_ElectricityUnitPrice a | Some p \<Rightarrow> Some p),
            ps_DefaultElectricityBillingCadence :=
              (case pui_DefaultElectricityBillingCadence input of
                 None \<Rightarrow> ps_DefaultElectricityBillingCadence a | Some c \<Rightarrow> trim c),
            ps_ContactPhone := patch_string (pui_ContactPhone input) (pui_ClearContactPhone input) (ps_ContactPhone a),
            ps_ContactEmail := patch_string (pui_ContactEmail input) (pui_ClearContactEmail input) (ps_ContactEmail a),
            ps_Notes := patch_string (pui_Notes input) (pui_ClearNotes input) (ps_Notes a),
            ps_Facilities := patch_map (pui_Facilities input) (pui_ClearFacilities input) (ps_Facilities a)\<rparr>))"

text \<open>\<open>EnsureDeletable\<close>: no error, or the \<open>OccupiedRoomsError\<close> with the ids it carries.\<close>

definition EnsureDeletable :: "string list \<Rightarrow> string list option" where
  "EnsureDeletable occupiedRoomIDs =
     (let ids = filter (\<lambda>i. i \<noteq> '''') (map trim occupiedRoomIDs)
      in if ids = [] then None else Some ids)"

section \<open>Rooms\<close>

record room_state =
  ms_ID :: string
  ms_PropertyID :: string
  ms_Name :: string
  ms_Status :: string
  ms_Size :: "rat option"
  ms_Floor :: "string option"
  ms_RoomType :: "string option"
  ms_Facilities :: "jval option"
  ms_DefaultRentAmount :: "int option"
  ms_Notes :: "string option"
  ms_Zone :: "string option"

definition normalizeRoomState :: "room_state \<Rightarrow> bool \<Rightarrow> gerr + room_state" where
  "normalizeRoomState state requireStatus =
    (let state = state\<lparr>ms_ID := trim (ms_ID state), ms_PropertyID := trim (ms_PropertyID state),
           ms_Name := trim (ms_Name state), ms_Status := trim (ms_Status state),
           ms_Floor := normalizeOptionalStringPtr (ms_Floor state),
           ms_RoomType := normalizeOptionalStringPtr (ms_RoomType state),
           ms_Facilities := cloneMapPtr (ms_Facilities state),
           ms_Notes := normalizeOptionalStringPtr (ms_Notes state),
           ms_Zone := normalizeOptionalStringPtr (ms_Zone state)\<rparr>
     in if ms_Name state = '''' then Inl ErrRoomNameRequired
     else let state = (if requireStatus \<and> ms_Status state = ''''
                       then state\<lparr>ms_Status := RoomStatusVacant\<rparr> else state)
     in if ms_Status state \<in> {RoomStatusVacant, RoomStatusOccupied, RoomStatusMaintenance}
     then Inr state else Inl ErrBadRoomStatus)"

definition NewRoom :: "room_state \<Rightarrow> gerr + room_state" where
  "NewRoom state = normalizeRoomState state True"

definition RehydrateRoom :: "room_state \<Rightarrow> gerr + room_state" where
  "RehydrateRoom state = normalizeRoomState state False"

record room_update_input =
  mui_Name :: "string option"
  mui_Size :: "rat option"
  mui_ClearSize :: bool
  mui_Floor :: "string option"
  mui_ClearFloor :: bool
  mui_RoomType :: "string option"
  mui_ClearRoomType :: bool
  mui_Facilities :: "jval option"
  mui_ClearFacilities :: bool
  mui_DefaultRentAmount :: "int option"
  mui_ClearDefaultRent :: bool
  mui_Notes :: "string option"
  mui_ClearNotes :: bool
  mui_Zone :: "string option"
  mui_ClearZone :: bool

definition room_UpdateRoom :: "room_state \<Rightarrow> room_update_input \<Rightarrow> gerr + room_state" where
  "room_UpdateRoom a input =
    (case patch_required ErrRoomNameRequired (mui_Name input) (ms_Name a) of Inl e \<Rightarrow> Inl e | Inr name \<Rightarrow>
     Inr (a\<lparr>ms_Name := name,
       ms_Size := patch Some (mui_Size input) (mui_ClearSize input) (ms_Size a),
       ms_Floor := patch_string (mui_Floor input) (mui_ClearFloor input) (ms_Floor a),
       ms_RoomType := patch_string (mui_RoomType input) (mui_ClearRoomType input) (ms_RoomType a),
       ms_Facilities := patch_map (mui_Facilities input) (mui_ClearFacilities input) (ms_Facilities a),
       ms_DefaultRentAmount := patch Some (mui_DefaultRentAmount input) (mui_ClearDefaultRent input)
         (ms_DefaultRentAmount a),
       ms_Notes := patch_string (mui_Notes input) (mui_ClearNotes input) (ms_Notes a),
       ms_Zone := patch_string (mui_Zone input) (mui_ClearZone input) (ms_Zone a)\<rparr>))"

definition EnsureRoomDeletable :: "room_state \<Rightarrow> gerr + unit" where
  "EnsureRoomDeletable a =
     (if ms_Status a = RoomStatusOccupied then Inl ErrRoomIsOccupied
      else if ms_Status a = RoomStatusMaintenance then Inl ErrRoomIsInMaintenance else Inr ())"

definition EnsureCanEnterMaintenance :: "room_state \<Rightarrow> gerr + unit" where
  "EnsureCanEnterMaintenance a =
     (if ms_Status a = RoomStatusOccupied then Inl ErrRoomIsOccupied
      else if ms_Status a = RoomStatusMaintenance then Inl ErrRoomIsInMaintenance else Inr ())"

definition EnterMaintenance :: "room_state \<Rightarrow> gerr + room_state" where
  "EnterMaintenance a =
     (case EnsureCanEnterMaintenance a of Inl e \<Rightarrow> Inl e
      | Inr _ \<Rightarrow> Inr (a\<lparr>ms_Status := RoomStatusMaintenance\<rparr>))"

lemma EnterMaintenance_Inr:
  "RehydrateRoom s = Inr a \<Longrightarrow> EnterMaintenance a = Inr b \<Longrightarrow>
     b = a\<lparr>ms_Status := RoomStatusMaintenance\<rparr> \<and> ms_Status a = RoomStatusVacant"
  by (auto simp: EnterMaintenance_def EnsureCanEnterMaintenance_def RehydrateRoom_def normalizeRoomState_def
      Let_def split: if_splits)

lemma RehydrateRoom_Inr:
  "RehydrateRoom s = Inr a \<Longrightarrow> ms_ID a = trim (ms_ID s) \<and> ms_PropertyID a = trim (ms_PropertyID s)
     \<and> ms_Name a = trim (ms_Name s) \<and> ms_Status a = trim (ms_Status s)"
  by (auto simp: RehydrateRoom_def normalizeRoomState_def Let_def split: if_splits)

end
