(* ===== verification/PropertyRepo.thy ===== *)
theory PropertyRepo
  imports LeaseCreate PropertyDomain
begin

text \<open>
  The statements of the property repository (platform/database/properties), seen
  through the adapters of server/property_adapters.go, and the account a
  property gets (platform/database/billing).  The row types serve as the structs
  of the repository and of the application layer, which have the same fields, so
  the conversions between them are the identity; the aggregate states serve as
  the parameters of a write that stores a whole aggregate.
\<close>

section \<open>Errors and column types\<close>

definition ErrNotFound_properties :: gerr where
  "ErrNotFound_properties = Sentinel ''properties.ErrNotFound''"
definition ErrPropertyNotFound_app :: gerr where
  "ErrPropertyNotFound_app = Sentinel ''appproperty.ErrPropertyNotFound''"

text \<open>The adapters: \<open>if err == dbproperties.ErrNotFound { return e }\<close>.\<close>

definition not_found_as :: "gerr \<Rightarrow> gerr \<Rightarrow> gerr" where
  "not_found_as e err = (if err = ErrNotFound_properties then e else err)"

text \<open>A number stored in a \<open>NUMERIC(_, k)\<close> column: rounded to \<open>k\<close> digits, half away
  from zero.\<close>

definition pg_numeric :: "nat \<Rightarrow> rat \<Rightarrow> rat" where
  "pg_numeric k x = sgn x * of_int \<lfloor>\<bar>x\<bar> * 10 ^ k + 1 / 2\<rfloor> / 10 ^ k"

text \<open>\<open>marshalJSONMap\<close> and \<open>unmarshalJSONMap\<close> around the \<open>JSONB\<close> column: an object comes
  back as itself, anything else as no map.\<close>

definition stored_map :: "jval option \<Rightarrow> jval option" where
  "stored_map value = (case value of Some (JObj kvs) \<Rightarrow> Some (JObj kvs) | _ \<Rightarrow> None)"

text \<open>\<open>UPDATE ... SET f, deleted_at = now() WHERE P AND deleted_at IS NULL\<close>.\<close>

definition tab_retire :: "('r \<Rightarrow> bool) \<Rightarrow> ('r \<Rightarrow> 'r) \<Rightarrow> 'r table \<Rightarrow> 'r table" where
  "tab_retire P f t = map (\<lambda>(r, d). if \<not> d \<and> P r then (f r, True) else (r, d)) t"

lemma live_retire [simp]: "live (tab_retire P f t) = filter (\<lambda>r. \<not> P r) (live t)"
  by (induction t) (auto simp: live_def tab_retire_def split: if_splits)

text \<open>A row that violates a CHECK constraint makes the statement fail.\<close>

definition checked :: "string \<Rightarrow> ('r \<Rightarrow> bool) \<Rightarrow> 'r tx \<Rightarrow> 'r tx" where
  "checked ctx P m = tx_bind m (\<lambda>r.
     if P r then tx_return r else tx_throw (Wrapped ctx (DriverErr ''check constraint'')))"

lemma checked_ok [tx_simps]: "checked ctx P m w = (Inr r, v) \<longleftrightarrow> m w = (Inr r, v) \<and> P r"
  by (auto simp: checked_def tx_bind_ok tx_return_ok tx_throw_ok split: if_splits)

section \<open>Properties\<close>

definition property_by_id :: "string \<Rightarrow> db \<Rightarrow> property_row option" where
  "property_by_id i d = find (\<lambda>p. pr_ID p = i) (live (db_properties d))"

text \<open>The columns a write takes from the aggregate.\<close>

definition property_columns :: "property_state \<Rightarrow> property_row \<Rightarrow> property_row" where
  "property_columns params p =
     p\<lparr>pr_Name := ps_Name params, pr_PropertyPublicName := ps_PropertyPublicName params,
       pr_Subtitle := ps_Subtitle params, pr_Address := ps_Address params,
       pr_ElectricityUnitPrice := map_option (pg_numeric 4) (ps_ElectricityUnitPrice params),
       pr_DefaultElectricityBillingCadence := ps_DefaultElectricityBillingCadence params,
       pr_OwnerID := ps_OwnerID params, pr_ContactPhone := ps_ContactPhone params,
       pr_ContactEmail := ps_ContactEmail params, pr_Notes := ps_Notes params,
       pr_Facilities := stored_map (ps_Facilities params)\<rparr>"

definition blank_property :: "env \<Rightarrow> nat \<Rightarrow> property_row" where
  "blank_property E n =
     \<lparr>pr_ID = e_id E n, pr_Name = '''', pr_PropertyPublicName = '''', pr_Subtitle = None, pr_Address = '''',
      pr_ElectricityUnitPrice = None, pr_DefaultElectricityBillingCadence = '''', pr_OwnerID = '''',
      pr_ContactPhone = None, pr_ContactEmail = None, pr_Notes = None, pr_Facilities = None,
      pr_CreatedAt = e_now E, pr_UpdatedAt = e_now E, pr_Version = 1\<rparr>"

text \<open>\<open>CHECK (electricity_unit_price > 0)\<close>, on the rounded price.\<close>

definition property_checks :: "property_row \<Rightarrow> bool" where
  "property_checks p \<longleftrightarrow> (case pr_ElectricityUnitPrice p of None \<Rightarrow> True | Some x \<Rightarrow> 0 < x)"

definition properties_Create :: "env \<Rightarrow> property_state \<Rightarrow> property_row tx" where
  "properties_Create E params =
     checked ''create property'' property_checks (stmt ''create property'' (\<lambda>n d.
       let p = property_columns params (blank_property E n)
       in (p, d\<lparr>db_properties := tab_insert p (db_properties d)\<rparr>)))"

definition properties_FindByID :: "string \<Rightarrow> property_row tx" where
  "properties_FindByID i =
     tx_bind (stmt ''find property by id'' (\<lambda>_ d. (property_by_id i d, d)))
       (\<lambda>r. found_or ErrNotFound_properties r)"

definition properties_Update :: "env \<Rightarrow> property_state \<Rightarrow> property_row tx" where
  "properties_Update E params =
     checked ''update property'' property_checks (tx_bind (stmt ''update property'' (\<lambda>_ d.
         let P = (\<lambda>p. pr_ID p = ps_ID params \<and> pr_Version p = ps_Version params);
             f = (\<lambda>p. (property_columns params p)\<lparr>pr_UpdatedAt := e_now E, pr_Version := pr_Version p + 1\<rparr>)
         in (map_option f (find P (live (db_properties d))),
             d\<lparr>db_properties := tab_update P f (db_properties d)\<rparr>)))
       (\<lambda>r. found_or ErrNotFound_properties r))"

definition ListOccupiedRoomIDs :: "string \<Rightarrow> string list tx" where
  "ListOccupiedRoomIDs propertyID =
     stmt ''list occupied rooms by property'' (\<lambda>_ d.
       (sort_key (\<lambda>i. i) (map rm_ID (filter (\<lambda>r. rm_PropertyID r = propertyID
           \<and> rm_Status r = ''occupied'') (live (db_rooms d)))), d))"

text \<open>The row is kept with its new version and \<open>updated_at\<close>, and marked deleted.\<close>

definition properties_SoftDelete :: "env \<Rightarrow> string \<Rightarrow> int \<Rightarrow> unit tx" where
  "properties_SoftDelete E i version =
     tx_bind (stmt ''soft delete property'' (\<lambda>_ d.
         let P = (\<lambda>p. pr_ID p = i \<and> pr_Version p = version)
         in (find P (live (db_properties d)) \<noteq> None,
             d\<lparr>db_properties := tab_retire P
                 (\<lambda>p. p\<lparr>pr_UpdatedAt := e_now E, pr_Version := pr_Version p + 1\<rparr>) (db_properties d)\<rparr>)))
       (\<lambda>found. tx_reject (\<not> found) ErrNotFound_properties)"

definition CreatePropertyAccount :: "env \<Rightarrow> string \<Rightarrow> unit tx" where
  "CreatePropertyAccount E propertyID =
     stmt ''create property account'' (\<lambda>n d.
       ((), d\<lparr>db_accounts := tab_insert \<lparr>pa_ID = e_id E n, pa_PropertyID = propertyID, pa_Version = 1\<rparr>
                (db_accounts d)\<rparr>))"

section \<open>Rooms\<close>

record update_room_params =
  urp_ID :: string
  urp_Name :: string
  urp_Status :: "string option"
  urp_Size :: "rat option"
  urp_Floor :: "string option"
  urp_RoomType :: "string option"
  urp_Facilities :: "jval option"
  urp_DefaultRentAmount :: "int option"
  urp_Notes :: "string option"
  urp_Zone :: "string option"

definition find_room :: "string \<Rightarrow> db \<Rightarrow> room_row option" where
  "find_room i d = find (\<lambda>r. rm_ID r = i) (live (db_rooms d))"

definition new_room :: "env \<Rightarrow> nat \<Rightarrow> room_state \<Rightarrow> room_row" where
  "new_room E n params =
     \<lparr>rm_ID = e_id E n, rm_PropertyID = ms_PropertyID params, rm_Name = ms_Name params,
      rm_Status = ''vacant'', rm_Size = map_option (pg_numeric 2) (ms_Size params),
      rm_Floor = ms_Floor params, rm_RoomType = ms_RoomType params,
      rm_Facilities = stored_map (ms_Facilities params), rm_DefaultRentAmount = ms_DefaultRentAmount params,
      rm_Notes = ms_Notes params, rm_Zone = ms_Zone params, rm_CreatedAt = e_now E, rm_UpdatedAt = e_now E\<rparr>"

text \<open>\<open>CHECK (size >= 0)\<close> and \<open>CHECK (default_rent_amount > 0)\<close>.\<close>

definition room_checks :: "room_row \<Rightarrow> bool" where
  "room_checks r \<longleftrightarrow> (case rm_Size r of None \<Rightarrow> True | Some x \<Rightarrow> 0 \<le> x)
     \<and> (case rm_DefaultRentAmount r of None \<Rightarrow> True | Some n \<Rightarrow> 0 < n)"

definition properties_CreateRoom :: "env \<Rightarrow> room_state \<Rightarrow> room_row tx" where
  "properties_CreateRoom E params =
     checked ''create room'' room_checks (stmt ''create room'' (\<lambda>n d.
       (new_room E n params, d\<lparr>db_rooms := tab_insert (new_room E n params) (db_rooms d)\<rparr>)))"

definition properties_FindRoomByID :: "string \<Rightarrow> room_row tx" where
  "properties_FindRoomByID i =
     tx_bind (stmt ''find room by id'' (\<lambda>_ d. (find_room i d, d))) (\<lambda>r. found_or ErrNotFound_properties r)"

text \<open>Every column but the status is overwritten; an absent or empty status keeps the
  current one.\<close>

definition room_columns :: "env \<Rightarrow> update_room_params \<Rightarrow> room_row \<Rightarrow> room_row" where
  "room_columns E params r =
     r\<lparr>rm_Name := urp_Name params,
       rm_Status := (if stringValue (urp_Status params) = '''' then rm_Status r
                     else stringValue (urp_Status params)),
       rm_Size := map_option (pg_numeric 2) (urp_Size params), rm_Floor := urp_Floor params,
       rm_RoomType := urp_RoomType params, rm_Facilities := stored_map (urp_Facilities params),
       rm_DefaultRentAmount := urp_DefaultRentAmount params, rm_Notes := urp_Notes params,
       rm_Zone := urp_Zone params, rm_UpdatedAt := e_now E\<rparr>"

definition properties_UpdateRoom :: "env \<Rightarrow> update_room_params \<Rightarrow> room_row tx" where
  "properties_UpdateRoom E params =
     checked ''update room'' room_checks (tx_bind (stmt ''update room'' (\<lambda>_ d.
         (map_option (room_columns E params) (find_room (urp_ID params) d),
          d\<lparr>db_rooms := tab_update (\<lambda>r. rm_ID r = urp_ID params) (room_columns E params) (db_rooms d)\<rparr>)))
       (\<lambda>r. found_or ErrNotFound_properties r))"

definition properties_SoftDeleteRoom :: "env \<Rightarrow> string \<Rightarrow> unit tx" where
  "properties_SoftDeleteRoom E i =
     tx_bind (stmt ''soft delete room'' (\<lambda>_ d.
         (find_room i d \<noteq> None,
          d\<lparr>db_rooms := tab_retire (\<lambda>r. rm_ID r = i) (\<lambda>r. r\<lparr>rm_UpdatedAt := e_now E\<rparr>) (db_rooms d)\<rparr>)))
       (\<lambda>found. tx_reject (\<not> found) ErrNotFound_properties)"

section \<open>Repair requests\<close>

record create_repair_params =
  crq_PropertyID :: string
  crq_RoomID :: string
  crq_SubmittedBy :: string
  crq_Title :: string
  crq_Description :: string

definition new_repair :: "env \<Rightarrow> nat \<Rightarrow> create_repair_params \<Rightarrow> repair_row" where
  "new_repair E n params =
     \<lparr>rr_ID = e_id E n, rr_PropertyID = crq_PropertyID params, rr_RoomID = crq_RoomID params,
      rr_SubmittedBy = crq_SubmittedBy params, rr_AssignedTo = None, rr_Title = crq_Title params,
      rr_Description = crq_Description params, rr_Status = ''submitted'', rr_SubmittedAt = e_now E,
      rr_AssignedAt = None, rr_CompletedAt = None, rr_CancelReason = None,
      rr_CreatedAt = e_now E, rr_UpdatedAt = e_now E\<rparr>"

definition CreateRepairRequest :: "env \<Rightarrow> create_repair_params \<Rightarrow> repair_row tx" where
  "CreateRepairRequest E params =
     stmt ''create repair request'' (\<lambda>n d.
       (new_repair E n params, d\<lparr>db_repairs := tab_insert (new_repair E n params) (db_repairs d)\<rparr>))"

section \<open>What the statements do\<close>

lemma property_repo_D:
  "properties_Create E ps w = (Inr p, v) \<Longrightarrow> \<exists>n. p = property_columns ps (blank_property E n)
     \<and> n = w_fresh w \<and> w_fresh v = Suc n
     \<and> w_db v = (w_db w)\<lparr>db_properties := tab_insert p (db_properties (w_db w))\<rparr> \<and> w_events v = w_events w
     \<and> property_checks p"
  "CreatePropertyAccount E i w = (Inr u, v) \<Longrightarrow> \<exists>n. n = w_fresh w
     \<and> w_db v = (w_db w)\<lparr>db_accounts := tab_insert \<lparr>pa_ID = e_id E n, pa_PropertyID = i, pa_Version = 1\<rparr>
           (db_accounts (w_db w))\<rparr> \<and> w_events v = w_events w"
  "properties_FindByID i w = (Inr p, v) \<Longrightarrow> property_by_id i (w_db w) = Some p \<and> w_db v = w_db w
     \<and> w_events v = w_events w"
  "ListOccupiedRoomIDs i w = (Inr is, v) \<Longrightarrow>
     set is = {rm_ID r | r. r \<in> set (live (db_rooms (w_db w))) \<and> rm_PropertyID r = i \<and> rm_Status r = ''occupied''}
     \<and> w_db v = w_db w \<and> w_events v = w_events w"
  by (auto simp: properties_Create_def CreatePropertyAccount_def properties_FindByID_def
      ListOccupiedRoomIDs_def tx_control checked_ok found_or_ok stmt_ok Let_def)

lemma room_repo_D:
  "properties_CreateRoom E ps w = (Inr r, v) \<Longrightarrow> \<exists>n. r = new_room E n ps \<and> room_checks r
     \<and> w_db v = (w_db w)\<lparr>db_rooms := tab_insert r (db_rooms (w_db w))\<rparr> \<and> w_events v = w_events w"
  "properties_FindRoomByID i w = (Inr r, v) \<Longrightarrow> find_room i (w_db w) = Some r \<and> w_db v = w_db w
     \<and> w_events v = w_events w"
  "properties_UpdateRoom E us w = (Inr r, v) \<Longrightarrow>
     (\<exists>x. find_room (urp_ID us) (w_db w) = Some x \<and> r = room_columns E us x) \<and> room_checks r
     \<and> w_db v = (w_db w)\<lparr>db_rooms := tab_update (\<lambda>r. rm_ID r = urp_ID us) (room_columns E us) (db_rooms (w_db w))\<rparr>
     \<and> w_events v = w_events w"
  "properties_SoftDeleteRoom E i w = (Inr u, v) \<Longrightarrow> find_room i (w_db w) \<noteq> None
     \<and> w_db v = (w_db w)\<lparr>db_rooms := tab_retire (\<lambda>r. rm_ID r = i) (\<lambda>r. r\<lparr>rm_UpdatedAt := e_now E\<rparr>)
           (db_rooms (w_db w))\<rparr>
     \<and> w_events v = w_events w"
  "CreateRepairRequest E cs w = (Inr q, v) \<Longrightarrow> \<exists>n. q = new_repair E n cs
     \<and> w_db v = (w_db w)\<lparr>db_repairs := tab_insert q (db_repairs (w_db w))\<rparr> \<and> w_events v = w_events w"
  by (auto simp: properties_CreateRoom_def properties_FindRoomByID_def properties_UpdateRoom_def
      properties_SoftDeleteRoom_def CreateRepairRequest_def tx_control checked_ok found_or_ok stmt_ok)

lemma property_write_D:
  "properties_Update E ps w = (Inr p, v) \<Longrightarrow>
     (\<exists>x. find (\<lambda>p. pr_ID p = ps_ID ps \<and> pr_Version p = ps_Version ps) (live (db_properties (w_db w))) = Some x
        \<and> p = (property_columns ps x)\<lparr>pr_UpdatedAt := e_now E, pr_Version := pr_Version x + 1\<rparr>)
     \<and> property_checks p
     \<and> w_db v = (w_db w)\<lparr>db_properties := tab_update (\<lambda>p. pr_ID p = ps_ID ps \<and> pr_Version p = ps_Version ps)
          (\<lambda>p. (property_columns ps p)\<lparr>pr_UpdatedAt := e_now E, pr_Version := pr_Version p + 1\<rparr>)
          (db_properties (w_db w))\<rparr> \<and> w_events v = w_events w"
  "properties_SoftDelete E i n w = (Inr u, v) \<Longrightarrow>
     w_db v = (w_db w)\<lparr>db_properties := tab_retire (\<lambda>p. pr_ID p = i \<and> pr_Version p = n)
                   (\<lambda>p. p\<lparr>pr_UpdatedAt := e_now E, pr_Version := pr_Version p + 1\<rparr>) (db_properties (w_db w))\<rparr>
     \<and> w_events v = w_events w"
  by (auto simp: properties_Update_def properties_SoftDelete_def tx_control checked_ok found_or_ok stmt_ok Let_def)

end
