(* ===== verification/PropertyCommands.thy ===== *)
theory PropertyCommands
  imports PropertyRepo
begin

text \<open>
  The property and room use cases (application/property): creating, updating and
  deleting a property, creating, updating and deleting a room, and putting a
  room into maintenance.
\<close>

section \<open>Errors (errors.go, shared/apperr)\<close>

definition ErrValidationNameRequired :: gerr where
  "ErrValidationNameRequired = apperr_New ''VALIDATION_NAME_REQUIRED'' 400 ''Name is required.''"
definition ErrValidationAddressRequired :: gerr where
  "ErrValidationAddressRequired = apperr_New ''VALIDATION_ADDRESS_REQUIRED'' 400 ''Address is required.''"
definition ErrValidationOwnerIDRequired :: gerr where
  "ErrValidationOwnerIDRequired = apperr_New ''VALIDATION_OWNER_ID_REQUIRED'' 400 ''Owner ID is required.''"
definition ErrValidationElectricityPriceInvalid :: gerr where
  "ErrValidationElectricityPriceInvalid =
     apperr_New ''VALIDATION_ELECTRICITY_PRICE_INVALID'' 400 ''Electricity unit price is invalid.''"
definition errForbiddenElectricityPriceUpdate :: gerr where
  "errForbiddenElectricityPriceUpdate = apperr_New ''FORBIDDEN_ELECTRICITY_PRICE_UPDATE'' 403
     ''Updating electricity price requires admin or organizer role.''"
definition errElectricityPriceMustBePositive :: gerr where
  "errElectricityPriceMustBePositive =
     apperr_New ''ELECTRICITY_PRICE_MUST_BE_POSITIVE'' 422 ''Electricity price must be positive.''"
definition errPropertyHasOccupiedRooms :: gerr where
  "errPropertyHasOccupiedRooms =
     apperr_New ''PROPERTY_HAS_OCCUPIED_ROOMS'' 422 ''Property has occupied rooms.''"
definition errValidationRoomNameRequired :: gerr where
  "errValidationRoomNameRequired =
     apperr_New ''VALIDATION_ROOM_NAME_REQUIRED'' 400 ''Room name is required.''"
definition errRoomIsOccupied :: gerr where
  "errRoomIsOccupied = apperr_New ''ROOM_IS_OCCUPIED'' 422 ''Room is occupied.''"
definition errRoomIsInMaintenance :: gerr where
  "errRoomIsInMaintenance = apperr_New ''ROOM_IS_IN_MAINTENANCE'' 422 ''Room is in maintenance.''"

definition bad_field :: "string \<Rightarrow> gerr" where
  "bad_field f = apperr_WithDetails ErrBadRequest (field_detail f)"

definition property_mapDomainError :: "gerr \<Rightarrow> gerr" where
  "property_mapDomainError e =
    (if errors_Is e ErrNameRequired then ErrValidationNameRequired
     else if errors_Is e ErrPropertyPublicNameRequired then bad_field ''property_public_name''
     else if errors_Is e ErrAddressRequired then ErrValidationAddressRequired
     else if errors_Is e ErrOwnerIDRequired then ErrValidationOwnerIDRequired
     else if errors_Is e ErrInvalidBillingCadence then bad_field ''default_electricity_billing_cadence''
     else if errors_Is e ErrForbiddenElectricityPriceUpdate then errForbiddenElectricityPriceUpdate
     else if errors_Is e ErrElectricityPriceMustBePositive then errElectricityPriceMustBePositive
     else if errors_Is e ErrRoomNameRequired then errValidationRoomNameRequired
     else if errors_Is e ErrRoomIsOccupied then errRoomIsOccupied
     else if errors_Is e ErrRoomIsInMaintenance then errRoomIsInMaintenance
     else if errors_Is e ErrBadRoomStatus then internal_cause e
     else e)"

text \<open>The case of the \<open>OccupiedRoomsError\<close>, which carries the ids.\<close>

definition occupied_rooms_error :: "string list \<Rightarrow> gerr" where
  "occupied_rooms_error ids =
     apperr_WithDetails errPropertyHasOccupiedRooms (JObj [(''occupied_room_ids'', JList (map JStr ids))])"

text \<open>The two lookup errors of the services.\<close>

definition property_lookup_error :: "gerr \<Rightarrow> gerr" where
  "property_lookup_error e =
     lookup_error ErrPropertyNotFound_app ErrPropertyNotFound (not_found_as ErrPropertyNotFound_app e)"

definition room_lookup_error :: "gerr \<Rightarrow> gerr" where
  "room_lookup_error e = lookup_error ErrRoomNotFound ErrRoomNotFound (not_found_as ErrRoomNotFound e)"

section \<open>Properties\<close>

record create_property_input =
  cpi_Name :: string
  cpi_PropertyPublicName :: "string option"
  cpi_Subtitle :: "string option"
  cpi_Address :: string
  cpi_ElectricityUnitPrice :: rat
  cpi_DefaultElectricityBillingCadence :: string
  cpi_OwnerID :: string
  cpi_ContactPhone :: "string option"
  cpi_ContactEmail :: "string option"
  cpi_Notes :: "string option"
  cpi_Facilities :: "jval option"

definition created_state :: "create_property_input \<Rightarrow> property_state" where
  "created_state input =
     \<lparr>ps_ID = '''', ps_Name = cpi_Name input,
      ps_PropertyPublicName = stringValue (cpi_PropertyPublicName input), ps_Subtitle = cpi_Subtitle input,
      ps_Address = cpi_Address input, ps_ElectricityUnitPrice = Some (cpi_ElectricityUnitPrice input),
      ps_DefaultElectricityBillingCadence = cpi_DefaultElectricityBillingCadence input,
      ps_OwnerID = cpi_OwnerID input, ps_ContactPhone = cpi_ContactPhone input,
      ps_ContactEmail = cpi_ContactEmail input, ps_Notes = cpi_Notes input,
      ps_Facilities = cpi_Facilities input, ps_Version = 0\<rparr>"

text \<open>A price that is not there is written as 0.\<close>

definition CreateProperty_body :: "env \<Rightarrow> property_state \<Rightarrow> property_row tx" where
  "CreateProperty_body E state =
     tx_bind (tx_map_err internal_cause (properties_Create E
         (state\<lparr>ps_ElectricityUnitPrice := Some (case ps_ElectricityUnitPrice state of None \<Rightarrow> 0 | Some p \<Rightarrow> p)\<rparr>)))
       (\<lambda>property.
     tx_bind (tx_map_err (\<lambda>e. apperr_WithDetails (internal_cause e)
           (JObj [(''property_id'', JStr (pr_ID property)), (''operation'', JStr ''create_property_account'')]))
         (CreatePropertyAccount E (pr_ID property))) (\<lambda>_.
     tx_bind (record_event (PropertyCreated (pr_ID property) (time_UTC (e_now E)))) (\<lambda>_.
     tx_return property)))"

definition CreateProperty_validate :: "create_property_input \<Rightarrow> gerr + property_state" where
  "CreateProperty_validate input =
    (if (case cpi_PropertyPublicName input of None \<Rightarrow> False | Some n \<Rightarrow> trim n = '''')
     then Inl (property_mapDomainError ErrPropertyPublicNameRequired)
     else case property_New (created_state input) of
            Inl e \<Rightarrow> Inl (if errors_Is e ErrElectricityPriceMustBePositive
                          then ErrValidationElectricityPriceInvalid else property_mapDomainError e)
          | Inr state \<Rightarrow> Inr state)"

definition CreateProperty_Execute ::
    "env \<Rightarrow> (event \<Rightarrow> unit tx) \<Rightarrow> create_property_input \<Rightarrow> property_row tx" where
  "CreateProperty_Execute E publish input =
     tx_bind (tx_lift (CreateProperty_validate input))
       (\<lambda>state. WithinTransaction publish (CreateProperty_body E state))"

definition stored_property :: "property_row \<Rightarrow> property_state" where
  "stored_property current =
     \<lparr>ps_ID = pr_ID current, ps_Name = pr_Name current,
      ps_PropertyPublicName = pr_PropertyPublicName current, ps_Subtitle = pr_Subtitle current,
      ps_Address = pr_Address current, ps_ElectricityUnitPrice = pr_ElectricityUnitPrice current,
      ps_DefaultElectricityBillingCadence = pr_DefaultElectricityBillingCadence current,
      ps_OwnerID = pr_OwnerID current, ps_ContactPhone = pr_ContactPhone current,
      ps_ContactEmail = pr_ContactEmail current, ps_Notes = pr_Notes current,
      ps_Facilities = pr_Facilities current, ps_Version = pr_Version current\<rparr>"

text \<open>The input of an update: the id and the patch, which has the actor's role.\<close>

definition no_property_change :: "property_update_input \<Rightarrow> bool" where
  "no_property_change input \<longleftrightarrow>
     pui_Name input = None \<and> pui_PropertyPublicName input = None \<and> pui_Subtitle input = None
     \<and> \<not> pui_ClearSubtitle input \<and> pui_Address input = None \<and> pui_ElectricityUnitPrice input = None
     \<and> pui_DefaultElectricityBillingCadence input = None \<and> pui_ContactPhone input = None
     \<and> \<not> pui_ClearContactPhone input \<and> pui_ContactEmail input = None \<and> \<not> pui_ClearContactEmail input
     \<and> pui_Notes input = None \<and> \<not> pui_ClearNotes input \<and> pui_Facilities input = None
     \<and> \<not> pui_ClearFacilities input"

definition UpdateProperty_body :: "env \<Rightarrow> string \<Rightarrow> property_update_input \<Rightarrow> property_row tx" where
  "UpdateProperty_body E propertyID input =
     tx_bind (tx_map_err property_lookup_error (properties_FindByID propertyID)) (\<lambda>current.
     tx_bind (tx_map_err internal_cause (tx_lift (property_Rehydrate (stored_property current)))) (\<lambda>aggregate.
     tx_bind (tx_map_err property_mapDomainError (tx_lift (property_Update aggregate input))) (\<lambda>state.
     tx_map_err property_lookup_error (properties_Update E state))))"

definition UpdateProperty_Execute ::
    "env \<Rightarrow> (event \<Rightarrow> unit tx) \<Rightarrow> string \<Rightarrow> property_update_input \<Rightarrow> property_row tx" where
  "UpdateProperty_Execute E publish i input =
    (let propertyID = trim i in
     tx_bind (tx_reject (propertyID = '''') (bad_field ''id'')) (\<lambda>_.
     tx_bind (tx_reject (trim (pui_ActorRole input) = '''') ErrUnauthorized) (\<lambda>_.
     tx_bind (tx_reject (no_property_change input) ErrBadRequest) (\<lambda>_.
     WithinTransaction publish (UpdateProperty_body E propertyID input)))))"

definition DeleteProperty_body :: "env \<Rightarrow> string \<Rightarrow> unit tx" where
  "DeleteProperty_body E propertyID =
     tx_bind (tx_map_err property_lookup_error (properties_FindByID propertyID)) (\<lambda>current.
     tx_bind (tx_map_err internal_cause (tx_lift (property_Rehydrate
         ((stored_property current)\<lparr>ps_PropertyPublicName := '''', ps_Subtitle := None, ps_ContactPhone := None,
            ps_ContactEmail := None, ps_Notes := None, ps_Facilities := None\<rparr>)))) (\<lambda>aggregate.
     tx_bind (tx_map_err internal_cause (ListOccupiedRoomIDs propertyID)) (\<lambda>occupiedRoomIDs.
     tx_bind (case EnsureDeletable occupiedRoomIDs of None \<Rightarrow> tx_return ()
              | Some ids \<Rightarrow> tx_throw (occupied_rooms_error ids)) (\<lambda>_.
     tx_map_err property_lookup_error (properties_SoftDelete E propertyID (pr_Version current))))))"

definition DeleteProperty_Execute :: "env \<Rightarrow> (event \<Rightarrow> unit tx) \<Rightarrow> string \<Rightarrow> unit tx" where
  "DeleteProperty_Execute E publish i =
    (let propertyID = trim i in
     tx_bind (tx_reject (propertyID = '''') (bad_field ''id'')) (\<lambda>_.
     WithinTransaction publish (DeleteProperty_body E propertyID)))"

section \<open>Rooms\<close>

record create_room_input =
  cri_PropertyID :: string
  cri_Name :: string
  cri_Size :: "rat option"
  cri_Floor :: "string option"
  cri_RoomType :: "string option"
  cri_Facilities :: "jval option"
  cri_DefaultRentAmount :: "int option"
  cri_Notes :: "string option"
  cri_Zone :: "string option"

definition created_room :: "string \<Rightarrow> create_room_input \<Rightarrow> room_state" where
  "created_room propertyID input =
     \<lparr>ms_ID = '''', ms_PropertyID = propertyID, ms_Name = cri_Name input, ms_Status = RoomStatusVacant,
      ms_Size = cri_Size input, ms_Floor = cri_Floor input, ms_RoomType = cri_RoomType input,
      ms_Facilities = cri_Facilities input, ms_DefaultRentAmount = cri_DefaultRentAmount input,
      ms_Notes = cri_Notes input, ms_Zone = cri_Zone input\<rparr>"

definition CreateRoom_body :: "env \<Rightarrow> string \<Rightarrow> room_state \<Rightarrow> room_row tx" where
  "CreateRoom_body E propertyID state =
     tx_bind (tx_map_err property_lookup_error (properties_FindByID propertyID)) (\<lambda>_.
     tx_map_err internal_cause (properties_CreateRoom E (state\<lparr>ms_PropertyID := propertyID\<rparr>)))"

definition CreateRoom_Execute :: "env \<Rightarrow> (event \<Rightarrow> unit tx) \<Rightarrow> create_room_input \<Rightarrow> room_row tx" where
  "CreateRoom_Execute E publish input =
    (let propertyID = trim (cri_PropertyID input) in
     tx_bind (tx_reject (propertyID = '''') (bad_field ''property_id'')) (\<lambda>_.
     tx_bind (tx_map_err property_mapDomainError (tx_lift (NewRoom (created_room propertyID input)))) (\<lambda>state.
     WithinTransaction publish (CreateRoom_body E propertyID state))))"

definition stored_room :: "room_row \<Rightarrow> room_state" where
  "stored_room current =
     \<lparr>ms_ID = rm_ID current, ms_PropertyID = rm_PropertyID current, ms_Name = rm_Name current,
      ms_Status = rm_Status current, ms_Size = rm_Size current, ms_Floor = rm_Floor current,
      ms_RoomType = rm_RoomType current, ms_Facilities = rm_Facilities current,
      ms_DefaultRentAmount = rm_DefaultRentAmount current, ms_Notes = rm_Notes current,
      ms_Zone = rm_Zone current\<rparr>"

text \<open>The room as the deletion and the maintenance use cases rehydrate it: its id,
  property, name and status only.\<close>

definition bare_room :: "room_row \<Rightarrow> room_state" where
  "bare_room current =
     \<lparr>ms_ID = rm_ID current, ms_PropertyID = rm_PropertyID current, ms_Name = rm_Name current,
      ms_Status = rm_Status current, ms_Size = None, ms_Floor = None, ms_RoomType = None,
      ms_Facilities = None, ms_DefaultRentAmount = None, ms_Notes = None, ms_Zone = None\<rparr>"

definition no_room_change :: "room_update_input \<Rightarrow> bool" where
  "no_room_change input \<longleftrightarrow>
     mui_Name input = None \<and> mui_Size input = None \<and> \<not> mui_ClearSize input \<and> mui_Floor input = None
     \<and> \<not> mui_ClearFloor input \<and> mui_RoomType input = None \<and> \<not> mui_ClearRoomType input
     \<and> mui_Facilities input = None \<and> \<not> mui_ClearFacilities input \<and> mui_DefaultRentAmount input = None
     \<and> \<not> mui_ClearDefaultRent input \<and> mui_Notes input = None \<and> \<not> mui_ClearNotes input
     \<and> mui_Zone input = None \<and> \<not> mui_ClearZone input"

definition room_params :: "room_state \<Rightarrow> update_room_params" where
  "room_params state =
     \<lparr>urp_ID = ms_ID state, urp_Name = ms_Name state, urp_Status = None, urp_Size = ms_Size state,
      urp_Floor = ms_Floor state, urp_RoomType = ms_RoomType state, urp_Facilities = ms_Facilities state,
      urp_DefaultRentAmount = ms_DefaultRentAmount state, urp_Notes = ms_Notes state,
      urp_Zone = ms_Zone state\<rparr>"

definition UpdateRoom_body :: "env \<Rightarrow> string \<Rightarrow> room_update_input \<Rightarrow> room_row tx" where
  "UpdateRoom_body E roomID input =
     tx_bind (tx_map_err room_lookup_error (properties_FindRoomByID roomID)) (\<lambda>current.
     tx_bind (tx_map_err internal_cause (tx_lift (RehydrateRoom (stored_room current)))) (\<lambda>aggregate.
     tx_bind (tx_map_err property_mapDomainError (tx_lift (room_UpdateRoom aggregate input))) (\<lambda>state.
     tx_map_err room_lookup_error (properties_UpdateRoom E (room_params state)))))"

definition UpdateRoom_Execute ::
    "env \<Rightarrow> (event \<Rightarrow> unit tx) \<Rightarrow> string \<Rightarrow> room_update_input \<Rightarrow> room_row tx" where
  "UpdateRoom_Execute E publish i input =
    (let roomID = trim i in
     tx_bind (tx_reject (roomID = '''') (bad_field ''id'')) (\<lambda>_.
     tx_bind (tx_reject (no_room_change input) ErrBadRequest) (\<lambda>_.
     WithinTransaction publish (UpdateRoom_body E roomID input))))"

definition DeleteRoom_body :: "env \<Rightarrow> string \<Rightarrow> unit tx" where
  "DeleteRoom_body E roomID =
     tx_bind (tx_map_err room_lookup_error (properties_FindRoomByID roomID)) (\<lambda>current.
     tx_bind (tx_map_err internal_cause (tx_lift (RehydrateRoom (bare_room current)))) (\<lambda>aggregate.
     tx_bind (tx_map_err property_mapDomainError (tx_lift (EnsureRoomDeletable aggregate))) (\<lambda>_.
     tx_map_err room_lookup_error (properties_SoftDeleteRoom E (rm_ID current)))))"

definition DeleteRoom_Execute :: "env \<Rightarrow> (event \<Rightarrow> unit tx) \<Rightarrow> string \<Rightarrow> unit tx" where
  "DeleteRoom_Execute E publish i =
    (let roomID = trim i in
     tx_bind (tx_reject (roomID = '''') (bad_field ''id'')) (\<lambda>_.
     WithinTransaction publish (DeleteRoom_body E roomID)))"

section \<open>Maintenance\<close>

record set_room_maintenance_input =
  srm_RoomID :: string
  srm_OperatorID :: string
  srm_Title :: string
  srm_Description :: string

text \<open>The write sets only three fields of its parameters; the other pointers are nil.\<close>

definition maintenance_params :: "room_row \<Rightarrow> room_state \<Rightarrow> update_room_params" where
  "maintenance_params current state =
     \<lparr>urp_ID = rm_ID current, urp_Name = ms_Name state, urp_Status = Some (ms_Status state),
      urp_Size = None, urp_Floor = None, urp_RoomType = None, urp_Facilities = None,
      urp_DefaultRentAmount = None, urp_Notes = None, urp_Zone = None\<rparr>"

text \<open>The transaction after its first query, which takes no lock.\<close>

definition maintenance_writes ::
    "env \<Rightarrow> string \<Rightarrow> string \<Rightarrow> string \<Rightarrow> room_row \<Rightarrow> (room_row \<times> repair_row) tx" where
  "maintenance_writes E operatorID title description current =
     tx_bind (tx_map_err internal_cause (tx_lift (RehydrateRoom (bare_room current)))) (\<lambda>aggregate.
     tx_bind (tx_map_err property_mapDomainError (tx_lift (EnterMaintenance aggregate))) (\<lambda>state.
     tx_bind (tx_map_err internal_cause (CreateRepairRequest E
         \<lparr>crq_PropertyID = rm_PropertyID current, crq_RoomID = rm_ID current, crq_SubmittedBy = operatorID,
          crq_Title = title, crq_Description = description\<rparr>)) (\<lambda>repairRequest.
     tx_bind (tx_map_err room_lookup_error (properties_UpdateRoom E (maintenance_params current state)))
       (\<lambda>room.
     tx_bind (record_event (RoomSetToMaintenance (rm_ID current) (rm_PropertyID current) operatorID
         (time_UTC (e_now E)))) (\<lambda>_.
     tx_return (room, repairRequest))))))"

definition SetRoomMaintenance_body ::
    "env \<Rightarrow> string \<Rightarrow> string \<Rightarrow> string \<Rightarrow> string \<Rightarrow> (room_row \<times> repair_row) tx" where
  "SetRoomMaintenance_body E roomID operatorID title description =
     tx_bind (tx_map_err room_lookup_error (properties_FindRoomByID roomID))
       (maintenance_writes E operatorID title description)"

definition SetRoomMaintenance_Execute ::
    "env \<Rightarrow> (event \<Rightarrow> unit tx) \<Rightarrow> set_room_maintenance_input \<Rightarrow> (room_row \<times> repair_row) tx" where
  "SetRoomMaintenance_Execute E publish input =
    (let roomID = trim (srm_RoomID input); operatorID = trim (srm_OperatorID input);
         title = trim (srm_Title input); description = trim (srm_Description input) in
     tx_bind (tx_reject (roomID = '''') (bad_field ''id'')) (\<lambda>_.
     tx_bind (tx_reject (operatorID = '''') ErrUnauthorized) (\<lambda>_.
     tx_bind (tx_reject (title = '''') (bad_field ''title'')) (\<lambda>_.
     tx_bind (tx_reject (description = '''') (bad_field ''description'')) (\<lambda>_.
     WithinTransaction publish (SetRoomMaintenance_body E roomID operatorID title description))))))"

section \<open>Commands without subscribers\<close>

text \<open>A transaction of the server whose body records only events nobody subscribes
  to: it fails and changes nothing, or leaves the database as its body did.\<close>

definition unheard :: "event \<Rightarrow> bool" where
  "unheard e \<longleftrightarrow> type_of_event e \<notin> {T_LeaseCreated, T_LeaseTerminated}"

lemma publish_unheard: "unheard e \<Longrightarrow> server_publish E e = tx_return ()"
  by (auto simp: server_publish_def bus_Publish_def registerLeaseEventSubscribers_def bus_Subscribe_def
      bus_New_def Let_def unheard_def)

lemma publish_all_unheard: "\<forall>e \<in> set es. unheard e \<Longrightarrow> publish_all (server_publish E) es = tx_return ()"
  by (induction es) (auto simp: publish_unheard tx_bind_def tx_map_err_def tx_return_def fun_eq_iff)

lemma unheard_run:
  assumes "WithinTransaction (server_publish E) m w = (res, v)"
    and "\<And>u x u'. w_db u = w_db w \<Longrightarrow> w_fresh u = w_fresh w \<Longrightarrow> w_events u = [] \<Longrightarrow> m u = (Inr x, u')
       \<Longrightarrow> (\<forall>e \<in> set (w_events u'). unheard e)"
  shows "case res of Inl e \<Rightarrow> w_db v = w_db w
       | Inr x \<Rightarrow> \<exists>u u'. w_db u = w_db w \<and> w_fresh u = w_fresh w \<and> w_events u = [] \<and> m u = (Inr x, u')
                     \<and> w_db v = w_db u'"
proof -
  let ?u = "(tick w)\<lparr>w_events := []\<rparr>"
  obtain r u where u: "m ?u = (r, u)" by force
  have "publish_all (server_publish E) (w_events u) = tx_return ()" if "r = Inr x" for x
    using publish_all_unheard assms(2) [of ?u x u] u that by simp
  then consider (failed) e where "res = Inl e" "w_db v = w_db w"
    | (finished) x where "res = Inr x" "r = Inr x" "w_db v = w_db u"
    using assms(1) u by (auto simp: WithinTransaction_def tx_return_def split: if_splits sum.splits prod.splits)
  then show ?thesis
  proof cases
    case finished
    have "w_db ?u = w_db w \<and> w_fresh ?u = w_fresh w \<and> w_events ?u = [] \<and> m ?u = (Inr x, u) \<and> w_db v = w_db u"
      using u finished by simp
    then show ?thesis unfolding finished(1) sum.case by blast
  qed simp
qed

end
