(* ===== verification/RepairDomain.thy ===== *)
theory RepairDomain
  imports GoTime AppErrors
begin

text \<open>
  The repair request aggregate (domain/repair): its state, construction,
  rehydration, the five operations, and the life cycle they implement.
\<close>

section \<open>State\<close>

definition RepairStatusSubmitted :: string where "RepairStatusSubmitted = ''submitted''"
definition RepairStatusAssigned :: string where "RepairStatusAssigned = ''assigned''"
definition RepairStatusInProgress :: string where "RepairStatusInProgress = ''in_progress''"
definition RepairStatusCompleted :: string where "RepairStatusCompleted = ''completed''"
definition RepairStatusCancelled :: string where "RepairStatusCancelled = ''cancelled''"

lemmas repair_statuses = RepairStatusSubmitted_def RepairStatusAssigned_def RepairStatusInProgress_def
  RepairStatusCompleted_def RepairStatusCancelled_def

definition ErrTitleRequired :: gerr where
  "ErrTitleRequired = Sentinel ''repair.ErrTitleRequired''"
definition ErrInvalidStatus :: gerr where
  "ErrInvalidStatus = Sentinel ''repair.ErrInvalidStatus''"
definition ErrInvalidStatusForAssign :: gerr where
  "ErrInvalidStatusForAssign = Sentinel ''repair.ErrInvalidStatusForAssign''"
definition ErrInvalidStatusForProgress :: gerr where
  "ErrInvalidStatusForProgress = Sentinel ''repair.ErrInvalidStatusForProgress''"
definition ErrInvalidStatusForComplete :: gerr where
  "ErrInvalidStatusForComplete = Sentinel ''repair.ErrInvalidStatusForComplete''"
definition ErrRepairAlreadyCompleted :: gerr where
  "ErrRepairAlreadyCompleted = Sentinel ''repair.ErrRepairAlreadyCompleted''"
definition ErrInvalidStatusForCancel :: gerr where
  "ErrInvalidStatusForCancel = Sentinel ''repair.ErrInvalidStatusForCancel''"

lemmas repair_errors = ErrTitleRequired_def ErrInvalidStatus_def ErrInvalidStatusForAssign_def
  ErrInvalidStatusForProgress_def ErrInvalidStatusForComplete_def ErrRepairAlreadyCompleted_def
  ErrInvalidStatusForCancel_def

record repair_state =
  rp_ID :: string
  rp_PropertyID :: string
  rp_RoomID :: string
  rp_SubmittedBy :: string
  rp_AssignedTo :: "string option"
  rp_Title :: string
  rp_Description :: string
  rp_Status :: string
  rp_SubmittedAt :: gtime
  rp_AssignedAt :: "gtime option"
  rp_CompletedAt :: "gtime option"
  rp_CancelReason :: "string option"

record repair_update_input =
  rui_Title :: "string option"
  rui_Description :: "string option"

text \<open>A blank optional string is no string.\<close>

definition trimOptional :: "string option \<Rightarrow> string option" where
  "trimOptional value =
     (case value of None \<Rightarrow> None | Some s \<Rightarrow> if trim s = '''' then None else Some (trim s))"

definition repair_isValidStatus :: "string \<Rightarrow> bool" where
  "repair_isValidStatus status \<longleftrightarrow>
     status \<in> {RepairStatusSubmitted, RepairStatusAssigned, RepairStatusInProgress,
       RepairStatusCompleted, RepairStatusCancelled}"

definition repair_normalizeState :: "repair_state \<Rightarrow> bool \<Rightarrow> gerr + repair_state" where
  "repair_normalizeState state create =
    (let state = state\<lparr>rp_ID := trim (rp_ID state), rp_PropertyID := trim (rp_PropertyID state),
           rp_RoomID := trim (rp_RoomID state), rp_SubmittedBy := trim (rp_SubmittedBy state),
           rp_Title := trim (rp_Title state), rp_Description := trim (rp_Description state),
           rp_Status := trim (rp_Status state)\<rparr>
     in if rp_Title state = '''' then Inl ErrTitleRequired
        else let state = (if rp_Status state = '''' \<and> create then state\<lparr>rp_Status := RepairStatusSubmitted\<rparr>
                          else state)
             in if \<not> repair_isValidStatus (rp_Status state) then Inl ErrInvalidStatus
                else Inr (state\<lparr>rp_AssignedTo := trimOptional (rp_AssignedTo state),
                            rp_CancelReason := trimOptional (rp_CancelReason state)\<rparr>))"

definition repair_New :: "repair_state \<Rightarrow> gerr + repair_state" where
  "repair_New state = repair_normalizeState state True"

definition repair_Rehydrate :: "repair_state \<Rightarrow> gerr + repair_state" where
  "repair_Rehydrate state = repair_normalizeState state False"

section \<open>Operations\<close>

definition repair_Update :: "repair_state \<Rightarrow> repair_update_input \<Rightarrow> gerr + repair_state" where
  "repair_Update a input =
    (let described = (\<lambda>a. case rui_Description input of None \<Rightarrow> a
                            | Some d \<Rightarrow> a\<lparr>rp_Description := trim d\<rparr>)
     in case rui_Title input of
          None \<Rightarrow> Inr (described a)
        | Some t \<Rightarrow> if trim t = '''' then Inl ErrTitleRequired else Inr (described (a\<lparr>rp_Title := trim t\<rparr>)))"

definition repair_Assign :: "repair_state \<Rightarrow> string \<Rightarrow> gtime \<Rightarrow> gerr + repair_state" where
  "repair_Assign a assignedTo assignedAt =
     (if rp_Status a \<noteq> RepairStatusSubmitted then Inl ErrInvalidStatusForAssign
      else Inr (a\<lparr>rp_AssignedTo := Some (trim assignedTo), rp_AssignedAt := Some assignedAt,
                  rp_Status := RepairStatusAssigned\<rparr>))"

definition repair_Progress :: "repair_state \<Rightarrow> gerr + repair_state" where
  "repair_Progress a =
     (if rp_Status a \<noteq> RepairStatusAssigned then Inl ErrInvalidStatusForProgress
      else Inr (a\<lparr>rp_Status := RepairStatusInProgress\<rparr>))"

definition repair_Complete :: "repair_state \<Rightarrow> gtime \<Rightarrow> gerr + repair_state" where
  "repair_Complete a completedAt =
     (if rp_Status a \<noteq> RepairStatusInProgress then Inl ErrInvalidStatusForComplete
      else Inr (a\<lparr>rp_CompletedAt := Some completedAt, rp_Status := RepairStatusCompleted\<rparr>))"

definition repair_Cancel :: "repair_state \<Rightarrow> string option \<Rightarrow> gerr + repair_state" where
  "repair_Cancel a reason =
     (if rp_Status a = RepairStatusCompleted then Inl ErrRepairAlreadyCompleted
      else if rp_Status a \<in> {RepairStatusSubmitted, RepairStatusAssigned, RepairStatusInProgress}
      then Inr (a\<lparr>rp_CancelReason := trimOptional reason, rp_Status := RepairStatusCancelled\<rparr>)
      else Inl ErrInvalidStatusForCancel)"

section \<open>Reachable requests\<close>

datatype repair_op =
    OpUpdate repair_update_input
  | OpAssign string gtime
  | OpProgress
  | OpComplete gtime
  | OpCancel "string option"

fun repair_apply :: "repair_op \<Rightarrow> repair_state \<Rightarrow> gerr + repair_state" where
  "repair_apply (OpUpdate i) a = repair_Update a i"
| "repair_apply (OpAssign u t) a = repair_Assign a u t"
| "repair_apply OpProgress a = repair_Progress a"
| "repair_apply (OpComplete t) a = repair_Complete a t"
| "repair_apply (OpCancel r) a = repair_Cancel a r"

text \<open>The history of a request: created as submitted with nobody assigned, then
  loaded, changed and stored by one operation after another.  The assignee is
  never blank: the callers check it.\<close>

inductive repair_reachable :: "repair_state \<Rightarrow> bool" where
  created: "repair_New s = Inr a \<Longrightarrow> rp_Status s = '''' \<Longrightarrow> rp_AssignedTo s = None \<Longrightarrow> rp_AssignedAt s = None \<Longrightarrow>
     rp_CompletedAt s = None \<Longrightarrow> rp_CancelReason s = None \<Longrightarrow> repair_reachable a"
| changed: "repair_reachable s \<Longrightarrow> repair_Rehydrate s = Inr a \<Longrightarrow> repair_apply op a = Inr b \<Longrightarrow>
     (\<forall>u t. op = OpAssign u t \<longrightarrow> trim u \<noteq> '''') \<Longrightarrow> repair_reachable b"

definition trimmed :: "string option \<Rightarrow> bool" where
  "trimmed x \<longleftrightarrow> trimOptional x = x"

text \<open>A well-formed request: the fields a status stands for are there, the others
  are not, and everything is stored trimmed.\<close>

definition repair_wf :: "repair_state \<Rightarrow> bool" where
  "repair_wf a \<longleftrightarrow>
     repair_isValidStatus (rp_Status a) \<and> rp_Title a \<noteq> '''' \<and> trim (rp_Title a) = rp_Title a
     \<and> trim (rp_Description a) = rp_Description a
     \<and> trim (rp_ID a) = rp_ID a \<and> trim (rp_PropertyID a) = rp_PropertyID a
     \<and> trim (rp_RoomID a) = rp_RoomID a \<and> trim (rp_SubmittedBy a) = rp_SubmittedBy a
     \<and> trimmed (rp_AssignedTo a) \<and> trimmed (rp_CancelReason a)
     \<and> (rp_AssignedTo a \<noteq> None \<longleftrightarrow> rp_AssignedAt a \<noteq> None)
     \<and> (rp_Status a = RepairStatusSubmitted \<longrightarrow> rp_AssignedTo a = None)
     \<and> (rp_Status a \<in> {RepairStatusAssigned, RepairStatusInProgress, RepairStatusCompleted} \<longrightarrow>
          rp_AssignedTo a \<noteq> None)
     \<and> (rp_CompletedAt a \<noteq> None \<longleftrightarrow> rp_Status a = RepairStatusCompleted)
     \<and> (rp_CancelReason a \<noteq> None \<longrightarrow> rp_Status a = RepairStatusCancelled)"

lemma trimmed_trimOptional [simp]: "trimmed (trimOptional x)"
  by (auto simp: trimmed_def trimOptional_def split: option.splits)

lemma trimmed_None [simp]: "trimmed None" "trimOptional None = None"
  by (simp_all add: trimmed_def trimOptional_def)

lemma trimmed_Some_trim: "trim u \<noteq> '''' \<Longrightarrow> trimmed (Some (trim u))"
  by (simp add: trimmed_def trimOptional_def)

lemma valid_status_trim [simp]: "repair_isValidStatus st \<Longrightarrow> trim st = st"
proof -
  have "trim ''submitted'' = ''submitted''" "trim ''assigned'' = ''assigned''"
    "trim ''in_progress'' = ''in_progress''" "trim ''completed'' = ''completed''"
    "trim ''cancelled'' = ''cancelled''"
    by code_simp+
  then show "repair_isValidStatus st \<Longrightarrow> trim st = st"
    by (auto simp: repair_isValidStatus_def repair_statuses)
qed

lemma valid_statuses [simp]:
  "repair_isValidStatus RepairStatusSubmitted" "repair_isValidStatus RepairStatusAssigned"
  "repair_isValidStatus RepairStatusInProgress" "repair_isValidStatus RepairStatusCompleted"
  "repair_isValidStatus RepairStatusCancelled"
  by (simp_all add: repair_isValidStatus_def)

lemma statuses_differ:
  "RepairStatusSubmitted \<noteq> RepairStatusAssigned" "RepairStatusSubmitted \<noteq> RepairStatusInProgress"
  "RepairStatusSubmitted \<noteq> RepairStatusCompleted" "RepairStatusSubmitted \<noteq> RepairStatusCancelled"
  "RepairStatusAssigned \<noteq> RepairStatusInProgress" "RepairStatusAssigned \<noteq> RepairStatusCompleted"
  "RepairStatusAssigned \<noteq> RepairStatusCancelled" "RepairStatusInProgress \<noteq> RepairStatusCompleted"
  "RepairStatusInProgress \<noteq> RepairStatusCancelled" "RepairStatusCompleted \<noteq> RepairStatusCancelled"
  by (simp_all add: repair_statuses)

lemmas statuses_distinct [simp] = statuses_differ statuses_differ [symmetric]

lemma wf_rehydrate: "repair_wf a \<Longrightarrow> repair_Rehydrate a = Inr a"
  unfolding repair_wf_def trimmed_def
  by (simp add: repair_Rehydrate_def repair_normalizeState_def Let_def)

lemma repair_New_wf:
  assumes "repair_New s = Inr a" "rp_Status s = ''''" "rp_AssignedTo s = None" "rp_AssignedAt s = None"
    "rp_CompletedAt s = None" "rp_CancelReason s = None"
  shows "repair_wf a \<and> rp_Status a = RepairStatusSubmitted"
proof -
  have "trim ''''  = ''''" by code_simp
  then show ?thesis
    using assms unfolding repair_wf_def
    by (auto simp: repair_New_def repair_normalizeState_def Let_def split: if_splits)
qed

text \<open>The abstract life cycle: which status an operation leads to, if it is allowed.\<close>

fun life_next :: "string \<Rightarrow> repair_op \<Rightarrow> string option" where
  "life_next st (OpUpdate i) = Some st"
| "life_next st (OpAssign u t) = (if st = RepairStatusSubmitted then Some RepairStatusAssigned else None)"
| "life_next st OpProgress = (if st = RepairStatusAssigned then Some RepairStatusInProgress else None)"
| "life_next st (OpComplete t) = (if st = RepairStatusInProgress then Some RepairStatusCompleted else None)"
| "life_next st (OpCancel r) =
     (if st \<in> {RepairStatusSubmitted, RepairStatusAssigned, RepairStatusInProgress}
      then Some RepairStatusCancelled else None)"

fun op_ok :: "repair_op \<Rightarrow> bool" where
  "op_ok (OpUpdate i) \<longleftrightarrow> (case rui_Title i of None \<Rightarrow> True | Some t \<Rightarrow> trim t \<noteq> '''')"
| "op_ok (OpAssign u t) \<longleftrightarrow> trim u \<noteq> ''''"
| "op_ok op \<longleftrightarrow> True"

lemma repair_apply_life:
  assumes "repair_wf a" "op_ok op"
  shows "case life_next (rp_Status a) op of
      None \<Rightarrow> \<exists>e. repair_apply op a = Inl e
    | Some st \<Rightarrow> \<exists>b. repair_apply op a = Inr b \<and> rp_Status b = st \<and> repair_wf b"
proof (cases op)
  case (OpUpdate i)
  have "\<exists>b. repair_Update a i = Inr b \<and> rp_Status b = rp_Status a \<and> repair_wf b"
    using assms OpUpdate unfolding repair_wf_def
    by (cases "rui_Title i"; cases "rui_Description i") (simp_all add: repair_Update_def Let_def)
  then show ?thesis using OpUpdate by simp
next
  case (OpAssign u t)
  let ?b = "a\<lparr>rp_AssignedTo := Some (trim u), rp_AssignedAt := Some t, rp_Status := RepairStatusAssigned\<rparr>"
  have "rp_Status a = RepairStatusSubmitted \<Longrightarrow> repair_wf ?b"
    using assms OpAssign unfolding repair_wf_def by (simp add: trimmed_Some_trim)
  then show ?thesis using OpAssign by (simp add: repair_Assign_def)
next
  case OpProgress
  have "rp_Status a = RepairStatusAssigned \<Longrightarrow> repair_wf (a\<lparr>rp_Status := RepairStatusInProgress\<rparr>)"
    using assms(1) unfolding repair_wf_def by auto
  then show ?thesis using OpProgress by (simp add: repair_Progress_def)
next
  case (OpComplete t)
  have "rp_Status a = RepairStatusInProgress \<Longrightarrow>
      repair_wf (a\<lparr>rp_CompletedAt := Some t, rp_Status := RepairStatusCompleted\<rparr>)"
    using assms(1) unfolding repair_wf_def by auto
  then show ?thesis using OpComplete by (simp add: repair_Complete_def)
next
  case (OpCancel r)
  have "rp_Status a \<noteq> RepairStatusCompleted \<Longrightarrow>
      repair_wf (a\<lparr>rp_CancelReason := trimOptional r, rp_Status := RepairStatusCancelled\<rparr>)"
    using assms(1) unfolding repair_wf_def by auto
  then show ?thesis using OpCancel by (auto simp: repair_Cancel_def)
qed

lemma repair_apply_op_ok: "repair_apply op a = Inr b \<Longrightarrow> (\<forall>u t. op = OpAssign u t \<longrightarrow> trim u \<noteq> '''') \<Longrightarrow> op_ok op"
  by (cases op) (auto simp: repair_Update_def Let_def split: option.splits if_splits)

lemma repair_reachable_wf: "repair_reachable a \<Longrightarrow> repair_wf a"
proof (induction rule: repair_reachable.induct)
  case (created s a)
  then show ?case using repair_New_wf by blast
next
  case (changed s a op b)
  have "a = s" using wf_rehydrate [OF changed.IH] changed.hyps(2) by simp
  then show ?case
    using repair_apply_life [OF changed.IH, of op] repair_apply_op_ok changed.hyps
    by (auto split: option.splits)
qed

text \<open>
  C31.  A repair request is always well formed, and the aggregate implements the
  life cycle: a request loaded from storage is the one that was stored, an
  operation the life cycle allows succeeds and leaves the status the life cycle
  prescribes and again a well-formed request, and every other one is refused.
\<close>

theorem repair_refines_life_cycle:
  assumes "repair_reachable a"
  shows "repair_wf a \<and> repair_Rehydrate a = Inr a
     \<and> (\<forall>op. op_ok op \<longrightarrow> (case life_next (rp_Status a) op of
           None \<Rightarrow> \<exists>e. repair_apply op a = Inl e
         | Some st \<Rightarrow> \<exists>b. repair_apply op a = Inr b \<and> rp_Status b = st \<and> repair_wf b))"
  using repair_reachable_wf [OF assms] wf_rehydrate repair_apply_life by blast

definition sample_repair :: repair_state where
  "sample_repair = \<lparr>rp_ID = '''', rp_PropertyID = ''p1'', rp_RoomID = ''r1'', rp_SubmittedBy = ''u1'',
     rp_AssignedTo = None, rp_Title = '' leak '', rp_Description = ''tap'', rp_Status = '''',
     rp_SubmittedAt = zero_time, rp_AssignedAt = None, rp_CompletedAt = None, rp_CancelReason = None\<rparr>"

lemma repair_refines_life_cycle_witness:
  "\<exists>b. repair_apply (OpAssign '' u2 '' zero_time) (projr (repair_New sample_repair)) = Inr b
     \<and> rp_Status b = RepairStatusAssigned
     \<and> (\<exists>e. repair_apply OpProgress (projr (repair_New sample_repair)) = Inl e)"
proof -
  have n: "repair_New sample_repair = Inr (projr (repair_New sample_repair))"
    "rp_Status (projr (repair_New sample_repair)) = RepairStatusSubmitted"
    "trim '' u2 '' \<noteq> ''''" by code_simp+
  have "repair_reachable (projr (repair_New sample_repair))"
    by (rule repair_reachable.created [OF n(1)]) (simp_all add: sample_repair_def)
  note life = conjunct2 [OF conjunct2 [OF repair_refines_life_cycle [OF this]]]
  show ?thesis
    using life [rule_format, of "OpAssign '' u2 '' zero_time"] life [rule_format, of OpProgress] n(2,3) by auto
qed

end
