(* ===== verification/RepairCommands.thy ===== *)
theory RepairCommands
  imports PropertyCommands RepairDomain
begin

text \<open>
  The repair use cases (application/repair) on the repair repository
  (platform/database/repair): create, update, delete, assign, progress,
  complete and cancel, with the room going back to vacant when its last active
  request ends.  The server always passes a transaction runner, so the checks
  that it is not nil are left out.
\<close>

section \<open>The repository\<close>

definition ErrRepairRequestNotFound_app :: gerr where
  "ErrRepairRequestNotFound_app = Sentinel ''apprepair.ErrRepairRequestNotFound''"
definition ErrRoomNotFound_repair :: gerr where
  "ErrRoomNotFound_repair = Sentinel ''apprepair.ErrRoomNotFound''"
definition ErrUserNotFound_repair :: gerr where
  "ErrUserNotFound_repair = Sentinel ''apprepair.ErrUserNotFound''"

text \<open>\<open>RepairRequest\<close>: the row with the labels of what it refers to.\<close>

record repair_request =
  rq_row :: repair_row
  rq_PropertyLabel :: string
  rq_RoomLabel :: string
  rq_SubmittedByLabel :: string
  rq_AssignedToLabel :: "string option"

text \<open>\<open>selectRepairRequestColumns\<close> with its left joins, which also find deleted rows;
  \<open>returningRepairRequestColumns\<close> labels everything with its id.\<close>

definition user_label :: "string \<Rightarrow> db \<Rightarrow> string" where
  "user_label i d =
     (case find (\<lambda>u. us_ID u = i) (all_rows (db_users d)) of
        None \<Rightarrow> i
      | Some u \<Rightarrow> (case us_Name u of None \<Rightarrow> us_Email u | Some n \<Rightarrow> n))"

definition selected :: "db \<Rightarrow> repair_row \<Rightarrow> repair_request" where
  "selected d r =
     \<lparr>rq_row = r,
      rq_PropertyLabel = (case find (\<lambda>p. pr_ID p = rr_PropertyID r) (all_rows (db_properties d)) of
         None \<Rightarrow> rr_PropertyID r | Some p \<Rightarrow> pr_Name p),
      rq_RoomLabel = (case find (\<lambda>m. rm_ID m = rr_RoomID r) (all_rows (db_rooms d)) of
         None \<Rightarrow> rr_RoomID r | Some m \<Rightarrow> rm_Name m),
      rq_SubmittedByLabel = user_label (rr_SubmittedBy r) d,
      rq_AssignedToLabel = map_option (\<lambda>u. user_label u d) (rr_AssignedTo r)\<rparr>"

definition returned :: "repair_row \<Rightarrow> repair_request" where
  "returned r = \<lparr>rq_row = r, rq_PropertyLabel = rr_PropertyID r, rq_RoomLabel = rr_RoomID r,
     rq_SubmittedByLabel = rr_SubmittedBy r, rq_AssignedToLabel = rr_AssignedTo r\<rparr>"

definition repair_by_id :: "string \<Rightarrow> db \<Rightarrow> repair_row option" where
  "repair_by_id i d = find (\<lambda>r. rr_ID r = i) (live (db_repairs d))"

definition repair_FindByID :: "string \<Rightarrow> repair_request tx" where
  "repair_FindByID i =
     tx_bind (stmt ''query repair request by id'' (\<lambda>_ d. (map_option (selected d) (repair_by_id i d), d)))
       (\<lambda>r. found_or ErrRepairRequestNotFound_app r)"

definition repair_FindByIDForUpdate :: "string \<Rightarrow> repair_request tx" where
  "repair_FindByIDForUpdate i =
     tx_bind (stmt ''query repair request by id for update''
         (\<lambda>_ d. (map_option (selected d) (repair_by_id i d), d)))
       (\<lambda>r. found_or ErrRepairRequestNotFound_app r)"

text \<open>The id of the room and of its property.\<close>

definition repair_FindRoomByID :: "string \<Rightarrow> (string \<times> string) tx" where
  "repair_FindRoomByID i =
     tx_bind (stmt ''query repair room by id''
         (\<lambda>_ d. (map_option (\<lambda>r. (rm_ID r, rm_PropertyID r)) (find_room i d), d)))
       (\<lambda>r. found_or ErrRoomNotFound_repair r)"

definition repair_FindUserByID :: "string \<Rightarrow> user_row tx" where
  "repair_FindUserByID i =
     tx_bind (stmt ''query repair assignee by id''
         (\<lambda>_ d. (find (\<lambda>u. us_ID u = i) (live (db_users d)), d)))
       (\<lambda>r. found_or ErrUserNotFound_repair r)"

definition repair_Create :: "env \<Rightarrow> create_repair_params \<Rightarrow> repair_request tx" where
  "repair_Create E params =
     stmt ''create repair request'' (\<lambda>n d.
       (returned (new_repair E n params),
        d\<lparr>db_repairs := tab_insert (new_repair E n params) (db_repairs d)\<rparr>))"

text \<open>\<open>UPDATE repair_requests SET f, updated_at = now() WHERE id = $1 AND deleted_at IS
  NULL RETURNING ...\<close>: the shape of the five updates (with \<open>scanUpdated\<close>).\<close>

definition update_repair :: "string \<Rightarrow> env \<Rightarrow> string \<Rightarrow> (repair_row \<Rightarrow> repair_row) \<Rightarrow> repair_request tx" where
  "update_repair ctx E i f =
     tx_bind (stmt ctx (\<lambda>_ d.
         let g = (\<lambda>r. (f r)\<lparr>rr_UpdatedAt := e_now E\<rparr>)
         in (map_option (\<lambda>r. returned (g r)) (repair_by_id i d),
             d\<lparr>db_repairs := tab_update (\<lambda>r. rr_ID r = i) g (db_repairs d)\<rparr>)))
       (\<lambda>r. found_or ErrRepairRequestNotFound_app r)"

definition repo_Update :: "env \<Rightarrow> string \<Rightarrow> string \<Rightarrow> string \<Rightarrow> repair_request tx" where
  "repo_Update E i title description =
     update_repair ''update repair request'' E i (\<lambda>r. r\<lparr>rr_Title := title, rr_Description := description\<rparr>)"

definition repo_Assign :: "env \<Rightarrow> string \<Rightarrow> string \<Rightarrow> gtime \<Rightarrow> repair_request tx" where
  "repo_Assign E i assignedTo assignedAt =
     update_repair ''assign repair request'' E i
       (\<lambda>r. r\<lparr>rr_Status := ''assigned'', rr_AssignedTo := Some assignedTo, rr_AssignedAt := Some assignedAt\<rparr>)"

definition repo_Progress :: "env \<Rightarrow> string \<Rightarrow> repair_request tx" where
  "repo_Progress E i =
     update_repair ''progress repair request'' E i (\<lambda>r. r\<lparr>rr_Status := ''in_progress''\<rparr>)"

definition repo_Complete :: "env \<Rightarrow> string \<Rightarrow> gtime \<Rightarrow> repair_request tx" where
  "repo_Complete E i completedAt =
     update_repair ''complete repair request'' E i
       (\<lambda>r. r\<lparr>rr_Status := ''completed'', rr_CompletedAt := Some completedAt\<rparr>)"

definition repo_Cancel :: "env \<Rightarrow> string \<Rightarrow> string option \<Rightarrow> repair_request tx" where
  "repo_Cancel E i reason =
     update_repair ''cancel repair request'' E i
       (\<lambda>r. r\<lparr>rr_Status := ''cancelled'', rr_CancelReason := reason\<rparr>)"

definition repo_SoftDelete :: "env \<Rightarrow> string \<Rightarrow> unit tx" where
  "repo_SoftDelete E i =
     tx_bind (stmt ''soft delete repair request'' (\<lambda>_ d.
         (repair_by_id i d \<noteq> None,
          d\<lparr>db_repairs := tab_retire (\<lambda>r. rr_ID r = i) (\<lambda>r. r\<lparr>rr_UpdatedAt := e_now E\<rparr>) (db_repairs d)\<rparr>)))
       (\<lambda>found. tx_reject (\<not> found) ErrRepairRequestNotFound_app)"

text \<open>\<open>status NOT IN ('completed', 'cancelled')\<close> among the live requests of a room.\<close>

definition active_repair :: "string \<Rightarrow> db \<Rightarrow> bool" where
  "active_repair roomID d \<longleftrightarrow>
     (\<exists>r \<in> set (live (db_repairs d)). rr_RoomID r = roomID \<and> rr_Status r \<notin> {''completed'', ''cancelled''})"

definition RestoreRoomVacantIfNoActiveRepairs :: "env \<Rightarrow> string \<Rightarrow> unit tx" where
  "RestoreRoomVacantIfNoActiveRepairs E roomID =
     tx_bind (stmt ''lock maintenance room before restore vacant'' (\<lambda>_ d.
         (\<exists>r \<in> set (live (db_rooms d)). rm_ID r = roomID \<and> rm_Status r = ''maintenance'', d)))
       (\<lambda>locked. if \<not> locked then tx_return ()
         else stmt ''restore room vacant after repair workflow'' (\<lambda>_ d.
           ((), d\<lparr>db_rooms := tab_update
              (\<lambda>r. rm_ID r = roomID \<and> rm_Status r = ''maintenance'' \<and> \<not> active_repair roomID d)
              (\<lambda>r. r\<lparr>rm_Status := ''vacant'', rm_UpdatedAt := e_now E\<rparr>) (db_rooms d)\<rparr>)))"

subsection \<open>Listing\<close>

record repair_list_query =
  rlq_ActorRole :: string
  rlq_AssignedPropertyIDs :: "string list"
  rlq_PropertyID :: "string option"
  rlq_RoomID :: "string option"
  rlq_Status :: "string option"
  rlq_AssignedTo :: "string option"
  rlq_Limit :: nat
  rlq_Offset :: nat

text \<open>The WHERE clause as a predicate, None when the actor sees nothing.\<close>

definition buildRepairListFilter :: "repair_list_query \<Rightarrow> (repair_row \<Rightarrow> bool) option" where
  "buildRepairListFilter q =
    (let wanted = (\<lambda>f v. case v of None \<Rightarrow> True | Some x \<Rightarrow> f = x);
         narrow = (\<lambda>r. wanted (rr_PropertyID r) (rlq_PropertyID q) \<and> wanted (rr_RoomID r) (rlq_RoomID q)
                     \<and> wanted (rr_Status r) (rlq_Status q)
                     \<and> (case rlq_AssignedTo q of None \<Rightarrow> True | Some u \<Rightarrow> rr_AssignedTo r = Some u))
     in if trim (rlq_ActorRole q) \<in> {''organizer'', ''staff''}
        then if rlq_AssignedPropertyIDs q = [] then None
             else Some (\<lambda>r. rr_PropertyID r \<in> set (rlq_AssignedPropertyIDs q) \<and> narrow r)
        else if trim (rlq_ActorRole q) = ''admin'' then Some narrow
        else None)"

text \<open>Two queries outside a transaction; the page is cut from the matches, newest first.\<close>

definition repair_List :: "repair_list_query \<Rightarrow> (repair_request list \<times> nat) tx" where
  "repair_List q =
    (case buildRepairListFilter q of
       None \<Rightarrow> tx_return ([], 0)
     | Some P \<Rightarrow>
         tx_bind (stmt ''count repair requests'' (\<lambda>_ d. (length (filter P (live (db_repairs d))), d)))
           (\<lambda>total.
         tx_bind (stmt ''list repair requests'' (\<lambda>_ d.
             (map (selected d) (take (rlq_Limit q) (drop (rlq_Offset q)
                (rev (sort_key (\<lambda>r. (instant (rr_CreatedAt r), rr_ID r)) (filter P (live (db_repairs d))))))), d)))
           (\<lambda>items. tx_return (items, total))))"

section \<open>Errors and input (errors.go, helpers.go)\<close>

definition ErrUserNotFound :: gerr where
  "ErrUserNotFound = apperr_New ''USER_NOT_FOUND'' 404 ''User not found.''"
definition ErrValidationRepairTitleRequired :: gerr where
  "ErrValidationRepairTitleRequired =
     apperr_New ''VALIDATION_REPAIR_TITLE_REQUIRED'' 400 ''Repair title is required.''"
definition ErrInvalidStatusForAssign_app :: gerr where
  "ErrInvalidStatusForAssign_app = apperr_New ''REPAIR_INVALID_STATUS_FOR_ASSIGN'' 422
     ''Only submitted repair requests can be assigned.''"
definition ErrInvalidStatusForProgress_app :: gerr where
  "ErrInvalidStatusForProgress_app = apperr_New ''REPAIR_INVALID_STATUS_FOR_PROGRESS'' 422
     ''Only assigned repair requests can be progressed.''"
definition ErrInvalidStatusForComplete_app :: gerr where
  "ErrInvalidStatusForComplete_app = apperr_New ''REPAIR_INVALID_STATUS_FOR_COMPLETE'' 422
     ''Only in-progress repair requests can be completed.''"
definition ErrInvalidStatusForCancel_app :: gerr where
  "ErrInvalidStatusForCancel_app = apperr_New ''REPAIR_INVALID_STATUS_FOR_CANCEL'' 422
     ''Only active repair requests can be cancelled.''"
definition ErrRepairAlreadyCompleted_app :: gerr where
  "ErrRepairAlreadyCompleted_app = apperr_New ''REPAIR_ALREADY_COMPLETED'' 422
     ''Completed repair requests cannot be cancelled.''"

definition repair_mapRepositoryError :: "gerr \<Rightarrow> gerr" where
  "repair_mapRepositoryError e =
    (if errors_Is e ErrRepairRequestNotFound_app then ErrRepairRequestNotFound
     else if errors_Is e ErrRoomNotFound_repair then ErrRoomNotFound
     else if errors_Is e ErrUserNotFound_repair then ErrUserNotFound
     else internal_cause e)"

definition repair_mapDomainError :: "gerr \<Rightarrow> gerr" where
  "repair_mapDomainError e =
    (if errors_Is e ErrTitleRequired then ErrValidationRepairTitleRequired
     else if errors_Is e ErrInvalidStatusForAssign then ErrInvalidStatusForAssign_app
     else if errors_Is e ErrInvalidStatusForProgress then ErrInvalidStatusForProgress_app
     else if errors_Is e ErrInvalidStatusForComplete then ErrInvalidStatusForComplete_app
     else if errors_Is e ErrInvalidStatusForCancel then ErrInvalidStatusForCancel_app
     else if errors_Is e ErrRepairAlreadyCompleted then ErrRepairAlreadyCompleted_app
     else internal_cause e)"

definition repair_normalizeWriteRole :: "string \<Rightarrow> gerr + string" where
  "repair_normalizeWriteRole role =
    (let normalized = to_lower (trim role)
     in if normalized \<in> {''admin'', ''organizer'', ''staff''} then Inr normalized else Inl ErrForbidden)"

definition repair_normalizeRequiredUUID :: "env \<Rightarrow> string \<Rightarrow> string \<Rightarrow> gerr \<Rightarrow> gerr + string" where
  "repair_normalizeRequiredUUID E value field notFound =
    (let trimmed = trim value
     in if trimmed = '''' \<or> trimmed = zeroUUID then Inl notFound
        else if \<not> e_uuid_ok E trimmed then Inl (bad_field field)
        else Inr trimmed)"

definition requirePropertyAccess :: "string \<Rightarrow> string list \<Rightarrow> string \<Rightarrow> gerr + unit" where
  "requirePropertyAccess role assignedPropertyIDs propertyID =
    (if role = ''admin'' then Inr ()
     else if role \<in> {''organizer'', ''staff''}
     then if containsAssignedProperty assignedPropertyIDs propertyID then Inr ()
          else Inl (apperr_WithDetails ErrForbidden (JObj [(''property_id'', JStr propertyID)]))
     else Inl ErrForbidden)"

section \<open>Create, update and delete\<close>

record create_repair_input =
  cr_ActorRole :: string
  cr_ActorUserID :: string
  cr_AssignedPropertyIDs :: "string list"
  cr_PropertyID :: string
  cr_RoomID :: string
  cr_Title :: string
  cr_Description :: string

definition submitted_state :: "create_repair_params \<Rightarrow> repair_state" where
  "submitted_state params =
     \<lparr>rp_ID = '''', rp_PropertyID = crq_PropertyID params, rp_RoomID = crq_RoomID params,
      rp_SubmittedBy = crq_SubmittedBy params, rp_AssignedTo = None, rp_Title = crq_Title params,
      rp_Description = crq_Description params, rp_Status = '''', rp_SubmittedAt = zero_time,
      rp_AssignedAt = None, rp_CompletedAt = None, rp_CancelReason = None\<rparr>"

definition CreateRepair_validate :: "env \<Rightarrow> create_repair_input \<Rightarrow> gerr + create_repair_params" where
  "CreateRepair_validate E input =
    (case repair_normalizeWriteRole (cr_ActorRole input) of Inl e \<Rightarrow> Inl e | Inr actorRole \<Rightarrow>
     case repair_normalizeRequiredUUID E (cr_ActorUserID input) ''actor_user_id'' ErrUnauthorized of
       Inl e \<Rightarrow> Inl e | Inr actorUserID \<Rightarrow>
     case repair_normalizeRequiredUUID E (cr_PropertyID input) ''property_id'' ErrPropertyNotFound of
       Inl e \<Rightarrow> Inl e | Inr propertyID \<Rightarrow>
     case repair_normalizeRequiredUUID E (cr_RoomID input) ''room_id'' ErrRoomNotFound of
       Inl e \<Rightarrow> Inl e | Inr roomID \<Rightarrow>
     case requirePropertyAccess actorRole (cr_AssignedPropertyIDs input) propertyID of
       Inl e \<Rightarrow> Inl e | Inr _ \<Rightarrow>
     (let params = \<lparr>crq_PropertyID = propertyID, crq_RoomID = roomID, crq_SubmittedBy = actorUserID,
            crq_Title = trim (cr_Title input), crq_Description = trim (cr_Description input)\<rparr>
      in case repair_New (submitted_state params) of
           Inl e \<Rightarrow> Inl (repair_mapDomainError e) | Inr _ \<Rightarrow> Inr params))"

definition CreateRepair_body :: "env \<Rightarrow> create_repair_params \<Rightarrow> repair_request tx" where
  "CreateRepair_body E params =
     tx_bind (tx_map_err repair_mapRepositoryError (repair_FindRoomByID (crq_RoomID params))) (\<lambda>room.
     tx_bind (tx_reject (snd room \<noteq> crq_PropertyID params) (bad_field ''room_id'')) (\<lambda>_.
     tx_map_err repair_mapRepositoryError (repair_Create E params)))"

definition CreateRepair_Execute ::
    "env \<Rightarrow> (event \<Rightarrow> unit tx) \<Rightarrow> create_repair_input \<Rightarrow> repair_request tx" where
  "CreateRepair_Execute E publish input =
     tx_bind (tx_lift (CreateRepair_validate E input))
       (\<lambda>params. WithinTransaction publish (CreateRepair_body E params))"

definition repair_toDomainState :: "repair_request \<Rightarrow> repair_state" where
  "repair_toDomainState q =
    (let r = rq_row q
     in \<lparr>rp_ID = rr_ID r, rp_PropertyID = rr_PropertyID r, rp_RoomID = rr_RoomID r,
         rp_SubmittedBy = rr_SubmittedBy r, rp_AssignedTo = rr_AssignedTo r, rp_Title = rr_Title r,
         rp_Description = rr_Description r, rp_Status = rr_Status r, rp_SubmittedAt = rr_SubmittedAt r,
         rp_AssignedAt = rr_AssignedAt r, rp_CompletedAt = rr_CompletedAt r,
         rp_CancelReason = rr_CancelReason r\<rparr>)"

text \<open>\<open>FindByIDForUpdate\<close>, \<open>Rehydrate\<close> and one operation of the aggregate: the common start
  of the commands on an existing request.\<close>

definition load_and_apply :: "string \<Rightarrow> (repair_state \<Rightarrow> gerr + repair_state) \<Rightarrow> repair_state tx" where
  "load_and_apply i mutate =
     tx_bind (tx_map_err repair_mapRepositoryError (repair_FindByIDForUpdate i)) (\<lambda>current.
     tx_bind (tx_map_err repair_mapDomainError (tx_lift (repair_Rehydrate (repair_toDomainState current))))
       (\<lambda>aggregate.
     tx_map_err repair_mapDomainError (tx_lift (mutate aggregate))))"

definition UpdateRepair_Execute ::
    "env \<Rightarrow> (event \<Rightarrow> unit tx) \<Rightarrow> string \<Rightarrow> repair_update_input \<Rightarrow> repair_request tx" where
  "UpdateRepair_Execute E publish rawID input =
     tx_bind (tx_lift (repair_normalizeRequiredUUID E rawID ''id'' ErrRepairRequestNotFound_app)) (\<lambda>i.
     tx_bind (tx_reject (rui_Title input = None \<and> rui_Description input = None) ErrBadRequest) (\<lambda>_.
     WithinTransaction publish
       (tx_bind (load_and_apply i (\<lambda>a. repair_Update a input)) (\<lambda>state.
        tx_map_err repair_mapRepositoryError (repo_Update E i (rp_Title state) (rp_Description state))))))"

definition DeleteRepair_Execute :: "env \<Rightarrow> (event \<Rightarrow> unit tx) \<Rightarrow> string \<Rightarrow> unit tx" where
  "DeleteRepair_Execute E publish rawID =
     tx_bind (tx_lift (repair_normalizeRequiredUUID E rawID ''id'' ErrRepairRequestNotFound_app)) (\<lambda>i.
     WithinTransaction publish (tx_map_err repair_mapRepositoryError (repo_SoftDelete E i)))"

section \<open>The workflow (workflow.go)\<close>

record assign_input =
  ai_ActorRole :: string
  ai_ActorUserID :: string
  ai_ID :: string
  ai_AssignedTo :: string

text \<open>Returns the id of the request and of the assignee.\<close>

definition Assign_validate :: "env \<Rightarrow> assign_input \<Rightarrow> gerr + (string \<times> string)" where
  "Assign_validate E input =
    (case repair_normalizeWriteRole (ai_ActorRole input) of Inl e \<Rightarrow> Inl e | Inr actorRole \<Rightarrow>
     case repair_normalizeRequiredUUID E (ai_ActorUserID input) ''actor_user_id'' ErrUnauthorized of
       Inl e \<Rightarrow> Inl e | Inr actorUserID \<Rightarrow>
     case repair_normalizeRequiredUUID E (ai_ID input) ''id'' ErrRepairRequestNotFound_app of
       Inl e \<Rightarrow> Inl e | Inr i \<Rightarrow>
     case repair_normalizeRequiredUUID E (ai_AssignedTo input) ''assigned_to'' ErrUserNotFound of
       Inl e \<Rightarrow> Inl e | Inr assignedTo \<Rightarrow>
     if actorRole = ''staff'' \<and> assignedTo \<noteq> actorUserID then Inl ErrForbidden else Inr (i, assignedTo))"

text \<open>The assigned aggregate has an assignee and a time, so the dereferences are \<open>the\<close>.\<close>

definition Assign_body :: "env \<Rightarrow> string \<Rightarrow> string \<Rightarrow> repair_request tx" where
  "Assign_body E i assignedTo =
     tx_bind (tx_map_err repair_mapRepositoryError (repair_FindUserByID assignedTo)) (\<lambda>assignee.
     tx_bind (tx_reject (us_Role assignee \<noteq> ''organizer'' \<and> us_Role assignee \<noteq> ''staff'') ErrForbidden) (\<lambda>_.
     tx_bind (tx_map_err repair_mapRepositoryError (repair_FindByIDForUpdate i)) (\<lambda>current.
     tx_bind (tx_reject (\<not> containsAssignedProperty (us_AssignedPropertyIDs assignee)
                               (rr_PropertyID (rq_row current)))
         (apperr_WithDetails ErrForbidden (JObj [(''property_id'', JStr (rr_PropertyID (rq_row current)))])))
       (\<lambda>_.
     tx_bind (tx_map_err repair_mapDomainError (tx_lift (repair_Rehydrate (repair_toDomainState current))))
       (\<lambda>aggregate.
     tx_bind (tx_map_err repair_mapDomainError
         (tx_lift (repair_Assign aggregate assignedTo (time_UTC (e_now E))))) (\<lambda>state.
     tx_map_err repair_mapRepositoryError
       (repo_Assign E i (the (rp_AssignedTo state)) (the (rp_AssignedAt state)))))))))"

definition Assign_Execute :: "env \<Rightarrow> (event \<Rightarrow> unit tx) \<Rightarrow> assign_input \<Rightarrow> repair_request tx" where
  "Assign_Execute E publish input =
     tx_bind (tx_lift (Assign_validate E input))
       (\<lambda>(i, assignedTo). WithinTransaction publish (Assign_body E i assignedTo))"

definition transition ::
    "env \<Rightarrow> (event \<Rightarrow> unit tx) \<Rightarrow> string \<Rightarrow> (repair_state \<Rightarrow> gerr + repair_state)
     \<Rightarrow> (repair_state \<Rightarrow> repair_request tx) \<Rightarrow> (repair_request \<Rightarrow> unit tx)
     \<Rightarrow> (repair_request \<Rightarrow> unit tx) \<Rightarrow> repair_request tx" where
  "transition E publish rawID mutate persist afterPersistInTx afterPersist =
     tx_bind (tx_lift (repair_normalizeRequiredUUID E rawID ''id'' ErrRepairRequestNotFound_app)) (\<lambda>i.
     WithinTransaction publish
       (tx_bind (load_and_apply i mutate) (\<lambda>state.
        tx_bind (tx_map_err repair_mapRepositoryError (persist (state\<lparr>rp_ID := i\<rparr>))) (\<lambda>repairRequest.
        tx_bind (tx_map_err repair_mapRepositoryError (afterPersistInTx repairRequest)) (\<lambda>_.
        tx_bind (afterPersist repairRequest) (\<lambda>_.
        tx_return repairRequest))))))"

definition Progress_Execute :: "env \<Rightarrow> (event \<Rightarrow> unit tx) \<Rightarrow> string \<Rightarrow> repair_request tx" where
  "Progress_Execute E publish rawID =
     transition E publish rawID repair_Progress (\<lambda>state. repo_Progress E (rp_ID state))
       (\<lambda>_. tx_return ()) (\<lambda>_. tx_return ())"

definition Complete_Execute :: "env \<Rightarrow> (event \<Rightarrow> unit tx) \<Rightarrow> string \<Rightarrow> repair_request tx" where
  "Complete_Execute E publish rawID =
    (let completedAt = time_UTC (e_now E)
     in transition E publish rawID (\<lambda>a. repair_Complete a completedAt)
          (\<lambda>state. repo_Complete E (rp_ID state) completedAt)
          (\<lambda>updated. RestoreRoomVacantIfNoActiveRepairs E (rr_RoomID (rq_row updated)))
          (\<lambda>updated. record_event (RepairCompleted (rr_ID (rq_row updated)) (rr_RoomID (rq_row updated))
             (rr_PropertyID (rq_row updated)) completedAt)))"

text \<open>\<open>trimmedString\<close> is the domain's \<open>trimOptional\<close>.\<close>

definition Cancel_Execute :: "env \<Rightarrow> (event \<Rightarrow> unit tx) \<Rightarrow> string \<Rightarrow> string option \<Rightarrow> repair_request tx" where
  "Cancel_Execute E publish rawID reason =
    (let reason = trimOptional reason; cancelledAt = time_UTC (e_now E)
     in transition E publish rawID (\<lambda>a. repair_Cancel a reason)
          (\<lambda>state. repo_Cancel E (rp_ID state) (rp_CancelReason state))
          (\<lambda>updated. RestoreRoomVacantIfNoActiveRepairs E (rr_RoomID (rq_row updated)))
          (\<lambda>updated. record_event (RepairCancelled (rr_ID (rq_row updated)) (rr_RoomID (rq_row updated))
             (rr_PropertyID (rq_row updated)) cancelledAt)))"

end
