(* ===== verification/BuildingInv.thy ===== *)
theory BuildingInv
  imports RepairCommands
begin

text \<open>
  The invariant of the buildings: what the property, room and repair use cases
  keep true of the stored rows, for every input and every failing statement.
  Stored properties, rooms and repair requests are well formed, that is,
  rehydration accepts them and returns what is stored; and a room is in
  maintenance only while it has an active repair request.
\<close>

section \<open>Well-formed rows\<close>

lemma normalizeOptional_idem [simp]:
  "normalizeOptionalStringPtr (normalizeOptionalStringPtr x) = normalizeOptionalStringPtr x"
  by (auto simp: normalizeOptionalStringPtr_def split: option.splits)

lemma normalizeOptional_None [simp]: "normalizeOptionalStringPtr None = None"
  by (simp add: normalizeOptionalStringPtr_def)

lemma cloneMapPtr_stored [simp]: "cloneMapPtr (stored_map x) = stored_map x"
  "stored_map (stored_map x) = stored_map x" "stored_map None = None"
  by (auto simp: cloneMapPtr_def stored_map_def split: option.splits jval.splits)

lemma patch_norm: "normalizeOptionalStringPtr c = c \<Longrightarrow>
    normalizeOptionalStringPtr (patch_string x b c) = patch_string x b c"
  by (auto simp: patch_string_def patch_def split: option.splits)

lemma cloneMapPtr_idem [simp]: "cloneMapPtr (cloneMapPtr x) = cloneMapPtr x" "cloneMapPtr None = None"
  by (cases x; simp add: cloneMapPtr_def)+

lemma patch_map_norm: "cloneMapPtr c = c \<Longrightarrow> cloneMapPtr (patch_map x b c) = patch_map x b c"
  by (auto simp: patch_map_def patch_def split: option.splits)

lemma patch_required_norm: "patch_required e x c = Inr y \<Longrightarrow> trim c = c \<Longrightarrow> c \<noteq> '''' \<Longrightarrow> trim y = y \<and> y \<noteq> ''''"
  by (auto simp: patch_required_def split: option.splits if_splits)

lemma pg_numeric_idem [simp]: "pg_numeric k (pg_numeric k x) = pg_numeric k x"
proof -
  define n where "n = \<lfloor>\<bar>x\<bar> * 10 ^ k + 1 / 2\<rfloor>"
  have n: "0 \<le> n" by (simp add: n_def)
  have x: "pg_numeric k x = sgn x * of_int n / 10 ^ k" by (simp add: pg_numeric_def n_def)
  have a: "\<lfloor>(of_int n :: rat) + 1 / 2\<rfloor> = n"
    by (rule floor_unique) simp_all
  show ?thesis
  proof (cases "x = 0 \<or> n = 0")
    case True
    then show ?thesis unfolding x by (auto simp: pg_numeric_def)
  next
    case False
    then have "0 < rat_of_int n / 10 ^ k" using n by simp
    then have "\<not> rat_of_int n / 10 ^ k < 0" by linarith
    then have s: "sgn (pg_numeric k x) = sgn x" and m: "\<bar>pg_numeric k x\<bar> * 10 ^ k = of_int n"
      unfolding x using False n by (auto simp: sgn_mult abs_mult sgn_if)
    have "pg_numeric k (pg_numeric k x)
        = sgn (pg_numeric k x) * of_int \<lfloor>\<bar>pg_numeric k x\<bar> * 10 ^ k + 1 / 2\<rfloor> / 10 ^ k"
      by (rule pg_numeric_def)
    also have "\<dots> = sgn x * of_int n / 10 ^ k" unfolding s m a ..
    finally show ?thesis by (simp add: x)
  qed
qed

lemma map_pg_numeric_idem [simp]: "map_option (pg_numeric k) (map_option (pg_numeric k) x) = map_option (pg_numeric k) x"
  by (cases x) simp_all

definition property_ok :: "property_row \<Rightarrow> bool" where
  "property_ok p \<longleftrightarrow> property_Rehydrate (stored_property p) = Inr (stored_property p)
     \<and> map_option (pg_numeric 4) (pr_ElectricityUnitPrice p) = pr_ElectricityUnitPrice p
     \<and> stored_map (pr_Facilities p) = pr_Facilities p"

definition room_ok :: "room_row \<Rightarrow> bool" where
  "room_ok m \<longleftrightarrow> RehydrateRoom (stored_room m) = Inr (stored_room m)
     \<and> map_option (pg_numeric 2) (rm_Size m) = rm_Size m \<and> stored_map (rm_Facilities m) = rm_Facilities m"

definition row_state :: "repair_row \<Rightarrow> repair_state" where
  "row_state r = repair_toDomainState (returned r)"

lemma toDomainState_row: "repair_toDomainState q = row_state (rq_row q)"
  by (simp add: repair_toDomainState_def row_state_def returned_def Let_def)

text \<open>What the two rehydrations check, field by field.\<close>

lemma property_Rehydrate_same:
  "property_Rehydrate s = Inr s \<longleftrightarrow>
     ps_Name s \<noteq> '''' \<and> trim (ps_Name s) = ps_Name s \<and> ps_PropertyPublicName s \<noteq> ''''
     \<and> trim (ps_PropertyPublicName s) = ps_PropertyPublicName s
     \<and> normalizeOptionalStringPtr (ps_Subtitle s) = ps_Subtitle s
     \<and> ps_Address s \<noteq> '''' \<and> trim (ps_Address s) = ps_Address s
     \<and> (\<forall>x. ps_ElectricityUnitPrice s = Some x \<longrightarrow> 0 < x)
     \<and> trim (ps_DefaultElectricityBillingCadence s) = ps_DefaultElectricityBillingCadence s
     \<and> isValidBillingCadence (ps_DefaultElectricityBillingCadence s)
     \<and> ps_OwnerID s \<noteq> '''' \<and> trim (ps_OwnerID s) = ps_OwnerID s
     \<and> normalizeOptionalStringPtr (ps_ContactPhone s) = ps_ContactPhone s
     \<and> normalizeOptionalStringPtr (ps_ContactEmail s) = ps_ContactEmail s
     \<and> normalizeOptionalStringPtr (ps_Notes s) = ps_Notes s \<and> cloneMapPtr (ps_Facilities s) = ps_Facilities s"
proof (cases s)
  case (fields i n pn st ad pr ca ow ph em no fa ve)
  show ?thesis unfolding fields
    by (cases pr) (auto simp: property_Rehydrate_def property_normalizeState_def Let_def)
qed

definition valid_room_status :: "string \<Rightarrow> bool" where
  "valid_room_status st \<longleftrightarrow> st \<in> {RoomStatusVacant, RoomStatusOccupied, RoomStatusMaintenance}"

lemma valid_room_status_simps [simp]:
  "valid_room_status ''vacant''" "valid_room_status ''occupied''" "valid_room_status ''maintenance''"
  by (simp_all add: valid_room_status_def room_statuses)

lemma RehydrateRoom_same:
  "RehydrateRoom s = Inr s \<longleftrightarrow>
     trim (ms_ID s) = ms_ID s \<and> trim (ms_PropertyID s) = ms_PropertyID s
     \<and> ms_Name s \<noteq> '''' \<and> trim (ms_Name s) = ms_Name s \<and> trim (ms_Status s) = ms_Status s
     \<and> valid_room_status (ms_Status s)
     \<and> normalizeOptionalStringPtr (ms_Floor s) = ms_Floor s
     \<and> normalizeOptionalStringPtr (ms_RoomType s) = ms_RoomType s
     \<and> cloneMapPtr (ms_Facilities s) = ms_Facilities s
     \<and> normalizeOptionalStringPtr (ms_Notes s) = ms_Notes s \<and> normalizeOptionalStringPtr (ms_Zone s) = ms_Zone s"
proof (cases s)
  case (fields i p n st sz fl rt fa rent no zo)
  show ?thesis unfolding fields
    by (auto simp: RehydrateRoom_def normalizeRoomState_def Let_def valid_room_status_def [symmetric]
        simp del: insert_iff)
qed

lemma room_status_trim: "valid_room_status st \<Longrightarrow> trim st = st"
proof -
  have "trim ''vacant'' = ''vacant''" "trim ''occupied'' = ''occupied''" "trim ''maintenance'' = ''maintenance''"
    by code_simp+
  then show "valid_room_status st \<Longrightarrow> trim st = st"
    by (auto simp: valid_room_status_def room_statuses)
qed

lemma cadence_trim: "isValidBillingCadence c \<Longrightarrow> trim c = c"
proof -
  have "trim ''monthly'' = ''monthly''" "trim ''bimonthly'' = ''bimonthly''" by code_simp+
  then show "isValidBillingCadence c \<Longrightarrow> trim c = c" by (auto simp: isValidBillingCadence_def)
qed

section \<open>The aggregates produce well-formed rows\<close>

lemma property_New_same:
  assumes "property_New s = Inr a"
  shows "property_Rehydrate a = Inr a \<and> ps_ElectricityUnitPrice a \<noteq> None"
  using assms unfolding property_Rehydrate_same
  by (auto simp: property_New_def property_normalizeState_def Let_def split: if_splits option.splits)

lemma property_Update_same:
  assumes "property_Update a i = Inr b" "property_Rehydrate a = Inr a"
  shows "property_Rehydrate b = Inr b \<and> ps_ID b = ps_ID a \<and> ps_Version b = ps_Version a"
proof -
  obtain n pn ad where f:
    "patch_required ErrNameRequired (pui_Name i) (ps_Name a) = Inr n"
    "patch_required ErrPropertyPublicNameRequired (pui_PropertyPublicName i) (ps_PropertyPublicName a) = Inr pn"
    "patch_required ErrAddressRequired (pui_Address i) (ps_Address a) = Inr ad"
    using assms(1) by (auto simp: property_Update_def split: sum.splits)
  define pr where "pr = (case pui_ElectricityUnitPrice i of None \<Rightarrow> ps_ElectricityUnitPrice a | Some p \<Rightarrow> Some p)"
  define ca where "ca = (case pui_DefaultElectricityBillingCadence i of
     None \<Rightarrow> ps_DefaultElectricityBillingCadence a | Some c \<Rightarrow> trim c)"
  have cond: "\<not> (case pui_ElectricityUnitPrice i of None \<Rightarrow> False | Some p \<Rightarrow> p \<le> 0)"
    "\<not> (case pui_DefaultElectricityBillingCadence i of None \<Rightarrow> False | Some c \<Rightarrow> \<not> isValidBillingCadence (trim c))"
    using assms(1) f by (auto simp: property_Update_def split: if_splits)
  have b: "b = a\<lparr>ps_Name := n, ps_PropertyPublicName := pn,
            ps_Subtitle := patch_string (pui_Subtitle i) (pui_ClearSubtitle i) (ps_Subtitle a),
            ps_Address := ad, ps_ElectricityUnitPrice := pr, ps_DefaultElectricityBillingCadence := ca,
            ps_ContactPhone := patch_string (pui_ContactPhone i) (pui_ClearContactPhone i) (ps_ContactPhone a),
            ps_ContactEmail := patch_string (pui_ContactEmail i) (pui_ClearContactEmail i) (ps_ContactEmail a),
            ps_Notes := patch_string (pui_Notes i) (pui_ClearNotes i) (ps_Notes a),
            ps_Facilities := patch_map (pui_Facilities i) (pui_ClearFacilities i) (ps_Facilities a)\<rparr>"
    using assms(1) f unfolding property_Update_def pr_def ca_def by (auto split: if_splits)
  note old = assms(2) [unfolded property_Rehydrate_same]
  have "\<forall>x. pr = Some x \<longrightarrow> 0 < x" using cond(1) old by (auto simp: pr_def split: option.splits)
  moreover have "isValidBillingCadence ca" using cond(2) old by (auto simp: ca_def split: option.splits)
  moreover have "trim n = n \<and> n \<noteq> ''''" "trim pn = pn \<and> pn \<noteq> ''''" "trim ad = ad \<and> ad \<noteq> ''''"
    using patch_required_norm [OF f(1)] patch_required_norm [OF f(2)] patch_required_norm [OF f(3)] old by simp_all
  ultimately show ?thesis
    unfolding property_Rehydrate_same b using old by (simp add: patch_norm patch_map_norm cadence_trim)
qed

lemma property_columns_ok:
  assumes "property_Rehydrate a = Inr a" "property_checks (property_columns a p)"
  shows "property_ok (property_columns a p)" "property_ok ((property_columns a p)\<lparr>pr_UpdatedAt := t, pr_Version := n\<rparr>)"
  using assms by (auto simp: property_ok_def property_Rehydrate_same stored_property_def property_columns_def
      property_checks_def)

lemma NewRoom_same:
  assumes "NewRoom s = Inr a"
  shows "RehydrateRoom a = Inr a"
proof -
  have "valid_room_status RoomStatusVacant" by (simp add: room_statuses)
  then show ?thesis
    using assms room_status_trim unfolding RehydrateRoom_same
    by (auto simp: NewRoom_def normalizeRoomState_def Let_def valid_room_status_def [symmetric]
        simp del: insert_iff split: if_splits)
qed

lemma room_UpdateRoom_same:
  assumes "room_UpdateRoom a i = Inr b" "RehydrateRoom a = Inr a"
  shows "RehydrateRoom b = Inr b \<and> ms_ID b = ms_ID a \<and> ms_Status b = ms_Status a
    \<and> ms_PropertyID b = ms_PropertyID a"
proof -
  obtain n where n: "patch_required ErrRoomNameRequired (mui_Name i) (ms_Name a) = Inr n"
    using assms(1) by (auto simp: room_UpdateRoom_def split: sum.splits)
  note old = assms(2) [unfolded RehydrateRoom_same]
  have "b = (case room_UpdateRoom a i of Inr b \<Rightarrow> b)" using assms(1) by simp
  then show ?thesis
    using old patch_required_norm [OF n] unfolding RehydrateRoom_same
    by (simp add: n room_UpdateRoom_def patch_norm patch_map_norm)
qed

lemma new_room_ok:
  assumes "RehydrateRoom a = Inr a" "trim (e_id E n) = e_id E n"
  shows "room_ok (new_room E n a)"
  using assms room_status_trim [of "''vacant''"]
  by (simp add: room_ok_def RehydrateRoom_same stored_room_def new_room_def)

lemma room_columns_ok:
  assumes "room_ok m" "RehydrateRoom b = Inr b"
  shows "room_ok (room_columns E (room_params b) m)"
  using assms by (simp add: room_ok_def RehydrateRoom_same stored_room_def room_columns_def room_params_def)

lemma room_maintenance_ok:
  assumes "room_ok m" "room_ok c" "RehydrateRoom (bare_room c) = Inr a" "EnterMaintenance a = Inr b"
  shows "room_ok (room_columns E (maintenance_params c b) m)"
    "rm_Status (room_columns E (maintenance_params c b) m) = ''maintenance''"
proof -
  have b: "b = a\<lparr>ms_Status := ''maintenance''\<rparr>" "ms_Name a = rm_Name c"
    using EnterMaintenance_Inr [OF assms(3,4)] RehydrateRoom_Inr [OF assms(3)] assms(2)
    by (simp_all add: bare_room_def room_ok_def RehydrateRoom_same stored_room_def RoomStatusMaintenance_def)
  show "room_ok (room_columns E (maintenance_params c b) m)"
    "rm_Status (room_columns E (maintenance_params c b) m) = ''maintenance''"
    using assms(1,2) room_status_trim [of "''maintenance''"]
    by (simp_all add: room_ok_def RehydrateRoom_same stored_room_def room_columns_def maintenance_params_def b)
qed

lemma room_status_ok:
  assumes "room_ok m" "valid_room_status st"
  shows "room_ok (m\<lparr>rm_Status := st, rm_UpdatedAt := t\<rparr>)"
  using assms room_status_trim [OF assms(2)] by (simp add: room_ok_def RehydrateRoom_same stored_room_def)

text \<open>A request as it is stored when it is made, and what an operation of the
  aggregate leaves: well formed, and active unless it was ended.\<close>

lemma new_repair_wf:
  assumes "crq_Title ps \<noteq> ''''" "trim (crq_Title ps) = crq_Title ps"
    "trim (crq_Description ps) = crq_Description ps" "trim (crq_PropertyID ps) = crq_PropertyID ps"
    "trim (crq_RoomID ps) = crq_RoomID ps" "trim (crq_SubmittedBy ps) = crq_SubmittedBy ps"
    "trim (e_id E n) = e_id E n"
  shows "repair_wf (row_state (new_repair E n ps))"
  unfolding repair_wf_def row_state_def repair_toDomainState_def new_repair_def returned_def Let_def
  using assms repair_statuses valid_statuses(1) by simp

section \<open>The invariant\<close>

definition maintained :: "db \<Rightarrow> bool" where
  "maintained d \<longleftrightarrow> (\<forall>m \<in> set (live (db_rooms d)). rm_Status m = ''maintenance'' \<longrightarrow> active_repair (rm_ID m) d)"

definition rows_ok :: "db \<Rightarrow> bool" where
  "rows_ok d \<longleftrightarrow> (\<forall>p \<in> set (live (db_properties d)). property_ok p) \<and> (\<forall>m \<in> set (live (db_rooms d)). room_ok m)
     \<and> (\<forall>r \<in> set (live (db_repairs d)). repair_wf (row_state r))"

text \<open>The primary keys of the two tables the use cases look rows up in.\<close>

definition keys_ok :: "db \<Rightarrow> bool" where
  "keys_ok d \<longleftrightarrow> distinct (map rm_ID (live (db_rooms d))) \<and> distinct (map rr_ID (live (db_repairs d)))"

text \<open>\<open>D\<close> tells whether repair requests may have been deleted: the rule about
  maintenance is kept only where none was.\<close>

definition buildings_ok :: "bool \<Rightarrow> db \<Rightarrow> bool" where
  "buildings_ok D d \<longleftrightarrow> rows_ok d \<and> (D \<or> maintained d) \<and> keys_ok d"

text \<open>The effects on the tables, one lemma for each kind of write.\<close>

lemma put_property:
  assumes "buildings_ok D d" "\<And>p. p \<in> set (live ps) \<Longrightarrow> p \<in> set (live (db_properties d)) \<or> property_ok p"
  shows "buildings_ok D (d\<lparr>db_properties := ps\<rparr>)" "buildings_ok D (d\<lparr>db_properties := ps, db_accounts := as\<rparr>)"
  using assms by (auto simp: buildings_ok_def rows_ok_def maintained_def keys_ok_def active_repair_def)

lemma add_room:
  assumes "buildings_ok D d" "room_ok m" "rm_Status m \<noteq> ''maintenance''"
    "keys_ok (d\<lparr>db_rooms := tab_insert m (db_rooms d)\<rparr>)"
  shows "buildings_ok D (d\<lparr>db_rooms := tab_insert m (db_rooms d)\<rparr>)"
  using assms by (auto simp: buildings_ok_def rows_ok_def maintained_def active_repair_def)

lemma drop_room:
  assumes "buildings_ok D d"
  shows "buildings_ok D (d\<lparr>db_rooms := tab_retire P f (db_rooms d)\<rparr>)"
  using assms by (auto simp: buildings_ok_def rows_ok_def maintained_def active_repair_def keys_ok_def
      distinct_map inj_on_def)

lemma active_repair_simps [simp]:
  "active_repair i (d\<lparr>db_rooms := ms\<rparr>) = active_repair i d"
  "active_repair i (d\<lparr>db_properties := ps\<rparr>) = active_repair i d"
  by (simp_all add: active_repair_def)

lemma change_rooms:
  assumes "buildings_ok D d"
    and f: "\<And>m. m \<in> set (live (db_rooms d)) \<Longrightarrow> P m \<Longrightarrow> rm_ID (f m) = rm_ID m \<and> room_ok (f m)
        \<and> (rm_Status (f m) = ''maintenance'' \<longrightarrow> rm_Status m = ''maintenance'' \<or> active_repair (rm_ID m) d)"
  shows "buildings_ok D (d\<lparr>db_rooms := tab_update P f (db_rooms d)\<rparr>)"
proof -
  have keys: "map rm_ID (map (\<lambda>m. if P m then f m else m) (live (db_rooms d))) = map rm_ID (live (db_rooms d))"
    using f by (simp add: map_eq_conv)
  have "active_repair (rm_ID m) d"
    if "m \<in> set (live (db_rooms d))" "P m" "rm_Status (f m) = ''maintenance''" "\<not> D" for m
    using f [OF that(1,2)] that assms(1) by (auto simp: buildings_ok_def maintained_def)
  then have "D \<or> maintained (d\<lparr>db_rooms := tab_update P f (db_rooms d)\<rparr>)"
    using assms by (auto simp: buildings_ok_def maintained_def)
  moreover have "rows_ok (d\<lparr>db_rooms := tab_update P f (db_rooms d)\<rparr>)"
    using assms by (auto simp: buildings_ok_def rows_ok_def)
  ultimately show ?thesis
    using assms(1) keys by (simp add: buildings_ok_def keys_ok_def del: map_map)
qed

lemma add_repair:
  assumes "buildings_ok D d" "repair_wf (row_state r)" "keys_ok (d\<lparr>db_repairs := tab_insert r (db_repairs d)\<rparr>)"
  shows "buildings_ok D (d\<lparr>db_repairs := tab_insert r (db_repairs d)\<rparr>)"
  using assms by (auto simp: buildings_ok_def rows_ok_def maintained_def active_repair_def)

text \<open>Updating the requests with one id: every request of another id keeps its room
  in maintenance; the changed one must stay active, or its room is released.\<close>

definition ended :: "string \<Rightarrow> bool" where
  "ended st \<longleftrightarrow> st \<in> {''completed'', ''cancelled''}"

lemma change_repairs:
  assumes "buildings_ok D d"
    and g: "\<And>r. r \<in> set (live (db_repairs d)) \<Longrightarrow> rr_ID r = i \<Longrightarrow> rr_ID (g r) = i
        \<and> rr_RoomID (g r) = rr_RoomID r \<and> repair_wf (row_state (g r))"
  shows "rows_ok (d\<lparr>db_repairs := tab_update (\<lambda>r. rr_ID r = i) g (db_repairs d)\<rparr>)"
    "keys_ok (d\<lparr>db_repairs := tab_update (\<lambda>r. rr_ID r = i) g (db_repairs d)\<rparr>)"
    "active_repair k d \<Longrightarrow> (\<And>r. r \<in> set (live (db_repairs d)) \<Longrightarrow> rr_ID r = i \<Longrightarrow> rr_RoomID r = k \<Longrightarrow>
         ended (rr_Status (g r)) \<longrightarrow> ended (rr_Status r)) \<Longrightarrow>
       active_repair k (d\<lparr>db_repairs := tab_update (\<lambda>r. rr_ID r = i) g (db_repairs d)\<rparr>)"
proof -
  have keys: "map rr_ID (map (\<lambda>r. if rr_ID r = i then g r else r) (live (db_repairs d))) = map rr_ID (live (db_repairs d))"
    using g by (simp add: map_eq_conv)
  show "rows_ok (d\<lparr>db_repairs := tab_update (\<lambda>r. rr_ID r = i) g (db_repairs d)\<rparr>)"
    using assms by (auto simp: buildings_ok_def rows_ok_def)
  show "keys_ok (d\<lparr>db_repairs := tab_update (\<lambda>r. rr_ID r = i) g (db_repairs d)\<rparr>)"
    using assms(1) keys by (simp add: buildings_ok_def keys_ok_def del: map_map)
  assume "active_repair k d"
  then obtain r where r: "r \<in> set (live (db_repairs d))" "rr_RoomID r = k" "\<not> ended (rr_Status r)"
    by (auto simp: active_repair_def ended_def)
  assume keep: "\<And>r. r \<in> set (live (db_repairs d)) \<Longrightarrow> rr_ID r = i \<Longrightarrow> rr_RoomID r = k \<Longrightarrow>
         ended (rr_Status (g r)) \<longrightarrow> ended (rr_Status r)"
  have "(if rr_ID r = i then g r else r) \<in> set (live (tab_update (\<lambda>r. rr_ID r = i) g (db_repairs d)))"
    using r(1) by auto
  moreover have "rr_RoomID (if rr_ID r = i then g r else r) = k" using g [OF r(1)] r(2) by auto
  moreover have "\<not> ended (rr_Status (if rr_ID r = i then g r else r))" using keep [OF r(1)] r(2,3) by auto
  ultimately show "active_repair k (d\<lparr>db_repairs := tab_update (\<lambda>r. rr_ID r = i) g (db_repairs d)\<rparr>)"
    unfolding active_repair_def ended_def
    by (intro bexI [of _ "if rr_ID r = i then g r else r"]) simp_all
qed

definition room_released :: "env \<Rightarrow> string \<Rightarrow> db \<Rightarrow> db" where
  "room_released E k d = d\<lparr>db_rooms := tab_update
      (\<lambda>m. rm_ID m = k \<and> rm_Status m = ''maintenance'' \<and> \<not> active_repair k d)
      (\<lambda>m. m\<lparr>rm_Status := ''vacant'', rm_UpdatedAt := e_now E\<rparr>) (db_rooms d)\<rparr>"

lemma tab_update_none_live: "\<forall>r \<in> set (live t). \<not> P r \<Longrightarrow> tab_update P f t = t"
  by (induction t) (auto simp: tab_update_def live_def)

lemma Restore_D:
  assumes "RestoreRoomVacantIfNoActiveRepairs E k w = (Inr u, v)"
  shows "w_db v = room_released E k (w_db w) \<and> w_events v = w_events w"
proof (cases "\<exists>m \<in> set (live (db_rooms (w_db w))). rm_ID m = k \<and> rm_Status m = ''maintenance''")
  case True
  then show ?thesis
    using assms by (auto simp: RestoreRoomVacantIfNoActiveRepairs_def tx_control stmt_ok room_released_def active_repair_def)
next
  case False
  then have "room_released E k (w_db w) = w_db w"
    unfolding room_released_def by (subst tab_update_none_live) auto
  then show ?thesis
    using assms False by (auto simp: RestoreRoomVacantIfNoActiveRepairs_def tx_control stmt_ok)
qed

lemma end_repairs:
  assumes ok: "buildings_ok D d" and r: "r \<in> set (live (db_repairs d))" "rr_ID r = i"
    and g: "\<And>r. r \<in> set (live (db_repairs d)) \<Longrightarrow> rr_ID r = i \<Longrightarrow> rr_ID (g r) = i
        \<and> rr_RoomID (g r) = rr_RoomID r \<and> repair_wf (row_state (g r))"
  shows "buildings_ok D (room_released E (rr_RoomID r) (d\<lparr>db_repairs := tab_update (\<lambda>r. rr_ID r = i) g (db_repairs d)\<rparr>))"
    (is "buildings_ok D (room_released E ?k ?d)")
proof -
  have one: "x = r" if "x \<in> set (live (db_repairs d))" "rr_ID x = i" for x
    using ok r that by (auto simp: buildings_ok_def keys_ok_def distinct_map inj_on_def)
  have act: "active_repair k ?d" if "active_repair k d" "k \<noteq> ?k" for k
    using change_repairs(3) [OF ok g that(1)] one that(2) by blast
  have rows: "rows_ok (room_released E ?k ?d)"
    using change_repairs(1) [OF ok g] room_status_ok by (auto simp: rows_ok_def room_released_def)
  have "map rm_ID (live (db_rooms (room_released E ?k ?d))) = map rm_ID (live (db_rooms ?d))"
    "db_repairs (room_released E ?k ?d) = db_repairs ?d"
    by (auto simp: room_released_def)
  then have "keys_ok (room_released E ?k ?d)"
    using change_repairs(2) [OF ok g] by (simp add: keys_ok_def)
  moreover have "maintained (room_released E ?k ?d)" if "\<not> D"
    unfolding maintained_def
  proof (intro ballI impI)
    fix m assume m: "m \<in> set (live (db_rooms (room_released E ?k ?d)))" "rm_Status m = ''maintenance''"
    then have m': "m \<in> set (live (db_rooms d))" "rm_ID m = ?k \<longrightarrow> active_repair ?k ?d"
      by (auto simp: room_released_def split: if_splits)
    have "active_repair (rm_ID m) ?d"
      using m'(2) act ok m'(1) m(2) that by (cases "rm_ID m = ?k") (auto simp: buildings_ok_def maintained_def)
    then show "active_repair (rm_ID m) (room_released E ?k ?d)" by (simp add: room_released_def)
  qed
  ultimately show ?thesis using rows by (auto simp: buildings_ok_def)
qed

end
