(* ===== verification/BuildingProps.thy ===== *)
theory BuildingProps
  imports BuildingInv
begin

text \<open>
  The use cases of buildings as one state machine: its commands, the states they
  reach from an empty office whatever statements fail, and what holds in all of
  them.
\<close>

section \<open>Commands\<close>

datatype building_command =
    CmdCreateProperty create_property_input
  | CmdUpdateProperty string property_update_input
  | CmdDeleteProperty string
  | CmdCreateRoom create_room_input
  | CmdUpdateRoom string room_update_input
  | CmdDeleteRoom string
  | CmdSetRoomMaintenance set_room_maintenance_input
  | CmdCreateRepair create_repair_input
  | CmdUpdateRepair string repair_update_input
  | CmdAssignRepair assign_input
  | CmdProgressRepair string
  | CmdCompleteRepair string
  | CmdCancelRepair string "string option"
  | CmdDeleteRepair string
  | CmdLeaseEvent event

definition ignore :: "'a tx \<Rightarrow> unit tx" where
  "ignore m = tx_bind m (\<lambda>_. tx_return ())"

text \<open>The lease commands touch rooms only through the subscribers of their events.\<close>

fun run_building_command :: "env \<Rightarrow> building_command \<Rightarrow> unit tx" where
  "run_building_command E (CmdCreateProperty i) = ignore (CreateProperty_Execute E (server_publish E) i)"
| "run_building_command E (CmdUpdateProperty k i) = ignore (UpdateProperty_Execute E (server_publish E) k i)"
| "run_building_command E (CmdDeleteProperty k) = DeleteProperty_Execute E (server_publish E) k"
| "run_building_command E (CmdCreateRoom i) = ignore (CreateRoom_Execute E (server_publish E) i)"
| "run_building_command E (CmdUpdateRoom k i) = ignore (UpdateRoom_Execute E (server_publish E) k i)"
| "run_building_command E (CmdDeleteRoom k) = DeleteRoom_Execute E (server_publish E) k"
| "run_building_command E (CmdSetRoomMaintenance i) = ignore (SetRoomMaintenance_Execute E (server_publish E) i)"
| "run_building_command E (CmdCreateRepair i) = ignore (CreateRepair_Execute E (server_publish E) i)"
| "run_building_command E (CmdUpdateRepair k i) = ignore (UpdateRepair_Execute E (server_publish E) k i)"
| "run_building_command E (CmdAssignRepair i) = ignore (Assign_Execute E (server_publish E) i)"
| "run_building_command E (CmdProgressRepair k) = ignore (Progress_Execute E (server_publish E) k)"
| "run_building_command E (CmdCompleteRepair k) = ignore (Complete_Execute E (server_publish E) k)"
| "run_building_command E (CmdCancelRepair k r) = ignore (Cancel_Execute E (server_publish E) k r)"
| "run_building_command E (CmdDeleteRepair k) = DeleteRepair_Execute E (server_publish E) k"
| "run_building_command E (CmdLeaseEvent e) = server_publish E e"

fun deletes_repair :: "building_command \<Rightarrow> bool" where
  "deletes_repair (CmdDeleteRepair k) \<longleftrightarrow> True"
| "deletes_repair _ \<longleftrightarrow> False"

text \<open>One after another, each command with its own schedule of failures; \<open>D\<close> tells
  whether requests may be deleted.  A run that would repeat a primary key is not
  there: the insert fails in the database.  Other tables may change in between.\<close>

inductive building_reach :: "env \<Rightarrow> bool \<Rightarrow> db \<Rightarrow> bool" for E D where
  empty_office: "live (db_properties d) = [] \<Longrightarrow> live (db_rooms d) = [] \<Longrightarrow> live (db_repairs d) = [] \<Longrightarrow>
     building_reach E D d"
| command: "building_reach E D (w_db w) \<Longrightarrow> run_building_command E c w = (res, v) \<Longrightarrow>
     (deletes_repair c \<Longrightarrow> D) \<Longrightarrow> keys_ok (w_db v) \<Longrightarrow> building_reach E D (w_db v)"
| elsewhere: "building_reach E D d \<Longrightarrow> db_properties d' = db_properties d \<Longrightarrow> db_rooms d' = db_rooms d \<Longrightarrow>
     db_repairs d' = db_repairs d \<Longrightarrow> building_reach E D d'"

section \<open>Keeping the invariant\<close>

definition keeps :: "bool \<Rightarrow> 'a tx \<Rightarrow> bool" where
  "keeps D m \<longleftrightarrow> (\<forall>u x u'. buildings_ok D (w_db u) \<longrightarrow> w_events u = [] \<longrightarrow> m u = (Inr x, u') \<longrightarrow>
     (\<forall>e \<in> set (w_events u'). unheard e) \<and> (keys_ok (w_db u') \<longrightarrow> buildings_ok D (w_db u')))"

definition command_keeps :: "bool \<Rightarrow> 'a tx \<Rightarrow> bool" where
  "command_keeps D m \<longleftrightarrow> (\<forall>w res v. m w = (res, v) \<longrightarrow> buildings_ok D (w_db w) \<longrightarrow> keys_ok (w_db v) \<longrightarrow> buildings_ok D (w_db v))"

lemma keepsI:
  assumes "\<And>u x u'. buildings_ok D (w_db u) \<Longrightarrow> w_events u = [] \<Longrightarrow> m u = (Inr x, u') \<Longrightarrow>
     (\<forall>e \<in> set (w_events u'). unheard e) \<and> (keys_ok (w_db u') \<longrightarrow> buildings_ok D (w_db u'))"
  shows "keeps D m"
  using assms by (auto simp: keeps_def)

lemma command_keeps_run: "keeps D m \<Longrightarrow> command_keeps D (WithinTransaction (server_publish E) m)"
  unfolding command_keeps_def
proof (intro allI impI)
  fix w res v
  assume m: "keeps D m" and w: "WithinTransaction (server_publish E) m w = (res, v)" "buildings_ok D (w_db w)"
    "keys_ok (w_db v)"
  have runs: "case res of Inl e \<Rightarrow> w_db v = w_db w
       | Inr x \<Rightarrow> \<exists>u u'. w_db u = w_db w \<and> w_fresh u = w_fresh w \<and> w_events u = [] \<and> m u = (Inr x, u')
                     \<and> w_db v = w_db u'"
  proof (rule unheard_run [OF w(1)])
    fix u x u' assume "w_db u = w_db w" "w_events u = []" "m u = (Inr x, u')"
    then show "\<forall>e \<in> set (w_events u'). unheard e"
      using m w(2) unfolding keeps_def by metis
  qed
  then show "buildings_ok D (w_db v)"
  proof (cases res)
    case (Inr x)
    then obtain u u' where "w_db u = w_db w" "w_events u = []" "m u = (Inr x, u')" "w_db v = w_db u'"
      using runs by auto
    then show ?thesis using m w(2,3) unfolding keeps_def by metis
  qed (use w(2) in simp)
qed

lemma command_keeps_lift: "(\<And>x. r = Inr x \<Longrightarrow> command_keeps D (f x)) \<Longrightarrow> command_keeps D (tx_bind (tx_lift r) f)"
  by (cases r) (auto simp: command_keeps_def tx_bind_def tx_lift_def tx_throw_def tx_return_def)

lemma command_keeps_lift_err:
  "(\<And>x. r = Inr x \<Longrightarrow> command_keeps D (f x)) \<Longrightarrow> command_keeps D (tx_bind (tx_map_err g (tx_lift r)) f)"
  by (cases r) (auto simp: command_keeps_def tx_bind_def tx_lift_def tx_throw_def tx_return_def tx_map_err_def)

lemma command_keeps_reject: "(\<not> c \<Longrightarrow> command_keeps D (f ())) \<Longrightarrow> command_keeps D (tx_bind (tx_reject c e) f)"
  by (cases c) (auto simp: command_keeps_def tx_bind_def tx_reject_def tx_throw_def tx_return_def)

lemma command_keeps_ignore: "command_keeps D m \<Longrightarrow> command_keeps D (ignore m)"
  by (auto simp: command_keeps_def ignore_def tx_bind_def tx_return_def split: prod.splits sum.splits)

lemmas command_rules = command_keeps_run command_keeps_lift command_keeps_lift_err command_keeps_reject
  command_keeps_ignore

subsection \<open>Properties\<close>

lemma buildings_D:
  "buildings_ok D d \<Longrightarrow> property_by_id i d = Some p \<Longrightarrow> property_ok p"
  "buildings_ok D d \<Longrightarrow> find_room i d = Some m \<Longrightarrow> room_ok m \<and> m \<in> set (live (db_rooms d)) \<and> rm_ID m = i"
  "buildings_ok D d \<Longrightarrow> repair_by_id i d = Some r \<Longrightarrow>
     repair_wf (row_state r) \<and> r \<in> set (live (db_repairs d)) \<and> rr_ID r = i"
  by (auto simp: buildings_ok_def rows_ok_def property_by_id_def find_room_def repair_by_id_def
      dest: find_Some_filter)

lemma unheard_simps [simp]:
  "unheard (PropertyCreated a e)" "unheard (RoomSetToMaintenance a b c e)"
  "unheard (RepairCompleted a b c e)" "unheard (RepairCancelled a b c e)"
  by (simp_all add: unheard_def)

lemma keeps_CreateProperty: "property_New s = Inr a \<Longrightarrow> keeps D (CreateProperty_body E a)"
proof (rule keepsI)
  fix u x u' assume new: "property_New s = Inr a" and u: "buildings_ok D (w_db u)" "w_events u = []"
    and run: "CreateProperty_body E a u = (Inr x, u')"
  have a: "property_Rehydrate a = Inr a"
    "a\<lparr>ps_ElectricityUnitPrice := Some (case ps_ElectricityUnitPrice a of None \<Rightarrow> 0 | Some p \<Rightarrow> p)\<rparr> = a"
    using property_New_same [OF new] by (cases a; auto)+
  obtain p u1 u2 where p: "properties_Create E a u = (Inr p, u1)"
    "CreatePropertyAccount E (pr_ID p) u1 = (Inr (), u2)"
    "w_db u' = w_db u2" "w_events u' = w_events u2 @ [PropertyCreated (pr_ID p) (time_UTC (e_now E))]"
    using run by (auto simp: CreateProperty_body_def a(2) tx_control record_event_ok)
  note d = property_repo_D(1) [OF p(1)] property_repo_D(2) [OF p(2)]
  then obtain n k where d: "p = property_columns a (blank_property E n)" "property_checks p"
    "w_db u1 = (w_db u)\<lparr>db_properties := tab_insert p (db_properties (w_db u))\<rparr>" "w_events u1 = w_events u"
    "w_db u2 = (w_db u1)\<lparr>db_accounts := tab_insert \<lparr>pa_ID = e_id E k, pa_PropertyID = pr_ID p, pa_Version = 1\<rparr>
           (db_accounts (w_db u1))\<rparr>" "w_events u2 = w_events u1"
    by blast
  have ok: "property_ok p" using property_columns_ok(1) [OF a(1)] d(2) unfolding d(1) by blast
  show "(\<forall>e \<in> set (w_events u'). unheard e) \<and> (keys_ok (w_db u') \<longrightarrow> buildings_ok D (w_db u'))"
    using put_property(2) [OF u(1), of "tab_insert p (db_properties (w_db u))"] ok p(3,4) d(3-6) u(2) by auto
qed

lemma keeps_UpdateProperty: "keeps D (UpdateProperty_body E i input)"
proof (rule keepsI)
  fix u x u' assume u: "buildings_ok D (w_db u)" "w_events u = []"
    and run: "UpdateProperty_body E i input u = (Inr x, u')"
  obtain c a b u1 where r: "properties_FindByID i u = (Inr c, u1)"
    "property_Rehydrate (stored_property c) = Inr a" "property_Update a input = Inr b"
    "properties_Update E b u1 = (Inr x, u')"
    using run by (auto simp: UpdateProperty_body_def tx_control)
  note f = property_repo_D(3) [OF r(1)] and w = property_write_D(1) [OF r(4)]
  have a: "a = stored_property c" "property_Rehydrate a = Inr a"
    using buildings_D(1) [OF u(1), of i c] f r(2) by (auto simp: property_ok_def)
  obtain y where y: "y \<in> set (live (db_properties (w_db u)))" "property_checks x"
    "x = (property_columns b y)\<lparr>pr_UpdatedAt := e_now E, pr_Version := pr_Version y + 1\<rparr>"
    using w f by (auto dest: find_Some_filter)
  have b: "property_Rehydrate b = Inr b" using property_Update_same [OF r(3) a(2)] by simp
  have chk: "property_checks (property_columns b z)" for z
    using y(2) unfolding y(3) by (simp add: property_checks_def property_columns_def)
  have "buildings_ok D ((w_db u)\<lparr>db_properties := tab_update P (\<lambda>p. (property_columns b p)\<lparr>pr_UpdatedAt := t,
      pr_Version := g p\<rparr>) (db_properties (w_db u))\<rparr>)" for P g t
    by (rule put_property(1) [OF u(1)]) (auto simp: property_columns_ok(2) [OF b chk] split: if_splits)
  then show "(\<forall>e \<in> set (w_events u'). unheard e) \<and> (keys_ok (w_db u') \<longrightarrow> buildings_ok D (w_db u'))"
    using w f u by simp
qed

lemma keeps_DeleteProperty: "keeps D (DeleteProperty_body E i)"
proof (rule keepsI)
  fix u x u' assume u: "buildings_ok D (w_db u)" "w_events u = []"
    and run: "DeleteProperty_body E i u = (Inr x, u')"
  obtain c ids u1 u2 where r: "properties_FindByID i u = (Inr c, u1)" "ListOccupiedRoomIDs i u1 = (Inr ids, u2)"
    "properties_SoftDelete E i (pr_Version c) u2 = (Inr (), u')"
    using run by (auto simp: DeleteProperty_body_def tx_control split: option.splits)
  have "buildings_ok D ((w_db u)\<lparr>db_properties := tab_retire P f (db_properties (w_db u))\<rparr>)" for P f
    by (rule put_property(1) [OF u(1)]) simp
  then show "(\<forall>e \<in> set (w_events u'). unheard e) \<and> (keys_ok (w_db u') \<longrightarrow> buildings_ok D (w_db u'))"
    using property_repo_D(3) [OF r(1)] property_repo_D(4) [OF r(2)] property_write_D(2) [OF r(3)] u by simp
qed

subsection \<open>Rooms\<close>

lemma keeps_CreateRoom:
  assumes "RehydrateRoom a = Inr a" "\<And>n. trim (e_id E n) = e_id E n" "trim i = i"
  shows "keeps D (CreateRoom_body E i a)"
proof (rule keepsI)
  fix u x u' assume u: "buildings_ok D (w_db u)" "w_events u = []" and run: "CreateRoom_body E i a u = (Inr x, u')"
  obtain p u1 where r: "properties_FindByID i u = (Inr p, u1)"
    "properties_CreateRoom E (a\<lparr>ms_PropertyID := i\<rparr>) u1 = (Inr x, u')"
    using run by (auto simp: CreateRoom_body_def tx_control)
  obtain n where n: "x = new_room E n (a\<lparr>ms_PropertyID := i\<rparr>)"
    "w_db u' = (w_db u)\<lparr>db_rooms := tab_insert x (db_rooms (w_db u))\<rparr>" "w_events u' = []"
    using room_repo_D(1) [OF r(2)] property_repo_D(3) [OF r(1)] u(2) by auto
  have "RehydrateRoom (a\<lparr>ms_PropertyID := i\<rparr>) = Inr (a\<lparr>ms_PropertyID := i\<rparr>)"
    using assms(1,3) by (simp add: RehydrateRoom_same)
  then have "room_ok x" "rm_Status x = ''vacant''"
    unfolding n(1) using new_room_ok assms(2) by (blast, simp add: new_room_def)
  then show "(\<forall>e \<in> set (w_events u'). unheard e) \<and> (keys_ok (w_db u') \<longrightarrow> buildings_ok D (w_db u'))"
    using add_room [OF u(1), of x] n(2,3) by simp
qed

lemma UpdateRoom_body_D:
  assumes "UpdateRoom_body E i input u = (Inr x, u')" "buildings_ok D (w_db u)"
  shows "\<exists>m b. find_room i (w_db u) = Some m \<and> room_UpdateRoom (stored_room m) input = Inr b
     \<and> RehydrateRoom b = Inr b \<and> ms_ID b = i \<and> x = room_columns E (room_params b) m
     \<and> w_db u' = (w_db u)\<lparr>db_rooms := tab_update (\<lambda>r. rm_ID r = i) (room_columns E (room_params b)) (db_rooms (w_db u))\<rparr>
     \<and> w_events u' = w_events u"
proof -
  obtain m a b u1 where r: "properties_FindRoomByID i u = (Inr m, u1)" "RehydrateRoom (stored_room m) = Inr a"
    "room_UpdateRoom a input = Inr b" "properties_UpdateRoom E (room_params b) u1 = (Inr x, u')"
    using assms(1) by (auto simp: UpdateRoom_body_def tx_control)
  have m: "find_room i (w_db u) = Some m" "room_ok m" "rm_ID m = i" "w_db u1 = w_db u" "w_events u1 = w_events u"
    using room_repo_D(2) [OF r(1)] buildings_D(2) [OF assms(2), of i m] by auto
  have a: "a = stored_room m" "RehydrateRoom a = Inr a" using r(2) m(2) by (auto simp: room_ok_def)
  note b = room_UpdateRoom_same [OF r(3) a(2)]
  have "ms_ID b = i" using b by (simp add: a stored_room_def m(3))
  then show ?thesis
    using room_repo_D(3) [OF r(4)] m b r(3) by (auto simp: a room_params_def)
qed

lemma keeps_UpdateRoom: "keeps D (UpdateRoom_body E i input)"
proof (rule keepsI)
  fix u x u' assume u: "buildings_ok D (w_db u)" "w_events u = []" and run: "UpdateRoom_body E i input u = (Inr x, u')"
  obtain b where b: "RehydrateRoom b = Inr b"
    "w_db u' = (w_db u)\<lparr>db_rooms := tab_update (\<lambda>r. rm_ID r = i) (room_columns E (room_params b)) (db_rooms (w_db u))\<rparr>"
    "w_events u' = []"
    using UpdateRoom_body_D [OF run u(1)] u(2) by auto
  have "buildings_ok D (w_db u')"
    unfolding b(2)
  proof (rule change_rooms [OF u(1)])
    fix m assume "m \<in> set (live (db_rooms (w_db u)))"
    then have "room_ok m" using u(1) by (auto simp: buildings_ok_def rows_ok_def)
    then show "rm_ID (room_columns E (room_params b) m) = rm_ID m \<and> room_ok (room_columns E (room_params b) m)
        \<and> (rm_Status (room_columns E (room_params b) m) = ''maintenance'' \<longrightarrow>
             rm_Status m = ''maintenance'' \<or> active_repair (rm_ID m) (w_db u))"
      using room_columns_ok [OF _ b(1)] by (simp add: room_columns_def room_params_def)
  qed
  then show "(\<forall>e \<in> set (w_events u'). unheard e) \<and> (keys_ok (w_db u') \<longrightarrow> buildings_ok D (w_db u'))"
    using b(3) by simp
qed

lemma keeps_DeleteRoom: "keeps D (DeleteRoom_body E i)"
proof (rule keepsI)
  fix u x u' assume u: "buildings_ok D (w_db u)" "w_events u = []" and run: "DeleteRoom_body E i u = (Inr x, u')"
  obtain m u1 where "properties_FindRoomByID i u = (Inr m, u1)" "properties_SoftDeleteRoom E (rm_ID m) u1 = (Inr (), u')"
    using run by (auto simp: DeleteRoom_body_def tx_control)
  then show "(\<forall>e \<in> set (w_events u'). unheard e) \<and> (keys_ok (w_db u') \<longrightarrow> buildings_ok D (w_db u'))"
    using room_repo_D(2) room_repo_D(4) drop_room [OF u(1)] u(2) by fastforce
qed

text \<open>Entering maintenance, from the room the first query found.\<close>

definition maintenance_request :: "room_row \<Rightarrow> string \<Rightarrow> string \<Rightarrow> string \<Rightarrow> create_repair_params" where
  "maintenance_request m operatorID title description =
     \<lparr>crq_PropertyID = rm_PropertyID m, crq_RoomID = rm_ID m, crq_SubmittedBy = operatorID,
      crq_Title = title, crq_Description = description\<rparr>"

lemma maintenance_writes_D:
  assumes "maintenance_writes E op title descr c u = (Inr (x, q), u')"
  shows "\<exists>a b n y. RehydrateRoom (bare_room c) = Inr a \<and> EnterMaintenance a = Inr b
     \<and> q = new_repair E n (maintenance_request c op title descr)
     \<and> find_room (rm_ID c) (w_db u) = Some y \<and> x = room_columns E (maintenance_params c b) y
     \<and> w_db u' = (w_db u)\<lparr>db_repairs := tab_insert q (db_repairs (w_db u)),
          db_rooms := tab_update (\<lambda>r. rm_ID r = rm_ID c) (room_columns E (maintenance_params c b)) (db_rooms (w_db u))\<rparr>
     \<and> w_events u' = w_events u @ [RoomSetToMaintenance (rm_ID c) (rm_PropertyID c) op (time_UTC (e_now E))]"
proof -
  obtain a b u1 u2 where r: "RehydrateRoom (bare_room c) = Inr a" "EnterMaintenance a = Inr b"
    "CreateRepairRequest E (maintenance_request c op title descr) u = (Inr q, u1)"
    "properties_UpdateRoom E (maintenance_params c b) u1 = (Inr x, u2)"
    "w_db u' = w_db u2" "w_events u' = w_events u2 @ [RoomSetToMaintenance (rm_ID c) (rm_PropertyID c) op (time_UTC (e_now E))]"
    using assms by (auto simp: maintenance_writes_def tx_control record_event_ok maintenance_request_def)
  have [simp]: "urp_ID (maintenance_params c b) = rm_ID c" by (simp add: maintenance_params_def)
  show ?thesis
    using r(1,2,5,6) room_repo_D(5) [OF r(3)] room_repo_D(3) [OF r(4)]
    by (auto simp: find_room_def)
qed

lemma keeps_SetRoomMaintenance:
  assumes "\<And>n. trim (e_id E n) = e_id E n" "trim op = op" "trim title = title" "title \<noteq> ''''" "trim descr = descr"
  shows "keeps D (SetRoomMaintenance_body E i op title descr)"
proof (rule keepsI)
  fix u xq u' assume u: "buildings_ok D (w_db u)" "w_events u = []"
    and run: "SetRoomMaintenance_body E i op title descr u = (Inr xq, u')"
  obtain x q c u1 where r: "xq = (x, q)" "properties_FindRoomByID i u = (Inr c, u1)"
    "maintenance_writes E op title descr c u1 = (Inr (x, q), u')"
    using run by (cases xq) (auto simp: SetRoomMaintenance_body_def tx_control)
  have c: "room_ok c" "rm_ID c = i" "w_db u1 = w_db u" "w_events u1 = []"
    using room_repo_D(2) [OF r(2)] buildings_D(2) [OF u(1), of i c] u(2) by auto
  obtain a b n where e: "RehydrateRoom (bare_room c) = Inr a" "EnterMaintenance a = Inr b"
    "q = new_repair E n (maintenance_request c op title descr)"
    "w_db u' = (w_db u)\<lparr>db_repairs := tab_insert q (db_repairs (w_db u)),
          db_rooms := tab_update (\<lambda>r. rm_ID r = rm_ID c) (room_columns E (maintenance_params c b)) (db_rooms (w_db u))\<rparr>"
    "w_events u' = [RoomSetToMaintenance (rm_ID c) (rm_PropertyID c) op (time_UTC (e_now E))]"
    using maintenance_writes_D [OF r(3)] c(3,4) by auto
  have wf: "repair_wf (row_state q)"
    unfolding e(3) by (rule new_repair_wf)
      (use assms c(1) in \<open>simp_all add: maintenance_request_def room_ok_def RehydrateRoom_same stored_room_def\<close>)
  let ?d = "(w_db u)\<lparr>db_repairs := tab_insert q (db_repairs (w_db u))\<rparr>"
  have "buildings_ok D (w_db u')" if "keys_ok (w_db u')"
  proof -
    have "map rm_ID (live (db_rooms (w_db u'))) = map rm_ID (live (db_rooms (w_db u)))"
      "db_repairs (w_db u') = db_repairs ?d"
      by (simp_all add: e(4) room_columns_def)
    then have "keys_ok ?d" using that unfolding keys_ok_def by (simp del: live_update)
    then have d: "buildings_ok D ?d" using add_repair [OF u(1) wf] by blast
    have act: "active_repair (rm_ID c) ?d"
      by (auto simp: active_repair_def e(3) new_repair_def maintenance_request_def)
    have "buildings_ok D (?d\<lparr>db_rooms := tab_update (\<lambda>r. rm_ID r = rm_ID c)
        (room_columns E (maintenance_params c b)) (db_rooms ?d)\<rparr>)"
    proof (rule change_rooms [OF d])
      fix m assume "m \<in> set (live (db_rooms ?d))" "rm_ID m = rm_ID c"
      then have "room_ok m" using u(1) by (auto simp: buildings_ok_def rows_ok_def)
      then show "rm_ID (room_columns E (maintenance_params c b) m) = rm_ID m
          \<and> room_ok (room_columns E (maintenance_params c b) m)
          \<and> (rm_Status (room_columns E (maintenance_params c b) m) = ''maintenance'' \<longrightarrow>
               rm_Status m = ''maintenance'' \<or> active_repair (rm_ID m) ?d)"
        using room_maintenance_ok(1) [OF _ c(1) e(1,2)] act \<open>rm_ID m = rm_ID c\<close> by (simp add: room_columns_def)
    qed
    then show ?thesis by (simp add: e(4))
  qed
  then show "(\<forall>e \<in> set (w_events u'). unheard e) \<and> (keys_ok (w_db u') \<longrightarrow> buildings_ok D (w_db u'))"
    using e(5) by simp
qed

subsection \<open>Repair requests\<close>

lemma case_Inr: "(case x of Inl e \<Rightarrow> Inl (g e) | Inr y \<Rightarrow> f y) = Inr z \<longleftrightarrow> (\<exists>y. x = Inr y \<and> f y = Inr z)"
  by (auto split: sum.splits)

lemma CreateRepair_validate_ok:
  assumes "CreateRepair_validate E input = Inr ps"
  shows "crq_Title ps \<noteq> '''' \<and> trim (crq_Title ps) = crq_Title ps \<and> trim (crq_Description ps) = crq_Description ps
    \<and> trim (crq_PropertyID ps) = crq_PropertyID ps \<and> trim (crq_RoomID ps) = crq_RoomID ps
    \<and> trim (crq_SubmittedBy ps) = crq_SubmittedBy ps"
proof -
  have norm: "trim x = x" if "repair_normalizeRequiredUUID E v f e = Inr x" for v f e x
    using that by (auto simp: repair_normalizeRequiredUUID_def Let_def split: if_splits)
  have new: "trim (crq_Title ps) \<noteq> ''''" if "repair_New (submitted_state ps) = Inr a" for ps a
    using that by (auto simp: repair_New_def repair_normalizeState_def submitted_state_def Let_def split: if_splits)
  have "\<exists>i p r a. repair_normalizeRequiredUUID E (cr_ActorUserID input) ''actor_user_id'' ErrUnauthorized = Inr i
    \<and> repair_normalizeRequiredUUID E (cr_PropertyID input) ''property_id'' ErrPropertyNotFound = Inr p
    \<and> repair_normalizeRequiredUUID E (cr_RoomID input) ''room_id'' ErrRoomNotFound = Inr r
    \<and> ps = \<lparr>crq_PropertyID = p, crq_RoomID = r, crq_SubmittedBy = i, crq_Title = trim (cr_Title input),
        crq_Description = trim (cr_Description input)\<rparr> \<and> repair_New (submitted_state ps) = Inr a"
    using assms unfolding CreateRepair_validate_def Let_def case_Inr sum.inject
    by (elim exE conjE, hypsubst) (intro exI conjI, assumption, assumption, assumption, rule refl, assumption)
  then obtain i p r a where n:
    "repair_normalizeRequiredUUID E (cr_ActorUserID input) ''actor_user_id'' ErrUnauthorized = Inr i"
    "repair_normalizeRequiredUUID E (cr_PropertyID input) ''property_id'' ErrPropertyNotFound = Inr p"
    "repair_normalizeRequiredUUID E (cr_RoomID input) ''room_id'' ErrRoomNotFound = Inr r"
    and ps: "ps = \<lparr>crq_PropertyID = p, crq_RoomID = r, crq_SubmittedBy = i, crq_Title = trim (cr_Title input),
      crq_Description = trim (cr_Description input)\<rparr>" "repair_New (submitted_state ps) = Inr a"
    by blast
  have "trim (crq_Title ps) = crq_Title ps" by (simp add: ps(1))
  then show ?thesis using norm [OF n(1)] norm [OF n(2)] norm [OF n(3)] new [OF ps(2)] by (simp add: ps(1))
qed

lemma keeps_CreateRepair:
  assumes "CreateRepair_validate E input = Inr ps" "\<And>n. trim (e_id E n) = e_id E n"
  shows "keeps D (CreateRepair_body E ps)"
proof (rule keepsI)
  fix u x u' assume u: "buildings_ok D (w_db u)" "w_events u = []" and run: "CreateRepair_body E ps u = (Inr x, u')"
  obtain m u1 where r: "repair_FindRoomByID (crq_RoomID ps) u = (Inr m, u1)" "repair_Create E ps u1 = (Inr x, u')"
    using run by (auto simp: CreateRepair_body_def tx_control)
  have u1: "w_db u1 = w_db u" "w_events u1 = []"
    using r(1) u(2) by (auto simp: repair_FindRoomByID_def tx_control found_or_ok stmt_ok)
  define n where "n = w_fresh u1"
  have n: "w_db u' = (w_db u)\<lparr>db_repairs := tab_insert (new_repair E n ps) (db_repairs (w_db u))\<rparr>"
    "w_events u' = []"
    using r(2) u1 by (simp_all add: repair_Create_def stmt_ok n_def)
  have "repair_wf (row_state (new_repair E n ps))"
    using new_repair_wf CreateRepair_validate_ok [OF assms(1)] assms(2) by blast
  then show "(\<forall>e \<in> set (w_events u'). unheard e) \<and> (keys_ok (w_db u') \<longrightarrow> buildings_ok D (w_db u'))"
    using add_repair [OF u(1)] n by simp
qed

text \<open>Loading a stored request gives the request that is stored, and one operation on
  it leaves a well-formed one.\<close>

lemma load_and_apply_D:
  assumes "load_and_apply i mutate u = (Inr s, v)" "buildings_ok D (w_db u)"
  shows "\<exists>r. repair_by_id i (w_db u) = Some r \<and> mutate (row_state r) = Inr s
     \<and> w_db v = w_db u \<and> w_events v = w_events u"
proof -
  obtain q a where q: "repair_FindByIDForUpdate i u = (Inr q, v)"
    "repair_Rehydrate (row_state (rq_row q)) = Inr a" "mutate a = Inr s"
    using assms(1) by (auto simp: load_and_apply_def tx_control toDomainState_row)
  then obtain r where r: "repair_by_id i (w_db u) = Some r" "rq_row q = r" "w_db v = w_db u" "w_events v = w_events u"
    by (auto simp: repair_FindByIDForUpdate_def tx_control found_or_ok stmt_ok selected_def)
  have "a = row_state r"
    using q(2) wf_rehydrate [of "row_state r"] buildings_D(3) [OF assms(2) r(1)] by (simp add: r(2))
  then show ?thesis using q(3) r by auto
qed

lemma update_repair_D:
  assumes "update_repair c E i f w = (Inr q, v)"
  shows "\<exists>r. repair_by_id i (w_db w) = Some r \<and> q = returned ((f r)\<lparr>rr_UpdatedAt := e_now E\<rparr>)
     \<and> w_db v = (w_db w)\<lparr>db_repairs := tab_update (\<lambda>r. rr_ID r = i)
          (\<lambda>r. (f r)\<lparr>rr_UpdatedAt := e_now E\<rparr>) (db_repairs (w_db w))\<rparr>
     \<and> w_events v = w_events w"
  using assms by (auto simp: update_repair_def tx_control found_or_ok stmt_ok Let_def)

text \<open>The one write of an operation stores exactly the state the aggregate computed.\<close>

lemma stored_states:
  "row_state (r\<lparr>rr_Title := t, rr_Description := d, rr_UpdatedAt := n\<rparr>)
     = (row_state r)\<lparr>rp_Title := t, rp_Description := d\<rparr>"
  "row_state (r\<lparr>rr_Status := st, rr_AssignedTo := u, rr_AssignedAt := a, rr_UpdatedAt := n\<rparr>)
     = (row_state r)\<lparr>rp_Status := st, rp_AssignedTo := u, rp_AssignedAt := a\<rparr>"
  "row_state (r\<lparr>rr_Status := st, rr_UpdatedAt := n\<rparr>) = (row_state r)\<lparr>rp_Status := st\<rparr>"
  "row_state (r\<lparr>rr_Status := st, rr_CompletedAt := c, rr_UpdatedAt := n\<rparr>)
     = (row_state r)\<lparr>rp_Status := st, rp_CompletedAt := c\<rparr>"
  "row_state (r\<lparr>rr_Status := st, rr_CancelReason := x, rr_UpdatedAt := n\<rparr>)
     = (row_state r)\<lparr>rp_Status := st, rp_CancelReason := x\<rparr>"
  "rp_ID (row_state r) = rr_ID r" "rp_RoomID (row_state r) = rr_RoomID r" "rp_Status (row_state r) = rr_Status r"
  by (simp_all add: row_state_def repair_toDomainState_def returned_def Let_def)

lemma apply_wf:
  assumes "repair_wf a" "repair_apply op a = Inr b" "\<And>u t. op = OpAssign u t \<Longrightarrow> trim u \<noteq> ''''"
  shows "repair_wf b" "life_next (rp_Status a) op = Some (rp_Status b)"
proof -
  have "op_ok op" using repair_apply_op_ok [OF assms(2)] assms(3) by blast
  then show "repair_wf b" "life_next (rp_Status a) op = Some (rp_Status b)"
    using repair_apply_life [OF assms(1), of op] assms(2) by (auto split: option.splits)
qed

text \<open>Every command on an existing request, given what its write stores.\<close>

lemma one_write_keeps:
  assumes u: "buildings_ok D (w_db u)" and r: "repair_by_id i (w_db u) = Some r"
    and op: "repair_apply op (row_state r) = Inr b" "\<And>k t. op = OpAssign k t \<Longrightarrow> trim k \<noteq> ''''"
    and f: "row_state ((f r)\<lparr>rr_UpdatedAt := e_now E\<rparr>) = b" "\<And>x. rr_ID (f x) = rr_ID x" "\<And>x. rr_RoomID (f x) = rr_RoomID x"
  shows "\<not> ended (rp_Status b) \<or> ended (rr_Status r) \<Longrightarrow>
       buildings_ok D ((w_db u)\<lparr>db_repairs := tab_update (\<lambda>r. rr_ID r = i)
          (\<lambda>r. (f r)\<lparr>rr_UpdatedAt := e_now E\<rparr>) (db_repairs (w_db u))\<rparr>)"
    "buildings_ok D (room_released E (rr_RoomID r) ((w_db u)\<lparr>db_repairs := tab_update (\<lambda>r. rr_ID r = i)
          (\<lambda>r. (f r)\<lparr>rr_UpdatedAt := e_now E\<rparr>) (db_repairs (w_db u))\<rparr>))"
proof -
  let ?g = "\<lambda>r. (f r)\<lparr>rr_UpdatedAt := e_now E\<rparr>"
  note R = buildings_D(3) [OF u r]
  have one: "x = r" if "x \<in> set (live (db_repairs (w_db u)))" "rr_ID x = i" for x
    using u R that by (auto simp: buildings_ok_def keys_ok_def distinct_map inj_on_def)
  have wf: "repair_wf b" using apply_wf(1) [of "row_state r" op b] op R by blast
  have g: "rr_ID (?g x) = i \<and> rr_RoomID (?g x) = rr_RoomID x \<and> repair_wf (row_state (?g x))"
    if "x \<in> set (live (db_repairs (w_db u)))" "rr_ID x = i" for x
    using one [OF that] that wf f by simp
  show "buildings_ok D (room_released E (rr_RoomID r) ((w_db u)\<lparr>db_repairs := tab_update (\<lambda>r. rr_ID r = i) ?g
      (db_repairs (w_db u))\<rparr>))"
    by (rule end_repairs [OF u _ _ g]) (use R in auto)
  assume st: "\<not> ended (rp_Status b) \<or> ended (rr_Status r)"
  have "ended (rr_Status (?g x)) \<longrightarrow> ended (rr_Status x)"
    if "x \<in> set (live (db_repairs (w_db u)))" "rr_ID x = i" for x
    using one [OF that] st f(1) stored_states(8) [of "?g r"] by auto
  then have "active_repair k ((w_db u)\<lparr>db_repairs := tab_update (\<lambda>r. rr_ID r = i) ?g (db_repairs (w_db u))\<rparr>)"
    if "active_repair k (w_db u)" for k
    using change_repairs(3) [OF u g that] by blast
  then show "buildings_ok D ((w_db u)\<lparr>db_repairs := tab_update (\<lambda>r. rr_ID r = i) ?g (db_repairs (w_db u))\<rparr>)"
    using change_repairs(1,2) [OF u g] u by (auto simp: buildings_ok_def maintained_def)
qed

text \<open>What each operation of the aggregate changes is what its write stores.\<close>

lemma op_shapes:
  "repair_Update a i = Inr b \<Longrightarrow> a\<lparr>rp_Title := rp_Title b, rp_Description := rp_Description b\<rparr> = b"
  "repair_Assign a k t = Inr b \<Longrightarrow> a\<lparr>rp_Status := ''assigned'', rp_AssignedTo := Some (trim k), rp_AssignedAt := Some t\<rparr> = b"
  "repair_Progress a = Inr b \<Longrightarrow> a\<lparr>rp_Status := ''in_progress''\<rparr> = b"
  "repair_Complete a t = Inr b \<Longrightarrow> a\<lparr>rp_Status := ''completed'', rp_CompletedAt := Some t\<rparr> = b"
  "repair_Cancel a r = Inr b \<Longrightarrow> a\<lparr>rp_Status := ''cancelled'', rp_CancelReason := rp_CancelReason b\<rparr> = b"
  by (auto simp: repair_Update_def repair_Assign_def repair_Progress_def repair_Complete_def repair_Cancel_def
      repair_statuses Let_def split: if_splits option.splits)

lemma ended_simps [simp]: "\<not> ended ''assigned''" "\<not> ended ''in_progress''" "ended ''completed''" "ended ''cancelled''"
  by (simp_all add: ended_def)

lemma keeps_UpdateRepair:
  "keeps D (tx_bind (load_and_apply i (\<lambda>a. repair_Update a input)) (\<lambda>state.
        tx_map_err repair_mapRepositoryError (repo_Update E i (rp_Title state) (rp_Description state))))"
proof (rule keepsI)
  fix u x u' assume u: "buildings_ok D (w_db u)" "w_events u = []"
    and run: "tx_bind (load_and_apply i (\<lambda>a. repair_Update a input)) (\<lambda>state.
        tx_map_err repair_mapRepositoryError (repo_Update E i (rp_Title state) (rp_Description state))) u = (Inr x, u')"
  obtain s u1 where r: "load_and_apply i (\<lambda>a. repair_Update a input) u = (Inr s, u1)"
    "repo_Update E i (rp_Title s) (rp_Description s) u1 = (Inr x, u')"
    using run by (auto simp: tx_control)
  obtain y where y: "repair_by_id i (w_db u) = Some y" "repair_Update (row_state y) input = Inr s"
    "w_db u1 = w_db u" "w_events u1 = []"
    using load_and_apply_D [OF r(1) u(1)] u(2) by auto
  note w = update_repair_D [OF r(2) [unfolded repo_Update_def]]
  have st: "rp_Status s = rr_Status y" 
    using arg_cong [OF op_shapes(1) [OF y(2)], of rp_Status] by (simp add: stored_states)
  have "buildings_ok D (w_db u')"
    using one_write_keeps(1) [where op = "OpUpdate input" and b = s and E = E
        and f = "\<lambda>r. r\<lparr>rr_Title := rp_Title s, rr_Description := rp_Description s\<rparr>", OF u(1) y(1)]
      y(2,3) w op_shapes(1) [OF y(2)] st by (auto simp: stored_states)
  then show "(\<forall>e \<in> set (w_events u'). unheard e) \<and> (keys_ok (w_db u') \<longrightarrow> buildings_ok D (w_db u'))"
    using w y(4) by auto
qed

lemma keeps_Assign:
  assumes "trim k = k" "k \<noteq> ''''"
  shows "keeps D (Assign_body E i k)"
proof (rule keepsI)
  fix u x u' assume u: "buildings_ok D (w_db u)" "w_events u = []" and run: "Assign_body E i k u = (Inr x, u')"
  obtain usr u1 q u2 a s where r: "repair_FindUserByID k u = (Inr usr, u1)" "repair_FindByIDForUpdate i u1 = (Inr q, u2)"
    "repair_Rehydrate (repair_toDomainState q) = Inr a" "repair_Assign a k (time_UTC (e_now E)) = Inr s"
    "repo_Assign E i (the (rp_AssignedTo s)) (the (rp_AssignedAt s)) u2 = (Inr x, u')"
    using run by (auto simp: Assign_body_def tx_control)
  have u1: "w_db u1 = w_db u" "w_events u1 = []"
    using r(1) u(2) by (auto simp: repair_FindUserByID_def tx_control found_or_ok stmt_ok)
  have "load_and_apply i (\<lambda>a. repair_Assign a k (time_UTC (e_now E))) u1 = (Inr s, u2)"
    using r(2-4) by (auto simp: load_and_apply_def tx_control)
  then obtain y where y: "repair_by_id i (w_db u) = Some y" "repair_Assign (row_state y) k (time_UTC (e_now E)) = Inr s"
    "w_db u2 = w_db u" "w_events u2 = []"
    using load_and_apply_D [of i _ u1 s u2] u(1) u1 by auto
  note s = op_shapes(2) [OF y(2)]
  have f: "the (rp_AssignedTo s) = trim k" "the (rp_AssignedAt s) = time_UTC (e_now E)" "rp_Status s = ''assigned''"
    unfolding s [symmetric] by simp_all
  note w = update_repair_D [OF r(5) [unfolded repo_Assign_def f]]
  have "buildings_ok D (w_db u')"
    using one_write_keeps(1) [where op = "OpAssign k (time_UTC (e_now E))" and b = s and E = E
        and f = "\<lambda>r. r\<lparr>rr_Status := ''assigned'', rr_AssignedTo := Some (trim k),
          rr_AssignedAt := Some (time_UTC (e_now E))\<rparr>", OF u(1) y(1)]
      y(2,3) w s f(3) assms by (auto simp: stored_states)
  then show "(\<forall>e \<in> set (w_events u'). unheard e) \<and> (keys_ok (w_db u') \<longrightarrow> buildings_ok D (w_db u'))"
    using w y(4) by auto
qed

text \<open>The body of a transition.\<close>

lemma transition_D:
  assumes run: "tx_bind (load_and_apply i mutate) (\<lambda>state.
        tx_bind (tx_map_err repair_mapRepositoryError (persist (state\<lparr>rp_ID := i\<rparr>))) (\<lambda>q.
        tx_bind (tx_map_err repair_mapRepositoryError (inTx q)) (\<lambda>_.
        tx_bind (after q) (\<lambda>_. tx_return q)))) u = (Inr x, u')"
    and u: "buildings_ok D (w_db u)"
    and persist: "\<And>s. persist s = update_repair c E (rp_ID s) (f s)"
  shows "\<exists>r s u1 u2. repair_by_id i (w_db u) = Some r \<and> mutate (row_state r) = Inr s
     \<and> x = returned ((f (s\<lparr>rp_ID := i\<rparr>) r)\<lparr>rr_UpdatedAt := e_now E\<rparr>)
     \<and> w_db u1 = (w_db u)\<lparr>db_repairs := tab_update (\<lambda>r. rr_ID r = i)
          (\<lambda>r. (f (s\<lparr>rp_ID := i\<rparr>) r)\<lparr>rr_UpdatedAt := e_now E\<rparr>) (db_repairs (w_db u))\<rparr>
     \<and> w_events u1 = w_events u \<and> inTx x u1 = (Inr (), u2) \<and> after x u2 = (Inr (), u')"
proof -
  obtain s u1 u2 u3 where r: "load_and_apply i mutate u = (Inr s, u1)"
    "update_repair c E i (f (s\<lparr>rp_ID := i\<rparr>)) u1 = (Inr x, u2)" "inTx x u2 = (Inr (), u3)" "after x u3 = (Inr (), u')"
    using run by (auto simp: tx_control persist)
  obtain y where y: "repair_by_id i (w_db u) = Some y" "mutate (row_state y) = Inr s" "w_db u1 = w_db u"
    "w_events u1 = w_events u"
    using load_and_apply_D [OF r(1) u] by blast
  show ?thesis
    by (intro exI [of _ y] exI [of _ s] exI [of _ u2] exI [of _ u3]) (use y r(3,4) update_repair_D [OF r(2)] in auto)
qed

lemma keeps_Progress:
  "keeps D (tx_bind (load_and_apply i repair_Progress) (\<lambda>state.
        tx_bind (tx_map_err repair_mapRepositoryError (repo_Progress E (rp_ID (state\<lparr>rp_ID := i\<rparr>)))) (\<lambda>q.
        tx_bind (tx_map_err repair_mapRepositoryError (tx_return ())) (\<lambda>_.
        tx_bind (tx_return ()) (\<lambda>_. tx_return q)))))" (is "keeps D ?m")
proof (rule keepsI)
  fix u x u' assume u: "buildings_ok D (w_db u)" "w_events u = []" and run: "?m u = (Inr x, u')"
  note t = transition_D [OF run u(1), unfolded repo_Progress_def, OF refl]
  then obtain y s where y: "repair_by_id i (w_db u) = Some y" "repair_Progress (row_state y) = Inr s"
    "w_db u' = (w_db u)\<lparr>db_repairs := tab_update (\<lambda>r. rr_ID r = i)
          (\<lambda>r. (r\<lparr>rr_Status := ''in_progress''\<rparr>)\<lparr>rr_UpdatedAt := e_now E\<rparr>) (db_repairs (w_db u))\<rparr>" "w_events u' = []"
    using u(2) by (auto simp: tx_control)
  have "\<not> ended (rp_Status s)" unfolding op_shapes(3) [OF y(2), symmetric] by simp
  then have "buildings_ok D (w_db u')"
    using one_write_keeps(1) [where op = OpProgress and b = s and E = E
        and f = "\<lambda>r. r\<lparr>rr_Status := ''in_progress''\<rparr>", OF u(1) y(1)]
      y(2,3) op_shapes(3) [OF y(2)] by (auto simp: stored_states)
  then show "(\<forall>e \<in> set (w_events u'). unheard e) \<and> (keys_ok (w_db u') \<longrightarrow> buildings_ok D (w_db u'))"
    using y(4) by simp
qed

text \<open>Ending a request: the write, then the release of its room, then the event.\<close>

definition ending :: "env \<Rightarrow> (repair_request \<Rightarrow> event) \<Rightarrow> string \<Rightarrow> (repair_state \<Rightarrow> gerr + repair_state)
    \<Rightarrow> (repair_state \<Rightarrow> repair_request tx) \<Rightarrow> repair_request tx" where
  "ending E ev i mutate persist =
     tx_bind (load_and_apply i mutate) (\<lambda>state.
     tx_bind (tx_map_err repair_mapRepositoryError (persist (state\<lparr>rp_ID := i\<rparr>))) (\<lambda>q.
     tx_bind (tx_map_err repair_mapRepositoryError
         (RestoreRoomVacantIfNoActiveRepairs E (rr_RoomID (rq_row q)))) (\<lambda>_.
     tx_bind (record_event (ev q)) (\<lambda>_. tx_return q))))"

lemma ending_D:
  assumes run: "ending E ev i mutate persist u = (Inr x, u')" and u: "buildings_ok D (w_db u)"
    and persist: "\<And>s. persist s = update_repair c E (rp_ID s) (f s)"
    and f: "\<And>s r. rr_RoomID (f s r) = rr_RoomID r"
  shows "\<exists>r s. repair_by_id i (w_db u) = Some r \<and> mutate (row_state r) = Inr s
     \<and> x = returned ((f (s\<lparr>rp_ID := i\<rparr>) r)\<lparr>rr_UpdatedAt := e_now E\<rparr>)
     \<and> w_db u' = room_released E (rr_RoomID r) ((w_db u)\<lparr>db_repairs := tab_update (\<lambda>r. rr_ID r = i)
          (\<lambda>r. (f (s\<lparr>rp_ID := i\<rparr>) r)\<lparr>rr_UpdatedAt := e_now E\<rparr>) (db_repairs (w_db u))\<rparr>)
     \<and> w_events u' = w_events u @ [ev x]"
proof -
  obtain r s u1 u2 where t: "repair_by_id i (w_db u) = Some r" "mutate (row_state r) = Inr s"
    "x = returned ((f (s\<lparr>rp_ID := i\<rparr>) r)\<lparr>rr_UpdatedAt := e_now E\<rparr>)"
    "w_db u1 = (w_db u)\<lparr>db_repairs := tab_update (\<lambda>r. rr_ID r = i)
          (\<lambda>r. (f (s\<lparr>rp_ID := i\<rparr>) r)\<lparr>rr_UpdatedAt := e_now E\<rparr>) (db_repairs (w_db u))\<rparr>"
    "w_events u1 = w_events u"
    "RestoreRoomVacantIfNoActiveRepairs E (rr_RoomID (rq_row x)) u1 = (Inr (), u2)"
    "record_event (ev x) u2 = (Inr (), u')"
    using transition_D [OF run [unfolded ending_def] u persist] by blast
  have "rr_RoomID (rq_row x) = rr_RoomID r" by (simp add: t(3) returned_def f)
  then show ?thesis
    using t Restore_D [OF t(6)] by (auto simp: record_event_ok)
qed

lemma keeps_ending:
  assumes persist: "\<And>s. persist s = update_repair c E (rp_ID s) (f s)"
    and op: "\<And>a. mutate a = repair_apply op a" "\<And>k t. op = OpAssign k t \<Longrightarrow> trim k \<noteq> ''''"
    and f: "\<And>s r. rr_RoomID (f s r) = rr_RoomID r" "\<And>s r. rr_ID (f s r) = rr_ID r"
      "\<And>r s. mutate (row_state r) = Inr s \<Longrightarrow> row_state ((f (s\<lparr>rp_ID := i\<rparr>) r)\<lparr>rr_UpdatedAt := e_now E\<rparr>) = s"
    and ev: "\<And>q. unheard (ev q)"
  shows "keeps D (ending E ev i mutate persist)"
proof (rule keepsI)
  fix u x u' assume u: "buildings_ok D (w_db u)" "w_events u = []"
    and run: "ending E ev i mutate persist u = (Inr x, u')"
  obtain r s where t: "repair_by_id i (w_db u) = Some r" "mutate (row_state r) = Inr s"
    "w_db u' = room_released E (rr_RoomID r) ((w_db u)\<lparr>db_repairs := tab_update (\<lambda>r. rr_ID r = i)
          (\<lambda>r. (f (s\<lparr>rp_ID := i\<rparr>) r)\<lparr>rr_UpdatedAt := e_now E\<rparr>) (db_repairs (w_db u))\<rparr>)"
    "w_events u' = [ev x]"
    using ending_D [OF run u(1) persist f(1)] u(2) by auto
  have "buildings_ok D (w_db u')"
    unfolding t(3)
    by (rule one_write_keeps(2) [OF u(1) t(1) t(2) [unfolded op(1)] op(2) f(3) [OF t(2)] f(2) f(1)])
  then show "(\<forall>e \<in> set (w_events u'). unheard e) \<and> (keys_ok (w_db u') \<longrightarrow> buildings_ok D (w_db u'))"
    using t(4) ev by simp
qed

lemma Execute_endings:
  "Complete_Execute E publish rawID =
     tx_bind (tx_lift (repair_normalizeRequiredUUID E rawID ''id'' ErrRepairRequestNotFound_app)) (\<lambda>i.
     WithinTransaction publish (ending E
       (\<lambda>q. RepairCompleted (rr_ID (rq_row q)) (rr_RoomID (rq_row q)) (rr_PropertyID (rq_row q)) (time_UTC (e_now E)))
       i (\<lambda>a. repair_Complete a (time_UTC (e_now E)))
       (\<lambda>state. repo_Complete E (rp_ID state) (time_UTC (e_now E)))))"
  "Cancel_Execute E publish rawID reason =
     tx_bind (tx_lift (repair_normalizeRequiredUUID E rawID ''id'' ErrRepairRequestNotFound_app)) (\<lambda>i.
     WithinTransaction publish (ending E
       (\<lambda>q. RepairCancelled (rr_ID (rq_row q)) (rr_RoomID (rq_row q)) (rr_PropertyID (rq_row q)) (time_UTC (e_now E)))
       i (\<lambda>a. repair_Cancel a (trimOptional reason))
       (\<lambda>state. repo_Cancel E (rp_ID state) (rp_CancelReason state))))"
  by (simp_all add: Complete_Execute_def Cancel_Execute_def transition_def ending_def Let_def)

lemma keeps_endings:
  "keeps D (ending E (\<lambda>q. RepairCompleted (g1 q) (g2 q) (g3 q) t) i (\<lambda>a. repair_Complete a t)
     (\<lambda>state. repo_Complete E (rp_ID state) t))"
  "keeps D (ending E (\<lambda>q. RepairCancelled (g1 q) (g2 q) (g3 q) t) i (\<lambda>a. repair_Cancel a x)
     (\<lambda>state. repo_Cancel E (rp_ID state) (rp_CancelReason state)))"
proof -
  show "keeps D (ending E (\<lambda>q. RepairCompleted (g1 q) (g2 q) (g3 q) t) i (\<lambda>a. repair_Complete a t)
     (\<lambda>state. repo_Complete E (rp_ID state) t))"
  proof (rule keeps_ending)
    show "repo_Complete E (rp_ID s) t = update_repair ''complete repair request'' E (rp_ID s)
        (\<lambda>r. r\<lparr>rr_Status := ''completed'', rr_CompletedAt := Some t\<rparr>)" for s
      by (simp add: repo_Complete_def)
    show "repair_Complete a t = repair_apply (OpComplete t) a" for a by simp
    show "row_state (r\<lparr>rr_Status := ''completed'', rr_CompletedAt := Some t\<rparr>\<lparr>rr_UpdatedAt := e_now E\<rparr>) = s"
      if "repair_Complete (row_state r) t = Inr s" for r s
      using op_shapes(4) [OF that] by (simp add: stored_states)
  qed simp_all
  show "keeps D (ending E (\<lambda>q. RepairCancelled (g1 q) (g2 q) (g3 q) t) i (\<lambda>a. repair_Cancel a x)
     (\<lambda>state. repo_Cancel E (rp_ID state) (rp_CancelReason state)))"
  proof (rule keeps_ending)
    show "repo_Cancel E (rp_ID s) (rp_CancelReason s) = update_repair ''cancel repair request'' E (rp_ID s)
        (\<lambda>r. r\<lparr>rr_Status := ''cancelled'', rr_CancelReason := rp_CancelReason s\<rparr>)" for s
      by (simp add: repo_Cancel_def)
    show "repair_Cancel a x = repair_apply (OpCancel x) a" for a by simp
    show "row_state (r\<lparr>rr_Status := ''cancelled'', rr_CancelReason := rp_CancelReason (s\<lparr>rp_ID := i\<rparr>)\<rparr>
        \<lparr>rr_UpdatedAt := e_now E\<rparr>) = s"
      if "repair_Cancel (row_state r) x = Inr s" for r s
      using op_shapes(5) [OF that] by (simp add: stored_states)
  qed simp_all
qed

text \<open>A deletion keeps the rows well formed; the rule about maintenance it may break.\<close>

lemma keeps_DeleteRepair:
  assumes D
  shows "keeps D (tx_map_err repair_mapRepositoryError (repo_SoftDelete E i))"
proof (rule keepsI)
  fix u x u' assume u: "buildings_ok D (w_db u)" "w_events u = []"
    and run: "tx_map_err repair_mapRepositoryError (repo_SoftDelete E i) u = (Inr x, u')"
  have "w_db u' = (w_db u)\<lparr>db_repairs := tab_retire (\<lambda>r. rr_ID r = i) (\<lambda>r. r\<lparr>rr_UpdatedAt := e_now E\<rparr>)
        (db_repairs (w_db u))\<rparr>" "w_events u' = []"
    using run u(2) by (auto simp: repo_SoftDelete_def tx_control stmt_ok)
  then show "(\<forall>e \<in> set (w_events u'). unheard e) \<and> (keys_ok (w_db u') \<longrightarrow> buildings_ok D (w_db u'))"
    using u(1) assms by (auto simp: buildings_ok_def rows_ok_def)
qed

subsection \<open>Lease events\<close>

definition always_keeps :: "bool \<Rightarrow> 'a tx \<Rightarrow> bool" where
  "always_keeps D m \<longleftrightarrow> (\<forall>w res v. m w = (res, v) \<longrightarrow> buildings_ok D (w_db w) \<longrightarrow> buildings_ok D (w_db v))"

lemma always_keeps_rules:
  "always_keeps D m \<Longrightarrow> (\<And>x. always_keeps D (f x)) \<Longrightarrow> always_keeps D (tx_bind m f)"
  "always_keeps D m \<Longrightarrow> always_keeps D (tx_map_err g m)"
  "always_keeps D (tx_return x)"
  "always_keeps D m \<Longrightarrow> always_keeps D (WithinTransaction NoopPublish m)"
  by (auto simp: always_keeps_def tx_bind_def tx_map_err_def tx_return_def WithinTransaction_def
      split: prod.splits sum.splits if_splits)

lemma always_keeps_room_status:
  "always_keeps D (MarkRoomOccupied E k)" "always_keeps D (MarkRoomVacant E k)"
proof -
  have k: "buildings_ok D (set_room_status E k st d)" if "buildings_ok D d" "valid_room_status st" "st \<noteq> ''maintenance''" for d st
    unfolding set_room_status_def
    by (rule change_rooms [OF that(1)])
      (use that room_status_ok in \<open>auto simp: buildings_ok_def rows_ok_def\<close>)
  show "always_keeps D (MarkRoomOccupied E k)" "always_keeps D (MarkRoomVacant E k)"
    using k by (auto simp: always_keeps_def MarkRoomOccupied_def MarkRoomVacant_def stmt_def split: if_splits)
qed

lemma always_keeps_tenant:
  "always_keeps D (ActivateTenant E k)" "always_keeps D (DeactivateTenantIfNoActiveLeases E k)"
  by (auto simp: always_keeps_def ActivateTenant_def DeactivateTenantIfNoActiveLeases_def stmt_def
      buildings_ok_def rows_ok_def maintained_def active_repair_def keys_ok_def split: if_splits)

lemma always_keeps_publish: "always_keeps D (server_publish E ev)"
proof (cases "type_of_event ev = T_LeaseCreated \<or> type_of_event ev = T_LeaseTerminated")
  case True
  then show ?thesis
    by (auto simp: server_publish_def bus_Publish_def registerLeaseEventSubscribers_def bus_Subscribe_def bus_New_def
        OccupyRoom_HandleLeaseCreated_def ActivateTenant_HandleLeaseCreated_def ReleaseRoom_HandleLeaseTerminated_def
        DeactivateTenant_HandleLeaseTerminated_def
        intro!: always_keeps_rules always_keeps_room_status always_keeps_tenant)
next
  case False
  then show ?thesis using publish_unheard [of ev E] by (simp add: unheard_def always_keeps_rules)
qed

section \<open>The invariant of the buildings\<close>

definition env_ok :: "env \<Rightarrow> bool" where
  "env_ok E \<longleftrightarrow> (\<forall>n. trim (e_id E n) = e_id E n)"

lemma always_command: "always_keeps D m \<Longrightarrow> command_keeps D m"
  by (auto simp: always_keeps_def command_keeps_def)

lemma CreateProperty_validate_Inr:
  "CreateProperty_validate i = Inr a \<Longrightarrow> property_New (created_state i) = Inr a"
  by (auto simp: CreateProperty_validate_def split: if_splits sum.splits)

lemma Assign_validate_Inr: "Assign_validate E input = Inr (i, k) \<Longrightarrow> trim k = k \<and> k \<noteq> ''''"
  by (auto simp: Assign_validate_def repair_normalizeRequiredUUID_def Let_def split: sum.splits if_splits)

lemma run_building_command_keeps:
  assumes "env_ok E" and deletes: "deletes_repair c \<Longrightarrow> D"
  shows "command_keeps D (run_building_command E c)"
proof -
  have ids: "trim (e_id E n) = e_id E n" for n using assms by (simp add: env_ok_def)
  show ?thesis
  proof (cases c)
    case (CmdCreateProperty i)
    then show ?thesis
      using keeps_CreateProperty [OF CreateProperty_validate_Inr]
      by (auto simp: CreateProperty_Execute_def intro!: command_rules)
  next
    case (CmdUpdateProperty k i)
    then show ?thesis
      by (auto simp: UpdateProperty_Execute_def Let_def intro!: command_rules keeps_UpdateProperty)
  next
    case (CmdDeleteProperty k)
    then show ?thesis
      by (auto simp: DeleteProperty_Execute_def Let_def intro!: command_rules keeps_DeleteProperty)
  next
    case (CmdCreateRoom i)
    then show ?thesis
      by (auto simp: CreateRoom_Execute_def Let_def intro!: command_rules keeps_CreateRoom ids NewRoom_same)
  next
    case (CmdUpdateRoom k i)
    then show ?thesis by (auto simp: UpdateRoom_Execute_def Let_def intro!: command_rules keeps_UpdateRoom)
  next
    case (CmdDeleteRoom k)
    then show ?thesis by (auto simp: DeleteRoom_Execute_def Let_def intro!: command_rules keeps_DeleteRoom)
  next
    case (CmdSetRoomMaintenance i)
    then show ?thesis
      by (auto simp: SetRoomMaintenance_Execute_def Let_def intro!: command_rules keeps_SetRoomMaintenance ids)
  next
    case (CmdCreateRepair i)
    then show ?thesis
      by (auto simp: CreateRepair_Execute_def intro!: command_rules keeps_CreateRepair ids)
  next
    case (CmdUpdateRepair k i)
    then show ?thesis
      by (auto simp: UpdateRepair_Execute_def intro!: command_rules keeps_UpdateRepair)
  next
    case (CmdAssignRepair i)
    then show ?thesis
      using Assign_validate_Inr by (auto simp: Assign_Execute_def intro!: command_rules keeps_Assign)
  next
    case (CmdProgressRepair k)
    then show ?thesis
      by (auto simp: Progress_Execute_def transition_def intro!: command_rules keeps_Progress [simplified])
  next
    case (CmdCompleteRepair k)
    then show ?thesis by (auto simp: Execute_endings intro!: command_rules keeps_endings)
  next
    case (CmdCancelRepair k r)
    then show ?thesis by (auto simp: Execute_endings intro!: command_rules keeps_endings)
  next
    case (CmdDeleteRepair k)
    then show ?thesis using deletes
      by (auto simp: DeleteRepair_Execute_def intro!: command_rules keeps_DeleteRepair)
  next
    case (CmdLeaseEvent e)
    then show ?thesis by (simp add: always_command always_keeps_publish)
  qed
qed

lemma building_reach_ok:
  assumes "building_reach E D d" "env_ok E"
  shows "buildings_ok D d"
  using assms(1)
proof (induction rule: building_reach.induct)
  case (empty_office d)
  then show ?case by (simp add: buildings_ok_def rows_ok_def maintained_def keys_ok_def)
next
  case (command w c res v)
  then show ?case using run_building_command_keeps [OF assms(2), of c D] by (auto simp: command_keeps_def)
next
  case (elsewhere d d')
  then show ?case
    by (simp add: buildings_ok_def rows_ok_def maintained_def keys_ok_def active_repair_def)
qed

end
