(* ===== verification/Buildings.thy ===== *)
theory Buildings
  imports BuildingProps Runs
begin

text \<open>
  The properties of the building use cases: the two invariants of the reachable
  states, what creating a property, updating a room and entering maintenance do
  exactly, and the two ways the maintenance rule is broken.
\<close>

section \<open>Invariants\<close>

text \<open>
  C30.  Stored rows are well formed.  In every state the building use cases reach
  from an empty office, deletions of repair requests included, with any inputs
  and any failing statements, every live property and room is one that
  rehydration accepts and returns unchanged, and every live repair request has the
  fields its status stands for.
\<close>

theorem stored_rows_are_well_formed:
  assumes "building_reach E D d" "env_ok E"
  shows "(\<forall>p \<in> set (live (db_properties d)). property_Rehydrate (stored_property p) = Inr (stored_property p))
    \<and> (\<forall>m \<in> set (live (db_rooms d)). RehydrateRoom (stored_room m) = Inr (stored_room m))
    \<and> (\<forall>r \<in> set (live (db_repairs d)). repair_wf (row_state r)
         \<and> repair_Rehydrate (row_state r) = Inr (row_state r))"
  using building_reach_ok [OF assms]
  by (auto simp: buildings_ok_def rows_ok_def property_ok_def room_ok_def wf_rehydrate)

text \<open>
  C29.  A room in maintenance has an active repair request.  The use cases keep
  this, whatever statements fail, as long as no repair request is deleted:
  entering maintenance creates the request in the same transaction, and ending
  the last request releases the room in the same transaction.
\<close>

theorem maintenance_has_a_repair:
  assumes "building_reach E False d" "env_ok E" "m \<in> set (live (db_rooms d))" "rm_Status m = RoomStatusMaintenance"
  shows "\<exists>r \<in> set (live (db_repairs d)). rr_RoomID r = rm_ID m
    \<and> rr_Status r \<in> {RepairStatusSubmitted, RepairStatusAssigned, RepairStatusInProgress}"
proof -
  have ok: "buildings_ok False d" using building_reach_ok [OF assms(1,2)] .
  then obtain r where r: "r \<in> set (live (db_repairs d))" "rr_RoomID r = rm_ID m" "\<not> ended (rr_Status r)"
    using assms(3,4) by (auto simp: buildings_ok_def maintained_def active_repair_def ended_def RoomStatusMaintenance_def)
  have "repair_wf (row_state r)" using ok r(1) unfolding buildings_ok_def rows_ok_def by blast
  then have "repair_isValidStatus (rr_Status r)" by (simp add: repair_wf_def stored_states)
  then show ?thesis
    using r by (auto simp: repair_isValidStatus_def ended_def repair_statuses)
qed

text \<open>An office where one room was created and put into maintenance.\<close>

definition building_start :: world where
  "building_start = sample_world\<lparr>w_db := sample_db\<lparr>db_properties := [], db_rooms := []\<rparr>\<rparr>"

definition sample_new_property :: create_property_input where
  "sample_new_property = \<lparr>cpi_Name = ''House'', cpi_PropertyPublicName = None, cpi_Subtitle = None,
     cpi_Address = ''Main St'', cpi_ElectricityUnitPrice = 11 / 2,
     cpi_DefaultElectricityBillingCadence = ''monthly'', cpi_OwnerID = ''o1'', cpi_ContactPhone = None,
     cpi_ContactEmail = None, cpi_Notes = None, cpi_Facilities = None\<rparr>"

definition sample_new_room :: "string \<Rightarrow> create_room_input" where
  "sample_new_room p = \<lparr>cri_PropertyID = p, cri_Name = ''101'', cri_Size = Some 20, cri_Floor = Some ''1F'',
     cri_RoomType = None, cri_Facilities = None, cri_DefaultRentAmount = Some 12000, cri_Notes = None,
     cri_Zone = None\<rparr>"

definition sample_maintenance :: "string \<Rightarrow> set_room_maintenance_input" where
  "sample_maintenance m = \<lparr>srm_RoomID = m, srm_OperatorID = ''u1'', srm_Title = ''Leak'',
     srm_Description = ''Tap drips''\<rparr>"

definition building_run :: "building_command list \<Rightarrow> world \<Rightarrow> world" where
  "building_run cs w = foldl (\<lambda>w c. snd (run_building_command sample_env c w)) w cs"

definition maintained_world :: world where
  "maintained_world = building_run [CmdCreateProperty sample_new_property, CmdCreateRoom (sample_new_room ''x''),
     CmdSetRoomMaintenance (sample_maintenance ''xxxx'')] building_start"

lemma sample_env_ok: "env_ok sample_env"
proof -
  have "lead spaces (replicate (Suc n) CHR ''x'') = 0" for n by (simp add: spaces_def)
  moreover have "lead (map rev spaces) (replicate (Suc n) CHR ''x'') = 0" for n by (simp add: spaces_def)
  moreover have "rev (replicate (Suc n) CHR ''x'') = replicate (Suc n) CHR ''x''" for n by (rule rev_replicate)
  ultimately show ?thesis
    by (simp add: env_ok_def sample_env_def trim_def trim_left_def trim_right_def del: replicate_Suc)
qed

lemma building_reach_run:
  "building_reach sample_env D (w_db w) \<Longrightarrow> (deletes_repair c \<Longrightarrow> D) \<Longrightarrow> keys_ok (w_db (building_run [c] w)) \<Longrightarrow>
     building_reach sample_env D (w_db (building_run [c] w))"
  by (cases "run_building_command sample_env c w") (auto simp: building_run_def intro: building_reach.command)

lemma maintained_world_reach: "building_reach sample_env D (w_db maintained_world)"
proof -
  let ?c1 = "CmdCreateProperty sample_new_property" and ?c2 = "CmdCreateRoom (sample_new_room ''x'')"
    and ?c3 = "CmdSetRoomMaintenance (sample_maintenance ''xxxx'')"
  have 0: "building_reach sample_env D (w_db building_start)"
    by (rule empty_office) (simp_all add: building_start_def sample_world_def sample_db_def live_def)
  have 1: "keys_ok (w_db (building_run [?c1] building_start))"
    "keys_ok (w_db (building_run [?c1, ?c2] building_start))"
    "keys_ok (w_db (building_run [?c1, ?c2, ?c3] building_start))"
    by code_simp+
  have split: "building_run (c # c' # cs) w = building_run (c' # cs) (building_run [c] w)" for c c' cs w
    by (simp add: building_run_def)
  show ?thesis
    unfolding maintained_world_def
    by (simp only: split, intro building_reach_run 0) (simp_all add: 1 [unfolded split])
qed

lemma maintained_room:
  "\<exists>m \<in> set (live (db_rooms (w_db maintained_world))). rm_ID m = ''xxxx'' \<and> rm_Status m = RoomStatusMaintenance"
  by code_simp

text \<open>The same office after its one repair request was deleted.\<close>

definition stranded_world :: world where
  "stranded_world = building_run [CmdDeleteRepair ''xxxxxx''] maintained_world"

lemma stranded_room:
  "live (db_repairs (w_db stranded_world)) = [] \<and> keys_ok (w_db stranded_world)
     \<and> (\<exists>m \<in> set (live (db_rooms (w_db stranded_world))). rm_Status m = RoomStatusMaintenance)"
  by code_simp

lemma stored_rows_are_well_formed_witness:
  "live (db_repairs (w_db stranded_world)) = []
   \<and> (\<exists>m \<in> set (live (db_rooms (w_db stranded_world))). rm_Status m = RoomStatusMaintenance
        \<and> RehydrateRoom (stored_room m) = Inr (stored_room m))"
proof -
  have "building_reach sample_env True (w_db stranded_world)"
    unfolding stranded_world_def
    by (rule building_reach_run [OF maintained_world_reach])
       (simp_all add: stranded_room [unfolded stranded_world_def])
  from stored_rows_are_well_formed [OF this sample_env_ok] stranded_room show ?thesis by blast
qed

lemma maintenance_has_a_repair_witness:
  "\<exists>m r. m \<in> set (live (db_rooms (w_db maintained_world))) \<and> rm_Status m = RoomStatusMaintenance
     \<and> r \<in> set (live (db_repairs (w_db maintained_world))) \<and> rr_RoomID r = rm_ID m"
proof -
  obtain m where m: "m \<in> set (live (db_rooms (w_db maintained_world)))" "rm_Status m = RoomStatusMaintenance"
    using maintained_room by blast
  then show ?thesis
    using maintenance_has_a_repair [OF maintained_world_reach sample_env_ok m] by blast
qed

section \<open>What the commands do\<close>

lemma unheard_success:
  assumes "WithinTransaction (server_publish E) m w = (Inr x, v)" "keeps D m" "buildings_ok D (w_db w)"
  shows "\<exists>u u'. w_db u = w_db w \<and> w_fresh u = w_fresh w \<and> w_events u = [] \<and> m u = (Inr x, u') \<and> w_db v = w_db u'"
proof -
  have "\<forall>e \<in> set (w_events u'). unheard e"
    if "w_db u = w_db w" "w_events u = []" "m u = (Inr y, u')" for u y u'
    using assms(2,3) that unfolding keeps_def by metis
  from unheard_run [OF assms(1) this] show ?thesis by simp
qed

lemma the_room:
  assumes "buildings_ok D d" "find_room i d = Some m"
  shows "m \<in> set (live (db_rooms d))" "rm_ID m = i" "room_ok m"
    "\<And>x. x \<in> set (live (db_rooms d)) \<Longrightarrow> rm_ID x = i \<Longrightarrow> x = m"
  using buildings_D(2) [OF assms] assms(1)
  by (auto simp: buildings_ok_def keys_ok_def distinct_map inj_on_def)

text \<open>
  Entering maintenance.  It succeeds only for a vacant room; it adds one
  submitted request for the room and puts the room into maintenance, and it
  erases what the room has: size, floor, type, facilities, default rent, notes
  and zone.
\<close>

theorem maintenance_erases_room_details:
  assumes "SetRoomMaintenance_Execute E (server_publish E) input w = (Inr (x, q), v)"
    and "buildings_ok D (w_db w)" "env_ok E"
  shows "\<exists>m. find_room (trim (srm_RoomID input)) (w_db w) = Some m \<and> rm_Status m = RoomStatusVacant
     \<and> x = m\<lparr>rm_Status := RoomStatusMaintenance, rm_Size := None, rm_Floor := None, rm_RoomType := None,
              rm_Facilities := None, rm_DefaultRentAmount := None, rm_Notes := None, rm_Zone := None,
              rm_UpdatedAt := e_now E\<rparr>
     \<and> live (db_rooms (w_db v)) = map (\<lambda>r. if rm_ID r = rm_ID m then x else r) (live (db_rooms (w_db w)))
     \<and> live (db_repairs (w_db v)) = live (db_repairs (w_db w)) @ [q]
     \<and> rr_RoomID q = rm_ID m \<and> rr_Status q = RepairStatusSubmitted
     \<and> rr_SubmittedBy q = trim (srm_OperatorID input) \<and> rr_Title q = trim (srm_Title input)"
proof -
  let ?op = "trim (srm_OperatorID input)" and ?t = "trim (srm_Title input)" and ?s = "trim (srm_Description input)"
    and ?i = "trim (srm_RoomID input)"
  have run: "WithinTransaction (server_publish E) (SetRoomMaintenance_body E ?i ?op ?t ?s) w = (Inr (x, q), v)"
    and title: "?t \<noteq> ''''"
    using assms(1) by (auto simp: SetRoomMaintenance_Execute_def Let_def tx_control)
  have ids: "trim (e_id E n) = e_id E n" for n using assms(3) by (simp add: env_ok_def)
  obtain u u' where u: "w_db u = w_db w" "SetRoomMaintenance_body E ?i ?op ?t ?s u = (Inr (x, q), u')" "w_db v = w_db u'"
    using unheard_success [OF run keeps_SetRoomMaintenance [OF ids] assms(2)] title by auto
  obtain m u1 where r: "properties_FindRoomByID ?i u = (Inr m, u1)" "maintenance_writes E ?op ?t ?s m u1 = (Inr (x, q), u')"
    using u(2) by (auto simp: SetRoomMaintenance_body_def tx_control)
  have m: "find_room ?i (w_db w) = Some m" "w_db u1 = w_db w" using room_repo_D(2) [OF r(1)] u(1) by auto
  note mm = the_room [OF assms(2) m(1)]
  obtain a b n y where e: "RehydrateRoom (bare_room m) = Inr a" "EnterMaintenance a = Inr b"
    "q = new_repair E n (maintenance_request m ?op ?t ?s)" "find_room (rm_ID m) (w_db w) = Some y"
    "x = room_columns E (maintenance_params m b) y"
    "w_db u' = (w_db w)\<lparr>db_repairs := tab_insert q (db_repairs (w_db w)),
          db_rooms := tab_update (\<lambda>r. rm_ID r = rm_ID m) (room_columns E (maintenance_params m b)) (db_rooms (w_db w))\<rparr>"
    using maintenance_writes_D [OF r(2)] m(2) by auto
  have y: "y = m" using e(4) m(1) mm(2) by simp
  have b: "b = a\<lparr>ms_Status := RoomStatusMaintenance\<rparr>" "rm_Status m = RoomStatusVacant" "ms_Name a = rm_Name m"
    using EnterMaintenance_Inr [OF e(1,2)] RehydrateRoom_Inr [OF e(1)] mm(3)
    by (simp_all add: bare_room_def room_ok_def RehydrateRoom_same stored_room_def)
  have x: "x = m\<lparr>rm_Status := RoomStatusMaintenance, rm_Size := None, rm_Floor := None, rm_RoomType := None,
              rm_Facilities := None, rm_DefaultRentAmount := None, rm_Notes := None, rm_Zone := None,
              rm_UpdatedAt := e_now E\<rparr>"
    by (simp add: e(5) y room_columns_def maintenance_params_def b RoomStatusMaintenance_def)
  have "room_columns E (maintenance_params m b) r = x" if "r \<in> set (live (db_rooms (w_db w)))" "rm_ID r = rm_ID m" for r
    using mm(4) [OF that(1)] that(2) mm(2) by (simp add: e(5) y)
  then have "live (db_rooms (w_db v)) = map (\<lambda>r. if rm_ID r = rm_ID m then x else r) (live (db_rooms (w_db w)))"
    by (simp add: u(3) e(6))
  then show ?thesis
    using m(1) b(2) x by (simp add: u(3) e(3,6) new_repair_def maintenance_request_def RepairStatusSubmitted_def)
qed

definition vacant_world :: world where
  "vacant_world = building_run [CmdCreateProperty sample_new_property, CmdCreateRoom (sample_new_room ''x'')] building_start"

lemma vacant_world_ok: "buildings_ok D (w_db vacant_world)"
proof -
  let ?c1 = "CmdCreateProperty sample_new_property" and ?c2 = "CmdCreateRoom (sample_new_room ''x'')"
  have 0: "building_reach sample_env D (w_db building_start)"
    by (rule empty_office) (simp_all add: building_start_def sample_world_def sample_db_def live_def)
  have 1: "keys_ok (w_db (building_run [?c1] building_start))"
    "keys_ok (w_db (building_run [?c1, ?c2] building_start))"
    by code_simp+
  have split: "building_run (c # c' # cs) w = building_run (c' # cs) (building_run [c] w)" for c c' cs w
    by (simp add: building_run_def)
  have "building_reach sample_env D (w_db vacant_world)"
    unfolding vacant_world_def
    by (simp only: split, intro building_reach_run 0) (simp_all add: 1 [unfolded split])
  then show ?thesis by (rule building_reach_ok [OF _ sample_env_ok])
qed

lemma maintenance_erases_room_details_witness:
  "\<exists>m x q v. SetRoomMaintenance_Execute sample_env (server_publish sample_env) (sample_maintenance ''xxxx'') vacant_world
       = (Inr (x, q), v)
     \<and> find_room ''xxxx'' (w_db vacant_world) = Some m \<and> rm_Floor m = Some ''1F'' \<and> rm_Size m = Some 20
     \<and> rm_Floor x = None \<and> rm_Size x = None"
proof -
  have "is_inr (fst (SetRoomMaintenance_Execute sample_env (server_publish sample_env) (sample_maintenance ''xxxx'') vacant_world))"
    by code_simp
  then obtain x q v where run: "SetRoomMaintenance_Execute sample_env (server_publish sample_env)
      (sample_maintenance ''xxxx'') vacant_world = (Inr (x, q), v)"
    by (metis is_inr_iff prod.collapse)
  obtain m where "find_room (trim (srm_RoomID (sample_maintenance ''xxxx''))) (w_db vacant_world) = Some m"
    "rm_Floor x = None" "rm_Size x = None"
    using maintenance_erases_room_details [OF run vacant_world_ok sample_env_ok] by fastforce
  moreover have "map_option (\<lambda>m. (rm_Floor m, rm_Size m))
      (find_room (trim (srm_RoomID (sample_maintenance ''xxxx''))) (w_db vacant_world)) = Some (Some ''1F'', Some 20)"
    by code_simp
  moreover have "trim (srm_RoomID (sample_maintenance ''xxxx'')) = ''xxxx''" by code_simp
  ultimately show ?thesis using run by auto
qed

text \<open>
  Updating a room is a patch.  It changes only the room with the id, never
  its id, property or status, and every field the input neither sets nor clears
  stays as it is stored.
\<close>

theorem room_update_is_a_patch:
  assumes "UpdateRoom_Execute E (server_publish E) k input w = (Inr x, v)" "buildings_ok D (w_db w)"
  shows "\<exists>m. find_room (trim k) (w_db w) = Some m
     \<and> live (db_rooms (w_db v)) = map (\<lambda>r. if rm_ID r = rm_ID m then x else r) (live (db_rooms (w_db w)))
     \<and> rm_ID x = rm_ID m \<and> rm_PropertyID x = rm_PropertyID m \<and> rm_Status x = rm_Status m
     \<and> rm_CreatedAt x = rm_CreatedAt m
     \<and> (mui_Name input = None \<longrightarrow> rm_Name x = rm_Name m)
     \<and> (mui_Size input = None \<and> \<not> mui_ClearSize input \<longrightarrow> rm_Size x = rm_Size m)
     \<and> (mui_Floor input = None \<and> \<not> mui_ClearFloor input \<longrightarrow> rm_Floor x = rm_Floor m)
     \<and> (mui_RoomType input = None \<and> \<not> mui_ClearRoomType input \<longrightarrow> rm_RoomType x = rm_RoomType m)
     \<and> (mui_Facilities input = None \<and> \<not> mui_ClearFacilities input \<longrightarrow> rm_Facilities x = rm_Facilities m)
     \<and> (mui_DefaultRentAmount input = None \<and> \<not> mui_ClearDefaultRent input \<longrightarrow>
          rm_DefaultRentAmount x = rm_DefaultRentAmount m)
     \<and> (mui_Notes input = None \<and> \<not> mui_ClearNotes input \<longrightarrow> rm_Notes x = rm_Notes m)
     \<and> (mui_Zone input = None \<and> \<not> mui_ClearZone input \<longrightarrow> rm_Zone x = rm_Zone m)"
proof -
  have run: "WithinTransaction (server_publish E) (UpdateRoom_body E (trim k) input) w = (Inr x, v)"
    using assms(1) by (auto simp: UpdateRoom_Execute_def Let_def tx_control)
  obtain u u' where u: "w_db u = w_db w" "UpdateRoom_body E (trim k) input u = (Inr x, u')" "w_db v = w_db u'"
    using unheard_success [OF run keeps_UpdateRoom assms(2)] by auto
  have ok: "buildings_ok D (w_db u)" using assms(2) u(1) by simp
  obtain m b where m: "find_room (trim k) (w_db w) = Some m" "room_UpdateRoom (stored_room m) input = Inr b"
    "x = room_columns E (room_params b) m"
    "w_db u' = (w_db w)\<lparr>db_rooms := tab_update (\<lambda>r. rm_ID r = trim k) (room_columns E (room_params b)) (db_rooms (w_db w))\<rparr>"
    using UpdateRoom_body_D [OF u(2) ok] u(1) by auto
  note mm = the_room [OF assms(2) m(1)]
  have "room_columns E (room_params b) r = x" if "r \<in> set (live (db_rooms (w_db w)))" "rm_ID r = trim k" for r
    using mm(4) [OF that] by (simp add: m(3))
  then have rows: "live (db_rooms (w_db v)) = map (\<lambda>r. if rm_ID r = rm_ID m then x else r) (live (db_rooms (w_db w)))"
    by (simp add: u(3) m(4) mm(2))
  obtain n where n: "patch_required ErrRoomNameRequired (mui_Name input) (rm_Name m) = Inr n"
    using m(2) by (auto simp: room_UpdateRoom_def stored_room_def split: sum.splits)
  have b: "b = (case room_UpdateRoom (stored_room m) input of Inr b \<Rightarrow> b)" using m(2) by simp
  have x: "x = m\<lparr>rm_Name := n,
       rm_Size := map_option (pg_numeric 2) (patch Some (mui_Size input) (mui_ClearSize input) (rm_Size m)),
       rm_Floor := patch_string (mui_Floor input) (mui_ClearFloor input) (rm_Floor m),
       rm_RoomType := patch_string (mui_RoomType input) (mui_ClearRoomType input) (rm_RoomType m),
       rm_Facilities := stored_map (patch_map (mui_Facilities input) (mui_ClearFacilities input) (rm_Facilities m)),
       rm_DefaultRentAmount := patch Some (mui_DefaultRentAmount input) (mui_ClearDefaultRent input) (rm_DefaultRentAmount m),
       rm_Notes := patch_string (mui_Notes input) (mui_ClearNotes input) (rm_Notes m),
       rm_Zone := patch_string (mui_Zone input) (mui_ClearZone input) (rm_Zone m), rm_UpdatedAt := e_now E\<rparr>"
    using n by (simp add: m(3) b room_columns_def room_params_def room_UpdateRoom_def stored_room_def)
  have kept: "patch f None False c = c" "patch_string None False s = s" "patch_map None False j = j" for f c s j
    by (simp_all add: patch_def patch_string_def patch_map_def)
  show ?thesis
    using m(1) rows mm(3) n
    by (intro exI [of _ m]) (auto simp: x kept patch_def patch_string_def patch_map_def patch_required_def room_ok_def)
qed

definition rename_room :: room_update_input where
  "rename_room = \<lparr>mui_Name = Some '' 102 '', mui_Size = None, mui_ClearSize = False, mui_Floor = None,
     mui_ClearFloor = False, mui_RoomType = None, mui_ClearRoomType = False, mui_Facilities = None,
     mui_ClearFacilities = False, mui_DefaultRentAmount = None, mui_ClearDefaultRent = True, mui_Notes = None,
     mui_ClearNotes = False, mui_Zone = None, mui_ClearZone = False\<rparr>"

lemma room_update_is_a_patch_witness:
  "\<exists>m x v. UpdateRoom_Execute sample_env (server_publish sample_env) ''xxxx'' rename_room vacant_world = (Inr x, v)
     \<and> find_room ''xxxx'' (w_db vacant_world) = Some m \<and> rm_Floor x = rm_Floor m \<and> rm_Size x = rm_Size m"
proof -
  have "is_inr (fst (UpdateRoom_Execute sample_env (server_publish sample_env) ''xxxx'' rename_room vacant_world))"
    by code_simp
  then obtain x v where run: "UpdateRoom_Execute sample_env (server_publish sample_env) ''xxxx'' rename_room vacant_world
      = (Inr x, v)"
    by (metis is_inr_iff prod.collapse)
  have "trim ''xxxx'' = ''xxxx''" by code_simp
  then show ?thesis
    using room_update_is_a_patch [OF run vacant_world_ok] run by (auto simp: rename_room_def)
qed

text \<open>
  A new property gets exactly one account.  Creating a property either
  changes nothing (when it is refused or any statement fails), or adds one
  well-formed property and one account of it, in the same transaction.
\<close>

theorem property_has_one_account:
  assumes "CreateProperty_Execute E (server_publish E) input w = (res, v)"
    and "\<forall>a \<in> set (live (db_accounts (w_db w))). \<forall>n \<ge> w_fresh w. pa_PropertyID a \<noteq> e_id E n"
    and "buildings_ok D (w_db w)"
  shows "case res of
      Inl e \<Rightarrow> w_db v = w_db w
    | Inr p \<Rightarrow> \<exists>a. live (db_properties (w_db v)) = live (db_properties (w_db w)) @ [p]
        \<and> live (db_accounts (w_db v)) = live (db_accounts (w_db w)) @ [a]
        \<and> filter (\<lambda>a. pa_PropertyID a = pr_ID p) (live (db_accounts (w_db v))) = [a]
        \<and> property_Rehydrate (stored_property p) = Inr (stored_property p) \<and> pr_Version p = 1"
proof (cases "CreateProperty_validate input")
  case (Inl e)
  then show ?thesis using assms(1) by (auto simp: CreateProperty_Execute_def tx_bind_def tx_lift_def tx_throw_def)
next
  case (Inr s)
  then have run: "WithinTransaction (server_publish E) (CreateProperty_body E s) w = (res, v)"
    using assms(1) by (auto simp: CreateProperty_Execute_def tx_bind_def tx_lift_def tx_return_def)
  note new = CreateProperty_validate_Inr [OF Inr]
  have kp: "keeps D (CreateProperty_body E s)" by (rule keeps_CreateProperty [OF new])
  show ?thesis
  proof (cases res)
    case Inl': (Inl e)
    have "\<forall>e \<in> set (w_events u'). unheard e"
      if "w_db u = w_db w" "w_events u = []" "CreateProperty_body E s u = (Inr y, u')" for u y u'
      using kp assms(3) that unfolding keeps_def by metis
    from unheard_run [OF run this] show ?thesis by (simp add: Inl')
  next
    case Inr': (Inr p)
    obtain u u' where u: "w_db u = w_db w" "w_fresh u = w_fresh w" "CreateProperty_body E s u = (Inr p, u')"
      "w_db v = w_db u'"
      using unheard_success [OF run [unfolded Inr'] kp assms(3)] by auto
    have s: "s\<lparr>ps_ElectricityUnitPrice := Some (case ps_ElectricityUnitPrice s of None \<Rightarrow> 0 | Some p \<Rightarrow> p)\<rparr> = s"
      "property_Rehydrate s = Inr s"
      using property_New_same [OF new] by (cases s; auto)+
    obtain u1 u2 where r: "properties_Create E s u = (Inr p, u1)" "CreatePropertyAccount E (pr_ID p) u1 = (Inr (), u2)"
      "w_db u' = w_db u2"
      using u(3) by (auto simp: CreateProperty_body_def s(1) tx_control record_event_ok)
    note c = property_repo_D(1) [OF r(1)] property_repo_D(2) [OF r(2)]
    then have p: "p = property_columns s (blank_property E (w_fresh w))" "property_checks p"
      "w_db u1 = (w_db w)\<lparr>db_properties := tab_insert p (db_properties (w_db w))\<rparr>"
      by (auto simp: u(1,2))
    define a where "a = \<lparr>pa_ID = e_id E (w_fresh u1), pa_PropertyID = pr_ID p, pa_Version = 1\<rparr>"
    have acc: "w_db v = (w_db w)\<lparr>db_properties := tab_insert p (db_properties (w_db w)),
        db_accounts := tab_insert a (db_accounts (w_db w))\<rparr>"
      using c p(3) by (auto simp: u(4) r(3) a_def)
    have "pr_ID p = e_id E (w_fresh w)" "pr_Version p = 1"
      by (simp_all add: p(1) property_columns_def blank_property_def)
    moreover have "property_ok p" using property_columns_ok(1) [OF s(2)] p(2) by (simp add: p(1))
    ultimately show ?thesis
      using assms(2) by (auto simp: Inr' acc property_ok_def a_def filter_empty_conv)
  qed
qed

lemma property_has_one_account_witness:
  "\<exists>p v. CreateProperty_Execute sample_env (server_publish sample_env) sample_new_property vacant_world = (Inr p, v)
     \<and> (\<exists>a. filter (\<lambda>a. pa_PropertyID a = pr_ID p) (live (db_accounts (w_db v))) = [a])"
proof -
  have ids: "map pa_PropertyID (live (db_accounts (w_db vacant_world))) = [''p1'', ''x'']" "w_fresh vacant_world = 4"
    by code_simp+
  have fresh: "\<forall>a \<in> set (live (db_accounts (w_db vacant_world))). \<forall>n \<ge> w_fresh vacant_world.
      pa_PropertyID a \<noteq> e_id sample_env n"
  proof (intro ballI allI impI notI)
    fix a n assume a: "a \<in> set (live (db_accounts (w_db vacant_world)))" "w_fresh vacant_world \<le> n"
      "pa_PropertyID a = e_id sample_env n"
    have "pa_PropertyID a \<in> set (map pa_PropertyID (live (db_accounts (w_db vacant_world))))" using a(1) by simp
    then have "length (pa_PropertyID a) \<le> 2" unfolding ids(1) by auto
    then show False using a(2) unfolding a(3) ids(2) by (simp add: sample_env_def)
  qed
  have "is_inr (fst (CreateProperty_Execute sample_env (server_publish sample_env) sample_new_property vacant_world))"
    by code_simp
  then obtain p v where run: "CreateProperty_Execute sample_env (server_publish sample_env) sample_new_property vacant_world
      = (Inr p, v)"
    by (metis is_inr_iff prod.collapse)
  then show ?thesis
    using property_has_one_account [OF run fresh vacant_world_ok] by auto
qed

text \<open>A room in maintenance can be neither deleted nor put into maintenance.\<close>

lemma refused_in_maintenance:
  assumes "room_ok m" "rm_Status m = RoomStatusMaintenance" "find_room (rm_ID m) (w_db u) = Some m"
  shows "\<not> is_inr (fst (DeleteRoom_Execute E (server_publish E) (rm_ID m) u))"
    "srm_RoomID input = rm_ID m \<Longrightarrow> \<not> is_inr (fst (SetRoomMaintenance_Execute E (server_publish E) input u))"
proof -
  have id: "trim (rm_ID m) = rm_ID m" using assms(1) by (simp add: room_ok_def RehydrateRoom_same stored_room_def)
  have st: "ms_Status a = RoomStatusMaintenance" if "RehydrateRoom (bare_room m) = Inr a" for a
    using RehydrateRoom_Inr [OF that] assms(1,2)
    by (simp add: bare_room_def room_ok_def RehydrateRoom_same stored_room_def)
  show "\<not> is_inr (fst (DeleteRoom_Execute E (server_publish E) (rm_ID m) u))"
  proof
    assume "is_inr (fst (DeleteRoom_Execute E (server_publish E) (rm_ID m) u))"
    then obtain u' where "DeleteRoom_Execute E (server_publish E) (rm_ID m) u = (Inr (), u')"
      by (metis is_inr_iff prod.collapse old.unit.exhaust)
    then obtain v0 v1 where b: "DeleteRoom_body E (rm_ID m) v0 = (Inr (), v1)" "w_db v0 = w_db u"
      by (auto simp: DeleteRoom_Execute_def Let_def tx_control id dest!: server_run_D)
    then obtain c u1 a where "properties_FindRoomByID (rm_ID m) v0 = (Inr c, u1)" "RehydrateRoom (bare_room c) = Inr a"
      "EnsureRoomDeletable a = Inr ()"
      by (auto simp: DeleteRoom_body_def tx_control)
    then show False
      using room_repo_D(2) [of "rm_ID m" v0 c u1] assms(3) b(2) st
      by (auto simp: EnsureRoomDeletable_def room_statuses split: if_splits)
  qed
  assume h: "srm_RoomID input = rm_ID m"
  show "\<not> is_inr (fst (SetRoomMaintenance_Execute E (server_publish E) input u))"
  proof
    assume "is_inr (fst (SetRoomMaintenance_Execute E (server_publish E) input u))"
    then obtain y u' where "SetRoomMaintenance_Execute E (server_publish E) input u = (Inr y, u')"
      by (metis is_inr_iff prod.collapse)
    then obtain v0 v1 op t s where b: "SetRoomMaintenance_body E (rm_ID m) op t s v0 = (Inr y, v1)" "w_db v0 = w_db u"
      by (auto simp: SetRoomMaintenance_Execute_def Let_def tx_control id h dest!: server_run_D)
    then obtain c u1 a b where "properties_FindRoomByID (rm_ID m) v0 = (Inr c, u1)" "RehydrateRoom (bare_room c) = Inr a"
      "EnterMaintenance a = Inr b"
      by (auto simp: SetRoomMaintenance_body_def maintenance_writes_def tx_control)
    then show False
      using room_repo_D(2) [of "rm_ID m" v0 c u1] assms(3) b(2) st
      by (auto simp: EnterMaintenance_def EnsureCanEnterMaintenance_def room_statuses split: if_splits)
  qed
qed

section \<open>How the maintenance rule is broken\<close>

text \<open>
  C35.  Deleting a repair request strands its room.  When the only active request
  of a room in maintenance is deleted, the room stays in maintenance with no
  active request, and can then be neither deleted nor put into maintenance again.
\<close>

theorem deleting_a_repair_strands_the_room:
  assumes "buildings_ok D (w_db w)" "env_ok E"
    and "m \<in> set (live (db_rooms (w_db w)))" "rm_Status m = RoomStatusMaintenance"
    and "\<forall>r \<in> set (live (db_repairs (w_db w))). rr_RoomID r = rm_ID m \<and> \<not> ended (rr_Status r) \<longrightarrow> rr_ID r = trim k"
    and "DeleteRepair_Execute E (server_publish E) k w = (Inr (), v)"
  shows "m \<in> set (live (db_rooms (w_db v))) \<and> \<not> active_repair (rm_ID m) (w_db v)
    \<and> (\<forall>u. w_db u = w_db v \<longrightarrow>
         \<not> is_inr (fst (DeleteRoom_Execute E (server_publish E) (rm_ID m) u))
         \<and> (\<forall>input. srm_RoomID input = rm_ID m \<longrightarrow>
              \<not> is_inr (fst (SetRoomMaintenance_Execute E (server_publish E) input u))))"
proof -
  obtain i where i: "repair_normalizeRequiredUUID E k ''id'' ErrRepairRequestNotFound_app = Inr i"
    and run: "WithinTransaction (server_publish E) (tx_map_err repair_mapRepositoryError (repo_SoftDelete E i)) w = (Inr (), v)"
    using assms(6) by (auto simp: DeleteRepair_Execute_def tx_control)
  have ik: "i = trim k" using i by (auto simp: repair_normalizeRequiredUUID_def Let_def split: if_splits)
  have del: "w_db u' = (w_db u)\<lparr>db_repairs := tab_retire (\<lambda>r. rr_ID r = i) (\<lambda>r. r\<lparr>rr_UpdatedAt := e_now E\<rparr>) (db_repairs (w_db u))\<rparr>
      \<and> w_events u' = w_events u"
    if "tx_map_err repair_mapRepositoryError (repo_SoftDelete E i) u = (Inr (), u')" for u u'
    using that by (auto simp: repo_SoftDelete_def tx_control stmt_ok)
  have quiet: "\<forall>e \<in> set (w_events u'). unheard e"
    if "w_db u = w_db w" "w_fresh u = w_fresh w" "w_events u = []"
      "tx_map_err repair_mapRepositoryError (repo_SoftDelete E i) u = (Inr y, u')" for u y u'
    using del [of u u'] that by simp
  obtain u u' where "w_db u = w_db w" "w_db v = w_db u'"
    "tx_map_err repair_mapRepositoryError (repo_SoftDelete E i) u = (Inr (), u')"
  proof -
    have "\<exists>u u'. w_db u = w_db w \<and> w_fresh u = w_fresh w \<and> w_events u = []
        \<and> tx_map_err repair_mapRepositoryError (repo_SoftDelete E i) u = (Inr (), u') \<and> w_db v = w_db u'"
      by (rule unheard_run [OF run, unfolded sum.case]) (rule quiet)
    then show ?thesis using that by blast
  qed
  then have v: "w_db v = (w_db w)\<lparr>db_repairs := tab_retire (\<lambda>r. rr_ID r = i) (\<lambda>r. r\<lparr>rr_UpdatedAt := e_now E\<rparr>) (db_repairs (w_db w))\<rparr>"
    using del by simp
  have inactive: "\<not> active_repair (rm_ID m) (w_db v)"
    using assms(5) by (auto simp: v active_repair_def ended_def ik)
  have room: "find_room (rm_ID m) (w_db v) = Some m"
  proof -
    have "find_room (rm_ID m) (w_db w) \<noteq> None" using assms(3) unfolding find_room_def find_None_iff by blast
    then obtain y where y: "find_room (rm_ID m) (w_db w) = Some y" by blast
    then show ?thesis using the_room(4) [OF assms(1) y assms(3)] by (simp add: v find_room_def)
  qed
  have m: "room_ok m" using assms(1,3) by (auto simp: buildings_ok_def rows_ok_def)
  show ?thesis using room inactive refused_in_maintenance [OF m assms(4)] by (auto simp: find_room_def dest: find_Some_filter)
qed

lemma deleting_a_repair_strands_the_room_witness:
  "\<exists>m v. DeleteRepair_Execute sample_env (server_publish sample_env) ''xxxxxx'' maintained_world = (Inr (), v)
     \<and> m \<in> set (live (db_rooms (w_db v))) \<and> rm_Status m = RoomStatusMaintenance
     \<and> \<not> active_repair (rm_ID m) (w_db v)"
proof -
  obtain m where m: "m \<in> set (live (db_rooms (w_db maintained_world)))" "rm_ID m = ''xxxx''"
    "rm_Status m = RoomStatusMaintenance"
    using maintained_room by blast
  have t: "trim ''xxxxxx'' = ''xxxxxx''" by code_simp
  have only: "\<forall>r \<in> set (live (db_repairs (w_db maintained_world))). rr_RoomID r = rm_ID m \<and> \<not> ended (rr_Status r) \<longrightarrow>
      rr_ID r = trim ''xxxxxx''"
  proof -
    have "map rr_ID (live (db_repairs (w_db maintained_world))) = [''xxxxxx'']" by code_simp
    then have "rr_ID ` set (live (db_repairs (w_db maintained_world))) = {''xxxxxx''}"
      by (metis list.set(1,2) set_map)
    then show ?thesis unfolding t by blast
  qed
  have "is_inr (fst (DeleteRepair_Execute sample_env (server_publish sample_env) ''xxxxxx'' maintained_world))"
    by code_simp
  then obtain v where run: "DeleteRepair_Execute sample_env (server_publish sample_env) ''xxxxxx'' maintained_world
      = (Inr (), v)"
    by (metis is_inr_iff prod.collapse old.unit.exhaust)
  show ?thesis
    using deleting_a_repair_strands_the_room [OF building_reach_ok [OF maintained_world_reach sample_env_ok]
        sample_env_ok m(1,3) only run] run m(3) by blast
qed

section \<open>A maintenance that overtakes a lease\<close>

lemma wp_checked [wp_simps]: "wp (checked c P m) Q w \<longleftrightarrow> wp m (\<lambda>r v. P r \<and> Q r v) w"
  by (auto simp: wp_def checked_ok)

text \<open>The writes of \<open>SetRoomMaintenance\<close> check the room they were given, not the
  stored one: they go through whatever the status of the stored room is.\<close>

lemma maintenance_writes_runs:
  assumes "calm w" "room_ok m" "rm_Status m = RoomStatusVacant" "find_room (rm_ID m) (w_db w) \<noteq> None"
  shows "wp (maintenance_writes E op title descr m) (\<lambda>_. calm) w"
proof -
  have r: "RehydrateRoom (bare_room m) = Inr (bare_room m)"
    using assms(2) unfolding room_ok_def RehydrateRoom_same by (simp add: bare_room_def stored_room_def)
  have e: "EnterMaintenance (bare_room m) = Inr ((bare_room m)\<lparr>ms_Status := RoomStatusMaintenance\<rparr>)"
    using assms(3) by (simp add: EnterMaintenance_def EnsureCanEnterMaintenance_def bare_room_def room_statuses)
  obtain y where y: "find_room (rm_ID m) (w_db w) = Some y" using assms(4) by blast
  have c: "room_checks (room_columns E (maintenance_params m b) y)" for b
    by (simp add: room_checks_def room_columns_def maintenance_params_def)
  show ?thesis
    using assms(1) y c
    by (simp add: maintenance_writes_def CreateRepairRequest_def properties_UpdateRoom_def wp_simps r e
        find_room_def maintenance_params_def)
qed

lemma CreateLease_effect:
  assumes "CreateLease_Execute E (server_publish E) input w = (Inr l, w')"
  shows "l_Status l = StatusActive \<and> l_RoomID l = trim (cli_RoomID input)
     \<and> live (db_leases (w_db w')) = live (db_leases (w_db w)) @ [l]
     \<and> db_rooms (w_db w') = db_rooms (set_room_status E (l_RoomID l) ''occupied'' (w_db w))
     \<and> db_repairs (w_db w') = db_repairs (w_db w) \<and> db_properties (w_db w') = db_properties (w_db w)"
proof -
  obtain role where "WithinTransaction (server_publish E) (CreateLease_body E input (trim (cli_TenantID input))
      (trim (cli_RoomID input)) role) w = (Inr l, w')"
    using assms by (auto simp: CreateLease_Execute_def tx_control CreateLease_validate_def Let_def split: if_splits)
  from server_run_D [OF this] obtain v0 v1 where
    body: "w_db v0 = w_db w" "w_events v0 = []"
      "CreateLease_body E input (trim (cli_TenantID input)) (trim (cli_RoomID input)) role v0 = (Inr l, v1)"
      "w_db w' = events_effect E (w_events v1) (w_db v1)"
    by blast
  obtain room state rp ep n m where state: "lease_New (CreateLease_state input (trim (cli_TenantID input))
        (trim (cli_RoomID input)) room) = Inr state"
    and l: "l = new_lease E m (lease_params state (cli_StartingMeterReading input)
        (trimmedOptionalString (cli_Notes input)))"
    and db: "w_db v1 = add_bills (created_bills E n (buildBillSeeds l rp ep)) (add_lease l (w_db w))"
    and ev: "w_events v1 = [LeaseCreated (l_ID l) (l_RoomID l) (l_PropertyID l) (l_TenantID l) (l_StartDate l)
        (l_EndDate l) (l_RentBillingCadence l) (l_ElectricityBillingCadence l) (time_UTC (e_now E))]"
    using CreateLease_body_ok [OF body(3)] body(1,2) by auto
  have "ls_RoomID state = trim (cli_RoomID input)"
    using state by (auto simp: lease_New_def normalizeState_def CreateLease_state_def Let_def split: if_splits)
  then have "l_Status l = StatusActive" "l_RoomID l = trim (cli_RoomID input)"
    by (simp_all add: l new_lease_def lease_params_def lease_consts)
  moreover have "w_db w' = activate_tenant E (l_TenantID l) (set_room_status E (l_RoomID l) ''occupied'' (w_db v1))"
    by (simp add: body(4) ev events_effect_def)
  ultimately show ?thesis
    by (simp add: db activate_tenant_def set_room_status_def add_bills_def add_lease_def)
qed

text \<open>What the maintenance leaves when it was given a room as it was before a lease.\<close>

lemma stale_maintenance:
  assumes ok: "rows_ok d" "m \<in> set (live (db_rooms d))" "env_ok E" "trim t \<noteq> ''''"
    and run: "WithinTransaction (server_publish E) (maintenance_writes E (trim op) (trim t) (trim s) m) w1
      = (Inr (x, q), w2)"
    and w1: "db_rooms (w_db w1) = db_rooms (set_room_status E k ''occupied'' d)" "db_repairs (w_db w1) = db_repairs d"
      "db_properties (w_db w1) = db_properties d"
  shows "rows_ok (w_db w2)" "db_leases (w_db w2) = db_leases (w_db w1)"
    "db_repairs (w_db w2) = tab_insert q (db_repairs d)"
    "\<forall>r \<in> set (live (db_rooms (w_db w2))). rm_ID r = rm_ID m \<longrightarrow> rm_Status r = ''maintenance''"
    "\<exists>n. q = new_repair E n (maintenance_request m (trim op) (trim t) (trim s))"
proof -
  obtain v0 v1 where v: "w_db v0 = w_db w1" "w_events v0 = []"
    "maintenance_writes E (trim op) (trim t) (trim s) m v0 = (Inr (x, q), v1)"
    "w_db w2 = events_effect E (w_events v1) (w_db v1)"
    using server_run_D [OF run] by blast
  obtain a b n where e: "RehydrateRoom (bare_room m) = Inr a" "EnterMaintenance a = Inr b"
    "q = new_repair E n (maintenance_request m (trim op) (trim t) (trim s))"
    "w_db v1 = (w_db w1)\<lparr>db_repairs := tab_insert q (db_repairs (w_db w1)),
          db_rooms := tab_update (\<lambda>r. rm_ID r = rm_ID m) (room_columns E (maintenance_params m b)) (db_rooms (w_db w1))\<rparr>"
    "w_events v1 = [RoomSetToMaintenance (rm_ID m) (rm_PropertyID m) (trim op) (time_UTC (e_now E))]"
    using maintenance_writes_D [OF v(3)] v(1,2) by auto
  have w2: "w_db w2 = w_db v1" by (simp add: v(4) e(5) events_effect_def)
  have m: "room_ok m" using ok(1,2) by (auto simp: rows_ok_def)
  have wf: "repair_wf (row_state q)"
    unfolding e(3) by (rule new_repair_wf)
      (use ok(3,4) m in \<open>simp_all add: maintenance_request_def room_ok_def RehydrateRoom_same stored_room_def env_ok_def\<close>)
  have old: "room_ok r" if "r \<in> set (live (db_rooms (w_db w1)))" for r
    using that ok(1) room_status_ok [of _ "''occupied''"]
    by (auto simp: w1(1) set_room_status_def rows_ok_def split: if_splits)
  note new = room_maintenance_ok [OF old m e(1,2)]
  show "rows_ok (w_db w2)"
    using ok(1) old new(1) wf w1(2,3) by (auto simp: rows_ok_def w2 e(4) split: if_splits)
  show "\<forall>r \<in> set (live (db_rooms (w_db w2))). rm_ID r = rm_ID m \<longrightarrow> rm_Status r = ''maintenance''"
    using new(2) by (auto simp: w2 e(4) room_columns_def split: if_splits)
  show "db_leases (w_db w2) = db_leases (w_db w1)" "db_repairs (w_db w2) = tab_insert q (db_repairs d)"
    "\<exists>n. q = new_repair E n (maintenance_request m (trim op) (trim t) (trim s))"
    using e(3) by (auto simp: w2 e(4) w1(2))
qed

text \<open>Cancelling the only active request of a room in maintenance makes it vacant.\<close>

lemma cancel_releases:
  assumes ok: "rows_ok d" "keys_ok d" and q: "q \<in> set (live (db_repairs d))" "trim (rr_ID q) = rr_ID q"
    and only: "\<forall>r \<in> set (live (db_repairs d)). rr_RoomID r = rr_RoomID q \<and> \<not> ended (rr_Status r) \<longrightarrow> r = q"
    and room: "\<forall>r \<in> set (live (db_rooms d)). rm_ID r = rr_RoomID q \<longrightarrow> rm_Status r = ''maintenance''"
    and run: "Cancel_Execute E (server_publish E) (rr_ID q) why w = (Inr y, v)" "w_db w = d"
  shows "db_leases (w_db v) = db_leases d"
    "\<forall>r \<in> set (live (db_rooms (w_db v))). rm_ID r = rr_RoomID q \<longrightarrow> rm_Status r = ''vacant''"
proof -
  let ?ev = "\<lambda>q. RepairCancelled (rr_ID (rq_row q)) (rr_RoomID (rq_row q)) (rr_PropertyID (rq_row q)) (time_UTC (e_now E))"
  let ?body = "ending E ?ev (rr_ID q) (\<lambda>a. repair_Cancel a (trimOptional why))
      (\<lambda>state. repo_Cancel E (rp_ID state) (rp_CancelReason state))"
  have tx: "WithinTransaction (server_publish E) ?body w = (Inr y, v)"
    using run(1) q(2) unfolding Execute_endings
    by (auto simp: tx_control repair_normalizeRequiredUUID_def Let_def split: if_splits)
  obtain u u' where u: "w_db u = d" "w_events u = []" "?body u = (Inr y, u')" "w_db v = events_effect E (w_events u') (w_db u')"
    using server_run_D [OF tx] run(2) by blast
  have b: "buildings_ok True (w_db u)" using ok by (simp add: u(1) buildings_ok_def)
  define f :: "repair_state \<Rightarrow> repair_row \<Rightarrow> repair_row"
    where "f s = (\<lambda>r. r\<lparr>rr_Status := ''cancelled'', rr_CancelReason := rp_CancelReason s\<rparr>)" for s
  have persist: "repo_Cancel E (rp_ID s) (rp_CancelReason s) = update_repair ''cancel repair request'' E (rp_ID s) (f s)" for s
    by (simp add: repo_Cancel_def f_def)
  obtain r s where r: "repair_by_id (rr_ID q) d = Some r"
    "w_db u' = room_released E (rr_RoomID r) (d\<lparr>db_repairs := tab_update (\<lambda>r. rr_ID r = rr_ID q)
          (\<lambda>r. (f (s\<lparr>rp_ID := rr_ID q\<rparr>) r)\<lparr>rr_UpdatedAt := e_now E\<rparr>) (db_repairs d)\<rparr>)"
    "w_events u' = [?ev y]"
    using ending_D [OF u(3) b persist] u(1,2) by (auto simp: f_def)
  have one: "x = q" if "x \<in> set (live (db_repairs d))" "rr_ID x = rr_ID q" for x
    using ok(2) q(1) that by (auto simp: keys_ok_def distinct_map inj_on_def)
  have "r = q" using r(1) one by (auto simp: repair_by_id_def dest: find_Some_filter)
  moreover have "w_db v = w_db u'" by (simp add: u(4) r(3) events_effect_def)
  moreover have "\<not> active_repair (rr_RoomID q) (d\<lparr>db_repairs := tab_update (\<lambda>r. rr_ID r = rr_ID q)
          (\<lambda>r. (f (s\<lparr>rp_ID := rr_ID q\<rparr>) r)\<lparr>rr_UpdatedAt := e_now E\<rparr>) (db_repairs d)\<rparr>)"
    using only by (auto simp: active_repair_def f_def ended_def split: if_splits)
  ultimately show "db_leases (w_db v) = db_leases d"
    "\<forall>r \<in> set (live (db_rooms (w_db v))). rm_ID r = rr_RoomID q \<longrightarrow> rm_Status r = ''vacant''"
    using room by (auto simp: r(2) room_released_def split: if_splits)
qed

text \<open>
  C34.  A maintenance can overtake a lease.  \<open>SetRoomMaintenance\<close> reads a vacant
  room \<open>m\<close> without a lock; before its writes, a lease of the room is created and
  committed, and no statement fails from then on.  The writes then still go
  through and put the leased room into maintenance; and when the room had no
  active repair request before, cancelling the new one makes the room vacant while
  its lease is active.
\<close>

theorem maintenance_overtakes_a_lease:
  assumes ok: "rows_ok (w_db w)" "env_ok E"
    and read: "find_room i (w_db w) = Some m" "rm_Status m = RoomStatusVacant"
    and lease: "CreateLease_Execute E (server_publish E) input w = (Inr l, w1)" "trim (cli_RoomID input) = i"
    and calm: "calm w1" and title: "trim t \<noteq> ''''"
  shows "\<exists>x q w2. WithinTransaction (server_publish E) (maintenance_writes E (trim op) (trim t) (trim s) m) w1
        = (Inr (x, q), w2)
     \<and> l \<in> set (live (db_leases (w_db w2))) \<and> l_Status l = StatusActive \<and> l_RoomID l = i
     \<and> q \<in> set (live (db_repairs (w_db w2))) \<and> rr_RoomID q = i
     \<and> (\<forall>r \<in> set (live (db_rooms (w_db w2))). rm_ID r = i \<longrightarrow> rm_Status r = RoomStatusMaintenance)
     \<and> (\<forall>why v y w3. keys_ok (w_db w2) \<longrightarrow> \<not> active_repair i (w_db w) \<longrightarrow> w_db v = w_db w2 \<longrightarrow>
          Cancel_Execute E (server_publish E) (rr_ID q) why v = (Inr y, w3) \<longrightarrow>
          l \<in> set (live (db_leases (w_db w3)))
          \<and> (\<forall>r \<in> set (live (db_rooms (w_db w3))). rm_ID r = i \<longrightarrow> rm_Status r = RoomStatusVacant))"
proof -
  have m: "m \<in> set (live (db_rooms (w_db w)))" "rm_ID m = i"
    using read(1) by (auto simp: find_room_def dest: find_Some_filter)
  have mok: "room_ok m" using ok(1) m(1) by (auto simp: rows_ok_def)
  have w1: "l_Status l = StatusActive" "l_RoomID l = i" "live (db_leases (w_db w1)) = live (db_leases (w_db w)) @ [l]"
    "db_rooms (w_db w1) = db_rooms (set_room_status E i ''occupied'' (w_db w))"
    "db_repairs (w_db w1) = db_repairs (w_db w)" "db_properties (w_db w1) = db_properties (w_db w)"
    using CreateLease_effect [OF lease(1)] lease(2) by auto
  have "find_room (rm_ID m) (w_db w1) \<noteq> None"
    using m by (auto simp: find_room_def find_None_iff w1(4) set_room_status_def)
  then have "wp (maintenance_writes E (trim op) (trim t) (trim s) m) (\<lambda>_. calm) ((tick w1)\<lparr>w_events := []\<rparr>)"
    using calm by (intro maintenance_writes_runs [OF _ mok read(2)]) (simp_all)
  from wp_result [OF server_command_runs [OF calm this, of E]] obtain x q w2 where
    run: "WithinTransaction (server_publish E) (maintenance_writes E (trim op) (trim t) (trim s) m) w1 = (Inr (x, q), w2)"
    by auto
  note stale = stale_maintenance [OF ok(1) m(1) ok(2) title run w1(4-6)]
  obtain n where q: "q = new_repair E n (maintenance_request m (trim op) (trim t) (trim s))" using stale(5) by blast
  have qi: "rr_RoomID q = i" "trim (rr_ID q) = rr_ID q" "q \<in> set (live (db_repairs (w_db w2)))"
    using ok(2) by (simp_all add: q new_repair_def maintenance_request_def m(2) env_ok_def stale(3) [unfolded q])
  have cancelled: "l \<in> set (live (db_leases (w_db w3)))
      \<and> (\<forall>r \<in> set (live (db_rooms (w_db w3))). rm_ID r = i \<longrightarrow> rm_Status r = RoomStatusVacant)"
    if h: "keys_ok (w_db w2)" "\<not> active_repair i (w_db w)" "w_db v = w_db w2"
      "Cancel_Execute E (server_publish E) (rr_ID q) why v = (Inr y, w3)" for why v y w3
  proof -
    have only: "\<forall>r \<in> set (live (db_repairs (w_db w2))). rr_RoomID r = rr_RoomID q \<and> \<not> ended (rr_Status r) \<longrightarrow> r = q"
      using h(2) by (auto simp: stale(3) active_repair_def ended_def qi(1))
    have room: "\<forall>r \<in> set (live (db_rooms (w_db w2))). rm_ID r = rr_RoomID q \<longrightarrow> rm_Status r = ''maintenance''"
      using stale(4) by (simp add: m(2) qi(1))
    show ?thesis
      using cancel_releases [OF stale(1) h(1) qi(3,2) only room h(4,3)] w1(3)
      by (simp add: qi(1) stale(2) room_statuses)
  qed
  show ?thesis
    using run w1(1-3) stale(2) qi stale(4) m(2) cancelled
    by (intro exI [of _ x] exI [of _ q] exI [of _ w2]) (simp add: room_statuses)
qed

text \<open>The race, run on the sample office.\<close>

lemma sample_overtaken:
  "case CreateLease_Execute sample_env (server_publish sample_env) sample_create sample_world of (r1, w1) \<Rightarrow>
   case WithinTransaction (server_publish sample_env)
       (maintenance_writes sample_env (trim ''u1'') (trim ''Leak'') (trim ''Tap drips'') sample_room) w1 of (r2, w2) \<Rightarrow>
     is_inr r1 \<and> calm w1
     \<and> (case r2 of Inl _ \<Rightarrow> False | Inr (x, q) \<Rightarrow>
          (case Cancel_Execute sample_env (server_publish sample_env) (rr_ID q) None w2 of (r3, w3) \<Rightarrow>
             is_inr r3 \<and> keys_ok (w_db w2) \<and> map rm_ID (live (db_rooms (w_db w3))) = [''r1'']))"
  by code_simp

lemma maintenance_overtakes_a_lease_witness:
  "\<exists>l w1 x q w2 y w3 r.
     CreateLease_Execute sample_env (server_publish sample_env) sample_create sample_world = (Inr l, w1)
     \<and> WithinTransaction (server_publish sample_env)
         (maintenance_writes sample_env (trim ''u1'') (trim ''Leak'') (trim ''Tap drips'') sample_room) w1 = (Inr (x, q), w2)
     \<and> Cancel_Execute sample_env (server_publish sample_env) (rr_ID q) None w2 = (Inr y, w3)
     \<and> l \<in> set (live (db_leases (w_db w3))) \<and> l_Status l = StatusActive \<and> l_RoomID l = ''r1''
     \<and> live (db_rooms (w_db w3)) = [r] \<and> rm_ID r = ''r1'' \<and> rm_Status r = RoomStatusVacant"
proof -
  obtain r1 w1 r2 w2 where r: "CreateLease_Execute sample_env (server_publish sample_env) sample_create sample_world = (r1, w1)"
    "WithinTransaction (server_publish sample_env)
       (maintenance_writes sample_env (trim ''u1'') (trim ''Leak'') (trim ''Tap drips'') sample_room) w1 = (r2, w2)"
    by fastforce
  note facts = sample_overtaken [unfolded r prod.case]
  obtain l x q where lq: "r1 = Inr l" "r2 = Inr (x, q)" and calm: "calm w1"
    using facts by (auto simp: is_inr_iff split: sum.splits)
  obtain r3 w3 where c: "Cancel_Execute sample_env (server_publish sample_env) (rr_ID q) None w2 = (r3, w3)" by fastforce
  have cc: "is_inr r3" "keys_ok (w_db w2)" "map rm_ID (live (db_rooms (w_db w3))) = [''r1'']"
    using facts by (simp_all add: lq c)
  obtain y where y: "r3 = Inr y" using cc(1) by (auto simp: is_inr_iff)
  obtain room where room: "live (db_rooms (w_db w3)) = [room]" "rm_ID room = ''r1''" using cc(3) by auto
  have start: "rows_ok (w_db sample_world)" "find_room ''r1'' (w_db sample_world) = Some sample_room"
    "rm_Status sample_room = RoomStatusVacant" "trim (cli_RoomID sample_create) = ''r1''" "trim ''Leak'' \<noteq> ''''"
    "\<not> active_repair ''r1'' (w_db sample_world)"
    by code_simp+
  show ?thesis
    using maintenance_overtakes_a_lease [OF start(1) sample_env_ok start(2,3) r(1) [unfolded lq(1)] start(4) calm start(5),
        of "''u1''" "''Tap drips''"] r c y cc(2) room start(6)
    by (auto simp: lq)
qed

end
