(* ===== verification/GoJson.thy ===== *)
theory GoJson
  imports BillingRepo
begin

text \<open>
  What the program uses of \<open>encoding/json\<close>: times as RFC 3339 text, values that
  pass through a \<open>map[string]interface{}\<close> (every number becomes a \<open>float64\<close>), and
  the decoding into typed fields.  That a time, an integer of at most 52 bits and
  a text come back as they went in is proved in \<open>CheckoutExport\<close>.
\<close>

section \<open>Times as text\<close>

text \<open>\<open>Format(time.RFC3339Nano)\<close>: the fraction without its trailing zeros, the
  offset in hours and minutes.\<close>

definition format_fraction :: "int \<Rightarrow> string" where
  "format_fraction ns =
     (if ns = 0 then '''' else ''.'' @ rev (dropWhile (\<lambda>c. c = CHR ''0'') (rev (digits 9 (nat ns)))))"

definition format_offset :: "int \<Rightarrow> string" where
  "format_offset off =
     (if off = 0 then ''Z''
      else (if off < 0 then ''-'' else ''+'') @ digits 2 (nat (\<bar>off\<bar> div 3600)) @ '':''
        @ digits 2 (nat (\<bar>off\<bar> mod 3600 div 60)))"

definition format_rfc3339 :: "gtime \<Rightarrow> string" where
  "format_rfc3339 t =
    (let s = t_ns t div 1000000000
     in digits 4 (nat (time_year t)) @ ''-'' @ digits 2 (nat (time_month t)) @ ''-''
        @ digits 2 (nat (time_dayOfMonth t)) @ ''T'' @ digits 2 (nat (s div 3600)) @ '':''
        @ digits 2 (nat (s mod 3600 div 60)) @ '':'' @ digits 2 (nat (s mod 60))
        @ format_fraction (t_ns t mod 1000000000) @ format_offset (t_off t))"

text \<open>\<open>MarshalJSON\<close> refuses years of more than four digits and offsets of a day or more.\<close>

definition time_marshals :: "gtime \<Rightarrow> bool" where
  "time_marshals t \<longleftrightarrow> 0 \<le> time_year t \<and> time_year t \<le> 9999 \<and> \<bar>t_off t\<bar> < 86400"

definition json_time :: "gtime \<Rightarrow> jval" where
  "json_time t = JStr (format_rfc3339 t)"

text \<open>Reading \<open>k\<close> digits, and one expected character.\<close>

definition json_digit :: "char \<Rightarrow> bool" where
  "json_digit c \<longleftrightarrow> 48 \<le> (of_char c :: nat) \<and> (of_char c :: nat) \<le> 57"

definition digit_value :: "char \<Rightarrow> nat" where
  "digit_value c = of_char c - 48"

definition decimal_value :: "string \<Rightarrow> nat" where
  "decimal_value s = foldl (\<lambda>n c. 10 * n + digit_value c) 0 s"

definition read_digits :: "nat \<Rightarrow> string \<Rightarrow> (nat \<times> string) option" where
  "read_digits k s =
     (if length (take k s) = k \<and> list_all json_digit (take k s)
      then Some (decimal_value (take k s), drop k s) else None)"

definition read_char :: "char \<Rightarrow> string \<Rightarrow> string option" where
  "read_char c s = (case s of x # xs \<Rightarrow> if x = c then Some xs else None | [] \<Rightarrow> None)"

text \<open>A fraction has at least one digit; those after the ninth are dropped.\<close>

definition read_fraction :: "string \<Rightarrow> (nat \<times> string) option" where
  "read_fraction s =
    (case s of
       c # cs \<Rightarrow>
         if c = CHR ''.'' then
           (let ds = takeWhile json_digit cs
            in if ds = [] then None
               else Some (decimal_value (take 9 (ds @ replicate 9 (CHR ''0''))), dropWhile json_digit cs))
         else Some (0, s)
     | [] \<Rightarrow> Some (0, s))"

definition read_offset :: "string \<Rightarrow> int option" where
  "read_offset s =
    (if s = ''Z'' then Some 0
     else case s of
       c # cs \<Rightarrow>
         if c = CHR ''+'' \<or> c = CHR ''-'' then
           Option.bind (read_digits 2 cs) (\<lambda>(h, r1).
           Option.bind (read_char (CHR '':'') r1) (\<lambda>r2.
           Option.bind (read_digits 2 r2) (\<lambda>(m, r3).
           if r3 = [] \<and> h < 24 \<and> m < 60
           then Some ((if c = CHR ''-'' then - 1 else 1) * (int h * 3600 + int m * 60)) else None)))
         else None
     | [] \<Rightarrow> None)"

text \<open>\<open>daysIn\<close>: the last day of a month.\<close>

definition days_in :: "int \<Rightarrow> int \<Rightarrow> int" where
  "days_in year month = mfirst (12 * year + month) - mfirst (12 * year + month - 1)"

definition parse_rfc3339 :: "string \<Rightarrow> gtime option" where
  "parse_rfc3339 s =
     Option.bind (read_digits 4 s) (\<lambda>(year, s). Option.bind (read_char (CHR ''-'') s) (\<lambda>s.
     Option.bind (read_digits 2 s) (\<lambda>(month, s). Option.bind (read_char (CHR ''-'') s) (\<lambda>s.
     Option.bind (read_digits 2 s) (\<lambda>(day, s). Option.bind (read_char (CHR ''T'') s) (\<lambda>s.
     Option.bind (read_digits 2 s) (\<lambda>(hour, s). Option.bind (read_char (CHR '':'') s) (\<lambda>s.
     Option.bind (read_digits 2 s) (\<lambda>(minute, s). Option.bind (read_char (CHR '':'') s) (\<lambda>s.
     Option.bind (read_digits 2 s) (\<lambda>(second, s). Option.bind (read_fraction s) (\<lambda>(ns, s).
     Option.bind (read_offset s) (\<lambda>off.
       if 1 \<le> month \<and> month \<le> 12 \<and> 1 \<le> day \<and> int day \<le> days_in (int year) (int month)
          \<and> hour < 24 \<and> minute < 60 \<and> second < 60
       then Some (go_date_at (int year) (int month) (int day)
              ((int hour * 3600 + int minute * 60 + int second) * 1000000000 + int ns) off)
       else None)))))))))))))"

section \<open>Values through a map\<close>

text \<open>\<open>json.Marshal\<close> followed by \<open>json.Unmarshal\<close> into an \<open>interface{}\<close>.\<close>

fun via_map :: "jval \<Rightarrow> jval" where
  "via_map (JInt n) = JNum (fl64 (of_int n))"
| "via_map (JNum x) = JNum x"
| "via_map (JStr s) = JStr s"
| "via_map (JBool b) = JBool b"
| "via_map JNull = JNull"
| "via_map (JList vs) = JList (map via_map vs)"
| "via_map (JObj fs) = JObj (map (\<lambda>f. (fst f, via_map (snd f))) fs)"

section \<open>Decoding into typed fields\<close>

definition json_type_error :: gerr where
  "json_type_error = DriverErr ''json: cannot unmarshal''"

text \<open>The integer a \<open>float64\<close> is printed as: the multiple of the highest power of
  ten that reads back as the same \<open>float64\<close>.\<close>

fun shortest_int :: "nat \<Rightarrow> rat \<Rightarrow> int" where
  "shortest_int 0 x = \<lfloor>x\<rfloor>"
| "shortest_int (Suc k) x =
     (let m = round_even (x / 10 ^ Suc k) * 10 ^ Suc k
      in if fl64 (of_int m) = x then m else shortest_int k x)"

definition dec_int :: "jval \<Rightarrow> gerr + int" where
  "dec_int v =
    (case v of
       JInt n \<Rightarrow> Inr n
     | JNum x \<Rightarrow> if x = of_int \<lfloor>x\<rfloor> \<and> is_i64 (shortest_int 20 x)
                 then Inr (shortest_int 20 x) else Inl json_type_error
     | JNull \<Rightarrow> Inr 0
     | _ \<Rightarrow> Inl json_type_error)"

definition dec_string :: "jval \<Rightarrow> gerr + string" where
  "dec_string v = (case v of JStr s \<Rightarrow> Inr s | JNull \<Rightarrow> Inr '''' | _ \<Rightarrow> Inl json_type_error)"

definition dec_bool :: "jval \<Rightarrow> gerr + bool" where
  "dec_bool v = (case v of JBool b \<Rightarrow> Inr b | JNull \<Rightarrow> Inr False | _ \<Rightarrow> Inl json_type_error)"

definition dec_time :: "jval \<Rightarrow> gerr + gtime" where
  "dec_time v =
    (case v of
       JStr s \<Rightarrow> (case parse_rfc3339 s of None \<Rightarrow> Inl json_type_error | Some t \<Rightarrow> Inr t)
     | JNull \<Rightarrow> Inr zero_time
     | _ \<Rightarrow> Inl json_type_error)"

definition dec_map :: "jval \<Rightarrow> gerr + jval option" where
  "dec_map v = (case v of JObj fs \<Rightarrow> Inr (Some v) | JNull \<Rightarrow> Inr None | _ \<Rightarrow> Inl json_type_error)"

text \<open>A pointer field: \<open>null\<close> is nil.\<close>

definition dec_ptr :: "(jval \<Rightarrow> gerr + 'a) \<Rightarrow> jval \<Rightarrow> gerr + 'a option" where
  "dec_ptr dec v = (if v = JNull then Inr None else map_sum id Some (dec v))"

fun dec_all :: "(jval \<Rightarrow> gerr + 'a) \<Rightarrow> jval list \<Rightarrow> gerr + 'a list" where
  "dec_all dec [] = Inr []"
| "dec_all dec (v # vs) =
     (case dec v of Inl e \<Rightarrow> Inl e
      | Inr x \<Rightarrow> (case dec_all dec vs of Inl e \<Rightarrow> Inl e | Inr xs \<Rightarrow> Inr (x # xs)))"

definition dec_list :: "(jval \<Rightarrow> gerr + 'a) \<Rightarrow> jval \<Rightarrow> gerr + 'a list" where
  "dec_list dec v =
     (case v of JList vs \<Rightarrow> dec_all dec vs | JNull \<Rightarrow> Inr [] | _ \<Rightarrow> Inl json_type_error)"

text \<open>Decoding one part after the other, up to the first error.\<close>

definition dec_bind :: "gerr + 'a \<Rightarrow> ('a \<Rightarrow> gerr + 'b) \<Rightarrow> gerr + 'b" where
  "dec_bind m f = (case m of Inl e \<Rightarrow> Inl e | Inr x \<Rightarrow> f x)"

lemma dec_bind_simps [simp]: "dec_bind (Inl e) f = Inl e" "dec_bind (Inr x) f = f x"
  by (simp_all add: dec_bind_def)

text \<open>A field of an object; a missing one keeps its zero value, which is what \<open>null\<close>
  decodes to.\<close>

definition dec_field :: "(string \<times> jval) list \<Rightarrow> string \<Rightarrow> (jval \<Rightarrow> gerr + 'a) \<Rightarrow> gerr + 'a" where
  "dec_field fs k dec = dec (case map_of fs k of None \<Rightarrow> JNull | Some v \<Rightarrow> v)"

end
