(* ===== verification/Checkout.thy ===== *)
theory Checkout
  imports GoJson
begin

text \<open>
  The checkout settlement (application/lease/checkout_settlement.go): the preview
  of what a tenant is charged and paid back at the end of a lease, the
  finalisation of exactly that preview, and the export of the stored
  settlement.  A preview token is the SHA-256 digest of the JSON of everything
  the preview was computed from; the digest is a parameter of the model, a
  function of the JSON value (None when \<open>json.Marshal\<close> fails and nothing is
  hashed).
\<close>

section \<open>Constants and texts\<close>

definition checkoutLineDepositRefund :: string where "checkoutLineDepositRefund = ''deposit_refund''"
definition checkoutLineCleaningFee :: string where "checkoutLineCleaningFee = ''cleaning_fee''"
definition checkoutLineKeyCardLoss :: string where "checkoutLineKeyCardLoss = ''key_card_loss''"
definition checkoutLineOtherFee :: string where "checkoutLineOtherFee = ''other_fee''"
definition checkoutLineElectricSettlement :: string where
  "checkoutLineElectricSettlement = ''electricity_settlement''"
definition checkoutLineRentRefund :: string where "checkoutLineRentRefund = ''rent_refund''"
definition checkoutDirectionRefund :: string where "checkoutDirectionRefund = ''refund''"
definition checkoutDirectionCharge :: string where "checkoutDirectionCharge = ''charge''"
definition checkoutNetRefund :: string where "checkoutNetRefund = ''refund''"
definition checkoutNetPayable :: string where "checkoutNetPayable = ''payable''"
definition checkoutNetZero :: string where "checkoutNetZero = ''zero''"
definition checkoutElectricitySourcePending :: string where
  "checkoutElectricitySourcePending = ''pending_meter_bill''"
definition checkoutElectricitySourceFinal :: string where
  "checkoutElectricitySourceFinal = ''checkout_final_meter''"

lemmas checkout_consts =
  checkoutLineDepositRefund_def checkoutLineCleaningFee_def checkoutLineKeyCardLoss_def
  checkoutLineOtherFee_def checkoutLineElectricSettlement_def checkoutLineRentRefund_def
  checkoutDirectionRefund_def checkoutDirectionCharge_def checkoutNetRefund_def
  checkoutNetPayable_def checkoutNetZero_def checkoutElectricitySourcePending_def
  checkoutElectricitySourceFinal_def

text \<open>The labels and messages, as their UTF-8 bytes.\<close>

definition label_deposit_refund :: string where
  "label_deposit_refund =
     [CHR 0xE6, CHR 0x8A, CHR 0xBC, CHR 0xE9, CHR 0x87, CHR 0x91, CHR 0xE9, CHR 0x80, CHR
      0x80, CHR 0xE9, CHR 0x82, CHR 0x84]"
definition label_cleaning_fee :: string where
  "label_cleaning_fee =
     [CHR 0xE6, CHR 0xB8, CHR 0x85, CHR 0xE6, CHR 0xBD, CHR 0x94, CHR 0xE8, CHR 0xB2, CHR
      0xBB]"
definition label_key_card_loss :: string where
  "label_key_card_loss =
     [CHR 0xE9, CHR 0x96, CHR 0x80, CHR 0xE7, CHR 0xA6, CHR 0x81, CHR 0xE5, CHR 0x8D, CHR
      0xA1, CHR 0x2F, CHR 0xE9, CHR 0x91, CHR 0xB0, CHR 0xE5, CHR 0x8C, CHR 0x99, CHR 0xE9,
      CHR 0x81, CHR 0xBA, CHR 0xE5, CHR 0xA4, CHR 0xB1, CHR 0xE8, CHR 0xB2, CHR 0xBB]"
definition label_other_fee :: string where
  "label_other_fee =
     [CHR 0xE5, CHR 0x85, CHR 0xB6, CHR 0xE4, CHR 0xBB, CHR 0x96, CHR 0xE8, CHR 0xB2, CHR
      0xBB, CHR 0xE7, CHR 0x94, CHR 0xA8]"
definition label_rent_refund :: string where
  "label_rent_refund =
     [CHR 0xE6, CHR 0x9C, CHR 0xAA, CHR 0xE5, CHR 0x88, CHR 0xB0, CHR 0xE6, CHR 0x9C, CHR
      0x9F, CHR 0xE7, CHR 0xA7, CHR 0x9F, CHR 0xE9, CHR 0x87, CHR 0x91, CHR 0xE6, CHR 0x89,
      CHR 0x8B, CHR 0xE5, CHR 0x8B, CHR 0x95, CHR 0xE9, CHR 0x80, CHR 0x80, CHR 0xE5, CHR
      0x9B, CHR 0x9E]"
definition label_electricity :: string where
  "label_electricity =
     [CHR 0xE9, CHR 0x80, CHR 0x80, CHR 0xE7, CHR 0xA7, CHR 0x9F, CHR 0xE9, CHR 0x9B, CHR
      0xBB, CHR 0xE8, CHR 0xB2, CHR 0xBB, CHR 0xE7, CHR 0xB5, CHR 0x90, CHR 0xE7, CHR 0xAE,
      CHR 0x97]"
definition note_rent_refund :: string where
  "note_rent_refund =
     [CHR 0xE7, CHR 0xA7, CHR 0x9F, CHR 0xE9, CHR 0x87, CHR 0x91, CHR 0xE9, CHR 0x80, CHR
      0x80, CHR 0xE5, CHR 0x9B, CHR 0x9E]"
definition reason_separator :: string where
  "reason_separator =
     [CHR 0xE3, CHR 0x80, CHR 0x81]"
definition msg_not_active :: string where
  "msg_not_active =
     [CHR 0xE7, CHR 0xA7, CHR 0x9F, CHR 0xE7, CHR 0xB4, CHR 0x84, CHR 0xE7, CHR 0x8B, CHR
      0x80, CHR 0xE6, CHR 0x85, CHR 0x8B, CHR 0xE4, CHR 0xB8, CHR 0x8D, CHR 0xE5, CHR 0x8F,
      CHR 0xAF, CHR 0xE5, CHR 0x9F, CHR 0xB7, CHR 0xE8, CHR 0xA1, CHR 0x8C, CHR 0xE6, CHR
      0xAD, CHR 0xA3, CHR 0xE5, CHR 0xB8, CHR 0xB8, CHR 0xE9, CHR 0x80, CHR 0x80, CHR 0xE7,
      CHR 0xA7, CHR 0x9F, CHR 0xE7, CHR 0xB5, CHR 0x90, CHR 0xE7, CHR 0xAE, CHR 0x97, CHR
      0xE3, CHR 0x80, CHR 0x82]"
definition msg_not_held :: string where
  "msg_not_held =
     [CHR 0xE6, CHR 0x8A, CHR 0xBC, CHR 0xE9, CHR 0x87, CHR 0x91, CHR 0xE7, CHR 0x8B, CHR
      0x80, CHR 0xE6, CHR 0x85, CHR 0x8B, CHR 0xE4, CHR 0xB8, CHR 0x8D, CHR 0xE6, CHR 0x98,
      CHR 0xAF, CHR 0x20, CHR 0x68, CHR 0x65, CHR 0x6C, CHR 0x64, CHR 0xEF, CHR 0xBC, CHR
      0x8C, CHR 0xE7, CHR 0x84, CHR 0xA1, CHR 0xE6, CHR 0xB3, CHR 0x95, CHR 0xE5, CHR 0x9F,
      CHR 0xB7, CHR 0xE8, CHR 0xA1, CHR 0x8C, CHR 0xE9, CHR 0x80, CHR 0x80, CHR 0xE7, CHR
      0xA7, CHR 0x9F, CHR 0xE7, CHR 0xB5, CHR 0x90, CHR 0xE7, CHR 0xAE, CHR 0x97, CHR 0xE3,
      CHR 0x80, CHR 0x82]"
definition msg_unpaid_bill :: string where
  "msg_unpaid_bill =
     [CHR 0xE7, CHR 0xA7, CHR 0x9F, CHR 0xE7, CHR 0xB4, CHR 0x84, CHR 0xE4, CHR 0xBB, CHR
      0x8D, CHR 0xE6, CHR 0x9C, CHR 0x89, CHR 0xE6, CHR 0x9C, CHR 0xAA, CHR 0xE7, CHR 0xB5,
      CHR 0x90, CHR 0xE6, CHR 0xB8, CHR 0x85, CHR 0xE5, CHR 0xB8, CHR 0xB3, CHR 0xE5, CHR
      0x96, CHR 0xAE, CHR 0xE3, CHR 0x80, CHR 0x82]"
definition msg_pending_meter :: string where
  "msg_pending_meter =
     [CHR 0xE7, CHR 0xA7, CHR 0x9F, CHR 0xE7, CHR 0xB4, CHR 0x84, CHR 0xE4, CHR 0xBB, CHR
      0x8D, CHR 0xE6, CHR 0x9C, CHR 0x89, CHR 0xE5, CHR 0xBE, CHR 0x85, CHR 0xE6, CHR 0x8A,
      CHR 0x84, CHR 0xE8, CHR 0xA1, CHR 0xA8, CHR 0xE5, CHR 0xB8, CHR 0xB3, CHR 0xE5, CHR
      0x96, CHR 0xAE, CHR 0xE3, CHR 0x80, CHR 0x82]"
definition msg_charge_exceeds :: string where
  "msg_charge_exceeds =
     [CHR 0x76, CHR 0x31, CHR 0x20, CHR 0xE9, CHR 0x80, CHR 0x80, CHR 0xE7, CHR 0xA7, CHR
      0x9F, CHR 0xE6, CHR 0x89, CHR 0xA3, CHR 0xE6, CHR 0xAC, CHR 0xBE, CHR 0xE4, CHR 0xB8,
      CHR 0x8D, CHR 0xE5, CHR 0x8F, CHR 0xAF, CHR 0xE8, CHR 0xB6, CHR 0x85, CHR 0xE9, CHR
      0x81, CHR 0x8E, CHR 0xE6, CHR 0x8A, CHR 0xBC, CHR 0xE9, CHR 0x87, CHR 0x91, CHR 0xE9,
      CHR 0x87, CHR 0x91, CHR 0xE9, CHR 0xA1, CHR 0x8D, CHR 0xE3, CHR 0x80, CHR 0x82]"

definition errCheckoutSettlementBlocked :: gerr where
  "errCheckoutSettlementBlocked =
     apperr_New ''CHECKOUT_SETTLEMENT_BLOCKED'' 422 ''Checkout settlement has blockers.''"
definition errCheckoutSettlementStale :: gerr where
  "errCheckoutSettlementStale =
     apperr_New ''CHECKOUT_SETTLEMENT_STALE'' 409 ''Checkout settlement preview is stale.''"
definition errCheckoutSettlementNotFound :: gerr where
  "errCheckoutSettlementNotFound =
     apperr_New ''CHECKOUT_SETTLEMENT_NOT_FOUND'' 404 ''Checkout settlement not found.''"
definition ErrCheckoutElectricityBillNotFound_db :: gerr where
  "ErrCheckoutElectricityBillNotFound_db = Sentinel ''dbleases.ErrCheckoutElectricityBillNotFound''"
definition ErrCheckoutElectricityBillNotFound_app :: gerr where
  "ErrCheckoutElectricityBillNotFound_app = Sentinel ''applease.ErrCheckoutElectricityBillNotFound''"
definition ErrPropertyNotFound_leases :: gerr where
  "ErrPropertyNotFound_leases = Sentinel ''dbleases.ErrPropertyNotFound''"

section \<open>Statements\<close>

record checkout_context =
  cc_Lease :: lease
  cc_PropertyName :: string
  cc_RoomName :: string
  cc_TenantName :: string

text \<open>The lease joined with its live property, room and tenant.\<close>

definition checkout_context_of :: "string \<Rightarrow> db \<Rightarrow> checkout_context option" where
  "checkout_context_of leaseID d =
     Option.bind (lease_by_id leaseID d) (\<lambda>l.
     Option.bind (find (\<lambda>p. pr_ID p = l_PropertyID l) (live (db_properties d))) (\<lambda>p.
     Option.bind (find (\<lambda>r. rm_ID r = l_RoomID l) (live (db_rooms d))) (\<lambda>r.
     map_option (\<lambda>t. \<lparr>cc_Lease = l, cc_PropertyName = pr_Name p, cc_RoomName = rm_Name r,
                      cc_TenantName = tn_Name t\<rparr>)
       (find (\<lambda>t. tn_ID t = l_TenantID l) (live (db_tenants d))))))"

definition findCheckoutSettlementContext :: "string \<Rightarrow> checkout_context tx" where
  "findCheckoutSettlementContext leaseID =
     tx_bind (stmt ''find checkout settlement context'' (\<lambda>_ d. (checkout_context_of leaseID d, d)))
       (\<lambda>r. found_or ErrLeaseNotFound_db r)"

definition a_FindCheckoutSettlementContext :: "string \<Rightarrow> checkout_context tx" where
  "a_FindCheckoutSettlementContext leaseID =
     tx_map_err (adapt ErrLeaseNotFound_db ErrLeaseNotFound_app) (findCheckoutSettlementContext leaseID)"

definition lease_FindPreviousElectricityReading :: "string \<Rightarrow> gtime \<Rightarrow> int tx" where
  "lease_FindPreviousElectricityReading leaseID beforePeriodStart =
     tx_bind (stmt ''find previous electricity reading'' (\<lambda>_ d.
         (map_option (\<lambda>l. previous_reading l beforePeriodStart d) (lease_by_id leaseID d), d)))
       (\<lambda>r. found_or ErrLeaseNotFound_db r)"

definition a_FindPreviousElectricityReading :: "string \<Rightarrow> gtime \<Rightarrow> int tx" where
  "a_FindPreviousElectricityReading leaseID beforePeriodStart =
     tx_map_err (adapt ErrLeaseNotFound_db ErrLeaseNotFound_app)
       (lease_FindPreviousElectricityReading leaseID beforePeriodStart)"

definition lease_FindPropertyElectricityUnitPrice :: "string \<Rightarrow> rat option tx" where
  "lease_FindPropertyElectricityUnitPrice propertyID =
     tx_bind (stmt ''find property electricity unit price'' (\<lambda>_ d.
         (map_option (\<lambda>p. map_option fl64 (pr_ElectricityUnitPrice p))
            (find (\<lambda>p. pr_ID p = propertyID) (live (db_properties d))), d)))
       (\<lambda>r. found_or ErrPropertyNotFound_leases r)"

record settle_electricity_params =
  sep_BillID :: string
  sep_PreviousReading :: int
  sep_CurrentReading :: int
  sep_UnitPrice :: rat
  sep_Amount :: int
  sep_SettledAt :: gtime
  sep_ExpectedVersion :: int

definition metered_and_paid :: "settle_electricity_params \<Rightarrow> bill \<Rightarrow> bill" where
  "metered_and_paid p b =
     b\<lparr>b_MeterPreviousReading := Some (sep_PreviousReading p),
       b_MeterCurrentReading := Some (sep_CurrentReading p),
       b_MeterUnitPrice := Some (numeric4 (sep_UnitPrice p)),
       b_MeterRecordedAt := Some (sep_SettledAt p), b_Amount := Some (sep_Amount p),
       b_PaidAmount := Some (sep_Amount p), b_PaidAt := Some (sep_SettledAt p),
       b_PaymentMethod := Some ''other'', b_Status := ''paid''\<rparr>"

definition settleable :: "settle_electricity_params \<Rightarrow> bill \<Rightarrow> bool" where
  "settleable p b \<longleftrightarrow> b_ID b = sep_BillID p \<and> b_Version b = sep_ExpectedVersion p
     \<and> b_Type b = ''electricity'' \<and> b_Status b = ''pending_meter''"

definition SettleCheckoutElectricityBill :: "env \<Rightarrow> settle_electricity_params \<Rightarrow> unit tx" where
  "SettleCheckoutElectricityBill E p =
     tx_bind (stmt ''settle checkout electricity bill'' (\<lambda>_ d.
         (length (filter (settleable p) (live (db_bills d))),
          update_bills E (settleable p) (metered_and_paid p) d)))
       (\<lambda>affected. tx_reject (affected = 0) ErrCheckoutElectricityBillNotFound_db)"

definition a_SettleCheckoutElectricityBill :: "env \<Rightarrow> settle_electricity_params \<Rightarrow> unit tx" where
  "a_SettleCheckoutElectricityBill E p =
     tx_map_err (adapt ErrCheckoutElectricityBillNotFound_db ErrCheckoutElectricityBillNotFound_app)
       (SettleCheckoutElectricityBill E p)"

section \<open>The settlement\<close>

record checkout_input =
  ci_ActorRole :: string
  ci_AssignedPropertyIDs :: "string list"
  ci_LeaseID :: string
  ci_CheckoutDate :: gtime
  ci_ActualMoveOutDate :: "gtime option"
  ci_Reason :: string
  ci_FinalMeterReading :: "int option"
  ci_CleaningFee :: int
  ci_KeyCardLossFee :: int
  ci_OtherFee :: int
  ci_OtherFeeReason :: "string option"
  ci_ManualRentRefundAmount :: int
  ci_ManualRentRefundReason :: "string option"
  ci_Notes :: "string option"
  ci_PreviewToken :: string

record checkout_line =
  cl_Kind :: string
  cl_Label :: string
  cl_Direction :: string
  cl_Amount :: int
  cl_Description :: "string option"
  cl_SourceRef :: "jval option"

record checkout_blocker =
  cb_Code :: string
  cb_Message :: string
  cb_SourceID :: "string option"

record checkout_warning =
  cw_Code :: string
  cw_Message :: string

record checkout_settlement =
  cs_LeaseID :: string
  cs_PropertyID :: string
  cs_TenantID :: string
  cs_RoomID :: string
  cs_PropertyLabel :: string
  cs_TenantLabel :: string
  cs_RoomLabel :: string
  cs_CheckoutDate :: gtime
  cs_ActualMoveOutDate :: "gtime option"
  cs_Reason :: string
  cs_FinalMeterReading :: "int option"
  cs_ManualRentRefundAmount :: int
  cs_ManualRentRefundReason :: "string option"
  cs_Notes :: "string option"
  cs_Lines :: "checkout_line list"
  cs_Blockers :: "checkout_blocker list"
  cs_Warnings :: "checkout_warning list"
  cs_DepositAmount :: int
  cs_TotalRefund :: int
  cs_TotalCharge :: int
  cs_NetAmount :: int
  cs_NetDirection :: string
  cs_PreviewToken :: "string option"
  cs_ExportAvailable :: bool
  cs_FinalizedAt :: "gtime option"

record checkout_electricity =
  ce_PreviousReading :: int
  ce_CurrentReading :: int
  ce_Usage :: int
  ce_UnitPrice :: rat
  ce_Amount :: int
  ce_SourceBill :: "lease_bill option"
  ce_SourceType :: string

subsection \<open>The input\<close>

definition normalizeCheckoutSettlementInput :: "checkout_input \<Rightarrow> gerr + checkout_input" where
  "normalizeCheckoutSettlementInput input =
    (let bad = (\<lambda>f. Inl (apperr_WithDetails ErrBadRequest (field_detail f)));
         role = to_lower (trim (ci_ActorRole input));
         reason = trim (ci_Reason input);
         refundReason = trimmedStringPtr (ci_ManualRentRefundReason input)
     in if role \<notin> {''admin'', ''organizer'', ''staff''} then Inl ErrForbidden
        else if reason = '''' then bad ''reason''
        else if is_zero_time (ci_CheckoutDate input) then bad ''checkout_date''
        else if (case ci_FinalMeterReading input of None \<Rightarrow> False | Some n \<Rightarrow> n < 0)
          then bad ''final_meter_reading''
        else if ci_CleaningFee input < 0 \<or> ci_KeyCardLossFee input < 0 \<or> ci_OtherFee input < 0
          then Inl errSettlementNegative
        else if ci_ManualRentRefundAmount input < 0 then bad ''manual_rent_refund_amount''
        else if 0 < ci_ManualRentRefundAmount input \<and> refundReason = None
          then bad ''manual_rent_refund_reason''
        else Inr (input\<lparr>ci_ActorRole := role, ci_Reason := reason,
               ci_OtherFeeReason := trimmedStringPtr (ci_OtherFeeReason input),
               ci_ManualRentRefundReason := refundReason,
               ci_ActualMoveOutDate := map_option normalizeDate (ci_ActualMoveOutDate input),
               ci_Notes := trimmedStringPtr (ci_Notes input)\<rparr>))"

definition authorizeCheckoutSettlement :: "string \<Rightarrow> string list \<Rightarrow> string \<Rightarrow> gerr + unit" where
  "authorizeCheckoutSettlement actorRole assignedPropertyIDs propertyID =
    (let role = to_lower (trim actorRole)
     in if role = ''admin'' then Inr ()
        else if role \<in> {''organizer'', ''staff''} \<and> containsAssignedProperty assignedPropertyIDs propertyID
        then Inr () else Inl ErrForbidden)"

subsection \<open>The final meter reading\<close>

text \<open>The loop over the bills: None as soon as a second pending meter bill, one of
  another type or one that does not end on the checkout date is met.\<close>

fun resolvable_loop :: "gtime \<Rightarrow> lease_bill option \<Rightarrow> lease_bill list \<Rightarrow> lease_bill option" where
  "resolvable_loop checkoutDate candidate [] = candidate"
| "resolvable_loop checkoutDate candidate (b # bs) =
    (if bill_Status b \<noteq> StatusPendingMeter then resolvable_loop checkoutDate candidate bs
     else if candidate \<noteq> None then None
     else if bill_Type b \<noteq> TypeElectricity then None
     else if \<not> time_equal checkoutDate (normalizeDate (bill_PeriodEnd b)) then None
     else resolvable_loop checkoutDate (Some b) bs)"

definition checkoutResolvablePendingMeterBill ::
    "lease_bill list \<Rightarrow> checkout_input \<Rightarrow> lease_bill option" where
  "checkoutResolvablePendingMeterBill bills input =
    (if ci_FinalMeterReading input = None then None
     else resolvable_loop (normalizeDate (ci_CheckoutDate input)) None bills)"

definition checkoutPendingMeterBillResolvable ::
    "lease_bill list \<Rightarrow> lease_bill \<Rightarrow> checkout_input \<Rightarrow> bool" where
  "checkoutPendingMeterBillResolvable bills bill input =
    (case checkoutResolvablePendingMeterBill bills input of
       None \<Rightarrow> False | Some r \<Rightarrow> bill_ID r = bill_ID bill)"

definition checkoutElectricityCalculationAllowed :: "lease_bill list \<Rightarrow> checkout_input \<Rightarrow> bool" where
  "checkoutElectricityCalculationAllowed bills input =
    (if ci_FinalMeterReading input = None then False
     else if \<exists>b \<in> set bills. bill_Status b = StatusPendingPayment \<or> bill_Status b = StatusOverdue then False
     else if \<forall>b \<in> set bills. bill_Status b \<noteq> StatusPendingMeter then True
     else checkoutResolvablePendingMeterBill bills input \<noteq> None)"

definition sourceBillID :: "lease_bill option \<Rightarrow> string" where
  "sourceBillID sourceBill =
     (case sourceBill of None \<Rightarrow> ''checkout-electricity-settlement'' | Some b \<Rightarrow> bill_ID b)"

definition mapCheckoutMeterDomainError :: "gerr \<Rightarrow> int \<Rightarrow> int \<Rightarrow> gerr" where
  "mapCheckoutMeterDomainError err previousReading currentReading =
    (if errors_Is err ErrMeterReadingLessThanPrevious
     then apperr_WithDetails (apperr_WithCause ErrBadRequest err)
            (JObj [(''current_reading'', JInt currentReading), (''field'', JStr ''final_meter_reading''),
                   (''previous_reading'', JInt previousReading)])
     else internal_cause err)"

text \<open>The bill snapshot the meter rule is applied to.\<close>

definition checkout_meter_bill :: "lease \<Rightarrow> lease_bill option \<Rightarrow> gtime \<Rightarrow> gtime \<Rightarrow> bill" where
  "checkout_meter_bill l sourceBill beforePeriodStart periodEnd =
     \<lparr>b_ID = sourceBillID sourceBill, b_LeaseID = l_ID l, b_TenantID = l_TenantID l,
      b_RoomID = l_RoomID l, b_PropertyID = l_PropertyID l, b_Type = TypeElectricity,
      b_Amount = None, b_PeriodStart = beforePeriodStart, b_PeriodEnd = periodEnd,
      b_DueDate = zero_time, b_Status = StatusPendingMeter, b_PaymentMethod = None,
      b_PaidAt = None, b_PaidAmount = None, b_MeterPreviousReading = None,
      b_MeterCurrentReading = None, b_MeterUnitPrice = None, b_MeterRecordedAt = None,
      b_WrittenOffReason = None, b_OverdueNoticeCount = 0, b_CreatedAt = zero_time,
      b_UpdatedAt = zero_time, b_Version = 0\<rparr>"

text \<open>A metered state has both readings, the price and the amount, so the
  dereferences are \<open>the\<close>.\<close>

definition electricity_of :: "bill \<Rightarrow> lease_bill option \<Rightarrow> string \<Rightarrow> checkout_electricity option" where
  "electricity_of state sourceBill sourceType =
    (if sourceBill = None \<and> the (b_Amount state) = 0 then None
     else Some \<lparr>ce_PreviousReading = the (b_MeterPreviousReading state),
       ce_CurrentReading = the (b_MeterCurrentReading state),
       ce_Usage = i64 (the (b_MeterCurrentReading state) - the (b_MeterPreviousReading state)),
       ce_UnitPrice = the (b_MeterUnitPrice state), ce_Amount = the (b_Amount state),
       ce_SourceBill = sourceBill, ce_SourceType = sourceType\<rparr>)"

definition calculateCheckoutElectricity ::
    "env \<Rightarrow> checkout_context \<Rightarrow> lease_bill list \<Rightarrow> checkout_input \<Rightarrow> checkout_electricity option tx" where
  "calculateCheckoutElectricity E current bills input =
    (case ci_FinalMeterReading input of
       None \<Rightarrow> tx_return None
     | Some finalReading \<Rightarrow>
         if \<not> checkoutElectricityCalculationAllowed bills input then tx_return None
         else
          (let l = cc_Lease current;
               sourceBill = checkoutResolvablePendingMeterBill bills input;
               beforePeriodStart = (case sourceBill of Some b \<Rightarrow> bill_PeriodStart b
                  | None \<Rightarrow> add_date (normalizeDate (ci_CheckoutDate input)) 0 0 1);
               sourceType = (case sourceBill of Some _ \<Rightarrow> checkoutElectricitySourcePending
                  | None \<Rightarrow> checkoutElectricitySourceFinal)
           in tx_bind (tx_map_err internal_cause
                 (a_FindPreviousElectricityReading (l_ID l) beforePeriodStart)) (\<lambda>previousReading.
              tx_bind (tx_map_err internal_cause
                 (lease_FindPropertyElectricityUnitPrice (l_PropertyID l))) (\<lambda>unitPrice.
              case unitPrice of
                None \<Rightarrow> tx_throw (apperr_WithDetails ErrInternalServerError
                          (field_detail ''electricity_unit_price''))
              | Some price \<Rightarrow>
                  (case RecordMeter (bill_Rehydrate (checkout_meter_bill l sourceBill beforePeriodStart
                           (normalizeDate (ci_CheckoutDate input)))) previousReading finalReading price
                           (time_UTC (e_now E)) of
                     Inl e \<Rightarrow> tx_throw (mapCheckoutMeterDomainError e previousReading finalReading)
                   | Inr state \<Rightarrow> tx_return (electricity_of state sourceBill sourceType))))))"

definition checkoutElectricitySourceRef :: "checkout_electricity \<Rightarrow> jval" where
  "checkoutElectricitySourceRef electricity =
     JObj [(''amount'', JInt (ce_Amount electricity)), (''current_reading'', JInt (ce_CurrentReading electricity)),
       (''final_meter_reading'', JInt (ce_CurrentReading electricity)),
       (''previous_reading'', JInt (ce_PreviousReading electricity)),
       (''source_bill_id'', case ce_SourceBill electricity of None \<Rightarrow> JNull | Some b \<Rightarrow> JStr (bill_ID b)),
       (''source_type'', JStr (ce_SourceType electricity)), (''unit_price'', JNum (ce_UnitPrice electricity)),
       (''usage'', JInt (ce_Usage electricity))]"

subsection \<open>Lines, totals and blockers\<close>

definition plain_line :: "string \<Rightarrow> string \<Rightarrow> string \<Rightarrow> int \<Rightarrow> checkout_line" where
  "plain_line kind label direction amount =
     \<lparr>cl_Kind = kind, cl_Label = label, cl_Direction = direction, cl_Amount = amount,
      cl_Description = None, cl_SourceRef = None\<rparr>"

definition checkout_lines :: "lease \<Rightarrow> checkout_input \<Rightarrow> checkout_electricity option \<Rightarrow> checkout_line list" where
  "checkout_lines l input electricity =
     [plain_line checkoutLineDepositRefund label_deposit_refund checkoutDirectionRefund (l_DepositAmount l)]
     @ (if 0 < ci_CleaningFee input
        then [plain_line checkoutLineCleaningFee label_cleaning_fee checkoutDirectionCharge (ci_CleaningFee input)]
        else [])
     @ (if 0 < ci_KeyCardLossFee input
        then [plain_line checkoutLineKeyCardLoss label_key_card_loss checkoutDirectionCharge
               (ci_KeyCardLossFee input)] else [])
     @ (if 0 < ci_OtherFee input
        then [(plain_line checkoutLineOtherFee label_other_fee checkoutDirectionCharge (ci_OtherFee input))
               \<lparr>cl_Description := ci_OtherFeeReason input\<rparr>] else [])
     @ (if 0 < ci_ManualRentRefundAmount input
        then [(plain_line checkoutLineRentRefund label_rent_refund checkoutDirectionRefund
                 (ci_ManualRentRefundAmount input))
               \<lparr>cl_Description := ci_ManualRentRefundReason input,
                cl_SourceRef := Some (JObj [(''lease_id'', JStr (l_ID l)),
                  (''reason'', JStr (stringValue (ci_ManualRentRefundReason input))),
                  (''type'', JStr ''manual_rent_refund'')])\<rparr>] else [])
     @ (case electricity of
          None \<Rightarrow> []
        | Some e \<Rightarrow> [(plain_line checkoutLineElectricSettlement label_electricity checkoutDirectionCharge
              (ce_Amount e))\<lparr>cl_SourceRef := Some (checkoutElectricitySourceRef e)\<rparr>])"

definition direction_total :: "string \<Rightarrow> checkout_line list \<Rightarrow> int" where
  "direction_total direction lines =
     foldl (\<lambda>n line. if cl_Direction line = direction then i64 (n + cl_Amount line) else n) 0 lines"

definition checkoutSettlementTotals :: "checkout_line list \<Rightarrow> int \<times> int" where
  "checkoutSettlementTotals lines =
     (direction_total checkoutDirectionRefund lines, direction_total checkoutDirectionCharge lines)"

definition checkoutSettlementNet :: "int \<Rightarrow> int \<Rightarrow> string \<times> int" where
  "checkoutSettlementNet totalRefund totalCharge =
    (if totalCharge < totalRefund then (checkoutNetRefund, i64 (totalRefund - totalCharge))
     else if totalRefund < totalCharge then (checkoutNetPayable, i64 (totalCharge - totalRefund))
     else (checkoutNetZero, 0))"

definition blocker :: "string \<Rightarrow> string \<Rightarrow> checkout_blocker" where
  "blocker code message = \<lparr>cb_Code = code, cb_Message = message, cb_SourceID = None\<rparr>"

text \<open>The blocker of one bill, if it has one.\<close>

definition bill_blocker :: "lease_bill list \<Rightarrow> checkout_input \<Rightarrow> lease_bill \<Rightarrow> checkout_blocker list" where
  "bill_blocker bills input b =
    (if bill_Status b \<in> {''pending_payment'', ''overdue''}
     then [(blocker ''unpaid_bill'' msg_unpaid_bill)\<lparr>cb_SourceID := Some (bill_ID b)\<rparr>]
     else if bill_Status b = ''pending_meter'' \<and> \<not> checkoutPendingMeterBillResolvable bills b input
     then [(blocker ''pending_meter'' msg_pending_meter)\<lparr>cb_SourceID := Some (bill_ID b)\<rparr>]
     else [])"

definition checkoutSettlementBlockers ::
    "lease \<Rightarrow> lease_bill list \<Rightarrow> checkout_input \<Rightarrow> checkout_line list \<Rightarrow> checkout_blocker list" where
  "checkoutSettlementBlockers l bills input lines =
    (let checkoutDate = normalizeDate (ci_CheckoutDate input)
     in (if l_Status l \<noteq> StatusActive \<and> l_Status l \<noteq> StatusExpired
         then [blocker ''lease_not_active'' msg_not_active] else [])
        @ (if l_DepositStatus l \<noteq> DepositStatusHeld then [blocker ''deposit_not_held'' msg_not_held] else [])
        @ (if time_before checkoutDate (normalizeDate (l_StartDate l))
           then [blocker ''checkout_date_before_lease_start''
                   ''Checkout effective date cannot be before the lease start date.''] else [])
        @ (if time_before checkoutDate (normalizeDate (l_EndDate l)) \<and> ci_ManualRentRefundReason input = None
           then [blocker ''manual_rent_refund_decision_required''
                   ''Early checkout requires an explicit manual rent refund decision reason; the amount may be 0.'']
           else [])
        @ concat (map (bill_blocker bills input) bills)
        @ (if l_DepositAmount l < snd (checkoutSettlementTotals lines)
           then [blocker ''charge_exceeds_deposit'' msg_charge_exceeds] else []))"

definition checkoutSettlementWarnings :: "lease \<Rightarrow> checkout_input \<Rightarrow> checkout_warning list" where
  "checkoutSettlementWarnings l input = []"

subsection \<open>The preview token\<close>

definition json_ptr :: "('a \<Rightarrow> jval) \<Rightarrow> 'a option \<Rightarrow> jval" where
  "json_ptr f v = (case v of None \<Rightarrow> JNull | Some x \<Rightarrow> f x)"

text \<open>A field with \<open>omitempty\<close>.\<close>

definition json_omit :: "string \<Rightarrow> ('a \<Rightarrow> jval) \<Rightarrow> 'a option \<Rightarrow> (string \<times> jval) list" where
  "json_omit k f v = (case v of None \<Rightarrow> [] | Some x \<Rightarrow> [(k, f x)])"

definition json_line :: "checkout_line \<Rightarrow> jval" where
  "json_line line =
     JObj ([(''kind'', JStr (cl_Kind line)), (''label'', JStr (cl_Label line)),
        (''direction'', JStr (cl_Direction line)), (''amount'', JInt (cl_Amount line))]
       @ json_omit ''description'' JStr (cl_Description line) @ json_omit ''source_ref'' id (cl_SourceRef line))"

definition json_bill :: "lease_bill \<Rightarrow> jval" where
  "json_bill b =
     JObj [(''ID'', JStr (bill_ID b)), (''Type'', JStr (bill_Type b)), (''Status'', JStr (bill_Status b)),
       (''PeriodStart'', json_time (bill_PeriodStart b)), (''PeriodEnd'', json_time (bill_PeriodEnd b)),
       (''Version'', JInt (bill_Version b))]"

definition dateStringValue :: "gtime option \<Rightarrow> string" where
  "dateStringValue value = (case value of None \<Rightarrow> '''' | Some t \<Rightarrow> format_date (normalizeDate t))"

definition token_payload ::
    "lease \<Rightarrow> lease_bill list \<Rightarrow> checkout_input \<Rightarrow> checkout_line list \<Rightarrow> int \<Rightarrow> int \<Rightarrow> jval" where
  "token_payload l bills input lines totalRefund totalCharge =
     JObj [(''actual_move_out_date'', JStr (dateStringValue (ci_ActualMoveOutDate input))),
       (''bills'', JList (map json_bill bills)),
       (''checkout_date'', JStr (format_date (normalizeDate (ci_CheckoutDate input)))),
       (''cleaning_fee'', JInt (ci_CleaningFee input)), (''deposit_amount'', JInt (l_DepositAmount l)),
       (''final_meter'', json_ptr JInt (ci_FinalMeterReading input)),
       (''key_card_fee'', JInt (ci_KeyCardLossFee input)), (''lease_id'', JStr (l_ID l)),
       (''lease_version'', JInt (l_Version l)), (''lines'', JList (map json_line lines)),
       (''manual_rent_refund_amount'', JInt (ci_ManualRentRefundAmount input)),
       (''manual_rent_refund_reason'', JStr (stringValue (ci_ManualRentRefundReason input))),
       (''notes'', JStr (stringValue (ci_Notes input))), (''other_fee'', JInt (ci_OtherFee input)),
       (''other_reason'', JStr (stringValue (ci_OtherFeeReason input))),
       (''reason'', JStr (ci_Reason input)), (''total_charge'', JInt totalCharge),
       (''total_refund'', JInt totalRefund)]"

type_synonym digest = "jval option \<Rightarrow> string"

definition checkoutSettlementToken ::
    "digest \<Rightarrow> lease \<Rightarrow> lease_bill list \<Rightarrow> checkout_input \<Rightarrow> checkout_line list \<Rightarrow> int \<Rightarrow> int \<Rightarrow> string" where
  "checkoutSettlementToken sha l bills input lines totalRefund totalCharge =
     sha (if \<forall>b \<in> set bills. time_marshals (bill_PeriodStart b) \<and> time_marshals (bill_PeriodEnd b)
          then Some (token_payload l bills input lines totalRefund totalCharge) else None)"

definition buildCheckoutSettlement ::
    "digest \<Rightarrow> checkout_context \<Rightarrow> lease_bill list \<Rightarrow> checkout_input \<Rightarrow> checkout_electricity option
      \<Rightarrow> gtime option \<Rightarrow> checkout_settlement" where
  "buildCheckoutSettlement sha current bills input electricity finalizedAt =
    (let l = cc_Lease current;
         lines = checkout_lines l input electricity;
         blockers = checkoutSettlementBlockers l bills input lines;
         (totalRefund, totalCharge) = checkoutSettlementTotals lines;
         (netDirection, netAmount) = checkoutSettlementNet totalRefund totalCharge
     in \<lparr>cs_LeaseID = l_ID l, cs_PropertyID = l_PropertyID l, cs_TenantID = l_TenantID l,
         cs_RoomID = l_RoomID l, cs_PropertyLabel = cc_PropertyName current,
         cs_TenantLabel = cc_TenantName current, cs_RoomLabel = cc_RoomName current,
         cs_CheckoutDate = normalizeDate (ci_CheckoutDate input),
         cs_ActualMoveOutDate = ci_ActualMoveOutDate input, cs_Reason = ci_Reason input,
         cs_FinalMeterReading = ci_FinalMeterReading input,
         cs_ManualRentRefundAmount = ci_ManualRentRefundAmount input,
         cs_ManualRentRefundReason = ci_ManualRentRefundReason input, cs_Notes = ci_Notes input,
         cs_Lines = lines, cs_Blockers = blockers, cs_Warnings = checkoutSettlementWarnings l input,
         cs_DepositAmount = l_DepositAmount l, cs_TotalRefund = totalRefund,
         cs_TotalCharge = totalCharge, cs_NetAmount = netAmount, cs_NetDirection = netDirection,
         cs_PreviewToken = (if blockers = [] \<and> finalizedAt = None
            then Some (checkoutSettlementToken sha l bills input lines totalRefund totalCharge) else None),
         cs_ExportAvailable = (finalizedAt \<noteq> None), cs_FinalizedAt = finalizedAt\<rparr>)"

subsection \<open>Deduction reasons\<close>

fun join_strings :: "string \<Rightarrow> string list \<Rightarrow> string" where
  "join_strings sep [] = ''''"
| "join_strings sep [s] = s"
| "join_strings sep (s # ss) = s @ sep @ join_strings sep ss"

definition line_reason :: "checkout_line \<Rightarrow> string" where
  "line_reason line =
    (case cl_Description line of
       None \<Rightarrow> cl_Label line
     | Some d \<Rightarrow> if trim d = '''' then cl_Label line else cl_Label line @ '': '' @ trim d)"

definition checkoutDeductionReasonExcludingKind :: "checkout_settlement \<Rightarrow> string \<Rightarrow> string option" where
  "checkoutDeductionReasonExcludingKind settlement excludedKind =
    (let reasons = map line_reason (filter (\<lambda>line. cl_Direction line = checkoutDirectionCharge
           \<and> 0 < cl_Amount line \<and> \<not> (excludedKind \<noteq> '''' \<and> cl_Kind line = excludedKind)) (cs_Lines settlement))
     in if reasons = [] then None else Some (join_strings reason_separator reasons))"

definition checkoutDeductionReason :: "checkout_settlement \<Rightarrow> string option" where
  "checkoutDeductionReason settlement = checkoutDeductionReasonExcludingKind settlement ''''"

subsection \<open>The stored settlement\<close>

definition json_blocker :: "checkout_blocker \<Rightarrow> jval" where
  "json_blocker b =
     JObj ([(''code'', JStr (cb_Code b)), (''message'', JStr (cb_Message b))]
       @ json_omit ''source_id'' JStr (cb_SourceID b))"

definition json_warning :: "checkout_warning \<Rightarrow> jval" where
  "json_warning v = JObj [(''code'', JStr (cw_Code v)), (''message'', JStr (cw_Message v))]"

definition json_settlement :: "checkout_settlement \<Rightarrow> jval" where
  "json_settlement s =
     JObj ([(''lease_id'', JStr (cs_LeaseID s)), (''property_id'', JStr (cs_PropertyID s)),
        (''tenant_id'', JStr (cs_TenantID s)), (''room_id'', JStr (cs_RoomID s)),
        (''property_label'', JStr (cs_PropertyLabel s)), (''tenant_label'', JStr (cs_TenantLabel s)),
        (''room_label'', JStr (cs_RoomLabel s)), (''checkout_date'', json_time (cs_CheckoutDate s))]
       @ json_omit ''actual_move_out_date'' json_time (cs_ActualMoveOutDate s)
       @ [(''reason'', JStr (cs_Reason s))]
       @ json_omit ''final_meter_reading'' JInt (cs_FinalMeterReading s)
       @ [(''manual_rent_refund_amount'', JInt (cs_ManualRentRefundAmount s))]
       @ json_omit ''manual_rent_refund_reason'' JStr (cs_ManualRentRefundReason s)
       @ json_omit ''notes'' JStr (cs_Notes s)
       @ [(''lines'', JList (map json_line (cs_Lines s))),
          (''blockers'', JList (map json_blocker (cs_Blockers s))),
          (''warnings'', JList (map json_warning (cs_Warnings s))),
          (''deposit_amount'', JInt (cs_DepositAmount s)), (''total_refund'', JInt (cs_TotalRefund s)),
          (''total_charge'', JInt (cs_TotalCharge s)), (''net_amount'', JInt (cs_NetAmount s)),
          (''net_direction'', JStr (cs_NetDirection s))]
       @ json_omit ''preview_token'' JStr (cs_PreviewToken s)
       @ [(''export_available'', JBool (cs_ExportAvailable s))]
       @ json_omit ''finalized_at'' json_time (cs_FinalizedAt s))"

definition settlement_marshals :: "checkout_settlement \<Rightarrow> bool" where
  "settlement_marshals s \<longleftrightarrow> time_marshals (cs_CheckoutDate s)
     \<and> (\<forall>t \<in> set_option (cs_ActualMoveOutDate s). time_marshals t)
     \<and> (\<forall>t \<in> set_option (cs_FinalizedAt s). time_marshals t)"

definition checkoutSettlementDetailMap :: "checkout_settlement \<Rightarrow> gerr + jval" where
  "checkoutSettlementDetailMap settlement =
    (if settlement_marshals settlement then Inr (via_map (json_settlement settlement))
     else Inl (DriverErr ''json: error calling MarshalJSON for type time.Time''))"

definition dec_object :: "((string \<times> jval) list \<Rightarrow> gerr + 'a) \<Rightarrow> jval \<Rightarrow> gerr + 'a" where
  "dec_object dec v = (case v of JObj fs \<Rightarrow> dec fs | JNull \<Rightarrow> dec [] | _ \<Rightarrow> Inl json_type_error)"

definition dec_line :: "jval \<Rightarrow> gerr + checkout_line" where
  "dec_line = dec_object (\<lambda>fs.
     dec_bind (dec_field fs ''kind'' dec_string) (\<lambda>kind.
     dec_bind (dec_field fs ''label'' dec_string) (\<lambda>label.
     dec_bind (dec_field fs ''direction'' dec_string) (\<lambda>direction.
     dec_bind (dec_field fs ''amount'' dec_int) (\<lambda>amount.
     dec_bind (dec_field fs ''description'' (dec_ptr dec_string)) (\<lambda>description.
     dec_bind (dec_field fs ''source_ref'' dec_map) (\<lambda>source.
     Inr \<lparr>cl_Kind = kind, cl_Label = label, cl_Direction = direction, cl_Amount = amount,
          cl_Description = description, cl_SourceRef = source\<rparr>)))))))"

definition dec_blocker :: "jval \<Rightarrow> gerr + checkout_blocker" where
  "dec_blocker = dec_object (\<lambda>fs.
     dec_bind (dec_field fs ''code'' dec_string) (\<lambda>code.
     dec_bind (dec_field fs ''message'' dec_string) (\<lambda>message.
     dec_bind (dec_field fs ''source_id'' (dec_ptr dec_string)) (\<lambda>source.
     Inr \<lparr>cb_Code = code, cb_Message = message, cb_SourceID = source\<rparr>))))"

definition dec_warning :: "jval \<Rightarrow> gerr + checkout_warning" where
  "dec_warning = dec_object (\<lambda>fs.
     dec_bind (dec_field fs ''code'' dec_string) (\<lambda>code.
     dec_bind (dec_field fs ''message'' dec_string) (\<lambda>message.
     Inr \<lparr>cw_Code = code, cw_Message = message\<rparr>)))"

text \<open>The keys are matched exactly; \<open>encoding/json\<close> also accepts another case, which no
  stored settlement has.\<close>

definition checkoutSettlementFromDetailMap :: "jval \<Rightarrow> gerr + checkout_settlement" where
  "checkoutSettlementFromDetailMap = dec_object (\<lambda>fs.
     dec_bind (dec_field fs ''lease_id'' dec_string) (\<lambda>vLeaseID.
     dec_bind (dec_field fs ''property_id'' dec_string) (\<lambda>vPropertyID.
     dec_bind (dec_field fs ''tenant_id'' dec_string) (\<lambda>vTenantID.
     dec_bind (dec_field fs ''room_id'' dec_string) (\<lambda>vRoomID.
     dec_bind (dec_field fs ''property_label'' dec_string) (\<lambda>vPropertyLabel.
     dec_bind (dec_field fs ''tenant_label'' dec_string) (\<lambda>vTenantLabel.
     dec_bind (dec_field fs ''room_label'' dec_string) (\<lambda>vRoomLabel.
     dec_bind (dec_field fs ''checkout_date'' dec_time) (\<lambda>vCheckoutDate.
     dec_bind (dec_field fs ''actual_move_out_date'' (dec_ptr dec_time)) (\<lambda>vActualMoveOutDate.
     dec_bind (dec_field fs ''reason'' dec_string) (\<lambda>vReason.
     dec_bind (dec_field fs ''final_meter_reading'' (dec_ptr dec_int)) (\<lambda>vFinalMeterReading.
     dec_bind (dec_field fs ''manual_rent_refund_amount'' dec_int) (\<lambda>vManualRentRefundAmount.
     dec_bind (dec_field fs ''manual_rent_refund_reason'' (dec_ptr dec_string)) (\<lambda>vManualRentRefundReason.
     dec_bind (dec_field fs ''notes'' (dec_ptr dec_string)) (\<lambda>vNotes.
     dec_bind (dec_field fs ''lines'' (dec_list dec_line)) (\<lambda>vLines.
     dec_bind (dec_field fs ''blockers'' (dec_list dec_blocker)) (\<lambda>vBlockers.
     dec_bind (dec_field fs ''warnings'' (dec_list dec_warning)) (\<lambda>vWarnings.
     dec_bind (dec_field fs ''deposit_amount'' dec_int) (\<lambda>vDepositAmount.
     dec_bind (dec_field fs ''total_refund'' dec_int) (\<lambda>vTotalRefund.
     dec_bind (dec_field fs ''total_charge'' dec_int) (\<lambda>vTotalCharge.
     dec_bind (dec_field fs ''net_amount'' dec_int) (\<lambda>vNetAmount.
     dec_bind (dec_field fs ''net_direction'' dec_string) (\<lambda>vNetDirection.
     dec_bind (dec_field fs ''preview_token'' (dec_ptr dec_string)) (\<lambda>vPreviewToken.
     dec_bind (dec_field fs ''export_available'' dec_bool) (\<lambda>vExportAvailable.
     dec_bind (dec_field fs ''finalized_at'' (dec_ptr dec_time)) (\<lambda>vFinalizedAt.
     Inr \<lparr>cs_LeaseID = vLeaseID, cs_PropertyID = vPropertyID, cs_TenantID = vTenantID, cs_RoomID =
       vRoomID, cs_PropertyLabel = vPropertyLabel, cs_TenantLabel = vTenantLabel, cs_RoomLabel
       = vRoomLabel, cs_CheckoutDate = vCheckoutDate, cs_ActualMoveOutDate =
       vActualMoveOutDate, cs_Reason = vReason, cs_FinalMeterReading = vFinalMeterReading,
       cs_ManualRentRefundAmount = vManualRentRefundAmount, cs_ManualRentRefundReason =
       vManualRentRefundReason, cs_Notes = vNotes, cs_Lines = vLines, cs_Blockers = vBlockers,
       cs_Warnings = vWarnings, cs_DepositAmount = vDepositAmount, cs_TotalRefund =
       vTotalRefund, cs_TotalCharge = vTotalCharge, cs_NetAmount = vNetAmount, cs_NetDirection
       = vNetDirection, cs_PreviewToken = vPreviewToken, cs_ExportAvailable = vExportAvailable,
       cs_FinalizedAt = vFinalizedAt\<rparr>))))))))))))))))))))))))))"

section \<open>Preview\<close>

definition Checkout_validate :: "env \<Rightarrow> checkout_input \<Rightarrow> gerr + checkout_input" where
  "Checkout_validate E input =
    (case normalizeLeaseID E (ci_LeaseID input) of
       Inl e \<Rightarrow> Inl e
     | Inr leaseID \<Rightarrow>
         map_sum id (\<lambda>normalized. normalized\<lparr>ci_LeaseID := leaseID\<rparr>)
           (normalizeCheckoutSettlementInput input))"

text \<open>What both commands compute before they differ: the context, the bills, the
  electricity and the proposal.\<close>

definition checkout_proposal ::
    "env \<Rightarrow> digest \<Rightarrow> checkout_input \<Rightarrow> (lease \<times> checkout_electricity option \<times> checkout_settlement) tx" where
  "checkout_proposal E sha input =
     tx_bind (tx_map_err mapLeaseLookupError (a_FindCheckoutSettlementContext (ci_LeaseID input))) (\<lambda>current.
     tx_bind (tx_lift (authorizeCheckoutSettlement (ci_ActorRole input) (ci_AssignedPropertyIDs input)
                (l_PropertyID (cc_Lease current)))) (\<lambda>_.
     tx_bind (tx_map_err internal_cause (ListBillsByLeaseIDForUpdate (ci_LeaseID input))) (\<lambda>bills.
     tx_bind (calculateCheckoutElectricity E current bills input) (\<lambda>electricity.
     tx_return (cc_Lease current, electricity,
       buildCheckoutSettlement sha current bills input electricity None)))))"

definition PreviewCheckout_Execute ::
    "env \<Rightarrow> digest \<Rightarrow> (event \<Rightarrow> unit tx) \<Rightarrow> checkout_input \<Rightarrow> checkout_settlement tx" where
  "PreviewCheckout_Execute E sha publish input =
     tx_bind (tx_lift (Checkout_validate E input)) (\<lambda>normalized.
       WithinTransaction publish
         (tx_bind (checkout_proposal E sha normalized) (\<lambda>(_, _, settlement). tx_return settlement)))"

section \<open>Finalise\<close>

definition FinalizeCheckout_validate :: "env \<Rightarrow> checkout_input \<Rightarrow> gerr + checkout_input" where
  "FinalizeCheckout_validate E input =
    (case Checkout_validate E input of
       Inl e \<Rightarrow> Inl e
     | Inr normalized \<Rightarrow>
         (let token = trim (ci_PreviewToken input)
          in if token = '''' then Inl (apperr_WithDetails ErrBadRequest (field_detail ''preview_token''))
             else Inr (normalized\<lparr>ci_PreviewToken := token\<rparr>)))"

definition checkout_split :: "checkout_settlement \<Rightarrow> int \<times> int" where
  "checkout_split proposal =
    (let refund = i64 (cs_DepositAmount proposal - cs_TotalCharge proposal)
     in (if refund < 0 then 0 else refund,
         if cs_DepositAmount proposal < cs_TotalCharge proposal then cs_DepositAmount proposal
         else cs_TotalCharge proposal))"

text \<open>The aggregate is built with the rent cadence of the lease, unlike in the other
  deposit commands.\<close>

definition lease_to_state_checkout :: "lease \<Rightarrow> lease_state" where
  "lease_to_state_checkout l = (lease_to_state_settle l)\<lparr>ls_RentBillingCadence := l_RentBillingCadence l\<rparr>"

definition rent_refund_entry :: "lease \<Rightarrow> checkout_settlement \<Rightarrow> accounting_entry_params" where
  "rent_refund_entry l settlement =
    (let sourceDate = normalizeDate (cs_CheckoutDate settlement);
         description = stringValue (cs_ManualRentRefundReason settlement)
     in \<lparr>aep_PropertyID = l_PropertyID l, aep_Category = ''rent_refund'', aep_AccountingTitleCode = ''4604'',
         aep_Amount = - cs_ManualRentRefundAmount settlement, aep_Description = Some description,
         aep_SourceRef = JObj [(''checkout_date'', JStr (format_date sourceDate)), (''lease_id'', JStr (l_ID l)),
           (''reason'', JStr description), (''type'', JStr ''RentRefunded'')],
         aep_Year = time_year sourceDate, aep_Month = time_month sourceDate,
         aep_SourceDate = Some sourceDate, aep_RoomLabel = None,
         aep_TenantLabel = Some (cs_TenantLabel settlement), aep_PeriodLabel = None,
         aep_DisplayNote = Some (case cs_ManualRentRefundReason settlement of None \<Rightarrow> note_rent_refund
           | Some r \<Rightarrow> r)\<rparr>)"

definition recordRentRefundAccountingEntry :: "deposit_repo \<Rightarrow> lease \<Rightarrow> checkout_settlement \<Rightarrow> unit tx" where
  "recordRentRefundAccountingEntry repo l settlement =
    (if cs_ManualRentRefundAmount settlement = 0 then tx_return ()
     else case repo of
       None \<Rightarrow> tx_throw (apperr_WithDetails ErrInternalServerError
                 (JObj [(''dependency'', JStr ''rent_refund_accounting'')]))
     | Some create \<Rightarrow> tx_map_err mapDepositAccountingError (create (rent_refund_entry l settlement)))"

definition electricity_entry ::
    "lease \<Rightarrow> checkout_settlement \<Rightarrow> checkout_electricity \<Rightarrow> accounting_entry_params" where
  "electricity_entry l settlement e =
    (let sourceDate = normalizeDate (cs_CheckoutDate settlement)
     in \<lparr>aep_PropertyID = l_PropertyID l, aep_Category = ''electricity_payment'',
         aep_AccountingTitleCode = ''4605'', aep_Amount = ce_Amount e,
         aep_Description = Some label_electricity,
         aep_SourceRef = JObj ([(''amount'', JInt (ce_Amount e))]
           @ (case ce_SourceBill e of None \<Rightarrow> [] | Some b \<Rightarrow> [(''bill_id'', JStr (bill_ID b))])
           @ [(''final_meter_reading'', JInt (ce_CurrentReading e)), (''lease_id'', JStr (l_ID l)),
              (''previous_reading'', JInt (ce_PreviousReading e)),
              (''source_bill_id'', case ce_SourceBill e of None \<Rightarrow> JNull | Some b \<Rightarrow> JStr (bill_ID b)),
              (''source_type'', JStr (ce_SourceType e)), (''type'', JStr ''CheckoutElectricitySettled''),
              (''unit_price'', JNum (ce_UnitPrice e)), (''usage'', JInt (ce_Usage e))]),
         aep_Year = time_year sourceDate, aep_Month = time_month sourceDate,
         aep_SourceDate = Some sourceDate, aep_RoomLabel = None,
         aep_TenantLabel = Some (cs_TenantLabel settlement), aep_PeriodLabel = None,
         aep_DisplayNote = Some label_electricity\<rparr>)"

definition settle_params :: "checkout_electricity \<Rightarrow> lease_bill \<Rightarrow> gtime \<Rightarrow> settle_electricity_params" where
  "settle_params e b settledAt =
     \<lparr>sep_BillID = bill_ID b, sep_PreviousReading = ce_PreviousReading e,
      sep_CurrentReading = ce_CurrentReading e, sep_UnitPrice = ce_UnitPrice e,
      sep_Amount = ce_Amount e, sep_SettledAt = settledAt, sep_ExpectedVersion = bill_Version b\<rparr>"

definition settleCheckoutElectricity ::
    "env \<Rightarrow> deposit_repo \<Rightarrow> lease \<Rightarrow> checkout_settlement \<Rightarrow> checkout_electricity \<Rightarrow> gtime \<Rightarrow> unit tx" where
  "settleCheckoutElectricity E repo l settlement e occurredAt =
     tx_bind (case ce_SourceBill e of
         None \<Rightarrow> tx_return ()
       | Some b \<Rightarrow> tx_map_err mapLeaseLookupError
                    (a_SettleCheckoutElectricityBill E (settle_params e b occurredAt))) (\<lambda>_.
     if ce_Amount e = 0 then tx_return ()
     else case repo of
       None \<Rightarrow> tx_throw (apperr_WithDetails ErrInternalServerError
                 (JObj [(''dependency'', JStr ''electricity_accounting'')]))
     | Some create \<Rightarrow> tx_map_err mapDepositAccountingError (create (electricity_entry l settlement e)))"

definition finalized_settlement :: "checkout_settlement \<Rightarrow> gtime \<Rightarrow> checkout_settlement" where
  "finalized_settlement proposal occurredAt =
     proposal\<lparr>cs_FinalizedAt := Some occurredAt, cs_ExportAvailable := True, cs_PreviewToken := None\<rparr>"

text \<open>The part of the deduction booked as such: the electricity has an entry of its own.\<close>

definition booked_deduction :: "int \<Rightarrow> checkout_electricity option \<Rightarrow> int" where
  "booked_deduction deductionAmount electricity =
    (case electricity of
       None \<Rightarrow> deductionAmount
     | Some e \<Rightarrow> (let rest = i64 (deductionAmount - ce_Amount e) in if rest < 0 then 0 else rest))"

definition booked_reason :: "checkout_settlement \<Rightarrow> checkout_electricity option \<Rightarrow> string option" where
  "booked_reason settlement electricity =
     checkoutDeductionReasonExcludingKind settlement
       (case electricity of None \<Rightarrow> '''' | Some _ \<Rightarrow> checkoutLineElectricSettlement)"

definition checkout_books ::
    "env \<Rightarrow> deposit_repo \<Rightarrow> lease \<Rightarrow> checkout_settlement \<Rightarrow> checkout_electricity option \<Rightarrow> gtime \<Rightarrow> unit tx" where
  "checkout_books E repo settled proposal electricity occurredAt =
    (let (refundAmount, deductionAmount) = checkout_split proposal
     in tx_bind (recordDepositAccountingEntries repo settled refundAmount
                   (booked_deduction deductionAmount electricity)
                   (depositReasonValue (booked_reason proposal electricity)) occurredAt) (\<lambda>_.
        tx_bind (recordRentRefundAccountingEntry repo settled proposal) (\<lambda>_.
        case electricity of
          None \<Rightarrow> tx_return ()
        | Some e \<Rightarrow> settleCheckoutElectricity E repo settled proposal e occurredAt)))"

definition FinalizeCheckout_body ::
    "env \<Rightarrow> digest \<Rightarrow> deposit_repo \<Rightarrow> checkout_input \<Rightarrow> checkout_settlement tx" where
  "FinalizeCheckout_body E sha repo input =
     tx_bind (checkout_proposal E sha input) (\<lambda>(current, electricity, proposal).
     tx_bind (tx_reject (cs_Blockers proposal \<noteq> []) (apperr_WithDetails errCheckoutSettlementBlocked
                (JObj [(''blockers'', JList (map json_blocker (cs_Blockers proposal)))]))) (\<lambda>_.
     tx_bind (tx_reject (cs_PreviewToken proposal \<noteq> Some (ci_PreviewToken input))
                errCheckoutSettlementStale) (\<lambda>_.
    (let (refundAmount, deductionAmount) = checkout_split proposal;
         deductionReason = checkoutDeductionReason proposal;
         occurredAt = time_UTC (e_now E);
         final = finalized_settlement proposal occurredAt
     in tx_bind (tx_map_err lease_mapDomainError
                   (tx_lift (lease_Rehydrate (lease_to_state_checkout current)))) (\<lambda>aggregate.
        tx_bind (tx_map_err lease_mapDomainError (tx_lift (SettleDeposit aggregate refundAmount
                   deductionAmount deductionReason))) (\<lambda>settledState.
        tx_bind (tx_map_err lease_mapDomainError (tx_lift (Terminate settledState))) (\<lambda>state.
        tx_bind (tx_map_err mapLeaseLookupError (a_SettleDeposit E (ci_LeaseID input)
                   (the (ls_DepositRefundAmount state)) (the (ls_DepositDeductionAmount state))
                   (ls_DepositDeductionReason state))) (\<lambda>settled.
        tx_bind (tx_map_err internal_cause (tx_lift (checkoutSettlementDetailMap final))) (\<lambda>detail.
        tx_bind (tx_map_err mapLeaseLookupError (a_TerminateLease E (ci_LeaseID input)
                   (normalizeDate (ci_CheckoutDate input)) (ci_ActualMoveOutDate input)
                   (ci_Reason input) (Some detail))) (\<lambda>terminatedLease.
        tx_bind (checkout_books E repo settled final electricity occurredAt) (\<lambda>_.
        tx_bind (record_deposit_events settled refundAmount deductionAmount deductionReason occurredAt) (\<lambda>_.
        tx_bind (record_event (LeaseTerminated (l_ID terminatedLease) (l_RoomID terminatedLease)
                   (l_PropertyID terminatedLease) (l_TenantID terminatedLease) False False occurredAt)) (\<lambda>_.
        tx_return final)))))))))))))"

definition FinalizeCheckout_Execute ::
    "env \<Rightarrow> digest \<Rightarrow> deposit_repo \<Rightarrow> (event \<Rightarrow> unit tx) \<Rightarrow> checkout_input \<Rightarrow> checkout_settlement tx" where
  "FinalizeCheckout_Execute E sha repo publish input =
     tx_bind (tx_lift (FinalizeCheckout_validate E input)) (\<lambda>normalized.
       WithinTransaction publish (FinalizeCheckout_body E sha repo normalized))"

section \<open>Export\<close>

text \<open>The stored settlement as the export reads it; the HTML is rendered from it by
  a template.\<close>

definition ExportCheckout_body :: "checkout_input \<Rightarrow> string \<Rightarrow> checkout_settlement tx" where
  "ExportCheckout_body input leaseID =
     tx_bind (tx_map_err mapLeaseLookupError (a_FindCheckoutSettlementContext leaseID)) (\<lambda>current.
     tx_bind (tx_lift (authorizeCheckoutSettlement (ci_ActorRole input) (ci_AssignedPropertyIDs input)
                (l_PropertyID (cc_Lease current)))) (\<lambda>_.
     case l_SettlementDetail (cc_Lease current) of
       None \<Rightarrow> tx_throw errCheckoutSettlementNotFound
     | Some detail \<Rightarrow>
         tx_bind (tx_map_err (\<lambda>e. apperr_WithDetails (internal_cause e)
               (JObj [(''dependency'', JStr ''checkout_settlement_snapshot'')]))
             (tx_lift (checkoutSettlementFromDetailMap detail))) (\<lambda>decoded.
         tx_bind (tx_reject (cs_FinalizedAt decoded = None) errCheckoutSettlementNotFound) (\<lambda>_.
         tx_return decoded))))"

definition ExportCheckout_load ::
    "env \<Rightarrow> (event \<Rightarrow> unit tx) \<Rightarrow> checkout_input \<Rightarrow> checkout_settlement tx" where
  "ExportCheckout_load E publish input =
     tx_bind (tx_lift (normalizeLeaseID E (ci_LeaseID input))) (\<lambda>leaseID.
     tx_bind (tx_reject (trim (ci_ActorRole input) = '''') ErrUnauthorized) (\<lambda>_.
     WithinTransaction publish (ExportCheckout_body input leaseID)))"

end
