(* ===== verification/CheckoutProps.thy ===== *)
theory CheckoutProps
  imports Checkout
begin

text \<open>
  What a checkout settlement does: finalising settles the deposit, books every
  charge and refund once, closes the last meter bill and ends the lease; it
  accepts exactly a preview that still holds.
\<close>

section \<open>The statements\<close>

lemma wp_checkout_queries [wp_simps]:
  "wp (findCheckoutSettlementContext k) P w \<longleftrightarrow> \<not> next_fault w
     \<and> (\<exists>c. checkout_context_of k (w_db w) = Some c \<and> P c (stepped w (w_db w)))"
  "wp (lease_FindPreviousElectricityReading k t) Q w \<longleftrightarrow> \<not> next_fault w
     \<and> (\<exists>l. lease_by_id k (w_db w) = Some l \<and> Q (previous_reading l t (w_db w)) (stepped w (w_db w)))"
  "wp (lease_FindPropertyElectricityUnitPrice p) R w \<longleftrightarrow> \<not> next_fault w
     \<and> (\<exists>r. find (\<lambda>r. pr_ID r = p) (live (db_properties (w_db w))) = Some r
         \<and> R (map_option fl64 (pr_ElectricityUnitPrice r)) (stepped w (w_db w)))"
  unfolding findCheckoutSettlementContext_def lease_FindPreviousElectricityReading_def
    lease_FindPropertyElectricityUnitPrice_def
  by (auto simp: wp_simps)

lemma wp_checkout_adapters [wp_simps]:
  "wp (a_FindCheckoutSettlementContext k) = wp (findCheckoutSettlementContext k)"
  "wp (a_FindPreviousElectricityReading k t) = wp (lease_FindPreviousElectricityReading k t)"
  "wp (a_SettleCheckoutElectricityBill E p) = wp (SettleCheckoutElectricityBill E p)"
  by (simp_all add: fun_eq_iff a_FindCheckoutSettlementContext_def a_FindPreviousElectricityReading_def
      a_SettleCheckoutElectricityBill_def wp_simps)

definition settled_bill :: "env \<Rightarrow> settle_electricity_params \<Rightarrow> db \<Rightarrow> db" where
  "settled_bill E p d = update_bills E (settleable p) (metered_and_paid p) d"

lemma wp_SettleCheckoutElectricityBill [wp_simps]:
  "wp (SettleCheckoutElectricityBill E p) P w \<longleftrightarrow> \<not> next_fault w
     \<and> (\<exists>b \<in> set (live (db_bills (w_db w))). settleable p b) \<and> P () (stepped w (settled_bill E p (w_db w)))"
  unfolding SettleCheckoutElectricityBill_def wp_simps by (auto simp: filter_empty_conv settled_bill_def)

lemma wp_checkout_writes [wp_simps]:
  "wp (a_SettleDeposit E k r d why) = wp (SettleDeposit_repo E k r d why)"
  "wp (a_TerminateLease E k t m y j) = wp (TerminateLease_repo E k t m y j)"
  by (simp_all add: fun_eq_iff a_SettleDeposit_def a_TerminateLease_def wp_simps)

text \<open>A run that succeeded satisfies a weakest precondition, which tells what it did.\<close>

lemma wp_run: "m w = (Inr x, v) \<Longrightarrow> wp m (\<lambda>y u. y = x \<and> u = v) w"
  by (simp add: wp_def)

section \<open>The final meter reading\<close>

text \<open>The electricity billed for a reading: nothing when it is no bill's and costs
  nothing.\<close>

definition read_electricity :: "lease_bill option \<Rightarrow> int \<Rightarrow> int \<Rightarrow> rat \<Rightarrow> checkout_electricity option" where
  "read_electricity src previous reading price =
    (if src = None \<and> meter_amount previous reading price = 0 then None
     else Some \<lparr>ce_PreviousReading = previous, ce_CurrentReading = reading,
       ce_Usage = i64 (reading - previous), ce_UnitPrice = price,
       ce_Amount = meter_amount previous reading price, ce_SourceBill = src,
       ce_SourceType = (case src of None \<Rightarrow> checkoutElectricitySourceFinal
          | Some _ \<Rightarrow> checkoutElectricitySourcePending)\<rparr>)"

definition meter_start :: "checkout_input \<Rightarrow> lease_bill option \<Rightarrow> gtime" where
  "meter_start input src = (case src of Some b \<Rightarrow> bill_PeriodStart b
     | None \<Rightarrow> add_date (normalizeDate (ci_CheckoutDate input)) 0 0 1)"

lemma trim_meter_bill: "trim TypeElectricity = TypeElectricity" "trim StatusPendingMeter = StatusPendingMeter"
  by code_simp+

lemma checkout_RecordMeter:
  "RecordMeter (bill_Rehydrate (checkout_meter_bill l src a e)) p c u t =
     (if c < p then Inl ErrMeterReadingLessThanPrevious
      else Inr ((bill_Rehydrate (checkout_meter_bill l src a e))\<lparr>b_MeterPreviousReading := Some p,
         b_MeterCurrentReading := Some c, b_MeterUnitPrice := Some u, b_MeterRecordedAt := Some t,
         b_Amount := Some (meter_amount p c u), b_Status := StatusPendingPayment\<rparr>))"
  by (simp add: RecordMeter_def bill_Rehydrate_def checkout_meter_bill_def trim_meter_bill)

lemma wp_calculate [wp_simps]:
  "wp (calculateCheckoutElectricity E c bills input) P w \<longleftrightarrow>
    (case ci_FinalMeterReading input of
       None \<Rightarrow> P None w
     | Some n \<Rightarrow>
         if \<not> checkoutElectricityCalculationAllowed bills input then P None w
         else
           let src = checkoutResolvablePendingMeterBill bills input
           in \<not> next_fault w \<and> \<not> next_fault (stepped w (w_db w))
              \<and> (\<exists>l p u. lease_by_id (l_ID (cc_Lease c)) (w_db w) = Some l
                   \<and> find (\<lambda>r. pr_ID r = l_PropertyID (cc_Lease c)) (live (db_properties (w_db w))) = Some p
                   \<and> pr_ElectricityUnitPrice p = Some u
                   \<and> previous_reading l (meter_start input src) (w_db w) \<le> n
                   \<and> P (read_electricity src (previous_reading l (meter_start input src) (w_db w)) n (fl64 u))
                       (stepped (stepped w (w_db w)) (w_db w))))"
proof -
  have throw: "wp (tx_throw e) Q v \<longleftrightarrow> False" for e v and Q :: "'x \<Rightarrow> world \<Rightarrow> bool"
    by (simp add: wp_def tx_throw_def)
  have price: "wp (case p of None \<Rightarrow> tx_throw e | Some u \<Rightarrow> f u) Q v \<longleftrightarrow> (\<exists>u. p = Some u \<and> wp (f u) Q v)"
    for p e v and f :: "rat \<Rightarrow> 'x tx" and Q by (cases p) (simp_all add: throw)
  have meter: "wp (case RecordMeter (bill_Rehydrate (checkout_meter_bill l src a e)) p n u t of
        Inl e \<Rightarrow> tx_throw (f e)
      | Inr s \<Rightarrow> tx_return (electricity_of s src (case src of Some _ \<Rightarrow> checkoutElectricitySourcePending
          | None \<Rightarrow> checkoutElectricitySourceFinal))) P v
      \<longleftrightarrow> p \<le> n \<and> P (read_electricity src p n u) v" for l src a e p n u t f v
    unfolding checkout_RecordMeter
    by (cases src) (auto simp: wp_simps throw electricity_of_def read_electricity_def)
  show ?thesis
    unfolding calculateCheckoutElectricity_def Let_def wp_simps meter_start_def [symmetric] price meter
    by (auto simp: wp_simps price meter simp flip: meter_start_def split: option.splits)
qed

lemma is_i64_amount: "is_i64 (meter_amount p c u)"
proof -
  have "is_i64 (int_of_float f)" for f
  proof (cases "- (2 ^ 63) \<le> f \<and> f < 2 ^ 63")
    case True
    then have "- (2 ^ 63) \<le> \<lfloor>f\<rfloor>" "\<lfloor>f\<rfloor> < 2 ^ 63" "- (2 ^ 63) \<le> \<lceil>f\<rceil>" "0 \<le> f \<or> \<lceil>f\<rceil> \<le> 0"
      by (simp_all add: le_floor_iff floor_less_iff le_ceiling_iff ceiling_le_iff linorder_not_le) linarith+
    then show ?thesis using True by (auto simp: int_of_float_def is_i64_def)
  qed (simp add: int_of_float_def is_i64_def)
  then show ?thesis by (simp add: meter_amount_def Let_def)
qed

text \<open>The pending meter bill that can be settled is the only one of the lease.\<close>

lemma resolvable_loop_Some:
  "resolvable_loop t (Some x) bs = Some r \<Longrightarrow> r = x \<and> (\<forall>b \<in> set bs. bill_Status b \<noteq> StatusPendingMeter)"
  by (induction bs) (auto split: if_splits)

lemma resolvable_loop_None:
  "resolvable_loop t None bs = Some r \<Longrightarrow>
     r \<in> set bs \<and> bill_Status r = StatusPendingMeter \<and> bill_Type r = TypeElectricity
     \<and> (\<forall>b \<in> set bs. bill_Status b = StatusPendingMeter \<longrightarrow> b = r)"
proof (induction bs)
  case (Cons b bs)
  then show ?case using resolvable_loop_Some [of t b bs r]
    by (auto split: if_splits)
qed simp

section \<open>The proposal\<close>

lemma wp_proposal [wp_simps]:
  "wp (checkout_proposal E sha input) P w \<longleftrightarrow> \<not> next_fault w
     \<and> (\<exists>c. checkout_context_of (ci_LeaseID input) (w_db w) = Some c
        \<and> authorizeCheckoutSettlement (ci_ActorRole input) (ci_AssignedPropertyIDs input)
            (l_PropertyID (cc_Lease c)) = Inr ()
        \<and> (let w1 = stepped w (w_db w);
               bills = map bill_view (sort_key (\<lambda>b. (t_day (b_PeriodStart b), b_Type b, b_ID b))
                 (bills_of (ci_LeaseID input) (w_db w)))
           in \<not> next_fault w1 \<and> wp (calculateCheckoutElectricity E c bills input)
                (\<lambda>e. P (cc_Lease c, e, buildCheckoutSettlement sha c bills input e None)) (stepped w1 (w_db w))))"
  unfolding checkout_proposal_def by (auto simp: wp_simps Let_def simp del: wp_calculate)

text \<open>What a checkout reads: the bills of the lease and the electricity of the final
  reading, a function of the database and the input.\<close>

definition lease_bills :: "string \<Rightarrow> db \<Rightarrow> lease_bill list" where
  "lease_bills k d = map bill_view (sort_key (\<lambda>b. (t_day (b_PeriodStart b), b_Type b, b_ID b)) (bills_of k d))"

definition checkout_electricity_ok ::
    "db \<Rightarrow> lease \<Rightarrow> lease_bill list \<Rightarrow> checkout_input \<Rightarrow> checkout_electricity option \<Rightarrow> bool" where
  "checkout_electricity_ok d l bills input e \<longleftrightarrow>
    (case ci_FinalMeterReading input of
       None \<Rightarrow> e = None
     | Some n \<Rightarrow>
         if \<not> checkoutElectricityCalculationAllowed bills input then e = None
         else
           let src = checkoutResolvablePendingMeterBill bills input;
               start = meter_start input src
           in \<exists>k p u. lease_by_id (l_ID l) d = Some k
                \<and> find (\<lambda>r. pr_ID r = l_PropertyID l) (live (db_properties d)) = Some p
                \<and> pr_ElectricityUnitPrice p = Some u \<and> previous_reading k start d \<le> n
                \<and> e = read_electricity src (previous_reading k start d) n (fl64 u))"

lemma proposal_D:
  assumes "checkout_proposal E sha input w = (Inr (l, e, s), v)"
  shows "\<exists>c. checkout_context_of (ci_LeaseID input) (w_db w) = Some c \<and> l = cc_Lease c
     \<and> authorizeCheckoutSettlement (ci_ActorRole input) (ci_AssignedPropertyIDs input) (l_PropertyID l) = Inr ()
     \<and> checkout_electricity_ok (w_db w) l (lease_bills (ci_LeaseID input) (w_db w)) input e
     \<and> s = buildCheckoutSettlement sha c (lease_bills (ci_LeaseID input) (w_db w)) input e None
     \<and> w_db v = w_db w \<and> w_events v = w_events w"
  using wp_run [where m = "checkout_proposal E sha input", OF assms] unfolding wp_proposal wp_calculate
  by (auto simp: checkout_electricity_ok_def lease_bills_def Let_def split: option.splits if_splits)

lemma proposal_runs:
  assumes "calm w" "checkout_context_of (ci_LeaseID input) (w_db w) = Some c"
    and "authorizeCheckoutSettlement (ci_ActorRole input) (ci_AssignedPropertyIDs input)
           (l_PropertyID (cc_Lease c)) = Inr ()"
    and "checkout_electricity_ok (w_db w) (cc_Lease c) (lease_bills (ci_LeaseID input) (w_db w)) input e"
    and "\<And>v. calm v \<Longrightarrow> w_db v = w_db w \<Longrightarrow> w_events v = w_events w \<Longrightarrow>
       P (cc_Lease c, e, buildCheckoutSettlement sha c (lease_bills (ci_LeaseID input) (w_db w)) input e None) v"
  shows "wp (checkout_proposal E sha input) P w"
  unfolding wp_proposal wp_calculate
  using assms by (auto simp: checkout_electricity_ok_def lease_bills_def Let_def split: option.splits if_splits)

lemma context_of_lease:
  "checkout_context_of k d = Some c \<Longrightarrow> lease_by_id k d = Some (cc_Lease c)"
  by (auto simp: checkout_context_of_def bind_eq_Some_conv)

text \<open>The electricity of a checkout is that of the pending meter bill, if there is one
  to settle.\<close>

lemma electricity_source:
  "checkout_electricity_ok d l bills input (Some e) \<Longrightarrow>
     ce_SourceBill e = checkoutResolvablePendingMeterBill bills input \<and> is_i64 (ce_Amount e)
     \<and> (\<exists>n. ci_FinalMeterReading input = Some n \<and> ce_CurrentReading e = n)"
  by (auto simp: checkout_electricity_ok_def read_electricity_def Let_def is_i64_amount
      split: option.splits if_splits)

lemma electricity_resolves:
  "checkout_electricity_ok d l bills input None \<Longrightarrow> checkoutElectricityCalculationAllowed bills input \<Longrightarrow>
     checkoutResolvablePendingMeterBill bills input = None"
  by (auto simp: checkout_electricity_ok_def read_electricity_def Let_def
      checkoutElectricityCalculationAllowed_def split: option.splits if_splits)

section \<open>Totals\<close>

text \<open>The fees, and the amount of the electricity line.\<close>

definition fees :: "checkout_input \<Rightarrow> int" where
  "fees input = ci_CleaningFee input + ci_KeyCardLossFee input + ci_OtherFee input"

definition electricity_amount :: "checkout_electricity option \<Rightarrow> int" where
  "electricity_amount e = (case e of None \<Rightarrow> 0 | Some x \<Rightarrow> ce_Amount x)"

definition valid_amounts :: "checkout_input \<Rightarrow> bool" where
  "valid_amounts input \<longleftrightarrow> 0 \<le> ci_CleaningFee input \<and> 0 \<le> ci_KeyCardLossFee input \<and> 0 \<le> ci_OtherFee input
     \<and> 0 \<le> ci_ManualRentRefundAmount input"

lemma checkout_directions: "checkoutDirectionRefund \<noteq> checkoutDirectionCharge"
  "checkoutDirectionCharge \<noteq> checkoutDirectionRefund"
  by (simp_all add: checkout_consts)

lemma totals:
  assumes "valid_amounts input"
  shows "checkoutSettlementTotals (checkout_lines l input e)
    = (i64 (l_DepositAmount l + ci_ManualRentRefundAmount input), i64 (fees input + electricity_amount e))"
proof -
  have z: "i64 0 = 0" by (simp add: is_i64_def)
  show ?thesis
    using assms unfolding checkoutSettlementTotals_def direction_total_def checkout_lines_def
    by (cases e) (auto simp: plain_line_def checkout_directions fees_def electricity_amount_def
        valid_amounts_def z add.assoc split: option.splits)
qed

section \<open>The books\<close>

definition one_entry :: "bool \<Rightarrow> accounting_entry_params \<Rightarrow> db \<Rightarrow> entry_row list \<Rightarrow> bool" where
  "one_entry c p d es \<longleftrightarrow> (if c then booked p d es else es = [])"

lemma one_entry_view:
  "one_entry c p d es \<Longrightarrow> unique_codes d \<Longrightarrow>
     map entry_view es = (if c then [(aep_Category p, aep_AccountingTitleCode p, aep_Amount p)] else [])
     \<and> (\<forall>e \<in> set es. account_of (aep_PropertyID p) d = Some (en_PropertyAccountID e)
          \<and> en_Year e = aep_Year p \<and> en_Month e = aep_Month p)"
  using booked_one [of p d es] by (auto simp: one_entry_def split: if_splits)

lemma one_entry_cong:
  "db_accounts d = db_accounts d' \<Longrightarrow> db_titles d = db_titles d' \<Longrightarrow> one_entry c p d es = one_entry c p d' es"
  using booked_cong [of d d' p es] by (simp add: one_entry_def)

lemma rent_refund_D:
  "recordRentRefundAccountingEntry (server_deposit_repo E) l s w = (Inr u, v) \<Longrightarrow>
     \<exists>es. one_entry (cs_ManualRentRefundAmount s \<noteq> 0) (rent_refund_entry l s) (w_db w) es
        \<and> w_db v = add_entries es (w_db w) \<and> w_events v = w_events w"
  using CreateDepositAccountingEntry_ok [of E "rent_refund_entry l s" w "()" v]
  by (auto simp: recordRentRefundAccountingEntry_def server_deposit_repo_def one_entry_def tx_control
      add_entries_def split: if_splits)

text \<open>The bills once the meter bill of the checkout, if there is one, is paid.\<close>

definition closed_meter :: "env \<Rightarrow> checkout_electricity option \<Rightarrow> gtime \<Rightarrow> db \<Rightarrow> db" where
  "closed_meter E e t d =
    (case e of None \<Rightarrow> d
     | Some x \<Rightarrow> (case ce_SourceBill x of None \<Rightarrow> d | Some b \<Rightarrow> settled_bill E (settle_params x b t) d))"

lemma closed_meter_simps [simp]:
  "db_accounts (closed_meter E e t d) = db_accounts d" "db_titles (closed_meter E e t d) = db_titles d"
  "db_entries (closed_meter E e t d) = db_entries d" "db_leases (closed_meter E e t d) = db_leases d"
  "db_rooms (closed_meter E e t d) = db_rooms d" "db_tenants (closed_meter E e t d) = db_tenants d"
  "closed_meter E None t d = d"
  by (simp_all add: closed_meter_def settled_bill_def update_bills_def split: option.splits)

lemma SettleBill_D:
  "SettleCheckoutElectricityBill E p w = (Inr u, v) \<Longrightarrow>
     w_db v = settled_bill E p (w_db w) \<and> w_events v = w_events w
     \<and> (\<exists>b \<in> set (live (db_bills (w_db w))). settleable p b)"
  using wp_run [where m = "SettleCheckoutElectricityBill E p" and w = w]
  unfolding wp_SettleCheckoutElectricityBill by auto

lemma settleElectricity_D:
  assumes "settleCheckoutElectricity E (server_deposit_repo E) l s e t w = (Inr u, v)"
  shows "\<exists>es. one_entry (ce_Amount e \<noteq> 0) (electricity_entry l s e) (w_db w) es
        \<and> w_db v = add_entries es (closed_meter E (Some e) t (w_db w)) \<and> w_events v = w_events w"
proof -
  obtain u1 where u1: "w_db u1 = closed_meter E (Some e) t (w_db w)" "w_events u1 = w_events w"
    "(if ce_Amount e = 0 then tx_return () else tx_map_err mapDepositAccountingError
       (CreateDepositAccountingEntry E (electricity_entry l s e))) u1 = (Inr (), v)"
    using assms unfolding settleCheckoutElectricity_def server_deposit_repo_def option.case
    by (cases "ce_SourceBill e")
      (auto simp: tx_control closed_meter_def a_SettleCheckoutElectricityBill_def dest!: SettleBill_D)
  have "one_entry c p (w_db u1) es = one_entry c p (w_db w) es" for c p es
    by (rule one_entry_cong) (simp_all add: u1(1))
  then show ?thesis
    using u1 CreateDepositAccountingEntry_ok [of E "electricity_entry l s e" u1 "()" v]
    by (fastforce simp: one_entry_def tx_control add_entries_def split: if_splits)
qed

text \<open>The entries of a checkout: the deposit settled today, the rent refund and the
  electricity dated on the checkout date.\<close>

definition checkout_entries ::
    "db \<Rightarrow> lease \<Rightarrow> int \<Rightarrow> int \<Rightarrow> int \<Rightarrow> int \<Rightarrow> gtime \<Rightarrow> gtime \<Rightarrow> entry_row list \<Rightarrow> bool" where
  "checkout_entries d l refund deduction rentRefund electricity occurredAt checkoutDate es \<longleftrightarrow>
    (\<exists>es1 es2. es = es1 @ es2 \<and> settlement_entries d l refund deduction occurredAt es1
       \<and> map entry_view es2 =
           (if rentRefund \<noteq> 0 then [(''rent_refund'', ''4604'', - rentRefund)] else [])
           @ (if electricity \<noteq> 0 then [(''electricity_payment'', ''4605'', electricity)] else [])
       \<and> (\<forall>e \<in> set es2. account_of (l_PropertyID l) d = Some (en_PropertyAccountID e)
            \<and> en_Year e = time_year checkoutDate \<and> en_Month e = time_month checkoutDate))"

lemma checkout_books_D:
  assumes "checkout_books E (server_deposit_repo E) l s e t w = (Inr u, v)" "unique_codes (w_db w)"
    and r: "r = fst (checkout_split s)" "0 \<le> r"
    and d: "d = booked_deduction (snd (checkout_split s)) e" "0 \<le> d"
    and date: "normalizeDate (cs_CheckoutDate s) = cs_CheckoutDate s"
  shows "\<exists>es. checkout_entries (w_db w) l r d (cs_ManualRentRefundAmount s) (electricity_amount e) t
         (cs_CheckoutDate s) es
     \<and> w_db v = add_entries es (closed_meter E e t (w_db w)) \<and> w_events v = w_events w"
proof -
  obtain u1 u2 where ops:
    "recordDepositAccountingEntries (server_deposit_repo E) l r d
       (depositReasonValue (booked_reason s e)) t w = (Inr (), u1)"
    "recordRentRefundAccountingEntry (server_deposit_repo E) l s u1 = (Inr (), u2)"
    "(case e of None \<Rightarrow> tx_return () | Some x \<Rightarrow> settleCheckoutElectricity E (server_deposit_repo E) l s x t) u2
       = (Inr (), v)"
    using assms(1) by (auto simp: checkout_books_def tx_control r(1) d(1) case_prod_beta)
  obtain es1 where 1: "settlement_entries (w_db w) l r d t es1" "w_db u1 = add_entries es1 (w_db w)"
    "w_events u1 = w_events w"
    using recordDeposit_D [OF ops(1) r(2) d(2) assms(2)] by blast
  obtain es2 where 2: "one_entry (cs_ManualRentRefundAmount s \<noteq> 0) (rent_refund_entry l s) (w_db u1) es2"
    "w_db u2 = add_entries es2 (w_db u1)" "w_events u2 = w_events w"
    using rent_refund_D [OF ops(2)] 1(3) by auto
  have same: "one_entry c p (w_db u2) es = one_entry c p (w_db w) es"
    "one_entry c p (w_db u1) es = one_entry c p (w_db w) es" for c p es
    by (rule one_entry_cong, simp_all add: 1(2) 2(2))+
  have cm: "closed_meter E x t (add_entries es db) = add_entries es (closed_meter E x t db)" for x es db
    by (simp add: closed_meter_def settled_bill_def update_bills_def add_entries_def split: option.splits)
  obtain es3 where 3: "map entry_view es3 = (if electricity_amount e \<noteq> 0
        then [(''electricity_payment'', ''4605'', electricity_amount e)] else [])"
    "\<forall>x \<in> set es3. account_of (l_PropertyID l) (w_db w) = Some (en_PropertyAccountID x)
        \<and> en_Year x = time_year (cs_CheckoutDate s) \<and> en_Month x = time_month (cs_CheckoutDate s)"
    "w_db v = add_entries es3 (closed_meter E e t (w_db u2))" "w_events v = w_events w"
  proof (cases e)
    case None
    then show ?thesis using ops(3) 2(3) that [of "[]"]
      by (simp add: tx_control electricity_amount_def add_entries_def)
  next
    case (Some x)
    then have "settleCheckoutElectricity E (server_deposit_repo E) l s x t u2 = (Inr (), v)" using ops(3) by simp
    from settleElectricity_D [OF this] obtain es where
      es: "one_entry (ce_Amount x \<noteq> 0) (electricity_entry l s x) (w_db w) es"
      "w_db v = add_entries es (closed_meter E (Some x) t (w_db u2))" "w_events v = w_events w"
      using 2(3) by (auto simp: same)
    then show ?thesis
      using that [of es] one_entry_view [OF es(1) assms(2)] Some
      by (simp add: electricity_amount_def electricity_entry_def Let_def date del: normalizeDate_day_at)
  qed
  have "checkout_entries (w_db w) l r d (cs_ManualRentRefundAmount s) (electricity_amount e) t
      (cs_CheckoutDate s) (es1 @ es2 @ es3)"
    unfolding checkout_entries_def
    using 1(1) 3(1,2) one_entry_view [OF 2(1) [unfolded same] assms(2)]
    by (intro exI [of _ es1] exI [of _ "es2 @ es3"])
      (auto simp: rent_refund_entry_def Let_def date simp del: normalizeDate_day_at)
  moreover have "w_db v = add_entries (es1 @ es2 @ es3) (closed_meter E e t (w_db w))"
    unfolding 3(3) 2(2) 1(2) cm by (simp add: add_entries_def)
  ultimately show ?thesis using 3(4) by blast
qed

section \<open>Finalising\<close>

lemma no_wrap:
  assumes "0 \<le> f" "f < 2 ^ 62" "is_i64 a" "0 \<le> i64 (f + a)"
  shows "i64 (f + a) = f + a"
proof (cases "f + a < 2 ^ 63")
  case True
  then show ?thesis using assms(1,3) by (intro i64_id) (simp add: is_i64_def)
next
  case False
  then have "(f + a + 2 ^ 63) mod 2 ^ 64 = f + a + 2 ^ 63 - 2 ^ 64"
    using assms by (intro int_mod_pos_eq [of _ _ 1]) (simp_all add: is_i64_def)
  then show ?thesis using assms False by (simp add: i64_def is_i64_def)
qed

lemma built [simp]:
  fixes sha c bills input e
  defines "s \<equiv> buildCheckoutSettlement sha c bills input e None"
  shows "cs_Lines s = checkout_lines (cc_Lease c) input e"
    "cs_Blockers s = checkoutSettlementBlockers (cc_Lease c) bills input (checkout_lines (cc_Lease c) input e)"
    "cs_CheckoutDate s = normalizeDate (ci_CheckoutDate input)"
    "cs_ManualRentRefundAmount s = ci_ManualRentRefundAmount input"
    "cs_DepositAmount s = l_DepositAmount (cc_Lease c)"
    "cs_TotalRefund s = fst (checkoutSettlementTotals (checkout_lines (cc_Lease c) input e))"
    "cs_TotalCharge s = snd (checkoutSettlementTotals (checkout_lines (cc_Lease c) input e))"
    "(cs_NetDirection s, cs_NetAmount s) = checkoutSettlementNet (cs_TotalRefund s) (cs_TotalCharge s)"
    "cs_ActualMoveOutDate s = ci_ActualMoveOutDate input" "cs_Reason s = ci_Reason input"
  unfolding s_def buildCheckoutSettlement_def Let_def by (simp_all add: case_prod_beta)

lemma finalized_simps [simp]:
  "cs_Lines (finalized_settlement s t) = cs_Lines s" "cs_CheckoutDate (finalized_settlement s t) = cs_CheckoutDate s"
  "cs_ManualRentRefundAmount (finalized_settlement s t) = cs_ManualRentRefundAmount s"
  "cs_DepositAmount (finalized_settlement s t) = cs_DepositAmount s"
  "cs_TotalRefund (finalized_settlement s t) = cs_TotalRefund s"
  "cs_TotalCharge (finalized_settlement s t) = cs_TotalCharge s"
  "cs_NetAmount (finalized_settlement s t) = cs_NetAmount s"
  "cs_NetDirection (finalized_settlement s t) = cs_NetDirection s"
  "cs_FinalizedAt (finalized_settlement s t) = Some t" "checkout_split (finalized_settlement s t) = checkout_split s"
  by (simp_all add: finalized_settlement_def checkout_split_def)

definition unsettled :: "bill \<Rightarrow> bool" where
  "unsettled b \<longleftrightarrow> b_Status b \<in> {''pending_payment'', ''overdue'', ''pending_meter''}"

lemma no_blockers:
  assumes "checkoutSettlementBlockers l bills input lines = []"
  shows "l_Status l \<in> {''active'', ''expired''}" "l_DepositStatus l = DepositStatusHeld"
    "t_day (l_StartDate l) \<le> t_day (ci_CheckoutDate input) \<or> t_off (l_StartDate l) \<noteq> t_off (ci_CheckoutDate input)"
    "snd (checkoutSettlementTotals lines) \<le> l_DepositAmount l"
    "\<forall>b \<in> set bills. bill_Status b \<notin> {''pending_payment'', ''overdue''}
       \<and> (bill_Status b = ''pending_meter'' \<longrightarrow> checkoutPendingMeterBillResolvable bills b input)"
proof -
  have b: "(if c then [x] else []) = [] \<longleftrightarrow> \<not> c" for c and x :: checkout_blocker by simp
  note e = assms [unfolded checkoutSettlementBlockers_def Let_def append_is_Nil_conv b]
  note e1 = e [THEN conjunct1] and e2 = e [THEN conjunct2]
  note f1 = e2 [THEN conjunct1] and f2 = e2 [THEN conjunct2]
  note g1 = f2 [THEN conjunct1] and g2 = f2 [THEN conjunct2, THEN conjunct2]
  show "l_Status l \<in> {''active'', ''expired''}" using e1 by (simp add: lease_consts)
  show "l_DepositStatus l = DepositStatusHeld" using f1 by simp
  show "t_day (l_StartDate l) \<le> t_day (ci_CheckoutDate input) \<or> t_off (l_StartDate l) \<noteq> t_off (ci_CheckoutDate input)"
    using g1 by (cases "t_off (l_StartDate l) = t_off (ci_CheckoutDate input)") simp_all
  show "snd (checkoutSettlementTotals lines) \<le> l_DepositAmount l"
    using g2 [THEN conjunct2] by simp
  have none: "bill_blocker bills input x = []" if "x \<in> set bills" for x
    using g2 [THEN conjunct1] that by simp
  show "\<forall>b \<in> set bills. bill_Status b \<notin> {''pending_payment'', ''overdue''}
       \<and> (bill_Status b = ''pending_meter'' \<longrightarrow> checkoutPendingMeterBillResolvable bills b input)"
  proof (rule ballI)
    fix x assume "x \<in> set bills"
    from none [OF this] show "bill_Status x \<notin> {''pending_payment'', ''overdue''}
       \<and> (bill_Status x = ''pending_meter'' \<longrightarrow> checkoutPendingMeterBillResolvable bills x input)"
      unfolding bill_blocker_def by (simp split: if_splits)
  qed
qed

definition checkout_ended ::
    "env \<Rightarrow> checkout_input \<Rightarrow> checkout_settlement \<Rightarrow> int \<Rightarrow> int \<Rightarrow> string option \<Rightarrow> db \<Rightarrow> db" where
  "checkout_ended E input s r d why db =
     with_lease E (ci_LeaseID input) (terminated_lease (normalizeDate (ci_CheckoutDate input))
         (ci_ActualMoveOutDate input) (ci_Reason input) (Some (via_map (json_settlement s))))
       (with_lease E (ci_LeaseID input) (settled_lease r d why) db)"

definition checked_out_lease ::
    "env \<Rightarrow> checkout_input \<Rightarrow> checkout_settlement \<Rightarrow> int \<Rightarrow> int \<Rightarrow> string option \<Rightarrow> lease \<Rightarrow> lease" where
  "checked_out_lease E input s r d why l =
     touched E (terminated_lease (normalizeDate (ci_CheckoutDate input))
         (ci_ActualMoveOutDate input) (ci_Reason input) (Some (via_map (json_settlement s))))
       (touched E (settled_lease r d why) l)"

lemma checkout_ended_simps [simp]:
  fixes E input s r d why db
  defines "db' \<equiv> checkout_ended E input s r d why db"
  shows "db_bills db' = db_bills db" "db_entries db' = db_entries db" "db_accounts db' = db_accounts db"
    "db_titles db' = db_titles db" "db_rooms db' = db_rooms db" "db_tenants db' = db_tenants db"
    "lease_by_id (ci_LeaseID input) db'
       = map_option (checked_out_lease E input s r d why) (lease_by_id (ci_LeaseID input) db)"
    "filter (\<lambda>l. l_ID l \<noteq> ci_LeaseID input) (live (db_leases db'))
       = filter (\<lambda>l. l_ID l \<noteq> ci_LeaseID input) (live (db_leases db))"
proof -
  have id: "l_ID (terminated_lease a b c e l) = l_ID l" "l_ID (settled_lease r d why l) = l_ID l" for a b c e l
    by (simp_all add: terminated_lease_def settled_lease_def)
  show "lease_by_id (ci_LeaseID input) db'
       = map_option (checked_out_lease E input s r d why) (lease_by_id (ci_LeaseID input) db)"
    unfolding db'_def checkout_ended_def lease_by_id_with_lease [OF id(1)] lease_by_id_with_lease [OF id(2)]
    by (simp add: checked_out_lease_def [abs_def] map_option.compositionality comp_def)
  show "filter (\<lambda>l. l_ID l \<noteq> ci_LeaseID input) (live (db_leases db'))
       = filter (\<lambda>l. l_ID l \<noteq> ci_LeaseID input) (live (db_leases db))"
    unfolding db'_def checkout_ended_def other_leases_kept [OF id(1)] other_leases_kept [OF id(2)] ..
qed (simp_all add: db'_def checkout_ended_def)

lemma checked_out_simps [simp]:
  fixes E input s r d why l
  defines "l' \<equiv> checked_out_lease E input s r d why l"
  shows "l_ID l' = l_ID l" "l_RoomID l' = l_RoomID l" "l_TenantID l' = l_TenantID l"
    "l_PropertyID l' = l_PropertyID l" "l_Status l' = ''terminated''" "l_DepositStatus l' = ''settled''"
    "l_DepositRefundAmount l' = Some r" "l_DepositDeductionAmount l' = Some d"
    "l_EndDate l' = pg_date (ci_CheckoutDate input)" "l_SettlementDetail l' = Some (via_map (json_settlement s))"
  by (simp_all add: l'_def checked_out_lease_def touched_def settled_lease_def terminated_lease_def
      pg_date_def coalesce_def)

text \<open>The split of the deposit the aggregate accepts, without wrap-around.\<close>

lemma checkout_amounts:
  assumes s: "s = buildCheckoutSettlement sha c bills input e None" "cs_Blockers s = []"
    and ok: "checkout_electricity_ok d (cc_Lease c) bills input e" "valid_amounts input" "fees input < 2 ^ 62"
    and a: "lease_Rehydrate (lease_to_state_checkout (cc_Lease c)) = Inr a"
      "SettleDeposit a (fst (checkout_split s)) (snd (checkout_split s)) why = Inr st"
  shows "cs_TotalCharge s = fees input + electricity_amount e" "0 \<le> cs_TotalCharge s"
    "cs_TotalCharge s \<le> l_DepositAmount (cc_Lease c)"
    "checkout_split s = (l_DepositAmount (cc_Lease c) - cs_TotalCharge s, cs_TotalCharge s)"
    "booked_deduction (cs_TotalCharge s) e = fees input"
    "the (ls_DepositRefundAmount st) = l_DepositAmount (cc_Lease c) - cs_TotalCharge s"
    "the (ls_DepositDeductionAmount st) = cs_TotalCharge s" "ls_Status st = l_Status (cc_Lease c)"
proof -
  let ?l = "cc_Lease c"
  have le: "cs_TotalCharge s \<le> l_DepositAmount ?l"
    using no_blockers(4) [OF s(2) [unfolded s(1) built]] by (simp add: s(1))
  have t: "cs_TotalCharge s = i64 (fees input + electricity_amount e)"
    by (simp add: s(1) totals [OF ok(2)])
  have d: "snd (checkout_split s) = cs_TotalCharge s"
    using le by (simp add: checkout_split_def Let_def s(1))
  have i: "is_i64 (fst (checkout_split s))" "is_i64 (snd (checkout_split s))"
    unfolding d t by (simp_all add: checkout_split_def Let_def is_i64_def [of 0])
  note st = settle_state [OF a i, of ?l]
  have st': "0 \<le> cs_TotalCharge s" "fst (checkout_split s) + cs_TotalCharge s = l_DepositAmount ?l"
    "the (ls_DepositRefundAmount st) = fst (checkout_split s)"
    "the (ls_DepositDeductionAmount st) = cs_TotalCharge s" "ls_Status st = l_Status ?l"
    using st d by (simp_all add: lease_to_state_checkout_def lease_to_state_settle_def)
  have e: "is_i64 (electricity_amount e)"
    using electricity_source ok(1) by (cases e) (auto simp: electricity_amount_def is_i64_def)
  have f: "0 \<le> fees input" using ok(2) by (simp add: fees_def valid_amounts_def)
  show charge: "cs_TotalCharge s = fees input + electricity_amount e"
    using no_wrap [OF f ok(3) e] st'(1) t by simp
  show "0 \<le> cs_TotalCharge s" "cs_TotalCharge s \<le> l_DepositAmount ?l"
    "the (ls_DepositDeductionAmount st) = cs_TotalCharge s" "ls_Status st = l_Status ?l"
    using st' le by simp_all
  show "the (ls_DepositRefundAmount st) = l_DepositAmount ?l - cs_TotalCharge s" using st' by simp
  show "checkout_split s = (l_DepositAmount ?l - cs_TotalCharge s, cs_TotalCharge s)"
    using st'(2) d by (metis add_diff_cancel_right' prod.collapse)
  have "i64 (fees input) = fees input" using f ok(3) by (intro i64_id) (simp add: is_i64_def)
  then show "booked_deduction (cs_TotalCharge s) e = fees input"
    using charge f by (simp add: booked_deduction_def electricity_amount_def split: option.splits)
qed

lemma FinalizeCheckout_body_ok:
  assumes "FinalizeCheckout_body E sha (server_deposit_repo E) input w = (Inr s, v)"
    and "unique_codes (w_db w)" "valid_amounts input" "fees input < 2 ^ 62"
  shows "\<exists>c e pp why es evs.
     checkout_context_of (ci_LeaseID input) (w_db w) = Some c
     \<and> checkout_electricity_ok (w_db w) (cc_Lease c) (lease_bills (ci_LeaseID input) (w_db w)) input e
     \<and> pp = buildCheckoutSettlement sha c (lease_bills (ci_LeaseID input) (w_db w)) input e None
     \<and> cs_Blockers pp = [] \<and> cs_PreviewToken pp = Some (ci_PreviewToken input)
     \<and> s = finalized_settlement pp (time_UTC (e_now E))
     \<and> cs_TotalCharge s = fees input + electricity_amount e
     \<and> 0 \<le> cs_TotalCharge s \<and> cs_TotalCharge s \<le> l_DepositAmount (cc_Lease c)
     \<and> checkout_entries (w_db w) (cc_Lease c) (l_DepositAmount (cc_Lease c) - cs_TotalCharge s) (fees input)
         (ci_ManualRentRefundAmount input) (electricity_amount e) (time_UTC (e_now E))
         (normalizeDate (ci_CheckoutDate input)) es
     \<and> w_db v = add_entries es (closed_meter E e (time_UTC (e_now E))
         (checkout_ended E input s (l_DepositAmount (cc_Lease c) - cs_TotalCharge s) (cs_TotalCharge s) why (w_db w)))
     \<and> w_events v = w_events w @ evs @ [LeaseTerminated (l_ID (cc_Lease c)) (l_RoomID (cc_Lease c))
         (l_PropertyID (cc_Lease c)) (l_TenantID (cc_Lease c)) False False (time_UTC (e_now E))]
     \<and> events_effect E evs = id"
proof -
  let ?t = "time_UTC (e_now E)" and ?k = "ci_LeaseID input"
  obtain l e pp u1 a st u2 u3 settled detail u4 l' u5 where
    ops: "checkout_proposal E sha input w = (Inr (l, e, pp), u1)" "cs_Blockers pp = []"
      "cs_PreviewToken pp = Some (ci_PreviewToken input)"
      "lease_Rehydrate (lease_to_state_checkout l) = Inr a"
      "SettleDeposit a (fst (checkout_split pp)) (snd (checkout_split pp)) (checkoutDeductionReason pp) = Inr st"
      "SettleDeposit_repo E ?k (the (ls_DepositRefundAmount st)) (the (ls_DepositDeductionAmount st))
         (ls_DepositDeductionReason st) u1 = (Inr settled, u2)"
      "checkoutSettlementDetailMap (finalized_settlement pp ?t) = Inr detail"
      "TerminateLease_repo E ?k (normalizeDate (ci_CheckoutDate input)) (ci_ActualMoveOutDate input)
         (ci_Reason input) (Some detail) u2 = (Inr l', u3)"
      "checkout_books E (server_deposit_repo E) settled (finalized_settlement pp ?t) e ?t u3 = (Inr (), u4)"
      "record_deposit_events settled (fst (checkout_split pp)) (snd (checkout_split pp))
         (checkoutDeductionReason pp) ?t u4 = (Inr (), u5)"
      "v = u5\<lparr>w_events := w_events u5 @ [LeaseTerminated (l_ID l') (l_RoomID l') (l_PropertyID l')
         (l_TenantID l') False False ?t]\<rparr>" "s = finalized_settlement pp ?t"
    using assms(1) unfolding FinalizeCheckout_body_def a_SettleDeposit_def a_TerminateLease_def
    by (auto simp: tx_control record_event_ok Let_def case_prod_beta Terminate_def split: if_splits)
  obtain c where c: "checkout_context_of ?k (w_db w) = Some c" "l = cc_Lease c"
    "checkout_electricity_ok (w_db w) (cc_Lease c) (lease_bills ?k (w_db w)) input e"
    "pp = buildCheckoutSettlement sha c (lease_bills ?k (w_db w)) input e None"
    "w_db u1 = w_db w" "w_events u1 = w_events w"
    using proposal_D [OF ops(1)] by blast
  note am = checkout_amounts [OF c(4) ops(2) c(3) assms(3,4) ops(4) [unfolded c(2)] ops(5)]
  let ?r = "l_DepositAmount l - cs_TotalCharge pp" and ?d = "cs_TotalCharge pp"
  have lease: "lease_by_id ?k (w_db w) = Some l" using context_of_lease [OF c(1)] c(2) by simp
  note g = SettleDeposit_repo_D [OF ops(6) [unfolded am(6,7), folded c(2)]]
  note h = TerminateLease_repo_D [OF ops(8)]
  have st: "settled = touched E (settled_lease ?r ?d (ls_DepositDeductionReason st)) l"
    using g c(5) lease by auto
  have det: "detail = via_map (json_settlement s)"
    using ops(7,12) by (simp add: checkoutSettlementDetailMap_def split: if_splits)
  have w3: "w_db u3 = checkout_ended E input s ?r ?d (ls_DepositDeductionReason st) (w_db w)"
    "w_events u3 = w_events w"
    using g h c(5,6) det by (auto simp: checkout_ended_def)
  have id: "l_ID (settled_lease ?r ?d y x) = l_ID x" for x y by (simp add: settled_lease_def)
  have l': "l' = checked_out_lease E input s ?r ?d (ls_DepositDeductionReason st) l"
    using h g c(5) lease lease_by_id_with_lease [of "settled_lease ?r ?d (ls_DepositDeductionReason st)", OF id]
    by (auto simp: checked_out_lease_def det)
  have "\<exists>es. checkout_entries (w_db u3) settled ?r (fees input) (ci_ManualRentRefundAmount input)
         (electricity_amount e) ?t (normalizeDate (ci_CheckoutDate input)) es
       \<and> w_db u4 = add_entries es (closed_meter E e ?t (w_db u3)) \<and> w_events u4 = w_events u3"
  proof -
    have u: "unique_codes (w_db u3)" using assms(2) by (simp add: w3 unique_codes_def)
    have f: "0 \<le> fees input" using assms(3) by (simp add: fees_def valid_amounts_def)
    have sp: "?r = fst (checkout_split (finalized_settlement pp ?t))" "0 \<le> ?r"
      "fees input = booked_deduction (snd (checkout_split (finalized_settlement pp ?t))) e"
      using am(3-5) by (simp_all add: c(2))
    have dt: "normalizeDate (cs_CheckoutDate (finalized_settlement pp ?t))
        = cs_CheckoutDate (finalized_settlement pp ?t)" by (simp add: c(4) day_at_def)
    show ?thesis
      using checkout_books_D [OF ops(9) u sp(1,2,3) f dt] by (simp add: c(4))
  qed
  then obtain es where es: "checkout_entries (w_db u3) settled ?r (fees input) (ci_ManualRentRefundAmount input)
         (electricity_amount e) ?t (normalizeDate (ci_CheckoutDate input)) es"
    "w_db u4 = add_entries es (closed_meter E e ?t (w_db u3))" "w_events u4 = w_events u3" by blast
  have "checkout_entries (w_db w) l ?r (fees input) (ci_ManualRentRefundAmount input)
         (electricity_amount e) ?t (normalizeDate (ci_CheckoutDate input)) es"
    using es(1) by (simp add: checkout_entries_def settlement_entries_def account_of_def w3 st)
  moreover obtain evs where "w_events u5 = w_events w @ evs" "events_effect E evs = id" "w_db u5 = w_db u4"
    using record_deposit_events_D [OF ops(10)] es(3) w3(2)
    by (auto simp: events_effect_def fun_eq_iff)
  ultimately show ?thesis
    using c am(1-3) ops(2,3,11,12) es(2) w3(1) l'
    by (intro exI [of _ c] exI [of _ e] exI [of _ pp] exI [of _ "ls_DepositDeductionReason st"]
        exI [of _ es] exI [of _ evs]) simp
qed

text \<open>After a checkout no bill of the lease is open.\<close>

lemma set_lease_bills: "set (lease_bills k d) = bill_view ` set (bills_of k d)"
  by (simp add: lease_bills_def)

lemma checkout_closes_bills:
  assumes ok: "checkout_electricity_ok d l (lease_bills k d) input e"
    and none: "checkoutSettlementBlockers l (lease_bills k d) input lines = []"
    and b: "b \<in> set (bills_of k (closed_meter E e t d'))" "db_bills d' = db_bills d"
  shows "\<not> unsettled b"
proof -
  let ?bs = "lease_bills k d"
  note nb = no_blockers(5) [OF none]
  have open_bill: "b_Status x = ''pending_meter'' \<and> checkoutResolvablePendingMeterBill ?bs input = Some (bill_view x)"
    if x: "x \<in> set (bills_of k d)" "unsettled x" for x
  proof -
    have v: "bill_view x \<in> set ?bs" "bill_Status (bill_view x) = b_Status x"
      using x(1) by (simp_all add: set_lease_bills) (simp add: bill_view_def)
    then have p: "b_Status x = ''pending_meter''" using nb x(2) by (auto simp: unsettled_def)
    then obtain r where r: "checkoutResolvablePendingMeterBill ?bs input = Some r"
      using nb v by (auto simp: checkoutPendingMeterBillResolvable_def split: option.splits)
    then have "resolvable_loop (normalizeDate (ci_CheckoutDate input)) None ?bs = Some r"
      by (simp add: checkoutResolvablePendingMeterBill_def split: if_splits)
    then show ?thesis using resolvable_loop_None v p r by (fastforce simp: StatusPendingMeter_def)
  qed
  have allowed: "checkoutElectricityCalculationAllowed ?bs input"
    if "checkoutResolvablePendingMeterBill ?bs input \<noteq> None"
  proof -
    have "ci_FinalMeterReading input \<noteq> None"
      using that by (cases "ci_FinalMeterReading input") (auto simp: checkoutResolvablePendingMeterBill_def)
    then show ?thesis using that nb by (auto simp: checkoutElectricityCalculationAllowed_def bill_consts)
  qed
  show ?thesis
  proof (cases "case e of None \<Rightarrow> None | Some x \<Rightarrow> ce_SourceBill x")
    case None
    then have "bills_of k (closed_meter E e t d') = bills_of k d"
      using b(2) by (auto simp: closed_meter_def bills_of_def split: option.splits)
    moreover have "checkoutResolvablePendingMeterBill ?bs input = None"
    proof (cases e)
      case None
      then show ?thesis using electricity_resolves [of d l ?bs input] ok allowed by blast
    next
      case (Some x)
      then have "ce_SourceBill x = None" using None by simp
      then show ?thesis using electricity_source [of d l ?bs input x] ok Some by simp
    qed
    ultimately show ?thesis using open_bill b(1) by auto
  next
    case (Some r)
    then obtain x where x: "e = Some x" "ce_SourceBill x = Some r" by (cases e) auto
    have res: "checkoutResolvablePendingMeterBill ?bs input = Some r"
      using electricity_source [of d l ?bs input x] ok x by simp
    have ty: "bill_Type r = TypeElectricity"
      using res resolvable_loop_None by (auto simp: checkoutResolvablePendingMeterBill_def split: if_splits)
    obtain y where y: "y \<in> set (live (db_bills d))" "b_LeaseID b = k"
      "b = (if settleable (settle_params x r t) y
            then (metered_and_paid (settle_params x r t) y)\<lparr>b_UpdatedAt := e_now E, b_Version := b_Version y + 1\<rparr>
            else y)"
      using b by (auto simp: closed_meter_def x settled_bill_def update_bills_def bills_of_def)
    show ?thesis
    proof (cases "settleable (settle_params x r t) y")
      case True
      then show ?thesis using y(3) by (simp add: unsettled_def metered_and_paid_def)
    next
      case False
      then have "b = y" "y \<in> set (bills_of k d)" using y by (simp_all add: bills_of_def)
      then show ?thesis using open_bill [of y] False res ty
        by (auto simp: settleable_def settle_params_def bill_view_def bill_consts)
    qed
  qed
qed

lemma validate_D:
  assumes "FinalizeCheckout_validate E input = Inr n"
  shows "ci_LeaseID n = trim (ci_LeaseID input)" "valid_amounts n" "fees n = fees input"
    "ci_ManualRentRefundAmount n = ci_ManualRentRefundAmount input" "ci_CheckoutDate n = ci_CheckoutDate input"
    "ci_PreviewToken n = trim (ci_PreviewToken input)"
  using assms unfolding FinalizeCheckout_validate_def Checkout_validate_def normalizeLeaseID_def
    normalizeCheckoutSettlementInput_def Let_def
  by (auto simp: valid_amounts_def fees_def split: if_splits)

lemma checkout_entries_sum:
  assumes "checkout_entries d l r f m x t date es" "0 \<le> r" "0 \<le> f"
  shows "sum_list (map en_Amount es) = f + x - r - m"
proof -
  have a: "map en_Amount zs = map (\<lambda>v. snd (snd v)) (map entry_view zs)" for zs
    by (simp add: entry_view_def comp_def)
  obtain es1 es2 where es: "es = es1 @ es2" "settlement_entries d l r f t es1"
    "map entry_view es2 = (if m \<noteq> 0 then [(''rent_refund'', ''4604'', - m)] else [])
           @ (if x \<noteq> 0 then [(''electricity_payment'', ''4605'', x)] else [])"
    using assms(1) by (auto simp: checkout_entries_def)
  have "sum_list (map en_Amount es1) = f - r"
    using es(2) assms(2,3) unfolding settlement_entries_def a by auto
  moreover have "sum_list (map en_Amount es2) = x - m" unfolding a es(3) by simp
  ultimately show ?thesis by (simp add: es(1))
qed

lemma checkout_net:
  assumes "s = finalized_settlement (buildCheckoutSettlement sha c bills n e None) t" "valid_amounts n"
    and "0 \<le> cs_TotalCharge s" "cs_TotalCharge s \<le> l_DepositAmount (cc_Lease c)"
    and "l_DepositAmount (cc_Lease c) < 2 ^ 31" "ci_ManualRentRefundAmount n < 2 ^ 62"
  shows "cs_NetDirection s \<noteq> checkoutNetPayable"
    "cs_NetAmount s = l_DepositAmount (cc_Lease c) - cs_TotalCharge s + ci_ManualRentRefundAmount n"
proof -
  let ?dep = "l_DepositAmount (cc_Lease c)" and ?m = "ci_ManualRentRefundAmount n"
  have m: "0 \<le> ?m" using assms(2) by (simp add: valid_amounts_def)
  then have "is_i64 (?dep + ?m)" using assms(3-6) by (simp add: is_i64_def)
  then have tr: "cs_TotalRefund s = ?dep + ?m" by (simp add: assms(1) totals [OF assms(2)])
  have net: "(cs_NetDirection s, cs_NetAmount s) = checkoutSettlementNet (cs_TotalRefund s) (cs_TotalCharge s)"
    using built(8) [of sha c bills n e] by (simp add: assms(1))
  have "is_i64 (cs_TotalRefund s - cs_TotalCharge s)" "cs_TotalCharge s \<le> cs_TotalRefund s"
    using m assms(3-6) by (simp_all add: is_i64_def tr)
  then show "cs_NetDirection s \<noteq> checkoutNetPayable" "cs_NetAmount s = ?dep - cs_TotalCharge s + ?m"
    using net tr by (auto simp: checkoutSettlementNet_def checkout_consts split: if_splits)
qed

text \<open>The database after a successful finalisation and its subscribers.\<close>

lemma FinalizeCheckout_effect:
  assumes "FinalizeCheckout_Execute E sha (server_deposit_repo E) (server_publish E) input w = (Inr s, w')"
    and "unique_codes (w_db w)" "fees input < 2 ^ 62"
  shows "\<exists>n c e pp why es d. FinalizeCheckout_validate E input = Inr n
     \<and> checkout_context_of (ci_LeaseID n) (w_db w) = Some c
     \<and> checkout_electricity_ok (w_db w) (cc_Lease c) (lease_bills (ci_LeaseID n) (w_db w)) n e
     \<and> pp = buildCheckoutSettlement sha c (lease_bills (ci_LeaseID n) (w_db w)) n e None
     \<and> cs_Blockers pp = [] \<and> cs_PreviewToken pp = Some (ci_PreviewToken n)
     \<and> s = finalized_settlement pp (time_UTC (e_now E))
     \<and> cs_TotalCharge s = fees n + electricity_amount e
     \<and> 0 \<le> cs_TotalCharge s \<and> cs_TotalCharge s \<le> l_DepositAmount (cc_Lease c)
     \<and> checkout_entries (w_db w) (cc_Lease c) (l_DepositAmount (cc_Lease c) - cs_TotalCharge s) (fees n)
         (ci_ManualRentRefundAmount n) (electricity_amount e) (time_UTC (e_now E))
         (normalizeDate (ci_CheckoutDate n)) es
     \<and> d = add_entries es (closed_meter E e (time_UTC (e_now E))
         (checkout_ended E n s (l_DepositAmount (cc_Lease c) - cs_TotalCharge s) (cs_TotalCharge s) why (w_db w)))
     \<and> w_db w' = released E (l_RoomID (cc_Lease c)) (l_TenantID (cc_Lease c)) d"
proof -
  obtain n where n: "FinalizeCheckout_validate E input = Inr n"
    and tx: "WithinTransaction (server_publish E) (FinalizeCheckout_body E sha (server_deposit_repo E) n) w = (Inr s, w')"
    using assms(1) by (auto simp: FinalizeCheckout_Execute_def tx_control)
  obtain v0 v where v: "w_db v0 = w_db w" "w_events v0 = []"
    "FinalizeCheckout_body E sha (server_deposit_repo E) n v0 = (Inr s, v)"
    "w_db w' = events_effect E (w_events v) (w_db v)"
    using server_run_D [OF tx] by blast
  have "events_effect E (evs @ [ev]) x = event_effect E ev (events_effect E evs x)" for evs ev x
    by (simp add: events_effect_def)
  then show ?thesis
    using FinalizeCheckout_body_ok [OF v(3)] assms(2,3) v(1,2,4) validate_D(2,3) [OF n] n
    by (fastforce simp: released_def)
qed

text \<open>
  C5.  Finalising a checkout settles everything at once.  It found an active or
  expired lease with a held deposit; the charges shown (the fees and the
  electricity of the final reading) never exceed the deposit, so nothing is left
  to pay by the tenant; the ledger gets the refund of the rest of the deposit,
  the fees, the manual rent refund and the electricity, each once and in the
  account of the property, and they add up to the charges less the net amount
  shown to the tenant; the lease ends on the checkout date with the settlement
  stored, none of its bills is open any more, the room is vacant, and the tenant
  inactive unless another lease of theirs still runs.
\<close>

theorem FinalizeCheckout_settles:
  assumes "FinalizeCheckout_Execute E sha (server_deposit_repo E) (server_publish E) input w = (Inr s, w')"
    and "unique_codes (w_db w)" "fees input < 2 ^ 62" "ci_ManualRentRefundAmount input < 2 ^ 62"
    and "\<forall>l \<in> set (live (db_leases (w_db w))). l_DepositAmount l < 2 ^ 31"
  shows "\<exists>l l' es electricity. lease_by_id (trim (ci_LeaseID input)) (w_db w) = Some l
     \<and> l_Status l \<in> {''active'', ''expired''} \<and> l_DepositStatus l = DepositStatusHeld
     \<and> cs_TotalCharge s = fees input + electricity
     \<and> 0 \<le> cs_TotalCharge s \<and> cs_TotalCharge s \<le> l_DepositAmount l
     \<and> cs_NetDirection s \<noteq> checkoutNetPayable
     \<and> cs_NetAmount s = l_DepositAmount l - cs_TotalCharge s + ci_ManualRentRefundAmount input
     \<and> checkout_entries (w_db w) l (l_DepositAmount l - cs_TotalCharge s) (fees input)
         (ci_ManualRentRefundAmount input) electricity (time_UTC (e_now E))
         (normalizeDate (ci_CheckoutDate input)) es
     \<and> sum_list (map en_Amount es) = cs_TotalCharge s - cs_NetAmount s
     \<and> db_entries (w_db w') = db_entries (w_db w) @ es
     \<and> lease_by_id (l_ID l) (w_db w') = Some l' \<and> l_Status l' = StatusTerminated
     \<and> l_DepositStatus l' = DepositStatusSettled \<and> l_EndDate l' = pg_date (ci_CheckoutDate input)
     \<and> l_DepositDeductionAmount l' = Some (cs_TotalCharge s)
     \<and> l_SettlementDetail l' = Some (via_map (json_settlement s))
     \<and> filter (\<lambda>k. l_ID k \<noteq> l_ID l) (live (db_leases (w_db w')))
       = filter (\<lambda>k. l_ID k \<noteq> l_ID l) (live (db_leases (w_db w)))
     \<and> (\<forall>b \<in> set (bills_of (l_ID l) (w_db w')). \<not> unsettled b)
     \<and> (\<forall>r \<in> set (live (db_rooms (w_db w'))). rm_ID r = l_RoomID l \<longrightarrow> rm_Status r = ''vacant'')
     \<and> (\<forall>t \<in> set (live (db_tenants (w_db w'))).
          tn_ID t = l_TenantID l \<and> \<not> has_active_lease (l_TenantID l) (w_db w') \<longrightarrow>
          tn_Status t = ''inactive'')"
proof -
  obtain n c e pp why es d where c: "FinalizeCheckout_validate E input = Inr n"
    "checkout_context_of (ci_LeaseID n) (w_db w) = Some c"
    "checkout_electricity_ok (w_db w) (cc_Lease c) (lease_bills (ci_LeaseID n) (w_db w)) n e"
    "pp = buildCheckoutSettlement sha c (lease_bills (ci_LeaseID n) (w_db w)) n e None" "cs_Blockers pp = []"
    "s = finalized_settlement pp (time_UTC (e_now E))" "cs_TotalCharge s = fees n + electricity_amount e"
    "0 \<le> cs_TotalCharge s" "cs_TotalCharge s \<le> l_DepositAmount (cc_Lease c)"
    "checkout_entries (w_db w) (cc_Lease c) (l_DepositAmount (cc_Lease c) - cs_TotalCharge s) (fees n)
         (ci_ManualRentRefundAmount n) (electricity_amount e) (time_UTC (e_now E))
         (normalizeDate (ci_CheckoutDate n)) es"
    "d = add_entries es (closed_meter E e (time_UTC (e_now E))
         (checkout_ended E n s (l_DepositAmount (cc_Lease c) - cs_TotalCharge s) (cs_TotalCharge s) why (w_db w)))"
    "w_db w' = released E (l_RoomID (cc_Lease c)) (l_TenantID (cc_Lease c)) d"
    using FinalizeCheckout_effect [OF assms(1-3)] by blast
  define l where "l = cc_Lease c"
  define l' where "l' = checked_out_lease E n s (l_DepositAmount l - cs_TotalCharge s) (cs_TotalCharge s) why l"
  note n = validate_D [OF c(1)] and w' = c(12) [folded l_def]
  have lease: "lease_by_id (ci_LeaseID n) (w_db w) = Some l" using context_of_lease [OF c(2)] l_def by simp
  then have id: "ci_LeaseID n = l_ID l" "l \<in> set (live (db_leases (w_db w)))" using lease_by_id_Some by auto
  note nb = no_blockers [OF c(5) [unfolded c(4) built], folded l_def]
  have net: "cs_NetDirection s \<noteq> checkoutNetPayable"
    "cs_NetAmount s = l_DepositAmount l - cs_TotalCharge s + ci_ManualRentRefundAmount n"
    using checkout_net [OF c(6) [unfolded c(4)] n(2) c(8,9)] assms(4,5) id(2) n(4) by (simp_all add: l_def)
  have "lease_by_id (ci_LeaseID n) d = lease_by_id (ci_LeaseID n)
      (checkout_ended E n s (l_DepositAmount l - cs_TotalCharge s) (cs_TotalCharge s) why (w_db w))"
    by (simp add: c(11) l_def lease_by_id_def add_entries_def)
  then have d: "lease_by_id (l_ID l) d = Some l'" "db_entries d = db_entries (w_db w) @ es"
    "filter (\<lambda>k. l_ID k \<noteq> l_ID l) (live (db_leases d))
       = filter (\<lambda>k. l_ID k \<noteq> l_ID l) (live (db_leases (w_db w)))"
    unfolding id(1) [symmetric] using lease by (simp_all add: c(11) l'_def l_def add_entries_def)
  have "\<forall>b \<in> set (bills_of (l_ID l) d). \<not> unsettled b"
    using checkout_closes_bills [OF c(3) c(5) [unfolded c(4) built]] id(1)
    by (auto simp: c(11) add_entries_def bills_of_def)
  moreover have "sum_list (map en_Amount es) = cs_TotalCharge s - cs_NetAmount s"
    using checkout_entries_sum [OF c(10)] c(7,9) n(2) net(2) by (simp add: l_def valid_amounts_def fees_def)
  moreover have "l_Status l' = StatusTerminated" "l_DepositStatus l' = DepositStatusSettled"
    "l_EndDate l' = pg_date (ci_CheckoutDate input)" "l_DepositDeductionAmount l' = Some (cs_TotalCharge s)"
    "l_SettlementDetail l' = Some (via_map (json_settlement s))"
    by (simp_all add: l'_def lease_consts n(5))
  moreover note released_rooms [of E "l_RoomID l" "l_TenantID l" d, folded w']
    released_tenants [of E "l_RoomID l" "l_TenantID l" d, folded w']
  ultimately show ?thesis
    using lease nb(1,2) c(7-10) net d n id(1) unfolding w' released_simps l_def [symmetric]
    by (intro exI [of _ l] exI [of _ l'] exI [of _ es] exI [of _ "electricity_amount e"]) (simp add: w')
qed

end
