(* ===== verification/CheckoutRuns.thy ===== *)
theory CheckoutRuns
  imports CheckoutProps
begin

text \<open>
  A checkout that was previewed goes through: while nothing it was computed from
  changes, the token of a preview without blockers finalises the settlement that
  was shown.
\<close>

section \<open>The deduction has a reason\<close>

text \<open>A text that starts with the first byte of a label is not blank.\<close>

lemma strip_lead_Nil:
  "strip_lead qs s = [] \<Longrightarrow> s \<noteq> [] \<Longrightarrow> \<exists>q \<in> set qs. q \<noteq> [] \<and> last s = last q"
proof (induction qs s rule: strip_lead.induct)
  case (1 qs s)
  have l: "lead ws t \<noteq> 0 \<Longrightarrow> \<exists>q \<in> set ws. q \<noteq> [] \<and> take (lead ws t) t = q" for ws t
    by (induction ws) (auto split: if_splits)
  have n: "lead qs s \<noteq> 0" using 1(2,3) by (auto intro: ccontr)
  then have rest: "strip_lead qs (drop (lead qs s) s) = []" using 1(2) by (metis strip_lead.simps)
  show ?case
  proof (cases "drop (lead qs s) s = []")
    case True
    then have "take (lead qs s) s = s" by simp
    then show ?thesis using l [OF n] by metis
  next
    case False
    then show ?thesis using 1(1) [OF n rest] by (metis last_drop drop_eq_Nil not_less)
  qed
qed

definition label_head :: "char \<Rightarrow> bool" where
  "label_head c \<longleftrightarrow> c \<in> {CHR 0xE5, CHR 0xE6, CHR 0xE9}"

lemma lead_none: "\<forall>q \<in> set qs. hd q \<noteq> c \<Longrightarrow> lead qs (c # s) = 0"
proof (induction qs)
  case (Cons q qs)
  then show ?case by (cases q) auto
qed simp

lemma spaces_heads: "\<forall>q \<in> set spaces. \<not> label_head (hd q)"
  by code_simp

lemma trim_not_blank:
  assumes "label_head c"
  shows "trim (c # s) \<noteq> ''''"
proof
  assume blank: "trim (c # s) = ''''"
  have "lead spaces (c # s) = 0" using assms spaces_heads by (intro lead_none) auto
  then have "strip_lead (map rev spaces) (rev (c # s)) = []"
    using blank by (simp add: trim_def trim_left_def trim_right_def del: rev.simps)
  then obtain q where "q \<in> set spaces" "q \<noteq> []" "last (rev (c # s)) = last (rev q)"
    using strip_lead_Nil [of "map rev spaces" "rev (c # s)"] by auto
  then show False using spaces_heads assms by (auto simp: last_rev)
qed

lemma label_headI: "\<exists>s. l = c # s \<Longrightarrow> label_head c \<Longrightarrow> \<exists>c s. label_head c \<and> l = c # s"
  by blast

lemma label_heads:
  "\<exists>c s. label_head c \<and> label_cleaning_fee = c # s" "\<exists>c s. label_head c \<and> label_key_card_loss = c # s"
  "\<exists>c s. label_head c \<and> label_other_fee = c # s" "\<exists>c s. label_head c \<and> label_electricity = c # s"
  unfolding label_cleaning_fee_def label_key_card_loss_def label_other_fee_def label_electricity_def
  by (rule label_headI, blast, simp add: label_head_def)+

lemma join_strings_Cons: "\<exists>t. join_strings sep (s # ss) = s @ t"
  by (cases ss) auto

lemma charge_labels:
  assumes "x \<in> set (checkout_lines l input e)" "cl_Direction x = checkoutDirectionCharge"
  shows "\<exists>c s. label_head c \<and> line_reason x = c # s"
proof -
  have "\<forall>x \<in> set (checkout_lines l input e). cl_Direction x = checkoutDirectionCharge \<longrightarrow>
      cl_Label x \<in> {label_cleaning_fee, label_key_card_loss, label_other_fee, label_electricity}"
    unfolding checkout_lines_def set_append ball_Un
    by (cases e) (simp_all add: plain_line_def checkout_directions)
  then have "cl_Label x \<in> {label_cleaning_fee, label_key_card_loss, label_other_fee, label_electricity}"
    using assms by blast
  then obtain c s where "label_head c" "cl_Label x = c # s"
    using label_heads by (elim insertE emptyE) metis+
  then show ?thesis by (simp add: line_reason_def split: option.splits)
qed

lemma charge_line:
  assumes "0 < fees input + electricity_amount e" "valid_amounts input"
  shows "\<exists>x \<in> set (checkout_lines l input e). cl_Direction x = checkoutDirectionCharge \<and> 0 < cl_Amount x"
proof -
  have "0 < ci_CleaningFee input \<or> 0 < ci_KeyCardLossFee input \<or> 0 < ci_OtherFee input \<or> 0 < electricity_amount e"
    using assms by (auto simp: fees_def)
  then show ?thesis
    by (auto simp: checkout_lines_def plain_line_def electricity_amount_def split: option.splits)
qed

lemma deduction_reason_given:
  assumes "s = buildCheckoutSettlement sha c bills input e None" "valid_amounts input"
    and "0 < fees input + electricity_amount e"
  shows "trim (stringValue (checkoutDeductionReason s)) \<noteq> ''''"
proof -
  let ?xs = "filter (\<lambda>x. cl_Direction x = checkoutDirectionCharge \<and> 0 < cl_Amount x)
      (checkout_lines (cc_Lease c) input e)"
  have r: "checkoutDeductionReason s = (if map line_reason ?xs = [] then None
      else Some (join_strings reason_separator (map line_reason ?xs)))"
    by (simp add: checkoutDeductionReason_def checkoutDeductionReasonExcludingKind_def assms(1))
  obtain x xs where xs: "?xs = x # xs"
    using charge_line [OF assms(3,2), of "cc_Lease c"] by (cases ?xs) (auto simp: filter_empty_conv)
  then have "x \<in> set ?xs" by simp
  then obtain ch z where "label_head ch" "line_reason x = ch # z"
    using charge_labels [of x "cc_Lease c" input e] by auto
  moreover obtain y where "join_strings reason_separator (line_reason x # map line_reason xs) = line_reason x @ y"
    using join_strings_Cons by blast
  ultimately show ?thesis using trim_not_blank by (simp add: r xs stringValue_def)
qed

section \<open>An accepted preview is finalised\<close>

text \<open>The ledger can take the entries of a checkout: the property has an account and
  the four titles are active.\<close>

definition ledger_open :: "string \<Rightarrow> db \<Rightarrow> bool" where
  "ledger_open p d \<longleftrightarrow> account_of p d \<noteq> None
     \<and> (\<forall>code \<in> {''4601'', ''4602'', ''4604'', ''4605''}. active_titles code d \<noteq> [])"

definition ledgered :: "string \<Rightarrow> bill list \<Rightarrow> world \<Rightarrow> bool" where
  "ledgered p bs w \<longleftrightarrow> calm w \<and> ledger_open p (w_db w) \<and> live (db_bills (w_db w)) = bs"

lemma ledger_open_cong:
  "db_accounts d = db_accounts d' \<Longrightarrow> db_titles d = db_titles d' \<Longrightarrow> ledger_open p d = ledger_open p d'"
  by (simp add: ledger_open_def account_of_def active_titles_def)

lemma deposit_entry_runs:
  assumes "ledgered p bs w" "aep_PropertyID q = p"
    and "aep_AccountingTitleCode q \<in> {''4601'', ''4602'', ''4604'', ''4605''}"
  shows "wp (CreateDepositAccountingEntry E q) (\<lambda>_. ledgered p bs) w"
proof -
  have o: "ledger_open p (w_db w)" "calm w" using assms(1) by (simp_all add: ledgered_def)
  then obtain a where a: "find (\<lambda>a. pa_PropertyID a = aep_PropertyID q) (live (db_accounts (w_db w))) = Some a"
    by (auto simp: ledger_open_def account_of_def assms(2))
  have t: "active_titles (aep_AccountingTitleCode q) (w_db w) \<noteq> []"
    using o assms(3) unfolding ledger_open_def by blast
  have i: "wp (InsertAccountingEntry E k q) P v \<longleftrightarrow> \<not> next_fault v
      \<and> active_titles (aep_AccountingTitleCode q) (w_db v) \<noteq> []
      \<and> P () (stepped v (add_entries (map (new_entry (e_id E (w_fresh v)) (e_now E) k q)
           (active_titles (aep_AccountingTitleCode q) (w_db v))) (w_db v)))" for k P v
    by (auto simp: wp_def InsertAccountingEntry_ok stepped_def)
  have "ledger_open p (add_entries es (w_db w))" for es
    using o(1) ledger_open_cong [of "add_entries es (w_db w)" "w_db w"] by (simp add: add_entries_def)
  moreover have "live (db_bills (add_entries es (w_db w))) = bs" for es
    using assms(1) by (simp add: ledgered_def add_entries_def)
  ultimately show ?thesis
    unfolding CreateDepositAccountingEntry_def FindPropertyAccountByPropertyID_def wp_simps i
    using a t o by (simp add: ledgered_def)
qed

text \<open>Sequencing of steps that keep a condition of the world.\<close>

lemma runs_bind:
  "wp m Q w \<Longrightarrow> (\<And>x v. Q x v \<Longrightarrow> wp (f x) P v) \<Longrightarrow> wp (tx_bind m f) P w"
  unfolding wp_bind by (rule wp_mono)

lemma deposit_entries_run:
  assumes "ledgered (l_PropertyID l) bs w"
  shows "wp (recordDepositAccountingEntries (server_deposit_repo E) l r d why t) (\<lambda>_. ledgered (l_PropertyID l) bs) w"
proof -
  have "wp (if 0 < r then tx_map_err mapDepositAccountingError (CreateDepositAccountingEntry E (refund_entry l r x))
          else tx_return ()) (\<lambda>_. ledgered (l_PropertyID l) bs) v"
    "wp (if 0 < d then tx_map_err mapDepositAccountingError (CreateDepositAccountingEntry E (deduction_entry l d why x))
          else tx_return ()) (\<lambda>_. ledgered (l_PropertyID l) bs) v"
    if "ledgered (l_PropertyID l) bs v" for x v
    using that by (auto simp: wp_return wp_map_err refund_entry_def deduction_entry_def deposit_consts
        intro!: deposit_entry_runs)
  note steps = runs_bind [OF this(1) this(2)]
  show ?thesis
  proof (cases "r = 0 \<and> d = 0")
    case True
    then show ?thesis using assms by (simp add: recordDepositAccountingEntries_def wp_return)
  next
    case False
    then show ?thesis
      unfolding recordDepositAccountingEntries_def server_deposit_repo_def option.case Let_def if_not_P [OF False]
      using steps [OF assms] by simp
  qed
qed

lemma rent_refund_runs:
  assumes "ledgered (l_PropertyID l) bs w"
  shows "wp (recordRentRefundAccountingEntry (server_deposit_repo E) l s) (\<lambda>_. ledgered (l_PropertyID l) bs) w"
  using assms unfolding recordRentRefundAccountingEntry_def server_deposit_repo_def option.case
  by (auto simp: wp_return wp_map_err rent_refund_entry_def Let_def intro!: deposit_entry_runs)

lemma electricity_runs:
  assumes "ledgered (l_PropertyID l) bs w"
    and "\<forall>b \<in> set_option (ce_SourceBill e). \<exists>y \<in> set bs. settleable (settle_params e b t) y"
  shows "wp (settleCheckoutElectricity E (server_deposit_repo E) l s e t) (\<lambda>_. calm) w"
proof -
  have entry: "wp (if ce_Amount e = 0 then tx_return ()
      else tx_map_err mapDepositAccountingError (CreateDepositAccountingEntry E (electricity_entry l s e)))
      (\<lambda>_. calm) v" if "ledgered (l_PropertyID l) cs v" for v cs
  proof (cases "ce_Amount e = 0")
    case True
    then show ?thesis using that by (simp add: wp_return ledgered_def)
  next
    case False
    have "wp (CreateDepositAccountingEntry E (electricity_entry l s e)) (\<lambda>_. ledgered (l_PropertyID l) cs) v"
      by (rule deposit_entry_runs [OF that]) (simp_all add: electricity_entry_def Let_def)
    then show ?thesis using False by (simp add: wp_map_err) (erule wp_mono, simp add: ledgered_def)
  qed
  have bill: "wp (SettleCheckoutElectricityBill E (settle_params e b t))
      (\<lambda>_ v. \<exists>cs. ledgered (l_PropertyID l) cs v) w" if "ce_SourceBill e = Some b" for b
  proof -
    have "ledger_open (l_PropertyID l) (settled_bill E p (w_db w))" for p
      using assms(1) ledger_open_cong [of "settled_bill E p (w_db w)" "w_db w"]
      by (simp add: ledgered_def settled_bill_def update_bills_def)
    moreover have "\<exists>y \<in> set (live (db_bills (w_db w))). settleable (settle_params e b t) y" "calm w"
      using assms that by (simp_all add: ledgered_def)
    ultimately show ?thesis
      unfolding wp_SettleCheckoutElectricityBill by (simp add: ledgered_def)
  qed
  have "wp (case ce_SourceBill e of None \<Rightarrow> tx_return ()
      | Some b \<Rightarrow> tx_map_err mapLeaseLookupError (a_SettleCheckoutElectricityBill E (settle_params e b t)))
      (\<lambda>_ v. \<exists>cs. ledgered (l_PropertyID l) cs v) w"
    using assms(1) bill by (cases "ce_SourceBill e") (auto simp: wp_return wp_map_err wp_checkout_adapters)
  then show ?thesis
    unfolding settleCheckoutElectricity_def server_deposit_repo_def option.case
    by (rule runs_bind) (elim exE, erule entry)
qed

lemma checkout_books_run:
  assumes "ledgered (l_PropertyID l) bs w"
    and "\<forall>x \<in> set_option e. \<forall>b \<in> set_option (ce_SourceBill x). \<exists>y \<in> set bs. settleable (settle_params x b t) y"
  shows "wp (checkout_books E (server_deposit_repo E) l s e t) (\<lambda>_. calm) w"
proof -
  have last: "wp (case e of None \<Rightarrow> tx_return () | Some x \<Rightarrow> settleCheckoutElectricity E (server_deposit_repo E) l s x t)
      (\<lambda>_. calm) v" if "ledgered (l_PropertyID l) bs v" for v
    using that assms(2) electricity_runs [OF that] by (cases e) (auto simp: wp_return ledgered_def)
  show ?thesis
    unfolding checkout_books_def Let_def case_prod_beta
    by (rule runs_bind [OF deposit_entries_run [OF assms(1)]])
      (rule runs_bind [OF rent_refund_runs], assumption, rule last)
qed

text \<open>The conditions under which a settlement without blockers can be written: the
  row is a valid aggregate, its deposit a 32-bit amount, and the ledger takes
  entries of its property.\<close>

definition settleable_lease :: "lease \<Rightarrow> db \<Rightarrow> bool" where
  "settleable_lease l d \<longleftrightarrow> is_inr (lease_Rehydrate (lease_to_state_checkout l))
     \<and> l_DepositAmount l < 2 ^ 31 \<and> ledger_open (l_PropertyID l) d"

lemma source_bill_settleable:
  assumes "checkout_electricity_ok d l (lease_bills k d) input (Some e)" "ce_SourceBill e = Some b"
  shows "\<exists>y \<in> set (live (db_bills d)). settleable (settle_params e b t) y"
proof -
  have "resolvable_loop (normalizeDate (ci_CheckoutDate input)) None (lease_bills k d) = Some b"
    using electricity_source [OF assms(1)] assms(2)
    by (simp add: checkoutResolvablePendingMeterBill_def split: if_splits)
  from resolvable_loop_None [OF this] obtain y where "y \<in> set (bills_of k d)" "b = bill_view y"
    "bill_Status b = StatusPendingMeter" "bill_Type b = TypeElectricity"
    by (auto simp: set_lease_bills)
  then show ?thesis
    by (intro bexI [of _ y])
      (auto simp: settleable_def settle_params_def bill_view_def bill_consts bills_of_def)
qed

lemma settle_accepts:
  assumes "lease_Rehydrate (lease_to_state_checkout l) = Inr a" "l_DepositStatus l = DepositStatusHeld"
    and "0 \<le> r" "0 \<le> x" "r + x = l_DepositAmount l" "l_DepositAmount l < 2 ^ 31"
    and "0 < x \<Longrightarrow> trim (stringValue why) \<noteq> ''''"
    and "l_Status l \<in> {''active'', ''expired''}"
  shows "\<exists>st st'. SettleDeposit a r x why = Inr st \<and> Terminate st = Inr st'"
proof -
  have "i64 (r + x) = l_DepositAmount l" using assms(3-6) by (subst i64_id) (simp_all add: is_i64_def)
  moreover have "ls_DepositStatus a = DepositStatusHeld" "ls_DepositAmount a = l_DepositAmount l"
    "ls_Status a = l_Status l"
    using Rehydrate_Inr [OF assms(1)] assms(2)
    by (simp_all add: lease_to_state_checkout_def lease_to_state_settle_def)
  ultimately show ?thesis
    using assms(3,4,7,8)
    by (auto simp: SettleDeposit_def Terminate_def isTerminableStatus_def lease_consts)
qed

lemma FinalizeCheckout_body_runs:
  fixes E input w
  defines "bills \<equiv> lease_bills (ci_LeaseID input) (w_db w)"
  assumes w: "calm w" "checkout_context_of (ci_LeaseID input) (w_db w) = Some c"
      "authorizeCheckoutSettlement (ci_ActorRole input) (ci_AssignedPropertyIDs input)
         (l_PropertyID (cc_Lease c)) = Inr ()"
      "checkout_electricity_ok (w_db w) (cc_Lease c) bills input e"
    and s: "s = buildCheckoutSettlement sha c bills input e None" "cs_Blockers s = []"
      "cs_PreviewToken s = Some (ci_PreviewToken input)" "0 \<le> cs_TotalCharge s"
      "settlement_marshals (finalized_settlement s (time_UTC (e_now E)))"
    and amounts: "valid_amounts input" "fees input < 2 ^ 62"
    and l: "settleable_lease (cc_Lease c) (w_db w)"
  shows "wp (FinalizeCheckout_body E sha (server_deposit_repo E) input)
     (\<lambda>s' v. s' = finalized_settlement s (time_UTC (e_now E)) \<and> calm v) w"
proof -
  let ?l = "cc_Lease c" and ?t = "time_UTC (e_now E)"
  let ?r = "fst (checkout_split s)" and ?x = "snd (checkout_split s)" and ?k = "ci_LeaseID input"
  note nb = no_blockers [OF s(2) [unfolded s(1) built]]
  have le: "cs_TotalCharge s \<le> l_DepositAmount ?l" using nb(4) by (simp add: s(1))
  have dep: "l_DepositAmount ?l < 2 ^ 31" "ledger_open (l_PropertyID ?l) (w_db w)"
    using l by (simp_all add: settleable_lease_def)
  obtain a where a: "lease_Rehydrate (lease_to_state_checkout ?l) = Inr a"
    using l by (auto simp: settleable_lease_def is_inr_iff)
  have "i64 (l_DepositAmount ?l - cs_TotalCharge s) = l_DepositAmount ?l - cs_TotalCharge s"
    using le s(4) dep(1) by (intro i64_id) (simp add: is_i64_def)
  then have split: "checkout_split s = (l_DepositAmount ?l - cs_TotalCharge s, cs_TotalCharge s)"
    using le by (simp add: checkout_split_def Let_def s(1))
  have elec: "is_i64 (electricity_amount e)"
    using electricity_source w(4) by (cases e) (auto simp: electricity_amount_def is_i64_def)
  have charge: "cs_TotalCharge s = fees input + electricity_amount e"
    using no_wrap [OF _ amounts(2) elec] s(4) amounts(1)
    by (simp add: s(1) totals [OF amounts(1)]) (simp add: fees_def valid_amounts_def)
  obtain st st' where st: "SettleDeposit a ?r ?x (checkoutDeductionReason s) = Inr st" "Terminate st = Inr st'"
    using settle_accepts [OF a nb(2), of ?r ?x "checkoutDeductionReason s"] nb(1) le s(4) dep(1)
      deduction_reason_given [OF s(1) amounts(1)] charge by (auto simp: split)
  have lease: "lease_by_id ?k (w_db w) = Some ?l" using context_of_lease w(2) by blast
  have id: "l_ID (settled_lease x1 x2 x3 y) = l_ID y" for x1 x2 x3 y by (simp add: settled_lease_def)
  have books: "wp (checkout_books E (server_deposit_repo E) (touched E (settled_lease x1 x2 x3) ?l)
      (finalized_settlement s ?t) e ?t) (\<lambda>_. calm) v"
    if v: "calm v" "db_accounts (w_db v) = db_accounts (w_db w)" "db_titles (w_db v) = db_titles (w_db w)"
      "db_bills (w_db v) = db_bills (w_db w)" for v x1 x2 x3
  proof (rule checkout_books_run)
    show "ledgered (l_PropertyID (touched E (settled_lease x1 x2 x3) ?l)) (live (db_bills (w_db w))) v"
      using v dep(2) ledger_open_cong [of "w_db v" "w_db w"] by (simp add: ledgered_def)
    show "\<forall>x \<in> set_option e. \<forall>b \<in> set_option (ce_SourceBill x).
        \<exists>y \<in> set (live (db_bills (w_db w))). settleable (settle_params x b ?t) y"
      using source_bill_settleable w(4) by (auto simp: bills_def)
  qed
  have events: "wp (tx_bind (record_deposit_events z x1 x2 x3 ?t) (\<lambda>_. tx_bind (record_event z') (\<lambda>_. tx_return y)))
      (\<lambda>s' v. s' = y \<and> calm v) v" if "calm v" for v z z' x1 x2 x3 and y :: checkout_settlement
    using that by (simp add: record_deposit_events_def record_event_if_def wp_simps)
  have written: "wp (tx_bind (checkout_books E (server_deposit_repo E) (touched E (settled_lease x1 x2 x3) ?l)
        (finalized_settlement s ?t) e ?t) (\<lambda>_. tx_bind (record_deposit_events z y1 y2 y3 ?t)
        (\<lambda>_. tx_bind (record_event z') (\<lambda>_. tx_return y))))
      (\<lambda>s' v. s' = y \<and> calm v) v"
    if "calm v" "db_accounts (w_db v) = db_accounts (w_db w)" "db_titles (w_db v) = db_titles (w_db w)"
      "db_bills (w_db v) = db_bills (w_db w)"
    for v x1 x2 x3 z z' y1 y2 y3 and y :: checkout_settlement
    by (rule runs_bind [OF books [OF that]]) (rule events)
  have detail: "checkoutSettlementDetailMap (finalized_settlement s ?t) = Inr (via_map (json_settlement (finalized_settlement s ?t)))"
    using s(5) by (simp add: checkoutSettlementDetailMap_def)
  show ?thesis
    unfolding FinalizeCheckout_body_def wp_bind [of "checkout_proposal E sha input"]
    by (rule proposal_runs [OF w(1,2,3) w(4) [unfolded bills_def]], fold bills_def, fold s(1))
      (simp only: prod.case Let_def case_prod_beta fst_conv snd_conv wp_bind [of "tx_reject _ _"]
          wp_bind [of "tx_map_err _ _"] wp_map_err wp_control s(2,3) a detail,
        simp add: wp_checkout_writes wp_lease_writes lease lease_by_id_with_lease [OF id] st wp_control,
        rule written, simp_all)
qed

section \<open>The token plays no part in what is computed\<close>

lemma token_free [simp]:
  fixes n t
  defines "n' \<equiv> n\<lparr>ci_PreviewToken := t\<rparr>"
  shows "checkout_lines l n' e = checkout_lines l n e"
    "checkoutResolvablePendingMeterBill bills n' = checkoutResolvablePendingMeterBill bills n"
    "checkoutElectricityCalculationAllowed bills n' = checkoutElectricityCalculationAllowed bills n"
    "meter_start n' src = meter_start n src" "valid_amounts n' = valid_amounts n" "fees n' = fees n"
    "checkoutSettlementToken sha l bills n' lines r c = checkoutSettlementToken sha l bills n lines r c"
  by (simp_all add: n'_def checkout_lines_def checkoutResolvablePendingMeterBill_def
      checkoutElectricityCalculationAllowed_def meter_start_def valid_amounts_def fees_def
      checkoutSettlementToken_def token_payload_def
      split: option.split)

lemma token_free_build [simp]:
  "checkout_electricity_ok d l bills (n\<lparr>ci_PreviewToken := t\<rparr>) e = checkout_electricity_ok d l bills n e"
  "buildCheckoutSettlement sha c bills (n\<lparr>ci_PreviewToken := t\<rparr>) e f = buildCheckoutSettlement sha c bills n e f"
proof -
  have "bill_blocker bills (n\<lparr>ci_PreviewToken := t\<rparr>) = bill_blocker bills n"
    by (simp add: bill_blocker_def checkoutPendingMeterBillResolvable_def fun_eq_iff)
  then have "checkoutSettlementBlockers l bills (n\<lparr>ci_PreviewToken := t\<rparr>) lines
      = checkoutSettlementBlockers l bills n lines" for l lines
    by (simp add: checkoutSettlementBlockers_def Let_def)
  then show "buildCheckoutSettlement sha c bills (n\<lparr>ci_PreviewToken := t\<rparr>) e f
      = buildCheckoutSettlement sha c bills n e f"
    by (simp add: buildCheckoutSettlement_def Let_def checkoutSettlementWarnings_def case_prod_beta)
qed (simp add: checkout_electricity_ok_def Let_def split: option.split)

lemma validate_with_token:
  assumes "Checkout_validate E input = Inr n" "trim tok = tok" "tok \<noteq> ''''" "e_uuid_ok E' = e_uuid_ok E"
  shows "FinalizeCheckout_validate E' (input\<lparr>ci_PreviewToken := tok\<rparr>) = Inr (n\<lparr>ci_PreviewToken := tok\<rparr>)"
proof -
  obtain k m where k: "normalizeLeaseID E (ci_LeaseID input) = Inr k"
    "normalizeCheckoutSettlementInput input = Inr m" "n = m\<lparr>ci_LeaseID := k\<rparr>"
    using assms(1) by (auto simp: Checkout_validate_def split: sum.splits)
      (cases "normalizeCheckoutSettlementInput input", auto)
  have "normalizeCheckoutSettlementInput (input\<lparr>ci_PreviewToken := tok\<rparr>)
      = map_sum id (\<lambda>m. m\<lparr>ci_PreviewToken := tok\<rparr>) (normalizeCheckoutSettlementInput input)"
    unfolding normalizeCheckoutSettlementInput_def Let_def if_distrib [of "map_sum _ _"]
    by (intro if_cong) (simp_all)
  moreover have "normalizeLeaseID E' (ci_LeaseID input) = Inr k"
    using k(1) assms(4) by (simp add: normalizeLeaseID_def Let_def split: if_splits)
  ultimately show ?thesis
    using assms(2,3) k(2) by (simp add: FinalizeCheckout_validate_def Checkout_validate_def k(3))
qed

lemma validated_id: "Checkout_validate E input = Inr n \<Longrightarrow> ci_LeaseID n = trim (ci_LeaseID input)"
  by (cases "normalizeCheckoutSettlementInput input")
    (auto simp: Checkout_validate_def normalizeLeaseID_def Let_def split: if_splits)

section \<open>Previewing and finalising\<close>

lemma preview_D:
  assumes "PreviewCheckout_Execute E sha publish input w = (Inr p, v)"
  shows "\<exists>n c e. Checkout_validate E input = Inr n
     \<and> checkout_context_of (ci_LeaseID n) (w_db w) = Some c
     \<and> authorizeCheckoutSettlement (ci_ActorRole n) (ci_AssignedPropertyIDs n) (l_PropertyID (cc_Lease c)) = Inr ()
     \<and> checkout_electricity_ok (w_db w) (cc_Lease c) (lease_bills (ci_LeaseID n) (w_db w)) n e
     \<and> p = buildCheckoutSettlement sha c (lease_bills (ci_LeaseID n) (w_db w)) n e None"
proof -
  obtain n where n: "Checkout_validate E input = Inr n"
    "WithinTransaction publish (tx_bind (checkout_proposal E sha n) (\<lambda>(_, _, s). tx_return s)) w = (Inr p, v)"
    using assms by (auto simp: PreviewCheckout_Execute_def tx_control)
  then obtain l e s u where "checkout_proposal E sha n ((tick w)\<lparr>w_events := []\<rparr>) = (Inr (l, e, s), u)" "p = s"
    by (auto simp: WithinTransaction_ok tx_control)
  then show ?thesis using proposal_D n(1) by fastforce
qed

lemma preview_token:
  assumes "buildCheckoutSettlement sha c bills n e None = p" "cs_PreviewToken p = Some tok"
  shows "cs_Blockers p = []"
    "tok = checkoutSettlementToken sha (cc_Lease c) bills n (cs_Lines p) (cs_TotalRefund p) (cs_TotalCharge p)"
  using assms by (auto simp: buildCheckoutSettlement_def Let_def case_prod_beta split: if_splits)

lemma server_command_result:
  assumes "calm w" "wp fn (\<lambda>x v. Q x \<and> calm v) ((tick w)\<lparr>w_events := []\<rparr>)"
  shows "wp (WithinTransaction (server_publish E) fn) (\<lambda>x _. Q x) w"
proof -
  have "wp (publish_all (server_publish E) es) (\<lambda>_ _. True) v" if "calm v" for es v
    using publish_all_runs [OF that] by (rule wp_mono) simp
  then show ?thesis
    unfolding wp_transaction using assms(1) by (auto intro: wp_mono [OF assms(2)] elim: wp_mono)
qed

text \<open>What was previewed goes through, as long as it still holds.\<close>

lemma FinalizeCheckout_runs:
  assumes preview: "PreviewCheckout_Execute E sha publish input w = (Inr p, v)" "cs_PreviewToken p = Some tok"
      "trim tok = tok" "tok \<noteq> ''''"
    and later: "calm w'" "w_db w' = w_db w" "e_uuid_ok E' = e_uuid_ok E"
    and amounts: "fees input < 2 ^ 62" "0 \<le> cs_TotalCharge p"
    and ready: "\<forall>l. lease_by_id (trim (ci_LeaseID input)) (w_db w) = Some l \<longrightarrow> settleable_lease l (w_db w)"
      "settlement_marshals (finalized_settlement p (time_UTC (e_now E')))"
  shows "\<exists>w''. FinalizeCheckout_Execute E' sha (server_deposit_repo E') (server_publish E')
       (input\<lparr>ci_PreviewToken := tok\<rparr>) w' = (Inr (finalized_settlement p (time_UTC (e_now E'))), w'')"
proof -
  let ?t = "time_UTC (e_now E')"
  obtain n c e where n: "Checkout_validate E input = Inr n"
    "checkout_context_of (ci_LeaseID n) (w_db w) = Some c"
    "authorizeCheckoutSettlement (ci_ActorRole n) (ci_AssignedPropertyIDs n) (l_PropertyID (cc_Lease c)) = Inr ()"
    "checkout_electricity_ok (w_db w) (cc_Lease c) (lease_bills (ci_LeaseID n) (w_db w)) n e"
    "p = buildCheckoutSettlement sha c (lease_bills (ci_LeaseID n) (w_db w)) n e None"
    using preview_D [OF preview(1)] by blast
  note val = validate_with_token [OF n(1) preview(3,4) later(3)]
  note d = validate_D [OF val]
  have l: "settleable_lease (cc_Lease c) (w_db w)"
    using ready(1) context_of_lease [OF n(2)] d(1) by simp
  let ?n = "n\<lparr>ci_PreviewToken := tok\<rparr>"
  have body: "wp (FinalizeCheckout_body E' sha (server_deposit_repo E') ?n)
      (\<lambda>s v. s = finalized_settlement p ?t \<and> calm v) ((tick w')\<lparr>w_events := []\<rparr>)"
    by (rule FinalizeCheckout_body_runs [where c = c and e = e])
      (use n l later ready(2) amounts d(2,3) preview(2) preview_token(1) [OF n(5) [symmetric] preview(2)] in simp_all)
  have "wp (FinalizeCheckout_Execute E' sha (server_deposit_repo E') (server_publish E') (input\<lparr>ci_PreviewToken := tok\<rparr>))
      (\<lambda>s _. s = finalized_settlement p ?t) w'"
    unfolding FinalizeCheckout_Execute_def wp_bind wp_control
    using val server_command_result [OF later(1) body] by simp
  then show ?thesis by (auto simp: wp_def)
qed

text \<open>The row a finalised lease leaves.\<close>

lemma finalized_row:
  assumes "FinalizeCheckout_Execute E sha (server_deposit_repo E) (server_publish E) input w = (Inr s, w')"
    and "unique_codes (w_db w)" "fees input < 2 ^ 62"
  shows "\<exists>l'. lease_by_id (trim (ci_LeaseID input)) (w_db w') = Some l' \<and> l_Status l' = StatusTerminated
     \<and> l_DepositStatus l' = DepositStatusSettled \<and> l_SettlementDetail l' = Some (via_map (json_settlement s))"
proof -
  obtain n c e why es d where c: "FinalizeCheckout_validate E input = Inr n"
    "checkout_context_of (ci_LeaseID n) (w_db w) = Some c"
    "d = add_entries es (closed_meter E e (time_UTC (e_now E))
         (checkout_ended E n s (l_DepositAmount (cc_Lease c) - cs_TotalCharge s) (cs_TotalCharge s) why (w_db w)))"
    "w_db w' = released E (l_RoomID (cc_Lease c)) (l_TenantID (cc_Lease c)) d"
    using FinalizeCheckout_effect [OF assms] by blast
  have lease: "lease_by_id (ci_LeaseID n) (w_db w) = Some (cc_Lease c)" by (rule context_of_lease [OF c(2)])
  let ?l = "checked_out_lease E n s (l_DepositAmount (cc_Lease c) - cs_TotalCharge s) (cs_TotalCharge s) why (cc_Lease c)"
  have "lease_by_id (ci_LeaseID n) d = lease_by_id (ci_LeaseID n)
      (checkout_ended E n s (l_DepositAmount (cc_Lease c) - cs_TotalCharge s) (cs_TotalCharge s) why (w_db w))"
    by (simp add: c(3) lease_by_id_def add_entries_def)
  then have "lease_by_id (ci_LeaseID n) (w_db w') = Some ?l" using lease by (simp add: c(4))
  moreover have "l_Status ?l = StatusTerminated" "l_DepositStatus ?l = DepositStatusSettled"
    "l_SettlementDetail ?l = Some (via_map (json_settlement s))"
    by (simp_all add: lease_consts)
  ultimately show ?thesis using validate_D(1) [OF c(1)] by simp
qed

text \<open>
  C7.  An accepted preview can be finalised.  When the server shows a settlement
  with a token (there is no blocker) and the database does not change, the same
  request with that token is finalised, and what it settles is the settlement
  shown, marked as finalised at that time: the lease is terminated with
  its deposit settled, and its row keeps that settlement as its detail.  This
  holds at \<^emph>\<open>any\<close> later time: the token is a digest of what was shown and carries
  no time, so it never expires, although rule DR-L06 of
  docs/design/domain-rule.md asks for a preview that is still valid and not
  expired.  The lease must be a valid row with a 32-bit deposit, its property
  have a ledger account and the four titles be active; negative totals and dates
  that JSON cannot hold are excluded.
\<close>

theorem FinalizeCheckout_accepts_preview:
  assumes "PreviewCheckout_Execute E sha publish input w = (Inr p, v)" "cs_PreviewToken p = Some tok"
    and "trim tok = tok" "tok \<noteq> ''''"
    and "calm w'" "w_db w' = w_db w" "e_uuid_ok E' = e_uuid_ok E"
    and "fees input < 2 ^ 62" "0 \<le> cs_TotalCharge p"
    and "\<forall>l. lease_by_id (trim (ci_LeaseID input)) (w_db w) = Some l \<longrightarrow> settleable_lease l (w_db w)"
    and "settlement_marshals (finalized_settlement p (time_UTC (e_now E')))"
    and "unique_codes (w_db w)"
  shows "\<exists>s w'' l'. FinalizeCheckout_Execute E' sha (server_deposit_repo E') (server_publish E')
       (input\<lparr>ci_PreviewToken := tok\<rparr>) w' = (Inr s, w'')
     \<and> s = p\<lparr>cs_FinalizedAt := Some (time_UTC (e_now E')), cs_ExportAvailable := True, cs_PreviewToken := None\<rparr>
     \<and> lease_by_id (trim (ci_LeaseID input)) (w_db w'') = Some l' \<and> l_Status l' = StatusTerminated
     \<and> l_DepositStatus l' = DepositStatusSettled \<and> l_SettlementDetail l' = Some (via_map (json_settlement s))"
proof -
  let ?s = "finalized_settlement p (time_UTC (e_now E'))" and ?i = "input\<lparr>ci_PreviewToken := tok\<rparr>"
  obtain w'' where run: "FinalizeCheckout_Execute E' sha (server_deposit_repo E') (server_publish E') ?i w' = (Inr ?s, w'')"
    using FinalizeCheckout_runs [OF assms(1-11)] by blast
  have "unique_codes (w_db w')" "fees ?i < 2 ^ 62" using assms(6,8,12) by (simp_all add: fees_def)
  from finalized_row [OF run this] show ?thesis using run by (auto simp: finalized_settlement_def)
qed

section \<open>What was shown is what is settled\<close>

text \<open>What the token of a settlement is a digest of.\<close>

definition shown_payload :: "env \<Rightarrow> checkout_input \<Rightarrow> db \<Rightarrow> checkout_settlement \<Rightarrow> jval option" where
  "shown_payload E input d s =
    (case Checkout_validate E input of
       Inl _ \<Rightarrow> None
     | Inr n \<Rightarrow> map_option (\<lambda>l. token_payload l (lease_bills (ci_LeaseID n) d) n (cs_Lines s)
                  (cs_TotalRefund s) (cs_TotalCharge s)) (lease_by_id (ci_LeaseID n) d))"

lemma shown_finalized [simp]: "shown_payload E input d (finalized_settlement s t) = shown_payload E input d s"
  by (simp add: shown_payload_def split: sum.split)

definition bills_marshal :: "db \<Rightarrow> bool" where
  "bills_marshal d \<longleftrightarrow> (\<forall>b \<in> set (live (db_bills d)). time_marshals (b_PeriodStart b) \<and> time_marshals (b_PeriodEnd b))"

lemma json_line_inj: "json_line x = json_line y \<Longrightarrow> x = y"
  by (cases x; cases y) (auto simp: json_line_def json_omit_def split: option.splits)

lemma map_determines:
  assumes "\<And>x y. f x = f y \<Longrightarrow> g x = g y"
  shows "map f xs = map f ys \<Longrightarrow> map g xs = map g ys"
proof (induction xs arbitrary: ys)
  case (Cons x xs)
  then obtain y zs where "ys = y # zs" "f x = f y" "map f xs = map f zs" by (cases ys) auto
  then show ?case using assms [of x y] Cons.IH [of zs] by simp
qed simp

lemma json_lines_inj: "map json_line xs = map json_line ys \<Longrightarrow> xs = ys"
  using map_determines [of json_line "\<lambda>x. x" xs ys] json_line_inj by simp

text \<open>What equal payloads have in common.\<close>

lemma token_payload_inj:
  assumes "token_payload l bs n xs r c = token_payload l' bs' n' xs' r' c'"
  shows "l_ID l = l_ID l'" "l_Version l = l_Version l'" "l_DepositAmount l = l_DepositAmount l'"
    "xs = xs'" "r = r'" "c = c'"
    "map (\<lambda>b. (bill_ID b, bill_Status b, bill_Version b)) bs
      = map (\<lambda>b. (bill_ID b, bill_Status b, bill_Version b)) bs'"
proof -
  have bs: "map json_bill bs = map json_bill bs'" and xs: "map json_line xs = map json_line xs'"
    using assms by (simp_all add: token_payload_def)
  show "l_ID l = l_ID l'" "l_Version l = l_Version l'" "l_DepositAmount l = l_DepositAmount l'" "r = r'" "c = c'"
    using assms by (simp_all add: token_payload_def)
  show "xs = xs'" by (rule json_lines_inj [OF xs])
  show "map (\<lambda>b. (bill_ID b, bill_Status b, bill_Version b)) bs
      = map (\<lambda>b. (bill_ID b, bill_Status b, bill_Version b)) bs'"
    by (rule map_determines [OF _ bs]) (simp add: json_bill_def)
qed

lemma built_token:
  assumes "p = buildCheckoutSettlement sha c (lease_bills (ci_LeaseID n) d) n e None" "cs_PreviewToken p = Some tok"
    and "Checkout_validate E input = Inr n" "checkout_context_of (ci_LeaseID n) d = Some c" "bills_marshal d"
  shows "tok = sha (shown_payload E input d p)"
    "shown_payload E input d p = Some (token_payload (cc_Lease c) (lease_bills (ci_LeaseID n) d) n (cs_Lines p)
       (cs_TotalRefund p) (cs_TotalCharge p))"
proof -
  show s: "shown_payload E input d p = Some (token_payload (cc_Lease c) (lease_bills (ci_LeaseID n) d) n (cs_Lines p)
       (cs_TotalRefund p) (cs_TotalCharge p))"
    using assms(3) context_of_lease [OF assms(4)] by (simp add: shown_payload_def)
  have "\<forall>b \<in> set (lease_bills (ci_LeaseID n) d). time_marshals (bill_PeriodStart b) \<and> time_marshals (bill_PeriodEnd b)"
    using assms(5) by (auto simp: set_lease_bills bills_marshal_def bills_of_def bill_view_def)
  then show "tok = sha (shown_payload E input d p)"
    using preview_token(2) [OF assms(1) [symmetric] assms(2)] by (simp add: s checkoutSettlementToken_def)
qed

text \<open>
  C6.  What is settled is what was shown.  A token that a preview returned
  finalises, at any later time, for any request and in any state of the database,
  only a settlement of the same lease at the same version, with the same deposit
  and the same lines, totals and net amount, while its bills have the statuses and
  versions they had when it was shown; unless the two settlements are different
  and have the same digest.
\<close>

theorem FinalizeCheckout_settles_what_was_shown:
  assumes "PreviewCheckout_Execute E sha publish input w = (Inr p, v)"
    and "cs_PreviewToken p = Some (trim (ci_PreviewToken input'))"
    and "FinalizeCheckout_Execute E' sha (server_deposit_repo E') (server_publish E') input' w' = (Inr s, w'')"
    and "unique_codes (w_db w')" "fees input' < 2 ^ 62"
    and "bills_marshal (w_db w)" "bills_marshal (w_db w')"
    and no_collision: "sha (shown_payload E input (w_db w) p) = sha (shown_payload E' input' (w_db w') s) \<longrightarrow>
      shown_payload E input (w_db w) p = shown_payload E' input' (w_db w') s"
  shows "\<exists>l l'. lease_by_id (trim (ci_LeaseID input)) (w_db w) = Some l
     \<and> lease_by_id (trim (ci_LeaseID input')) (w_db w') = Some l' \<and> l_ID l' = l_ID l
     \<and> l_Version l' = l_Version l \<and> l_DepositAmount l' = l_DepositAmount l
     \<and> cs_Lines s = cs_Lines p \<and> cs_TotalRefund s = cs_TotalRefund p \<and> cs_TotalCharge s = cs_TotalCharge p
     \<and> cs_NetAmount s = cs_NetAmount p \<and> cs_NetDirection s = cs_NetDirection p
     \<and> map (\<lambda>b. (bill_ID b, bill_Status b, bill_Version b)) (lease_bills (l_ID l') (w_db w'))
       = map (\<lambda>b. (bill_ID b, bill_Status b, bill_Version b)) (lease_bills (l_ID l) (w_db w))"
proof -
  obtain n c e where n: "Checkout_validate E input = Inr n"
    "checkout_context_of (ci_LeaseID n) (w_db w) = Some c"
    "p = buildCheckoutSettlement sha c (lease_bills (ci_LeaseID n) (w_db w)) n e None"
    using preview_D [OF assms(1)] by blast
  obtain m c' e' q where m: "FinalizeCheckout_validate E' input' = Inr m"
    "checkout_context_of (ci_LeaseID m) (w_db w') = Some c'"
    "q = buildCheckoutSettlement sha c' (lease_bills (ci_LeaseID m) (w_db w')) m e' None"
    "cs_PreviewToken q = Some (ci_PreviewToken m)" "s = finalized_settlement q (time_UTC (e_now E'))"
    using FinalizeCheckout_effect [OF assms(3-5)] by blast
  obtain k where k: "Checkout_validate E' input' = Inr k" "m = k\<lparr>ci_PreviewToken := trim (ci_PreviewToken input')\<rparr>"
    using m(1) by (auto simp: FinalizeCheckout_validate_def Let_def split: sum.splits if_splits)
  have same: "ci_LeaseID m = ci_LeaseID k"
    "q = buildCheckoutSettlement sha c' (lease_bills (ci_LeaseID k) (w_db w')) k e' None"
    using m(3) by (simp_all add: k(2))
  have id: "ci_LeaseID n = trim (ci_LeaseID input)" "ci_LeaseID k = trim (ci_LeaseID input')"
    using validated_id n(1) k(1) by blast+
  note P = built_token [OF n(3) assms(2) n(1,2) assms(6)]
  note Q = built_token [OF same(2) m(4) k(1) m(2) [unfolded same(1)] assms(7)]
  have tok: "ci_PreviewToken m = trim (ci_PreviewToken input')" by (simp add: k(2))
  have sq: "shown_payload E' input' (w_db w') s = shown_payload E' input' (w_db w') q"
    by (simp add: m(5))
  have eq: "shown_payload E input (w_db w) p = shown_payload E' input' (w_db w') q"
    using no_collision P(1) Q(1) tok sq by simp
  note t = token_payload_inj [OF eq [unfolded P(2) Q(2) option.inject]]
  have net: "(cs_NetDirection s, cs_NetAmount s) = (cs_NetDirection p, cs_NetAmount p)"
    using t(5,6) built(8) [of sha c _ n e] built(8) [of sha c' _ k e'] by (simp add: m(5) n(3) same(2))
  have l: "lease_by_id (ci_LeaseID n) (w_db w) = Some (cc_Lease c)"
    "lease_by_id (ci_LeaseID k) (w_db w') = Some (cc_Lease c')"
    using context_of_lease [OF n(2)] context_of_lease [OF m(2)] by (simp_all add: same(1))
  moreover have "l_ID (cc_Lease c) = ci_LeaseID n" "l_ID (cc_Lease c') = ci_LeaseID k"
    using lease_by_id_Some [OF l(1)] lease_by_id_Some [OF l(2)] by simp_all
  ultimately show ?thesis
    using t net id by (intro exI [of _ "cc_Lease c"] exI [of _ "cc_Lease c'"]) (simp add: m(5))
qed

section \<open>A checkout at the office\<close>

text \<open>The lease of the office, its rent paid and the meter bill still to be read,
  checked out at the end of February with a cleaning fee and part of the rent given
  back; every preview has the same token.\<close>

definition checkout_world :: world where
  "checkout_world = billed_world\<lparr>w_db := update_bills sample_env (\<lambda>b. b_Type b = ''rent'')
      (\<lambda>b. b\<lparr>b_Status := ''paid''\<rparr>) (w_db billed_world\<lparr>db_titles := db_titles (w_db billed_world) @
       [\<lparr>ti_ID = ''i4'', ti_Code = ''4604'', ti_Name = ''rent refund'', ti_Kind = ''income'', ti_IsActive = True\<rparr>,
        \<lparr>ti_ID = ''i5'', ti_Code = ''4605'', ti_Name = ''electricity'', ti_Kind = ''income'', ti_IsActive = True\<rparr>]\<rparr>)\<rparr>"

definition sample_checkout :: checkout_input where
  "sample_checkout = \<lparr>ci_ActorRole = ''staff'', ci_AssignedPropertyIDs = [''p1''], ci_LeaseID = ''x'',
     ci_CheckoutDate = go_date 2024 2 29 0, ci_ActualMoveOutDate = None, ci_Reason = ''moved'',
     ci_FinalMeterReading = Some 110, ci_CleaningFee = 1000, ci_KeyCardLossFee = 0, ci_OtherFee = 0,
     ci_OtherFeeReason = None, ci_ManualRentRefundAmount = 500, ci_ManualRentRefundReason = Some ''agreed'',
     ci_Notes = None, ci_PreviewToken = ''''\<rparr>"

lemma checkout_world_rows:
  "unique_codes (w_db checkout_world) \<and> fees sample_checkout = 1000
   \<and> map l_DepositAmount (live (db_leases (w_db checkout_world))) = [24000]
   \<and> list_all (\<lambda>l. settleable_lease l (w_db checkout_world)) (live (db_leases (w_db checkout_world)))"
  by code_simp

lemma checkout_world_calm: "calm checkout_world"
  by (simp add: calm_def checkout_world_def billed_world_def sample_world_def)

text \<open>The preview, and what is needed of it.\<close>

definition sample_preview :: checkout_settlement where
  "sample_preview = projr (fst (PreviewCheckout_Execute sample_env (\<lambda>_. ''token'')
     (server_publish sample_env) sample_checkout checkout_world))"

lemma sample_preview_ok:
  "is_inr (fst (PreviewCheckout_Execute sample_env (\<lambda>_. ''token'') (server_publish sample_env)
     sample_checkout checkout_world)) \<and> cs_PreviewToken sample_preview = Some ''token''
   \<and> cs_TotalCharge sample_preview = 1550
   \<and> settlement_marshals (finalized_settlement sample_preview (time_UTC (e_now sample_env)))"
  by code_simp

lemma sample_preview_shown:
  obtains v where "PreviewCheckout_Execute sample_env (\<lambda>_. ''token'') (server_publish sample_env)
      sample_checkout checkout_world = (Inr sample_preview, v)"
proof -
  let ?m = "PreviewCheckout_Execute sample_env (\<lambda>_. ''token'') (server_publish sample_env)
      sample_checkout checkout_world"
  obtain s v where "?m = (Inr s, v)"
    using conjunct1 [OF sample_preview_ok] by (metis is_inr_iff prod.collapse)
  then show thesis using that by (simp add: sample_preview_def)
qed

lemma checkout_world_leases:
  "l \<in> set (live (db_leases (w_db checkout_world))) \<Longrightarrow>
     l_DepositAmount l = 24000 \<and> settleable_lease l (w_db checkout_world)"
  using checkout_world_rows by (auto simp: map_eq_Cons_conv list_all_iff)

lemma sample_checkout_leases:
  "\<forall>l. lease_by_id (trim (ci_LeaseID sample_checkout)) (w_db checkout_world) = Some l \<longrightarrow>
     settleable_lease l (w_db checkout_world)"
  using checkout_world_leases lease_by_id_Some by blast

lemma FinalizeCheckout_accepts_preview_witness:
  "\<exists>s w''. FinalizeCheckout_Execute sample_env (\<lambda>_. ''token'') (server_deposit_repo sample_env) (server_publish sample_env)
       (sample_checkout\<lparr>ci_PreviewToken := ''token''\<rparr>) checkout_world = (Inr s, w'')
     \<and> cs_TotalCharge s = 1550 \<and> (\<exists>l'. lease_by_id (trim (ci_LeaseID sample_checkout)) (w_db w'') = Some l'
          \<and> l_SettlementDetail l' = Some (via_map (json_settlement s)))"
proof -
  obtain v where v: "PreviewCheckout_Execute sample_env (\<lambda>_. ''token'') (server_publish sample_env)
      sample_checkout checkout_world = (Inr sample_preview, v)" by (rule sample_preview_shown)
  have t: "trim ''token'' = ''token''" by code_simp
  show ?thesis
    using FinalizeCheckout_accepts_preview [OF v _ t _ checkout_world_calm refl refl _ _ sample_checkout_leases]
      sample_preview_ok checkout_world_rows by fastforce
qed

lemma sample_checkout_runs:
  "\<exists>s w'. FinalizeCheckout_Execute sample_env (\<lambda>_. ''token'') (server_deposit_repo sample_env) (server_publish sample_env)
       (sample_checkout\<lparr>ci_PreviewToken := ''token''\<rparr>) checkout_world = (Inr s, w')"
proof -
  obtain v where v: "PreviewCheckout_Execute sample_env (\<lambda>_. ''token'') (server_publish sample_env)
      sample_checkout checkout_world = (Inr sample_preview, v)" by (rule sample_preview_shown)
  have t: "trim ''token'' = ''token''" by code_simp
  show ?thesis
    using FinalizeCheckout_runs [OF v _ t _ checkout_world_calm refl refl _ _ sample_checkout_leases]
      sample_preview_ok checkout_world_rows by auto
qed

lemma FinalizeCheckout_settles_witness:
  "\<exists>s w'. FinalizeCheckout_Execute sample_env (\<lambda>_. ''token'') (server_deposit_repo sample_env)
       (server_publish sample_env) (sample_checkout\<lparr>ci_PreviewToken := ''token''\<rparr>) checkout_world = (Inr s, w')
     \<and> cs_NetAmount s = 24500 - cs_TotalCharge s \<and> cs_NetDirection s \<noteq> checkoutNetPayable"
proof -
  let ?i = "sample_checkout\<lparr>ci_PreviewToken := ''token''\<rparr>"
  obtain s w' where r: "FinalizeCheckout_Execute sample_env (\<lambda>_. ''token'') (server_deposit_repo sample_env)
      (server_publish sample_env) ?i checkout_world = (Inr s, w')"
    using sample_checkout_runs by blast
  have m: "ci_ManualRentRefundAmount ?i = 500" "fees ?i = 1000"
    using checkout_world_rows by (simp_all add: sample_checkout_def fees_def)
  have a: "\<forall>l \<in> set (live (db_leases (w_db checkout_world))). l_DepositAmount l < 2 ^ 31"
    using checkout_world_leases by auto
  have c: "unique_codes (w_db checkout_world)" "fees ?i < 2 ^ 62" "ci_ManualRentRefundAmount ?i < 2 ^ 62"
    using checkout_world_rows m by simp_all
  obtain l where "lease_by_id (trim (ci_LeaseID ?i)) (w_db checkout_world) = Some l"
    "cs_NetDirection s \<noteq> checkoutNetPayable" "cs_NetAmount s = l_DepositAmount l - cs_TotalCharge s + 500"
    using FinalizeCheckout_settles [OF r c a] m(1) by auto
  moreover from this(1) have "l_DepositAmount l = 24000"
    using lease_by_id_Some checkout_world_leases by blast
  ultimately show ?thesis using r by auto
qed

lemma checkout_world_dates: "bills_marshal (w_db checkout_world)"
  by code_simp

lemma FinalizeCheckout_settles_what_was_shown_witness:
  "\<exists>s w'. FinalizeCheckout_Execute sample_env (\<lambda>_. ''token'') (server_deposit_repo sample_env) (server_publish sample_env)
       (sample_checkout\<lparr>ci_PreviewToken := ''token''\<rparr>) checkout_world = (Inr s, w')
     \<and> cs_Lines s = cs_Lines sample_preview"
proof -
  let ?i = "sample_checkout\<lparr>ci_PreviewToken := ''token''\<rparr>" and ?d = "w_db checkout_world"
  let ?s = "finalized_settlement sample_preview (time_UTC (e_now sample_env))"
  obtain v where v: "PreviewCheckout_Execute sample_env (\<lambda>_. ''token'') (server_publish sample_env)
      sample_checkout checkout_world = (Inr sample_preview, v)" by (rule sample_preview_shown)
  have t: "trim ''token'' = ''token''" by code_simp
  obtain w' where r: "FinalizeCheckout_Execute sample_env (\<lambda>_. ''token'') (server_deposit_repo sample_env)
      (server_publish sample_env) ?i checkout_world = (Inr ?s, w')"
    using FinalizeCheckout_runs [OF v _ t _ checkout_world_calm refl refl _ _ sample_checkout_leases]
      sample_preview_ok checkout_world_rows by auto
  obtain n where n: "Checkout_validate sample_env sample_checkout = Inr n"
    using preview_D [OF v] by blast
  have val: "FinalizeCheckout_validate sample_env ?i = Inr (n\<lparr>ci_PreviewToken := ''token''\<rparr>)"
    by (rule validate_with_token [OF n t]) simp_all
  then obtain k where k: "Checkout_validate sample_env ?i = Inr k" "n\<lparr>ci_PreviewToken := ''token''\<rparr> = k\<lparr>ci_PreviewToken := ''token''\<rparr>"
    by (auto simp: FinalizeCheckout_validate_def Let_def t split: sum.splits if_splits)
  have "token_payload l bs n x y z = token_payload l bs k x y z" "ci_LeaseID n = ci_LeaseID k" for l bs x y z
  proof -
    have "token_payload l bs (n\<lparr>ci_PreviewToken := ''token''\<rparr>) x y z = token_payload l bs n x y z"
      "token_payload l bs (k\<lparr>ci_PreviewToken := ''token''\<rparr>) x y z = token_payload l bs k x y z"
      by (simp_all add: token_payload_def)
    then show "token_payload l bs n x y z = token_payload l bs k x y z" by (simp add: k(2))
    show "ci_LeaseID n = ci_LeaseID k" using arg_cong [OF k(2), of ci_LeaseID] by simp
  qed
  then have "shown_payload sample_env sample_checkout ?d sample_preview = shown_payload sample_env ?i ?d ?s"
    by (simp add: shown_payload_def n k(1))
  then show ?thesis
    using FinalizeCheckout_settles_what_was_shown [OF v _ r _ _ checkout_world_dates checkout_world_dates]
      sample_preview_ok checkout_world_rows r t by (auto simp: fees_def)
qed

end
