(* ===== verification/CheckoutExport.thy ===== *)
theory CheckoutExport
  imports CheckoutRuns
begin

text \<open>
  The round trip of a settlement through the JSON the lease row keeps: times and
  amounts come back as they went in, so that the export of a finalised checkout is
  the settlement that was finalised.
\<close>

section \<open>Digits\<close>

lemma length_digits [simp]: "length (digits k n) = k"
  by (induction k arbitrary: n) simp_all

lemma digit_char: "m < 10 \<Longrightarrow> (of_char (char_of (48 + m :: nat)) :: nat) = 48 + m"
  by (simp add: of_char_of take_bit_eq_mod)

lemma digits_are_digits: "list_all json_digit (digits k n)"
  by (induction k arbitrary: n) (simp_all add: json_digit_def digit_char)

lemma decimal_value_snoc: "decimal_value (s @ [c]) = 10 * decimal_value s + digit_value c"
  by (simp add: decimal_value_def)

lemma decimal_digits: "n < 10 ^ k \<Longrightarrow> decimal_value (digits k n) = n"
proof (induction k arbitrary: n)
  case (Suc k)
  then have "decimal_value (digits k (n div 10)) = n div 10" by (simp add: less_mult_imp_div_less)
  then show ?case by (simp add: decimal_value_snoc digit_value_def digit_char)
qed (simp add: decimal_value_def)

lemma read_digits_digits [simp]: "n < 10 ^ k \<Longrightarrow> read_digits k (digits k n @ s) = Some (n, s)"
  using digits_are_digits [of k n] by (simp add: read_digits_def decimal_digits)

lemma read_char_Cons [simp]: "read_char c (c # s) = Some s"
  by (simp add: read_char_def)

section \<open>Times\<close>

lemma padded:
  "rev (dropWhile (\<lambda>x. x = c) (rev s)) @ replicate (length s - length (dropWhile (\<lambda>x. x = c) (rev s))) c = s"
proof -
  have t: "takeWhile (\<lambda>x. x = c) xs = replicate (length (takeWhile (\<lambda>x. x = c) xs)) c" for xs
    by (induction xs) auto
  have "rev s = takeWhile (\<lambda>x. x = c) (rev s) @ dropWhile (\<lambda>x. x = c) (rev s)" by simp
  then have "s = rev (dropWhile (\<lambda>x. x = c) (rev s)) @ rev (takeWhile (\<lambda>x. x = c) (rev s))"
    by (metis rev_append rev_rev_ident)
  moreover have "length s = length (takeWhile (\<lambda>x. x = c) (rev s)) + length (dropWhile (\<lambda>x. x = c) (rev s))"
    by (metis length_append length_rev takeWhile_dropWhile_id)
  ultimately show ?thesis using t [of "rev s"] by (metis diff_add_inverse2 rev_replicate)
qed

lemma take_padded:
  assumes "xs @ replicate m c = ds" "length ds = k"
  shows "take k (xs @ replicate k c) = ds"
proof -
  have m: "length xs + m = k" using assms by auto
  then have "replicate k c = replicate m c @ replicate (length xs) c" by (metis add.commute replicate_add)
  then have "xs @ replicate k c = ds @ replicate (length xs) c" using assms(1) by simp
  then show ?thesis using assms(2) by simp
qed

lemma decimal_zeros: "set s \<subseteq> {CHR ''0''} \<Longrightarrow> decimal_value s = 0"
  by (induction s rule: rev_induct) (auto simp: decimal_value_snoc digit_value_def decimal_value_def)

lemma while_digits:
  "list_all P xs \<Longrightarrow> \<not> P c \<Longrightarrow> takeWhile P (xs @ c # r) = xs" "list_all P xs \<Longrightarrow> \<not> P c \<Longrightarrow> dropWhile P (xs @ c # r) = c # r"
  by (induction xs) simp_all

lemma read_format_fraction:
  assumes "0 \<le> ns" "ns < 1000000000" "s = c # r" "\<not> json_digit c" "c \<noteq> CHR ''.''"
  shows "read_fraction (format_fraction ns @ s) = Some (nat ns, s)"
proof (cases "ns = 0")
  case True
  then show ?thesis using assms by (simp add: format_fraction_def read_fraction_def)
next
  case False
  let ?D = "digits 9 (nat ns)" and ?ds = "rev (dropWhile (\<lambda>c. c = CHR ''0'') (rev (digits 9 (nat ns))))"
  have n: "nat ns < 10 ^ 9" using assms by simp
  have D: "?ds @ replicate (9 - length ?ds) (CHR ''0'') = ?D"
    using padded [of "CHR ''0''" ?D] by simp
  have "list_all json_digit (?ds @ replicate (9 - length ?ds) (CHR ''0''))"
    unfolding D by (rule digits_are_digits)
  then have all: "list_all json_digit ?ds" by (simp only: list_all_append)
  have ne: "?ds \<noteq> []"
  proof
    assume "?ds = []"
    then have "set ?D \<subseteq> {CHR ''0''}" by auto
    then have "decimal_value ?D = 0" by (rule decimal_zeros)
    then show False using decimal_digits [OF n] False assms(1) by simp
  qed
  have "take 9 (?ds @ replicate 9 (CHR ''0'')) = ?D"
    by (rule take_padded [OF D]) simp
  moreover have "takeWhile json_digit (?ds @ s) = ?ds" "dropWhile json_digit (?ds @ s) = s"
    using while_digits [OF all assms(4)] assms(3) by simp_all
  ultimately show ?thesis
    using False ne decimal_digits [OF n] by (simp add: format_fraction_def read_fraction_def Let_def)
qed

text \<open>The times that survive: a time of day, an offset of whole minutes.\<close>

definition stored_time :: "gtime \<Rightarrow> bool" where
  "stored_time t \<longleftrightarrow> time_marshals t \<and> 0 \<le> t_ns t \<and> t_ns t < ns_per_day \<and> t_off t mod 60 = 0"

lemma offset_head:
  "\<exists>c r. format_offset off = c # r \<and> \<not> json_digit c \<and> c \<noteq> CHR ''.''"
  by (cases "off = 0"; cases "off < 0") (auto simp: format_offset_def json_digit_def)

lemma clock: "s div 3600 * 3600 + s mod 3600 div 60 * 60 + s mod 60 = (s :: int)"
proof -
  have "s mod 3600 mod 60 = s mod 60" by (rule mod_mod_cancel) simp
  moreover have "s mod 3600 div 60 * 60 + s mod 3600 mod 60 = s mod 3600" "s div 3600 * 3600 + s mod 3600 = s"
    by (rule div_mult_mod_eq)+
  ultimately show ?thesis by linarith
qed

lemma read_format_offset:
  assumes "\<bar>off\<bar> < 86400" "off mod 60 = 0"
  shows "read_offset (format_offset off) = Some off"
proof (cases "off = 0")
  case True
  then show ?thesis by (simp add: format_offset_def read_offset_def)
next
  case False
  define h m where hm: "h = nat (\<bar>off\<bar> div 3600)" "m = nat (\<bar>off\<bar> mod 3600 div 60)"
  have h: "h < 24" "h < 10 ^ 2" and m: "m < 60" "m < 10 ^ 2" using assms(1) by (auto simp: hm)
  have "\<bar>off\<bar> mod 60 = 0" using assms(2) by (simp add: mod_eq_0_iff_dvd)
  then have "\<bar>off\<bar> div 3600 * 3600 + \<bar>off\<bar> mod 3600 div 60 * 60 = \<bar>off\<bar>"
    using clock [of "\<bar>off\<bar>"] by simp
  moreover have "0 \<le> \<bar>off\<bar> div 3600" "0 \<le> \<bar>off\<bar> mod 3600 div 60"
    by (simp_all add: pos_imp_zdiv_nonneg_iff)
  ultimately have abs: "int h * 3600 + int m * 60 = \<bar>off\<bar>" by (simp add: hm)
  have read: "read_digits 2 (digits 2 h @ CHR '':'' # digits 2 m) = Some (h, CHR '':'' # digits 2 m)"
    "read_digits 2 (digits 2 m) = Some (m, [])"
    using read_digits_digits [OF h(2)] read_digits_digits [OF m(2), of "[]"] by simp_all
  have sign: "format_offset off = (if off < 0 then CHR ''-'' else CHR ''+'') # digits 2 h @ CHR '':'' # digits 2 m"
    using False by (simp add: format_offset_def hm)
  show ?thesis
  proof (cases "off < 0")
    case True
    then show ?thesis using h m abs by (simp add: sign read_offset_def read)
  next
    case False
    then show ?thesis using h m abs by (simp add: sign read_offset_def read)
  qed
qed

lemma parse_format:
  assumes "stored_time t"
  shows "parse_rfc3339 (format_rfc3339 t) = Some t"
proof -
  let ?s = "t_ns t div 1000000000" and ?n = "t_ns t mod 1000000000"
  have t: "0 \<le> time_year t" "time_year t \<le> 9999" "\<bar>t_off t\<bar> < 86400" "t_off t mod 60 = 0"
    "0 \<le> ?s" "?s < 86400"
    using assms by (auto simp: stored_time_def time_marshals_def)
  have small: "nat (time_year t) < 10 ^ 4" "nat (time_month t) < 10 ^ 2" "nat (time_dayOfMonth t) < 10 ^ 2"
    "nat (?s div 3600) < 24" "nat (?s div 3600) < 10 ^ 2" "nat (?s mod 3600 div 60) < 60"
    "nat (?s mod 3600 div 60) < 10 ^ 2" "nat (?s mod 60) < 60" "nat (?s mod 60) < 10 ^ 2"
    using t month_range [of t] day_range [of t] by auto
  obtain c r where o: "format_offset (t_off t) = c # r" "\<not> json_digit c" "c \<noteq> CHR ''.''"
    using offset_head by blast
  have frac: "read_fraction (format_fraction ?n @ format_offset (t_off t)) = Some (nat ?n, format_offset (t_off t))"
    by (rule read_format_fraction [OF _ _ o]) simp_all
  have idx: "12 * time_year t + time_month t = midx (t_day t) + 1"
    using month_year_idx [of t] by simp
  have day: "time_dayOfMonth t \<le> days_in (time_year t) (time_month t)"
    unfolding days_in_def idx using cal.month_of_less [of "t_day t"] by (simp add: time_dayOfMonth_def)
  have ns: "(?s div 3600 * 3600 + ?s mod 3600 div 60 * 60 + ?s mod 60) * 1000000000 + ?n = t_ns t"
    unfolding clock by (rule div_mult_mod_eq)
  have same: "go_date_at (time_year t) (time_month t) (time_dayOfMonth t) (t_ns t) (t_off t) = t"
    using month_year_idx [of t] by (simp add: go_date_at_def time_dayOfMonth_def)
  note read = small(1,2,3,5,7,9) [THEN read_digits_digits]
  have "parse_rfc3339 (format_rfc3339 t) =
      (if 1 \<le> nat (time_month t) \<and> nat (time_month t) \<le> 12 \<and> 1 \<le> nat (time_dayOfMonth t)
          \<and> int (nat (time_dayOfMonth t)) \<le> days_in (int (nat (time_year t))) (int (nat (time_month t)))
          \<and> nat (?s div 3600) < 24 \<and> nat (?s mod 3600 div 60) < 60 \<and> nat (?s mod 60) < 60
       then Some (go_date_at (int (nat (time_year t))) (int (nat (time_month t))) (int (nat (time_dayOfMonth t)))
         ((int (nat (?s div 3600)) * 3600 + int (nat (?s mod 3600 div 60)) * 60 + int (nat (?s mod 60))) * 1000000000
           + int (nat ?n)) (t_off t))
       else None)"
    unfolding parse_rfc3339_def format_rfc3339_def Let_def
    by (simp only: append_assoc append.simps read read_char_Cons Option.bind.bind_lunit prod.case frac
        read_format_offset [OF t(3,4)])
  moreover have "int (nat (time_year t)) = time_year t" "int (nat (time_month t)) = time_month t"
    "int (nat (time_dayOfMonth t)) = time_dayOfMonth t" "int (nat ?n) = ?n"
    "int (nat (?s div 3600)) = ?s div 3600" "int (nat (?s mod 3600 div 60)) = ?s mod 3600 div 60"
    "int (nat (?s mod 60)) = ?s mod 60"
    using t month_range [of t] day_range [of t] by (simp_all add: pos_imp_zdiv_nonneg_iff)
  moreover have "1 \<le> nat (time_month t)" "nat (time_month t) \<le> 12" "1 \<le> nat (time_dayOfMonth t)"
    using month_range [of t] day_range [of t] by simp_all
  ultimately show ?thesis
    using small(4,6,8) day by (simp only: ns same simp_thms if_True)
qed

section \<open>Amounts\<close>

lemma fl64_int_inj:
  assumes "\<bar>n\<bar> \<le> 2 ^ 52" "fl64 (of_int m) = of_int n"
  shows "m = n"
proof (rule ccontr)
  assume "m \<noteq> n"
  let ?m = "of_int m :: rat" and ?n = "of_int n :: rat"
  have n: "\<bar>?n\<bar> \<le> 2 ^ 52"
    using assms(1) by (metis of_int_abs of_int_le_iff of_int_numeral of_int_power)
  have e: "\<bar>?n - ?m\<bar> \<le> \<bar>?m\<bar> / 2 ^ 53" using fl64_error [of ?m] by (simp add: assms(2))
  have "1 \<le> \<bar>n - m\<bar>" using \<open>m \<noteq> n\<close> by simp
  then have "(1 :: rat) \<le> \<bar>?n - ?m\<bar>" by (metis of_int_1_le_iff of_int_abs of_int_diff)
  then have "1 \<le> \<bar>?m\<bar> / 2 ^ 53" using e by linarith
  then have "2 ^ 53 \<le> \<bar>?m\<bar>" by simp
  moreover have "\<bar>?m\<bar> \<le> \<bar>?n\<bar> + \<bar>?m\<bar> / 2 ^ 53" using e by linarith
  ultimately show False using n by simp
qed

definition json_int :: "int \<Rightarrow> bool" where
  "json_int n \<longleftrightarrow> \<bar>n\<bar> \<le> 2 ^ 52"

lemma shortest_int_id: "json_int n \<Longrightarrow> shortest_int k (of_int n) = n"
proof (induction k)
  case (Suc k)
  have "round_even (of_int n / 10 ^ Suc k) * 10 ^ Suc k = n"
    if "fl64 (of_int (round_even (of_int n / 10 ^ Suc k) * 10 ^ Suc k)) = of_int n"
    using fl64_int_inj [OF _ that] Suc.prems by (simp add: json_int_def)
  then show ?case using Suc by (simp add: Let_def del: power_Suc of_int_mult)
qed simp

lemma dec_int_via [simp]: "json_int n \<Longrightarrow> dec_int (via_map (JInt n)) = Inr n"
proof -
  assume n: "json_int n"
  then have "fl64 (of_int n) = of_int n" by (intro fl64_int) (simp add: json_int_def)
  moreover have "is_i64 n" using n by (auto simp: json_int_def is_i64_def abs_le_iff)
  ultimately show ?thesis using shortest_int_id [OF n, of 20] by (simp add: dec_int_def del: shortest_int.simps)
qed

lemma dec_time_via [simp]: "stored_time t \<Longrightarrow> dec_time (via_map (json_time t)) = Inr t"
  by (simp add: json_time_def dec_time_def parse_format)

section \<open>Fields\<close>

lemma via_map_omit: "map (\<lambda>f. (fst f, via_map (snd f))) (json_omit k f v) = json_omit k (\<lambda>x. via_map (f x)) v"
  by (simp add: json_omit_def split: option.split)

lemma map_of_omit:
  "map_of ys k = None \<Longrightarrow> map_of (json_omit k f v @ ys) k = map_option f v"
  "k' \<noteq> k \<Longrightarrow> map_of (json_omit k f v @ ys) k' = map_of ys k'"
  "map_of (json_omit k f v) k' = (if k' = k then map_option f v else None)"
  by (simp_all add: json_omit_def split: option.split)

lemma dec_ptr_read:
  assumes "\<forall>x \<in> set_option v. dec (f x) = Inr x \<and> f x \<noteq> JNull"
  shows "dec_ptr dec (case map_option f v of None \<Rightarrow> JNull | Some y \<Rightarrow> y) = Inr v"
  using assms by (cases v) (simp_all add: dec_ptr_def)

lemma via_map_not_null [simp]: "via_map (JInt n) \<noteq> JNull" "via_map (json_time t) \<noteq> JNull"
  by (simp_all add: json_time_def)

lemma dec_all_map:
  "(\<And>x. x \<in> set xs \<Longrightarrow> dec (f x) = Inr (g x)) \<Longrightarrow> dec_all dec (map f xs) = Inr (map g xs)"
  by (induction xs) simp_all

text \<open>A line as it is read back: the numbers of its source are floats.\<close>

definition as_read :: "checkout_line \<Rightarrow> checkout_line" where
  "as_read x = x\<lparr>cl_SourceRef := map_option via_map (cl_SourceRef x)\<rparr>"

definition stored_line :: "checkout_line \<Rightarrow> bool" where
  "stored_line x \<longleftrightarrow> json_int (cl_Amount x) \<and> (\<forall>v \<in> set_option (cl_SourceRef x). \<exists>fs. v = JObj fs)"

lemma dec_map_null: "dec_map JNull = Inr None"
  by (simp add: dec_map_def)

lemma dec_json_line:
  assumes "stored_line x"
  shows "dec_line (via_map (json_line x)) = Inr (as_read x)"
proof -
  have "dec_map (via_map v) = Inr (Some (via_map v))" if "cl_SourceRef x = Some v" for v
    using assms that by (auto simp: stored_line_def dec_map_def)
  moreover have "json_int (cl_Amount x)" using assms by (simp add: stored_line_def)
  ultimately show ?thesis
    by (cases x; cases "cl_Description x"; cases "cl_SourceRef x")
      (simp_all add: json_line_def dec_line_def dec_object_def dec_field_def via_map_omit json_omit_def
        dec_string_def dec_ptr_def dec_map_null as_read_def del: via_map.simps(1))
qed

lemma dec_json_blocker: "dec_blocker (via_map (json_blocker b)) = Inr b"
  by (cases b; cases "cb_SourceID b")
    (simp_all add: json_blocker_def dec_blocker_def dec_object_def dec_field_def json_omit_def
      dec_string_def dec_ptr_def)

lemma dec_json_warning: "dec_warning (via_map (json_warning v)) = Inr v"
  by (cases v) (simp add: json_warning_def dec_warning_def dec_object_def dec_field_def dec_string_def)

section \<open>The settlement\<close>

definition stored_settlement :: "checkout_settlement \<Rightarrow> bool" where
  "stored_settlement s \<longleftrightarrow> stored_time (cs_CheckoutDate s)
     \<and> (\<forall>t \<in> set_option (cs_ActualMoveOutDate s). stored_time t) \<and> (\<forall>t \<in> set_option (cs_FinalizedAt s). stored_time t)
     \<and> (\<forall>n \<in> set_option (cs_FinalMeterReading s). json_int n) \<and> (\<forall>x \<in> set (cs_Lines s). stored_line x)
     \<and> json_int (cs_ManualRentRefundAmount s) \<and> json_int (cs_DepositAmount s) \<and> json_int (cs_TotalRefund s)
     \<and> json_int (cs_TotalCharge s) \<and> json_int (cs_NetAmount s)"

definition settlement_as_read :: "checkout_settlement \<Rightarrow> checkout_settlement" where
  "settlement_as_read s = s\<lparr>cs_Lines := map as_read (cs_Lines s)\<rparr>"

definition stored_fields :: "checkout_settlement \<Rightarrow> (string \<times> jval) list" where
  "stored_fields s = (case via_map (json_settlement s) of JObj fs \<Rightarrow> fs | _ \<Rightarrow> [])"

lemma stored_JObj: "via_map (json_settlement s) = JObj (stored_fields s)"
  by (simp add: stored_fields_def json_settlement_def)

lemma field_read: "map_of fs k = Some v \<Longrightarrow> dec_field fs k dec = dec v"
  by (simp add: dec_field_def)

lemmas stored_defs = stored_settlement_def stored_fields_def json_settlement_def via_map.simps(6,7) jval.case
  map_append via_map_omit list.map

lemmas stored_field_simps = dec_field_def map_of_omit dec_ptr_read dec_string_def dec_bool_def
  dec_list_def dec_all_map [where g = "\<lambda>x. x"] dec_all_map [where g = as_read] dec_json_line
  dec_json_blocker dec_json_warning comp_def

lemma stored_fields_read1:
  assumes "stored_settlement s"
  shows
    "dec_field (stored_fields s) ''lease_id'' dec_string = Inr (cs_LeaseID s)"
    "dec_field (stored_fields s) ''property_id'' dec_string = Inr (cs_PropertyID s)"
    "dec_field (stored_fields s) ''tenant_id'' dec_string = Inr (cs_TenantID s)"
    "dec_field (stored_fields s) ''room_id'' dec_string = Inr (cs_RoomID s)"
    "dec_field (stored_fields s) ''property_label'' dec_string = Inr (cs_PropertyLabel s)"
    "dec_field (stored_fields s) ''tenant_label'' dec_string = Inr (cs_TenantLabel s)"
    "dec_field (stored_fields s) ''room_label'' dec_string = Inr (cs_RoomLabel s)"
  using assms unfolding stored_defs
  by (simp_all add: stored_field_simps del: via_map.simps(1) map_of_append case_map_option)

lemma stored_fields_read2:
  assumes "stored_settlement s"
  shows
    "dec_field (stored_fields s) ''checkout_date'' dec_time = Inr (cs_CheckoutDate s)"
    "dec_field (stored_fields s) ''actual_move_out_date'' (dec_ptr dec_time) = Inr (cs_ActualMoveOutDate s)"
    "dec_field (stored_fields s) ''reason'' dec_string = Inr (cs_Reason s)"
    "dec_field (stored_fields s) ''final_meter_reading'' (dec_ptr dec_int) = Inr (cs_FinalMeterReading s)"
    "dec_field (stored_fields s) ''manual_rent_refund_amount'' dec_int = Inr (cs_ManualRentRefundAmount s)"
    "dec_field (stored_fields s) ''manual_rent_refund_reason'' (dec_ptr dec_string) = Inr (cs_ManualRentRefundReason s)"
    "dec_field (stored_fields s) ''notes'' (dec_ptr dec_string) = Inr (cs_Notes s)"
  using assms unfolding stored_defs
  by (simp_all add: stored_field_simps del: via_map.simps(1) map_of_append case_map_option)

lemma stored_fields_read3:
  assumes "stored_settlement s"
  shows
    "dec_field (stored_fields s) ''lines'' (dec_list dec_line) = Inr (map as_read (cs_Lines s))"
    "dec_field (stored_fields s) ''blockers'' (dec_list dec_blocker) = Inr (cs_Blockers s)"
    "dec_field (stored_fields s) ''warnings'' (dec_list dec_warning) = Inr (cs_Warnings s)"
    "dec_field (stored_fields s) ''deposit_amount'' dec_int = Inr (cs_DepositAmount s)"
    "dec_field (stored_fields s) ''total_refund'' dec_int = Inr (cs_TotalRefund s)"
    "dec_field (stored_fields s) ''total_charge'' dec_int = Inr (cs_TotalCharge s)"
    "dec_field (stored_fields s) ''net_amount'' dec_int = Inr (cs_NetAmount s)"
  using assms unfolding stored_defs
  by (simp_all add: stored_field_simps del: via_map.simps(1) map_of_append case_map_option)

lemma stored_fields_read4:
  assumes "stored_settlement s"
  shows
    "dec_field (stored_fields s) ''net_direction'' dec_string = Inr (cs_NetDirection s)"
    "dec_field (stored_fields s) ''preview_token'' (dec_ptr dec_string) = Inr (cs_PreviewToken s)"
    "dec_field (stored_fields s) ''export_available'' dec_bool = Inr (cs_ExportAvailable s)"
    "dec_field (stored_fields s) ''finalized_at'' (dec_ptr dec_time) = Inr (cs_FinalizedAt s)"
  using assms unfolding stored_defs
  by (simp_all add: stored_field_simps del: via_map.simps(1) map_of_append case_map_option)

lemmas stored_fields_read = stored_fields_read1 stored_fields_read2 stored_fields_read3 stored_fields_read4

lemma stored_settlement_read:
  "stored_settlement s \<Longrightarrow> checkoutSettlementFromDetailMap (via_map (json_settlement s)) = Inr (settlement_as_read s)"
  by (simp add: stored_JObj checkoutSettlementFromDetailMap_def dec_object_def stored_fields_read settlement_as_read_def)

section \<open>Exporting a finalised checkout\<close>

lemma validated_fields:
  assumes "FinalizeCheckout_validate E input = Inr n"
  shows "ci_ActualMoveOutDate n = map_option normalizeDate (ci_ActualMoveOutDate input)"
    "ci_FinalMeterReading n = ci_FinalMeterReading input"
  using assms unfolding FinalizeCheckout_validate_def Checkout_validate_def normalizeLeaseID_def
    normalizeCheckoutSettlementInput_def Let_def
  by (auto split: if_splits)

lemma checkout_lines_stored:
  assumes "json_int (l_DepositAmount l)" "valid_amounts n" "json_int (fees n)" "json_int (ci_ManualRentRefundAmount n)"
    and "json_int (electricity_amount e)"
  shows "\<forall>x \<in> set (checkout_lines l n e). stored_line x"
proof -
  have "json_int (ci_CleaningFee n)" "json_int (ci_KeyCardLossFee n)" "json_int (ci_OtherFee n)"
    using assms(2,3) by (auto simp: json_int_def fees_def valid_amounts_def)
  then show ?thesis
    using assms(1,4,5) unfolding checkout_lines_def set_append ball_Un
    by (cases e) (simp_all add: plain_line_def stored_line_def electricity_amount_def checkoutElectricitySourceRef_def)
qed

lemma same_keys_found:
  assumes "map f xs = map f ys" "find (\<lambda>x. f x = k) xs = Some x"
  shows "\<exists>y. find (\<lambda>y. f y = k) ys = Some y"
proof -
  have "f x \<in> set (map f xs)" "f x = k" using assms(2) by (auto simp: find_Some_iff)
  then have "k \<in> f ` set ys" using assms(1) by (metis set_map)
  then show ?thesis by (cases "find (\<lambda>y. f y = k) ys") (auto simp: find_None_iff)
qed

lemma context_kept:
  assumes c: "checkout_context_of k d = Some c"
    and l: "lease_by_id k d' = Some l'" "l_PropertyID l' = l_PropertyID (cc_Lease c)"
      "l_RoomID l' = l_RoomID (cc_Lease c)" "l_TenantID l' = l_TenantID (cc_Lease c)"
    and d: "db_properties d' = db_properties d" "map rm_ID (live (db_rooms d)) = map rm_ID (live (db_rooms d'))"
      "map tn_ID (live (db_tenants d)) = map tn_ID (live (db_tenants d'))"
  shows "\<exists>c'. checkout_context_of k d' = Some c' \<and> cc_Lease c' = l'"
proof -
  obtain p r t where f: "find (\<lambda>p. pr_ID p = l_PropertyID (cc_Lease c)) (live (db_properties d)) = Some p"
    "find (\<lambda>r. rm_ID r = l_RoomID (cc_Lease c)) (live (db_rooms d)) = Some r"
    "find (\<lambda>t. tn_ID t = l_TenantID (cc_Lease c)) (live (db_tenants d)) = Some t"
    using c by (auto simp: checkout_context_of_def bind_eq_Some_conv)
  show ?thesis
    using l d(1) f(1) same_keys_found [OF d(2) f(2)] same_keys_found [OF d(3) f(3)]
    by (auto simp: checkout_context_of_def)
qed

lemma released_ids:
  "map rm_ID (live (db_rooms (released E room tenant d))) = map rm_ID (live (db_rooms d))"
  "map tn_ID (live (db_tenants (released E room tenant d))) = map tn_ID (live (db_tenants d))"
  "db_properties (released E room tenant d) = db_properties d"
  by (auto simp: released_def set_room_status_def deactivate_tenant_def comp_def)

lemma closed_properties:
  "db_properties (closed_meter E e t d) = db_properties d" "db_properties (checkout_ended E n s r x why d) = db_properties d"
  by (simp_all add: closed_meter_def settled_bill_def update_bills_def checkout_ended_def with_lease_def split: option.split)

lemma export_runs:
  assumes "calm v" "checkout_context_of k (w_db v) = Some c" "l_SettlementDetail (cc_Lease c) = Some (via_map (json_settlement s))"
    and "stored_settlement s" "cs_FinalizedAt s \<noteq> None"
    and "normalizeLeaseID E (ci_LeaseID input) = Inr k"
    and "authorizeCheckoutSettlement (ci_ActorRole input) (ci_AssignedPropertyIDs input) (l_PropertyID (cc_Lease c)) = Inr ()"
  shows "\<exists>v'. ExportCheckout_load E publish input v = (Inr (settlement_as_read s), v') \<and> w_db v' = w_db v"
proof -
  have role: "trim (ci_ActorRole input) \<noteq> ''''"
    using assms(7) by (auto simp: authorizeCheckoutSettlement_def Let_def)
  have "wp (ExportCheckout_load E publish input) (\<lambda>x v'. x = settlement_as_read s \<and> w_db v' = w_db v) v"
    unfolding ExportCheckout_load_def wp_bind wp_control wp_transaction ExportCheckout_body_def wp_map_err
      wp_checkout_adapters wp_checkout_queries
    using assms role
    by (auto simp: wp_simps stored_settlement_read settlement_as_read_def)
  then show ?thesis by (auto simp: wp_def)
qed

lemma finalized_is_stored:
  assumes s: "s = finalized_settlement (buildCheckoutSettlement sha c bills n e None) (time_UTC (e_now E))"
    and a: "valid_amounts n" "fees n < 2 ^ 50" "ci_ManualRentRefundAmount n < 2 ^ 50"
      "l_DepositAmount (cc_Lease c) < 2 ^ 31" "cs_TotalCharge s = fees n + electricity_amount e"
      "0 \<le> cs_TotalCharge s" "cs_TotalCharge s \<le> l_DepositAmount (cc_Lease c)"
    and t: "stored_time (normalizeDate (ci_CheckoutDate n))" "stored_time (time_UTC (e_now E))"
      "\<forall>t \<in> set_option (ci_ActualMoveOutDate n). stored_time t"
    and r: "\<forall>m \<in> set_option (ci_FinalMeterReading n). json_int m"
  shows "stored_settlement s"
proof -
  let ?dep = "l_DepositAmount (cc_Lease c)" and ?m = "ci_ManualRentRefundAmount n"
  have pos: "0 \<le> fees n" "0 \<le> ?m" using a(1) by (simp_all add: fees_def valid_amounts_def)
  have ints: "json_int ?dep" "json_int (fees n)" "json_int ?m" "json_int (electricity_amount e)"
    "json_int (cs_TotalCharge s)" "json_int (?dep + ?m)" "json_int (?dep - cs_TotalCharge s + ?m)"
    using pos a(2-7) by (auto simp: json_int_def abs_le_iff)
  have net: "cs_NetAmount s = ?dep - cs_TotalCharge s + ?m"
    using checkout_net(2) [OF s a(1,6,7,4)] a(3) by simp
  have "i64 (?dep + ?m) = ?dep + ?m" using pos a(3,4,6,7) by (intro i64_id) (simp add: is_i64_def)
  then have tr: "cs_TotalRefund s = ?dep + ?m" by (simp add: s totals [OF a(1)])
  have fields: "cs_CheckoutDate s = normalizeDate (ci_CheckoutDate n)" "cs_ActualMoveOutDate s = ci_ActualMoveOutDate n"
    "cs_FinalizedAt s = Some (time_UTC (e_now E))" "cs_FinalMeterReading s = ci_FinalMeterReading n"
    "cs_Lines s = checkout_lines (cc_Lease c) n e" "cs_ManualRentRefundAmount s = ?m" "cs_DepositAmount s = ?dep"
    by (simp_all add: s finalized_settlement_def buildCheckoutSettlement_def Let_def case_prod_beta)
  show ?thesis
    unfolding stored_settlement_def fields net tr
    using t r ints checkout_lines_stored [OF ints(1) a(1) ints(2-4)] by simp
qed

text \<open>
  C8.  The export is what was finalised.  After a checkout was finalised, the
  export of the lease, by anybody who may see its property, returns exactly the
  settlement that was finalised, dates to the nanosecond and every amount: the
  JSON the row keeps loses nothing but the integer type of the numbers in the
  sources of the lines.  The amounts are below 2^50, which a JSON number holds.
\<close>

theorem ExportCheckout_returns_what_was_finalized:
  assumes "FinalizeCheckout_Execute E sha (server_deposit_repo E) (server_publish E) input w = (Inr s, w')"
    and "unique_codes (w_db w)" "fees input < 2 ^ 50" "ci_ManualRentRefundAmount input < 2 ^ 50"
    and "\<forall>l \<in> set (live (db_leases (w_db w))). l_DepositAmount l < 2 ^ 31"
    and "\<forall>m \<in> set_option (ci_FinalMeterReading input). json_int m"
    and "stored_time (normalizeDate (ci_CheckoutDate input))" "stored_time (time_UTC (e_now E))"
    and "\<forall>t \<in> set_option (ci_ActualMoveOutDate input). stored_time (normalizeDate t)"
    and "calm v" "w_db v = w_db w'" "normalizeLeaseID E' (ci_LeaseID input') = Inr (trim (ci_LeaseID input))"
    and "authorizeCheckoutSettlement (ci_ActorRole input') (ci_AssignedPropertyIDs input') (cs_PropertyID s) = Inr ()"
  shows "\<exists>v'. ExportCheckout_load E' publish input' v = (Inr (settlement_as_read s), v') \<and> w_db v' = w_db w'"
proof -
  obtain n c e pp why es d where c: "FinalizeCheckout_validate E input = Inr n"
    "checkout_context_of (ci_LeaseID n) (w_db w) = Some c"
    "pp = buildCheckoutSettlement sha c (lease_bills (ci_LeaseID n) (w_db w)) n e None"
    "s = finalized_settlement pp (time_UTC (e_now E))" "cs_TotalCharge s = fees n + electricity_amount e"
    "0 \<le> cs_TotalCharge s" "cs_TotalCharge s \<le> l_DepositAmount (cc_Lease c)"
    "d = add_entries es (closed_meter E e (time_UTC (e_now E))
         (checkout_ended E n s (l_DepositAmount (cc_Lease c) - cs_TotalCharge s) (cs_TotalCharge s) why (w_db w)))"
    "w_db w' = released E (l_RoomID (cc_Lease c)) (l_TenantID (cc_Lease c)) d"
    using FinalizeCheckout_effect [OF assms(1,2)] assms(3) by fastforce
  note n = validate_D [OF c(1)] and m = validated_fields [OF c(1)]
  have lease: "lease_by_id (ci_LeaseID n) (w_db w) = Some (cc_Lease c)" by (rule context_of_lease [OF c(2)])
  then have dep: "l_DepositAmount (cc_Lease c) < 2 ^ 31" using lease_by_id_Some assms(5) by blast
  define l' where "l' = checked_out_lease E n s (l_DepositAmount (cc_Lease c) - cs_TotalCharge s)
      (cs_TotalCharge s) why (cc_Lease c)"
  have l': "lease_by_id (ci_LeaseID n) (w_db w') = Some l'"
  proof -
    have "lease_by_id (ci_LeaseID n) d = lease_by_id (ci_LeaseID n)
        (checkout_ended E n s (l_DepositAmount (cc_Lease c) - cs_TotalCharge s) (cs_TotalCharge s) why (w_db w))"
      by (simp add: c(8) lease_by_id_def add_entries_def)
    then show ?thesis using lease by (simp add: c(9) l'_def)
  qed
  have ids: "db_properties (w_db w') = db_properties (w_db w)"
    "map rm_ID (live (db_rooms (w_db w))) = map rm_ID (live (db_rooms (w_db w')))"
    "map tn_ID (live (db_tenants (w_db w))) = map tn_ID (live (db_tenants (w_db w')))"
    unfolding c(9) released_ids by (simp_all add: c(8) add_entries_def closed_properties)
  obtain c' where c': "checkout_context_of (ci_LeaseID n) (w_db w') = Some c'" "cc_Lease c' = l'"
    using context_kept [OF c(2) l' _ _ _ ids] by (auto simp: l'_def)
  have "cs_PropertyID s = l_PropertyID (cc_Lease c')"
    by (simp add: c'(2) l'_def c(3,4) finalized_settlement_def buildCheckoutSettlement_def Let_def case_prod_beta)
  moreover have "stored_settlement s"
    by (rule finalized_is_stored [OF c(4) [unfolded c(3)] n(2)])
      (use assms(3-9) dep c(5-7) n m in \<open>auto simp: option.set_map\<close>)
  ultimately show ?thesis
    using export_runs [OF assms(10), of "ci_LeaseID n" c' s E' input' publish] c' assms(11-13) n(1)
    by (simp add: l'_def c(4))
qed

lemma sample_checkout_times:
  "stored_time (normalizeDate (ci_CheckoutDate sample_checkout)) \<and> stored_time (time_UTC (e_now sample_env))
   \<and> ci_ActualMoveOutDate sample_checkout = None \<and> ci_FinalMeterReading sample_checkout = Some 110
   \<and> ci_ManualRentRefundAmount sample_checkout = 500
   \<and> normalizeLeaseID sample_env (ci_LeaseID sample_checkout) = Inr (trim (ci_LeaseID sample_checkout))
   \<and> cs_PropertyID sample_preview = ''p1''
   \<and> authorizeCheckoutSettlement (ci_ActorRole sample_checkout) (ci_AssignedPropertyIDs sample_checkout) ''p1'' = Inr ()"
  by code_simp

lemma ExportCheckout_returns_what_was_finalized_witness:
  "\<exists>s v v'. ExportCheckout_load sample_env (server_publish sample_env) sample_checkout v = (Inr (settlement_as_read s), v')
     \<and> cs_TotalCharge s = 1550"
proof -
  let ?i = "sample_checkout\<lparr>ci_PreviewToken := ''token''\<rparr>"
  let ?s = "finalized_settlement sample_preview (time_UTC (e_now sample_env))"
  obtain u where u: "PreviewCheckout_Execute sample_env (\<lambda>_. ''token'') (server_publish sample_env)
      sample_checkout checkout_world = (Inr sample_preview, u)" by (rule sample_preview_shown)
  have t: "trim ''token'' = ''token''" by code_simp
  obtain w' where r: "FinalizeCheckout_Execute sample_env (\<lambda>_. ''token'') (server_deposit_repo sample_env)
      (server_publish sample_env) ?i checkout_world = (Inr ?s, w')"
    using FinalizeCheckout_runs [OF u _ t _ checkout_world_calm refl refl _ _ sample_checkout_leases]
      sample_preview_ok checkout_world_rows by auto
  have a: "\<forall>l \<in> set (live (db_leases (w_db checkout_world))). l_DepositAmount l < 2 ^ 31"
    using checkout_world_leases by auto
  have i: "ci_LeaseID ?i = ci_LeaseID sample_checkout" "ci_CheckoutDate ?i = ci_CheckoutDate sample_checkout"
    "ci_ActualMoveOutDate ?i = None" "ci_FinalMeterReading ?i = Some 110" "ci_ManualRentRefundAmount ?i = 500"
    "fees ?i = 1000" "cs_PropertyID ?s = ''p1''"
    using sample_checkout_times checkout_world_rows by (simp_all add: fees_def finalized_settlement_def)
  have "calm (w'\<lparr>w_faults := []\<rparr>)" "w_db (w'\<lparr>w_faults := []\<rparr>) = w_db w'" by (simp_all add: calm_def)
  from ExportCheckout_returns_what_was_finalized [OF r _ _ _ a _ _ _ _ this, of sample_env sample_checkout "server_publish sample_env"]
  have "\<exists>v'. ExportCheckout_load sample_env (server_publish sample_env) sample_checkout (w'\<lparr>w_faults := []\<rparr>)
      = (Inr (settlement_as_read ?s), v')"
    using sample_checkout_times checkout_world_rows unfolding i by (auto simp: json_int_def)
  moreover have "cs_TotalCharge ?s = 1550" using sample_preview_ok by simp
  ultimately show ?thesis by blast
qed

end
