(* ===== verification/JournalCommands.thy ===== *)
theory JournalCommands
  imports RepairCommands Snapshots
begin

text \<open>
  The journal logs of a property (domain/journal, application/journal,
  platform/database/journal, server/journal_adapters.go): a log may carry an
  expense, which the same transaction books in the ledger of the property.

  The id of a log reaches the commands as the text of the request path, while the
  column is a UUID, which PostgreSQL reads from several spellings.  The parameter
  \<open>U\<close> is that reading: the canonical text of the UUID, or None where PostgreSQL
  rejects the text.  The server always passes the accounting repository and the
  transaction runner, so the checks that they are not nil are left out.
\<close>

section \<open>The aggregate (domain/journal/aggregate.go)\<close>

definition ErrContentRequired :: gerr where
  "ErrContentRequired = Sentinel ''domainjournal.ErrContentRequired''"

record journal_state =
  jn_ID :: string
  jn_PropertyID :: string
  jn_RoomID :: "string option"
  jn_AuthorID :: string
  jn_Content :: string
  jn_ExpenseAmount :: "int option"
  jn_ExpenseDescription :: "string option"

record journal_update =
  ju_Content :: "string option"
  ju_ExpenseAmount :: "int option"
  ju_ExpenseDescription :: "string option"

definition trimOptionalString :: "string option \<Rightarrow> string option" where
  "trimOptionalString value =
    (case value of None \<Rightarrow> None
     | Some s \<Rightarrow> (let trimmed = trim s in if trimmed = '''' then None else Some trimmed))"

definition journal_normalizeState :: "journal_state \<Rightarrow> gerr + journal_state" where
  "journal_normalizeState state =
    (let s = state\<lparr>jn_ID := trim (jn_ID state), jn_PropertyID := trim (jn_PropertyID state),
            jn_AuthorID := trim (jn_AuthorID state), jn_Content := trim (jn_Content state),
            jn_RoomID := trimOptionalString (jn_RoomID state),
            jn_ExpenseDescription := trimOptionalString (jn_ExpenseDescription state)\<rparr>
     in if jn_Content s = '''' then Inl ErrContentRequired else Inr s)"

definition journal_New :: "journal_state \<Rightarrow> gerr + journal_state" where
  "journal_New state = journal_normalizeState state"

definition journal_Rehydrate :: "journal_state \<Rightarrow> gerr + journal_state" where
  "journal_Rehydrate state = journal_normalizeState state"

definition journal_Update :: "journal_state \<Rightarrow> journal_update \<Rightarrow> gerr + journal_state" where
  "journal_Update a input =
    (case (case ju_Content input of None \<Rightarrow> Inr a
           | Some c \<Rightarrow> if trim c = '''' then Inl ErrContentRequired else Inr (a\<lparr>jn_Content := trim c\<rparr>)) of
       Inl e \<Rightarrow> Inl e
     | Inr b \<Rightarrow>
         (let c = (case ju_ExpenseAmount input of None \<Rightarrow> b | Some v \<Rightarrow> b\<lparr>jn_ExpenseAmount := Some v\<rparr>)
          in Inr (case ju_ExpenseDescription input of None \<Rightarrow> c
             | Some d \<Rightarrow> c\<lparr>jn_ExpenseDescription := trimOptionalString (Some d)\<rparr>)))"

section \<open>Errors (application/journal/repository.go, errors.go)\<close>

definition ErrJournalLogNotFound_app :: gerr where
  "ErrJournalLogNotFound_app = Sentinel ''appjournal.ErrJournalLogNotFound''"
definition ErrPropertyNotFound_journal :: gerr where
  "ErrPropertyNotFound_journal = Sentinel ''appjournal.ErrPropertyNotFound''"
definition ErrRoomNotFound_journal :: gerr where
  "ErrRoomNotFound_journal = Sentinel ''appjournal.ErrRoomNotFound''"
definition ErrPropertyAccountNotFound_journal :: gerr where
  "ErrPropertyAccountNotFound_journal = Sentinel ''appjournal.ErrPropertyAccountNotFound''"
definition ErrAccountingTitleNotFound_journal :: gerr where
  "ErrAccountingTitleNotFound_journal = Sentinel ''appjournal.ErrAccountingTitleNotFound''"

definition ErrJournalLogNotFound :: gerr where
  "ErrJournalLogNotFound = apperr_New ''JOURNAL_LOG_NOT_FOUND'' 404 ''Journal log not found.''"
definition ErrValidationJournalContentRequired :: gerr where
  "ErrValidationJournalContentRequired =
     apperr_New ''VALIDATION_JOURNAL_CONTENT_REQUIRED'' 400 ''Journal content is required.''"
definition ErrJournalExpenseSnapshotFinalized :: gerr where
  "ErrJournalExpenseSnapshotFinalized = apperr_New ''JOURNAL_EXPENSE_SNAPSHOT_FINALIZED'' 409
     ''Journal expense belongs to a finalized monthly snapshot.''"

definition journal_mapRepositoryError :: "gerr \<Rightarrow> gerr" where
  "journal_mapRepositoryError e =
    (if errors_Is e ErrJournalLogNotFound_app then ErrJournalLogNotFound
     else if errors_Is e ErrPropertyNotFound_journal then ErrPropertyNotFound
     else if errors_Is e ErrRoomNotFound_journal then ErrRoomNotFound
     else if errors_Is e ErrAccountingTitleNotFound_journal then bad_field ''expense_accounting_title_id''
     else internal_cause e)"

definition missing_dependency :: "string \<Rightarrow> gerr \<Rightarrow> gerr" where
  "missing_dependency what e = apperr_WithDetails e (JObj [(''dependency'', JStr what)])"

definition journal_mapAccountingError :: "gerr \<Rightarrow> gerr" where
  "journal_mapAccountingError e =
    (if errors_Is e ErrPropertyAccountNotFound_journal
     then missing_dependency ''property_account'' (internal_cause e) else internal_cause e)"

definition journal_mapDomainError :: "gerr \<Rightarrow> gerr" where
  "journal_mapDomainError e =
    (if errors_Is e ErrContentRequired then ErrValidationJournalContentRequired else internal_cause e)"

section \<open>Helpers (helpers.go)\<close>

text \<open>\<open>journalAccountingLocation = time.FixedZone("Asia/Taipei", 8*60*60)\<close>.\<close>

definition journalAccountingLocation :: int where
  "journalAccountingLocation = 8 * 60 * 60"

definition journalAccountingPeriod :: "gtime \<Rightarrow> int \<times> int" where
  "journalAccountingPeriod value =
    (let occurredAt = time_in value journalAccountingLocation in (time_year occurredAt, time_month occurredAt))"

definition journal_normalizeWriteRole :: "string \<Rightarrow> gerr + string" where
  "journal_normalizeWriteRole role =
    (let normalized = to_lower (trim role)
     in if normalized \<in> {''admin'', ''organizer'', ''staff''} then Inr normalized else Inl ErrForbidden)"

text \<open>The error of \<open>uuid.Parse\<close> becomes the cause.\<close>

definition unreadable_uuid :: "string \<Rightarrow> gerr" where
  "unreadable_uuid field =
     apperr_WithDetails (apperr_WithCause ErrBadRequest (DriverErr ''uuid.Parse'')) (field_detail field)"

definition journal_normalizeRequiredUUID :: "env \<Rightarrow> string \<Rightarrow> string \<Rightarrow> gerr \<Rightarrow> gerr + string" where
  "journal_normalizeRequiredUUID E value field notFound =
    (let trimmed = trim value
     in if trimmed = '''' \<or> trimmed = zeroUUID then Inl notFound
        else if \<not> e_uuid_ok E trimmed then Inl (unreadable_uuid field)
        else Inr trimmed)"

definition journal_normalizeOptionalUUID :: "env \<Rightarrow> string option \<Rightarrow> string \<Rightarrow> gerr + string option" where
  "journal_normalizeOptionalUUID E value field =
    (case value of None \<Rightarrow> Inr None
     | Some v \<Rightarrow> (let trimmed = trim v
         in if trimmed = '''' then Inr None
            else if \<not> e_uuid_ok E trimmed then Inl (unreadable_uuid field)
            else Inr (Some trimmed)))"

definition journal_requirePropertyAccess :: "string \<Rightarrow> string list \<Rightarrow> string \<Rightarrow> gerr + unit" where
  "journal_requirePropertyAccess role assignedPropertyIDs propertyID =
    (if role = ''admin'' then Inr ()
     else if role \<in> {''organizer'', ''staff''}
     then if containsAssignedProperty assignedPropertyIDs propertyID then Inr ()
          else Inl (apperr_WithDetails ErrForbidden (JObj [(''property_id'', JStr propertyID)]))
     else Inl ErrForbidden)"

section \<open>The repository (platform/database/journal)\<close>

text \<open>\<open>JournalLog\<close>: the row with the labels of what it refers to.\<close>

record journal_log =
  jo_row :: journal_row
  jo_PropertyLabel :: string
  jo_RoomLabel :: "string option"
  jo_AuthorLabel :: string

text \<open>\<open>selectJournalLogColumns\<close> with its left joins, which also find deleted rows;
  \<open>returningJournalLogColumns\<close> labels everything with its id.\<close>

definition journal_selected :: "db \<Rightarrow> journal_row \<Rightarrow> journal_log" where
  "journal_selected d r =
     \<lparr>jo_row = r,
      jo_PropertyLabel = (case find (\<lambda>p. pr_ID p = jl_PropertyID r) (all_rows (db_properties d)) of
         None \<Rightarrow> jl_PropertyID r | Some p \<Rightarrow> pr_Name p),
      jo_RoomLabel = map_option (\<lambda>i. case find (\<lambda>m. rm_ID m = i) (all_rows (db_rooms d)) of
         None \<Rightarrow> i | Some m \<Rightarrow> rm_Name m) (jl_RoomID r),
      jo_AuthorLabel = user_label (jl_AuthorID r) d\<rparr>"

definition journal_returned :: "journal_row \<Rightarrow> journal_log" where
  "journal_returned r = \<lparr>jo_row = r, jo_PropertyLabel = jl_PropertyID r, jo_RoomLabel = jl_RoomID r,
     jo_AuthorLabel = jl_AuthorID r\<rparr>"

text \<open>A statement with a UUID parameter: PostgreSQL rejects a text it cannot read.\<close>

definition uuid_stmt ::
    "string \<Rightarrow> (string \<Rightarrow> string option) \<Rightarrow> string \<Rightarrow> (string \<Rightarrow> nat \<Rightarrow> db \<Rightarrow> 'a \<times> db) \<Rightarrow> 'a tx" where
  "uuid_stmt ctx U i body =
     tx_bind (stmt ctx (\<lambda>n d. case U i of None \<Rightarrow> (None, d)
         | Some u \<Rightarrow> (case body u n d of (x, d') \<Rightarrow> (Some x, d'))))
       (found_or (Wrapped ctx driver_error))"

lemma uuid_stmt_ok [tx_simps]:
  "uuid_stmt ctx U i body w = (Inr x, v) \<longleftrightarrow> (\<exists>u. U i = Some u \<and> stmt ctx (body u) w = (Inr x, v))"
  by (cases "U i") (auto simp: uuid_stmt_def tx_bind_ok stmt_ok found_or_ok split: prod.splits)

definition journal_by_id :: "string \<Rightarrow> db \<Rightarrow> journal_row option" where
  "journal_by_id i d = find (\<lambda>r. jl_ID r = i) (live (db_journals d))"

definition journal_FindByID :: "(string \<Rightarrow> string option) \<Rightarrow> string \<Rightarrow> journal_log tx" where
  "journal_FindByID U i =
     tx_bind (uuid_stmt ''query journal log by id'' U i
         (\<lambda>u _ d. (map_option (journal_selected d) (journal_by_id u d), d)))
       (found_or ErrJournalLogNotFound_app)"

definition journal_FindByIDForUpdate :: "(string \<Rightarrow> string option) \<Rightarrow> string \<Rightarrow> journal_log tx" where
  "journal_FindByIDForUpdate U i =
     tx_bind (uuid_stmt ''query journal log by id for update'' U i
         (\<lambda>u _ d. (map_option (journal_selected d) (journal_by_id u d), d)))
       (found_or ErrJournalLogNotFound_app)"

record accounting_title =
  at_ID :: string
  at_Code :: string
  at_Name :: string
  at_Kind :: string

definition scanned_title :: "title_row \<Rightarrow> accounting_title" where
  "scanned_title t = \<lparr>at_ID = ti_ID t, at_Code = ti_Code t, at_Name = ti_Name t, at_Kind = ti_Kind t\<rparr>"

definition expense_title :: "title_row \<Rightarrow> bool" where
  "expense_title t \<longleftrightarrow> ti_Kind t = ''expense'' \<and> ti_IsActive t"

definition ListExpenseAccountingTitles :: "accounting_title list tx" where
  "ListExpenseAccountingTitles =
     stmt ''list journal expense accounting titles'' (\<lambda>_ d.
       (map scanned_title (sort_key (\<lambda>t. (ti_Code t, ti_Name t)) (filter expense_title (db_titles d))), d))"

definition FindExpenseAccountingTitleByID ::
    "(string \<Rightarrow> string option) \<Rightarrow> string \<Rightarrow> accounting_title tx" where
  "FindExpenseAccountingTitleByID U i =
     tx_bind (uuid_stmt ''query journal expense accounting title by id'' U i (\<lambda>u _ d.
         (map_option scanned_title (find (\<lambda>t. ti_ID t = u \<and> expense_title t) (db_titles d)), d)))
       (found_or ErrAccountingTitleNotFound_journal)"

definition FindExpenseAccountingTitleByCode :: "string \<Rightarrow> accounting_title tx" where
  "FindExpenseAccountingTitleByCode code =
     tx_bind (stmt ''query journal expense accounting title by code'' (\<lambda>_ d.
         (map_option scanned_title (find (\<lambda>t. ti_Code t = code \<and> expense_title t) (db_titles d)), d)))
       (found_or ErrAccountingTitleNotFound_journal)"

definition journal_EnsurePropertyExists :: "(string \<Rightarrow> string option) \<Rightarrow> string \<Rightarrow> unit tx" where
  "journal_EnsurePropertyExists U i =
     tx_bind (uuid_stmt ''query journal property by id'' U i (\<lambda>u _ d. (property_by_id u d, d)))
       (\<lambda>r. tx_reject (r = None) ErrPropertyNotFound_journal)"

text \<open>The id of the room and of its property.\<close>

definition journal_FindRoomByID :: "(string \<Rightarrow> string option) \<Rightarrow> string \<Rightarrow> (string \<times> string) tx" where
  "journal_FindRoomByID U i =
     tx_bind (uuid_stmt ''query journal room by id'' U i
         (\<lambda>u _ d. (map_option (\<lambda>r. (rm_ID r, rm_PropertyID r)) (find_room u d), d)))
       (found_or ErrRoomNotFound_journal)"

record journal_create_params =
  jc_PropertyID :: string
  jc_RoomID :: "string option"
  jc_AuthorID :: string
  jc_Content :: string
  jc_ExpenseAmount :: "int option"
  jc_ExpenseDescription :: "string option"
  jc_Title :: "accounting_title option"

text \<open>\<open>expense_amount\<close> is an INTEGER column; the ids are foreign keys, also to deleted
  rows.\<close>

definition int4 :: "int \<Rightarrow> bool" where
  "int4 a \<longleftrightarrow> - (2 ^ 31) \<le> a \<and> a < 2 ^ 31"

definition int4_option :: "int option \<Rightarrow> bool" where
  "int4_option a = (case a of None \<Rightarrow> True | Some v \<Rightarrow> int4 v)"

definition journal_storable :: "db \<Rightarrow> journal_row \<Rightarrow> bool" where
  "journal_storable d r \<longleftrightarrow>
     (\<exists>p \<in> set (all_rows (db_properties d)). pr_ID p = jl_PropertyID r)
     \<and> (case jl_RoomID r of None \<Rightarrow> True | Some i \<Rightarrow> \<exists>m \<in> set (all_rows (db_rooms d)). rm_ID m = i)
     \<and> (\<exists>u \<in> set (all_rows (db_users d)). us_ID u = jl_AuthorID r)
     \<and> int4_option (jl_ExpenseAmount r)"

text \<open>The row of the INSERT, None when an id cannot be read.\<close>

definition new_journal ::
    "env \<Rightarrow> (string \<Rightarrow> string option) \<Rightarrow> nat \<Rightarrow> journal_create_params \<Rightarrow> journal_row option" where
  "new_journal E U n params =
    (case (U (jc_PropertyID params), U (jc_AuthorID params)) of
       (Some p, Some a) \<Rightarrow>
         if (case jc_RoomID params of None \<Rightarrow> False | Some i \<Rightarrow> U i = None) then None
         else Some \<lparr>jl_ID = e_id E n, jl_PropertyID = p,
           jl_RoomID = (case jc_RoomID params of None \<Rightarrow> None | Some i \<Rightarrow> U i), jl_AuthorID = a,
           jl_Content = jc_Content params, jl_ExpenseAmount = jc_ExpenseAmount params,
           jl_ExpenseDescription = jc_ExpenseDescription params,
           jl_TitleID = map_option at_ID (jc_Title params),
           jl_TitleCode = map_option at_Code (jc_Title params),
           jl_TitleName = map_option at_Name (jc_Title params),
           jl_CreatedAt = e_now E, jl_UpdatedAt = e_now E\<rparr>
     | _ \<Rightarrow> None)"

definition journal_Create ::
    "env \<Rightarrow> (string \<Rightarrow> string option) \<Rightarrow> journal_create_params \<Rightarrow> journal_log tx" where
  "journal_Create E U params =
     tx_bind (stmt ''create journal log'' (\<lambda>n d. case new_journal E U n params of
           None \<Rightarrow> (None, d)
         | Some r \<Rightarrow> if journal_storable d r
             then (Some (journal_returned r), d\<lparr>db_journals := tab_insert r (db_journals d)\<rparr>)
             else (None, d)))
       (found_or (Wrapped ''create journal log'' driver_error))"

record journal_update_params =
  jp_Content :: string
  jp_ExpenseAmount :: "int option"
  jp_ExpenseDescription :: "string option"
  jp_Title :: "accounting_title option"

definition journal_updated :: "env \<Rightarrow> journal_update_params \<Rightarrow> journal_row \<Rightarrow> journal_row" where
  "journal_updated E p r =
     r\<lparr>jl_Content := jp_Content p, jl_ExpenseAmount := jp_ExpenseAmount p,
       jl_ExpenseDescription := jp_ExpenseDescription p, jl_TitleID := map_option at_ID (jp_Title p),
       jl_TitleCode := map_option at_Code (jp_Title p), jl_TitleName := map_option at_Name (jp_Title p),
       jl_UpdatedAt := e_now E\<rparr>"

definition journal_Update_repo ::
    "env \<Rightarrow> (string \<Rightarrow> string option) \<Rightarrow> string \<Rightarrow> journal_update_params \<Rightarrow> journal_log tx" where
  "journal_Update_repo E U i p =
     tx_bind (uuid_stmt ''update journal log'' U i (\<lambda>u _ d.
         if int4_option (jp_ExpenseAmount p)
         then (Some (map_option (\<lambda>r. journal_returned (journal_updated E p r)) (journal_by_id u d)),
               d\<lparr>db_journals := tab_update (\<lambda>r. jl_ID r = u) (journal_updated E p) (db_journals d)\<rparr>)
         else (None, d)))
       (\<lambda>r. tx_bind (found_or (Wrapped ''update journal log'' driver_error) r)
         (found_or ErrJournalLogNotFound_app))"

definition journal_SoftDelete :: "env \<Rightarrow> (string \<Rightarrow> string option) \<Rightarrow> string \<Rightarrow> unit tx" where
  "journal_SoftDelete E U i =
     tx_bind (uuid_stmt ''soft delete journal log'' U i (\<lambda>u _ d.
         (journal_by_id u d \<noteq> None,
          d\<lparr>db_journals := tab_retire (\<lambda>r. jl_ID r = u) (\<lambda>r. r\<lparr>jl_UpdatedAt := e_now E\<rparr>) (db_journals d)\<rparr>)))
       (\<lambda>found. tx_reject (\<not> found) ErrJournalLogNotFound_app)"

section \<open>The ledger entry of a log (platform/database/billing, server/journal_adapters.go)\<close>

text \<open>\<open>source_ref->>'journal_log_id'\<close>: every source reference with this key holds text.\<close>

definition journal_ref :: "jval \<Rightarrow> string option" where
  "journal_ref sourceRef =
    (case sourceRef of JObj kvs \<Rightarrow>
       (case map_of kvs ''journal_log_id'' of Some (JStr s) \<Rightarrow> Some s | _ \<Rightarrow> None)
     | _ \<Rightarrow> None)"

definition entry_of_log :: "string \<Rightarrow> entry_row \<Rightarrow> bool" where
  "entry_of_log i e \<longleftrightarrow> en_Category e = ''journal_expense'' \<and> journal_ref (en_SourceRef e) = Some i"

definition DeleteJournalExpenseAccountingEntry :: "string \<Rightarrow> unit tx" where
  "DeleteJournalExpenseAccountingEntry journalLogID =
     stmt ''delete journal expense accounting entry'' (\<lambda>_ d.
       ((), d\<lparr>db_entries := filter (\<lambda>e. \<not> entry_of_log journalLogID e) (db_entries d)\<rparr>))"

definition ReplaceJournalExpenseAccountingEntry ::
    "env \<Rightarrow> string \<Rightarrow> string \<Rightarrow> accounting_entry_params \<Rightarrow> unit tx" where
  "ReplaceJournalExpenseAccountingEntry E journalLogID accountID params =
     tx_bind (DeleteJournalExpenseAccountingEntry journalLogID)
       (\<lambda>_. InsertAccountingEntry E accountID params)"

definition journal_account :: "string \<Rightarrow> account_row tx" where
  "journal_account propertyID =
     tx_map_err (\<lambda>e. if errors_Is e ErrNotFound_billing then ErrPropertyAccountNotFound_journal else e)
       (FindPropertyAccountByPropertyID propertyID)"

definition CreateExpenseAccountingEntry :: "env \<Rightarrow> accounting_entry_params \<Rightarrow> unit tx" where
  "CreateExpenseAccountingEntry E params =
     tx_bind (journal_account (aep_PropertyID params))
       (\<lambda>account. InsertAccountingEntry E (pa_ID account) params)"

definition SyncExpenseAccountingEntry :: "env \<Rightarrow> string \<Rightarrow> accounting_entry_params option \<Rightarrow> unit tx" where
  "SyncExpenseAccountingEntry E journalLogID params =
    (case params of None \<Rightarrow> DeleteJournalExpenseAccountingEntry journalLogID
     | Some p \<Rightarrow> tx_bind (journal_account (aep_PropertyID p))
         (\<lambda>account. ReplaceJournalExpenseAccountingEntry E journalLogID (pa_ID account) p))"

text \<open>The entry both use cases build from a stored log, its amount and the title.\<close>

definition journal_entry :: "journal_row \<Rightarrow> int \<Rightarrow> accounting_title \<Rightarrow> accounting_entry_params" where
  "journal_entry logRow amount title =
    (let (year, month) = journalAccountingPeriod (jl_CreatedAt logRow)
     in \<lparr>aep_PropertyID = jl_PropertyID logRow, aep_Category = ''journal_expense'',
         aep_AccountingTitleCode = at_Code title, aep_Amount = amount,
         aep_Description = jl_ExpenseDescription logRow,
         aep_SourceRef = JObj [(''journal_log_id'', JStr (jl_ID logRow)), (''type'', JStr ''JournalExpenseRecorded'')],
         aep_Year = year, aep_Month = month,
         aep_SourceDate = Some (time_in (jl_CreatedAt logRow) journalAccountingLocation),
         aep_RoomLabel = None, aep_TenantLabel = None, aep_PeriodLabel = None,
         aep_DisplayNote = jl_ExpenseDescription logRow\<rparr>)"

text \<open>\<open>JournalExpenseSnapshotExists\<close> and the refusal that follows it, for the month of
  a log.\<close>

definition refuse_closed_month :: "journal_row \<Rightarrow> unit tx" where
  "refuse_closed_month logRow =
    (let (year, month) = journalAccountingPeriod (jl_CreatedAt logRow)
     in tx_bind (tx_map_err journal_mapAccountingError (MonthlySnapshotExists (jl_PropertyID logRow) year month))
          (\<lambda>finalized. tx_reject finalized ErrJournalExpenseSnapshotFinalized))"

section \<open>Create (create.go)\<close>

record journal_create_input =
  ji_ActorRole :: string
  ji_ActorUserID :: string
  ji_AssignedPropertyIDs :: "string list"
  ji_PropertyID :: string
  ji_RoomID :: "string option"
  ji_Content :: string
  ji_ExpenseAmount :: "int option"
  ji_ExpenseDescription :: "string option"
  ji_TitleID :: "string option"

definition accountingTitleCodeJournalExpense :: string where
  "accountingTitleCodeJournalExpense = ''6681''"

text \<open>A log as the title it was booked under, when all three columns are set.\<close>

definition stored_title :: "journal_row \<Rightarrow> accounting_title option" where
  "stored_title r =
    (case (jl_TitleID r, jl_TitleCode r, jl_TitleName r) of
       (Some i, Some c, Some n) \<Rightarrow> Some \<lparr>at_ID = i, at_Code = c, at_Name = n, at_Kind = ''expense''\<rparr>
     | _ \<Rightarrow> None)"

definition resolveExpenseAccountingTitle ::
    "env \<Rightarrow> (string \<Rightarrow> string option) \<Rightarrow> string option \<Rightarrow> journal_row option \<Rightarrow> accounting_title tx" where
  "resolveExpenseAccountingTitle E U requestedID current =
    (case requestedID of
       Some requested \<Rightarrow>
         tx_bind (tx_map_err (\<lambda>e. if errors_Is e ErrAccountingTitleNotFound_journal
                                  then bad_field ''expense_accounting_title_id'' else e)
             (tx_lift (journal_normalizeRequiredUUID E requested ''expense_accounting_title_id''
                ErrAccountingTitleNotFound_journal)))
           (\<lambda>titleID. tx_map_err journal_mapRepositoryError (FindExpenseAccountingTitleByID U titleID))
     | None \<Rightarrow>
         (case Option.bind current stored_title of
            Some title \<Rightarrow> tx_return title
          | None \<Rightarrow> tx_map_err journal_mapRepositoryError
              (FindExpenseAccountingTitleByCode accountingTitleCodeJournalExpense)))"

text \<open>The checks before the transaction: the normalised ids and the new aggregate.\<close>

definition CreateJournal_validate ::
    "env \<Rightarrow> journal_create_input \<Rightarrow> gerr + (string \<times> string option \<times> journal_state)" where
  "CreateJournal_validate E input =
    (case journal_normalizeWriteRole (ji_ActorRole input) of Inl e \<Rightarrow> Inl e | Inr actorRole \<Rightarrow>
     case journal_normalizeRequiredUUID E (ji_ActorUserID input) ''actor_user_id'' ErrUnauthorized of
       Inl e \<Rightarrow> Inl e | Inr actorUserID \<Rightarrow>
     case journal_normalizeRequiredUUID E (ji_PropertyID input) ''property_id'' ErrPropertyNotFound of
       Inl e \<Rightarrow> Inl e | Inr propertyID \<Rightarrow>
     case journal_normalizeOptionalUUID E (ji_RoomID input) ''room_id'' of Inl e \<Rightarrow> Inl e | Inr roomID \<Rightarrow>
     case journal_requirePropertyAccess actorRole (ji_AssignedPropertyIDs input) propertyID of
       Inl e \<Rightarrow> Inl e | Inr _ \<Rightarrow>
     case journal_New \<lparr>jn_ID = '''', jn_PropertyID = propertyID, jn_RoomID = roomID, jn_AuthorID = actorUserID,
            jn_Content = ji_Content input, jn_ExpenseAmount = ji_ExpenseAmount input,
            jn_ExpenseDescription = ji_ExpenseDescription input\<rparr> of
       Inl e \<Rightarrow> Inl (journal_mapDomainError e) | Inr state \<Rightarrow> Inr (propertyID, roomID, state))"

definition create_params :: "journal_state \<Rightarrow> accounting_title option \<Rightarrow> journal_create_params" where
  "create_params state title =
     \<lparr>jc_PropertyID = jn_PropertyID state, jc_RoomID = jn_RoomID state, jc_AuthorID = jn_AuthorID state,
      jc_Content = jn_Content state, jc_ExpenseAmount = jn_ExpenseAmount state,
      jc_ExpenseDescription = jn_ExpenseDescription state, jc_Title = title\<rparr>"

text \<open>The room, when one is given, has to be one of the property.\<close>

definition check_room :: "(string \<Rightarrow> string option) \<Rightarrow> string \<Rightarrow> string option \<Rightarrow> unit tx" where
  "check_room U propertyID roomID =
    (case roomID of None \<Rightarrow> tx_return ()
     | Some i \<Rightarrow> tx_bind (tx_map_err journal_mapRepositoryError (journal_FindRoomByID U i))
         (\<lambda>room. tx_reject (snd room \<noteq> propertyID) (bad_field ''room_id'')))"

text \<open>The title of an expense; none is looked up without one.\<close>

definition expense_title_of ::
    "env \<Rightarrow> (string \<Rightarrow> string option) \<Rightarrow> int option \<Rightarrow> string option \<Rightarrow> journal_row option
     \<Rightarrow> accounting_title option tx" where
  "expense_title_of E U amount requestedID current =
    (case amount of None \<Rightarrow> tx_return None
     | Some _ \<Rightarrow> tx_bind (resolveExpenseAccountingTitle E U requestedID current) (\<lambda>t. tx_return (Some t)))"

definition no_title :: gerr where
  "no_title = missing_dependency ''journal_accounting_title'' ErrInternalServerError"

definition book_expense :: "env \<Rightarrow> journal_row \<Rightarrow> accounting_title option \<Rightarrow> unit tx" where
  "book_expense E logRow expenseTitle =
    (case jl_ExpenseAmount logRow of None \<Rightarrow> tx_return ()
     | Some amount \<Rightarrow>
         (case expenseTitle of None \<Rightarrow> tx_throw no_title
          | Some title \<Rightarrow>
              tx_bind (refuse_closed_month logRow) (\<lambda>_.
              tx_bind (tx_map_err journal_mapAccountingError
                  (CreateExpenseAccountingEntry E (journal_entry logRow amount title))) (\<lambda>_.
              record_event (JournalExpenseRecorded (jl_ID logRow) (jl_PropertyID logRow) amount
                (jl_ExpenseDescription logRow) (time_UTC (jl_CreatedAt logRow)))))))"

definition CreateJournal_body ::
    "env \<Rightarrow> (string \<Rightarrow> string option) \<Rightarrow> string option \<Rightarrow> string \<times> string option \<times> journal_state
     \<Rightarrow> journal_log tx" where
  "CreateJournal_body E U requestedTitle = (\<lambda>(propertyID, roomID, state).
     tx_bind (tx_map_err journal_mapRepositoryError (journal_EnsurePropertyExists U propertyID)) (\<lambda>_.
     tx_bind (check_room U propertyID roomID) (\<lambda>_.
     tx_bind (expense_title_of E U (jn_ExpenseAmount state) requestedTitle None) (\<lambda>expenseTitle.
     tx_bind (tx_map_err journal_mapRepositoryError (journal_Create E U (create_params state expenseTitle)))
       (\<lambda>journalLog.
     tx_bind (book_expense E (jo_row journalLog) expenseTitle) (\<lambda>_.
     tx_return journalLog))))))"

definition CreateJournal_Execute ::
    "env \<Rightarrow> (string \<Rightarrow> string option) \<Rightarrow> (event \<Rightarrow> unit tx) \<Rightarrow> journal_create_input \<Rightarrow> journal_log tx" where
  "CreateJournal_Execute E U publish input =
     tx_bind (tx_lift (CreateJournal_validate E input))
       (\<lambda>v. WithinTransaction publish (CreateJournal_body E U (ji_TitleID input) v))"

section \<open>Update (update.go)\<close>

record journal_update_input =
  jui_ID :: string
  jui_Content :: "string option"
  jui_ExpenseAmount :: "int option"
  jui_ExpenseDescription :: "string option"
  jui_TitleID :: "string option"

definition journal_toDomainState :: "journal_row \<Rightarrow> journal_state" where
  "journal_toDomainState r =
     \<lparr>jn_ID = jl_ID r, jn_PropertyID = jl_PropertyID r, jn_RoomID = jl_RoomID r, jn_AuthorID = jl_AuthorID r,
      jn_Content = jl_Content r, jn_ExpenseAmount = jl_ExpenseAmount r,
      jn_ExpenseDescription = jl_ExpenseDescription r\<rparr>"

definition journalExpenseAccountingChanges ::
    "journal_row option \<Rightarrow> int option \<Rightarrow> string option \<Rightarrow> accounting_title option \<Rightarrow> bool" where
  "journalExpenseAccountingChanges current nextAmount nextDescription nextTitle =
    (case current of None \<Rightarrow> nextAmount \<noteq> None
     | Some r \<Rightarrow>
         if jl_ExpenseAmount r \<noteq> nextAmount then True
         else if jl_ExpenseDescription r \<noteq> nextDescription then True
         else if jl_ExpenseAmount r = None \<and> nextAmount = None then False
         else (case jl_TitleID r of None \<Rightarrow> '''' | Some i \<Rightarrow> i)
            \<noteq> (case nextTitle of None \<Rightarrow> '''' | Some t \<Rightarrow> at_ID t))"

definition UpdateJournal_validate :: "env \<Rightarrow> journal_update_input \<Rightarrow> gerr + string" where
  "UpdateJournal_validate E input =
    (case journal_normalizeRequiredUUID E (jui_ID input) ''id'' ErrJournalLogNotFound_app of
       Inl e \<Rightarrow> Inl e
     | Inr i \<Rightarrow> if jui_Content input = None \<and> jui_ExpenseAmount input = None
                 \<and> jui_ExpenseDescription input = None \<and> jui_TitleID input = None
               then Inl ErrBadRequest else Inr i)"

text \<open>A title can be chosen for an expense only.\<close>

definition title_for_update ::
    "env \<Rightarrow> (string \<Rightarrow> string option) \<Rightarrow> int option \<Rightarrow> string option \<Rightarrow> journal_row
     \<Rightarrow> accounting_title option tx" where
  "title_for_update E U amount requestedID current =
    (if amount = None \<and> requestedID \<noteq> None then tx_throw (bad_field ''expense_accounting_title_id'')
     else expense_title_of E U amount requestedID (Some current))"

definition rebook_expense :: "env \<Rightarrow> journal_row \<Rightarrow> accounting_title option \<Rightarrow> unit tx" where
  "rebook_expense E logRow expenseTitle =
    (case jl_ExpenseAmount logRow of
       None \<Rightarrow> tx_map_err journal_mapAccountingError (SyncExpenseAccountingEntry E (jl_ID logRow) None)
     | Some amount \<Rightarrow>
         (case expenseTitle of None \<Rightarrow> tx_throw no_title
          | Some title \<Rightarrow> tx_map_err journal_mapAccountingError
              (SyncExpenseAccountingEntry E (jl_ID logRow) (Some (journal_entry logRow amount title)))))"

definition update_params :: "journal_state \<Rightarrow> accounting_title option \<Rightarrow> journal_update_params" where
  "update_params state title =
     \<lparr>jp_Content = jn_Content state, jp_ExpenseAmount = jn_ExpenseAmount state,
      jp_ExpenseDescription = jn_ExpenseDescription state, jp_Title = title\<rparr>"

definition UpdateJournal_body ::
    "env \<Rightarrow> (string \<Rightarrow> string option) \<Rightarrow> journal_update_input \<Rightarrow> string \<Rightarrow> journal_log tx" where
  "UpdateJournal_body E U input i =
     tx_bind (tx_map_err journal_mapRepositoryError (journal_FindByIDForUpdate U i)) (\<lambda>current.
     tx_bind (tx_map_err journal_mapDomainError
         (tx_lift (journal_Rehydrate (journal_toDomainState (jo_row current))))) (\<lambda>aggregate.
     tx_bind (tx_map_err journal_mapDomainError (tx_lift (journal_Update aggregate
         \<lparr>ju_Content = jui_Content input, ju_ExpenseAmount = jui_ExpenseAmount input,
          ju_ExpenseDescription = jui_ExpenseDescription input\<rparr>))) (\<lambda>state.
     tx_bind (title_for_update E U (jn_ExpenseAmount state) (jui_TitleID input) (jo_row current))
       (\<lambda>expenseTitle.
     let accountingChanged = journalExpenseAccountingChanges (Some (jo_row current))
           (jn_ExpenseAmount state) (jn_ExpenseDescription state) expenseTitle
     in
     tx_bind (if accountingChanged then refuse_closed_month (jo_row current) else tx_return ()) (\<lambda>_.
     tx_bind (tx_map_err journal_mapRepositoryError
         (journal_Update_repo E U i (update_params state expenseTitle))) (\<lambda>journalLog.
     tx_bind (if accountingChanged then rebook_expense E (jo_row journalLog) expenseTitle else tx_return ())
       (\<lambda>_. tx_return journalLog)))))))"

definition UpdateJournal_Execute ::
    "env \<Rightarrow> (string \<Rightarrow> string option) \<Rightarrow> (event \<Rightarrow> unit tx) \<Rightarrow> journal_update_input \<Rightarrow> journal_log tx" where
  "UpdateJournal_Execute E U publish input =
     tx_bind (tx_lift (UpdateJournal_validate E input))
       (\<lambda>i. WithinTransaction publish (UpdateJournal_body E U input i))"

section \<open>Delete (delete.go)\<close>

text \<open>The log is looked up by the UUID, its entry by the text of the request.\<close>

definition DeleteJournal_body :: "env \<Rightarrow> (string \<Rightarrow> string option) \<Rightarrow> string \<Rightarrow> unit tx" where
  "DeleteJournal_body E U i =
     tx_bind (tx_map_err journal_mapRepositoryError (journal_FindByIDForUpdate U i)) (\<lambda>current.
     tx_bind (if jl_ExpenseAmount (jo_row current) \<noteq> None then refuse_closed_month (jo_row current)
              else tx_return ()) (\<lambda>_.
     tx_bind (tx_map_err journal_mapRepositoryError (journal_SoftDelete E U i)) (\<lambda>_.
     if jl_ExpenseAmount (jo_row current) \<noteq> None
     then tx_map_err journal_mapAccountingError (SyncExpenseAccountingEntry E i None)
     else tx_return ())))"

definition DeleteJournal_Execute ::
    "env \<Rightarrow> (string \<Rightarrow> string option) \<Rightarrow> (event \<Rightarrow> unit tx) \<Rightarrow> string \<Rightarrow> unit tx" where
  "DeleteJournal_Execute E U publish rawID =
     tx_bind (tx_lift (journal_normalizeRequiredUUID E rawID ''id'' ErrJournalLogNotFound_app))
       (\<lambda>i. WithinTransaction publish (DeleteJournal_body E U i))"

section \<open>Reading (get.go, list.go, accounting_titles.go)\<close>

definition GetJournal_Execute :: "env \<Rightarrow> (string \<Rightarrow> string option) \<Rightarrow> string \<Rightarrow> journal_log tx" where
  "GetJournal_Execute E U rawID =
     tx_bind (tx_lift (journal_normalizeRequiredUUID E rawID ''id'' ErrJournalLogNotFound_app))
       (\<lambda>i. tx_map_err journal_mapRepositoryError (journal_FindByID U i))"

definition ListExpenseAccountingTitles_Execute :: "accounting_title list tx" where
  "ListExpenseAccountingTitles_Execute = tx_map_err journal_mapRepositoryError ListExpenseAccountingTitles"

record journal_list_query =
  jq_ActorRole :: string
  jq_AssignedPropertyIDs :: "string list"
  jq_PropertyID :: "string option"
  jq_RoomID :: "string option"
  jq_DateFrom :: "gtime option"
  jq_DateTo :: "gtime option"
  jq_Limit :: int
  jq_Offset :: int

text \<open>The WHERE clause: the texts it passes as UUIDs and the predicate, None when the
  actor sees nothing.  The last day counts in full.\<close>

definition buildJournalListFilter ::
    "(string \<Rightarrow> string option) \<Rightarrow> journal_list_query \<Rightarrow> (string list \<times> (journal_row \<Rightarrow> bool)) option" where
  "buildJournalListFilter U q =
    (let optional = (\<lambda>v. case v of None \<Rightarrow> [] | Some x \<Rightarrow> [x]);
         wanted = (\<lambda>f v. case v of None \<Rightarrow> True | Some x \<Rightarrow> f \<noteq> None \<and> f = U x);
         ids = optional (jq_PropertyID q) @ optional (jq_RoomID q);
         narrow = (\<lambda>r. wanted (Some (jl_PropertyID r)) (jq_PropertyID q) \<and> wanted (jl_RoomID r) (jq_RoomID q)
           \<and> (case jq_DateFrom q of None \<Rightarrow> True | Some t \<Rightarrow> instant t \<le> instant (jl_CreatedAt r))
           \<and> (case jq_DateTo q of None \<Rightarrow> True
              | Some t \<Rightarrow> instant (jl_CreatedAt r) < instant (add_date (time_UTC t) 0 0 1)))
     in if trim (jq_ActorRole q) \<in> {''organizer'', ''staff''}
        then if jq_AssignedPropertyIDs q = [] then None
             else Some (jq_AssignedPropertyIDs q @ ids,
                    \<lambda>r. (\<exists>i \<in> set (jq_AssignedPropertyIDs q). U i = Some (jl_PropertyID r)) \<and> narrow r)
        else if trim (jq_ActorRole q) = ''admin'' then Some (ids, narrow)
        else None)"

definition journal_List ::
    "(string \<Rightarrow> string option) \<Rightarrow> journal_list_query \<Rightarrow> (journal_log list \<times> nat) tx" where
  "journal_List U q =
    (case buildJournalListFilter U q of
       None \<Rightarrow> tx_return ([], 0)
     | Some (ids, P) \<Rightarrow>
         tx_bind (tx_bind (stmt ''count journal logs'' (\<lambda>_ d.
             (if \<exists>i \<in> set ids. U i = None then None else Some (length (filter P (live (db_journals d)))), d)))
           (found_or (Wrapped ''count journal logs'' driver_error))) (\<lambda>total.
         tx_bind (stmt ''list journal logs'' (\<lambda>_ d.
             (map (journal_selected d) (take (nat (jq_Limit q)) (drop (nat (jq_Offset q))
                (rev (sort_key (\<lambda>r. (instant (jl_CreatedAt r), jl_ID r)) (filter P (live (db_journals d))))))), d)))
           (\<lambda>items. tx_return (items, total))))"

definition normalizeOptionalFilterUUID :: "env \<Rightarrow> string option \<Rightarrow> string \<Rightarrow> gerr + string option" where
  "normalizeOptionalFilterUUID E value field =
    (case value of None \<Rightarrow> Inr None
     | Some v \<Rightarrow> if trim v = '''' \<or> \<not> e_uuid_ok E (trim v) then Inl (bad_field field) else Inr (Some (trim v)))"

definition bad_page :: "string \<Rightarrow> string \<Rightarrow> gerr" where
  "bad_page field reason =
     apperr_WithDetails ErrBadRequest (JObj [(''field'', JStr field), (''reason'', JStr reason)])"

definition ListJournals_validate :: "env \<Rightarrow> journal_list_query \<Rightarrow> gerr + journal_list_query" where
  "ListJournals_validate E input =
    (let role = to_lower (trim (jq_ActorRole input))
     in if role \<notin> {''admin'', ''organizer'', ''staff''} then Inl ErrForbidden
        else case normalizeOptionalFilterUUID E (jq_PropertyID input) ''property_id'' of
          Inl e \<Rightarrow> Inl e | Inr propertyID \<Rightarrow>
        case normalizeOptionalFilterUUID E (jq_RoomID input) ''room_id'' of Inl e \<Rightarrow> Inl e | Inr roomID \<Rightarrow>
        if jq_Limit input < 1 \<or> 100 < jq_Limit input then Inl (bad_page ''limit'' ''must be between 1 and 100'')
        else if jq_Offset input < 0
        then Inl (bad_page ''offset'' ''must be greater than or equal to 0'')
        else Inr (input\<lparr>jq_ActorRole := role, jq_PropertyID := propertyID, jq_RoomID := roomID\<rparr>))"

definition ListJournals_Execute ::
    "env \<Rightarrow> (string \<Rightarrow> string option) \<Rightarrow> journal_list_query \<Rightarrow> (journal_log list \<times> nat) tx" where
  "ListJournals_Execute E U input =
     tx_bind (tx_lift (ListJournals_validate E input))
       (\<lambda>q. tx_map_err journal_mapRepositoryError (journal_List U q))"

end
