(* ===== verification/JournalBooks.thy ===== *)
theory JournalBooks
  imports JournalCommands BuildingProps MonthClose
begin

text \<open>
  The expenses of the journal and the ledger.  After any sequence of journal
  commands and month closings, whatever fails in between, a log with an expense
  has exactly one ledger entry, with its own amount and title, until its month is
  closed; then it has none there, and the log can no longer change the books.
\<close>

section \<open>Effects of the statements\<close>

lemma uuid_stmt_D:
  "uuid_stmt ctx U i body w = (Inr x, v) \<Longrightarrow>
     \<exists>n u. U i = Some u \<and> x = fst (body u n (w_db w)) \<and> w_db v = snd (body u n (w_db w))
        \<and> w_events v = w_events w"
  by (auto simp: uuid_stmt_ok dest!: stmt_D)

lemma journal_by_id_D: "journal_by_id i d = Some r \<Longrightarrow> r \<in> set (live (db_journals d)) \<and> jl_ID r = i"
  by (auto simp: journal_by_id_def dest: find_Some_filter)

lemma journal_FindByIDForUpdate_D:
  "journal_FindByIDForUpdate U i w = (Inr x, v) \<Longrightarrow>
     (\<exists>u r. U i = Some u \<and> journal_by_id u (w_db w) = Some r \<and> x = journal_selected (w_db w) r)
     \<and> w_db v = w_db w \<and> w_events v = w_events w"
  unfolding journal_FindByIDForUpdate_def
  by (auto simp: tx_control found_or_ok Some_eq_map_option dest!: uuid_stmt_D)

lemma journal_FindRoomByID_D:
  "journal_FindRoomByID U i w = (Inr x, v) \<Longrightarrow>
     (\<exists>u m. U i = Some u \<and> find_room u (w_db w) = Some m \<and> x = (rm_ID m, rm_PropertyID m))
     \<and> w_db v = w_db w \<and> w_events v = w_events w"
  unfolding journal_FindRoomByID_def
  by (auto simp: tx_control found_or_ok Some_eq_map_option dest!: uuid_stmt_D)

lemma journal_EnsurePropertyExists_D:
  "journal_EnsurePropertyExists U i w = (Inr x, v) \<Longrightarrow>
     (\<exists>u p. U i = Some u \<and> property_by_id u (w_db w) = Some p) \<and> w_db v = w_db w \<and> w_events v = w_events w"
  unfolding journal_EnsurePropertyExists_def by (fastforce simp: tx_control dest!: uuid_stmt_D dest: sym)

text \<open>A room that is given is a live one of the property.\<close>

definition room_fits :: "(string \<Rightarrow> string option) \<Rightarrow> string \<Rightarrow> string option \<Rightarrow> db \<Rightarrow> bool" where
  "room_fits U p room d \<longleftrightarrow> (case room of None \<Rightarrow> True
     | Some i \<Rightarrow> \<exists>m \<in> set (live (db_rooms d)). U i = Some (rm_ID m) \<and> rm_PropertyID m = p)"

lemma check_room_D:
  "check_room U p i w = (Inr x, v) \<Longrightarrow>
     room_fits U p i (w_db w) \<and> w_db v = w_db w \<and> w_events v = w_events w"
  by (auto simp: check_room_def room_fits_def tx_control find_room_def split: option.splits
      dest!: journal_FindRoomByID_D find_Some_filter)

text \<open>A title that can be booked: one of the chart of accounts.\<close>

definition known_title :: "db \<Rightarrow> accounting_title \<Rightarrow> bool" where
  "known_title d t \<longleftrightarrow> (\<exists>x \<in> set (db_titles d). ti_ID x = at_ID t \<and> ti_Code x = at_Code t)"

lemma known_scanned: "x \<in> set (db_titles d) \<Longrightarrow> known_title d (scanned_title x)"
  by (auto simp: known_title_def scanned_title_def)

lemma FindExpenseAccountingTitle_D:
  "FindExpenseAccountingTitleByID U i w = (Inr t, v) \<Longrightarrow>
     known_title (w_db w) t \<and> w_db v = w_db w \<and> w_events v = w_events w"
  "FindExpenseAccountingTitleByCode c w = (Inr t, v) \<Longrightarrow>
     known_title (w_db w) t \<and> w_db v = w_db w \<and> w_events v = w_events w"
  unfolding FindExpenseAccountingTitleByID_def FindExpenseAccountingTitleByCode_def
  by (auto simp: tx_control found_or_ok Some_eq_map_option intro: known_scanned
      dest!: uuid_stmt_D stmt_D find_Some_filter)

text \<open>The title of a new expense: the active expense title that was asked for, the
  one with code 6681 when none was.\<close>

definition chosen_title ::
    "(string \<Rightarrow> string option) \<Rightarrow> string option \<Rightarrow> db \<Rightarrow> accounting_title \<Rightarrow> bool" where
  "chosen_title U requested d t \<longleftrightarrow>
     (\<exists>x \<in> set (db_titles d). ti_Kind x = ''expense'' \<and> ti_IsActive x \<and> t = scanned_title x
        \<and> (case requested of None \<Rightarrow> ti_Code x = ''6681'' | Some q \<Rightarrow> U (trim q) = Some (ti_ID x)))"

lemma expense_title_of_chosen:
  assumes "expense_title_of E U amount requested None w = (Inr x, v)"
  shows "\<forall>t. x = Some t \<longrightarrow> chosen_title U requested (w_db w) t"
proof (cases requested)
  case None
  then show ?thesis using assms
    by (auto simp: expense_title_of_def resolveExpenseAccountingTitle_def FindExpenseAccountingTitleByCode_def
        accountingTitleCodeJournalExpense_def chosen_title_def expense_title_def tx_control found_or_ok
        Some_eq_map_option split: option.splits dest!: stmt_D find_Some_filter)
next
  case (Some q)
  have norm: "j = trim q" if "journal_normalizeRequiredUUID E q f e = Inr j" for j f e
    using that by (auto simp: journal_normalizeRequiredUUID_def Let_def split: if_splits)
  show ?thesis using assms Some
    by (auto simp: expense_title_of_def resolveExpenseAccountingTitle_def FindExpenseAccountingTitleByID_def
        chosen_title_def expense_title_def tx_control found_or_ok Some_eq_map_option
        split: option.splits dest!: norm uuid_stmt_D find_Some_filter)
qed

text \<open>A log stores the title it was booked under.\<close>

definition titled :: "db \<Rightarrow> journal_row \<Rightarrow> bool" where
  "titled d r \<longleftrightarrow> jl_ExpenseAmount r = None
     \<or> (\<exists>x \<in> set (db_titles d). jl_TitleID r = Some (ti_ID x) \<and> jl_TitleCode r = Some (ti_Code x))"

lemma resolveExpenseAccountingTitle_D:
  assumes "resolveExpenseAccountingTitle E U req current w = (Inr t, v)"
    and "\<And>r s. current = Some r \<Longrightarrow> stored_title r = Some s \<Longrightarrow> known_title (w_db w) s"
  shows "known_title (w_db w) t \<and> w_db v = w_db w \<and> w_events v = w_events w"
  using assms unfolding resolveExpenseAccountingTitle_def
  by (auto simp: tx_control bind_eq_Some_conv split: option.splits dest!: FindExpenseAccountingTitle_D)

lemma expense_title_of_D:
  assumes "expense_title_of E U amount req current w = (Inr x, v)"
    and "\<And>r s. current = Some r \<Longrightarrow> stored_title r = Some s \<Longrightarrow> known_title (w_db w) s"
  shows "(case amount of None \<Rightarrow> x = None | Some _ \<Rightarrow> \<exists>t. x = Some t \<and> known_title (w_db w) t)
     \<and> w_db v = w_db w \<and> w_events v = w_events w"
  using assms unfolding expense_title_of_def
  by (auto simp: tx_control split: option.splits dest!: resolveExpenseAccountingTitle_D)

definition closed_for :: "db \<Rightarrow> journal_row \<Rightarrow> bool" where
  "closed_for d r \<longleftrightarrow> (case journalAccountingPeriod (jl_CreatedAt r) of
     (year, month) \<Rightarrow> snapshot_exists (jl_PropertyID r) year month d)"

lemma refuse_closed_month_D:
  "refuse_closed_month r w = (Inr x, v) \<Longrightarrow>
     \<not> closed_for (w_db w) r \<and> w_db v = w_db w \<and> w_events v = w_events w"
  unfolding refuse_closed_month_def closed_for_def MonthlySnapshotExists_def
  by (auto simp: tx_control split: prod.splits dest!: stmt_D)

lemma journal_Create_D:
  assumes "journal_Create E U p w = (Inr x, v)"
  shows "\<exists>n r. new_journal E U n p = Some r \<and> journal_storable (w_db w) r \<and> x = journal_returned r
       \<and> w_db v = (w_db w)\<lparr>db_journals := tab_insert r (db_journals (w_db w))\<rparr> \<and> w_events v = w_events w"
proof -
  let ?body = "\<lambda>n d. case new_journal E U n p of None \<Rightarrow> (None, d)
    | Some r \<Rightarrow> if journal_storable d r
        then (Some (journal_returned r), d\<lparr>db_journals := tab_insert r (db_journals d)\<rparr>) else (None, d)"
  obtain n where n: "Some x = fst (?body n (w_db w))" "w_db v = snd (?body n (w_db w))"
    "w_events v = w_events w"
    using assms unfolding journal_Create_def by (auto simp: tx_control found_or_ok dest!: stmt_D)
  then obtain r where "new_journal E U n p = Some r" by (cases "new_journal E U n p") simp_all
  then show ?thesis using n by (cases "journal_storable (w_db w) r") auto
qed

lemma journal_Update_repo_D:
  assumes "journal_Update_repo E U i p w = (Inr x, v)"
  shows "\<exists>u r. U i = Some u \<and> journal_by_id u (w_db w) = Some r \<and> x = journal_returned (journal_updated E p r)
       \<and> w_db v = (w_db w)\<lparr>db_journals := tab_update (\<lambda>r. jl_ID r = u) (journal_updated E p) (db_journals (w_db w))\<rparr>
       \<and> w_events v = w_events w"
proof -
  obtain y w1 where y: "uuid_stmt ''update journal log'' U i (\<lambda>u _ d.
         if int4_option (jp_ExpenseAmount p)
         then (Some (map_option (\<lambda>r. journal_returned (journal_updated E p r)) (journal_by_id u d)),
               d\<lparr>db_journals := tab_update (\<lambda>r. jl_ID r = u) (journal_updated E p) (db_journals d)\<rparr>)
         else (None, d)) w = (Inr y, w1)" "y = Some (Some x)" "w_db v = w_db w1" "w_events v = w_events w1"
    using assms unfolding journal_Update_repo_def by (auto simp: tx_control found_or_ok)
  from uuid_stmt_D [OF y(1)] y(2-) show ?thesis
    by (cases "int4_option (jp_ExpenseAmount p)") (auto simp: Some_eq_map_option)
qed

lemma journal_SoftDelete_D:
  "journal_SoftDelete E U i w = (Inr x, v) \<Longrightarrow>
     \<exists>u r. U i = Some u \<and> journal_by_id u (w_db w) = Some r
       \<and> w_db v = (w_db w)\<lparr>db_journals := tab_retire (\<lambda>r. jl_ID r = u) (\<lambda>r. r\<lparr>jl_UpdatedAt := e_now E\<rparr>)
            (db_journals (w_db w))\<rparr> \<and> w_events v = w_events w"
  unfolding journal_SoftDelete_def by (auto simp: tx_control dest!: uuid_stmt_D)

text \<open>Codes are unique, so an entry is booked under one title.\<close>

lemma active_title_unique:
  assumes "distinct (map ti_Code (db_titles d))" "known_title d t" "active_titles (at_Code t) d \<noteq> []"
  shows "\<exists>x. active_titles (at_Code t) d = [x] \<and> ti_ID x = at_ID t \<and> ti_Code x = at_Code t"
proof -
  obtain x where x: "x \<in> set (db_titles d)" "ti_ID x = at_ID t" "ti_Code x = at_Code t"
    using assms(2) by (auto simp: known_title_def)
  have "filter (\<lambda>y. ti_Code y = ti_Code x) (db_titles d) = [x]"
    using filter_unique [OF assms(1) x(1)] .
  moreover have "active_titles (at_Code t) d = filter ti_IsActive (filter (\<lambda>y. ti_Code y = ti_Code x) (db_titles d))"
    by (simp add: active_titles_def x(3) conj_commute)
  ultimately show ?thesis using assms(3) x(2,3) by (simp split: if_splits)
qed

lemma journal_account_D:
  "journal_account p w = (Inr a, v) \<Longrightarrow>
     a \<in> set (live (db_accounts (w_db w))) \<and> pa_PropertyID a = p \<and> w_db v = w_db w \<and> w_events v = w_events w"
  unfolding journal_account_def FindPropertyAccountByPropertyID_def
  by (auto simp: tx_control found_or_ok dest!: stmt_D find_Some_filter [OF sym])

lemma CreateExpenseAccountingEntry_D:
  assumes "CreateExpenseAccountingEntry E (journal_entry r a t) w = (Inr x, v)"
    and "distinct (map ti_Code (db_titles (w_db w)))" "known_title (w_db w) t"
  shows "\<exists>i c acc ti. acc \<in> set (live (db_accounts (w_db w))) \<and> pa_PropertyID acc = jl_PropertyID r
     \<and> ti_ID ti = at_ID t \<and> ti_Code ti = at_Code t
     \<and> w_db v = add_entries [new_entry i c (pa_ID acc) (journal_entry r a t) ti] (w_db w) \<and> w_events v = w_events w"
proof -
  have e: "aep_PropertyID (journal_entry r a t) = jl_PropertyID r"
    "aep_AccountingTitleCode (journal_entry r a t) = at_Code t"
    by (simp_all add: journal_entry_def split: prod.splits)
  obtain acc w1 where acc: "journal_account (jl_PropertyID r) w = (Inr acc, w1)"
    "InsertAccountingEntry E (pa_ID acc) (journal_entry r a t) w1 = (Inr x, v)"
    using assms(1) by (auto simp: CreateExpenseAccountingEntry_def tx_control e)
  have "w_db w1 = w_db w" using journal_account_D [OF acc(1)] by simp
  then obtain ti where "active_titles (at_Code t) (w_db w) = [ti]" "ti_ID ti = at_ID t" "ti_Code ti = at_Code t"
    using active_title_unique [OF assms(2,3)] acc(2) by (auto simp: InsertAccountingEntry_ok e)
  then show ?thesis using acc(2) journal_account_D [OF acc(1)]
    by (fastforce simp: InsertAccountingEntry_ok e)
qed

section \<open>Effects of the commands\<close>

definition add_journal :: "journal_row \<Rightarrow> db \<Rightarrow> db" where
  "add_journal r d = d\<lparr>db_journals := tab_insert r (db_journals d)\<rparr>"

definition drop_entries :: "string \<Rightarrow> db \<Rightarrow> db" where
  "drop_entries i d = d\<lparr>db_entries := filter (\<lambda>e. \<not> entry_of_log i e) (db_entries d)\<rparr>"

text \<open>The entry \<open>e\<close> books the amount \<open>a\<close> of the log \<open>r\<close>: under its title, in its month
  and on its day in Taipei, for an account of its property.\<close>

definition entry_matches :: "db \<Rightarrow> journal_row \<Rightarrow> int \<Rightarrow> entry_row \<Rightarrow> bool" where
  "entry_matches d r a e \<longleftrightarrow>
     en_Amount e = a \<and> en_Description e = jl_ExpenseDescription r \<and> en_DisplayNote e = jl_ExpenseDescription r
     \<and> Some (en_TitleID e) = jl_TitleID r \<and> Some (en_TitleCode e) = jl_TitleCode r
     \<and> (en_Year e, en_Month e) = journalAccountingPeriod (jl_CreatedAt r)
     \<and> en_SourceDate e = Some (pg_date (time_in (jl_CreatedAt r) journalAccountingLocation))
     \<and> (\<exists>acc \<in> set (live (db_accounts d)). pa_PropertyID acc = jl_PropertyID r \<and> pa_ID acc = en_PropertyAccountID e)"

text \<open>\<open>d'\<close> is \<open>d\<close> with the new entry of \<open>r\<close>.\<close>

definition expense_booked :: "db \<Rightarrow> journal_row \<Rightarrow> int \<Rightarrow> db \<Rightarrow> bool" where
  "expense_booked d r a d' \<longleftrightarrow> (\<exists>e. d' = add_entries [e] d \<and> entry_matches d r a e
     \<and> (\<forall>i. entry_of_log i e \<longleftrightarrow> i = jl_ID r))"

definition has_title :: "journal_row \<Rightarrow> accounting_title option \<Rightarrow> bool" where
  "has_title r t \<longleftrightarrow> jl_TitleID r = map_option at_ID t \<and> jl_TitleCode r = map_option at_Code t
     \<and> jl_TitleName r = map_option at_Name t"

lemma new_entry_matches:
  assumes "acc \<in> set (live (db_accounts d))" "pa_PropertyID acc = jl_PropertyID r"
    "ti_ID ti = at_ID t" "ti_Code ti = at_Code t" "has_title r (Some t)"
  shows "expense_booked d r a (add_entries [new_entry i c (pa_ID acc) (journal_entry r a t) ti] d)"
  using assms unfolding expense_booked_def
  by (intro exI [of _ "new_entry i c (pa_ID acc) (journal_entry r a t) ti"])
     (auto simp: entry_matches_def new_entry_def journal_entry_def entry_of_log_def journal_ref_def has_title_def
       split: prod.splits)

lemma book_expense_D:
  assumes run: "book_expense E r t w = (Inr x, v)" and title: "has_title r t"
    and known: "\<And>s. t = Some s \<Longrightarrow> known_title (w_db w) s" and codes: "distinct (map ti_Code (db_titles (w_db w)))"
  shows "case jl_ExpenseAmount r of None \<Rightarrow> w_db v = w_db w \<and> w_events v = w_events w
    | Some a \<Rightarrow> \<not> closed_for (w_db w) r \<and> expense_booked (w_db w) r a (w_db v)
       \<and> w_events v = w_events w @ [JournalExpenseRecorded (jl_ID r) (jl_PropertyID r) a
            (jl_ExpenseDescription r) (time_UTC (jl_CreatedAt r))]"
proof (cases "jl_ExpenseAmount r")
  case None
  then show ?thesis using run by (simp add: book_expense_def tx_control)
next
  case (Some a)
  then obtain s where s: "t = Some s" using run by (cases t) (simp_all add: book_expense_def tx_control)
  obtain y w1 z w2 where w1: "refuse_closed_month r w = (Inr y, w1)"
    "CreateExpenseAccountingEntry E (journal_entry r a s) w1 = (Inr z, w2)"
    "v = w2\<lparr>w_events := w_events w2 @ [JournalExpenseRecorded (jl_ID r) (jl_PropertyID r) a
            (jl_ExpenseDescription r) (time_UTC (jl_CreatedAt r))]\<rparr>"
    using run by (auto simp: book_expense_def Some s tx_control record_event_ok)
  have d1: "\<not> closed_for (w_db w) r" "w_db w1 = w_db w" "w_events w1 = w_events w"
    using refuse_closed_month_D [OF w1(1)] by auto
  obtain i c acc ti where acc: "acc \<in> set (live (db_accounts (w_db w)))" "pa_PropertyID acc = jl_PropertyID r"
    "ti_ID ti = at_ID s" "ti_Code ti = at_Code s"
    "w_db w2 = add_entries [new_entry i c (pa_ID acc) (journal_entry r a s) ti] (w_db w)" "w_events w2 = w_events w"
    using CreateExpenseAccountingEntry_D [OF w1(2)] codes known [OF s] d1 by auto
  then show ?thesis using new_entry_matches [OF acc(1-4)] title d1(1) by (simp add: Some s w1(3))
qed

lemma new_journal_D:
  "new_journal E U n p = Some r \<Longrightarrow>
     jl_ExpenseAmount r = jc_ExpenseAmount p \<and> has_title r (jc_Title p)
     \<and> U (jc_PropertyID p) = Some (jl_PropertyID r) \<and> jl_Content r = jc_Content p
     \<and> U (jc_AuthorID p) = Some (jl_AuthorID r)
     \<and> jl_RoomID r = (case jc_RoomID p of None \<Rightarrow> None | Some i \<Rightarrow> U i)
     \<and> jl_ExpenseDescription r = jc_ExpenseDescription p \<and> jl_CreatedAt r = e_now E"
  by (auto simp: new_journal_def has_title_def split: option.splits if_splits)

lemma add_journal_simps [simp]:
  "db_titles (add_journal r d) = db_titles d" "db_accounts (add_journal r d) = db_accounts d"
  "db_entries (add_journal r d) = db_entries d" "db_snapshots (add_journal r d) = db_snapshots d"
  "db_journals (add_journal r d) = tab_insert r (db_journals d)" "known_title (add_journal r d) = known_title d"
  "closed_for (add_journal r d) = closed_for d" "entry_matches (add_journal r d) = entry_matches d"
  by (simp_all add: add_journal_def known_title_def fun_eq_iff closed_for_def snapshot_exists_def entry_matches_def)

lemma CreateJournal_body_D:
  assumes run: "CreateJournal_body E U req (p, room, s) w = (Inr x, v)"
    and codes: "distinct (map ti_Code (db_titles (w_db w)))"
  shows "\<exists>n r t. new_journal E U n (create_params s t) = Some r \<and> x = journal_returned r
     \<and> journal_storable (w_db w) r
     \<and> (\<exists>u q. U p = Some u \<and> property_by_id u (w_db w) = Some q)
     \<and> room_fits U p room (w_db w) \<and> (\<forall>k. t = Some k \<longrightarrow> chosen_title U req (w_db w) k)
     \<and> (case jn_ExpenseAmount s of
          None \<Rightarrow> t = None \<and> w_db v = add_journal r (w_db w) \<and> w_events v = w_events w
        | Some a \<Rightarrow> (\<exists>ti. t = Some ti \<and> known_title (w_db w) ti) \<and> \<not> closed_for (w_db w) r
            \<and> expense_booked (add_journal r (w_db w)) r a (w_db v)
            \<and> w_events v = w_events w @ [JournalExpenseRecorded (jl_ID r) (jl_PropertyID r) a
                (jl_ExpenseDescription r) (time_UTC (jl_CreatedAt r))])"
proof -
  obtain y0 w1 y1 w2 t w3 w4 y3 where st:
    "journal_EnsurePropertyExists U p w = (Inr y0, w1)" "check_room U p room w1 = (Inr y1, w2)"
    "expense_title_of E U (jn_ExpenseAmount s) req None w2 = (Inr t, w3)"
    "journal_Create E U (create_params s t) w3 = (Inr x, w4)"
    "book_expense E (jo_row x) t w4 = (Inr y3, v)"
    using run by (auto simp: CreateJournal_body_def tx_control)
  have 1: "(\<exists>u q. U p = Some u \<and> property_by_id u (w_db w) = Some q)" "w_db w2 = w_db w" "w_events w2 = w_events w"
    "room_fits U p room (w_db w)"
    using journal_EnsurePropertyExists_D [OF st(1)] check_room_D [OF st(2)] by auto
  have chosen: "\<forall>k. t = Some k \<longrightarrow> chosen_title U req (w_db w) k"
    using expense_title_of_chosen [OF st(3)] 1(2) by simp
  have t: "case jn_ExpenseAmount s of None \<Rightarrow> t = None | Some _ \<Rightarrow> \<exists>ti. t = Some ti \<and> known_title (w_db w) ti"
    "w_db w3 = w_db w" "w_events w3 = w_events w"
    using expense_title_of_D [OF st(3)] by (cases "jn_ExpenseAmount s"; simp add: 1(2,3))+
  obtain n r where r: "new_journal E U n (create_params s t) = Some r" "journal_storable (w_db w) r"
    "x = journal_returned r" "w_db w4 = add_journal r (w_db w)" "w_events w4 = w_events w"
    using journal_Create_D [OF st(4)] t(2,3) by (auto simp: add_journal_def)
  have f: "jl_ExpenseAmount r = jn_ExpenseAmount s" "has_title r t"
    using new_journal_D [OF r(1)] by (simp_all add: create_params_def)
  have "known_title (w_db w) k" if "t = Some k" for k
    using t(1) that by (cases "jn_ExpenseAmount s") auto
  then have "case jl_ExpenseAmount r of None \<Rightarrow> w_db v = w_db w4 \<and> w_events v = w_events w4
    | Some a \<Rightarrow> \<not> closed_for (w_db w4) r \<and> expense_booked (w_db w4) r a (w_db v)
       \<and> w_events v = w_events w4 @ [JournalExpenseRecorded (jl_ID r) (jl_PropertyID r) a
            (jl_ExpenseDescription r) (time_UTC (jl_CreatedAt r))]"
    using st(5) codes f(2) by (intro book_expense_D) (auto simp: r journal_returned_def)
  then show ?thesis using r t(1) 1(1,4) chosen f(1) by (intro exI [of _ n] exI [of _ r] exI [of _ t])
     (auto split: option.splits)
qed

definition put_journal :: "string \<Rightarrow> (journal_row \<Rightarrow> journal_row) \<Rightarrow> db \<Rightarrow> db" where
  "put_journal i f d = d\<lparr>db_journals := tab_update (\<lambda>r. jl_ID r = i) f (db_journals d)\<rparr>"

definition retire_journal :: "env \<Rightarrow> string \<Rightarrow> db \<Rightarrow> db" where
  "retire_journal E i d = d\<lparr>db_journals := tab_retire (\<lambda>r. jl_ID r = i)
     (\<lambda>r. r\<lparr>jl_UpdatedAt := e_now E\<rparr>) (db_journals d)\<rparr>"

lemma journal_db_simps [simp]:
  "db_titles (put_journal i f d) = db_titles d" "db_accounts (put_journal i f d) = db_accounts d"
  "db_entries (put_journal i f d) = db_entries d" "db_snapshots (put_journal i f d) = db_snapshots d"
  "db_titles (retire_journal E i d) = db_titles d" "db_accounts (retire_journal E i d) = db_accounts d"
  "db_entries (retire_journal E i d) = db_entries d" "db_snapshots (retire_journal E i d) = db_snapshots d"
  "db_titles (drop_entries i d) = db_titles d" "db_accounts (drop_entries i d) = db_accounts d"
  "db_journals (drop_entries i d) = db_journals d" "db_snapshots (drop_entries i d) = db_snapshots d"
  "db_entries (drop_entries i d) = filter (\<lambda>e. \<not> entry_of_log i e) (db_entries d)"
  "db_journals (add_entries es d) = db_journals d" "db_snapshots (add_entries es d) = db_snapshots d"
  by (simp_all add: put_journal_def retire_journal_def drop_entries_def add_entries_def)

lemma matches_cong: "db_accounts d' = db_accounts d \<Longrightarrow> entry_matches d' = entry_matches d"
  by (simp add: entry_matches_def fun_eq_iff)

lemma closed_cong: "db_snapshots d' = db_snapshots d \<Longrightarrow> closed_for d' = closed_for d"
  by (simp add: closed_for_def snapshot_exists_def fun_eq_iff)

lemma known_cong: "db_titles d' = db_titles d \<Longrightarrow> known_title d' = known_title d"
  by (simp add: known_title_def fun_eq_iff)

text \<open>Booking again: the old entry goes, the new one, if any, comes.\<close>

lemma rebook_expense_D:
  assumes run: "rebook_expense E r t w = (Inr x, v)" and title: "has_title r t"
    and known: "\<And>s. t = Some s \<Longrightarrow> known_title (w_db w) s" and codes: "distinct (map ti_Code (db_titles (w_db w)))"
  shows "w_events v = w_events w \<and> (case jl_ExpenseAmount r of None \<Rightarrow> w_db v = drop_entries (jl_ID r) (w_db w)
    | Some a \<Rightarrow> expense_booked (drop_entries (jl_ID r) (w_db w)) r a (w_db v))"
proof (cases "jl_ExpenseAmount r")
  case None
  then show ?thesis using run
    by (auto simp: rebook_expense_def SyncExpenseAccountingEntry_def DeleteJournalExpenseAccountingEntry_def
        drop_entries_def tx_control dest!: stmt_D)
next
  case (Some a)
  then obtain s where s: "t = Some s" using run by (cases t) (simp_all add: rebook_expense_def tx_control)
  have e: "aep_PropertyID (journal_entry r a s) = jl_PropertyID r"
    "aep_AccountingTitleCode (journal_entry r a s) = at_Code s"
    by (simp_all add: journal_entry_def split: prod.splits)
  obtain acc w1 y w2 where st: "journal_account (jl_PropertyID r) w = (Inr acc, w1)"
    "DeleteJournalExpenseAccountingEntry (jl_ID r) w1 = (Inr y, w2)"
    "InsertAccountingEntry E (pa_ID acc) (journal_entry r a s) w2 = (Inr x, v)"
    using run by (auto simp: rebook_expense_def Some s SyncExpenseAccountingEntry_def
        ReplaceJournalExpenseAccountingEntry_def tx_control e)
  have acc: "acc \<in> set (live (db_accounts (w_db w)))" "pa_PropertyID acc = jl_PropertyID r" "w_db w1 = w_db w"
    "w_events w1 = w_events w"
    using journal_account_D [OF st(1)] by auto
  have w2: "w_db w2 = drop_entries (jl_ID r) (w_db w)" "w_events w2 = w_events w"
    using st(2) acc(3,4) by (auto simp: DeleteJournalExpenseAccountingEntry_def drop_entries_def dest!: stmt_D)
  have "known_title (w_db w2) s" "distinct (map ti_Code (db_titles (w_db w2)))"
    using known [OF s] codes by (simp_all add: w2 known_title_def)
  then obtain ti where "active_titles (at_Code s) (w_db w2) = [ti]" "ti_ID ti = at_ID s" "ti_Code ti = at_Code s"
    using active_title_unique st(3) by (auto simp: InsertAccountingEntry_ok e)
  then show ?thesis using st(3) new_entry_matches [of acc "w_db w2" r ti s a] acc title
    by (simp add: InsertAccountingEntry_ok e w2 Some s)
qed

lemma DeleteJournal_body_D:
  assumes run: "DeleteJournal_body E U i w = (Inr x, v)"
  shows "\<exists>u r. U i = Some u \<and> journal_by_id u (w_db w) = Some r \<and> w_events v = w_events w
     \<and> (case jl_ExpenseAmount r of None \<Rightarrow> w_db v = retire_journal E u (w_db w)
        | Some a \<Rightarrow> \<not> closed_for (w_db w) r \<and> w_db v = drop_entries i (retire_journal E u (w_db w)))"
proof -
  obtain c w1 y w2 z w3 where st: "journal_FindByIDForUpdate U i w = (Inr c, w1)"
    "(if jl_ExpenseAmount (jo_row c) \<noteq> None then refuse_closed_month (jo_row c) else tx_return ()) w1 = (Inr y, w2)"
    "journal_SoftDelete E U i w2 = (Inr z, w3)"
    "(if jl_ExpenseAmount (jo_row c) \<noteq> None
      then tx_map_err journal_mapAccountingError (SyncExpenseAccountingEntry E i None) else tx_return ()) w3 = (Inr x, v)"
    using run by (auto simp: DeleteJournal_body_def tx_control)
  obtain u r where c: "U i = Some u" "journal_by_id u (w_db w) = Some r" "jo_row c = r" "w_db w1 = w_db w"
    "w_events w1 = w_events w"
    using journal_FindByIDForUpdate_D [OF st(1)] by (auto simp: journal_selected_def)
  have 2: "jl_ExpenseAmount r \<noteq> None \<longrightarrow> \<not> closed_for (w_db w) r" "w_db w2 = w_db w" "w_events w2 = w_events w"
    using st(2) refuse_closed_month_D [of r w1 y w2] by (auto simp: c tx_control split: if_splits)
  have 3: "w_db w3 = retire_journal E u (w_db w)" "w_events w3 = w_events w"
    using journal_SoftDelete_D [OF st(3)] by (auto simp: c 2 retire_journal_def)
  show ?thesis
  proof (cases "jl_ExpenseAmount r")
    case None
    then show ?thesis using st(4) c 3 by (auto simp: tx_control)
  next
    case (Some a)
    then show ?thesis using st(4) c 2(1) 3
      by (auto simp: tx_control SyncExpenseAccountingEntry_def DeleteJournalExpenseAccountingEntry_def
          drop_entries_def dest!: stmt_D)
  qed
qed

definition changes_of :: "journal_update_input \<Rightarrow> journal_update" where
  "changes_of input = \<lparr>ju_Content = jui_Content input, ju_ExpenseAmount = jui_ExpenseAmount input,
     ju_ExpenseDescription = jui_ExpenseDescription input\<rparr>"

definition books_change :: "journal_row \<Rightarrow> journal_state \<Rightarrow> accounting_title option \<Rightarrow> bool" where
  "books_change r s t = journalExpenseAccountingChanges (Some r) (jn_ExpenseAmount s) (jn_ExpenseDescription s) t"

lemma journal_updated_simps [simp]:
  "jl_ID (journal_updated E p r) = jl_ID r" "jl_PropertyID (journal_updated E p r) = jl_PropertyID r"
  "jl_CreatedAt (journal_updated E p r) = jl_CreatedAt r"
  "jl_ExpenseAmount (journal_updated E (update_params s t) r) = jn_ExpenseAmount s"
  "jl_ExpenseDescription (journal_updated E (update_params s t) r) = jn_ExpenseDescription s"
  "has_title (journal_updated E (update_params s t) r) t"
  by (simp_all add: journal_updated_def update_params_def has_title_def)

lemma title_for_update_D:
  assumes "title_for_update E U amount req r w = (Inr x, v)"
    and "\<And>s. stored_title r = Some s \<Longrightarrow> known_title (w_db w) s"
  shows "(case amount of None \<Rightarrow> x = None | Some _ \<Rightarrow> \<exists>t. x = Some t \<and> known_title (w_db w) t)
     \<and> w_db v = w_db w \<and> w_events v = w_events w"
proof -
  have "expense_title_of E U amount req (Some r) w = (Inr x, v)"
    using assms(1) by (simp add: title_for_update_def tx_control split: if_splits)
  from expense_title_of_D [OF this] assms(2) show ?thesis by simp
qed

definition new_titles_ok :: "db \<Rightarrow> int option \<Rightarrow> accounting_title option \<Rightarrow> bool" where
  "new_titles_ok d amount t \<longleftrightarrow>
     (case amount of None \<Rightarrow> t = None | Some _ \<Rightarrow> \<exists>k. t = Some k \<and> known_title d k)"

lemma UpdateJournal_body_D:
  assumes run: "UpdateJournal_body E U input i w = (Inr x, v)"
    and codes: "distinct (map ti_Code (db_titles (w_db w)))"
    and stored: "\<forall>r \<in> set (live (db_journals (w_db w))). \<forall>k. stored_title r = Some k \<longrightarrow> known_title (w_db w) k"
  shows "\<exists>u r a s t. U i = Some u \<and> journal_by_id u (w_db w) = Some r
     \<and> journal_Rehydrate (journal_toDomainState r) = Inr a \<and> journal_Update a (changes_of input) = Inr s
     \<and> x = journal_returned (journal_updated E (update_params s t) r)
     \<and> new_titles_ok (w_db w) (jn_ExpenseAmount s) t \<and> w_events v = w_events w
     \<and> (if books_change r s t
        then \<not> closed_for (w_db w) r
          \<and> (case jn_ExpenseAmount s of
               None \<Rightarrow> w_db v = drop_entries u (put_journal u (journal_updated E (update_params s t)) (w_db w))
             | Some b \<Rightarrow> expense_booked (drop_entries u (put_journal u (journal_updated E (update_params s t)) (w_db w)))
                 (journal_updated E (update_params s t) r) b (w_db v))
        else w_db v = put_journal u (journal_updated E (update_params s t)) (w_db w))"
proof -
  obtain c w1 a s t w2 where st:
    "journal_FindByIDForUpdate U i w = (Inr c, w1)"
    "journal_Rehydrate (journal_toDomainState (jo_row c)) = Inr a"
    "journal_Update a (changes_of input) = Inr s"
    "title_for_update E U (jn_ExpenseAmount s) (jui_TitleID input) (jo_row c) w1 = (Inr t, w2)"
    and rest: "tx_bind (if books_change (jo_row c) s t then refuse_closed_month (jo_row c) else tx_return ())
      (\<lambda>_. tx_bind (tx_map_err journal_mapRepositoryError (journal_Update_repo E U i (update_params s t)))
        (\<lambda>j. tx_bind (if books_change (jo_row c) s t then rebook_expense E (jo_row j) t else tx_return ())
          (\<lambda>_. tx_return j))) w2 = (Inr x, v)"
    using run unfolding UpdateJournal_body_def Let_def books_change_def changes_of_def
    by (simp only: tx_bind_ok tx_map_err_ok tx_lift_ok) blast
  obtain y w3 z w4 where st2:
    "(if books_change (jo_row c) s t then refuse_closed_month (jo_row c) else tx_return ()) w2 = (Inr y, w3)"
    "journal_Update_repo E U i (update_params s t) w3 = (Inr x, w4)"
    "(if books_change (jo_row c) s t then rebook_expense E (jo_row x) t else tx_return ()) w4 = (Inr z, v)"
    using rest by (simp only: tx_bind_ok tx_map_err_ok tx_return_ok) blast
  obtain u r where c: "U i = Some u" "journal_by_id u (w_db w) = Some r" "jo_row c = r" "w_db w1 = w_db w"
    "w_events w1 = w_events w"
    using journal_FindByIDForUpdate_D [OF st(1)] by (auto simp: journal_selected_def)
  have r: "r \<in> set (live (db_journals (w_db w)))" "jl_ID r = u" using journal_by_id_D [OF c(2)] by auto
  have "known_title (w_db w1) k" if "stored_title (jo_row c) = Some k" for k
    using stored r(1) that by (simp add: c)
  from title_for_update_D [OF st(4) this, folded new_titles_ok_def]
  have t: "new_titles_ok (w_db w) (jn_ExpenseAmount s) t" "w_db w2 = w_db w" "w_events w2 = w_events w"
    by (simp_all add: c)
  have 3: "books_change r s t \<longrightarrow> \<not> closed_for (w_db w) r" "w_db w3 = w_db w" "w_events w3 = w_events w"
    using st2(1) refuse_closed_month_D [of r w2 y w3] by (auto simp: c t tx_control split: if_splits)
  define f where "f = journal_updated E (update_params s t)"
  have 4: "x = journal_returned (f r)" "w_db w4 = put_journal u f (w_db w)" "w_events w4 = w_events w"
    using journal_Update_repo_D [OF st2(2)] by (auto simp: c 3 put_journal_def f_def)
  have known: "known_title (w_db w4) k" if "t = Some k" for k
    using t(1) that by (cases "jn_ExpenseAmount s") (auto simp: new_titles_ok_def known_title_def 4)
  have booked: "w_events v = w_events w \<and> (if books_change r s t
      then case jn_ExpenseAmount s of None \<Rightarrow> w_db v = drop_entries u (put_journal u f (w_db w))
           | Some b \<Rightarrow> expense_booked (drop_entries u (put_journal u f (w_db w))) (f r) b (w_db v)
      else w_db v = put_journal u f (w_db w))"
  proof (cases "books_change r s t")
    case True
    then have "rebook_expense E (f r) t w4 = (Inr z, v)" using st2(3) by (simp add: c 4(1) journal_returned_def)
    from rebook_expense_D [OF this _ known] codes show ?thesis
      by (cases "jn_ExpenseAmount s") (simp_all add: True 4(2,3) f_def r(2))
  next
    case False
    then show ?thesis using st2(3) by (simp add: c tx_control 4(2,3))
  qed
  show ?thesis
    using c st(2,3) 4(1) t(1) 3(1) booked unfolding f_def c(3)
    by (intro exI [of _ u] exI [of _ r] exI [of _ a] exI [of _ s] exI [of _ t]) (auto split: if_splits)
qed

end
