(* ===== verification/JournalProps.thy ===== *)
theory JournalProps
  imports JournalBooks
begin

text \<open>
  The journal and month closing as one state machine: the states they reach,
  whatever statements fail, and the agreement of the journal with the ledger in
  all of them; what a command that succeeds has booked, what a closed month
  refuses, and the one case in which a deleted log stays in the books.
\<close>

section \<open>The books of the journal\<close>

definition log_entries :: "string \<Rightarrow> db \<Rightarrow> entry_row list" where
  "log_entries i d = filter (entry_of_log i) (db_entries d)"

definition log_booked :: "db \<Rightarrow> journal_row \<Rightarrow> bool" where
  "log_booked d r \<longleftrightarrow>
    (case jl_ExpenseAmount r of None \<Rightarrow> log_entries (jl_ID r) d = []
     | Some a \<Rightarrow> if closed_for d r then log_entries (jl_ID r) d = []
                 else \<exists>e. log_entries (jl_ID r) d = [e] \<and> entry_matches d r a e)"

definition title_ok :: "db \<Rightarrow> journal_row \<Rightarrow> bool" where
  "title_ok d r \<longleftrightarrow> (\<exists>t. has_title r t \<and> new_titles_ok d (jl_ExpenseAmount r) t)"

text \<open>What may be left of a deleted log: nothing when every deletion spelled the id of
  its log canonically (\<open>P\<close>), one entry at most otherwise.\<close>

definition left_over :: "bool \<Rightarrow> entry_row list \<Rightarrow> bool" where
  "left_over P es \<longleftrightarrow> length es \<le> 1 \<and> (P \<longrightarrow> es = [])"

lemma left_over_Nil [simp]: "left_over P []"
  by (simp add: left_over_def)

lemma left_over_filter: "left_over P es \<Longrightarrow> left_over P (filter Q es)"
  by (auto simp: left_over_def intro: le_trans [OF length_filter_le])

text \<open>A live log is booked; a deleted one leaves what it may, an unknown one nothing.\<close>

definition journal_books :: "bool \<Rightarrow> db \<Rightarrow> bool" where
  "journal_books P d \<longleftrightarrow>
     (\<forall>e \<in> set (db_entries d). \<forall>i. entry_of_log i e \<longrightarrow> i \<in> jl_ID ` set (all_rows (db_journals d)))
     \<and> (\<forall>(r, dead) \<in> set (db_journals d).
          if dead then left_over P (log_entries (jl_ID r) d) else log_booked d r \<and> title_ok d r)"

text \<open>What the schema guarantees: primary keys, stored as canonical UUIDs, the unique
  codes and ids of the titles and the unique accounts.\<close>

definition journal_keys :: "(string \<Rightarrow> string option) \<Rightarrow> db \<Rightarrow> bool" where
  "journal_keys U d \<longleftrightarrow> distinct (map jl_ID (all_rows (db_journals d)))
     \<and> (\<forall>r \<in> set (all_rows (db_journals d)). U (jl_ID r) = Some (jl_ID r))
     \<and> distinct (map ti_Code (db_titles d)) \<and> distinct (map ti_ID (db_titles d)) \<and> one_account d"

lemma entry_of_log_unique: "entry_of_log i e \<Longrightarrow> entry_of_log j e \<longleftrightarrow> j = i"
  by (auto simp: entry_of_log_def)

lemma log_entries_add [simp]:
  "log_entries i (add_entries [e] d) = log_entries i d @ (if entry_of_log i e then [e] else [])"
  by (simp add: log_entries_def)

lemma log_entries_drop [simp]: "log_entries i (drop_entries u d) = (if i = u then [] else log_entries i d)"
  by (auto simp: log_entries_def filter_empty_conv entry_of_log_unique intro!: filter_cong)

lemma log_entries_cong: "db_entries d' = db_entries d \<Longrightarrow> log_entries i d' = log_entries i d"
  by (simp add: log_entries_def)

lemma log_booked_cong:
  assumes "log_entries (jl_ID r) d' = log_entries (jl_ID r) d" "db_accounts d' = db_accounts d"
    "db_snapshots d' = db_snapshots d"
  shows "log_booked d' r \<longleftrightarrow> log_booked d r"
  by (cases "jl_ExpenseAmount r")
     (simp_all add: log_booked_def assms(1) matches_cong [OF assms(2)] closed_cong [OF assms(3)])

lemma title_ok_cong: "db_titles d' = db_titles d \<Longrightarrow> title_ok d' r \<longleftrightarrow> title_ok d r"
  by (cases "jl_ExpenseAmount r") (simp_all add: title_ok_def new_titles_ok_def known_cong [of d' d])

lemma title_ok_stored: "title_ok d r \<Longrightarrow> stored_title r = Some k \<Longrightarrow> known_title d k"
  by (auto simp: title_ok_def new_titles_ok_def has_title_def stored_title_def known_title_def
      split: option.splits)

lemma journal_books_D:
  assumes "journal_books P d"
  shows "entry_of_log i e \<Longrightarrow> e \<in> set (db_entries d) \<Longrightarrow> i \<in> jl_ID ` set (all_rows (db_journals d))"
    and "r \<in> set (live (db_journals d)) \<Longrightarrow> log_booked d r \<and> title_ok d r"
    and "(r, True) \<in> set (db_journals d) \<Longrightarrow> left_over P (log_entries (jl_ID r) d)"
  using assms by (auto simp: journal_books_def live_def)

text \<open>The invariant, row by row, for a database whose entries for all but one log are
  as before.\<close>

lemma journal_booksI:
  assumes inv: "journal_books P d"
    and same: "db_accounts d' = db_accounts d" "db_snapshots d' = db_snapshots d" "db_titles d' = db_titles d"
    and others: "\<And>j. j \<noteq> i \<Longrightarrow> log_entries j d' = log_entries j d"
    and rows: "\<And>r dead. (r, dead) \<in> set (db_journals d') \<Longrightarrow> jl_ID r \<noteq> i \<Longrightarrow> (r, dead) \<in> set (db_journals d)"
    and mine: "\<And>r dead. (r, dead) \<in> set (db_journals d') \<Longrightarrow> jl_ID r = i \<Longrightarrow>
      (if dead then left_over P (log_entries i d') else log_booked d' r \<and> title_ok d' r)"
    and ids: "jl_ID ` set (all_rows (db_journals d)) \<subseteq> jl_ID ` set (all_rows (db_journals d'))"
      "i \<in> jl_ID ` set (all_rows (db_journals d'))"
  shows "journal_books P d'"
proof -
  have "j \<in> jl_ID ` set (all_rows (db_journals d'))" if "e \<in> set (db_entries d')" "entry_of_log j e" for e j
  proof (cases "j = i")
    case False
    have "e \<in> set (log_entries j d')" using that by (simp add: log_entries_def)
    then have "e \<in> set (log_entries j d)" using others [OF False] by simp
    then show ?thesis using journal_books_D(1) [OF inv] ids(1) by (auto simp: log_entries_def)
  qed (use ids(2) in simp)
  moreover have "if dead then left_over P (log_entries (jl_ID r) d') else log_booked d' r \<and> title_ok d' r"
    if "(r, dead) \<in> set (db_journals d')" for r dead
  proof (cases "jl_ID r = i")
    case False
    then have "if dead then left_over P (log_entries (jl_ID r) d) else log_booked d r \<and> title_ok d r"
      using rows [OF that] inv by (auto simp: journal_books_def)
    then show ?thesis using others [OF False] log_booked_cong [OF _ same(1,2)] title_ok_cong [OF same(3)]
      by (auto split: if_splits)
  qed (use mine [OF that] in simp)
  ultimately show ?thesis by (auto simp: journal_books_def)
qed

section \<open>Every operation keeps them\<close>

lemma unknown_log_entries:
  "journal_books P d \<Longrightarrow> i \<notin> jl_ID ` set (all_rows (db_journals d)) \<Longrightarrow> log_entries i d = []"
  using journal_books_D(1) by (auto simp: log_entries_def filter_empty_conv)

lemma all_rows_insert [simp]: "all_rows (tab_insert r t) = all_rows t @ [r]"
  by (simp add: all_rows_def tab_insert_def)

lemma row_ids: "(r, dead) \<in> set t \<Longrightarrow> r \<in> set (all_rows t)"
  by (force simp: all_rows_def)

lemma live_row: "r \<in> set (live t) \<Longrightarrow> r \<in> set (all_rows t)"
  by (auto simp: live_def all_rows_def)

lemma expense_booked_rest:
  assumes "expense_booked d r a d'"
  shows "db_journals d' = db_journals d" "db_accounts d' = db_accounts d" "db_titles d' = db_titles d"
    "db_snapshots d' = db_snapshots d" "j \<noteq> jl_ID r \<Longrightarrow> log_entries j d' = log_entries j d"
    "log_entries (jl_ID r) d = [] \<Longrightarrow> \<exists>e. log_entries (jl_ID r) d' = [e] \<and> entry_matches d' r a e"
proof -
  obtain e where e: "d' = add_entries [e] d" "entry_matches d r a e" "\<And>i. entry_of_log i e \<longleftrightarrow> i = jl_ID r"
    using assms unfolding expense_booked_def by blast
  show "db_journals d' = db_journals d" "db_accounts d' = db_accounts d" "db_titles d' = db_titles d"
    "db_snapshots d' = db_snapshots d" by (simp_all add: e(1))
  show "j \<noteq> jl_ID r \<Longrightarrow> log_entries j d' = log_entries j d" by (simp add: e(1,3))
  have "entry_matches d' = entry_matches d" by (rule matches_cong) (simp add: e(1))
  then show "\<exists>e. log_entries (jl_ID r) d' = [e] \<and> entry_matches d' r a e" if "log_entries (jl_ID r) d = []"
    using that e by simp
qed

lemma books_create:
  assumes inv: "journal_books P d" and new: "jl_ID r \<notin> jl_ID ` set (all_rows (db_journals d))"
    and title: "title_ok d r"
    and eff: "case jl_ExpenseAmount r of None \<Rightarrow> d' = add_journal r d
      | Some a \<Rightarrow> \<not> closed_for d r \<and> expense_booked (add_journal r d) r a d'"
  shows "journal_books P d'"
proof -
  have none: "log_entries (jl_ID r) (add_journal r d) = []"
    using unknown_log_entries [OF inv new] by (simp add: log_entries_cong [of "add_journal r d" d])
  have same: "db_accounts d' = db_accounts d" "db_snapshots d' = db_snapshots d" "db_titles d' = db_titles d"
    "db_journals d' = tab_insert r (db_journals d)"
    using eff expense_booked_rest(1-4) [of "add_journal r d" r _ d'] by (auto split: option.splits)
  have others: "log_entries j d' = log_entries j d" if "j \<noteq> jl_ID r" for j
    using eff that expense_booked_rest(5) [of "add_journal r d" r _ d']
    by (auto simp: log_entries_cong [of "add_journal r d" d] split: option.splits)
  have booked: "log_booked d' r"
    using eff none expense_booked_rest(6) [of "add_journal r d" r _ d']
    by (cases "jl_ExpenseAmount r") (auto simp: log_booked_def closed_cong [OF same(2)])
  show ?thesis
  proof (rule journal_booksI [OF inv same(1-3)])
    show "log_entries j d' = log_entries j d" if "j \<noteq> jl_ID r" for j by (rule others [OF that])
    fix x dead assume x: "(x, dead) \<in> set (db_journals d')"
    show "(x, dead) \<in> set (db_journals d)" if "jl_ID x \<noteq> jl_ID r"
      using x that by (auto simp: same(4) tab_insert_def)
    show "if dead then left_over P (log_entries (jl_ID r) d') else log_booked d' x \<and> title_ok d' x"
      if "jl_ID x = jl_ID r"
    proof -
      have "(x, dead) \<notin> set (db_journals d)" using new row_ids that by (metis image_eqI)
      then have "x = r" "\<not> dead" using x by (auto simp: same(4) tab_insert_def)
      then show ?thesis using booked title title_ok_cong [OF same(3)] by simp
    qed
  qed (auto simp: same(4))
qed

lemma all_ids_update [simp]: "(\<And>r. jl_ID (f r) = jl_ID r) \<Longrightarrow>
    map jl_ID (all_rows (tab_update P f t)) = map jl_ID (all_rows t)"
  by (auto simp: all_rows_def tab_update_def)

lemma all_ids_retire [simp]: "(\<And>r. jl_ID (f r) = jl_ID r) \<Longrightarrow>
    map jl_ID (all_rows (tab_retire P f t)) = map jl_ID (all_rows t)"
  by (auto simp: all_rows_def tab_retire_def)

text \<open>The rows of one id: only one, as ids are unique.\<close>

lemma one_row:
  assumes "distinct (map jl_ID (all_rows t))" "r \<in> set (live t)" "(x, dead) \<in> set t" "jl_ID x = jl_ID r"
  shows "x = r \<and> \<not> dead"
proof -
  have "(r, False) \<in> set t" using assms(2) by (auto simp: live_def)
  moreover have "distinct (map (\<lambda>p. jl_ID (fst p)) t)" using assms(1) by (simp add: all_rows_def o_def)
  ultimately have "(x, dead) = (r, False)"
    using inj_onD [of "\<lambda>p. jl_ID (fst p)" "set t" "(x, dead)" "(r, False)"] assms(3,4)
    by (simp add: distinct_map)
  then show ?thesis by simp
qed

lemma books_update:
  assumes inv: "journal_books P d" and ids: "distinct (map jl_ID (all_rows (db_journals d)))"
    and r: "r \<in> set (live (db_journals d))" and f: "\<And>x. jl_ID (f x) = jl_ID x"
    and same: "db_accounts d' = db_accounts d" "db_snapshots d' = db_snapshots d" "db_titles d' = db_titles d"
      "db_journals d' = tab_update (\<lambda>x. jl_ID x = jl_ID r) f (db_journals d)"
    and others: "\<And>j. j \<noteq> jl_ID r \<Longrightarrow> log_entries j d' = log_entries j d"
    and mine: "log_booked d' (f r)" "title_ok d' (f r)"
  shows "journal_books P d'"
proof (rule journal_booksI [OF inv same(1-3) others])
  have *: "map jl_ID (all_rows (db_journals d')) = map jl_ID (all_rows (db_journals d))"
    by (simp add: same(4) f)
  then have s: "jl_ID ` set (all_rows (db_journals d')) = jl_ID ` set (all_rows (db_journals d))"
    by (metis list.set_map)
  show "jl_ID ` set (all_rows (db_journals d)) \<subseteq> jl_ID ` set (all_rows (db_journals d'))" by (simp add: s)
  show "jl_ID r \<in> jl_ID ` set (all_rows (db_journals d'))"
    using live_row [OF r] by (simp add: s)
  fix x dead assume "(x, dead) \<in> set (db_journals d')"
  then obtain y where y: "(y, dead) \<in> set (db_journals d)" "x = (if \<not> dead \<and> jl_ID y = jl_ID r then f y else y)"
    by (auto simp: same(4) tab_update_def split: if_splits)
  show "(x, dead) \<in> set (db_journals d)" if "jl_ID x \<noteq> jl_ID r"
    using y that by (auto simp: f split: if_splits)
  show "if dead then left_over P (log_entries (jl_ID r) d') else log_booked d' x \<and> title_ok d' x" if "jl_ID x = jl_ID r"
    using y that one_row [OF ids r y(1)] mine by (auto simp: f split: if_splits)
qed simp

lemma books_retire:
  assumes inv: "journal_books P d" and ids: "distinct (map jl_ID (all_rows (db_journals d)))"
    and r: "r \<in> set (live (db_journals d))" and f: "\<And>x. jl_ID (f x) = jl_ID x"
    and same: "db_accounts d' = db_accounts d" "db_snapshots d' = db_snapshots d" "db_titles d' = db_titles d"
      "db_journals d' = tab_retire (\<lambda>x. jl_ID x = jl_ID r) f (db_journals d)"
    and others: "\<And>j. j \<noteq> jl_ID r \<Longrightarrow> log_entries j d' = log_entries j d"
    and mine: "left_over P (log_entries (jl_ID r) d')"
  shows "journal_books P d'"
proof (rule journal_booksI [OF inv same(1-3) others])
  have *: "map jl_ID (all_rows (db_journals d')) = map jl_ID (all_rows (db_journals d))"
    by (simp add: same(4) f)
  then have s: "jl_ID ` set (all_rows (db_journals d')) = jl_ID ` set (all_rows (db_journals d))"
    by (metis list.set_map)
  show "jl_ID ` set (all_rows (db_journals d)) \<subseteq> jl_ID ` set (all_rows (db_journals d'))" by (simp add: s)
  show "jl_ID r \<in> jl_ID ` set (all_rows (db_journals d'))"
    using live_row [OF r] by (simp add: s)
  fix x dead assume "(x, dead) \<in> set (db_journals d')"
  then obtain y b where y: "(y, b) \<in> set (db_journals d)"
    "(x, dead) = (if \<not> b \<and> jl_ID y = jl_ID r then (f y, True) else (y, b))"
    by (auto simp: same(4) tab_retire_def split: if_splits)
  show "(x, dead) \<in> set (db_journals d)" if "jl_ID x \<noteq> jl_ID r"
    using y that by (auto simp: f split: if_splits)
  show "if dead then left_over P (log_entries (jl_ID r) d') else log_booked d' x \<and> title_ok d' x" if "jl_ID x = jl_ID r"
    using y that one_row [OF ids r y(1)] mine by (auto simp: f split: if_splits)
qed simp

text \<open>Closing a month takes its entries out of the ledger, and closes it for its logs.\<close>

lemma books_close:
  assumes inv: "journal_books P d" and acc: "one_account d" "a \<in> set (live (db_accounts d))"
  shows "journal_books P (closed_month ids i a year month d)"
proof -
  let ?d = "closed_month ids i a year month d"
  let ?out = "\<lambda>e. en_PropertyAccountID e = pa_ID a \<and> en_Year e = year \<and> en_Month e = month"
  have d: "db_journals ?d = db_journals d" "db_accounts ?d = db_accounts d" "db_titles ?d = db_titles d"
    by (simp_all add: closed_month_def)
  have entries: "log_entries j ?d = filter (\<lambda>e. \<not> ?out e) (log_entries j d)" for j
    by (simp add: log_entries_def closed_month_def conj_commute)
  have closed: "closed_for ?d r \<longleftrightarrow> closed_for d r
      \<or> pa_PropertyID a = jl_PropertyID r \<and> journalAccountingPeriod (jl_CreatedAt r) = (year, month)" for r
    by (auto simp: closed_for_def snapshot_exists_def closed_month_def snapshot_of_def Let_def split: prod.splits)
  have booked: "log_booked ?d r" if before: "log_booked d r" for r
  proof (cases "jl_ExpenseAmount r")
    case None
    then show ?thesis using that by (simp add: log_booked_def entries)
  next
    case (Some b)
    show ?thesis
    proof (cases "closed_for d r")
      case True
      then show ?thesis using that Some by (simp add: log_booked_def entries closed)
    next
      case False
      then obtain e where e: "log_entries (jl_ID r) d = [e]" "entry_matches d r b e"
        using before by (auto simp: log_booked_def Some split: if_splits)
      then obtain c where c: "c \<in> set (live (db_accounts d))" "pa_PropertyID c = jl_PropertyID r"
        "pa_ID c = en_PropertyAccountID e" and p: "(en_Year e, en_Month e) = journalAccountingPeriod (jl_CreatedAt r)"
        by (auto simp: entry_matches_def)
      have "pa_ID c = pa_ID a \<longleftrightarrow> pa_PropertyID c = pa_PropertyID a"
        using acc c(1) unfolding one_account_def distinct_map inj_on_def by metis
      then have out: "?out e \<longleftrightarrow> closed_for ?d r" unfolding closed c(2,3) p [symmetric] using False by auto
      then show ?thesis using e(1) e(2) [folded matches_cong [OF d(2)]]
        by (cases "closed_for ?d r") (auto simp: log_booked_def Some entries)
    qed
  qed
  have "set (db_entries ?d) \<subseteq> set (db_entries d)" by (auto simp: closed_month_def)
  then have "j \<in> jl_ID ` set (all_rows (db_journals ?d))" if "e \<in> set (db_entries ?d)" "entry_of_log j e" for e j
    using journal_books_D(1) [OF inv that(2)] that(1) by (auto simp: d(1))
  moreover have "if dead then left_over P (log_entries (jl_ID r) ?d) else log_booked ?d r \<and> title_ok ?d r"
    if "(r, dead) \<in> set (db_journals ?d)" for r dead
    using inv that booked [of r] title_ok_cong [OF d(3)] by (auto simp: journal_books_def d(1) entries left_over_filter split: if_splits)
  ultimately show ?thesis by (auto simp: journal_books_def)
qed

text \<open>An update that does not change the expense leaves the entry and what it has to match.\<close>

lemma unchanged_expense:
  assumes title: "title_ok d r" and same: "\<not> books_change r s t" "new_titles_ok d (jn_ExpenseAmount s) t"
    and ids: "distinct (map ti_ID (db_titles d))"
  shows "jl_ExpenseAmount r = jn_ExpenseAmount s" "jl_ExpenseDescription r = jn_ExpenseDescription s"
    "jl_TitleID (journal_updated E (update_params s t) r) = jl_TitleID r"
    "jl_TitleCode (journal_updated E (update_params s t) r) = jl_TitleCode r"
proof -
  show a: "jl_ExpenseAmount r = jn_ExpenseAmount s" and "jl_ExpenseDescription r = jn_ExpenseDescription s"
    using same(1) by (auto simp: books_change_def journalExpenseAccountingChanges_def split: if_splits)
  obtain k where k: "has_title r k" "new_titles_ok d (jl_ExpenseAmount r) k" using title by (auto simp: title_ok_def)
  have "jl_TitleID r = map_option at_ID t \<and> jl_TitleCode r = map_option at_Code t"
  proof (cases "jn_ExpenseAmount s")
    case None
    then show ?thesis using k same(2) by (simp add: a new_titles_ok_def has_title_def)
  next
    case (Some b)
    then obtain x y where xy: "k = Some x" "t = Some y" "known_title d x" "known_title d y"
      using k(2) same(2) a by (auto simp: new_titles_ok_def)
    have "at_ID x = at_ID y"
      using same(1) Some a k(1) xy
      by (auto simp: books_change_def journalExpenseAccountingChanges_def has_title_def split: if_splits)
    moreover obtain v z where "v \<in> set (db_titles d)" "ti_ID v = at_ID x" "ti_Code v = at_Code x"
      "z \<in> set (db_titles d)" "ti_ID z = at_ID y" "ti_Code z = at_Code y"
      using xy(3,4) by (auto simp: known_title_def)
    ultimately have "at_Code x = at_Code y" using ids by (metis distinct_map inj_onD)
    then show ?thesis using k(1) xy(1,2) \<open>at_ID x = at_ID y\<close> by (simp add: has_title_def)
  qed
  then show "jl_TitleID (journal_updated E (update_params s t) r) = jl_TitleID r"
    "jl_TitleCode (journal_updated E (update_params s t) r) = jl_TitleCode r"
    by (simp_all add: journal_updated_def update_params_def)
qed

section \<open>The states the journal reaches\<close>

datatype journal_command =
    CmdCreateJournal journal_create_input
  | CmdUpdateJournal journal_update_input
  | CmdDeleteJournal string
  | CmdCloseMonth int int string

fun run_journal_command ::
    "env \<Rightarrow> (string \<Rightarrow> string option) \<Rightarrow> journal_command \<Rightarrow> unit tx" where
  "run_journal_command E U (CmdCreateJournal i) = ignore (CreateJournal_Execute E U (server_publish E) i)"
| "run_journal_command E U (CmdUpdateJournal i) = ignore (UpdateJournal_Execute E U (server_publish E) i)"
| "run_journal_command E U (CmdDeleteJournal i) = DeleteJournal_Execute E U (server_publish E) i"
| "run_journal_command E U (CmdCloseMonth year month p) =
     WithinTransaction (server_publish E) (close_month E year month p)"

text \<open>A deletion names its log by the canonical text of the UUID.\<close>

fun plainly_spelled :: "(string \<Rightarrow> string option) \<Rightarrow> journal_command \<Rightarrow> bool" where
  "plainly_spelled U (CmdDeleteJournal i) \<longleftrightarrow> U (trim i) = Some (trim i)"
| "plainly_spelled U _ \<longleftrightarrow> True"

text \<open>All commands, in any order, under any faults.  \<open>P\<close> tells whether every deletion
  named its log canonically; where it is False they may name it as they like.  Other
  use cases leave the journal, its entries and the snapshots alone; they may add
  accounts and titles.\<close>

inductive journal_reach :: "(string \<Rightarrow> string option) \<Rightarrow> bool \<Rightarrow> db \<Rightarrow> bool" for U P where
  no_journal: "db_journals d = [] \<Longrightarrow> \<forall>e \<in> set (db_entries d). en_Category e \<noteq> ''journal_expense'' \<Longrightarrow>
     journal_keys U d \<Longrightarrow> journal_reach U P d"
| command: "journal_reach U P (w_db w) \<Longrightarrow> (P \<Longrightarrow> plainly_spelled U c) \<Longrightarrow>
     run_journal_command E U c w = (res, v) \<Longrightarrow>
     journal_keys U (w_db v) \<Longrightarrow> journal_reach U P (w_db v)"
| elsewhere: "journal_reach U P d \<Longrightarrow> db_journals d' = db_journals d \<Longrightarrow>
     filter (\<lambda>e. en_Category e = ''journal_expense'') (db_entries d')
       = filter (\<lambda>e. en_Category e = ''journal_expense'') (db_entries d) \<Longrightarrow>
     db_snapshots d' = db_snapshots d \<Longrightarrow> set (live (db_accounts d)) \<subseteq> set (live (db_accounts d')) \<Longrightarrow>
     set (db_titles d) \<subseteq> set (db_titles d') \<Longrightarrow> journal_keys U d' \<Longrightarrow> journal_reach U P d'"

definition journal_ok :: "(string \<Rightarrow> string option) \<Rightarrow> bool \<Rightarrow> db \<Rightarrow> bool" where
  "journal_ok U P d \<longleftrightarrow> journal_keys U d \<and> journal_books P d"

definition keeps_journal :: "(string \<Rightarrow> string option) \<Rightarrow> bool \<Rightarrow> 'a tx \<Rightarrow> bool" where
  "keeps_journal U P m \<longleftrightarrow> (\<forall>u x u'. journal_ok U P (w_db u) \<longrightarrow> w_events u = [] \<longrightarrow> m u = (Inr x, u') \<longrightarrow>
     (\<forall>e \<in> set (w_events u'). unheard e) \<and> (journal_keys U (w_db u') \<longrightarrow> journal_books P (w_db u')))"

lemma keeps_journalI:
  assumes "\<And>u x u'. journal_keys U (w_db u) \<Longrightarrow> journal_books P (w_db u) \<Longrightarrow> w_events u = [] \<Longrightarrow> m u = (Inr x, u') \<Longrightarrow>
     (\<forall>e \<in> set (w_events u'). unheard e) \<and> (journal_keys U (w_db u') \<longrightarrow> journal_books P (w_db u'))"
  shows "keeps_journal U P m"
  using assms by (auto simp: keeps_journal_def journal_ok_def)

lemma keeps_journal_run:
  assumes m: "keeps_journal U P m" and w: "WithinTransaction (server_publish E) m w = (res, v)"
    and ok: "journal_ok U P (w_db w)" "journal_keys U (w_db v)"
  shows "journal_books P (w_db v)"
proof -
  have runs: "case res of Inl e \<Rightarrow> w_db v = w_db w
       | Inr x \<Rightarrow> \<exists>u u'. w_db u = w_db w \<and> w_fresh u = w_fresh w \<and> w_events u = [] \<and> m u = (Inr x, u')
                     \<and> w_db v = w_db u'"
  proof (rule unheard_run [OF w])
    fix u x u' assume "w_db u = w_db w" "w_events u = []" "m u = (Inr x, u')"
    then show "\<forall>e \<in> set (w_events u'). unheard e"
      using m ok(1) unfolding keeps_journal_def by metis
  qed
  show ?thesis
  proof (cases res)
    case (Inr x)
    then obtain u u' where "w_db u = w_db w" "w_events u = []" "m u = (Inr x, u')" "w_db v = w_db u'"
      using runs by auto
    then show ?thesis using m ok unfolding keeps_journal_def by metis
  qed (use ok(1) runs in \<open>simp add: journal_ok_def\<close>)
qed

lemma CreateJournal_keeps: "keeps_journal U P (CreateJournal_body E U req p)"
proof (rule keeps_journalI)
  fix w x v assume k: "journal_keys U (w_db w)" "journal_books P (w_db w)" "w_events w = []"
    and run: "CreateJournal_body E U req p w = (Inr x, v)"
  obtain i room s where p: "p = (i, room, s)" by (cases p) auto
  have codes: "distinct (map ti_Code (db_titles (w_db w)))" using k(1) by (simp add: journal_keys_def)
  obtain n r t where r: "new_journal E U n (create_params s t) = Some r" and
    eff: "case jn_ExpenseAmount s of
          None \<Rightarrow> t = None \<and> w_db v = add_journal r (w_db w) \<and> w_events v = w_events w
        | Some a \<Rightarrow> (\<exists>ti. t = Some ti \<and> known_title (w_db w) ti) \<and> \<not> closed_for (w_db w) r
            \<and> expense_booked (add_journal r (w_db w)) r a (w_db v)
            \<and> w_events v = w_events w @ [JournalExpenseRecorded (jl_ID r) (jl_PropertyID r) a
                (jl_ExpenseDescription r) (time_UTC (jl_CreatedAt r))]"
    using CreateJournal_body_D [OF run [unfolded p] codes] by blast
  have f: "jl_ExpenseAmount r = jn_ExpenseAmount s" "has_title r t"
    using new_journal_D [OF r] by (simp_all add: create_params_def)
  have "title_ok (w_db w) r" unfolding title_ok_def new_titles_ok_def
    using f eff by (intro exI [of _ t]) (auto split: option.splits)
  moreover have "w_events v = [] \<or> (\<exists>a b c d e. w_events v = [JournalExpenseRecorded a b c d e])"
    using eff k(3) by (cases "jn_ExpenseAmount s") auto
  moreover have "db_journals (w_db v) = tab_insert r (db_journals (w_db w))"
    using eff expense_booked_rest(1) [of "add_journal r (w_db w)" r _ "w_db v"] by (cases "jn_ExpenseAmount s") auto
  moreover have "case jl_ExpenseAmount r of None \<Rightarrow> w_db v = add_journal r (w_db w)
      | Some a \<Rightarrow> \<not> closed_for (w_db w) r \<and> expense_booked (add_journal r (w_db w)) r a (w_db v)"
    using eff f(1) by (cases "jn_ExpenseAmount s") auto
  ultimately show "(\<forall>e \<in> set (w_events v). unheard e) \<and> (journal_keys U (w_db v) \<longrightarrow> journal_books P (w_db v))"
    using books_create [OF k(2), of r "w_db v"] by (auto simp: journal_keys_def unheard_def)
qed

lemma UpdateJournal_keeps: "keeps_journal U P (UpdateJournal_body E U input i)"
proof (rule keeps_journalI)
  fix w x v assume k: "journal_keys U (w_db w)" "journal_books P (w_db w)" "w_events w = []"
    and run: "UpdateJournal_body E U input i w = (Inr x, v)"
  let ?d = "w_db w"
  have keys: "distinct (map ti_Code (db_titles ?d))" "distinct (map ti_ID (db_titles ?d))"
    "distinct (map jl_ID (all_rows (db_journals ?d)))" using k(1) by (simp_all add: journal_keys_def)
  have stored: "\<forall>r \<in> set (live (db_journals ?d)). \<forall>c. stored_title r = Some c \<longrightarrow> known_title ?d c"
    using journal_books_D(2) [OF k(2)] title_ok_stored by blast
  obtain u r s t where r: "journal_by_id u ?d = Some r" and t: "new_titles_ok ?d (jn_ExpenseAmount s) t"
    and ev: "w_events v = w_events w" and eff: "if books_change r s t
        then \<not> closed_for ?d r
          \<and> (case jn_ExpenseAmount s of
               None \<Rightarrow> w_db v = drop_entries u (put_journal u (journal_updated E (update_params s t)) ?d)
             | Some b \<Rightarrow> expense_booked (drop_entries u (put_journal u (journal_updated E (update_params s t)) ?d))
                 (journal_updated E (update_params s t) r) b (w_db v))
        else w_db v = put_journal u (journal_updated E (update_params s t)) ?d"
    using UpdateJournal_body_D [OF run keys(1) stored] by blast
  define f where "f = journal_updated E (update_params s t)"
  have f: "jl_ID (f y) = jl_ID y" "jl_CreatedAt (f y) = jl_CreatedAt y" "jl_PropertyID (f y) = jl_PropertyID y"
    "jl_ExpenseAmount (f y) = jn_ExpenseAmount s" "jl_ExpenseDescription (f y) = jn_ExpenseDescription s"
    "has_title (f y) t" for y by (simp_all add: f_def)
  have u: "r \<in> set (live (db_journals ?d))" "jl_ID r = u" using journal_by_id_D [OF r] by auto
  have old: "log_booked ?d r" "title_ok ?d r" using journal_books_D(2) [OF k(2) u(1)] by auto
  have shut: "closed_for d' (f r) \<longleftrightarrow> closed_for d' r" for d' by (simp add: closed_for_def f)
  have "journal_books P (w_db v)"
  proof (cases "books_change r s t")
    case False
    then have v: "w_db v = put_journal u f ?d" using eff by (simp add: f_def)
    have e: "log_entries j (w_db v) = log_entries j ?d" for j by (simp add: v log_entries_def)
    note same = unchanged_expense(1,2) [OF old(2) False t keys(2)]
      unchanged_expense(3,4) [OF old(2) False t keys(2), of E, folded f_def]
    have same_db: "entry_matches (w_db v) = entry_matches ?d" "closed_for (w_db v) = closed_for ?d"
      "known_title (w_db v) = known_title ?d"
      by (rule matches_cong closed_cong known_cong; simp add: v)+
    have "entry_matches ?d (f r) a e \<longleftrightarrow> entry_matches ?d r a e" for a e
      by (simp add: entry_matches_def same f)
    then have "log_booked (w_db v) (f r)"
      using old(1) shut [of ?d] by (cases "jn_ExpenseAmount s") (simp_all add: log_booked_def f e same(1) same_db)
    moreover have "title_ok (w_db v) (f r)"
      unfolding title_ok_def new_titles_ok_def same_db
      using t f(4,6) [of r] by (intro exI [of _ t]) (simp add: new_titles_ok_def)
    ultimately show ?thesis using books_update [OF k(2) keys(3) u(1) f(1), of "w_db v"] e
      by (simp add: v u(2) put_journal_def)
  next
    case True
    let ?d1 = "drop_entries u (put_journal u f ?d)"
    have v: "\<not> closed_for ?d r" "case jn_ExpenseAmount s of None \<Rightarrow> w_db v = ?d1
        | Some b \<Rightarrow> expense_booked ?d1 (f r) b (w_db v)"
      using eff True unfolding f_def by (simp_all only: if_True simp_thms)
    have same: "db_accounts (w_db v) = db_accounts ?d" "db_snapshots (w_db v) = db_snapshots ?d"
      "db_titles (w_db v) = db_titles ?d" "db_journals (w_db v) = tab_update (\<lambda>x. jl_ID x = jl_ID r) f (db_journals ?d)"
      using v(2) expense_booked_rest(1-4) [of ?d1 "f r" _ "w_db v"]
      by (cases "jn_ExpenseAmount s"; simp add: put_journal_def u(2))+
    have others: "log_entries j (w_db v) = log_entries j ?d" if "j \<noteq> u" for j
      using v(2) that expense_booked_rest(5) [of ?d1 "f r" _ "w_db v" j]
      by (cases "jn_ExpenseAmount s") (simp_all add: f(1) u(2) log_entries_cong [of "put_journal u f ?d" ?d])
    have "log_booked (w_db v) (f r)"
      using v expense_booked_rest(6) [of ?d1 "f r" _ "w_db v"] closed_cong [OF same(2)]
      by (cases "jn_ExpenseAmount s") (simp_all add: log_booked_def f u(2) shut)
    moreover have "title_ok (w_db v) (f r)"
      unfolding title_ok_def new_titles_ok_def known_cong [OF same(3)]
      using t f(4,6) [of r] by (intro exI [of _ t]) (simp add: new_titles_ok_def)
    ultimately show ?thesis using books_update [OF k(2) keys(3) u(1) f(1) same] others by (simp add: u(2))
  qed
  then show "(\<forall>e \<in> set (w_events v). unheard e) \<and> (journal_keys U (w_db v) \<longrightarrow> journal_books P (w_db v))"
    using ev k(3) by simp
qed

lemma DeleteJournal_keeps:
  assumes plain: "P \<Longrightarrow> U i = Some i"
  shows "keeps_journal U P (DeleteJournal_body E U i)"
proof (rule keeps_journalI)
  fix w x v assume k: "journal_keys U (w_db w)" "journal_books P (w_db w)" "w_events w = []"
    and run: "DeleteJournal_body E U i w = (Inr x, v)"
  let ?d = "w_db w"
  obtain u r where u: "U i = Some u" and r: "journal_by_id u ?d = Some r" and ev: "w_events v = w_events w" and
    eff: "case jl_ExpenseAmount r of None \<Rightarrow> w_db v = retire_journal E u ?d
        | Some a \<Rightarrow> \<not> closed_for ?d r \<and> w_db v = drop_entries i (retire_journal E u ?d)"
    using DeleteJournal_body_D [OF run] by blast
  have live: "r \<in> set (live (db_journals ?d))" "jl_ID r = u" using journal_by_id_D [OF r] by auto
  have ids: "distinct (map jl_ID (all_rows (db_journals ?d)))" using k(1) by (simp add: journal_keys_def)
  have booked: "log_booked ?d r" using journal_books_D(2) [OF k(2) live(1)] by simp
  have e: "log_entries j (retire_journal E u ?d) = log_entries j ?d" for j by (rule log_entries_cong) simp
  let ?f = "\<lambda>r. r\<lparr>jl_UpdatedAt := e_now E\<rparr>"
  have same: "db_accounts (w_db v) = db_accounts ?d" "db_snapshots (w_db v) = db_snapshots ?d"
    "db_titles (w_db v) = db_titles ?d" "db_journals (w_db v) = tab_retire (\<lambda>x. jl_ID x = jl_ID r) ?f (db_journals ?d)"
    using eff by (cases "jl_ExpenseAmount r"; simp add: live(2); simp add: retire_journal_def)+
  have none: "log_entries i ?d = []" if "i \<noteq> u"
  proof (rule unknown_log_entries [OF k(2)])
    show "i \<notin> jl_ID ` set (all_rows (db_journals ?d))" using k(1) u that by (auto simp: journal_keys_def)
  qed
  have others: "log_entries j (w_db v) = log_entries j ?d" if "j \<noteq> jl_ID r" for j
    using eff that none by (cases "jl_ExpenseAmount r") (auto simp: e live(2))
  have mine: "left_over P (log_entries (jl_ID r) (w_db v))"
  proof (cases "i = u")
    case True
    then show ?thesis using eff booked by (cases "jl_ExpenseAmount r") (auto simp: e log_booked_def live(2))
  next
    case False
    then have "\<not> P" using plain u by auto
    then show ?thesis using eff booked False
      by (cases "jl_ExpenseAmount r") (auto simp: e log_booked_def live(2) left_over_def split: if_splits)
  qed
  have "journal_books P (w_db v)"
    by (rule books_retire [OF k(2) ids live(1) _ same others mine]) simp_all
  then show "(\<forall>e \<in> set (w_events v). unheard e) \<and> (journal_keys U (w_db v) \<longrightarrow> journal_books P (w_db v))"
    using ev k(3) by simp
qed

lemma CloseMonth_keeps: "keeps_journal U P (close_month E year month p)"
proof (rule keeps_journalI)
  fix w x v assume k: "journal_keys U (w_db w)" "journal_books P (w_db w)" "w_events w = []"
    and run: "close_month E year month p w = (Inr x, v)"
  have one: "one_account (w_db w)" using k(1) by (simp add: journal_keys_def)
  obtain a k n where "open_account a (w_db w)" "w_db v = closed_month (e_row_id E k) (e_id E n) a year month (w_db w)"
    using close_month_Inr [OF one run] by blast
  then show "(\<forall>e \<in> set (w_events v). unheard e) \<and> (journal_keys U (w_db v) \<longrightarrow> journal_books P (w_db v))"
    using books_close [OF k(2) one, of a] close_month_quiet [OF run] k(3) by (simp add: open_account_def)
qed

lemma lifted_run:
  assumes "tx_bind (tx_lift r) f w = (res, v)"
  shows "(\<exists>x. r = Inr x \<and> f x w = (res, v)) \<or> w_db v = w_db w"
  using assms by (cases r) (auto simp: tx_bind_def tx_lift_def tx_throw_def tx_return_def)

lemma ignored_run:
  assumes "ignore m w = (res, v)"
  shows "\<exists>res' v'. m w = (res', v') \<and> w_db v = w_db v'"
  using assms by (auto simp: ignore_def tx_bind_def tx_return_def split: prod.splits sum.splits)

text \<open>Every command keeps the invariant, whatever statement fails.\<close>

lemma command_keeps_books:
  assumes run: "run_journal_command E U c w = (res, v)" and plain: "P \<Longrightarrow> plainly_spelled U c"
    and ok: "journal_ok U P (w_db w)" "journal_keys U (w_db v)"
  shows "journal_books P (w_db v)"
proof (cases c)
  case (CmdCreateJournal input)
  then obtain r' v' where v': "CreateJournal_Execute E U (server_publish E) input w = (r', v')" "w_db v = w_db v'"
    using ignored_run run by (metis run_journal_command.simps(1))
  from lifted_run [OF v'(1) [unfolded CreateJournal_Execute_def]] show ?thesis
    using keeps_journal_run [OF CreateJournal_keeps _ ok(1)] ok v'(2) by (auto simp: journal_ok_def)
next
  case (CmdUpdateJournal input)
  then obtain r' v' where v': "UpdateJournal_Execute E U (server_publish E) input w = (r', v')" "w_db v = w_db v'"
    using ignored_run run by (metis run_journal_command.simps(2))
  from lifted_run [OF v'(1) [unfolded UpdateJournal_Execute_def]] show ?thesis
    using keeps_journal_run [OF UpdateJournal_keeps _ ok(1)] ok v'(2) by (auto simp: journal_ok_def)
next
  case (CmdDeleteJournal i)
  then have d: "DeleteJournal_Execute E U (server_publish E) i w = (res, v)" using run by simp
  from lifted_run [OF d [unfolded DeleteJournal_Execute_def]] show ?thesis
  proof
    assume "\<exists>j. journal_normalizeRequiredUUID E i ''id'' ErrJournalLogNotFound_app = Inr j
      \<and> WithinTransaction (server_publish E) (DeleteJournal_body E U j) w = (res, v)"
    then obtain j where "journal_normalizeRequiredUUID E i ''id'' ErrJournalLogNotFound_app = Inr j"
      and j: "WithinTransaction (server_publish E) (DeleteJournal_body E U j) w = (res, v)" by blast
    then have "U j = Some j" if P using plain [OF that] CmdDeleteJournal
      by (auto simp: journal_normalizeRequiredUUID_def Let_def split: if_splits)
    then have "keeps_journal U P (DeleteJournal_body E U j)" by (rule DeleteJournal_keeps)
    then show ?thesis by (rule keeps_journal_run [OF _ j ok])
  qed (use ok in \<open>simp add: journal_ok_def\<close>)
next
  case (CmdCloseMonth year month p)
  then show ?thesis using keeps_journal_run [OF CloseMonth_keeps _ ok] run by simp
qed

lemma journal_reach_ok: "journal_reach U P d \<Longrightarrow> journal_ok U P d"
proof (induction rule: journal_reach.induct)
  case (no_journal d)
  then show ?case by (auto simp: journal_ok_def journal_books_def entry_of_log_def)
next
  case (command w c res v)
  then show ?case using command_keeps_books by (simp add: journal_ok_def)
next
  case (elsewhere d d')
  let ?P = "\<lambda>e. en_Category e = ''journal_expense''"
  have e: "filter (\<lambda>x. ?P x \<and> entry_of_log i x) xs = filter (entry_of_log i) xs" for i xs
    by (rule filter_cong) (auto simp: entry_of_log_def)
  have logs: "log_entries i d' = log_entries i d" for i
    using arg_cong [OF elsewhere.hyps(3), of "filter (entry_of_log i)"] by (simp add: log_entries_def e)
  have books: "journal_books P d" using elsewhere.IH by (simp add: journal_ok_def)
  have matches: "entry_matches d r a x \<Longrightarrow> entry_matches d' r a x" for r a x
    using elsewhere.hyps(5) by (auto simp: entry_matches_def)
  have "log_booked d r \<Longrightarrow> log_booked d' r" for r
    using matches by (cases "jl_ExpenseAmount r")
      (auto simp: log_booked_def logs closed_cong [OF elsewhere.hyps(4)] split: if_splits)
  moreover have "title_ok d r \<Longrightarrow> title_ok d' r" for r
    using elsewhere.hyps(6) by (cases "jl_ExpenseAmount r")
      (auto simp: title_ok_def new_titles_ok_def known_title_def subset_iff; metis)+
  moreover have "i \<in> jl_ID ` set (all_rows (db_journals d'))"
    if x: "x \<in> set (db_entries d')" "entry_of_log i x" for x i
  proof -
    have "x \<in> set (log_entries i d')" using x by (simp add: log_entries_def)
    then have "x \<in> set (log_entries i d)" by (simp add: logs)
    then show ?thesis using journal_books_D(1) [OF books] elsewhere.hyps(2) by (auto simp: log_entries_def)
  qed
  ultimately have "journal_books P d'"
    using books unfolding journal_books_def elsewhere.hyps(2) logs by (auto split: if_splits)
  then show ?case using elsewhere.hyps(7) by (simp add: journal_ok_def)
qed

text \<open>
  C36.  The journal and the ledger agree.  After any commands on the journal and
  month closings, whatever statements fail and however the deletions spell their
  ids, the ledger holds for every live log with an expense exactly one entry, with
  the amount, description and title of the log, in its month and for an account of
  its property, unless that month is closed; it holds none for a log without an
  expense or of a closed month, and at most one for a deleted log.  Where every
  deletion spelled its id canonically, a deleted log has none, so every entry of
  the journal is the one of a live log.
\<close>

theorem journal_agrees_with_ledger:
  assumes "journal_reach U P d"
  shows "(\<forall>r \<in> set (live (db_journals d)). case jl_ExpenseAmount r of
           None \<Rightarrow> log_entries (jl_ID r) d = []
         | Some a \<Rightarrow> if closed_for d r then log_entries (jl_ID r) d = []
                     else \<exists>e. log_entries (jl_ID r) d = [e] \<and> entry_matches d r a e)
     \<and> (\<forall>r. (r, True) \<in> set (db_journals d) \<longrightarrow> length (log_entries (jl_ID r) d) \<le> 1)
     \<and> (\<forall>e \<in> set (db_entries d). \<forall>i. entry_of_log i e \<longrightarrow>
         (\<exists>r a. r \<in> set (live (db_journals d)) \<and> jl_ID r = i \<and> jl_ExpenseAmount r = Some a
            \<and> \<not> closed_for d r \<and> entry_matches d r a e)
         \<or> \<not> P \<and> (\<exists>r. (r, True) \<in> set (db_journals d) \<and> jl_ID r = i))"
proof (intro conjI ballI allI impI)
  have books: "journal_books P d" using journal_reach_ok [OF assms] by (simp add: journal_ok_def)
  show "case jl_ExpenseAmount r of None \<Rightarrow> log_entries (jl_ID r) d = []
      | Some a \<Rightarrow> if closed_for d r then log_entries (jl_ID r) d = []
          else \<exists>e. log_entries (jl_ID r) d = [e] \<and> entry_matches d r a e"
    if "r \<in> set (live (db_journals d))" for r
    using journal_books_D(2) [OF books that] by (simp add: log_booked_def)
  show "length (log_entries (jl_ID r) d) \<le> 1" if "(r, True) \<in> set (db_journals d)" for r
    using journal_books_D(3) [OF books that] by (simp add: left_over_def)
  fix e i assume e: "e \<in> set (db_entries d)" "entry_of_log i e"
  then have some: "e \<in> set (log_entries i d)" by (simp add: log_entries_def)
  obtain r where r: "r \<in> set (all_rows (db_journals d))" "jl_ID r = i"
    using journal_books_D(1) [OF books e(2,1)] by blast
  then obtain dead where dead: "(r, dead) \<in> set (db_journals d)" by (auto simp: all_rows_def)
  show "(\<exists>r a. r \<in> set (live (db_journals d)) \<and> jl_ID r = i \<and> jl_ExpenseAmount r = Some a
            \<and> \<not> closed_for d r \<and> entry_matches d r a e)
      \<or> \<not> P \<and> (\<exists>r. (r, True) \<in> set (db_journals d) \<and> jl_ID r = i)"
  proof (cases dead)
    case True
    then show ?thesis using journal_books_D(3) [OF books, of r] dead some r(2) by (auto simp: left_over_def)
  next
    case False
    then have live: "r \<in> set (live (db_journals d))" using dead by (force simp: live_def)
    then show ?thesis using journal_books_D(2) [OF books live] some r(2)
      by (cases "jl_ExpenseAmount r") (auto simp: log_booked_def split: if_splits)
  qed
qed

section \<open>What the commands do\<close>

lemma CreateJournal_validate_D:
  assumes "CreateJournal_validate E input = Inr (p, room, s)"
  shows "p = trim (ji_PropertyID input) \<and> jn_Content s = trim (ji_Content input) \<and> jn_Content s \<noteq> ''''
     \<and> jn_ExpenseAmount s = ji_ExpenseAmount input
     \<and> jn_ExpenseDescription s = trimOptionalString (ji_ExpenseDescription input) \<and> jn_PropertyID s = trim p
     \<and> jn_AuthorID s = trim (ji_ActorUserID input) \<and> room = trimOptionalString (ji_RoomID input) \<and> jn_RoomID s = room
     \<and> (to_lower (trim (ji_ActorRole input)) = ''admin''
        \<or> containsAssignedProperty (ji_AssignedPropertyIDs input) p)"
proof -
  obtain role uid where
    role: "journal_normalizeWriteRole (ji_ActorRole input) = Inr role" and
    uid: "journal_normalizeRequiredUUID E (ji_ActorUserID input) ''actor_user_id'' ErrUnauthorized = Inr uid" and
    p: "journal_normalizeRequiredUUID E (ji_PropertyID input) ''property_id'' ErrPropertyNotFound = Inr p" and
    room: "journal_normalizeOptionalUUID E (ji_RoomID input) ''room_id'' = Inr room" and
    access: "journal_requirePropertyAccess role (ji_AssignedPropertyIDs input) p = Inr ()" and
    s: "journal_New \<lparr>jn_ID = '''', jn_PropertyID = p, jn_RoomID = room, jn_AuthorID = uid,
      jn_Content = ji_Content input, jn_ExpenseAmount = ji_ExpenseAmount input,
      jn_ExpenseDescription = ji_ExpenseDescription input\<rparr> = Inr s"
    using assms unfolding CreateJournal_validate_def by (simp split: sum.splits)
  have "role = to_lower (trim (ji_ActorRole input))"
    using role by (simp add: journal_normalizeWriteRole_def Let_def split: if_splits)
  moreover have "p = trim (ji_PropertyID input)" "uid = trim (ji_ActorUserID input)"
    using p uid by (simp_all add: journal_normalizeRequiredUUID_def Let_def split: if_splits)
  moreover have "room = trimOptionalString (ji_RoomID input)"
    using room by (auto simp: journal_normalizeOptionalUUID_def trimOptionalString_def Let_def
        split: option.splits if_splits)
  moreover have "role = ''admin'' \<or> containsAssignedProperty (ji_AssignedPropertyIDs input) p"
    using access by (simp add: journal_requirePropertyAccess_def split: if_splits)
  ultimately show ?thesis
    using s by (auto simp: journal_New_def journal_normalizeState_def trimOptionalString_def Let_def
        split: if_splits option.splits)
qed

lemma create_success:
  assumes run: "CreateJournal_Execute E U (server_publish E) input w = (Inr x, v)"
    and codes: "distinct (map ti_Code (db_titles (w_db w)))"
  shows "\<exists>p room s u u'. CreateJournal_validate E input = Inr (p, room, s) \<and> w_db u = w_db w
     \<and> CreateJournal_body E U (ji_TitleID input) (p, room, s) u = (Inr x, u') \<and> w_db v = w_db u'"
proof -
  obtain p room s where val: "CreateJournal_validate E input = Inr (p, room, s)"
    and tx: "WithinTransaction (server_publish E) (CreateJournal_body E U (ji_TitleID input) (p, room, s)) w = (Inr x, v)"
    using run by (auto simp: CreateJournal_Execute_def tx_control)
  have quiet: "\<forall>e \<in> set (w_events u'). unheard e"
    if "w_db u = w_db w" "w_events u = []" "CreateJournal_body E U (ji_TitleID input) (p, room, s) u = (Inr y, u')"
    for u y u'
    using CreateJournal_body_D [OF that(3)] codes that(1,2)
    by (cases "jn_ExpenseAmount s") (auto simp: unheard_def)
  have "case (Inr x :: gerr + journal_log) of Inl e \<Rightarrow> w_db v = w_db w
     | Inr x \<Rightarrow> \<exists>u u'. w_db u = w_db w \<and> w_fresh u = w_fresh w \<and> w_events u = []
         \<and> CreateJournal_body E U (ji_TitleID input) (p, room, s) u = (Inr x, u') \<and> w_db v = w_db u'"
    by (rule unheard_run [OF tx]) (rule quiet)
  then show ?thesis using val by auto
qed

text \<open>
  C37.  A log that is created is what was asked for, and its expense is booked
  with it.  The actor, who is the author, is an administrator or assigned to the
  property; the property exists, and the room, when one was named, is a live room
  of it.  The content is the trimmed input and not empty; amount and description
  are those of the input.  The one new row is returned.  Without an expense it has
  no title and the ledger stays as it is.  With one its title is the requested
  one, title 6681 when none was requested, in both cases an active title of the
  kind expense; the month is open, and exactly one entry is appended, which
  matches the log.  Nothing else in the database changes.
\<close>

theorem CreateJournal_books_expense:
  assumes run: "CreateJournal_Execute E U (server_publish E) input w = (Inr x, v)"
    and codes: "distinct (map ti_Code (db_titles (w_db w)))"
  shows "\<exists>r es. jo_row x = r
     \<and> w_db v = (w_db w)\<lparr>db_journals := tab_insert r (db_journals (w_db w)), db_entries := db_entries (w_db w) @ es\<rparr>
     \<and> jl_Content r = trim (ji_Content input) \<and> jl_Content r \<noteq> ''''
     \<and> jl_ExpenseAmount r = ji_ExpenseAmount input
     \<and> jl_ExpenseDescription r = trimOptionalString (ji_ExpenseDescription input)
     \<and> jl_CreatedAt r = e_now E
     \<and> U (trim (ji_ActorUserID input)) = Some (jl_AuthorID r)
     \<and> U (trim (ji_PropertyID input)) = Some (jl_PropertyID r)
     \<and> (\<exists>q \<in> set (live (db_properties (w_db w))). pr_ID q = jl_PropertyID r)
     \<and> (case trimOptionalString (ji_RoomID input) of
          None \<Rightarrow> jl_RoomID r = None
        | Some i \<Rightarrow> (\<exists>m \<in> set (live (db_rooms (w_db w))). U i = Some (rm_ID m) \<and> jl_RoomID r = Some (rm_ID m)
            \<and> rm_PropertyID m = trim (ji_PropertyID input)))
     \<and> (to_lower (trim (ji_ActorRole input)) = ''admin''
        \<or> containsAssignedProperty (ji_AssignedPropertyIDs input) (trim (ji_PropertyID input)))
     \<and> (case jl_ExpenseAmount r of
          None \<Rightarrow> es = [] \<and> jl_TitleID r = None \<and> jl_TitleCode r = None \<and> jl_TitleName r = None
        | Some a \<Rightarrow> \<not> closed_for (w_db w) r \<and> (\<exists>e. es = [e] \<and> entry_matches (w_db w) r a e)
            \<and> (\<exists>ti \<in> set (db_titles (w_db w)). ti_Kind ti = ''expense'' \<and> ti_IsActive ti
                 \<and> (case ji_TitleID input of
                      None \<Rightarrow> ti_Code ti = ''6681''
                    | Some q \<Rightarrow> U (trim q) = Some (ti_ID ti))
                 \<and> jl_TitleID r = Some (ti_ID ti) \<and> jl_TitleCode r = Some (ti_Code ti)
                 \<and> jl_TitleName r = Some (ti_Name ti)))"
proof -
  obtain p room s u u' where val: "CreateJournal_validate E input = Inr (p, room, s)"
    and u: "w_db u = w_db w" and body: "CreateJournal_body E U (ji_TitleID input) (p, room, s) u = (Inr x, u')"
    and v: "w_db v = w_db u'"
    using create_success [OF run codes] by blast
  have s: "jn_Content s = trim (ji_Content input)" "jn_Content s \<noteq> ''''" "jn_ExpenseAmount s = ji_ExpenseAmount input"
    "jn_ExpenseDescription s = trimOptionalString (ji_ExpenseDescription input)" "jn_PropertyID s = trim p"
    "p = trim (ji_PropertyID input)" "jn_AuthorID s = trim (ji_ActorUserID input)"
    "room = trimOptionalString (ji_RoomID input)" "jn_RoomID s = room"
    "to_lower (trim (ji_ActorRole input)) = ''admin'' \<or> containsAssignedProperty (ji_AssignedPropertyIDs input) p"
    using CreateJournal_validate_D [OF val] by blast+
  obtain n r t q where r: "new_journal E U n (create_params s t) = Some r" "x = journal_returned r"
    and q: "\<exists>k. U p = Some k \<and> property_by_id k (w_db w) = Some q"
    and room: "room_fits U p room (w_db w)"
    and chosen: "\<forall>k. t = Some k \<longrightarrow> chosen_title U (ji_TitleID input) (w_db w) k" and
    eff: "case jn_ExpenseAmount s of
          None \<Rightarrow> t = None \<and> w_db u' = add_journal r (w_db w)
        | Some a \<Rightarrow> (\<exists>ti. t = Some ti) \<and> \<not> closed_for (w_db w) r
            \<and> expense_booked (add_journal r (w_db w)) r a (w_db u')"
    using CreateJournal_body_D [OF body] codes u by (auto split: option.splits)
  have f: "jl_ExpenseAmount r = jn_ExpenseAmount s" "U (jn_PropertyID s) = Some (jl_PropertyID r)"
    "jl_Content r = jn_Content s" "jl_ExpenseDescription r = jn_ExpenseDescription s" "jl_CreatedAt r = e_now E"
    "U (jn_AuthorID s) = Some (jl_AuthorID r)" "has_title r t"
    "jl_RoomID r = (case jn_RoomID s of None \<Rightarrow> None | Some i \<Rightarrow> U i)"
    using new_journal_D [OF r(1)] by (simp_all add: create_params_def)
  have p: "trim p = p" by (simp add: s(6))
  have owner: "\<exists>q \<in> set (live (db_properties (w_db w))). pr_ID q = jl_PropertyID r"
    using q f(2) unfolding s(5) p by (auto simp: property_by_id_def dest: find_Some_filter)
  have rooms: "case room of None \<Rightarrow> jl_RoomID r = None
    | Some i \<Rightarrow> (\<exists>m \<in> set (live (db_rooms (w_db w))). U i = Some (rm_ID m) \<and> jl_RoomID r = Some (rm_ID m)
        \<and> rm_PropertyID m = p)"
    using room f(8) s(9) by (auto simp: room_fits_def split: option.splits)
  obtain es where es: "w_db u' = (w_db w)\<lparr>db_journals := tab_insert r (db_journals (w_db w)),
      db_entries := db_entries (w_db w) @ es\<rparr>"
    "case jl_ExpenseAmount r of None \<Rightarrow> es = [] | Some a \<Rightarrow> \<exists>e. es = [e] \<and> entry_matches (w_db w) r a e"
    using eff by (cases "jn_ExpenseAmount s")
      (auto simp: f(1) expense_booked_def add_journal_def add_entries_def entry_matches_def)
  have "case jl_ExpenseAmount r of
          None \<Rightarrow> es = [] \<and> jl_TitleID r = None \<and> jl_TitleCode r = None \<and> jl_TitleName r = None
        | Some a \<Rightarrow> \<not> closed_for (w_db w) r \<and> (\<exists>e. es = [e] \<and> entry_matches (w_db w) r a e)
            \<and> (\<exists>ti \<in> set (db_titles (w_db w)). ti_Kind ti = ''expense'' \<and> ti_IsActive ti
                 \<and> (case ji_TitleID input of
                      None \<Rightarrow> ti_Code ti = ''6681''
                    | Some q \<Rightarrow> U (trim q) = Some (ti_ID ti))
                 \<and> jl_TitleID r = Some (ti_ID ti) \<and> jl_TitleCode r = Some (ti_Code ti)
                 \<and> jl_TitleName r = Some (ti_Name ti))"
    using eff es(2) f(7) chosen
    by (cases "jn_ExpenseAmount s")
       (auto simp: f(1) has_title_def chosen_title_def scanned_title_def split: option.splits)
  then show ?thesis using r(2) v es(1) owner rooms [unfolded s(8) s(6)] s(1-4,7) s(10) [unfolded s(6)] f
      p [unfolded s(6)] s(5) [unfolded s(6)]
    by (intro exI [of _ r] exI [of _ es]) (simp add: journal_returned_def)
qed

end
