(* ===== verification/Journal.thy ===== *)
theory Journal
  imports JournalProps LeaseReplace
begin

text \<open>
  What a closed month refuses, the deletion under another spelling of the id, and
  the sample runs that instantiate the properties of the journal.
\<close>

section \<open>Closed months\<close>

lemma journal_by_id_congs: "w_db u = w_db w \<Longrightarrow> journal_by_id i (w_db u) = journal_by_id i (w_db w)"
  by simp

lemma delete_in_closed_month:
  assumes r: "U i = Some u" "journal_by_id u (w_db w) = Some r" "jl_ExpenseAmount r = Some a"
    and closed: "closed_for (w_db w) r"
  shows "\<exists>e v. DeleteJournal_body E U i w = (Inl e, v) \<and> (calm w \<longrightarrow> calm v \<and> e = ErrJournalExpenseSnapshotFinalized)"
proof -
  obtain year month where p: "journalAccountingPeriod (jl_CreatedAt r) = (year, month)" by force
  have found: "jo_row (journal_selected (w_db w) r) = r" by (simp add: journal_selected_def)
  show ?thesis
    using r closed
    by (auto simp: DeleteJournal_body_def journal_FindByIDForUpdate_def uuid_stmt_def stmt_def tx_bind_def
        tx_map_err_def found_or_def tx_throw_def tx_return_def refuse_closed_month_def MonthlySnapshotExists_def
        p found closed_for_def tx_reject_def calm_def next_fault_def tick_def)
qed

text \<open>What an update asks of the books.\<close>

definition changes_expense :: "journal_update_input \<Rightarrow> journal_row \<Rightarrow> bool" where
  "changes_expense input r \<longleftrightarrow>
     (\<exists>b. jui_ExpenseAmount input = Some b \<and> jl_ExpenseAmount r \<noteq> Some b)
     \<or> (\<exists>t. jui_ExpenseDescription input = Some t \<and> jl_ExpenseDescription r \<noteq> trimOptionalString (Some t))"

lemma changes_expense_books:
  assumes "journal_Rehydrate (journal_toDomainState r) = Inr a" "journal_Update a (changes_of input) = Inr s"
    and "changes_expense input r"
  shows "books_change r s t"
  using assms unfolding changes_expense_def books_change_def journalExpenseAccountingChanges_def
  by (auto simp: journal_Update_def changes_of_def Let_def split: option.splits if_splits sum.splits)

lemma update_in_closed_month:
  assumes reach: "journal_reach U P (w_db w)" and r: "U i = Some u" "journal_by_id u (w_db w) = Some r"
    and closed: "closed_for (w_db w) r" and change: "changes_expense input r"
  shows "UpdateJournal_body E U input i w \<noteq> (Inr x, v)"
proof
  assume run: "UpdateJournal_body E U input i w = (Inr x, v)"
  have ok: "journal_keys U (w_db w)" "journal_books P (w_db w)"
    using journal_reach_ok [OF reach] by (simp_all add: journal_ok_def)
  have stored: "\<forall>r \<in> set (live (db_journals (w_db w))). \<forall>c. stored_title r = Some c \<longrightarrow> known_title (w_db w) c"
    using journal_books_D(2) [OF ok(2)] title_ok_stored by blast
  have codes: "distinct (map ti_Code (db_titles (w_db w)))" using ok(1) by (simp add: journal_keys_def)
  from UpdateJournal_body_D [OF run codes stored] show False
    using r closed by (elim exE conjE) (auto simp: changes_expense_books [OF _ _ change])
qed

lemma lift_tx_fails:
  assumes "\<And>x. r = Inr x \<Longrightarrow> \<exists>e v. f x w = (Inl e, v) \<and> w_db v = w_db w"
  shows "\<exists>e v. tx_bind (tx_lift r) f w = (Inl e, v) \<and> w_db v = w_db w"
  using assms by (cases r) (auto simp: tx_bind_def tx_lift_def tx_throw_def tx_return_def)

text \<open>
  C38.  The books of a closed month are final for the journal.  A log whose month
  is closed cannot be deleted while it has an expense, and its amount and
  description cannot be changed: the command fails and the database stays as it
  was.  Where nothing else goes wrong, the deletion is answered with the error
  that says why.
\<close>

theorem closed_month_refuses_journal_changes:
  assumes reach: "journal_reach U P (w_db w)"
    and r: "U (trim i) = Some u" "journal_by_id u (w_db w) = Some r" "jl_ExpenseAmount r = Some a"
    and closed: "closed_for (w_db w) r"
  shows "(\<exists>e v. DeleteJournal_Execute E U publish i w = (Inl e, v) \<and> w_db v = w_db w
           \<and> (calm w \<and> e_uuid_ok E (trim i) \<and> trim i \<notin> {'''', zeroUUID} \<longrightarrow> e = ErrJournalExpenseSnapshotFinalized))
     \<and> (\<forall>input. jui_ID input = i \<and> changes_expense input r \<longrightarrow>
           (\<exists>e v. UpdateJournal_Execute E U publish input w = (Inl e, v) \<and> w_db v = w_db w))"
proof (intro conjI allI impI)
  have norm: "j = trim i" if "journal_normalizeRequiredUUID E i f e = Inr j" for f e j
    using that by (auto simp: journal_normalizeRequiredUUID_def Let_def split: if_splits)
  show "\<exists>e v. DeleteJournal_Execute E U publish i w = (Inl e, v) \<and> w_db v = w_db w
      \<and> (calm w \<and> e_uuid_ok E (trim i) \<and> trim i \<notin> {'''', zeroUUID} \<longrightarrow> e = ErrJournalExpenseSnapshotFinalized)"
  proof (cases "journal_normalizeRequiredUUID E i ''id'' ErrJournalLogNotFound_app")
    case (Inl e)
    then have "\<not> (e_uuid_ok E (trim i) \<and> trim i \<notin> {'''', zeroUUID})"
      by (auto simp: journal_normalizeRequiredUUID_def Let_def split: if_splits)
    then show ?thesis using Inl by (auto simp: DeleteJournal_Execute_def tx_bind_def tx_lift_def tx_throw_def)
  next
    case (Inr j)
    obtain e u' where body: "DeleteJournal_body E U (trim i) ((tick w)\<lparr>w_events := []\<rparr>) = (Inl e, u')"
      "calm ((tick w)\<lparr>w_events := []\<rparr>) \<longrightarrow> calm u' \<and> e = ErrJournalExpenseSnapshotFinalized"
      using delete_in_closed_month [of U "trim i" u "(tick w)\<lparr>w_events := []\<rparr>" r a E] r closed by auto
    show ?thesis
      using body Inr norm [OF Inr]
      by (auto simp: DeleteJournal_Execute_def tx_bind_def tx_lift_def tx_return_def WithinTransaction_def
          calm_def next_fault_def tick_def)
  qed
  fix input assume input: "jui_ID input = i \<and> changes_expense input r"
  show "\<exists>e v. UpdateJournal_Execute E U publish input w = (Inl e, v) \<and> w_db v = w_db w"
    unfolding UpdateJournal_Execute_def
  proof (rule lift_tx_fails)
    fix j assume "UpdateJournal_validate E input = Inr j"
    then have "j = trim i" using input norm
      by (auto simp: UpdateJournal_validate_def split: sum.splits if_splits)
    then have no: "UpdateJournal_body E U input j v \<noteq> (Inr x, v')" if "w_db v = w_db w" for v x v'
      using update_in_closed_month [of U P v "trim i" u r input] that reach r(1,2) closed input by simp
    show "\<exists>e v. WithinTransaction publish (UpdateJournal_body E U input j) w = (Inl e, v) \<and> w_db v = w_db w"
      using WithinTransaction_fails [where fn = "UpdateJournal_body E U input j", OF no] by blast
  qed
qed

section \<open>The same id in another spelling\<close>

text \<open>
  C39.  A deletion that spells the id of the log in another way than its canonical
  text, with capital letters for instance, deletes the log and leaves its expense
  in the books: the log is looked up as a UUID, the entry by the text of the
  request.
\<close>

theorem other_spelling_leaves_expense_booked:
  assumes reach: "journal_reach U P (w_db w)"
    and run: "DeleteJournal_Execute E U (server_publish E) i w = (Inr x, v)"
    and r: "U (trim i) = Some u" "u \<noteq> trim i" "journal_by_id u (w_db w) = Some r" "jl_ExpenseAmount r = Some a"
  shows "journal_by_id u (w_db v) = None \<and> (\<exists>e. log_entries u (w_db v) = [e] \<and> en_Amount e = a)"
proof -
  have "journal_normalizeRequiredUUID E i ''id'' ErrJournalLogNotFound_app = Inr j \<Longrightarrow> j = trim i" for j
    by (auto simp: journal_normalizeRequiredUUID_def Let_def split: if_splits)
  then have tx: "WithinTransaction (server_publish E) (DeleteJournal_body E U (trim i)) w = (Inr x, v)"
    using run by (auto simp: DeleteJournal_Execute_def tx_control)
  have "case (Inr x :: gerr + unit) of Inl e \<Rightarrow> w_db v = w_db w
     | Inr x \<Rightarrow> \<exists>y y'. w_db y = w_db w \<and> w_fresh y = w_fresh w \<and> w_events y = []
         \<and> DeleteJournal_body E U (trim i) y = (Inr x, y') \<and> w_db v = w_db y'"
    by (rule unheard_run [OF tx]) (use DeleteJournal_body_D in force)
  then obtain y y' where y: "w_db y = w_db w" "DeleteJournal_body E U (trim i) y = (Inr x, y')" "w_db v = w_db y'"
    by auto
  have v: "\<not> closed_for (w_db w) r" "w_db v = drop_entries (trim i) (retire_journal E u (w_db w))"
    using DeleteJournal_body_D [OF y(2)] y(1,3) r by auto
  have books: "journal_books P (w_db w)" using journal_reach_ok [OF reach] by (simp add: journal_ok_def)
  have u: "r \<in> set (live (db_journals (w_db w)))" "jl_ID r = u" using journal_by_id_D [OF r(3)] by auto
  obtain e where e: "log_entries u (w_db w) = [e]" "entry_matches (w_db w) r a e"
    using journal_books_D(2) [OF books u(1)] v(1) r(4) u(2) by (auto simp: log_booked_def)
  have "log_entries u (retire_journal E u (w_db w)) = [e]" using e(1) by (simp add: log_entries_def)
  moreover have "journal_by_id u (w_db v) = None"
    by (simp add: v(2) journal_by_id_def retire_journal_def drop_entries_def find_None_iff)
  ultimately show ?thesis using e(2) r(2) by (simp add: v(2) entry_matches_def)
qed

section \<open>Sample runs\<close>

definition sample_U :: "string \<Rightarrow> string option" where
  "sample_U s = Some (to_lower s)"

definition sample_author :: user_row where
  "sample_author = \<lparr>us_ID = ''u1'', us_Name = None, us_Email = ''a@b'', us_Role = ''admin'',
     us_AssignedPropertyIDs = [], us_CreatedAt = zero_time\<rparr>"

definition journal_start :: world where
  "journal_start = sample_world\<lparr>w_db := sample_db\<lparr>db_users := [(sample_author, False)],
     db_titles := [\<lparr>ti_ID = ''i3'', ti_Code = ''6681'', ti_Name = ''repairs'', ti_Kind = ''expense'', ti_IsActive = True\<rparr>]\<rparr>\<rparr>"

definition sample_log :: journal_create_input where
  "sample_log = \<lparr>ji_ActorRole = ''Admin'', ji_ActorUserID = ''u1'', ji_AssignedPropertyIDs = [],
     ji_PropertyID = ''P1'', ji_RoomID = None, ji_Content = '' leak '', ji_ExpenseAmount = Some 3500,
     ji_ExpenseDescription = Some ''pipe'', ji_TitleID = None\<rparr>"

definition journal_world :: world where
  "journal_world = snd (run_journal_command sample_env sample_U (CmdCreateJournal sample_log) journal_start)"

definition journal_closed :: world where
  "journal_closed = snd (run_journal_command sample_env sample_U (CmdCloseMonth 2024 2 ''p1'') journal_world)"

definition the_log :: "world \<Rightarrow> journal_row" where
  "the_log w = hd (live (db_journals (w_db w)))"

text \<open>Each run is evaluated once.\<close>

lemma sample_open:
  "case run_journal_command sample_env sample_U (CmdCreateJournal sample_log) journal_start of (_, w) \<Rightarrow>
     journal_keys sample_U (w_db w) \<and> length (live (db_journals (w_db w))) = 1
     \<and> jl_ExpenseAmount (the_log w) = Some 3500 \<and> \<not> closed_for (w_db w) (the_log w)
     \<and> jl_ID (the_log w) = ''xxx'' \<and> journal_by_id ''xxx'' (w_db w) = Some (the_log w)"
  by code_simp

lemma sample_shut:
  "case run_journal_command sample_env sample_U (CmdCreateJournal sample_log) journal_start of (_, w) \<Rightarrow>
   case run_journal_command sample_env sample_U (CmdCloseMonth 2024 2 ''p1'') w of (_, v) \<Rightarrow>
     journal_keys sample_U (w_db v) \<and> length (live (db_journals (w_db v))) = 1
     \<and> jl_ExpenseAmount (the_log v) = Some 3500 \<and> closed_for (w_db v) (the_log v)
     \<and> journal_by_id ''xxx'' (w_db v) = Some (the_log v) \<and> calm v"
  by code_simp

lemma sample_log_facts:
  "length (live (db_journals (w_db journal_world))) = 1" "jl_ExpenseAmount (the_log journal_world) = Some 3500"
  "\<not> closed_for (w_db journal_world) (the_log journal_world)"
  "journal_by_id ''xxx'' (w_db journal_world) = Some (the_log journal_world)" "journal_keys sample_U (w_db journal_world)"
  using sample_open unfolding journal_world_def by (simp_all add: case_prod_unfold)

lemma sample_closed_facts:
  "length (live (db_journals (w_db journal_closed))) = 1" "jl_ExpenseAmount (the_log journal_closed) = Some 3500"
  "closed_for (w_db journal_closed) (the_log journal_closed)"
  "journal_by_id ''xxx'' (w_db journal_closed) = Some (the_log journal_closed)"
  "journal_keys sample_U (w_db journal_closed)" "calm journal_closed"
  using sample_shut unfolding journal_closed_def journal_world_def by (simp_all add: case_prod_unfold)

lemma journal_world_reach: "journal_reach sample_U P (w_db journal_world)"
proof -
  have 0: "journal_reach sample_U P (w_db journal_start)"
    by (rule no_journal) code_simp+
  show ?thesis
    using journal_reach.command [OF 0, of "CmdCreateJournal sample_log" sample_env _ journal_world]
      sample_log_facts(5) unfolding journal_world_def by (metis plainly_spelled.simps(2) prod.collapse)
qed

lemma journal_closed_reach: "journal_reach sample_U P (w_db journal_closed)"
  using journal_reach.command [OF journal_world_reach [of P], of "CmdCloseMonth 2024 2 ''p1''" sample_env _ journal_closed]
    sample_closed_facts(5) unfolding journal_closed_def by (metis plainly_spelled.simps(4) prod.collapse)

lemma journal_agrees_with_ledger_witness:
  "\<exists>r e. live (db_journals (w_db journal_world)) = [r] \<and> jl_ExpenseAmount r = Some 3500
     \<and> log_entries (jl_ID r) (w_db journal_world) = [e] \<and> en_Amount e = 3500
     \<and> (\<exists>q. live (db_journals (w_db journal_closed)) = [q] \<and> log_entries (jl_ID q) (w_db journal_closed) = [])"
proof -
  obtain r q where rq: "live (db_journals (w_db journal_world)) = [r]" "live (db_journals (w_db journal_closed)) = [q]"
    using sample_log_facts(1) sample_closed_facts(1) by (auto simp: length_Suc_conv)
  have f: "jl_ExpenseAmount r = Some 3500" "\<not> closed_for (w_db journal_world) r"
    "jl_ExpenseAmount q = Some 3500" "closed_for (w_db journal_closed) q"
    using sample_log_facts(2,3) sample_closed_facts(2,3) rq by (simp_all add: the_log_def)
  obtain e where "log_entries (jl_ID r) (w_db journal_world) = [e]" "en_Amount e = 3500"
    using journal_agrees_with_ledger [OF journal_world_reach [of True], THEN conjunct1] rq(1) f(1,2)
    by (auto simp: entry_matches_def)
  moreover have "log_entries (jl_ID q) (w_db journal_closed) = []"
    using journal_agrees_with_ledger [OF journal_closed_reach [of True], THEN conjunct1] rq(2) f(3,4) by simp
  ultimately show ?thesis using rq f(1) by auto
qed

lemma CreateJournal_books_expense_witness:
  "\<exists>x v e. CreateJournal_Execute sample_env sample_U (server_publish sample_env) sample_log journal_start = (Inr x, v)
     \<and> jl_Content (jo_row x) = ''leak'' \<and> jl_PropertyID (jo_row x) = ''p1''
     \<and> jl_AuthorID (jo_row x) = ''u1'' \<and> jl_TitleCode (jo_row x) = Some ''6681''
     \<and> db_entries (w_db v) = [e] \<and> en_Amount e = 3500 \<and> en_Description e = Some ''pipe''"
proof -
  have "is_inr (fst (CreateJournal_Execute sample_env sample_U (server_publish sample_env) sample_log journal_start))"
    by code_simp
  then obtain x v where run:
    "CreateJournal_Execute sample_env sample_U (server_publish sample_env) sample_log journal_start = (Inr x, v)"
    by (metis is_inr_iff prod.collapse)
  have f: "distinct (map ti_Code (db_titles (w_db journal_start)))" "db_entries (w_db journal_start) = []"
    "trim (ji_Content sample_log) = ''leak''" "ji_ExpenseAmount sample_log = Some 3500"
    "trimOptionalString (ji_ExpenseDescription sample_log) = Some ''pipe''"
    "sample_U (trim (ji_PropertyID sample_log)) = Some ''p1''" "sample_U (trim (ji_ActorUserID sample_log)) = Some ''u1''"
    "ji_TitleID sample_log = None"
    by code_simp+
  show ?thesis using CreateJournal_books_expense [OF run f(1)] run f(2-) by (auto simp: entry_matches_def)
qed

lemma closed_month_refuses_journal_changes_witness:
  "(\<exists>v. DeleteJournal_Execute sample_env sample_U NoopPublish ''xxx'' journal_closed
          = (Inl ErrJournalExpenseSnapshotFinalized, v) \<and> w_db v = w_db journal_closed)
   \<and> (\<exists>e v. UpdateJournal_Execute sample_env sample_U NoopPublish
          \<lparr>jui_ID = ''xxx'', jui_Content = None, jui_ExpenseAmount = Some 10, jui_ExpenseDescription = None,
           jui_TitleID = None\<rparr> journal_closed = (Inl e, v) \<and> w_db v = w_db journal_closed)"
proof -
  have u: "sample_U (trim ''xxx'') = Some ''xxx''" "e_uuid_ok sample_env (trim ''xxx'')"
    "trim ''xxx'' \<notin> {'''', zeroUUID}" by code_simp+
  note refuses = closed_month_refuses_journal_changes
    [OF journal_closed_reach [of True] u(1) sample_closed_facts(4,2,3), of sample_env NoopPublish]
  have "changes_expense \<lparr>jui_ID = ''xxx'', jui_Content = None, jui_ExpenseAmount = Some 10,
      jui_ExpenseDescription = None, jui_TitleID = None\<rparr> (the_log journal_closed)"
    using sample_closed_facts(2) by (simp add: changes_expense_def)
  then show ?thesis using refuses u(2,3) sample_closed_facts(6) by auto
qed

lemma other_spelling_leaves_expense_booked_witness:
  "\<exists>v e. DeleteJournal_Execute sample_env sample_U (server_publish sample_env) ''XXX'' journal_world = (Inr (), v)
     \<and> journal_by_id ''xxx'' (w_db v) = None \<and> log_entries ''xxx'' (w_db v) = [e] \<and> en_Amount e = 3500"
proof -
  have "is_inr (fst (DeleteJournal_Execute sample_env sample_U (server_publish sample_env) ''XXX'' journal_world))"
    by code_simp
  then obtain v where run:
    "DeleteJournal_Execute sample_env sample_U (server_publish sample_env) ''XXX'' journal_world = (Inr (), v)"
    by (metis is_inr_iff prod.collapse old.unit.exhaust)
  have u: "sample_U (trim ''XXX'') = Some ''xxx''" "''xxx'' \<noteq> trim ''XXX''" by code_simp+
  show ?thesis
    using other_spelling_leaves_expense_booked [OF journal_world_reach [of False] run u sample_log_facts(4,2)] run by auto
qed

end
