(* ===== verification/BillingLoops.thy ===== *)
theory BillingLoops
  imports BillingPeriods
begin

text \<open>
  The loops of domain/lease/billing.go as Go runs them, without the guards that
  make the functions of \<open>BillingPeriods\<close> total: a loop that never ends has no
  value (None).  They return for every argument the code passes, and what they
  return is what the guarded functions compute.
\<close>

partial_function (option) go_anchored_loop ::
    "gtime \<Rightarrow> gtime \<Rightarrow> int \<Rightarrow> int \<Rightarrow> billing_period list option" where
  "go_anchored_loop currentStart finalEnd monthStep anchorDay =
    (if time_after currentStart finalEnd then Some []
     else let nextStart = clampedMonthDate (time_year currentStart)
                (time_month currentStart + monthStep) anchorDay (t_off currentStart);
              periodEnd = add_date nextStart 0 0 (- 1);
              periodEnd' = (if time_after periodEnd finalEnd then finalEnd else periodEnd)
          in Option.bind (go_anchored_loop nextStart finalEnd monthStep anchorDay)
               (\<lambda>periods. Some (\<lparr>PeriodStart = currentStart, PeriodEnd = periodEnd', DueDate = currentStart\<rparr>
                  # periods)))"

partial_function (option) go_monthly_loop ::
    "gtime \<Rightarrow> gtime \<Rightarrow> int \<Rightarrow> billing_period list option" where
  "go_monthly_loop currentStart finalEnd anchorDay =
    (if time_after currentStart finalEnd then Some []
     else let nextStart = clampedMonthDate (time_year currentStart)
                (time_month currentStart + 1) anchorDay (t_off currentStart);
              periodEnd = add_date nextStart 0 0 (- 1);
              periodEnd' = (if time_after periodEnd finalEnd then finalEnd else periodEnd)
          in Option.bind (go_monthly_loop nextStart finalEnd anchorDay)
               (\<lambda>periods. Some (\<lparr>PeriodStart = currentStart, PeriodEnd = periodEnd',
                  DueDate = clampedMonthDate (time_year currentStart) (time_month currentStart)
                              anchorDay (t_off currentStart)\<rparr> # periods)))"

partial_function (option) go_bimonthly_loop ::
    "gtime \<Rightarrow> gtime \<Rightarrow> int \<Rightarrow> billing_period list option" where
  "go_bimonthly_loop currentStart finalEnd anchorDay =
    (if time_after currentStart finalEnd then Some []
     else let windowEnd = window_end currentStart;
              periodEnd = (if time_after windowEnd finalEnd then finalEnd else windowEnd)
          in Option.bind (go_bimonthly_loop (add_date windowEnd 0 0 1) finalEnd anchorDay)
               (\<lambda>periods. Some (\<lparr>PeriodStart = currentStart, PeriodEnd = periodEnd,
                  DueDate = clampedMonthDate (time_year currentStart) (time_month currentStart)
                              anchorDay (t_off currentStart)\<rparr> # periods)))"

partial_function (option) go_next_payment_loop :: "gtime \<Rightarrow> gtime \<Rightarrow> int \<Rightarrow> int \<Rightarrow> gtime option" where
  "go_next_payment_loop candidate operationDate months anchorDay =
    (if time_after candidate operationDate then Some candidate
     else go_next_payment_loop (clampedMonthDate (time_year candidate) (time_month candidate + months)
            anchorDay (t_off candidate)) operationDate months anchorDay)"

lemma go_anchored_loop_returns:
  "0 < step \<Longrightarrow> 1 \<le> a \<Longrightarrow> go_anchored_loop c e step a = Some (anchored_loop c e step a)"
proof (induction c e step a rule: anchored_loop.induct)
  case (1 c e step a)
  then show ?case
    by (subst go_anchored_loop.simps, subst anchored_loop.simps) (simp add: Let_def)
qed

lemma go_monthly_loop_returns: "1 \<le> a \<Longrightarrow> go_monthly_loop c e a = Some (monthly_loop c e a)"
proof (induction c e a rule: monthly_loop.induct)
  case (1 c e a)
  then show ?case
    by (subst go_monthly_loop.simps, subst monthly_loop.simps) (simp add: Let_def)
qed

lemma go_bimonthly_loop_returns: "go_bimonthly_loop c e a = Some (bimonthly_loop c e a)"
proof (induction c e a rule: bimonthly_loop.induct)
  case (1 c e a)
  then show ?case
    by (subst go_bimonthly_loop.simps, subst bimonthly_loop.simps) (simp add: Let_def)
qed

lemma go_next_payment_loop_returns:
  "0 < m \<Longrightarrow> 1 \<le> a \<Longrightarrow> go_next_payment_loop c d m a = Some (next_payment_loop c d m a)"
proof (induction c d m a rule: next_payment_loop.induct)
  case (1 c d m a)
  then show ?case
    by (subst go_next_payment_loop.simps, subst next_payment_loop.simps) simp
qed

text \<open>With no months to add, a search that starts on its anchor stands still.\<close>

lemma standing_search:
  assumes "go_next_payment_loop c d m a = Some y" "m = 0"
    "clampedMonthDate (time_year c) (time_month c) a (t_off c) = c" "\<not> time_after c d"
  shows False
proof -
  have "m = 0 \<longrightarrow> clampedMonthDate (time_year c) (time_month c) a (t_off c) = c \<longrightarrow> time_after c d"
  proof (rule go_next_payment_loop.raw_induct
      [where P = "\<lambda>c d m a y. m = 0 \<longrightarrow> clampedMonthDate (time_year c) (time_month c) a (t_off c) = c
         \<longrightarrow> time_after c d", OF _ assms(1)], intro impI)
    fix f c d m a y
    assume IH: "\<And>c d m a y. f c d m a = Some y \<Longrightarrow>
        m = 0 \<longrightarrow> clampedMonthDate (time_year c) (time_month c) a (t_off c) = c \<longrightarrow> time_after c d"
      and run: "(if time_after c d then Some c
        else f (clampedMonthDate (time_year c) (time_month c + m) a (t_off c)) d m a) = Some y"
      and still: "m = 0" "clampedMonthDate (time_year c) (time_month c) a (t_off c) = c"
    then show "time_after c d" using IH [of c d m a y] by (auto split: if_splits)
  qed
  then show False using assms by simp
qed

lemma normalizeDate_stands: "clampedMonthDate (time_year (normalizeDate s)) (time_month (normalizeDate s))
    (time_dayOfMonth s) (t_off (normalizeDate s)) = normalizeDate s"
  using clamped_next [of "normalizeDate s" 0 "time_dayOfMonth s" "t_off s"] anchored_day_self [of s] by simp

text \<open>
  C40.  Every loop that cuts a term into billing periods or looks for the next
  payment date ends, for every start, end and payment day and every positive
  number of months, and returns what the schedule functions compute.  The search
  for the next payment date would not end for a cadence of no months, which is
  why the code replaces 0 by 1: from a date that is not after the operation date
  it would stand still for ever.
\<close>

theorem billing_loops_return:
  assumes "0 < step" "1 \<le> a"
  shows "go_anchored_loop c e step a = Some (anchored_loop c e step a)
     \<and> go_monthly_loop c e a = Some (monthly_loop c e a)
     \<and> go_bimonthly_loop c e a = Some (bimonthly_loop c e a)
     \<and> go_next_payment_loop c e step a = Some (next_payment_loop c e step a)
     \<and> go_next_payment_loop (normalizeDate s) e 0 (time_dayOfMonth s)
        = (if time_after (normalizeDate s) e then Some (normalizeDate s) else None)"
proof -
  have "go_next_payment_loop (normalizeDate s) e 0 (time_dayOfMonth s) = None"
    if "\<not> time_after (normalizeDate s) e"
    using standing_search [OF _ refl normalizeDate_stands that] by (metis not_Some_eq)
  moreover have "go_next_payment_loop x e 0 b = Some x" if "time_after x e" for x b
    using that by (subst go_next_payment_loop.simps) simp
  ultimately show ?thesis
    using assms by (simp add: go_anchored_loop_returns go_monthly_loop_returns go_bimonthly_loop_returns
        go_next_payment_loop_returns)
qed

lemma billing_loops_return_witness:
  "\<exists>ps. go_anchored_loop (go_date 2024 1 31 0) (go_date 2024 3 30 0) 1 31 = Some ps \<and> length ps = 2
     \<and> go_next_payment_loop (go_date 2024 1 31 0) (go_date 2024 2 10 0) 0 31 = None"
proof -
  have n: "length (anchored_loop (go_date 2024 1 31 0) (go_date 2024 3 30 0) 1 31) = 2" by code_simp
  have s: "normalizeDate (go_date 2024 1 31 0) = go_date 2024 1 31 0" "time_dayOfMonth (go_date 2024 1 31 0) = 31"
    "\<not> time_after (go_date 2024 1 31 0) (go_date 2024 2 10 0)" by code_simp+
  show ?thesis
    using billing_loops_return [of 1 31 "go_date 2024 1 31 0" "go_date 2024 3 30 0"]
      billing_loops_return [of 1 31 _ "go_date 2024 2 10 0" "go_date 2024 1 31 0", unfolded s] n s(3) by simp
qed

end
