(* ===== verification/Spec2Isabelle.thy ===== *)
theory Spec2Isabelle
  imports LeaseForce LeaseReplace MeterChain PaymentLedger ReportProps Buildings CheckoutExport Journal BillingLoops
begin

text \<open>
  A verification development for the backend of a rental property manager
  (Go, under src/).

  \<^bold>\<open>The program.\<close>  HTTP handlers call application services
  (src/internal/application); a service checks its input, opens a database
  transaction (src/internal/platform/database/txrunner), loads rows through a
  repository (src/internal/platform/database), asks a domain aggregate
  (src/internal/domain) whether the change is allowed, writes the result back
  and records domain events.  After the commit the events go to an in-process
  bus (src/internal/platform/eventbus), whose subscribers run transactions of
  their own.  The core of the program is the lease: its rent and electricity
  bills are generated from its terms, its deposit is settled into the ledger of
  the property, and its end releases the room and the tenant.

  \<^bold>\<open>The theories.\<close>

  \<^item> \<open>Prelude\<close>: fact collections, list lemmas, Go's 64-bit \<open>int\<close>, TrimSpace, ToLower.
  \<^item> \<open>GoTime\<close>: \<open>time.Time\<close> as day, nanosecond and zone offset, over the
    proleptic Gregorian calendar (locale \<open>calendar\<close>); \<open>GoFloat\<close>: the \<open>float64\<close>
    product and \<open>math.Round\<close> that meter readings use.
  \<^item> \<open>AppErrors\<close>: shared/apperr.  Errors are values (\<open>gerr\<close>); \<open>errors.Is\<close> walks them.
  \<^item> \<open>LeaseDomain\<close>: domain/lease/aggregate.go; \<open>BillingPeriods\<close>:
    domain/lease/billing.go (locale \<open>schedule\<close>); \<open>BillingLoops\<close>: its loops
    without their guards, and that they end; \<open>BillDomain\<close>: domain/billing.
  \<^item> \<open>Store\<close>: tables with soft deletion (locale \<open>soft_table\<close>), the transaction
    runner, the events and the bus.
  \<^item> \<open>LeaseRepo\<close>: the SQL of platform/database/leases and the ledger insertion
    of platform/database/billing, with the adapters of server/lease_adapters.go.
  \<^item> \<open>LeaseErrors\<close>, \<open>LeaseCreate\<close>, \<open>LeaseUpdate\<close>, \<open>LeaseDeposit\<close>, \<open>LeaseForce\<close>,
    \<open>LeaseReplace\<close>:
    application/lease: errors and helpers, creation with the event
    subscribers, rent changes, deposit settlement and normal termination,
    forced termination, replacement.
  \<^item> \<open>BillingRepo\<close>, \<open>BillingCommands\<close>: the statements of platform/database/billing,
    the adapters of server/billing_adapters.go and the commands of
    application/billing that record a meter reading and a payment;
    \<open>MeterChain\<close> and \<open>PaymentLedger\<close> hold what they do.
  \<^item> \<open>Notification\<close>: application/notification and platform/notification;
    \<open>JobRuns\<close>: the job-run store (platform/database/jobruns) and the trigger
    service (application/jobs/trigger.go); \<open>JobRepo\<close>, \<open>Snapshots\<close>: the window
    keys and the statements of the jobs; \<open>Jobs\<close>: application/jobs/batch.go with
    its wiring in server/jobs_adapters.go; \<open>JobScans\<close> (locale \<open>scan\<close>) and
    \<open>MonthClose\<close>: what the scans and the monthly closing do.
  \<^item> \<open>Reports\<close>: the financial report of a property (application/billing/reports.go
    and its queries); \<open>ReportProps\<close>: what closing a month does to it.
  \<^item> \<open>PropertyDomain\<close>: domain/property; \<open>PropertyRepo\<close>, \<open>PropertyCommands\<close>: the
    statements of platform/database/properties with server/property_adapters.go,
    and application/property; \<open>RepairDomain\<close>, \<open>RepairCommands\<close>: domain/repair,
    platform/database/repair and application/repair; \<open>BuildingInv\<close>,
    \<open>BuildingProps\<close>, \<open>Buildings\<close>: these commands as one state machine, its
    invariant, and what the commands do.
  \<^item> \<open>GoJson\<close>: what is used of \<open>encoding/json\<close>; \<open>Checkout\<close>: the settlement at
    the end of a lease (application/lease/checkout_settlement.go with its
    statements), its preview, finalisation and export; \<open>CheckoutProps\<close>: what
    finalising does; \<open>CheckoutRuns\<close>: the token ties it to the preview;
    \<open>CheckoutExport\<close>: the stored settlement reads back.
  \<^item> \<open>JournalCommands\<close>: the journal logs of a property and the expenses they book
    (domain/journal, application/journal, platform/database/journal,
    server/journal_adapters.go); \<open>JournalBooks\<close>: the effects of its statements and
    commands; \<open>JournalProps\<close>: the journal and month closing as one state machine,
    and its agreement with the ledger; \<open>Journal\<close>: what a closed month refuses, and
    a deletion under another spelling of the id.
  \<^item> \<open>Runs\<close>: weakest preconditions, with which a command is shown to succeed.

  \<^bold>\<open>State and operations.\<close>  A database row is a record with the columns of
  the table the modelled code touches, a table a list of rows with a
  soft-deletion flag, the database the record \<open>db\<close> of the tables.  Code that
  runs on the database is a function from the \<open>world\<close> (database, supply of
  fresh ids, schedule of failures, recorded events) to an error or a result
  and the new world.  One SQL statement is one \<open>stmt\<close>.  Any statement, begin,
  commit and rollback may fail: the failure schedule in the world is
  arbitrary, so a theorem about a successful command speaks about every
  interleaving of failures before it, and \<open>WithinTransaction_atomic\<close> about the
  failed ones.  A service's \<open>Execute\<close> is split into \<open>X_validate\<close> (the checks
  before the transaction) and \<open>X_body\<close> (the closure run inside it).

  \<^bold>\<open>The lemmas.\<close>  Each statement has a lemma \<open>*_D\<close> with what a successful run
  leaves in the database and in the recorded events; the body of a command has
  a lemma \<open>*_body_ok\<close> assembled from them, and its property adds the validation,
  the commit and the subscribers (\<open>server_run_D\<close>).  The loops of the billing
  schedule are proved equal to the reference \<open>intervals\<close>, from which the
  partition, suffix and first-boundary properties follow in the locale.

  \<^bold>\<open>Assumptions.\<close>  Locations have a fixed offset (the program uses UTC and
  Asia/Taipei, which has no daylight saving).  The clock does not advance
  during one command.  Transactions on the same rows are serialised by the
  \<open>FOR UPDATE\<close> locks the code takes.  A failed commit has not committed.  The
  runner of the lease subscribers gets a publisher that does nothing, since
  their transactions record no events.  An error wrapped by \<open>fmt.Errorf\<close> keeps
  the constant part of its message only.  A JSON column gives back the value
  that was stored, with its keys in the case they were written in; timestamps keep
  their full precision.  The digest of a preview token is a parameter, any function
  of the JSON it is computed from: nothing but the absence of the one collision a
  property names is assumed of it.  Ids are compared as texts; only the journal,
  where the text of a request meets both a UUID column and a JSON text, takes
  PostgreSQL's reading of a UUID as a parameter.  ToLower is modelled
  for comparisons with ASCII words.  The guards of the loops in
  \<open>BillingPeriods\<close> only cut off arguments for which the Go loop need not end,
  and no caller passes them (\<open>BillingLoops\<close> proves the loops equal without them).

  The constraints of the schema appear as failures of the statement that would
  violate them: the CHECKs a valid aggregate can violate are spelled out, the
  rest are covered by the arbitrary failures.

  \<^bold>\<open>Not modelled.\<close>  The tenant, attachment and user administration.  The HTTP
  layer and its generated router, the other reports and their HTML output, brand
  pages, external clients, configuration and the migration tools are
  left out: they are input and output around the modelled core.
\<close>

end
